(* ===== verification/Py_Values.thy ===== *)
theory Py_Values
  imports Prelude
begin

text \<open>
  Dynamically typed Python values as they occur in JWT claims, tool arguments and document
  metadata: \<open>None\<close>, \<open>bool\<close>, \<open>int\<close>, \<open>str\<close>, \<open>list\<close> and \<open>dict\<close> with string keys (floats do not occur
  in the code modelled with this type). \<open>truthy\<close> is Python's truth test, \<open>py_or\<close> the value of
  \<open>a or b\<close>, \<open>pget\<close> is \<open>d.get(k)\<close> and \<open>py_str\<close> is \<open>str(v)\<close>.
\<close>

datatype pyval = PNone | PBool bool | PInt int | PStr string
  | PList "pyval list" | PDict "(string \<times> pyval) list"

type_synonym pydict = "(string, pyval) dict"

fun truthy :: "pyval \<Rightarrow> bool" where
  "truthy PNone = False"
| "truthy (PBool b) = b"
| "truthy (PInt i) = (i \<noteq> 0)"
| "truthy (PStr s) = (s \<noteq> [])"
| "truthy (PList xs) = (xs \<noteq> [])"
| "truthy (PDict d) = (d \<noteq> [])"

definition py_or :: "pyval \<Rightarrow> pyval \<Rightarrow> pyval" where
  "py_or a b = (if truthy a then a else b)"

definition pget :: "pydict \<Rightarrow> string \<Rightarrow> pyval" where
  "pget d k = dict_get d k PNone"

subsection \<open>\<open>str(v)\<close>\<close>

definition digit_char :: "nat \<Rightarrow> char" where
  "digit_char d = char_of (48 + d)"

fun nat_str :: "nat \<Rightarrow> string" where
  "nat_str n = (if n < 10 then [digit_char n] else nat_str (n div 10) @ [digit_char (n mod 10)])"

declare nat_str.simps [simp del]

definition int_str :: "int \<Rightarrow> string" where
  "int_str i = (if i < 0 then ''-'' @ nat_str (nat (- i)) else nat_str (nat i))"

definition hex_digit :: "nat \<Rightarrow> char" where
  "hex_digit d = (if d < 10 then char_of (48 + d) else char_of (87 + d))"

definition repr_char :: "char \<Rightarrow> char \<Rightarrow> string" where
  "repr_char q c = (let n = (of_char c :: nat) in
     if c = q \<or> n = 92 then [char_of (92 :: nat), c]
     else if n = 9 then [char_of (92 :: nat), CHR ''t'']
     else if n = 10 then [char_of (92 :: nat), CHR ''n'']
     else if n = 13 then [char_of (92 :: nat), CHR ''r'']
     else if n < 32 \<or> (127 \<le> n \<and> n \<le> 160) \<or> n = 173
       then [char_of (92 :: nat), CHR ''x'', hex_digit (n div 16), hex_digit (n mod 16)]
     else [c])"

definition repr_str :: "string \<Rightarrow> string" where
  "repr_str s =
     (let sq = char_of (39 :: nat); dq = char_of (34 :: nat);
          q = (if sq \<in> set s \<and> dq \<notin> set s then dq else sq)
      in [q] @ concat (map (repr_char q) s) @ [q])"

fun join :: "string \<Rightarrow> string list \<Rightarrow> string" where
  "join sep [] = []"
| "join sep [s] = s"
| "join sep (s # t # ts) = s @ sep @ join sep (t # ts)"

fun py_repr :: "pyval \<Rightarrow> string" where
  "py_repr PNone = ''None''"
| "py_repr (PBool b) = (if b then ''True'' else ''False'')"
| "py_repr (PInt i) = int_str i"
| "py_repr (PStr s) = repr_str s"
| "py_repr (PList xs) = ''['' @ join '', '' (map py_repr xs) @ '']''"
| "py_repr (PDict d) =
     ''{'' @ join '', '' (map (\<lambda>(k, v). repr_str k @ '': '' @ py_repr v) d) @ ''}''"

fun py_str :: "pyval \<Rightarrow> string" where
  "py_str (PStr s) = s"
| "py_str v = py_repr v"

lemma py_or_truthy [simp]: "truthy a \<Longrightarrow> py_or a b = a"
  by (simp add: py_or_def)

lemma py_or_falsy [simp]: "\<not> truthy a \<Longrightarrow> py_or a b = b"
  by (simp add: py_or_def)

lemma pget_update [dict_simps]:
  "pget (AList.update k v d) k' = (if k' = k then v else pget d k')"
  by (simp add: pget_def dict_get_update)

lemma pget_Nil [simp]: "pget [] k = PNone"
  by (simp add: pget_def)

lemma pget_Cons [simp]: "pget ((k, v) # d) k' = (if k' = k then v else pget d k')"
  by (auto simp: pget_def dict_get_def)

lemma join_Cons: "ts \<noteq> [] \<Longrightarrow> join sep (s # ts) = s @ sep @ join sep ts"
  by (cases ts) auto

lemma py_str_Nil_iff: "py_str v = [] \<longleftrightarrow> v = PStr []"
proof (cases v)
  case (PInt i)
  then show ?thesis by (simp add: int_str_def nat_str.simps [of "nat i"])
qed auto

subsection \<open>Splitting and joining\<close>

text \<open>\<open>s.split(c)\<close>.\<close>

fun split_on :: "char \<Rightarrow> string \<Rightarrow> string list" where
  "split_on c [] = [[]]"
| "split_on c (x # xs) =
     (if x = c then [] # split_on c xs
      else (case split_on c xs of y # ys \<Rightarrow> (x # y) # ys | [] \<Rightarrow> [[x]]))"

lemma split_on_nonempty [simp]: "split_on c s \<noteq> []"
  by (induction s) (auto split: list.splits)

lemma join_prefix: "xs \<noteq> [] \<Longrightarrow> join sep ((c # hd xs) # tl xs) = c # join sep xs"
  by (cases xs; cases "tl xs") auto

lemma join_split_on [simp]: "join [c] (split_on c s) = s"
proof (induction s)
  case (Cons x xs)
  show ?case
  proof (cases "x = c")
    case True
    with Cons show ?thesis by (simp add: join_Cons)
  next
    case False
    obtain y ys where y: "split_on c xs = y # ys" by (cases "split_on c xs") auto
    with Cons False join_prefix [of "y # ys" "[c]" x] show ?thesis by simp
  qed
qed simp

subsection \<open>\<open>int(v)\<close>\<close>

text \<open>
  \<open>int\<close> of a string strips blanks, accepts a sign and decimal digits with single underscores
  between them; \<open>None\<close> is the \<open>ValueError\<close> or \<open>TypeError\<close> of everything else.
\<close>

definition is_digit :: "char \<Rightarrow> bool" where
  "is_digit c = (let n = (of_char c :: nat) in 48 \<le> n \<and> n \<le> 57)"

fun digits_val :: "nat \<Rightarrow> string \<Rightarrow> nat option" where
  "digits_val acc [] = Some acc"
| "digits_val acc (c # cs) =
     (if is_digit c then digits_val (acc * 10 + (of_char c - 48)) cs
      else if c = CHR ''_'' \<and> cs \<noteq> [] \<and> is_digit (hd cs) then digits_val acc cs
      else None)"

definition parse_nat :: "string \<Rightarrow> nat option" where
  "parse_nat s = (if s \<noteq> [] \<and> is_digit (hd s) then digits_val 0 s else None)"

definition parse_int :: "string \<Rightarrow> int option" where
  "parse_int s =
     (case str_strip s of
        [] \<Rightarrow> None
      | c # cs \<Rightarrow> if c = CHR ''-'' then map_option (\<lambda>n. - int n) (parse_nat cs)
                  else if c = CHR ''+'' then map_option int (parse_nat cs)
                  else map_option int (parse_nat (c # cs)))"

fun py_int :: "pyval \<Rightarrow> int option" where
  "py_int (PInt i) = Some i"
| "py_int (PBool b) = Some (if b then 1 else 0)"
| "py_int (PStr s) = parse_int s"
| "py_int _ = None"

subsection \<open>Exceptions of the request path\<close>

text \<open>
  \<open>HTTPException\<close> carries its status code and detail; \<open>Raised\<close> is any other exception, by the
  name of its class.
\<close>

datatype exn = HTTPException nat string | Raised string

subsection \<open>Fallible steps on dynamic values\<close>

type_synonym 'a res = "exn + 'a"

definition rbind :: "'a res \<Rightarrow> ('a \<Rightarrow> 'b res) \<Rightarrow> 'b res" where
  "rbind m f = (case m of Inl e \<Rightarrow> Inl e | Inr x \<Rightarrow> f x)"

lemma rbind_simps [simp]: "rbind (Inl e) f = Inl e" "rbind (Inr x) f = f x"
  by (simp_all add: rbind_def)

lemma rbind_Inr_iff: "rbind m f = Inr y \<longleftrightarrow> (\<exists>x. m = Inr x \<and> f x = Inr y)"
  by (cases m) simp_all

text \<open>\<open>v.get(k, d)\<close>, iteration and \<open>v[0]\<close>.\<close>

definition py_get :: "pyval \<Rightarrow> string \<Rightarrow> pyval \<Rightarrow> pyval res" where
  "py_get v k d = (case v of PDict m \<Rightarrow> Inr (dict_get m k d) | _ \<Rightarrow> Inl (Raised ''AttributeError''))"

definition py_iter :: "pyval \<Rightarrow> pyval list res" where
  "py_iter v = (case v of PList xs \<Rightarrow> Inr xs | PStr s \<Rightarrow> Inr (map (\<lambda>c. PStr [c]) s)
     | PDict m \<Rightarrow> Inr (map (\<lambda>(k, _). PStr k) m) | _ \<Rightarrow> Inl (Raised ''TypeError''))"

definition py_first :: "pyval \<Rightarrow> pyval res" where
  "py_first v = (case v of
     PList (x # xs) \<Rightarrow> Inr x | PList [] \<Rightarrow> Inl (Raised ''IndexError'')
   | PStr (c # cs) \<Rightarrow> Inr (PStr [c]) | PStr [] \<Rightarrow> Inl (Raised ''IndexError'')
   | PDict m \<Rightarrow> Inl (Raised ''KeyError'') | _ \<Rightarrow> Inl (Raised ''TypeError''))"

text \<open>A value where pydantic wants \<open>str\<close>, and where it wants \<open>Optional[str]\<close>.\<close>

definition py_need_str :: "pyval \<Rightarrow> string res" where
  "py_need_str v = (case v of PStr s \<Rightarrow> Inr s | _ \<Rightarrow> Inl (Raised ''ValidationError''))"

definition py_opt_str :: "pyval \<Rightarrow> string option res" where
  "py_opt_str v = (case v of PNone \<Rightarrow> Inr None | PStr s \<Rightarrow> Inr (Some s) | _ \<Rightarrow> Inl (Raised ''ValidationError''))"

text \<open>A method of \<open>str\<close> called on a value.\<close>

definition py_meth :: "pyval \<Rightarrow> (string \<Rightarrow> string) \<Rightarrow> string res" where
  "py_meth v f = (case v of PStr s \<Rightarrow> Inr (f s) | _ \<Rightarrow> Inl (Raised ''AttributeError''))"

lemma py_access_simps [simp]:
  "py_get (PDict m) k d = Inr (dict_get m k d)" "py_iter (PList xs) = Inr xs" "py_first (PList (x # xs)) = Inr x"
  "py_need_str (PStr s) = Inr s" "py_opt_str PNone = Inr None" "py_opt_str (PStr s) = Inr (Some s)"
  "py_meth (PStr s) f = Inr (f s)"
  by (simp_all add: py_get_def py_iter_def py_first_def py_need_str_def py_opt_str_def py_meth_def)

fun res_map :: "('a \<Rightarrow> 'b res) \<Rightarrow> 'a list \<Rightarrow> 'b list res" where
  "res_map f [] = Inr []"
| "res_map f (x # xs) = rbind (f x) (\<lambda>y. rbind (res_map f xs) (\<lambda>ys. Inr (y # ys)))"

lemma res_map_Inr: "(\<And>x. x \<in> set xs \<Longrightarrow> f x = Inr (g x)) \<Longrightarrow> res_map f xs = Inr (map g xs)"
  by (induction xs) auto

end
