(* ===== verification/Core_Models.thy ===== *)
theory Core_Models
  imports Py_Values
begin

text \<open>
  The data models of \<open>backend/app/core/models.py\<close> (Block C): permission levels, canonical
  documents, principals, groups, materialised ACL entries, container ACL entries and edges,
  identity hints and resolved identities. Field names carry a two- or three-letter prefix,
  because record selectors are global.
\<close>

datatype permission_level = NONE | READ | WRITE | DELETE | OWNER

record canonical_document =
  cd_id :: string
  cd_source_type :: string
  cd_source_id :: string
  cd_tenant_id :: uuid
  cd_title :: string
  cd_content :: string
  cd_url :: "string option"
  cd_mime_type :: string
  cd_detected_mime_type :: string
  cd_mime_mismatch :: bool
  cd_file_extension :: "string option"
  cd_size_bytes :: "int option"
  cd_created_at :: instant
  cd_updated_at :: instant
  cd_source_updated_at :: instant
  cd_owner_principal_id :: "uuid option"
  cd_creator_principal_id :: "uuid option"
  cd_last_modifier_principal_id :: "uuid option"
  cd_structured_metadata :: pydict
  cd_parent_ids :: "string list"

record principal =
  p_id :: uuid
  p_tenant_id :: uuid
  p_email :: string
  p_name :: "string option"
  p_source_identities :: "(string, string) dict"
  p_created_at :: instant
  p_updated_at :: instant

record group =
  g_id :: uuid
  g_tenant_id :: uuid
  g_name :: string
  g_email :: "string option"
  g_source_type :: string
  g_source_id :: string
  g_member_principal_ids :: "uuid list"
  g_member_group_ids :: "uuid list"
  g_created_at :: instant
  g_updated_at :: instant

record acl_entry =
  ae_document_id :: string
  ae_principal_id :: "uuid option"
  ae_group_id :: "uuid option"
  ae_permission :: permission_level
  ae_granted_via :: string
  ae_source_container_id :: "string option"
  ae_is_deny :: bool
  ae_source_type :: string
  ae_tenant_id :: uuid
  ae_created_at :: instant
  ae_updated_at :: instant

record container_acl_entry =
  ca_container_id :: string
  ca_principal_id :: "uuid option"
  ca_group_id :: "uuid option"
  ca_permission :: permission_level
  ca_is_deny :: bool
  ca_source_type :: string
  ca_tenant_id :: uuid
  ca_created_at :: instant
  ca_updated_at :: instant

record container_edge =
  ce_parent_container_id :: string
  ce_child_container_id :: string
  ce_tenant_id :: uuid
  ce_source_type :: string
  ce_created_at :: instant

record identity_hint =
  ih_source_type :: string
  ih_external_id :: string
  ih_email :: "string option"
  ih_username :: "string option"
  ih_name :: "string option"

datatype match_kind = MatchedEmail | MatchedUsername | MatchedNew | MatchedPending

record resolved_identity =
  ri_principal_id :: "uuid option"
  ri_principal :: "principal option"
  ri_confidence :: nat          \<comment> \<open>the confidence in tenths: 1.0 is 10, 0.8 is 8\<close>
  ri_matched_on :: match_kind
  ri_is_pending :: bool

subsection \<open>Permission levels are ordered by privilege\<close>

fun permission_rank :: "permission_level \<Rightarrow> nat" where
  "permission_rank NONE = 0"
| "permission_rank READ = 1"
| "permission_rank WRITE = 2"
| "permission_rank DELETE = 3"
| "permission_rank OWNER = 4"

lemma permission_rank_inject [simp]: "permission_rank a = permission_rank b \<longleftrightarrow> a = b"
  by (cases a; cases b) simp_all

instantiation permission_level :: linorder
begin

definition less_eq_permission_level :: "permission_level \<Rightarrow> permission_level \<Rightarrow> bool" where
  "less_eq_permission_level a b = (permission_rank a \<le> permission_rank b)"

definition less_permission_level :: "permission_level \<Rightarrow> permission_level \<Rightarrow> bool" where
  "less_permission_level a b = (permission_rank a < permission_rank b)"

instance
  by standard (auto simp: less_eq_permission_level_def less_permission_level_def)

end

definition opt_str :: "string option \<Rightarrow> string" where
  "opt_str s = (case s of None \<Rightarrow> [] | Some x \<Rightarrow> x)"

lemma opt_str_simps [simp]: "opt_str None = []" "opt_str (Some x) = x"
  by (simp_all add: opt_str_def)

end
