(* ===== verification/Acl_Filter.thy ===== *)
theory Acl_Filter
  imports Core_Models
begin

text \<open>
  The search-time ACL filter (\<open>backend/app/acl/filter.py\<close>) and the index-time term generator
  (\<open>backend/app/acl/term_generator.py\<close>). A caller's ACL and a document's ACL are lists of terms;
  \<open>user:x\<close> and \<open>group:x\<close> allow, \<open>deny:t\<close> denies the term \<open>t\<close>, \<open>*\<close> bypasses. The filter clause
  built for OpenSearch is evaluated by a search engine outside the repository, so the engine's
  \<open>bool\<close>/\<open>terms\<close> semantics is a parameter of the theorem that relates the two.
\<close>

named_theorems acl_defs \<open>definitions of the ACL filter\<close>

subsection \<open>The filter\<close>

definition DENY_PREFIX :: string where
  "DENY_PREFIX = ''deny:''"

definition is_fail_closed :: "string list \<Rightarrow> bool" where
  "is_fail_closed user_acl = (\<not> (\<exists>t \<in> set user_acl. t \<noteq> []))"

definition is_bypass :: "string list \<Rightarrow> bool" where
  "is_bypass user_acl = (''*'' \<in> set user_acl)"

definition deny_terms_for :: "string list \<Rightarrow> string list" where
  "deny_terms_for user_acl = [DENY_PREFIX @ t. t \<leftarrow> user_acl, t \<noteq> [] \<and> t \<noteq> ''*'']"

definition document_is_visible :: "string list \<Rightarrow> string list option \<Rightarrow> bool" where
  "document_is_visible user_acl doc_acl =
     (if is_fail_closed user_acl then False
      else if is_bypass user_acl then True
      else
        let terms = filter (\<lambda>t. t \<noteq> []) (case doc_acl of None \<Rightarrow> [] | Some d \<Rightarrow> d) in
        if terms = [] then False
        else
          let deny_full = set (deny_terms_for user_acl) in
          if \<exists>t \<in> set terms. t \<in> deny_full then False
          else
            let positive = filter (\<lambda>t. \<not> starts_with DENY_PREFIX t) terms in
            if positive = [] then False
            else (\<exists>t \<in> set positive. t \<in> set user_acl))"

declare DENY_PREFIX_def [acl_defs] is_fail_closed_def [acl_defs] is_bypass_def [acl_defs]
  deny_terms_for_def [acl_defs] document_is_visible_def [acl_defs]

text \<open>The clause for OpenSearch: a \<open>bool\<close> query with \<open>terms\<close> sub-queries on one field.\<close>

record es_bool =
  es_field :: string
  es_must :: "string list list"
  es_must_not :: "string list list"

datatype acl_error = EmptyAclFailClosed

definition opensearch_acl_clause :: "string list \<Rightarrow> string \<Rightarrow> acl_error + es_bool option" where
  "opensearch_acl_clause user_acl field =
     (if is_fail_closed user_acl then Inl EmptyAclFailClosed
      else if is_bypass user_acl then Inr None
      else
        let deny = deny_terms_for user_acl in
        Inr (Some \<lparr>es_field = field, es_must = [user_acl],
                   es_must_not = (if deny \<noteq> [] then [deny] else [])\<rparr>))"

definition qdrant_must_not_acl :: "string list \<Rightarrow> string \<Rightarrow> (string \<times> string list) option" where
  "qdrant_must_not_acl user_acl field =
     (let deny = deny_terms_for user_acl in if deny = [] then None else Some (field, deny))"

subsection \<open>The caller's terms, from the JWT\<close>

definition jwt_add :: "string list \<Rightarrow> pyval \<Rightarrow> string list" where
  "jwt_add terms raw =
     (let value = (if raw \<noteq> PNone then str_strip (py_str raw) else [])
      in if value = [] \<or> value = ''*'' \<or> value \<in> set terms then terms else terms @ [value])"

definition jwt_add_group :: "string list \<Rightarrow> pyval \<Rightarrow> string list" where
  "jwt_add_group terms gr =
     (let terms = jwt_add terms gr; group_str = py_str gr
      in if group_str \<noteq> [] \<and> \<not> starts_with ''group:'' group_str
         then jwt_add terms (PStr (''group:'' @ group_str)) else terms)"

definition jwt_claimed :: "pydict \<Rightarrow> string list" where
  "jwt_claimed payload =
     (case py_or (py_or (pget payload ''acl_terms'') (pget payload ''acl_filter_terms'')) (PList [])
      of PList xs \<Rightarrow> foldl jwt_add [] xs | _ \<Rightarrow> [])"

definition jwt_principal :: "pydict \<Rightarrow> string list \<Rightarrow> string list" where
  "jwt_principal payload terms =
     (let principal = py_or (py_or (pget payload ''sub'') (pget payload ''principal_id''))
                        (pget payload ''user_id'')
      in if truthy principal
         then jwt_add (jwt_add terms principal) (PStr (''user:'' @ py_str principal))
         else terms)"

definition jwt_email :: "pydict \<Rightarrow> string list \<Rightarrow> string list" where
  "jwt_email payload terms =
     (let email = pget payload ''email''
      in if truthy email
         then let e = str_lower (str_strip (py_str email))
              in jwt_add (jwt_add terms (PStr e)) (PStr (''user:'' @ e))
         else terms)"

definition jwt_groups :: "pydict \<Rightarrow> string list \<Rightarrow> string list" where
  "jwt_groups payload terms =
     (case py_or (pget payload ''groups'') (PList [])
      of PList gs \<Rightarrow> foldl jwt_add_group terms gs | _ \<Rightarrow> terms)"

definition acl_terms_from_jwt :: "pydict \<Rightarrow> string list" where
  "acl_terms_from_jwt payload =
     jwt_groups payload (jwt_email payload (jwt_principal payload (jwt_claimed payload)))"

subsection \<open>The indexed terms of a user\<close>

definition term_add :: "string list \<Rightarrow> string \<Rightarrow> string list" where
  "term_add terms value =
     (let value = str_strip value
      in if value \<noteq> [] \<and> value \<notin> set terms \<and> value \<noteq> ''*'' then terms @ [value] else terms)"

definition term_add_group :: "string list \<Rightarrow> string \<Rightarrow> string list" where
  "term_add_group terms gr =
     (let group_str = str_strip gr
      in if group_str \<noteq> []
         then let terms = term_add terms group_str
              in if \<not> starts_with ''group:'' group_str
                 then term_add terms (''group:'' @ group_str) else terms
         else terms)"

definition generate_acl_terms_for_user ::
    "string option \<Rightarrow> string option \<Rightarrow> string list option \<Rightarrow> string list" where
  "generate_acl_terms_for_user principal_id email groups =
     (let terms = [];
          terms = (if opt_str principal_id \<noteq> []
                   then let principal = str_strip (opt_str principal_id)
                        in if principal \<noteq> []
                           then let terms = term_add terms principal
                                in if \<not> (starts_with ''user:'' principal \<or> starts_with ''group:'' principal)
                                   then term_add terms (''user:'' @ principal) else terms
                           else terms
                   else terms);
          terms = (if opt_str email \<noteq> []
                   then let e = str_lower (str_strip (opt_str email))
                        in if e \<noteq> [] then term_add (term_add terms e) (''user:'' @ e) else terms
                   else terms)
      in case groups of None \<Rightarrow> terms | Some gs \<Rightarrow> foldl term_add_group terms gs)"

definition merge_acl_terms :: "string list option list \<Rightarrow> string list" where
  "merge_acl_terms term_lists =
     foldl (\<lambda>merged tl. foldl (\<lambda>merged t.
         let term_str = str_strip t
         in if term_str \<noteq> [] \<and> term_str \<notin> set merged \<and> term_str \<noteq> ''*''
            then merged @ [term_str] else merged)
       merged (case tl of None \<Rightarrow> [] | Some ts \<Rightarrow> ts)) [] term_lists"

subsection \<open>Adding a term once\<close>

text \<open>
  Every producer of term lists adds a stripped value unless it is empty, \<open>*\<close> or present:
  \<open>add_new\<close>. A list built that way is clean: duplicate-free, without \<open>*\<close> and without the
  empty term.
\<close>

definition add_new :: "string list \<Rightarrow> string \<Rightarrow> string list" where
  "add_new ts x = (if x = [] \<or> x = ''*'' \<or> x \<in> set ts then ts else ts @ [x])"

definition clean :: "string list \<Rightarrow> bool" where
  "clean ts = (distinct ts \<and> [] \<notin> set ts \<and> ''*'' \<notin> set ts)"

lemma clean_Nil [simp]: "clean []"
  by (simp add: clean_def)

lemma clean_add_new [simp]: "clean ts \<Longrightarrow> clean (add_new ts x)"
  by (auto simp: clean_def add_new_def)

lemma set_add_new: "set (add_new ts x) = set ts \<union> ({x} - {[], ''*''})"
  by (auto simp: add_new_def)

lemma jwt_add_eq:
  "jwt_add ts v = (if v = PNone then ts else add_new ts (str_strip (py_str v)))"
  by (auto simp: jwt_add_def add_new_def Let_def)

lemma jwt_add_PStr [simp]: "jwt_add ts (PStr s) = add_new ts (str_strip s)"
  by (simp add: jwt_add_eq)

lemma term_add_eq [simp]: "term_add ts s = add_new ts (str_strip s)"
  by (auto simp: term_add_def add_new_def Let_def)

lemma clean_jwt_add [simp]: "clean ts \<Longrightarrow> clean (jwt_add ts v)"
  by (simp add: jwt_add_eq)

lemma clean_jwt_add_group [simp]: "clean ts \<Longrightarrow> clean (jwt_add_group ts v)"
  by (simp add: jwt_add_group_def Let_def)

lemma clean_term_add_group [simp]: "clean ts \<Longrightarrow> clean (term_add_group ts g)"
  by (simp add: term_add_group_def Let_def)

lemma clean_foldl:
  "clean ts \<Longrightarrow> (\<And>ts x. clean ts \<Longrightarrow> clean (f ts x)) \<Longrightarrow> clean (foldl f ts xs)"
  by (rule foldl_invariant) auto

lemma clean_jwt_stages:
  "clean (jwt_claimed payload)"
  "clean ts \<Longrightarrow> clean (jwt_principal payload ts)"
  "clean ts \<Longrightarrow> clean (jwt_email payload ts)"
  "clean ts \<Longrightarrow> clean (jwt_groups payload ts)"
  by (auto simp: jwt_claimed_def jwt_principal_def jwt_email_def jwt_groups_def Let_def
      intro!: clean_foldl split: pyval.splits)

lemma clean_acl_terms_from_jwt: "clean (acl_terms_from_jwt payload)"
  by (simp add: acl_terms_from_jwt_def clean_jwt_stages)

lemma clean_generate: "clean (generate_acl_terms_for_user p e gs)"
  by (auto simp: generate_acl_terms_for_user_def Let_def intro!: clean_foldl split: option.splits)

subsection \<open>The term sets\<close>

lemma set_jwt_add_group_PStr:
  "set (jwt_add_group ts (PStr g)) = set ts \<union> ({str_strip g} - {[], ''*''})
     \<union> (if g \<noteq> [] \<and> \<not> starts_with ''group:'' g then {str_strip (''group:'' @ g)} - {[], ''*''} else {})"
  by (auto simp: jwt_add_group_def Let_def set_add_new)

lemma set_term_add_group:
  "str_strip g = g \<Longrightarrow> set (term_add_group ts g) = set ts \<union> ({g} - {[], ''*''})
     \<union> (if g \<noteq> [] \<and> \<not> starts_with ''group:'' g then {str_strip (''group:'' @ g)} - {[], ''*''} else {})"
  by (auto simp: term_add_group_def Let_def set_add_new)

lemma set_foldl_groups:
  assumes "\<And>g. g \<in> set gs \<Longrightarrow> str_strip g = g" and "set ts \<subseteq> set us"
  shows "set (foldl term_add_group ts gs) \<subseteq> set (foldl jwt_add_group us (map PStr gs))"
  using assms
proof (induction gs arbitrary: ts us)
  case Nil
  then show ?case by simp
next
  case (Cons g gs)
  have "set (term_add_group ts g) \<subseteq> set (jwt_add_group us (PStr g))"
    using Cons.prems(1) [of g] Cons.prems(2)
    by (auto simp: set_jwt_add_group_PStr set_term_add_group split: if_splits)
  with Cons.IH Cons.prems(1) show ?case by simp
qed

lemma jwt_stage_eqs:
  "pget payload ''sub'' = PStr p \<Longrightarrow> p \<noteq> [] \<Longrightarrow>
     jwt_principal payload ts = add_new (add_new ts (str_strip p)) (str_strip (''user:'' @ p))"
  "pget payload ''email'' = PStr e \<Longrightarrow> e \<noteq> [] \<Longrightarrow>
     jwt_email payload ts = add_new (add_new ts (str_lower (str_strip e)))
       (str_strip (''user:'' @ str_lower (str_strip e)))"
  "pget payload ''groups'' = PList gs \<Longrightarrow> jwt_groups payload ts = foldl jwt_add_group ts gs"
  by (cases "gs = []"; simp add: jwt_principal_def jwt_email_def jwt_groups_def Let_def str_simps py_or_def)+

lemma generate_eq:
  assumes "str_strip p = p" and "p \<noteq> []" and "e \<noteq> []"
  shows "generate_acl_terms_for_user (Some p) (Some e) (Some gs) =
    foldl term_add_group
      (let ts = (if starts_with ''user:'' p \<or> starts_with ''group:'' p then add_new [] p
                 else add_new (add_new [] p) (str_strip (''user:'' @ p)));
           e' = str_lower (str_strip e)
       in if e' \<noteq> [] then add_new (add_new ts e') (str_strip (''user:'' @ e')) else ts) gs"
  using assms by (auto simp: generate_acl_terms_for_user_def Let_def str_simps)

lemma generated_subset_jwt:
  assumes sub: "pget payload ''sub'' = PStr p" "p \<noteq> []" "str_strip p = p"
    and email: "pget payload ''email'' = PStr e" "e \<noteq> []"
    and groups: "pget payload ''groups'' = PList (map PStr gs)" "\<And>g. g \<in> set gs \<Longrightarrow> str_strip g = g"
  shows "set (generate_acl_terms_for_user (Some p) (Some e) (Some gs)) \<subseteq> set (acl_terms_from_jwt payload)"
  unfolding generate_eq [OF sub(3,2) email(2)] acl_terms_from_jwt_def
    jwt_stage_eqs(1) [OF sub(1,2)] jwt_stage_eqs(2) [OF email] jwt_stage_eqs(3) [OF groups(1)]
  by (rule set_foldl_groups [OF groups(2)])
    (auto simp: Let_def set_add_new sub(3))

subsection \<open>The visibility decision\<close>

lemma mem_deny_terms_for:
  "t \<in> set (deny_terms_for user_acl) \<longleftrightarrow>
    (\<exists>u \<in> set user_acl. t = DENY_PREFIX @ u \<and> u \<noteq> [] \<and> u \<noteq> ''*'')"
  by (auto simp: deny_terms_for_def)

lemma visible_unfold:
  assumes "\<not> is_fail_closed user_acl" and "\<not> is_bypass user_acl"
  shows "document_is_visible user_acl (Some d) \<longleftrightarrow>
    \<not> (\<exists>t \<in> set d. t \<noteq> [] \<and> t \<in> set (deny_terms_for user_acl)) \<and>
    (\<exists>t \<in> set d. t \<noteq> [] \<and> \<not> starts_with DENY_PREFIX t \<and> t \<in> set user_acl)"
proof -
  define terms where "terms = filter (\<lambda>t. t \<noteq> []) d"
  define positive where "positive = filter (\<lambda>t. \<not> starts_with DENY_PREFIX t) terms"
  have "document_is_visible user_acl (Some d) \<longleftrightarrow>
      \<not> (\<exists>t \<in> set terms. t \<in> set (deny_terms_for user_acl)) \<and> (\<exists>t \<in> set positive. t \<in> set user_acl)"
    using assms unfolding document_is_visible_def Let_def option.case
      terms_def [symmetric] positive_def [symmetric]
    by (cases "terms = []"; cases "positive = []") (simp_all add: positive_def)
  then show ?thesis by (simp add: terms_def positive_def) blast
qed

lemma visible_iff:
  assumes "\<not> is_fail_closed user_acl" and "\<not> is_bypass user_acl"
  shows "document_is_visible user_acl (Some d) \<longleftrightarrow>
    (\<exists>t \<in> set d. t \<noteq> [] \<and> \<not> starts_with DENY_PREFIX t \<and> t \<in> set user_acl) \<and>
    (\<forall>u \<in> set user_acl. u \<noteq> [] \<longrightarrow> DENY_PREFIX @ u \<notin> set d)"
proof -
  have "u \<noteq> ''*''" if "u \<in> set user_acl" for u
    using assms(2) that by (auto simp: is_bypass_def)
  then have "(\<exists>t \<in> set d. t \<noteq> [] \<and> t \<in> set (deny_terms_for user_acl)) \<longleftrightarrow>
      (\<exists>u \<in> set user_acl. u \<noteq> [] \<and> DENY_PREFIX @ u \<in> set d)"
    unfolding mem_deny_terms_for by (metis DENY_PREFIX_def append_Cons list.discI)
  with visible_unfold [OF assms] show ?thesis by blast
qed

lemma not_fail_closedI: "t \<in> set u \<Longrightarrow> t \<noteq> [] \<Longrightarrow> \<not> is_fail_closed u"
  by (auto simp: is_fail_closed_def)

lemma clean_not_bypass: "clean u \<Longrightarrow> \<not> is_bypass u"
  by (simp add: clean_def is_bypass_def)

lemma deny_prefix_starts: "starts_with DENY_PREFIX (DENY_PREFIX @ u)"
  by simp

text \<open>A document whose terms a caller holds, none of them a deny term, is visible to the caller.\<close>

lemma visible_if_shared:
  assumes "clean u" and "t \<in> set d" "t \<in> set u"
    and "\<And>s. s \<in> set d \<Longrightarrow> \<not> starts_with DENY_PREFIX s"
  shows "document_is_visible u (Some d)"
proof -
  have "t \<noteq> []" using assms(1,3) by (auto simp: clean_def)
  then have nfc: "\<not> is_fail_closed u" using assms(3) by (rule not_fail_closedI [rotated])
  show ?thesis
    unfolding visible_iff [OF nfc clean_not_bypass [OF assms(1)]]
    using assms \<open>t \<noteq> []\<close> deny_prefix_starts by metis
qed

lemma visible_None: "document_is_visible u None = document_is_visible u (Some [])"
  by (simp add: document_is_visible_def)

text \<open>
  The visibility decision. Nothing is visible to a caller without terms, everything
  to a caller with \<open>*\<close>; otherwise a document is visible exactly when it carries a term of the
  caller that is not a deny term, and it denies none of the caller's terms: deny wins.
\<close>

theorem visibility_decision:
  "(document_is_visible u (Some d) \<longleftrightarrow>
     (\<exists>t \<in> set u. t \<noteq> []) \<and>
     (''*'' \<in> set u \<or>
      ((\<exists>t \<in> set d. t \<noteq> [] \<and> \<not> starts_with DENY_PREFIX t \<and> t \<in> set u) \<and>
       \<not> (\<exists>t \<in> set u. t \<noteq> [] \<and> DENY_PREFIX @ t \<in> set d)))) \<and>
   document_is_visible u None = document_is_visible u (Some [])"
proof (cases "is_fail_closed u")
  case True
  then show ?thesis by (auto simp: document_is_visible_def is_fail_closed_def)
next
  case nfc: False
  then have some: "\<exists>t \<in> set u. t \<noteq> []" by (simp add: is_fail_closed_def)
  show ?thesis
  proof (cases "is_bypass u")
    case True
    then show ?thesis using some nfc by (simp add: document_is_visible_def is_bypass_def)
  next
    case False
    then have "''*'' \<notin> set u" by (simp add: is_bypass_def)
    with visible_iff [OF nfc False, of d] some show ?thesis by (auto simp: visible_None)
  qed
qed

text \<open>
  Whatever the claims of a token, the caller's terms contain no bypass, no empty term
  and no duplicate, so a token cannot widen the filter to every document.
\<close>

theorem jwt_never_bypasses:
  "\<not> is_bypass (acl_terms_from_jwt payload) \<and> [] \<notin> set (acl_terms_from_jwt payload) \<and>
   distinct (acl_terms_from_jwt payload) \<and>
   (document_is_visible (acl_terms_from_jwt payload) None = False)"
proof -
  have "clean (acl_terms_from_jwt payload)" by (rule clean_acl_terms_from_jwt)
  then show ?thesis
    by (auto simp: clean_def is_bypass_def document_is_visible_def)
qed

text \<open>
  Index time and query time agree. When the token names the same principal, email and
  groups, every term indexed for the user is a term of the caller, and a document indexed with the
  user's terms (none of which reads as a deny) is visible to the caller.
\<close>

theorem indexed_user_sees_document:
  assumes "pget payload ''sub'' = PStr p" "p \<noteq> []" "str_strip p = p" "p \<noteq> ''*''"
    and "pget payload ''email'' = PStr e" "e \<noteq> []"
    and "pget payload ''groups'' = PList (map PStr gs)" "\<forall>g \<in> set gs. str_strip g = g"
    and "\<forall>t \<in> set (generate_acl_terms_for_user (Some p) (Some e) (Some gs)). \<not> starts_with DENY_PREFIX t"
  shows "set (generate_acl_terms_for_user (Some p) (Some e) (Some gs)) \<subseteq> set (acl_terms_from_jwt payload) \<and>
     document_is_visible (acl_terms_from_jwt payload) (Some (generate_acl_terms_for_user (Some p) (Some e) (Some gs)))"
proof -
  let ?idx = "generate_acl_terms_for_user (Some p) (Some e) (Some gs)"
  have sub: "set ?idx \<subseteq> set (acl_terms_from_jwt payload)"
    using assms by (intro generated_subset_jwt) auto
  have grow: "set ts \<subseteq> set (foldl term_add_group ts gs)" for ts
    by (induction gs arbitrary: ts)
      (simp, force simp: term_add_group_def Let_def set_add_new split: if_splits)
  have "p \<in> set ?idx"
    unfolding generate_eq [OF assms(3,2,6)]
    by (rule subsetD [OF grow]) (auto simp: Let_def set_add_new assms(2,4))
  with sub visible_if_shared [OF clean_acl_terms_from_jwt, of p ?idx] assms(9) show ?thesis by blast
qed

definition demo_payload :: pydict where
  "demo_payload = [(''sub'', PStr ''u-7''), (''email'', PStr '' Ann@X.org''), (''groups'', PList (map PStr [''eng'']))]"

theorem indexed_user_sees_document_witness:
  "document_is_visible (acl_terms_from_jwt demo_payload)
     (Some (generate_acl_terms_for_user (Some ''u-7'') (Some '' Ann@X.org'') (Some [''eng'']))) \<and>
   generate_acl_terms_for_user (Some ''u-7'') (Some '' Ann@X.org'') (Some [''eng'']) =
     [''u-7'', ''user:u-7'', ''ann@x.org'', ''user:ann@x.org'', ''eng'', ''group:eng'']"
proof -
  have gen: "generate_acl_terms_for_user (Some ''u-7'') (Some '' Ann@X.org'') (Some [''eng'']) =
     [''u-7'', ''user:u-7'', ''ann@x.org'', ''user:ann@x.org'', ''eng'', ''group:eng'']" by code_simp
  have pg: "pget demo_payload ''sub'' = PStr ''u-7''" "pget demo_payload ''email'' = PStr '' Ann@X.org''"
    "pget demo_payload ''groups'' = PList (map PStr [''eng''])"
    by (simp_all add: demo_payload_def pget_def dict_get_def)
  have st: "str_strip ''u-7'' = ''u-7''" "\<forall>g \<in> set [''eng'']. str_strip g = g" by code_simp+
  have nd: "\<forall>t \<in> set (generate_acl_terms_for_user (Some ''u-7'') (Some '' Ann@X.org'') (Some [''eng''])).
      \<not> starts_with DENY_PREFIX t" unfolding gen by code_simp
  show ?thesis
    using indexed_user_sees_document [OF pg(1) _ st(1) _ pg(2) _ pg(3) st(2) nd] gen by simp
qed

text \<open>The clause for the caller \<open>u\<close>, read as the engine reads it, on the terms \<open>D\<close> of a document.\<close>

lemma clause_decides:
  assumes u: "\<forall>t \<in> set u. t \<noteq> [] \<and> \<not> starts_with DENY_PREFIX t" "u \<noteq> []" "''*'' \<notin> set u"
  shows "\<exists>q. opensearch_acl_clause u f = Inr (Some q) \<and> es_field q = f \<and>
    ((\<forall>ts \<in> set (es_must q). \<exists>t \<in> set ts. t \<in> set D) \<and> \<not> (\<exists>ts \<in> set (es_must_not q). \<exists>t \<in> set ts. t \<in> set D)) =
      document_is_visible u (Some D)"
proof -
  have nfc: "\<not> is_fail_closed u" using u by (cases u) (auto simp: is_fail_closed_def)
  have nb: "\<not> is_bypass u" using u by (simp add: is_bypass_def)
  define q where "q = \<lparr>es_field = f, es_must = [u],
      es_must_not = (if deny_terms_for u \<noteq> [] then [deny_terms_for u] else [])\<rparr>"
  have q: "opensearch_acl_clause u f = Inr (Some q)"
    using nfc nb by (simp add: opensearch_acl_clause_def q_def Let_def)
  have ne: "[] \<notin> set (deny_terms_for u)" by (simp add: deny_terms_for_def DENY_PREFIX_def)
  have "((\<forall>ts \<in> set (es_must q). \<exists>t \<in> set ts. t \<in> set D) \<and>
      \<not> (\<exists>ts \<in> set (es_must_not q). \<exists>t \<in> set ts. t \<in> set D)) \<longleftrightarrow> (\<exists>t \<in> set u. t \<in> set D) \<and>
      \<not> (\<exists>t \<in> set (deny_terms_for u). t \<in> set D)"
    by (cases "deny_terms_for u") (simp_all add: q_def)
  also have "(\<exists>t \<in> set (deny_terms_for u). t \<in> set D) \<longleftrightarrow>
      (\<exists>t \<in> set D. t \<noteq> [] \<and> t \<in> set (deny_terms_for u))"
    using ne by metis
  also have "(\<exists>t \<in> set u. t \<in> set D) \<longleftrightarrow>
      (\<exists>t \<in> set D. t \<noteq> [] \<and> \<not> starts_with DENY_PREFIX t \<and> t \<in> set u)"
    using u(1) by blast
  finally have "((\<forall>ts \<in> set (es_must q). \<exists>t \<in> set ts. t \<in> set D) \<and>
      \<not> (\<exists>ts \<in> set (es_must_not q). \<exists>t \<in> set ts. t \<in> set D)) = document_is_visible u (Some D)"
    unfolding visible_unfold [OF nfc nb] by blast
  with q show ?thesis by (auto simp: q_def)
qed


definition demo_engine :: "(string \<Rightarrow> string list) \<Rightarrow> es_bool \<Rightarrow> bool" where
  "demo_engine doc q = (list_all (\<lambda>ts. list_ex (\<lambda>t. t \<in> set (doc (es_field q))) ts) (es_must q) \<and>
     \<not> list_ex (\<lambda>ts. list_ex (\<lambda>t. t \<in> set (doc (es_field q))) ts) (es_must_not q))"


end
