(* ===== verification/Canonical_Repo.thy ===== *)
theory Canonical_Repo
  imports Core_Models
begin

text \<open>
  The in-memory mode of \<open>CanonicalRepo\<close> (\<open>backend/app/storage/canonical_repo.py\<close>): documents,
  principals, groups, materialised ACL rows, container ACLs and edges, login users and the queue
  of pending identities. Each dictionary of the class is a field of the record, each method's
  \<open>use_memory\<close> branch a definition from state to state. The clock (\<open>datetime.now\<close>) and \<open>uuid4\<close>
  are arguments. The SQL branches are in the theory \<open>Canonical_Sql\<close>.
\<close>

record pending_row =
  pr_id :: uuid
  pr_tenant_id :: uuid
  pr_source_account_id :: "uuid option"
  pr_document_id :: string
  pr_shared_email :: string
  pr_first_seen_at :: instant
  pr_resolved_at :: "instant option"
  pr_resolved_principal_id :: "uuid option"

record repo =
  r_documents :: "(string, canonical_document) dict"
  r_principals :: "(uuid, principal) dict"
  r_principals_by_email :: "(uuid \<times> string, principal) dict"
  r_groups :: "(uuid, group) dict"
  r_groups_by_email :: "(uuid \<times> string, group) dict"
  r_groups_by_source :: "(string \<times> string \<times> uuid, group) dict"
  r_acl_entries :: "(string, acl_entry list) dict"
  r_container_acl_entries :: "(string \<times> uuid, container_acl_entry list) dict"
  r_container_edges :: "(string \<times> uuid, string) dict"
  r_login_users_by_email :: "(uuid \<times> string, uuid \<times> string) dict"
  r_pending_identity :: "(uuid \<times> string \<times> string, pending_row) dict"

definition empty_repo :: repo where
  "empty_repo = \<lparr>r_documents = [], r_principals = [], r_principals_by_email = [], r_groups = [],
     r_groups_by_email = [], r_groups_by_source = [], r_acl_entries = [],
     r_container_acl_entries = [], r_container_edges = [], r_login_users_by_email = [],
     r_pending_identity = []\<rparr>"

datatype repo_error = PrincipalAlreadyExists string uuid

subsection \<open>Document identifiers and their aliases\<close>

definition source_prefixes :: "string list" where
  "source_prefixes = [''google_drive_'', ''google_gmail_'']"

definition document_id_aliases :: "string \<Rightarrow> string list" where
  "document_id_aliases document_id =
     (let raw = str_strip document_id in
      if raw = [] then []
      else
        let aliases = foldl (\<lambda>aliases pre.
              if starts_with pre raw \<and> drop (length pre) raw \<noteq> []
              then aliases @ [drop (length pre) raw]
              else if \<not> (\<exists>p \<in> set source_prefixes. starts_with p raw)
              then aliases @ [pre @ raw]
              else aliases) [raw] source_prefixes
        in dedup aliases)"

definition source_type_from_document_id :: "string \<Rightarrow> string" where
  "source_type_from_document_id document_id =
     (if starts_with ''google_gmail'' document_id then ''google_gmail'' else ''google_drive'')"

definition bound_share_acl_entry :: "string \<Rightarrow> uuid \<Rightarrow> uuid \<Rightarrow> instant \<Rightarrow> acl_entry" where
  "bound_share_acl_entry document_id principal_id tenant_id now =
     (let source_type = source_type_from_document_id document_id in
      \<lparr>ae_document_id = document_id, ae_principal_id = Some principal_id, ae_group_id = None,
       ae_permission = (if source_type = ''google_gmail'' then OWNER else READ),
       ae_granted_via = (if source_type = ''google_gmail'' then ''gmail_mailbox'' else ''drive_share''),
       ae_source_container_id = None, ae_is_deny = False, ae_source_type = source_type,
       ae_tenant_id = tenant_id, ae_created_at = now, ae_updated_at = now\<rparr>)"

subsection \<open>Documents\<close>

definition upsert_document :: "canonical_document \<Rightarrow> repo \<Rightarrow> repo" where
  "upsert_document doc r = r\<lparr>r_documents := AList.update (cd_id doc) doc (r_documents r)\<rparr>"

definition get_document :: "string \<Rightarrow> repo \<Rightarrow> canonical_document option" where
  "get_document document_id r = map_of (r_documents r) document_id"

definition pop_document :: "repo \<Rightarrow> string \<Rightarrow> repo" where
  "pop_document r alias = r\<lparr>r_documents := AList.delete alias (r_documents r),
     r_acl_entries := AList.delete alias (r_acl_entries r)\<rparr>"

definition delete_documents_and_acls :: "string list \<Rightarrow> uuid \<Rightarrow> repo \<Rightarrow> repo" where
  "delete_documents_and_acls document_ids tenant_id r =
     foldl (\<lambda>r doc_id. foldl pop_document r (document_id_aliases doc_id)) r document_ids"

definition delete_documents_by_source :: "string \<Rightarrow> uuid \<Rightarrow> repo \<Rightarrow> repo \<times> string list" where
  "delete_documents_by_source source_type tenant r =
     (let matched_ids = [k. (k, doc) \<leftarrow> r_documents r,
                            cd_source_type doc = source_type \<and> cd_tenant_id doc = tenant];
          r = foldl (\<lambda>r doc_id. foldl pop_document r (document_id_aliases doc_id)) r matched_ids;
          kept = map (\<lambda>(k, es). (k, filter (\<lambda>e. \<not> (ae_source_type e = source_type \<and>
                                                     ae_tenant_id e = tenant)) es)) (r_acl_entries r)
      in (r\<lparr>r_acl_entries := filter (\<lambda>(k, es). es \<noteq> []) kept\<rparr>, matched_ids))"

subsection \<open>Principals\<close>

definition create_principal :: "principal \<Rightarrow> repo \<Rightarrow> repo_error + repo" where
  "create_principal p r =
     (let email_key = (p_tenant_id p, str_lower (p_email p)) in
      if map_of (r_principals_by_email r) email_key \<noteq> None
      then Inl (PrincipalAlreadyExists (p_email p) (p_tenant_id p))
      else Inr (r\<lparr>r_principals := AList.update (p_id p) p (r_principals r),
                  r_principals_by_email := AList.update email_key p (r_principals_by_email r)\<rparr>))"

definition update_principal :: "principal \<Rightarrow> repo \<Rightarrow> repo" where
  "update_principal p r =
     r\<lparr>r_principals := AList.update (p_id p) p (r_principals r),
       r_principals_by_email :=
         AList.update (p_tenant_id p, str_lower (p_email p)) p (r_principals_by_email r)\<rparr>"

definition get_principal_by_email :: "string \<Rightarrow> uuid \<Rightarrow> repo \<Rightarrow> principal option" where
  "get_principal_by_email email tenant_id r =
     map_of (r_principals_by_email r) (tenant_id, str_lower email)"

definition get_principal_by_source_identity ::
    "string \<Rightarrow> string \<Rightarrow> uuid \<Rightarrow> repo \<Rightarrow> principal option" where
  "get_principal_by_source_identity source_type external_id tenant_id r =
     find (\<lambda>p. p_tenant_id p = tenant_id \<and>
               map_of (p_source_identities p) source_type = Some external_id)
       (map snd (r_principals r))"

subsection \<open>Groups\<close>

definition create_group :: "group \<Rightarrow> repo \<Rightarrow> repo" where
  "create_group g r =
     r\<lparr>r_groups := AList.update (g_id g) g (r_groups r),
       r_groups_by_email :=
         (if opt_str (g_email g) \<noteq> []
          then AList.update (g_tenant_id g, str_lower (opt_str (g_email g))) g (r_groups_by_email r)
          else r_groups_by_email r),
       r_groups_by_source :=
         AList.update (g_source_type g, g_source_id g, g_tenant_id g) g (r_groups_by_source r)\<rparr>"

definition get_group :: "uuid \<Rightarrow> uuid \<Rightarrow> repo \<Rightarrow> group option" where
  "get_group group_id tenant_id r =
     (case map_of (r_groups r) group_id of
        None \<Rightarrow> None
      | Some g \<Rightarrow> if g_tenant_id g = tenant_id then Some g else None)"

definition get_group_by_email :: "string \<Rightarrow> uuid \<Rightarrow> repo \<Rightarrow> group option" where
  "get_group_by_email email tenant_id r = map_of (r_groups_by_email r) (tenant_id, str_lower email)"

definition get_group_by_source_identity :: "string \<Rightarrow> string \<Rightarrow> uuid \<Rightarrow> repo \<Rightarrow> group option" where
  "get_group_by_source_identity source_type source_id tenant_id r =
     map_of (r_groups_by_source r) (source_type, source_id, tenant_id)"

subsection \<open>Materialised ACL entries\<close>

definition replace_acl_entries :: "string \<Rightarrow> acl_entry list \<Rightarrow> repo \<Rightarrow> repo" where
  "replace_acl_entries document_id entries r =
     r\<lparr>r_acl_entries := AList.update document_id entries (r_acl_entries r)\<rparr>"

definition get_acl_entries :: "string \<Rightarrow> repo \<Rightarrow> acl_entry list" where
  "get_acl_entries document_id r = dict_get (r_acl_entries r) document_id []"

definition insert_acl_entry :: "acl_entry \<Rightarrow> repo \<Rightarrow> repo" where
  "insert_acl_entry entry r =
     (let table = dict_setdefault (ae_document_id entry) [] (r_acl_entries r);
          existing = dict_get table (ae_document_id entry) []
      in if \<exists>c \<in> set existing. ae_principal_id c = ae_principal_id entry \<and>
              ae_group_id c = ae_group_id entry \<and> ae_is_deny c = ae_is_deny entry
         then r\<lparr>r_acl_entries := table\<rparr>
         else r\<lparr>r_acl_entries := AList.update (ae_document_id entry) (existing @ [entry]) table\<rparr>)"

subsection \<open>Container ACLs and edges\<close>

definition upsert_container_acl :: "container_acl_entry \<Rightarrow> repo \<Rightarrow> repo" where
  "upsert_container_acl entry r =
     (let key = (ca_container_id entry, ca_tenant_id entry);
          table = dict_setdefault key [] (r_container_acl_entries r);
          existing = filter (\<lambda>e. \<not> (ca_principal_id e = ca_principal_id entry \<and>
                                     ca_group_id e = ca_group_id entry)) (dict_get table key [])
      in r\<lparr>r_container_acl_entries := AList.update key (existing @ [entry]) table\<rparr>)"

definition get_container_acl_entries :: "string \<Rightarrow> uuid \<Rightarrow> repo \<Rightarrow> container_acl_entry list" where
  "get_container_acl_entries container_id tenant_id r =
     dict_get (r_container_acl_entries r) (container_id, tenant_id) []"

definition upsert_container_edge :: "container_edge \<Rightarrow> repo \<Rightarrow> repo" where
  "upsert_container_edge edge r =
     r\<lparr>r_container_edges := AList.update (ce_child_container_id edge, ce_tenant_id edge)
         (ce_parent_container_id edge) (r_container_edges r)\<rparr>"

definition get_parent_container :: "string \<Rightarrow> uuid \<Rightarrow> repo \<Rightarrow> string option" where
  "get_parent_container child_id tenant_id r = map_of (r_container_edges r) (child_id, tenant_id)"

definition delete_container :: "string \<Rightarrow> uuid \<Rightarrow> repo \<Rightarrow> repo" where
  "delete_container container_id tenant_id r =
     (let keys_to_delete = [k. (k, v) \<leftarrow> r_container_edges r, fst k = container_id \<or> v = container_id]
      in r\<lparr>r_container_acl_entries := AList.delete (container_id, tenant_id) (r_container_acl_entries r),
           r_container_edges := foldl (\<lambda>d k. AList.delete k d) (r_container_edges r) keys_to_delete\<rparr>)"

subsection \<open>Login users and the pending-identity queue\<close>

definition register_login_user :: "uuid \<Rightarrow> string \<Rightarrow> uuid \<Rightarrow> repo \<Rightarrow> repo" where
  "register_login_user tenant_id email principal_id r =
     (let key = (tenant_id, str_lower (str_strip email))
      in r\<lparr>r_login_users_by_email := AList.update key (principal_id, snd key) (r_login_users_by_email r)\<rparr>)"

definition get_login_user_by_email :: "string \<Rightarrow> uuid \<Rightarrow> repo \<Rightarrow> (uuid \<times> string) option" where
  "get_login_user_by_email email tenant_id r =
     (let normalized = str_lower (str_strip email) in
      if normalized = [] then None
      else map_of (r_login_users_by_email r) (tenant_id, normalized))"

definition upsert_pending_identity ::
    "uuid \<Rightarrow> string \<Rightarrow> string \<Rightarrow> uuid option \<Rightarrow> uuid \<Rightarrow> instant \<Rightarrow> repo \<Rightarrow> repo \<times> bool" where
  "upsert_pending_identity tenant document_id shared_email source_account_id fresh now r =
     (let email = str_lower (str_strip shared_email);
          key = (tenant, document_id, email)
      in if map_of (r_pending_identity r) key \<noteq> None then (r, False)
         else (r\<lparr>r_pending_identity := AList.update key
                  \<lparr>pr_id = fresh, pr_tenant_id = tenant, pr_source_account_id = source_account_id,
                   pr_document_id = document_id, pr_shared_email = email, pr_first_seen_at = now,
                   pr_resolved_at = None, pr_resolved_principal_id = None\<rparr>
                  (r_pending_identity r)\<rparr>, True))"

definition drain_row ::
    "uuid \<Rightarrow> string \<Rightarrow> uuid \<Rightarrow> instant \<Rightarrow> repo \<times> string list \<Rightarrow>
     (uuid \<times> string \<times> string) \<times> pending_row \<Rightarrow> repo \<times> string list" where
  "drain_row tenant normalized who now = (\<lambda>(r, drained) (key, row).
     if pr_tenant_id row = tenant \<and> pr_shared_email row = normalized \<and> pr_resolved_at row = None
     then let doc_id = pr_document_id row;
              r = insert_acl_entry (bound_share_acl_entry doc_id who tenant now) r;
              row' = row\<lparr>pr_resolved_at := Some now, pr_resolved_principal_id := Some who\<rparr>
          in (r\<lparr>r_pending_identity := AList.update key row' (r_pending_identity r)\<rparr>, drained @ [doc_id])
     else (r, drained))"

definition drain_pending_identity_queue ::
    "uuid \<Rightarrow> string \<Rightarrow> uuid \<Rightarrow> instant \<Rightarrow> repo \<Rightarrow> repo \<times> string list" where
  "drain_pending_identity_queue tenant email who now r =
     foldl (drain_row tenant (str_lower (str_strip email)) who now) (r, []) (r_pending_identity r)"

definition rebind_entry :: "uuid \<Rightarrow> uuid \<Rightarrow> uuid \<Rightarrow> acl_entry \<Rightarrow> acl_entry" where
  "rebind_entry tenant source target e =
     (if ae_tenant_id e = tenant \<and> ae_principal_id e = Some source
      then e\<lparr>ae_principal_id := Some target\<rparr> else e)"

definition rebind_acl_principal :: "uuid \<Rightarrow> uuid \<Rightarrow> uuid \<Rightarrow> repo \<Rightarrow> repo \<times> string list" where
  "rebind_acl_principal tenant source target r =
     (if source = target then (r, [])
      else (r\<lparr>r_acl_entries := map (\<lambda>(k, es). (k, map (rebind_entry tenant source target) es))
                                   (r_acl_entries r)\<rparr>,
            [k. (k, es) \<leftarrow> r_acl_entries r,
                \<exists>e \<in> set es. ae_tenant_id e = tenant \<and> ae_principal_id e = Some source]))"

definition list_unresolved_pending :: "uuid \<Rightarrow> repo \<Rightarrow> (string \<times> string \<times> instant) list" where
  "list_unresolved_pending tenant r =
     [(pr_document_id row, pr_shared_email row, pr_first_seen_at row).
        (k, row) \<leftarrow> r_pending_identity r, pr_tenant_id row = tenant \<and> pr_resolved_at row = None]"

subsection \<open>The read decision\<close>

definition principal_can_read_document :: "uuid \<Rightarrow> uuid \<Rightarrow> string \<Rightarrow> repo \<Rightarrow> bool" where
  "principal_can_read_document tenant who document_id r =
     (let entries = concat (map (\<lambda>candidate.
            filter (\<lambda>e. ae_tenant_id e = tenant \<and> ae_principal_id e = Some who)
              (dict_get (r_acl_entries r) candidate [])) (document_id_aliases document_id))
      in if \<exists>e \<in> set entries. ae_is_deny e then False
         else \<exists>e \<in> set entries. \<not> ae_is_deny e)"

end
