(* ===== verification/Container_Service.thy ===== *)
theory Container_Service
  imports Canonical_Repo
begin

text \<open>
  The container hierarchy (\<open>backend/app/acl/container_service.py\<close>): the upward walk with its
  visited set and depth limit, the cache of ancestor chains with its time-to-live, and the
  invalidation on edge updates. The record \<open>world\<close> is the state shared by the components of
  Block C: the repository, the two caches and the supply of fresh identifiers (\<open>uuid4\<close>).
\<close>

record world =
  w_repo :: repo
  w_ancestor_cache :: "(uuid \<times> string, string list) dict"
  w_cache_timestamps :: "(uuid \<times> string, instant) dict"
  w_email_cache :: "(uuid \<times> string, (uuid \<times> string) option) dict"
  w_next_uuid :: uuid

definition init_world :: world where
  "init_world = \<lparr>w_repo = empty_repo, w_ancestor_cache = [], w_cache_timestamps = [],
     w_email_cache = [], w_next_uuid = 1\<rparr>"

definition cache_ttl :: int where
  "cache_ttl = 600"

definition max_depth :: nat where
  "max_depth = 50"

subsection \<open>The upward walk\<close>

text \<open>
  The loop of \<open>get_ancestors\<close>: the second argument is \<open>max_depth - depth\<close>, so the recursion is on
  what is left of the depth limit.
\<close>

fun walk :: "(string \<Rightarrow> string option) \<Rightarrow> nat \<Rightarrow> string list \<Rightarrow> string \<Rightarrow> string list" where
  "walk parent 0 visited current = []"
| "walk parent (Suc n) visited current =
     (if current = [] then []
      else if current \<in> set visited then []
      else case parent current of
             None \<Rightarrow> []
           | Some p \<Rightarrow> if p = [] then [] else p # walk parent n (current # visited) p)"

definition get_ancestors :: "string \<Rightarrow> uuid \<Rightarrow> instant \<Rightarrow> world \<Rightarrow> string list \<times> world" where
  "get_ancestors container_id tenant_id now w =
     (let key = (tenant_id, container_id);
          miss = (let ancestors = walk (\<lambda>c. get_parent_container c tenant_id (w_repo w)) max_depth [] container_id
                  in (ancestors, w\<lparr>w_ancestor_cache := AList.update key ancestors (w_ancestor_cache w),
                                   w_cache_timestamps := AList.update key now (w_cache_timestamps w)\<rparr>))
      in case map_of (w_ancestor_cache w) key of
           Some cached \<Rightarrow>
             if now - dict_get (w_cache_timestamps w) key 0 < cache_ttl then (cached, w) else miss
         | None \<Rightarrow> miss)"

definition get_container_permissions :: "string \<Rightarrow> uuid \<Rightarrow> world \<Rightarrow> container_acl_entry list" where
  "get_container_permissions container_id tenant_id w =
     get_container_acl_entries container_id tenant_id (w_repo w)"

definition invalidate_cache :: "string \<Rightarrow> uuid \<Rightarrow> world \<Rightarrow> world" where
  "invalidate_cache container_id tenant_id w =
     w\<lparr>w_ancestor_cache := AList.delete (tenant_id, container_id) (w_ancestor_cache w),
       w_cache_timestamps := AList.delete (tenant_id, container_id) (w_cache_timestamps w)\<rparr>"

definition svc_upsert_container_edge ::
    "string \<Rightarrow> string \<Rightarrow> string \<Rightarrow> uuid \<Rightarrow> instant \<Rightarrow> world \<Rightarrow> world" where
  "svc_upsert_container_edge parent_id child_id source_type tenant_id now w =
     (let edge = \<lparr>ce_parent_container_id = parent_id, ce_child_container_id = child_id,
                  ce_tenant_id = tenant_id, ce_source_type = source_type, ce_created_at = now\<rparr>;
          w = w\<lparr>w_repo := upsert_container_edge edge (w_repo w)\<rparr>
      in w\<lparr>w_ancestor_cache := AList.delete (tenant_id, child_id) (w_ancestor_cache w),
           w_cache_timestamps := AList.delete (tenant_id, child_id) (w_cache_timestamps w)\<rparr>)"

definition svc_upsert_container_acl :: "container_acl_entry \<Rightarrow> world \<Rightarrow> world" where
  "svc_upsert_container_acl entry w = w\<lparr>w_repo := upsert_container_acl entry (w_repo w)\<rparr>"

subsection \<open>The walk computes the ancestors\<close>

definition parent_edge :: "(string \<Rightarrow> string option) \<Rightarrow> string \<Rightarrow> string \<Rightarrow> bool" where
  "parent_edge parent c p = (c \<noteq> [] \<and> parent c = Some p \<and> p \<noteq> [])"

lemma length_walk: "length (walk parent n visited c) \<le> n"
  by (induction parent n visited c rule: walk.induct) (auto split: option.splits)

lemma walk_sound: "p \<in> set (walk parent n visited c) \<Longrightarrow> (parent_edge parent)\<^sup>+\<^sup>+ c p"
proof (induction parent n visited c rule: walk.induct)
  case (2 parent n visited current)
  then obtain q where q: "current \<noteq> []" "parent current = Some q" "q \<noteq> []" "current \<notin> set visited"
    "p = q \<or> p \<in> set (walk parent n (current # visited) q)"
    by (cases "parent current") (auto split: if_splits)
  then have e: "parent_edge parent current q" by (simp add: parent_edge_def)
  show ?case
  proof (cases "p = q")
    case True
    with e show ?thesis by blast
  next
    case False
    with q "2.IH" [of q] have "(parent_edge parent)\<^sup>+\<^sup>+ q p" by simp
    with e show ?thesis by (rule tranclp_into_tranclp2)
  qed
qed simp

lemma walk_closed:
  assumes "\<And>v p. v \<in> set visited \<Longrightarrow> parent_edge parent v p \<Longrightarrow> p \<in> acc"
    and "length (walk parent n visited c) < n"
    and "v \<in> insert c (set visited \<union> set (walk parent n visited c))" and "parent_edge parent v p"
  shows "p \<in> acc \<union> set (walk parent n visited c)"
  using assms
proof (induction parent n visited c arbitrary: acc v rule: walk.induct)
  case (2 parent n visited current)
  show ?case
  proof (cases "current \<noteq> [] \<and> current \<notin> set visited \<and> (\<exists>q. parent current = Some q \<and> q \<noteq> [])")
    case False
    then have nil: "walk parent (Suc n) visited current = []" by (auto split: option.splits)
    from False have "parent_edge parent current p \<Longrightarrow> current \<in> set visited"
      by (auto simp: parent_edge_def)
    with nil "2.prems" show ?thesis by auto
  next
    case True
    then obtain q where step: "current \<noteq> []" "current \<notin> set visited" "parent current = Some q" "q \<noteq> []"
      by blast
    have eq: "walk parent (Suc n) visited current = q # walk parent n (current # visited) q"
      using step by simp
    have "p \<in> insert q acc \<union> set (walk parent n (current # visited) q)"
    proof (rule "2.IH" [OF step(1,2,3,4)])
      show "\<And>v p. v \<in> set (current # visited) \<Longrightarrow> parent_edge parent v p \<Longrightarrow> p \<in> insert q acc"
        using "2.prems"(1) step by (auto simp: parent_edge_def)
      show "length (walk parent n (current # visited) q) < n"
        using "2.prems"(2) unfolding eq by simp
      show "v \<in> insert q (set (current # visited) \<union> set (walk parent n (current # visited) q))"
        using "2.prems"(3) unfolding eq by auto
      show "parent_edge parent v p" by (rule "2.prems"(4))
    qed
    then show ?thesis unfolding eq by simp
  qed
qed simp

lemma walk_complete:
  assumes "length (walk parent n [] c) < n" and "(parent_edge parent)\<^sup>+\<^sup>+ c p"
  shows "p \<in> set (walk parent n [] c)"
  using assms(2)
proof (induction rule: tranclp_induct)
  case (base y)
  with walk_closed [of "[]" parent "{}" n c c y] assms(1) show ?case by simp
next
  case (step y z)
  with walk_closed [of "[]" parent "{}" n c y z] assms(1) show ?case by simp
qed

lemma walk_set:
  "length (walk parent n [] c) < n \<Longrightarrow> set (walk parent n [] c) = {p. (parent_edge parent)\<^sup>+\<^sup>+ c p}"
  using walk_sound walk_complete by blast

lemma distinct_butlast_walk:
  "distinct (butlast (walk parent n visited c)) \<and> set (butlast (walk parent n visited c)) \<inter> set visited = {} \<and>
   (walk parent n visited c \<noteq> [] \<longrightarrow> length (walk parent n visited c) > 1 \<longrightarrow> c \<notin> set (butlast (walk parent n visited c)))"
proof (induction parent n visited c rule: walk.induct)
  case (2 parent n visited current)
  show ?case
  proof (cases "\<exists>q. current \<noteq> [] \<and> current \<notin> set visited \<and> parent current = Some q \<and> q \<noteq> []")
    case True
    then obtain q where q: "current \<noteq> []" "current \<notin> set visited" "parent current = Some q" "q \<noteq> []" by blast
    let ?r = "walk parent n (current # visited) q"
    have eq: "walk parent (Suc n) visited current = q # ?r" using q by simp
    note IH = "2.IH" [OF q]
    show ?thesis
    proof (cases "?r = []")
      case False
      then have nc: "q \<notin> set (current # visited)"
        by (cases n) (auto split: if_splits)
      have "q \<notin> set (butlast ?r)"
      proof (cases "length ?r > 1")
        case True
        with IH False show ?thesis by blast
      next
        case short: False
        then have "length (butlast ?r) = 0" using length_butlast [of ?r] by linarith
        then have "butlast ?r = []" by (simp only: length_0_conv)
        then show ?thesis by (simp only: list.set empty_iff not_False_eq_True)
      qed
      with IH nc False show ?thesis unfolding eq by auto
    qed (simp add: eq [unfolded walk.simps])
  qed (auto split: option.splits)
qed simp

subsection \<open>The cache\<close>

definition current_parent :: "uuid \<Rightarrow> world \<Rightarrow> string \<Rightarrow> string option" where
  "current_parent tenant w = (\<lambda>c. get_parent_container c tenant (w_repo w))"

lemma get_ancestors_miss:
  "map_of (w_ancestor_cache w) (t, c) = None \<Longrightarrow>
     fst (get_ancestors c t now w) = walk (current_parent t w) max_depth [] c"
  by (simp add: get_ancestors_def current_parent_def Let_def)

lemma get_ancestors_repo [simp]: "w_repo (snd (get_ancestors c t now w)) = w_repo w"
  by (auto simp: get_ancestors_def Let_def split: option.splits)

lemma get_ancestors_frame [simp]:
  "w_email_cache (snd (get_ancestors c t now w)) = w_email_cache w"
  "w_next_uuid (snd (get_ancestors c t now w)) = w_next_uuid w"
  by (auto simp: get_ancestors_def Let_def split: option.splits)

text \<open>A cache is coherent when every chain it holds is the one the walk would compute now.\<close>

definition cache_coherent :: "world \<Rightarrow> bool" where
  "cache_coherent w = (\<forall>t c as. map_of (w_ancestor_cache w) (t, c) = Some as \<longrightarrow>
     as = walk (current_parent t w) max_depth [] c)"

lemma get_ancestors_coherent:
  "cache_coherent w \<Longrightarrow> fst (get_ancestors c t now w) = walk (current_parent t w) max_depth [] c"
  by (auto simp: get_ancestors_def cache_coherent_def current_parent_def Let_def split: option.splits)

lemma cache_coherent_get_ancestors:
  "cache_coherent w \<Longrightarrow> cache_coherent (snd (get_ancestors c t now w))"
  by (auto simp: get_ancestors_def cache_coherent_def current_parent_def Let_def dict_simps split: option.splits)

lemma cache_coherent_init [simp]: "cache_coherent init_world"
  by (simp add: cache_coherent_def init_world_def)

text \<open>
  With a coherent cache, the ancestors returned for a container are exactly the
  containers reachable from it by parent edges, nearest first, whenever the chain is shorter than
  the depth limit of 50; the walk never exceeds the limit, also on cyclic hierarchies.
\<close>

theorem ancestors_are_the_transitive_parents:
  assumes "cache_coherent w"
  shows "length (fst (get_ancestors c t now w)) \<le> 50 \<and>
    distinct (butlast (fst (get_ancestors c t now w))) \<and>
    (length (fst (get_ancestors c t now w)) < 50 \<longrightarrow>
      set (fst (get_ancestors c t now w)) = {p. (parent_edge (current_parent t w))\<^sup>+\<^sup>+ c p})"
  using walk_set [of "current_parent t w" max_depth c]
    length_walk [of "current_parent t w" max_depth "[]" c]
    distinct_butlast_walk [of "current_parent t w" max_depth "[]" c]
  by (simp add: get_ancestors_coherent [OF assms] max_depth_def)

definition demo_hierarchy :: world where
  "demo_hierarchy = svc_upsert_container_edge ''root'' ''team'' ''onedrive'' 1 0
     (svc_upsert_container_edge ''team'' ''leaf'' ''onedrive'' 1 0 init_world)"

lemma demo_hierarchy_coherent: "cache_coherent demo_hierarchy"
  by (simp add: demo_hierarchy_def svc_upsert_container_edge_def Let_def cache_coherent_def init_world_def)

theorem ancestors_are_the_transitive_parents_witness:
  "fst (get_ancestors ''leaf'' 1 5 demo_hierarchy) = [''team'', ''root''] \<and>
   {p. (parent_edge (current_parent 1 demo_hierarchy))\<^sup>+\<^sup>+ ''leaf'' p} = {''team'', ''root''}"
proof -
  have eq: "fst (get_ancestors ''leaf'' 1 5 demo_hierarchy) = [''team'', ''root'']" by code_simp
  show ?thesis
    using ancestors_are_the_transitive_parents [OF demo_hierarchy_coherent, of "''leaf''" 1 5]
    unfolding eq by simp
qed

text \<open>
  Updating a container's parent does not refresh the cached chains of the containers
  below it. In the hierarchy leaf, team, root, after the chain of the leaf was read and the team
  was moved below another root, the chain read for the leaf within the time-to-live still names
  the old root.
\<close>

theorem edge_update_leaves_descendants_stale:
  "(let w1 = snd (get_ancestors ''leaf'' 1 1000 demo_hierarchy);
        w2 = svc_upsert_container_edge ''other'' ''team'' ''onedrive'' 1 1001 w1
    in fst (get_ancestors ''leaf'' 1 1002 w2) = [''team'', ''root''] \<and>
       walk (current_parent 1 w2) max_depth [] ''leaf'' = [''team'', ''other''])"
  by code_simp

end
