(* ===== verification/Acl_Inheritance.thy ===== *)
theory Acl_Inheritance
  imports Container_Service
begin

text \<open>
  Permissions inherited from containers (\<open>backend/app/acl/inheritance.py\<close>): one pass over the
  permissions of every parent chain records, per principal or group, the nearest deny and the
  nearest allow; an allow survives when it is strictly nearer than every deny.
\<close>

type_synonym id_key = "string \<times> uuid"
type_synonym inherit_maps = "(id_key, nat) dict \<times> (id_key, nat \<times> acl_entry) dict"

definition perm_key :: "container_acl_entry \<Rightarrow> id_key option" where
  "perm_key cperm =
     (case ca_principal_id cperm of
        Some p \<Rightarrow> Some (''principal'', p)
      | None \<Rightarrow> (case ca_group_id cperm of Some g \<Rightarrow> Some (''group'', g) | None \<Rightarrow> None))"

definition inherited_entry ::
    "canonical_document \<Rightarrow> string \<Rightarrow> instant \<Rightarrow> container_acl_entry \<Rightarrow> acl_entry" where
  "inherited_entry doc container_id now cperm =
     \<lparr>ae_document_id = cd_id doc, ae_principal_id = ca_principal_id cperm,
      ae_group_id = ca_group_id cperm, ae_permission = ca_permission cperm,
      ae_granted_via = ''inherited'', ae_source_container_id = Some container_id,
      ae_is_deny = False, ae_source_type = cd_source_type doc, ae_tenant_id = cd_tenant_id doc,
      ae_created_at = now, ae_updated_at = now\<rparr>"

definition inherit_perm ::
    "canonical_document \<Rightarrow> instant \<Rightarrow> inherit_maps \<Rightarrow> nat \<times> string \<times> container_acl_entry \<Rightarrow> inherit_maps" where
  "inherit_perm doc now = (\<lambda>(deny_map, allow_map) (distance, container_id, cperm).
     (case perm_key cperm of
        None \<Rightarrow> (deny_map, allow_map)
      | Some key \<Rightarrow>
          if ca_is_deny cperm
          then ((case map_of deny_map key of
                   None \<Rightarrow> AList.update key distance deny_map
                 | Some d \<Rightarrow> if distance < d then AList.update key distance deny_map else deny_map),
                allow_map)
          else (deny_map,
                (let entry = (distance, inherited_entry doc container_id now cperm) in
                 case map_of allow_map key of
                   None \<Rightarrow> AList.update key entry allow_map
                 | Some (d, _) \<Rightarrow> if distance < d then AList.update key entry allow_map else allow_map))))"

definition inherit_container ::
    "canonical_document \<Rightarrow> instant \<Rightarrow> world \<Rightarrow> inherit_maps \<Rightarrow> nat \<times> string \<Rightarrow> inherit_maps" where
  "inherit_container doc now w maps = (\<lambda>(distance, container_id).
     foldl (inherit_perm doc now) maps
       (map (\<lambda>cperm. (distance, container_id, cperm))
         (get_container_permissions container_id (cd_tenant_id doc) w)))"

definition inherit_parent ::
    "canonical_document \<Rightarrow> instant \<Rightarrow> inherit_maps \<times> world \<Rightarrow> string \<Rightarrow> inherit_maps \<times> world" where
  "inherit_parent doc now = (\<lambda>(maps, w) parent_id.
     let (ancestors, w) = get_ancestors parent_id (cd_tenant_id doc) now w;
         all_containers = parent_id # ancestors
     in (foldl (inherit_container doc now w) maps (enumerate 0 all_containers), w))"

definition surviving :: "inherit_maps \<Rightarrow> acl_entry list" where
  "surviving = (\<lambda>(deny_map, allow_map).
     [entry. (key, distance, entry) \<leftarrow> allow_map,
        \<not> (case map_of deny_map key of None \<Rightarrow> False | Some deny_distance \<Rightarrow> deny_distance \<le> distance)])"

definition compute_inherited_entries ::
    "canonical_document \<Rightarrow> instant \<Rightarrow> world \<Rightarrow> acl_entry list \<times> world" where
  "compute_inherited_entries doc now w =
     (let (maps, w) = foldl (inherit_parent doc now) (([], []), w) (cd_parent_ids doc)
      in (surviving maps, w))"

subsection \<open>The stream of inherited permissions\<close>

text \<open>
  Flattening the three loops gives one stream of (distance, container, permission) triples; the
  pass is a fold of \<^const>\<open>inherit_perm\<close> over it.
\<close>

definition chain_of :: "uuid \<Rightarrow> world \<Rightarrow> string \<Rightarrow> string list" where
  "chain_of t w parent_id = parent_id # walk (current_parent t w) max_depth [] parent_id"

definition chain_stream :: "uuid \<Rightarrow> world \<Rightarrow> string \<Rightarrow> (nat \<times> string \<times> container_acl_entry) list" where
  "chain_stream t w parent_id = concat (map (\<lambda>(distance, c).
     map (\<lambda>cp. (distance, c, cp)) (get_container_permissions c t w)) (enumerate 0 (chain_of t w parent_id)))"

definition perm_stream :: "canonical_document \<Rightarrow> world \<Rightarrow> (nat \<times> string \<times> container_acl_entry) list" where
  "perm_stream doc w = concat (map (chain_stream (cd_tenant_id doc) w) (cd_parent_ids doc))"

lemma get_container_permissions_cong:
  "w_repo w = w_repo w' \<Longrightarrow> get_container_permissions c t w = get_container_permissions c t w'"
  by (simp add: get_container_permissions_def)

lemma foldl_inherit_container:
  "foldl (inherit_container doc now w) maps xs = foldl (inherit_perm doc now) maps
     (concat (map (\<lambda>(d, c). map (\<lambda>cp. (d, c, cp)) (get_container_permissions c (cd_tenant_id doc) w)) xs))"
  by (induction xs arbitrary: maps) (auto simp: inherit_container_def)

lemma inherit_parent_stream:
  assumes "cache_coherent w"
  shows "fst (inherit_parent doc now (maps, w) p) =
      foldl (inherit_perm doc now) maps (chain_stream (cd_tenant_id doc) w p)"
    and "w_repo (snd (inherit_parent doc now (maps, w) p)) = w_repo w"
    and "cache_coherent (snd (inherit_parent doc now (maps, w) p))"
proof -
  obtain as w' where g: "get_ancestors p (cd_tenant_id doc) now w = (as, w')" by fastforce
  have as: "as = walk (current_parent (cd_tenant_id doc) w) max_depth [] p"
    using get_ancestors_coherent [OF assms, of p "cd_tenant_id doc" now] g by simp
  have repo: "w_repo w' = w_repo w" and coh: "cache_coherent w'"
    using get_ancestors_repo [of p "cd_tenant_id doc" now w]
      cache_coherent_get_ancestors [OF assms, of p "cd_tenant_id doc" now] g by simp_all
  show "fst (inherit_parent doc now (maps, w) p) =
      foldl (inherit_perm doc now) maps (chain_stream (cd_tenant_id doc) w p)"
    by (simp add: inherit_parent_def g as chain_stream_def chain_of_def foldl_inherit_container
        get_container_permissions_cong [OF repo] del: enumerate_simps)
  show "w_repo (snd (inherit_parent doc now (maps, w) p)) = w_repo w"
    and "cache_coherent (snd (inherit_parent doc now (maps, w) p))"
    by (simp_all add: inherit_parent_def g repo coh del: enumerate_simps)
qed

lemma chain_stream_cong: "w_repo w = w_repo w' \<Longrightarrow> chain_stream t w p = chain_stream t w' p"
  by (simp add: chain_stream_def chain_of_def current_parent_def get_container_permissions_def)

lemma foldl_inherit_parent:
  assumes "cache_coherent w"
  shows "fst (foldl (inherit_parent doc now) (maps, w) ps) =
      foldl (inherit_perm doc now) maps (concat (map (chain_stream (cd_tenant_id doc) w) ps))
    \<and> w_repo (snd (foldl (inherit_parent doc now) (maps, w) ps)) = w_repo w
    \<and> cache_coherent (snd (foldl (inherit_parent doc now) (maps, w) ps))"
  using assms
proof (induction ps arbitrary: maps w)
  case (Cons p ps)
  obtain maps' w' where i: "inherit_parent doc now (maps, w) p = (maps', w')" by fastforce
  note st = inherit_parent_stream [OF Cons.prems, of doc now maps p, unfolded i fst_conv snd_conv]
  from Cons.IH [OF st(3), of maps'] show ?case
    using st chain_stream_cong [OF st(2)] by (simp add: i)
qed simp

lemma inherited_stream:
  "cache_coherent w \<Longrightarrow> fst (compute_inherited_entries doc now w) =
     surviving (foldl (inherit_perm doc now) ([], []) (perm_stream doc w))"
  using foldl_inherit_parent [of w doc now "([], [])" "cd_parent_ids doc"]
  by (simp add: compute_inherited_entries_def perm_stream_def case_prod_beta Let_def)

lemma inherited_world:
  "cache_coherent w \<Longrightarrow> w_repo (snd (compute_inherited_entries doc now w)) = w_repo w \<and>
     cache_coherent (snd (compute_inherited_entries doc now w))"
  using foldl_inherit_parent [of w doc now "([], [])" "cd_parent_ids doc"]
  by (simp add: compute_inherited_entries_def case_prod_beta Let_def)

subsection \<open>Nearest allow against nearest deny\<close>

definition dists :: "bool \<Rightarrow> id_key \<Rightarrow> (nat \<times> string \<times> container_acl_entry) list \<Rightarrow> nat set" where
  "dists deny key xs = {d. \<exists>c cp. (d, c, cp) \<in> set xs \<and> perm_key cp = Some key \<and> ca_is_deny cp = deny}"

definition entry_key :: "acl_entry \<Rightarrow> id_key option" where
  "entry_key e = (case ae_principal_id e of Some p \<Rightarrow> Some (''principal'', p)
     | None \<Rightarrow> (case ae_group_id e of Some g \<Rightarrow> Some (''group'', g) | None \<Rightarrow> None))"

lemma dists_snoc:
  "dists b k (xs @ [(d, c, cp)]) =
     (if perm_key cp = Some k \<and> ca_is_deny cp = b then insert d (dists b k xs) else dists b k xs)"
  by (auto simp: dists_def)

lemma entry_key_inherited: "entry_key (inherited_entry doc c now cp) = perm_key cp"
  by (simp add: entry_key_def perm_key_def inherited_entry_def split: option.splits)

text \<open>What the two maps say of a key after the permissions \<open>xs\<close> were read.\<close>

definition deny_ok :: "(nat \<times> string \<times> container_acl_entry) list \<Rightarrow> id_key \<Rightarrow> nat option \<Rightarrow> bool" where
  "deny_ok xs k r = (case r of None \<Rightarrow> dists True k xs = {}
     | Some d \<Rightarrow> d \<in> dists True k xs \<and> (\<forall>x \<in> dists True k xs. d \<le> x))"

definition allow_ok :: "canonical_document \<Rightarrow> instant \<Rightarrow> (nat \<times> string \<times> container_acl_entry) list \<Rightarrow>
    id_key \<Rightarrow> (nat \<times> acl_entry) option \<Rightarrow> bool" where
  "allow_ok doc now xs k r = (case r of None \<Rightarrow> dists False k xs = {}
     | Some (d, e) \<Rightarrow> (\<exists>c cp. (d, c, cp) \<in> set xs \<and> perm_key cp = Some k \<and> \<not> ca_is_deny cp \<and>
           e = inherited_entry doc c now cp) \<and> (\<forall>x \<in> dists False k xs. d \<le> x))"

definition maps_ok :: "canonical_document \<Rightarrow> instant \<Rightarrow> (nat \<times> string \<times> container_acl_entry) list \<Rightarrow> inherit_maps \<Rightarrow> bool" where
  "maps_ok doc now xs maps \<longleftrightarrow> dict_wf (snd maps) \<and>
     (\<forall>k. deny_ok xs k (map_of (fst maps) k)) \<and> (\<forall>k. allow_ok doc now xs k (map_of (snd maps) k))"

lemma maps_okD:
  "maps_ok doc now xs maps \<Longrightarrow> dict_wf (snd maps)"
  "maps_ok doc now xs maps \<Longrightarrow> deny_ok xs k (map_of (fst maps) k)"
  "maps_ok doc now xs maps \<Longrightarrow> allow_ok doc now xs k (map_of (snd maps) k)"
  unfolding maps_ok_def by blast+

lemma deny_ok_other:
  "perm_key cp \<noteq> Some k \<or> \<not> ca_is_deny cp \<Longrightarrow> deny_ok (xs @ [(d, c, cp)]) k r = deny_ok xs k r"
  by (auto simp: deny_ok_def dists_snoc split: option.splits)

lemma allow_ok_other:
  assumes "perm_key cp \<noteq> Some k \<or> ca_is_deny cp" "allow_ok doc now xs k r"
  shows "allow_ok doc now (xs @ [(d, c, cp)]) k r"
proof -
  have "dists False k (xs @ [(d, c, cp)]) = dists False k xs"
    using assms(1) by (auto simp: dists_snoc)
  with assms(2) show ?thesis
    by (fastforce simp: allow_ok_def split: option.splits)
qed

lemma deny_ok_this:
  assumes "deny_ok xs k r" "perm_key cp = Some k" "ca_is_deny cp"
  shows "deny_ok (xs @ [(d, c, cp)]) k
    (case r of None \<Rightarrow> Some d | Some d' \<Rightarrow> if d < d' then Some d else Some d')"
  using assms by (fastforce simp: deny_ok_def dists_snoc split: option.splits)

lemma allow_ok_this:
  assumes "allow_ok doc now xs k r" "perm_key cp = Some k" "\<not> ca_is_deny cp"
  shows "allow_ok doc now (xs @ [(d, c, cp)]) k
    (case r of None \<Rightarrow> Some (d, inherited_entry doc c now cp)
     | Some (d', e) \<Rightarrow> if d < d' then Some (d, inherited_entry doc c now cp) else Some (d', e))"
proof -
  have D: "dists False k (xs @ [(d, c, cp)]) = insert d (dists False k xs)"
    using assms by (simp add: dists_snoc)
  show ?thesis
  proof (cases r)
    case None
    with assms D show ?thesis by (auto simp: allow_ok_def)
  next
    case (Some p)
    obtain d' e where p: "p = (d', e)" by (cases p)
    from assms(1) show ?thesis
      unfolding allow_ok_def D Some p using assms(2,3) by (fastforce simp: not_less)
  qed
qed

lemma maps_ok_step:
  assumes "maps_ok doc now xs maps"
  shows "maps_ok doc now (xs @ [(d, c, cp)]) (inherit_perm doc now maps (d, c, cp))"
proof -
  obtain dm am where maps: "maps = (dm, am)" by (cases maps)
  have wf: "dict_wf am" and D: "\<And>k. deny_ok xs k (map_of dm k)"
    and A: "\<And>k. allow_ok doc now xs k (map_of am k)"
    using maps_okD [OF assms] by (simp_all add: maps)
  show ?thesis
  proof (cases "perm_key cp")
    case None
    then have "inherit_perm doc now maps (d, c, cp) = maps"
      by (simp add: inherit_perm_def maps)
    then show ?thesis using wf D A None
      by (simp add: maps_ok_def maps deny_ok_other allow_ok_other)
  next
    case (Some key)
    show ?thesis
    proof (cases "ca_is_deny cp")
      case True
      have "deny_ok (xs @ [(d, c, cp)]) k (map_of (fst (inherit_perm doc now maps (d, c, cp))) k)" for k
      proof (cases "k = key")
        case True
        with deny_ok_this [OF D Some \<open>ca_is_deny cp\<close>, of d c] Some \<open>ca_is_deny cp\<close> show ?thesis
          by (auto simp: inherit_perm_def maps dict_simps split: option.splits if_splits)
      next
        case False
        with D [of k] Some \<open>ca_is_deny cp\<close> show ?thesis
          by (auto simp: inherit_perm_def maps dict_simps deny_ok_other split: option.splits)
      qed
      moreover have "snd (inherit_perm doc now maps (d, c, cp)) = am"
        using True Some by (simp add: inherit_perm_def maps)
      ultimately show ?thesis using wf A True by (simp add: maps_ok_def allow_ok_other)
    next
      case False
      have "allow_ok doc now (xs @ [(d, c, cp)]) k (map_of (snd (inherit_perm doc now maps (d, c, cp))) k)" for k
      proof (cases "k = key")
        case True
        with allow_ok_this [OF A Some False, of d c] Some False show ?thesis
          by (auto simp: inherit_perm_def maps Let_def dict_simps split: option.splits if_splits)
      next
        case neq: False
        with allow_ok_other [OF _ A [of k], of cp d c] Some False show ?thesis
          by (auto simp: inherit_perm_def maps Let_def dict_simps split: option.splits)
      qed
      moreover have "fst (inherit_perm doc now maps (d, c, cp)) = dm"
        and "dict_wf (snd (inherit_perm doc now maps (d, c, cp)))"
        using False Some wf by (simp_all add: inherit_perm_def maps Let_def split: option.splits)
      ultimately show ?thesis using D False by (simp add: maps_ok_def deny_ok_other)
    qed
  qed
qed

lemma maps_ok_foldl: "maps_ok doc now xs (foldl (inherit_perm doc now) ([], []) xs)"
proof (induction xs rule: rev_induct)
  case Nil
  show ?case by (simp add: maps_ok_def deny_ok_def allow_ok_def dists_def)
next
  case (snoc x xs)
  obtain d c cp where "x = (d, c, cp)" by (cases x)
  with maps_ok_step [OF snoc.IH, of d c cp] show ?case by simp
qed

text \<open>A surviving entry is the nearest allow of its key, and no deny of the key is as near.\<close>

lemma set_survivors: "set [e. (k, d, e) \<leftarrow> am, P k d] = {e. \<exists>k d. (k, d, e) \<in> set am \<and> P k d}"
  by (induction am) auto

lemma surviving_iff:
  assumes "maps_ok doc now xs maps"
  shows "e \<in> set (surviving maps) \<longleftrightarrow> (\<exists>k d. map_of (snd maps) k = Some (d, e) \<and>
     (\<forall>x \<in> dists True k xs. d < x))"
proof -
  obtain dm am where maps: "maps = (dm, am)" by (cases maps)
  have wf: "dict_wf am" and D: "\<And>k. deny_ok xs k (map_of dm k)"
    using maps_okD [OF assms] by (simp_all add: maps)
  have deny: "(case map_of dm k of None \<Rightarrow> False | Some y \<Rightarrow> y \<le> d) \<longleftrightarrow> \<not> (\<forall>x \<in> dists True k xs. d < x)" for k d
    using D [of k] by (fastforce simp: deny_ok_def not_less split: option.splits)
  have "e \<in> set (surviving maps) \<longleftrightarrow> (\<exists>k d. (k, d, e) \<in> set am \<and> (\<forall>x \<in> dists True k xs. d < x))"
    unfolding surviving_def maps prod.case deny set_survivors by simp
  then show ?thesis by (simp add: in_set_dict_iff [OF wf] maps)
qed

lemma allow_okD:
  "allow_ok doc now xs k (Some (d, e)) \<Longrightarrow> d \<in> dists False k xs \<and> (\<forall>x \<in> dists False k xs. d \<le> x) \<and>
     entry_key e = Some k \<and>
     (\<exists>c cp. (d, c, cp) \<in> set xs \<and> perm_key cp = Some k \<and> \<not> ca_is_deny cp \<and> e = inherited_entry doc c now cp)"
  by (auto simp: allow_ok_def dists_def entry_key_inherited; blast)

lemma allow_ok_ex:
  assumes "allow_ok doc now xs k r" "dists False k xs \<noteq> {}"
  shows "\<exists>d e. r = Some (d, e)"
  using assms by (auto simp: allow_ok_def split: option.splits)

text \<open>
  Property C2: the inherited entries of a document are decided by the nearest permission. A
  principal or group has an inherited entry exactly when some allow on the document's parent
  chains is strictly nearer than every deny for the same principal or group, and every inherited
  entry is the one built from a nearest allow of its key (its container, its permission).
\<close>

theorem inherited_entry_iff_nearest_allow:
  assumes "cache_coherent w"
  shows "(\<forall>k. (\<exists>e \<in> set (fst (compute_inherited_entries doc now w)). entry_key e = Some k) \<longleftrightarrow>
       (\<exists>a \<in> dists False k (perm_stream doc w). \<forall>d \<in> dists True k (perm_stream doc w). a < d)) \<and>
    (\<forall>e \<in> set (fst (compute_inherited_entries doc now w)).
       \<exists>k d c cp. entry_key e = Some k \<and> (d, c, cp) \<in> set (perm_stream doc w) \<and> perm_key cp = Some k \<and>
         \<not> ca_is_deny cp \<and> e = inherited_entry doc c now cp \<and>
         (\<forall>x \<in> dists False k (perm_stream doc w). d \<le> x))"
proof -
  define xs where "xs = perm_stream doc w"
  define maps where "maps = foldl (inherit_perm doc now) ([], []) xs"
  have ok: "maps_ok doc now xs maps" by (simp add: maps_def maps_ok_foldl)
  have out: "fst (compute_inherited_entries doc now w) = surviving maps"
    using inherited_stream [OF assms] by (simp add: maps_def xs_def)
  have "(\<exists>e \<in> set (surviving maps). entry_key e = Some k) \<longleftrightarrow>
      (\<exists>a \<in> dists False k xs. \<forall>d \<in> dists True k xs. a < d)" for k
  proof
    assume "\<exists>e \<in> set (surviving maps). entry_key e = Some k"
    then obtain e k' d where e: "entry_key e = Some k" "map_of (snd maps) k' = Some (d, e)"
      "\<forall>x \<in> dists True k' xs. d < x" by (auto simp: surviving_iff [OF ok])
    have "d \<in> dists False k' xs \<and> entry_key e = Some k'"
      using allow_okD [OF maps_okD(3) [OF ok, of k', unfolded e(2)]] by blast
    then have "d \<in> dists False k xs" "\<forall>x \<in> dists True k xs. d < x" using e(1,3) by simp_all
    then show "\<exists>a \<in> dists False k xs. \<forall>d \<in> dists True k xs. a < d" by (rule bexI [rotated])
  next
    assume "\<exists>a \<in> dists False k xs. \<forall>d \<in> dists True k xs. a < d"
    then obtain a where a: "a \<in> dists False k xs" "\<forall>d \<in> dists True k xs. a < d" by blast
    then obtain d e where m: "map_of (snd maps) k = Some (d, e)"
      using allow_ok_ex [OF maps_okD(3) [OF ok, of k]] by blast
    have "d \<le> a" "entry_key e = Some k"
      using allow_okD [OF maps_okD(3) [OF ok, of k, unfolded m]] a(1) by blast+
    with m a(2) show "\<exists>e \<in> set (surviving maps). entry_key e = Some k"
      unfolding surviving_iff [OF ok] Bex_def by (meson le_less_trans)
  qed
  moreover have "\<exists>k d c cp. entry_key e = Some k \<and> (d, c, cp) \<in> set xs \<and> perm_key cp = Some k \<and>
      \<not> ca_is_deny cp \<and> e = inherited_entry doc c now cp \<and> (\<forall>x \<in> dists False k xs. d \<le> x)"
    if mem: "e \<in> set (surviving maps)" for e
  proof -
    obtain k d where m: "map_of (snd maps) k = Some (d, e)" using mem by (auto simp: surviving_iff [OF ok])
    from allow_okD [OF maps_okD(3) [OF ok, of k, unfolded m]] show ?thesis by blast
  qed
  ultimately show ?thesis by (simp add: out flip: xs_def)
qed

text \<open>
  The witness: on the chain team, root of the leaf, principal 5 is denied on the team and allowed
  on the root, principal 6 is allowed on the leaf itself and denied on the root.
\<close>

definition demo_perm :: "string \<Rightarrow> uuid \<Rightarrow> bool \<Rightarrow> container_acl_entry" where
  "demo_perm c who deny = \<lparr>ca_container_id = c, ca_principal_id = Some who, ca_group_id = None,
     ca_permission = READ, ca_is_deny = deny, ca_source_type = ''onedrive'', ca_tenant_id = 1,
     ca_created_at = 0, ca_updated_at = 0\<rparr>"

definition demo_doc :: "string list \<Rightarrow> canonical_document" where
  "demo_doc parents = \<lparr>cd_id = ''d'', cd_source_type = ''onedrive'', cd_source_id = ''s'', cd_tenant_id = 1,
     cd_title = ''t'', cd_content = ''c'', cd_url = None, cd_mime_type = ''m'', cd_detected_mime_type = ''m'',
     cd_mime_mismatch = False, cd_file_extension = None, cd_size_bytes = None, cd_created_at = 0,
     cd_updated_at = 0, cd_source_updated_at = 0, cd_owner_principal_id = None,
     cd_creator_principal_id = None, cd_last_modifier_principal_id = None, cd_structured_metadata = [],
     cd_parent_ids = parents\<rparr>"

definition demo_folders :: world where
  "demo_folders = foldl (\<lambda>w cp. svc_upsert_container_acl cp w) demo_hierarchy
     [demo_perm ''team'' 5 True, demo_perm ''root'' 5 False, demo_perm ''leaf'' 6 False, demo_perm ''root'' 6 True]"

lemma demo_folders_coherent: "cache_coherent demo_folders"
  using demo_hierarchy_coherent
  by (simp add: demo_folders_def svc_upsert_container_acl_def Let_def cache_coherent_def current_parent_def
      upsert_container_acl_def get_parent_container_def)

theorem inherited_entry_iff_nearest_allow_witness:
  "map ae_principal_id (fst (compute_inherited_entries (demo_doc [''leaf'']) 7 demo_folders)) = [Some 6] \<and>
   (\<exists>a \<in> dists False (''principal'', 6) (perm_stream (demo_doc [''leaf'']) demo_folders).
      \<forall>d \<in> dists True (''principal'', 6) (perm_stream (demo_doc [''leaf'']) demo_folders). a < d) \<and>
   \<not> (\<exists>a \<in> dists False (''principal'', 5) (perm_stream (demo_doc [''leaf'']) demo_folders).
      \<forall>d \<in> dists True (''principal'', 5) (perm_stream (demo_doc [''leaf'']) demo_folders). a < d)"
proof -
  have ids: "map ae_principal_id (fst (compute_inherited_entries (demo_doc [''leaf'']) 7 demo_folders)) = [Some 6]"
    by code_simp
  have keys: "map entry_key (fst (compute_inherited_entries (demo_doc [''leaf'']) 7 demo_folders))
      = [Some (''principal'', 6)]"
    by code_simp
  have mem: "(\<exists>e \<in> set (fst (compute_inherited_entries (demo_doc [''leaf'']) 7 demo_folders)). entry_key e = k)
      \<longleftrightarrow> k = Some (''principal'', 6)" for k
    using arg_cong [OF keys, of "\<lambda>ks. k \<in> set ks"] by (auto simp: image_iff)
  note c = inherited_entry_iff_nearest_allow [OF demo_folders_coherent, of "demo_doc [''leaf'']" 7,
      THEN conjunct1, THEN spec]
  show ?thesis
    using ids c [of "(''principal'', 6)"] c [of "(''principal'', 5)"] unfolding mem by simp
qed

end
