(* ===== verification/Identity.thy ===== *)
theory Identity
  imports Container_Service
begin

text \<open>
  Identity resolution (\<open>backend/app/identity/resolver.py\<close> and the matchers): hints from the
  sources become principals of a tenant, by email, by source-scoped username or by creating a
  principal; Drive and Gmail hints bind to login users or are queued. \<open>validate_email\<close> is a
  third-party function and a parameter (\<open>valid_email\<close>). An awaited call that raises leaves the
  state it had reached, so results are pairs of an error or a value with the world.
\<close>

definition MIRROR_BIND_SOURCES :: "string list" where
  "MIRROR_BIND_SOURCES = [''google_drive'', ''google_gmail'']"

datatype resolve_error = NoEmailError | RepoError repo_error

datatype matcher = EmailMatcher | UsernameMatcher

definition match_by_email_matcher :: "string \<Rightarrow> uuid \<Rightarrow> repo \<Rightarrow> principal option" where
  "match_by_email_matcher email tenant_id r = get_principal_by_email email tenant_id r"

definition match_by_username :: "string \<Rightarrow> string \<Rightarrow> uuid \<Rightarrow> repo \<Rightarrow> principal option" where
  "match_by_username username source_type tenant_id r =
     get_principal_by_source_identity source_type username tenant_id r"

definition normalize_email :: "(string \<Rightarrow> bool) \<Rightarrow> string option \<Rightarrow> string option" where
  "normalize_email valid_email email =
     (if opt_str email = [] then None
      else let e = str_lower (str_strip (opt_str email)) in if valid_email e then Some e else None)"

definition update_source_identity ::
    "principal \<Rightarrow> identity_hint \<Rightarrow> instant \<Rightarrow> world \<Rightarrow> principal \<times> world" where
  "update_source_identity p hint now w =
     (if map_of (p_source_identities p) (ih_source_type hint) = None
      then let p' = p\<lparr>p_source_identities := AList.update (ih_source_type hint) (ih_external_id hint)
                                              (p_source_identities p), p_updated_at := now\<rparr>
           in (p', w\<lparr>w_repo := update_principal p' (w_repo w)\<rparr>)
      else (p, w))"

definition match_by_email ::
    "string \<Rightarrow> uuid \<Rightarrow> identity_hint \<Rightarrow> instant \<Rightarrow> world \<Rightarrow> principal option \<times> world" where
  "match_by_email normalized_email tenant_id hint now w =
     (case get_principal_by_email normalized_email tenant_id (w_repo w) of
        None \<Rightarrow> (None, w)
      | Some p \<Rightarrow> let (p', w') = update_source_identity p hint now w in (Some p', w'))"

text \<open>The identifier comes from the supply, as \<open>uuid4\<close> never returns one that is in use.\<close>

definition create_principal_for ::
    "string \<Rightarrow> uuid \<Rightarrow> identity_hint \<Rightarrow> instant \<Rightarrow> world \<Rightarrow> (resolve_error + principal) \<times> world" where
  "create_principal_for normalized_email tenant_id hint now w =
     (let p = \<lparr>p_id = w_next_uuid w, p_tenant_id = tenant_id, p_email = normalized_email,
               p_name = ih_name hint,
               p_source_identities = [(ih_source_type hint, ih_external_id hint)],
               p_created_at = now, p_updated_at = now\<rparr>;
          w = w\<lparr>w_next_uuid := Suc (w_next_uuid w)\<rparr>
      in case create_principal p (w_repo w) of
           Inr r' \<Rightarrow> (Inr p, w\<lparr>w_repo := r'\<rparr>)
         | Inl err \<Rightarrow>
             (case get_principal_by_email normalized_email tenant_id (w_repo w) of
                Some existing \<Rightarrow>
                  let (p', w') = update_source_identity existing hint now w in (Inr p', w')
              | None \<Rightarrow> (Inl (RepoError err), w)))"

definition resolved :: "principal \<Rightarrow> nat \<Rightarrow> match_kind \<Rightarrow> resolved_identity" where
  "resolved p confidence matched_on =
     \<lparr>ri_principal_id = Some (p_id p), ri_principal = Some p, ri_confidence = confidence,
      ri_matched_on = matched_on, ri_is_pending = False\<rparr>"

definition pending :: resolved_identity where
  "pending = \<lparr>ri_principal_id = None, ri_principal = None, ri_confidence = 0,
     ri_matched_on = MatchedPending, ri_is_pending = True\<rparr>"

definition bound_principal :: "uuid \<Rightarrow> string \<Rightarrow> uuid \<Rightarrow> identity_hint \<Rightarrow> instant \<Rightarrow> principal" where
  "bound_principal who email tenant_id hint now =
     \<lparr>p_id = who, p_tenant_id = tenant_id, p_email = email, p_name = ih_name hint,
      p_source_identities = [(ih_source_type hint, ih_external_id hint)],
      p_created_at = now, p_updated_at = now\<rparr>"

text \<open>\<open>IdentityHint\<close> has no field \<open>role\<close>, so \<open>getattr(hint, "role", None)\<close> is \<open>None\<close>.\<close>

definition hint_role :: "identity_hint \<Rightarrow> string option" where
  "hint_role hint = None"

definition is_owner_hint :: "identity_hint \<Rightarrow> bool" where
  "is_owner_hint hint = (hint_role hint \<in> {Some ''owner'', Some ''creator''} \<or>
     ih_source_type hint = ''google_gmail'')"

definition lookup_login_user :: "string \<Rightarrow> uuid \<Rightarrow> world \<Rightarrow> (uuid \<times> string) option" where
  "lookup_login_user normalized_email tenant_id w =
     (case get_login_user_by_email normalized_email tenant_id (w_repo w) of
        Some u \<Rightarrow> Some u
      | None \<Rightarrow> map_option (\<lambda>p. (p_id p, p_email p))
                  (get_principal_by_email normalized_email tenant_id (w_repo w)))"

definition resolve_drive_share ::
    "identity_hint \<Rightarrow> uuid \<Rightarrow> string \<Rightarrow> string \<Rightarrow> uuid option \<Rightarrow> instant \<Rightarrow> world
     \<Rightarrow> resolved_identity \<times> world" where
  "resolve_drive_share hint tenant_id normalized_email document_id source_account_id now w =
     (let key = (tenant_id, normalized_email) in
      case map_of (w_email_cache w) key of
        Some (Some (who, email)) \<Rightarrow> (resolved (bound_principal who email tenant_id hint now) 10 MatchedEmail, w)
      | Some None \<Rightarrow> (pending, w)
      | None \<Rightarrow>
          let login_user = lookup_login_user normalized_email tenant_id w;
              (login_user, is_new, w) =
                (if login_user = None \<and> normalized_email \<noteq> [] \<and> is_owner_hint hint
                 then case create_principal_for normalized_email tenant_id hint now w of
                        (Inr p, w') \<Rightarrow> (Some (p_id p, p_email p), True, w')
                      | (Inl _, w') \<Rightarrow> (None, False, w')
                 else (login_user, False, w))
          in case login_user of
               Some (who, email) \<Rightarrow>
                 (resolved (bound_principal who email tenant_id hint now) 10
                    (if is_new then MatchedNew else MatchedEmail),
                  w\<lparr>w_email_cache := AList.update key (Some (who, email)) (w_email_cache w)\<rparr>)
             | None \<Rightarrow>
                 let w = w\<lparr>w_email_cache := AList.update key None (w_email_cache w)\<rparr> in
                 (pending,
                  if ih_source_type hint \<noteq> ''google_gmail''
                  then w\<lparr>w_repo := fst (upsert_pending_identity tenant_id document_id normalized_email
                                        source_account_id (w_next_uuid w) now (w_repo w)),
                         w_next_uuid := Suc (w_next_uuid w)\<rparr>
                  else w))"

fun try_matchers ::
    "matcher list \<Rightarrow> string \<Rightarrow> identity_hint \<Rightarrow> uuid \<Rightarrow> instant \<Rightarrow> world
     \<Rightarrow> (resolved_identity \<times> world) option" where
  "try_matchers [] username hint tenant_id now w = None"
| "try_matchers (EmailMatcher # ms) username hint tenant_id now w =
     try_matchers ms username hint tenant_id now w"
| "try_matchers (UsernameMatcher # ms) username hint tenant_id now w =
     (case match_by_username username (ih_source_type hint) tenant_id (w_repo w) of
        Some p \<Rightarrow> let (p', w') = update_source_identity p hint now w
                  in Some (resolved p' 8 MatchedUsername, w')
      | None \<Rightarrow> try_matchers ms username hint tenant_id now w)"

definition resolve_fallback ::
    "matcher list \<Rightarrow> string option \<Rightarrow> identity_hint \<Rightarrow> uuid \<Rightarrow> instant \<Rightarrow> world
     \<Rightarrow> (resolve_error + resolved_identity) \<times> world" where
  "resolve_fallback matchers normalized hint tenant_id now w =
     (case (if opt_str (ih_username hint) \<noteq> []
            then try_matchers matchers (opt_str (ih_username hint)) hint tenant_id now w else None) of
        Some (ri, w') \<Rightarrow> (Inr ri, w')
      | None \<Rightarrow>
          if opt_str normalized \<noteq> []
          then case create_principal_for (opt_str normalized) tenant_id hint now w of
                 (Inr p, w') \<Rightarrow> (Inr (resolved p 10 MatchedNew), w')
               | (Inl e, w') \<Rightarrow> (Inl e, w')
          else (Inl NoEmailError, w))"

definition resolve ::
    "(string \<Rightarrow> bool) \<Rightarrow> matcher list \<Rightarrow> identity_hint \<Rightarrow> uuid \<Rightarrow> string option \<Rightarrow> uuid option \<Rightarrow> instant
     \<Rightarrow> world \<Rightarrow> (resolve_error + resolved_identity) \<times> world" where
  "resolve valid_email matchers hint tenant_id document_id source_account_id now w =
     (let normalized = (if opt_str (ih_email hint) \<noteq> [] then normalize_email valid_email (ih_email hint)
                        else None)
      in if ih_source_type hint \<in> set MIRROR_BIND_SOURCES \<and> opt_str normalized \<noteq> []
         then let (ri, w') = resolve_drive_share hint tenant_id (opt_str normalized)
                    (if opt_str document_id \<noteq> [] then opt_str document_id else ''unknown'')
                    source_account_id now w
              in (Inr ri, w')
         else if opt_str normalized \<noteq> []
         then case match_by_email (opt_str normalized) tenant_id hint now w of
                (Some p, w') \<Rightarrow> (Inr (resolved p 10 MatchedEmail), w')
              | (None, w') \<Rightarrow> resolve_fallback matchers normalized hint tenant_id now w'
         else resolve_fallback matchers normalized hint tenant_id now w)"

subsection \<open>The directory invariant\<close>

text \<open>
  The two principal dictionaries index the same principals: by identifier, and by tenant and
  lower-case email. Hence a tenant has at most one principal per email.
\<close>

definition directory_ok :: "world \<Rightarrow> bool" where
  "directory_ok w \<longleftrightarrow>
     (\<forall>k p. map_of (r_principals_by_email (w_repo w)) k = Some p \<longrightarrow>
        k = (p_tenant_id p, str_lower (p_email p)) \<and> map_of (r_principals (w_repo w)) (p_id p) = Some p) \<and>
     (\<forall>i p. map_of (r_principals (w_repo w)) i = Some p \<longrightarrow> p_id p = i \<and> i < w_next_uuid w \<and>
        map_of (r_principals_by_email (w_repo w)) (p_tenant_id p, str_lower (p_email p)) = Some p)"

definition registered :: "principal \<Rightarrow> world \<Rightarrow> bool" where
  "registered p w = (map_of (r_principals (w_repo w)) (p_id p) = Some p \<and>
     map_of (r_principals_by_email (w_repo w)) (p_tenant_id p, str_lower (p_email p)) = Some p)"

lemma directoryD1:
  "directory_ok w \<Longrightarrow> map_of (r_principals_by_email (w_repo w)) k = Some p \<Longrightarrow>
     k = (p_tenant_id p, str_lower (p_email p)) \<and> map_of (r_principals (w_repo w)) (p_id p) = Some p"
  unfolding directory_ok_def by blast

lemma directoryD2:
  "directory_ok w \<Longrightarrow> map_of (r_principals (w_repo w)) i = Some p \<Longrightarrow> p_id p = i \<and> i < w_next_uuid w \<and>
     map_of (r_principals_by_email (w_repo w)) (p_tenant_id p, str_lower (p_email p)) = Some p"
  unfolding directory_ok_def by blast

lemma directory_by_email:
  "directory_ok w \<Longrightarrow> get_principal_by_email e t (w_repo w) = Some p \<Longrightarrow>
     registered p w \<and> p_tenant_id p = t \<and> str_lower (p_email p) = str_lower e"
  using directoryD1 [of w "(t, str_lower e)" p] by (simp add: registered_def get_principal_by_email_def)

lemma directory_by_source:
  assumes "directory_ok w" and "dict_wf (r_principals (w_repo w))"
    and "get_principal_by_source_identity s x t (w_repo w) = Some p"
  shows "registered p w \<and> p_tenant_id p = t"
proof -
  from find_SomeD [OF assms(3) [unfolded get_principal_by_source_identity_def]]
  obtain i where "(i, p) \<in> set (r_principals (w_repo w))" and t: "p_tenant_id p = t" by auto
  with assms(2) have "map_of (r_principals (w_repo w)) i = Some p" by (simp add: in_set_dict_iff)
  from directoryD2 [OF assms(1) this] this t show ?thesis by (simp add: registered_def)
qed

definition identity_inv :: "world \<Rightarrow> bool" where
  "identity_inv w = (directory_ok w \<and> dict_wf (r_principals (w_repo w)))"

lemma identity_inv_init: "identity_inv init_world"
  by (simp add: identity_inv_def directory_ok_def init_world_def empty_repo_def)

lemma update_source_identity_inv:
  assumes "identity_inv w" and "registered p w" and "update_source_identity p hint now w = (p', w')"
  shows "identity_inv w' \<and> registered p' w' \<and> p_id p' = p_id p \<and> p_tenant_id p' = p_tenant_id p \<and>
     p_email p' = p_email p"
proof (cases "map_of (p_source_identities p) (ih_source_type hint) = None")
  case True
  define K where "K = (p_tenant_id p, str_lower (p_email p))"
  have p': "p' = p\<lparr>p_source_identities := AList.update (ih_source_type hint) (ih_external_id hint)
              (p_source_identities p), p_updated_at := now\<rparr>"
    and w': "w' = w\<lparr>w_repo := update_principal p' (w_repo w)\<rparr>"
    using assms(3) True by (auto simp: update_source_identity_def Let_def)
  have f: "p_id p' = p_id p" "p_tenant_id p' = p_tenant_id p" "p_email p' = p_email p"
    by (simp_all add: p')
  have E: "map_of (r_principals_by_email (w_repo w')) k =
      (if k = K then Some p' else map_of (r_principals_by_email (w_repo w)) k)" for k
    by (simp add: w' update_principal_def dict_simps f K_def)
  have P: "map_of (r_principals (w_repo w')) i =
      (if i = p_id p then Some p' else map_of (r_principals (w_repo w)) i)" for i
    by (simp add: w' update_principal_def dict_simps f)
  have n: "w_next_uuid w' = w_next_uuid w" by (simp add: w')
  have old: "map_of (r_principals (w_repo w)) (p_id p) = Some p"
    "map_of (r_principals_by_email (w_repo w)) K = Some p"
    using assms(2) by (simp_all add: registered_def K_def)
  have dir: "directory_ok w" using assms(1) by (simp add: identity_inv_def)
  have "directory_ok w'"
    unfolding directory_ok_def E P n
  proof (intro conjI allI impI)
    fix k q assume q: "(if k = K then Some p' else map_of (r_principals_by_email (w_repo w)) k) = Some q"
    show "k = (p_tenant_id q, str_lower (p_email q))"
    proof (cases "k = K")
      case True
      with q have "q = p'" by simp
      with True show ?thesis by (simp add: f K_def)
    next
      case False
      with q directoryD1 [OF dir, of k q] show ?thesis by simp
    qed
    show "(if p_id q = p_id p then Some p' else map_of (r_principals (w_repo w)) (p_id q)) = Some q"
    proof (cases "k = K")
      case True
      with q have "q = p'" by simp
      then show ?thesis by (simp add: f)
    next
      case False
      with q directoryD1 [OF dir, of k q]
      have "k = (p_tenant_id q, str_lower (p_email q))" "map_of (r_principals (w_repo w)) (p_id q) = Some q"
        by auto
      with False old(1) show ?thesis by (auto simp: K_def)
    qed
  next
    fix i q assume q: "(if i = p_id p then Some p' else map_of (r_principals (w_repo w)) i) = Some q"
    show "p_id q = i" and "i < w_next_uuid w"
      using q directoryD2 [OF dir, of i q] directoryD2 [OF dir old(1)] f(1)
      by (cases "i = p_id p"; force)+
    show "(if (p_tenant_id q, str_lower (p_email q)) = K then Some p'
        else map_of (r_principals_by_email (w_repo w)) (p_tenant_id q, str_lower (p_email q))) = Some q"
    proof (cases "i = p_id p")
      case True
      with q have "q = p'" by simp
      then show ?thesis by (simp add: f K_def)
    next
      case False
      with q directoryD2 [OF dir, of i q]
      have "map_of (r_principals_by_email (w_repo w)) (p_tenant_id q, str_lower (p_email q)) = Some q"
        "p_id q = i" by auto
      with False old(2) show ?thesis by auto
    qed
  qed
  then show ?thesis
    using assms(1) by (simp add: identity_inv_def registered_def w' p' update_principal_def dict_simps)
qed (use assms in \<open>auto simp: update_source_identity_def\<close>)

lemma match_by_email_inv:
  assumes "identity_inv w" and "match_by_email e t hint now w = (po, w')"
  shows "identity_inv w' \<and> (case po of
      None \<Rightarrow> w' = w \<and> get_principal_by_email e t (w_repo w) = None
    | Some p \<Rightarrow> registered p w' \<and> p_tenant_id p = t \<and> str_lower (p_email p) = str_lower e)"
proof (cases "get_principal_by_email e t (w_repo w)")
  case None
  with assms show ?thesis by (auto simp: match_by_email_def)
next
  case (Some p)
  with assms(1) have reg: "registered p w" "p_tenant_id p = t" "str_lower (p_email p) = str_lower e"
    by (auto dest: directory_by_email simp: identity_inv_def)
  obtain p' where "update_source_identity p hint now w = (p', w')" "po = Some p'"
    using assms(2) Some by (auto simp: match_by_email_def split: prod.splits)
  with update_source_identity_inv [OF assms(1) reg(1)] reg show ?thesis by auto
qed

lemma create_principal_for_inv:
  assumes "identity_inv w" and "create_principal_for e t hint now w = (res, w')"
  shows "identity_inv w' \<and> (case res of Inl err \<Rightarrow> False
    | Inr p \<Rightarrow> registered p w' \<and> p_tenant_id p = t \<and> str_lower (p_email p) = str_lower e)"
proof -
  define p0 where "p0 = \<lparr>p_id = w_next_uuid w, p_tenant_id = t, p_email = e, p_name = ih_name hint,
      p_source_identities = [(ih_source_type hint, ih_external_id hint)], p_created_at = now, p_updated_at = now\<rparr>"
  define w1 where "w1 = w\<lparr>w_next_uuid := Suc (w_next_uuid w)\<rparr>"
  have inv1: "identity_inv w1"
    using assms(1) unfolding identity_inv_def directory_ok_def w1_def by (auto intro: less_SucI)
  show ?thesis
  proof (cases "get_principal_by_email e t (w_repo w)")
    case None
    then have "w' = w1\<lparr>w_repo := (w_repo w)\<lparr>r_principals := AList.update (w_next_uuid w) p0 (r_principals (w_repo w)),
        r_principals_by_email := AList.update (t, str_lower e) p0 (r_principals_by_email (w_repo w))\<rparr>\<rparr>"
      and "res = Inr p0"
      using assms(2) by (auto simp: create_principal_for_def create_principal_def get_principal_by_email_def
          p0_def w1_def Let_def)
    moreover have "map_of (r_principals (w_repo w)) (w_next_uuid w) = None"
      using assms(1) unfolding identity_inv_def directory_ok_def by (metis less_irrefl not_None_eq)
    moreover have "p_id q \<noteq> w_next_uuid w" if "map_of (r_principals_by_email (w_repo w)) k = Some q" for k q
      using assms(1) that unfolding identity_inv_def directory_ok_def by (metis less_irrefl)
    moreover have "(p_tenant_id q, str_lower (p_email q)) \<noteq> (t, str_lower e)"
      if "map_of (r_principals (w_repo w)) i = Some q" for i q
      using assms(1) None that unfolding identity_inv_def directory_ok_def get_principal_by_email_def
      by (metis option.distinct(1))
    moreover have "p_id p0 = w_next_uuid w" "p_tenant_id p0 = t" "p_email p0 = e"
      by (simp_all add: p0_def)
    ultimately show ?thesis
      using assms(1) None unfolding identity_inv_def directory_ok_def registered_def get_principal_by_email_def
      by (auto simp: dict_simps w1_def less_Suc_eq split: if_splits)
  next
    case (Some p)
    then have reg: "registered p w1" "p_tenant_id p = t" "str_lower (p_email p) = str_lower e"
      using inv1 by (auto dest: directory_by_email simp: identity_inv_def w1_def)
    obtain p' where "update_source_identity p hint now w1 = (p', w')" "res = Inr p'"
      using assms(2) Some by (auto simp: create_principal_for_def create_principal_def
          get_principal_by_email_def w1_def Let_def split: prod.splits)
    with update_source_identity_inv [OF inv1 reg(1)] reg show ?thesis by auto
  qed
qed

lemma identity_inv_frame:
  "identity_inv w \<Longrightarrow> identity_inv (w\<lparr>w_email_cache := c\<rparr>)"
  "identity_inv w \<Longrightarrow> w_next_uuid w \<le> n \<Longrightarrow> identity_inv (w\<lparr>w_next_uuid := n\<rparr>)"
  "identity_inv w \<Longrightarrow> r_principals r = r_principals (w_repo w) \<Longrightarrow>
     r_principals_by_email r = r_principals_by_email (w_repo w) \<Longrightarrow> identity_inv (w\<lparr>w_repo := r\<rparr>)"
  subgoal unfolding identity_inv_def directory_ok_def by auto
  subgoal unfolding identity_inv_def directory_ok_def by simp (meson order_less_le_trans)
  subgoal unfolding identity_inv_def directory_ok_def by auto
  done

lemma upsert_pending_frame [simp]:
  "r_principals (fst (upsert_pending_identity t d e sa f n r)) = r_principals r"
  "r_principals_by_email (fst (upsert_pending_identity t d e sa f n r)) = r_principals_by_email r"
  by (simp_all add: upsert_pending_identity_def Let_def)

lemma identity_inv_pending:
  "identity_inv w \<Longrightarrow> identity_inv (w\<lparr>w_email_cache := c,
     w_repo := fst (upsert_pending_identity t d e sa f n (w_repo w)), w_next_uuid := Suc (w_next_uuid w)\<rparr>)"
  unfolding identity_inv_def directory_ok_def by (auto intro: less_SucI)

lemma resolve_drive_share_inv:
  assumes "identity_inv w"
  shows "identity_inv (snd (resolve_drive_share hint t e d sa now w))"
proof (cases "map_of (w_email_cache w) (t, e)")
  case (Some x)
  with assms show ?thesis by (auto simp: resolve_drive_share_def Let_def split: option.splits)
next
  case None
  obtain res w' where c: "create_principal_for e t hint now w = (res, w')" by fastforce
  with create_principal_for_inv [OF assms this] obtain p where "identity_inv w'" and "res = Inr p"
    by (cases res) auto
  with c None assms identity_inv_pending [OF assms] show ?thesis
    by (auto simp: resolve_drive_share_def Let_def identity_inv_frame split: option.splits if_splits)
qed

lemma try_matchers_inv:
  assumes "identity_inv w" and "try_matchers ms u hint t now w = Some (ri, w')"
  shows "identity_inv w' \<and> (\<exists>p. ri_principal ri = Some p \<and> ri_principal_id ri = Some (p_id p) \<and>
    registered p w' \<and> p_tenant_id p = t)"
  using assms
proof (induction ms u hint t now w rule: try_matchers.induct)
  case (3 ms u hint t now w)
  show ?case
  proof (cases "match_by_username u (ih_source_type hint) t (w_repo w)")
    case None
    with 3 show ?thesis by simp
  next
    case (Some p)
    with "3.prems"(1) have reg: "registered p w" "p_tenant_id p = t"
      by (auto simp: match_by_username_def identity_inv_def dest!: directory_by_source)
    obtain p' where p': "update_source_identity p hint now w = (p', w')" "ri = resolved p' 8 MatchedUsername"
      using "3.prems"(2) Some by (auto split: prod.splits)
    from update_source_identity_inv [OF "3.prems"(1) reg(1) p'(1)] reg(2) p'(2) show ?thesis
      by (auto simp: resolved_def)
  qed
qed auto

lemma resolve_fallback_inv:
  assumes "identity_inv w" and "resolve_fallback ms n hint t now w = (res, w')"
  shows "identity_inv w' \<and> (\<forall>ri. res = Inr ri \<longrightarrow>
    (\<exists>p. ri_principal ri = Some p \<and> ri_principal_id ri = Some (p_id p) \<and> registered p w' \<and> p_tenant_id p = t \<and>
       (ri_matched_on ri = MatchedNew \<longrightarrow> str_lower (p_email p) = str_lower (opt_str n))))"
proof -
  define m where "m = (if opt_str (ih_username hint) \<noteq> []
      then try_matchers ms (opt_str (ih_username hint)) hint t now w else None)"
  show ?thesis
  proof (cases m)
    case (Some x)
    then obtain ri where x: "x = (ri, w')" "res = Inr ri"
      using assms(2) by (auto simp: resolve_fallback_def m_def [symmetric] split: prod.splits)
    with Some have tm: "try_matchers ms (opt_str (ih_username hint)) hint t now w = Some (ri, w')"
      by (auto simp: m_def split: if_splits)
    have "ri_matched_on ri \<noteq> MatchedNew"
      using tm by (induction ms "opt_str (ih_username hint)" hint t now w rule: try_matchers.induct)
        (auto simp: resolved_def split: option.splits prod.splits)
    with try_matchers_inv [OF assms(1) tm] x show ?thesis by auto
  next
    case None
    obtain cres cw where c: "create_principal_for (opt_str n) t hint now w = (cres, cw)" by fastforce
    from create_principal_for_inv [OF assms(1) c] obtain p where p: "cres = Inr p" "identity_inv cw"
      "registered p cw" "p_tenant_id p = t" "str_lower (p_email p) = str_lower (opt_str n)"
      by (cases cres) auto
    from assms None c p show ?thesis
      by (auto simp: resolve_fallback_def m_def [symmetric] resolved_def split: if_splits)
  qed
qed

definition is_mirror :: "identity_hint \<Rightarrow> bool" where
  "is_mirror hint = (ih_source_type hint \<in> set MIRROR_BIND_SOURCES)"

definition hint_email :: "(string \<Rightarrow> bool) \<Rightarrow> identity_hint \<Rightarrow> string" where
  "hint_email valid hint = opt_str (if opt_str (ih_email hint) \<noteq> [] then normalize_email valid (ih_email hint) else None)"

lemma resolve_inv:
  assumes inv: "identity_inv w" and res: "resolve valid ms hint t d sa now w = (res, w')"
  shows "identity_inv w' \<and> (\<not> is_mirror hint \<longrightarrow> (\<forall>ri. res = Inr ri \<longrightarrow>
    (\<exists>p. ri_principal ri = Some p \<and> ri_principal_id ri = Some (p_id p) \<and> registered p w' \<and> p_tenant_id p = t \<and>
       (ri_matched_on ri \<in> {MatchedEmail, MatchedNew} \<longrightarrow> str_lower (p_email p) = str_lower (hint_email valid hint)))))"
proof -
  define n where "n = (if opt_str (ih_email hint) \<noteq> [] then normalize_email valid (ih_email hint) else None)"
  have hn: "hint_email valid hint = opt_str n" by (simp add: hint_email_def n_def)
  have fb: ?thesis if "resolve_fallback ms n hint t now w = (res, w')"
  proof -
    have "ri_matched_on ri \<noteq> MatchedEmail" if "res = Inr ri" for ri
    proof -
      have "try_matchers ms (opt_str (ih_username hint)) hint t now w = Some (ri, w'') \<Longrightarrow>
          ri_matched_on ri \<noteq> MatchedEmail" for w''
        by (induction ms "opt_str (ih_username hint)" hint t now w rule: try_matchers.induct)
          (auto simp: resolved_def split: option.splits prod.splits)
      with \<open>resolve_fallback ms n hint t now w = (res, w')\<close> that show ?thesis
        by (auto simp: resolve_fallback_def resolved_def split: option.splits prod.splits sum.splits if_splits)
    qed
    with resolve_fallback_inv [OF inv that] hn show ?thesis by auto
  qed
  consider (mirror) "is_mirror hint" "opt_str n \<noteq> []" | (email) "\<not> (is_mirror hint \<and> opt_str n \<noteq> [])" "opt_str n \<noteq> []"
    | (none) "opt_str n = []" by blast
  then show ?thesis
  proof cases
    case mirror
    then obtain d' where "w' = snd (resolve_drive_share hint t (opt_str n) d' sa now w)"
      using res unfolding resolve_def n_def [symmetric] Let_def is_mirror_def
      by (simp split: prod.splits) (metis snd_conv)
    with resolve_drive_share_inv [OF inv] mirror show ?thesis by simp
  next
    case email
    obtain po w1 where m: "match_by_email (opt_str n) t hint now w = (po, w1)" by fastforce
    note minv = match_by_email_inv [OF inv m]
    show ?thesis
    proof (cases po)
      case None
      with minv have "w1 = w" by simp
      with None m email res have "resolve_fallback ms n hint t now w = (res, w')"
        unfolding resolve_def n_def [symmetric] Let_def is_mirror_def by auto
      then show ?thesis by (rule fb)
    next
      case (Some p)
      with m email res have "res = Inr (resolved p 10 MatchedEmail)" "w' = w1"
        unfolding resolve_def n_def [symmetric] Let_def is_mirror_def by auto
      with minv Some hn show ?thesis by (auto simp: resolved_def)
    qed
  next
    case none
    with res have "resolve_fallback ms n hint t now w = (res, w')"
      unfolding resolve_def n_def [symmetric] Let_def by auto
    then show ?thesis by (rule fb)
  qed
qed

text \<open>
  Property C6: resolution keeps the directory consistent (one principal per tenant and
  lower-case email, each indexed under its identifier), and a principal it resolves for a hint of
  a source other than Drive and Gmail is registered in that directory and belongs to the
  requested tenant.
\<close>

theorem resolve_keeps_directory:
  assumes "identity_inv w" and "resolve valid ms hint t d sa now w = (res, w')"
  shows "identity_inv w' \<and> (\<not> is_mirror hint \<longrightarrow> (\<forall>ri. res = Inr ri \<longrightarrow>
    (\<exists>p. ri_principal ri = Some p \<and> ri_principal_id ri = Some (p_id p) \<and> registered p w' \<and> p_tenant_id p = t)))"
  using resolve_inv [OF assms] by blast

definition demo_hint :: "string \<Rightarrow> string \<Rightarrow> identity_hint" where
  "demo_hint source email = \<lparr>ih_source_type = source, ih_external_id = ''x1'', ih_email = Some email,
     ih_username = None, ih_name = None\<rparr>"

theorem resolve_keeps_directory_witness:
  "\<exists>res w'. resolve (\<lambda>_. True) [EmailMatcher, UsernameMatcher] (demo_hint ''onedrive'' '' Ann@X.org'')
      1 None None 5 init_world = (res, w') \<and> identity_inv w' \<and>
    map_of (r_principals_by_email (w_repo w')) (1, ''ann@x.org'') \<noteq> None"
proof -
  obtain res w' where r: "resolve (\<lambda>_. True) [EmailMatcher, UsernameMatcher]
      (demo_hint ''onedrive'' '' Ann@X.org'') 1 None None 5 init_world = (res, w')" by fastforce
  have "map_of (r_principals_by_email (w_repo (snd (resolve (\<lambda>_. True) [EmailMatcher, UsernameMatcher]
      (demo_hint ''onedrive'' '' Ann@X.org'') 1 None None 5 init_world)))) (1, ''ann@x.org'') \<noteq> None"
    by code_simp
  with r resolve_keeps_directory [OF identity_inv_init r] show ?thesis by auto
qed

lemma resolve_known_email:
  assumes "\<not> is_mirror h" and "hint_email valid h \<noteq> []"
    and "get_principal_by_email (hint_email valid h) t (w_repo w) = Some p"
  shows "\<exists>ri. fst (resolve valid ms h t d sa now w) = Inr ri \<and> ri_principal_id ri = Some (p_id p)"
proof -
  define n where "n = (if opt_str (ih_email h) \<noteq> [] then normalize_email valid (ih_email h) else None)"
  have "opt_str n = hint_email valid h" by (simp add: hint_email_def n_def)
  with assms show ?thesis
    unfolding resolve_def n_def [symmetric] Let_def is_mirror_def
    by (auto simp: match_by_email_def update_source_identity_def resolved_def Let_def split: prod.splits)
qed

text \<open>
  People are merged across sources by email. Once a hint was resolved by email or by
  creating a principal, every later hint with the same normalised email in the tenant, from any
  source that is not mirrored, resolves to the same principal.
\<close>

theorem same_email_same_principal:
  assumes "identity_inv w" and "resolve valid ms h t d sa now w = (Inr ri, w1)"
    and "\<not> is_mirror h" "ri_matched_on ri \<in> {MatchedEmail, MatchedNew}"
    and "\<not> is_mirror h'" "hint_email valid h' = hint_email valid h" "hint_email valid h \<noteq> []"
  shows "\<exists>ri'. fst (resolve valid ms h' t d' sa' now' w1) = Inr ri' \<and> ri_principal_id ri' = ri_principal_id ri"
proof -
  from resolve_inv [OF assms(1,2)] assms(3,4) obtain p where p: "ri_principal_id ri = Some (p_id p)"
    "registered p w1" "p_tenant_id p = t" "str_lower (p_email p) = str_lower (hint_email valid h)" by auto
  then have "get_principal_by_email (hint_email valid h') t (w_repo w1) = Some p"
    using assms(6) by (simp add: registered_def get_principal_by_email_def)
  with resolve_known_email [OF assms(5)] assms(6,7) p(1) show ?thesis by simp
qed

lemma demo_resolve:
  "resolve (\<lambda>_. True) [EmailMatcher, UsernameMatcher] (demo_hint ''onedrive'' ''a@x'') 1 None None 5 init_world
   = (Inr (resolved (bound_principal 1 ''a@x'' 1 (demo_hint ''onedrive'' ''a@x'') 5) 10 MatchedNew),
      snd (resolve (\<lambda>_. True) [EmailMatcher, UsernameMatcher] (demo_hint ''onedrive'' ''a@x'') 1 None None 5 init_world))"
  by code_simp

theorem same_email_same_principal_witness:
  "\<exists>ri'. fst (resolve (\<lambda>_. True) [EmailMatcher, UsernameMatcher] (demo_hint ''outlook'' '' A@X '') 1 None None 9
      (snd (resolve (\<lambda>_. True) [EmailMatcher, UsernameMatcher] (demo_hint ''onedrive'' ''a@x'') 1 None None 5
        init_world))) = Inr ri' \<and> ri_principal_id ri' = Some 1"
proof -
  have side: "\<not> is_mirror (demo_hint ''onedrive'' ''a@x'')" "\<not> is_mirror (demo_hint ''outlook'' '' A@X '')"
    "hint_email (\<lambda>_. True) (demo_hint ''outlook'' '' A@X '') = hint_email (\<lambda>_. True) (demo_hint ''onedrive'' ''a@x'')"
    "hint_email (\<lambda>_. True) (demo_hint ''onedrive'' ''a@x'') \<noteq> []"
    by code_simp+
  show ?thesis
    using same_email_same_principal [OF identity_inv_init demo_resolve side(1) _ side(2,3,4)]
    by (simp add: resolved_def bound_principal_def)
qed

text \<open>
  The negative cache loses shares. Two Drive documents are shared with the same
  unknown email: the first is queued, the second is answered from the cached \<open>None\<close> and is not.
  When the person then registers, the drain returns only the first document.
\<close>

theorem negative_cache_drops_pending_share:
  "(let h = demo_hint ''google_drive'' ''bob@x'';
        w1 = snd (resolve (\<lambda>_. True) [EmailMatcher, UsernameMatcher] h 1 (Some ''google_drive_d1'') None 5 init_world);
        w2 = snd (resolve (\<lambda>_. True) [EmailMatcher, UsernameMatcher] h 1 (Some ''google_drive_d2'') None 6 w1);
        (r3, drained) = drain_pending_identity_queue 1 ''bob@x'' 42 7 (w_repo w2)
    in drained = [''google_drive_d1''] \<and> principal_can_read_document 1 42 ''google_drive_d1'' r3 \<and>
       \<not> principal_can_read_document 1 42 ''google_drive_d2'' r3)"
  by code_simp

end
