(* ===== verification/Canonical_Sql.thy ===== *)
theory Canonical_Sql
  imports Canonical_Repo
begin

text \<open>
  The SQL branches of \<open>CanonicalRepo\<close> that read and write ACL rows, containers and the pending
  queue, over tables modelled as lists of rows (a table with a unique key is a dictionary), and
  the simulation between them and the in-memory branches: after the same operations the two
  modes give the same read decisions.
\<close>

named_theorems acl_rel_simps \<open>steps of the simulation between the two repository modes\<close>

record sqldb =
  sd_documents :: "(string, canonical_document) dict"
  sd_acl :: "acl_entry list"
  sd_container_acl :: "container_acl_entry list"
  sd_edges :: "(string \<times> uuid, string) dict"
  sd_pending :: "(uuid \<times> string \<times> string, pending_row) dict"

datatype sql_error = MultipleResultsFound

subsection \<open>ACL rows\<close>

definition replace_acl_entries_sql :: "string \<Rightarrow> acl_entry list \<Rightarrow> sqldb \<Rightarrow> sqldb" where
  "replace_acl_entries_sql document_id entries db =
     db\<lparr>sd_acl := filter (\<lambda>e. ae_document_id e \<noteq> document_id) (sd_acl db)
                  @ map (\<lambda>e. e\<lparr>ae_document_id := document_id\<rparr>) entries\<rparr>"

definition get_acl_entries_sql :: "string \<Rightarrow> sqldb \<Rightarrow> acl_entry list" where
  "get_acl_entries_sql document_id db = filter (\<lambda>e. ae_document_id e = document_id) (sd_acl db)"

definition same_grant :: "acl_entry \<Rightarrow> acl_entry \<Rightarrow> bool" where
  "same_grant entry row = (ae_document_id row = ae_document_id entry \<and>
     ae_tenant_id row = ae_tenant_id entry \<and> ae_principal_id row = ae_principal_id entry \<and>
     ae_is_deny row = ae_is_deny entry)"

definition insert_acl_entry_sql :: "acl_entry \<Rightarrow> sqldb \<Rightarrow> sql_error + sqldb" where
  "insert_acl_entry_sql entry db =
     (case filter (same_grant entry) (sd_acl db) of
        [] \<Rightarrow> Inr (db\<lparr>sd_acl := sd_acl db @ [entry]\<rparr>)
      | [_] \<Rightarrow> Inr db
      | _ \<Rightarrow> Inl MultipleResultsFound)"

definition rebind_acl_principal_sql :: "uuid \<Rightarrow> uuid \<Rightarrow> uuid \<Rightarrow> sqldb \<Rightarrow> sqldb \<times> string list" where
  "rebind_acl_principal_sql tenant source target db =
     (if source = target then (db, [])
      else (db\<lparr>sd_acl := map (rebind_entry tenant source target) (sd_acl db)\<rparr>,
            dedup (map ae_document_id
              (filter (\<lambda>e. ae_tenant_id e = tenant \<and> ae_principal_id e = Some source) (sd_acl db)))))"

definition principal_can_read_document_sql :: "uuid \<Rightarrow> uuid \<Rightarrow> string \<Rightarrow> sqldb \<Rightarrow> bool" where
  "principal_can_read_document_sql tenant who document_id db =
     (let rows = filter (\<lambda>e. ae_tenant_id e = tenant \<and> ae_principal_id e = Some who \<and>
                     ae_document_id e \<in> set (document_id_aliases document_id)) (sd_acl db)
      in if \<exists>e \<in> set rows. ae_is_deny e then False else \<exists>e \<in> set rows. \<not> ae_is_deny e)"

subsection \<open>Documents with their ACL rows\<close>

definition delete_documents_and_acls_sql :: "string list \<Rightarrow> uuid \<Rightarrow> sqldb \<Rightarrow> sqldb" where
  "delete_documents_and_acls_sql document_ids tenant db =
     (let aliases = dedup (concat (map document_id_aliases document_ids)) in
      if aliases \<noteq> [] then
        db\<lparr>sd_acl := filter (\<lambda>e. \<not> (ae_document_id e \<in> set aliases \<and> ae_tenant_id e = tenant)) (sd_acl db),
           sd_documents := filter (\<lambda>(k, d). \<not> (k \<in> set aliases \<and> cd_tenant_id d = tenant))
                             (sd_documents db)\<rparr>
      else db)"

definition delete_documents_by_source_sql :: "string \<Rightarrow> uuid \<Rightarrow> sqldb \<Rightarrow> sqldb \<times> string list" where
  "delete_documents_by_source_sql source_type tenant db =
     (let doc_ids = [k. (k, d) \<leftarrow> sd_documents db, cd_source_type d = source_type \<and> cd_tenant_id d = tenant];
          aliases = dedup (concat (map document_id_aliases doc_ids));
          acl = filter (\<lambda>e. \<not> (ae_source_type e = source_type \<and> ae_tenant_id e = tenant)) (sd_acl db)
      in if aliases \<noteq> []
         then (db\<lparr>sd_acl := filter (\<lambda>e. \<not> (ae_document_id e \<in> set aliases \<and> ae_tenant_id e = tenant)) acl,
                  sd_documents := filter (\<lambda>(k, d). \<not> (k \<in> set aliases \<and> cd_tenant_id d = tenant))
                                    (sd_documents db)\<rparr>, doc_ids)
         else (db\<lparr>sd_acl := acl,
                  sd_documents := filter (\<lambda>(k, d). \<not> (cd_source_type d = source_type \<and> cd_tenant_id d = tenant))
                                    (sd_documents db)\<rparr>, doc_ids))"

subsection \<open>Containers\<close>

definition upsert_container_acl_sql :: "container_acl_entry \<Rightarrow> sqldb \<Rightarrow> sqldb" where
  "upsert_container_acl_sql entry db =
     db\<lparr>sd_container_acl := filter (\<lambda>e. \<not> (ca_container_id e = ca_container_id entry \<and>
            ca_tenant_id e = ca_tenant_id entry \<and> ca_principal_id e = ca_principal_id entry \<and>
            ca_group_id e = ca_group_id entry)) (sd_container_acl db) @ [entry]\<rparr>"

definition get_container_acl_entries_sql :: "string \<Rightarrow> uuid \<Rightarrow> sqldb \<Rightarrow> container_acl_entry list" where
  "get_container_acl_entries_sql container_id tenant_id db =
     filter (\<lambda>e. ca_container_id e = container_id \<and> ca_tenant_id e = tenant_id) (sd_container_acl db)"

definition upsert_container_edge_sql :: "container_edge \<Rightarrow> sqldb \<Rightarrow> sqldb" where
  "upsert_container_edge_sql edge db =
     db\<lparr>sd_edges := AList.update (ce_child_container_id edge, ce_tenant_id edge)
         (ce_parent_container_id edge) (sd_edges db)\<rparr>"

definition get_parent_container_sql :: "string \<Rightarrow> uuid \<Rightarrow> sqldb \<Rightarrow> string option" where
  "get_parent_container_sql child_id tenant_id db = map_of (sd_edges db) (child_id, tenant_id)"

definition delete_container_sql :: "string \<Rightarrow> uuid \<Rightarrow> sqldb \<Rightarrow> sqldb" where
  "delete_container_sql container_id tenant db =
     db\<lparr>sd_container_acl := filter (\<lambda>e. \<not> (ca_container_id e = container_id \<and> ca_tenant_id e = tenant))
                             (sd_container_acl db),
        sd_edges := filter (\<lambda>(k, v). \<not> (snd k = tenant \<and> (fst k = container_id \<or> v = container_id)))
                      (sd_edges db)\<rparr>"

subsection \<open>The pending queue\<close>

definition upsert_pending_identity_sql ::
    "uuid \<Rightarrow> string \<Rightarrow> string \<Rightarrow> uuid option \<Rightarrow> uuid \<Rightarrow> instant \<Rightarrow> sqldb \<Rightarrow> sqldb \<times> bool" where
  "upsert_pending_identity_sql tenant document_id shared_email source_account_id fresh now db =
     (let email = str_lower (str_strip shared_email);
          key = (tenant, document_id, email)
      in if map_of (sd_pending db) key \<noteq> None then (db, False)
         else (db\<lparr>sd_pending := AList.update key
                  \<lparr>pr_id = fresh, pr_tenant_id = tenant, pr_source_account_id = source_account_id,
                   pr_document_id = document_id, pr_shared_email = email, pr_first_seen_at = now,
                   pr_resolved_at = None, pr_resolved_principal_id = None\<rparr> (sd_pending db)\<rparr>, True))"

definition drain_matches :: "uuid \<Rightarrow> string \<Rightarrow> pending_row \<Rightarrow> bool" where
  "drain_matches tenant normalized row = (pr_tenant_id row = tenant \<and>
     str_lower (pr_shared_email row) = normalized \<and> pr_resolved_at row = None)"

fun drain_rows_sql :: "uuid \<Rightarrow> uuid \<Rightarrow> instant \<Rightarrow> ((uuid \<times> string \<times> string) \<times> pending_row) list
    \<Rightarrow> sqldb \<times> string list \<Rightarrow> sql_error + sqldb \<times> string list" where
  "drain_rows_sql tenant who now [] (db, drained) = Inr (db, drained)"
| "drain_rows_sql tenant who now ((key, row) # rows) (db, drained) =
     (case insert_acl_entry_sql (bound_share_acl_entry (pr_document_id row) who tenant now) db of
        Inl e \<Rightarrow> Inl e
      | Inr db' \<Rightarrow> drain_rows_sql tenant who now rows
          (db'\<lparr>sd_pending := AList.update key
                (row\<lparr>pr_resolved_at := Some now, pr_resolved_principal_id := Some who\<rparr>) (sd_pending db')\<rparr>,
           drained @ [pr_document_id row]))"

definition drain_pending_identity_queue_sql ::
    "uuid \<Rightarrow> string \<Rightarrow> uuid \<Rightarrow> instant \<Rightarrow> sqldb \<Rightarrow> sql_error + sqldb \<times> string list" where
  "drain_pending_identity_queue_sql tenant email who now db =
     drain_rows_sql tenant who now
       (filter (\<lambda>(k, row). drain_matches tenant (str_lower (str_strip email)) row) (sd_pending db))
       (db, [])"

definition list_unresolved_pending_sql :: "uuid \<Rightarrow> sqldb \<Rightarrow> (string \<times> string \<times> instant) list" where
  "list_unresolved_pending_sql tenant db =
     [(pr_document_id row, pr_shared_email row, pr_first_seen_at row).
        (k, row) \<leftarrow> sd_pending db, pr_tenant_id row = tenant \<and> pr_resolved_at row = None]"

subsection \<open>The simulation relation on ACL rows\<close>

text \<open>
  The in-memory dictionary holds, per document, the rows of the table with that document id. The
  relation is between states of one tenant database, so all rows carry its tenant id.
\<close>

definition acl_rel :: "repo \<Rightarrow> sqldb \<Rightarrow> bool" where
  "acl_rel r db = (\<forall>d. get_acl_entries d r = get_acl_entries_sql d db)"

definition rows_ok :: "uuid \<Rightarrow> sqldb \<Rightarrow> bool" where
  "rows_ok t db = ((\<forall>e \<in> set (sd_acl db). ae_tenant_id e = t \<and>
       (ae_principal_id e \<noteq> None \<longrightarrow> ae_group_id e = None)) \<and>
     (\<forall>e. ae_principal_id e \<noteq> None \<longrightarrow> length (filter (same_grant e) (sd_acl db)) \<le> 1))"

lemma acl_relD: "acl_rel r db \<Longrightarrow> dict_get (r_acl_entries r) d [] = filter (\<lambda>e. ae_document_id e = d) (sd_acl db)"
  by (simp add: acl_rel_def get_acl_entries_def get_acl_entries_sql_def)

lemma acl_rel_replace:
  assumes "acl_rel r db" and "\<And>e. e \<in> set es \<Longrightarrow> ae_document_id e = x"
  shows "acl_rel (replace_acl_entries x es r) (replace_acl_entries_sql x es db)"
proof -
  have es: "map (\<lambda>e. e\<lparr>ae_document_id := x\<rparr>) es = es"
    using assms(2) by (intro map_idI) auto
  have "filter (\<lambda>e. ae_document_id e = d) es = (if d = x then es else [])" for d
    using assms(2) by (auto simp: filter_empty_conv intro: filter_True)
  then show ?thesis
    using acl_relD [OF assms(1)]
    by (auto simp: acl_rel_def get_acl_entries_def get_acl_entries_sql_def replace_acl_entries_def
        replace_acl_entries_sql_def es dict_get_update intro!: filter_cong)
qed

lemma get_acl_insert:
  "get_acl_entries d (insert_acl_entry e r) =
    (if d = ae_document_id e \<and> \<not> (\<exists>c \<in> set (get_acl_entries d r). ae_principal_id c = ae_principal_id e \<and>
           ae_group_id c = ae_group_id e \<and> ae_is_deny c = ae_is_deny e)
     then get_acl_entries d r @ [e] else get_acl_entries d r)"
  by (auto simp: insert_acl_entry_def get_acl_entries_def Let_def dict_simps)

lemma same_grant_mem_iff:
  assumes ok: "rows_ok t db" and e: "ae_tenant_id e = t" "ae_principal_id e \<noteq> None" "ae_group_id e = None"
  shows "(\<exists>c \<in> set (get_acl_entries_sql (ae_document_id e) db). ae_principal_id c = ae_principal_id e \<and>
            ae_group_id c = ae_group_id e \<and> ae_is_deny c = ae_is_deny e)
     \<longleftrightarrow> filter (same_grant e) (sd_acl db) \<noteq> []"
  using assms by (fastforce simp: rows_ok_def same_grant_def get_acl_entries_sql_def filter_empty_conv)

lemma insert_sql_total:
  assumes "rows_ok t db" and "ae_principal_id e \<noteq> None"
  shows "insert_acl_entry_sql e db =
    Inr (if filter (same_grant e) (sd_acl db) = [] then db\<lparr>sd_acl := sd_acl db @ [e]\<rparr> else db)"
proof -
  have "length (filter (same_grant e) (sd_acl db)) \<le> 1" using assms by (simp add: rows_ok_def)
  then show ?thesis
    by (cases "filter (same_grant e) (sd_acl db)" rule: remdups_adj.cases)
      (auto simp: insert_acl_entry_sql_def)
qed

lemma acl_rel_insert:
  assumes "acl_rel r db" and "rows_ok t db"
    and "ae_tenant_id e = t" "ae_principal_id e \<noteq> None" "ae_group_id e = None"
  shows "\<exists>db'. insert_acl_entry_sql e db = Inr db' \<and> acl_rel (insert_acl_entry e r) db'"
  using assms(1) same_grant_mem_iff [OF assms(2-)]
  unfolding insert_sql_total [OF assms(2,4)]
  by (auto simp: acl_rel_def get_acl_insert get_acl_entries_sql_def)

lemma rows_ok_insert:
  assumes "rows_ok t db" and "ae_tenant_id e = t" "ae_principal_id e \<noteq> None" "ae_group_id e = None"
    and "insert_acl_entry_sql e db = Inr db'"
  shows "rows_ok t db'"
proof (cases "filter (same_grant e) (sd_acl db) = []")
  case False
  then show ?thesis using assms insert_sql_total [OF assms(1,3)] by simp
next
  case True
  then have db': "sd_acl db' = sd_acl db @ [e]" using assms insert_sql_total [OF assms(1,3)] by auto
  have "length (filter (same_grant f) (sd_acl db @ [e])) \<le> 1" if f: "ae_principal_id f \<noteq> None" for f
  proof (cases "same_grant f e")
    case True
    then have "same_grant f = same_grant e" by (auto simp: same_grant_def fun_eq_iff)
    with \<open>filter (same_grant e) (sd_acl db) = []\<close> show ?thesis by simp
  next
    case False
    with assms(1) f show ?thesis by (simp add: rows_ok_def)
  qed
  with assms(1-4) show ?thesis by (auto simp: rows_ok_def db')
qed

lemma rebind_doc [simp]: "ae_document_id (rebind_entry t s g e) = ae_document_id e"
  by (simp add: rebind_entry_def)

lemma filter_map_rebind:
  "filter (\<lambda>e. ae_document_id e = d) (map (rebind_entry t s g) es) =
     map (rebind_entry t s g) (filter (\<lambda>e. ae_document_id e = d) es)"
  by (induction es) auto

lemma get_acl_rebind:
  "get_acl_entries d (fst (rebind_acl_principal t s g r)) =
     (if s = g then get_acl_entries d r else map (rebind_entry t s g) (get_acl_entries d r))"
  by (auto simp: rebind_acl_principal_def get_acl_entries_def dict_get_def map_of_map_values split: option.splits)

lemma acl_rel_rebind:
  "acl_rel r db \<Longrightarrow> acl_rel (fst (rebind_acl_principal t s g r)) (fst (rebind_acl_principal_sql t s g db))"
  by (auto simp: acl_rel_def get_acl_rebind get_acl_entries_sql_def rebind_acl_principal_sql_def filter_map_rebind)

lemma r_acl_pop: "get_acl_entries d (pop_document r a) = (if d = a then [] else get_acl_entries d r)"
  by (simp add: pop_document_def get_acl_entries_def dict_get_delete)

lemma get_acl_pops: "get_acl_entries d (foldl pop_document r as) = (if d \<in> set as then [] else get_acl_entries d r)"
  by (induction as arbitrary: r) (auto simp: r_acl_pop)

lemma get_acl_delete_docs:
  "get_acl_entries d (delete_documents_and_acls ids t r) =
     (if d \<in> set (concat (map document_id_aliases ids)) then [] else get_acl_entries d r)"
  unfolding delete_documents_and_acls_def
  by (induction ids arbitrary: r) (auto simp: get_acl_pops)

lemma acl_rel_delete_docs:
  assumes "acl_rel r db" and "rows_ok t db"
  shows "acl_rel (delete_documents_and_acls ids t r) (delete_documents_and_acls_sql ids t db)"
proof -
  define as where "as = set (concat (map document_id_aliases ids))"
  have "sd_acl (delete_documents_and_acls_sql ids t db) =
      filter (\<lambda>e. \<not> (ae_document_id e \<in> as \<and> ae_tenant_id e = t)) (sd_acl db)"
    by (cases "dedup (concat (map document_id_aliases ids)) = []")
      (auto simp: delete_documents_and_acls_sql_def Let_def as_def dest: arg_cong [where f = set])
  also have "\<dots> = filter (\<lambda>e. ae_document_id e \<notin> as) (sd_acl db)"
    using assms(2) by (intro filter_cong) (auto simp: rows_ok_def)
  finally have "get_acl_entries_sql d (delete_documents_and_acls_sql ids t db) =
      (if d \<in> as then [] else get_acl_entries_sql d db)" for d
    by (auto simp: get_acl_entries_sql_def filter_empty_conv intro!: filter_cong)
  with assms(1) show ?thesis
    by (simp add: acl_rel_def get_acl_delete_docs as_def)
qed

lemma can_read_rel:
  assumes "acl_rel r db"
  shows "principal_can_read_document t p d r = principal_can_read_document_sql t p d db"
proof -
  have "set (concat (map (\<lambda>c. filter (\<lambda>e. ae_tenant_id e = t \<and> ae_principal_id e = Some p)
          (dict_get (r_acl_entries r) c [])) (document_id_aliases d))) =
      set (filter (\<lambda>e. ae_tenant_id e = t \<and> ae_principal_id e = Some p \<and>
          ae_document_id e \<in> set (document_id_aliases d)) (sd_acl db))"
    using acl_relD [OF assms] by auto
  then show ?thesis
    by (simp only: principal_can_read_document_def principal_can_read_document_sql_def Let_def)
qed

lemma length_filter_filter: "length (filter P (filter Q xs)) \<le> length (filter P xs)"
  by (induction xs) auto

lemma rows_ok_filter: "rows_ok t db \<Longrightarrow> rows_ok t (db\<lparr>sd_acl := filter Q (sd_acl db)\<rparr>)"
proof -
  assume ok: "rows_ok t db"
  have "length (filter (same_grant e) (filter Q (sd_acl db))) \<le> 1" if "ae_principal_id e \<noteq> None" for e
    using ok that order_trans [OF length_filter_filter] unfolding rows_ok_def by blast
  with ok show ?thesis unfolding rows_ok_def by simp
qed

lemma rows_ok_delete_docs: "rows_ok t db \<Longrightarrow> rows_ok t (delete_documents_and_acls_sql ids t' db)"
  using rows_ok_filter [of t db] by (simp add: delete_documents_and_acls_sql_def Let_def rows_ok_def)

definition snapshot_ok :: "uuid \<Rightarrow> string \<Rightarrow> acl_entry list \<Rightarrow> bool" where
  "snapshot_ok t d es = ((\<forall>e \<in> set es. ae_document_id e = d \<and> ae_tenant_id e = t \<and>
       (ae_principal_id e \<noteq> None \<longrightarrow> ae_group_id e = None)) \<and>
     distinct (map (\<lambda>e. (ae_principal_id e, ae_is_deny e)) (filter (\<lambda>e. ae_principal_id e \<noteq> None) es)))"

lemma length_filter_distinct_le_1:
  assumes "distinct (map f xs)" and "\<And>x y. P x \<Longrightarrow> P y \<Longrightarrow> f x = f y"
  shows "length (filter P xs) \<le> 1"
  using assms(1)
proof (induction xs)
  case (Cons x xs)
  show ?case
  proof (cases "P x")
    case True
    have "\<not> P y" if "y \<in> set xs" for y
    proof
      assume "P y"
      with True have "f x = f y" by (rule assms(2))
      then have "f x \<in> f ` set xs" using that by (rule image_eqI)
      with Cons.prems show False by simp
    qed
    then have "filter P xs = []" by (simp add: filter_empty_conv)
    with True show ?thesis by simp
  qed (use Cons in auto)
qed simp

lemma snapshot_same_grant:
  assumes "snapshot_ok t d es" and "ae_principal_id e \<noteq> None"
  shows "length (filter (same_grant e) es) \<le> 1"
proof -
  have "filter (same_grant e) es = filter (same_grant e) (filter (\<lambda>e. ae_principal_id e \<noteq> None) es)"
    using assms(2) by (auto simp: same_grant_def intro!: filter_cong)
  also have "length \<dots> \<le> 1"
    using assms(1)
    by (intro length_filter_distinct_le_1 [where f = "\<lambda>e. (ae_principal_id e, ae_is_deny e)"])
      (auto simp: snapshot_ok_def same_grant_def)
  finally show ?thesis .
qed

lemma rows_ok_replace:
  assumes "rows_ok t db" and es: "snapshot_ok t d es"
  shows "rows_ok t (replace_acl_entries_sql d es db)"
proof -
  have id: "map (\<lambda>e. e\<lparr>ae_document_id := d\<rparr>) es = es"
    using es by (intro map_idI) (auto simp: snapshot_ok_def)
  have "length (filter (same_grant f) (filter (\<lambda>e. ae_document_id e \<noteq> d) (sd_acl db) @ es)) \<le> 1"
    if f: "ae_principal_id f \<noteq> None" for f
  proof (cases "ae_document_id f = d")
    case True
    then have "filter (same_grant f) (filter (\<lambda>e. ae_document_id e \<noteq> d) (sd_acl db)) = []"
      by (auto simp: same_grant_def filter_empty_conv)
    with snapshot_same_grant [OF es f] show ?thesis by simp
  next
    case False
    then have "filter (same_grant f) es = []"
      using es by (auto simp: same_grant_def filter_empty_conv snapshot_ok_def)
    then have "length (filter (same_grant f) (filter (\<lambda>e. ae_document_id e \<noteq> d) (sd_acl db) @ es)) =
        length (filter (same_grant f) (filter (\<lambda>e. ae_document_id e \<noteq> d) (sd_acl db)))"
      by simp
    also have "\<dots> \<le> length (filter (same_grant f) (sd_acl db))" by (rule length_filter_filter)
    also have "\<dots> \<le> 1" using assms(1) f by (simp add: rows_ok_def)
    finally show ?thesis .
  qed
  with assms show ?thesis
    by (simp add: rows_ok_def replace_acl_entries_sql_def id snapshot_ok_def) blast
qed

subsection \<open>Runs of the two modes\<close>

datatype acl_op = OpReplace string "acl_entry list" | OpInsert acl_entry | OpDelete "string list"

fun mem_step :: "uuid \<Rightarrow> repo \<Rightarrow> acl_op \<Rightarrow> repo" where
  "mem_step t r (OpReplace d es) = replace_acl_entries d es r"
| "mem_step t r (OpInsert e) = insert_acl_entry e r"
| "mem_step t r (OpDelete ids) = delete_documents_and_acls ids t r"

fun sql_step :: "uuid \<Rightarrow> sqldb \<Rightarrow> acl_op \<Rightarrow> sql_error + sqldb" where
  "sql_step t db (OpReplace d es) = Inr (replace_acl_entries_sql d es db)"
| "sql_step t db (OpInsert e) = insert_acl_entry_sql e db"
| "sql_step t db (OpDelete ids) = Inr (delete_documents_and_acls_sql ids t db)"

fun sql_run :: "uuid \<Rightarrow> sqldb \<Rightarrow> acl_op list \<Rightarrow> sql_error + sqldb" where
  "sql_run t db [] = Inr db"
| "sql_run t db (x # xs) = (case sql_step t db x of Inl e \<Rightarrow> Inl e | Inr db' \<Rightarrow> sql_run t db' xs)"

fun op_ok :: "uuid \<Rightarrow> acl_op \<Rightarrow> bool" where
  "op_ok t (OpReplace d es) = snapshot_ok t d es"
| "op_ok t (OpInsert e) = (ae_tenant_id e = t \<and> ae_principal_id e \<noteq> None \<and> ae_group_id e = None)"
| "op_ok t (OpDelete ids) = True"

lemma step_simulation:
  assumes "acl_rel r db" and "rows_ok t db" and "op_ok t x"
  shows "\<exists>db'. sql_step t db x = Inr db' \<and> acl_rel (mem_step t r x) db' \<and> rows_ok t db'"
proof (cases x)
  case (OpReplace d es)
  with assms show ?thesis
    by (auto simp: snapshot_ok_def intro: acl_rel_replace rows_ok_replace)
next
  case (OpInsert e)
  with assms acl_rel_insert rows_ok_insert show ?thesis by fastforce
next
  case (OpDelete ids)
  with assms show ?thesis by (auto intro: acl_rel_delete_docs rows_ok_delete_docs)
qed

lemma run_simulation:
  "acl_rel r db \<Longrightarrow> rows_ok t db \<Longrightarrow> \<forall>x \<in> set xs. op_ok t x \<Longrightarrow>
    \<exists>db'. sql_run t db xs = Inr db' \<and> acl_rel (foldl (mem_step t) r xs) db' \<and> rows_ok t db'"
proof (induction xs arbitrary: r db)
  case (Cons x xs)
  then obtain db1 where 1: "sql_step t db x = Inr db1" "acl_rel (mem_step t r x) db1" "rows_ok t db1"
    using step_simulation [of r db t x] by auto
  then obtain db2 where "sql_run t db1 xs = Inr db2" "acl_rel (foldl (mem_step t) (mem_step t r x) xs) db2"
    "rows_ok t db2"
    using Cons.IH [OF 1(2,3)] Cons.prems(3) by auto
  with 1 show ?case by auto
qed simp

text \<open>
  Property C4: starting from related states, any sequence of snapshot replacements, single-row
  inserts and deletions of documents runs without an error in the SQL mode, and every read
  decision of the SQL mode is the one of the in-memory mode.
\<close>

theorem sql_mode_refines_memory_mode:
  assumes "acl_rel r db" and "rows_ok t db" and "\<forall>x \<in> set xs. op_ok t x"
  shows "\<exists>db'. sql_run t db xs = Inr db' \<and>
    (\<forall>tenant who d. principal_can_read_document_sql tenant who d db' =
       principal_can_read_document tenant who d (foldl (mem_step t) r xs))"
  using run_simulation [OF assms] can_read_rel by metis

definition demo_entry :: "string \<Rightarrow> uuid \<Rightarrow> bool \<Rightarrow> acl_entry" where
  "demo_entry d who deny = \<lparr>ae_document_id = d, ae_principal_id = Some who, ae_group_id = None,
     ae_permission = READ, ae_granted_via = ''direct'', ae_source_container_id = None,
     ae_is_deny = deny, ae_source_type = ''onedrive'', ae_tenant_id = 1, ae_created_at = 0,
     ae_updated_at = 0\<rparr>"

definition empty_db :: sqldb where
  "empty_db = \<lparr>sd_documents = [], sd_acl = [], sd_container_acl = [], sd_edges = [], sd_pending = []\<rparr>"

theorem sql_mode_refines_memory_mode_witness:
  "\<exists>db'. sql_run 1 empty_db [OpReplace ''d'' [demo_entry ''d'' 5 False, demo_entry ''d'' 5 True],
       OpInsert (demo_entry ''d'' 7 False)] = Inr db' \<and>
    (\<forall>tenant who d. principal_can_read_document_sql tenant who d db' =
       principal_can_read_document tenant who d (foldl (mem_step 1) empty_repo
         [OpReplace ''d'' [demo_entry ''d'' 5 False, demo_entry ''d'' 5 True],
          OpInsert (demo_entry ''d'' 7 False)]))"
  by (rule sql_mode_refines_memory_mode)
    (simp_all add: acl_rel_def empty_repo_def empty_db_def get_acl_entries_def get_acl_entries_sql_def
      rows_ok_def snapshot_ok_def demo_entry_def)

text \<open>
  Rebinding a ghost principal to one that already has a row on the document leaves two
  equal grants in the SQL table, after which inserting that grant again raises
  \<open>MultipleResultsFound\<close>, while the in-memory mode accepts the same three calls.
\<close>

theorem rebind_then_insert_raises:
  "insert_acl_entry_sql (demo_entry ''d'' 7 False)
     (fst (rebind_acl_principal_sql 1 5 7
       (replace_acl_entries_sql ''d'' [demo_entry ''d'' 5 False, demo_entry ''d'' 7 False] empty_db)))
   = Inl MultipleResultsFound
   \<and> principal_can_read_document 1 7 ''d'' (insert_acl_entry (demo_entry ''d'' 7 False)
       (fst (rebind_acl_principal 1 5 7 (replace_acl_entries ''d''
         [demo_entry ''d'' 5 False, demo_entry ''d'' 7 False] empty_repo))))"
  by code_simp

end
