(* ===== verification/Acl_Compiler.thy ===== *)
theory Acl_Compiler
  imports Acl_Inheritance Identity Canonical_Sql
begin

text \<open>
  The ACL compiler (\<open>backend/app/acl/compiler.py\<close>): permission hints become direct entries, the
  parent chains give inherited entries, groups are expanded to their members (nested, and safe
  on cycles), and one pass applies denies and keeps the highest permission of each principal.
  The result replaces the document's ACL rows.
\<close>

subsection \<open>Direct entries\<close>

definition granted_via_of :: "string \<Rightarrow> string" where
  "granted_via_of source_type =
     (if source_type = ''google_drive'' then ''drive_share''
      else if source_type = ''google_gmail'' then ''gmail_mailbox''
      else ''direct'')"

definition is_group_hint :: "identity_hint \<Rightarrow> uuid \<Rightarrow> repo \<Rightarrow> bool" where
  "is_group_hint hint tenant_id r =
     (if starts_with ''group:'' (ih_external_id hint) then True
      else opt_str (ih_email hint) \<noteq> [] \<and> get_group_by_email (opt_str (ih_email hint)) tenant_id r \<noteq> None)"

definition new_group :: "identity_hint \<Rightarrow> uuid \<Rightarrow> uuid \<Rightarrow> instant \<Rightarrow> group" where
  "new_group hint tenant_id fresh now =
     \<lparr>g_id = fresh, g_tenant_id = tenant_id,
      g_name = (if opt_str (ih_name hint) \<noteq> [] then opt_str (ih_name hint)
                else if opt_str (ih_email hint) \<noteq> [] then opt_str (ih_email hint)
                else ih_external_id hint),
      g_email = ih_email hint, g_source_type = ih_source_type hint, g_source_id = ih_external_id hint,
      g_member_principal_ids = [], g_member_group_ids = [], g_created_at = now, g_updated_at = now\<rparr>"

definition resolve_group :: "identity_hint \<Rightarrow> uuid \<Rightarrow> instant \<Rightarrow> world \<Rightarrow> group \<times> world" where
  "resolve_group hint tenant_id now w =
     (case get_group_by_source_identity (ih_source_type hint) (ih_external_id hint) tenant_id (w_repo w) of
        Some g \<Rightarrow> (g, w)
      | None \<Rightarrow>
          (case (if opt_str (ih_email hint) \<noteq> []
                 then get_group_by_email (opt_str (ih_email hint)) tenant_id (w_repo w) else None) of
             Some g \<Rightarrow> (g, w)
           | None \<Rightarrow>
               let g = new_group hint tenant_id (w_next_uuid w) now
               in (g, w\<lparr>w_repo := create_group g (w_repo w), w_next_uuid := Suc (w_next_uuid w)\<rparr>)))"

definition direct_entry ::
    "canonical_document \<Rightarrow> uuid \<Rightarrow> instant \<Rightarrow> uuid option \<Rightarrow> uuid option \<Rightarrow> permission_level \<Rightarrow> string \<Rightarrow> acl_entry" where
  "direct_entry doc tenant_id now who grp level via =
     \<lparr>ae_document_id = cd_id doc, ae_principal_id = who, ae_group_id = grp, ae_permission = level,
      ae_granted_via = via, ae_source_container_id = None, ae_is_deny = False,
      ae_source_type = cd_source_type doc, ae_tenant_id = tenant_id, ae_created_at = now,
      ae_updated_at = now\<rparr>"

text \<open>A resolver that raises is logged and the hint is skipped; what it wrote before stays.\<close>

definition compile_hint ::
    "(string \<Rightarrow> bool) \<Rightarrow> matcher list \<Rightarrow> canonical_document \<Rightarrow> uuid \<Rightarrow> instant \<Rightarrow>
     acl_entry list \<times> world \<Rightarrow> identity_hint \<times> permission_level \<Rightarrow> acl_entry list \<times> world" where
  "compile_hint valid_email matchers doc tenant_id now = (\<lambda>(entries, w) (hint, level).
     if ih_source_type hint \<notin> set MIRROR_BIND_SOURCES \<and> is_group_hint hint tenant_id (w_repo w)
     then let (g, w) = resolve_group hint tenant_id now w
          in (entries @ [direct_entry doc tenant_id now None (Some (g_id g)) level ''direct''], w)
     else case resolve valid_email matchers hint tenant_id (Some (cd_id doc)) None now w of
            (Inl err, w) \<Rightarrow> (entries, w)
          | (Inr r, w) \<Rightarrow>
              if ri_is_pending r \<or> ri_principal_id r = None then (entries, w)
              else (entries @ [direct_entry doc tenant_id now (ri_principal_id r) None level
                                 (granted_via_of (cd_source_type doc))], w))"

definition compile_direct_entries ::
    "(string \<Rightarrow> bool) \<Rightarrow> matcher list \<Rightarrow> canonical_document \<Rightarrow> (identity_hint \<times> permission_level) list \<Rightarrow>
     uuid \<Rightarrow> instant \<Rightarrow> world \<Rightarrow> acl_entry list \<times> world" where
  "compile_direct_entries valid_email matchers doc hints tenant_id now w =
     foldl (compile_hint valid_email matchers doc tenant_id now) ([], w) hints"

subsection \<open>Group expansion\<close>

text \<open>
  The depth-first search of \<open>_expand_group_members_safe\<close>: the loop over the nested group ids and
  the recursive call are one function, which returns the principals in the order the code
  collects them, with the visited set it shares. Every entered group adds a new identifier of
  the repository's groups to the visited set, so the search ends.
\<close>

definition group_ids :: "repo \<Rightarrow> uuid set" where
  "group_ids r = (\<lambda>(i, g). g_id g) ` set (r_groups r)"

lemma get_group_SomeD: "get_group i t r = Some g \<Longrightarrow> (i, g) \<in> set (r_groups r) \<and> g_tenant_id g = t"
  by (auto simp: get_group_def dest: map_of_SomeD split: option.splits if_splits)

lemma get_group_id: "get_group i t r = Some g \<Longrightarrow> g_id g \<in> group_ids r"
  by (force simp: group_ids_def dest: get_group_SomeD)

function expand_nested :: "uuid \<Rightarrow> repo \<Rightarrow> uuid list \<Rightarrow> uuid list \<Rightarrow> uuid list \<times> uuid list" where
  "expand_nested t r [] visited = ([], visited)"
| "expand_nested t r (n # ns) visited =
     (case get_group n t r of
        None \<Rightarrow> expand_nested t r ns visited
      | Some g \<Rightarrow>
          if g_id g \<in> set visited then expand_nested t r ns visited
          else let (nested, visited1) = expand_nested t r (g_member_group_ids g) (g_id g # visited);
                   (rest, visited2) = expand_nested t r ns visited1
               in (g_member_principal_ids g @ nested @ rest, visited2))"
  by pat_completeness auto

lemma finite_group_ids [simp]: "finite (group_ids r)"
  by (simp add: group_ids_def)

lemma card_visit: "get_group n t r = Some g \<Longrightarrow> g_id g \<notin> set v \<Longrightarrow>
    card (group_ids r - insert (g_id g) (set v)) < card (group_ids r - set v)"
  by (rule psubset_card_mono) (auto dest: get_group_id)

lemma card_superset: "set v \<subseteq> set v' \<Longrightarrow> card (group_ids r - set v') \<le> card (group_ids r - set v)"
  by (rule card_mono) auto

lemma expand_nested_visited_dom:
  "expand_nested_dom (t, r, ns, v) \<Longrightarrow> set v \<subseteq> set (snd (expand_nested t r ns v))"
  by (induction t r ns v rule: expand_nested.pinduct)
    (fastforce simp: expand_nested.psimps split: option.splits prod.splits)+

termination expand_nested
proof (relation "measures [\<lambda>(t, r, ns, v). card (group_ids r - set v), \<lambda>(t, r, ns, v). length ns]", goal_cases)
  case (5 t r n ns v g x nested v1)
  then have "set (g_id g # v) \<subseteq> set v1"
    using expand_nested_visited_dom [of t r "g_member_group_ids g" "g_id g # v"] by (metis snd_conv)
  with card_visit [of n t r g v] card_superset [of "g_id g # v" v1 r] 5 show ?case by simp
qed (auto dest: card_visit)

definition expand_group_members_safe :: "group \<Rightarrow> uuid \<Rightarrow> repo \<Rightarrow> uuid list" where
  "expand_group_members_safe g t r =
     g_member_principal_ids g @ fst (expand_nested t r (g_member_group_ids g) [g_id g])"

lemma expand_nested_visited: "set v \<subseteq> set (snd (expand_nested t r ns v))"
  by (induction t r ns v rule: expand_nested.induct) (fastforce split: option.splits prod.splits)+

text \<open>
  The members of a group: its own principals and, along nested groups that exist in the tenant,
  the members of those.
\<close>

inductive group_member :: "uuid \<Rightarrow> repo \<Rightarrow> uuid \<Rightarrow> uuid \<Rightarrow> bool" for t r where
  own: "get_group i t r = Some g \<Longrightarrow> p \<in> set (g_member_principal_ids g) \<Longrightarrow> group_member t r i p"
| via: "get_group i t r = Some g \<Longrightarrow> j \<in> set (g_member_group_ids g) \<Longrightarrow> group_member t r j p \<Longrightarrow>
    group_member t r i p"

inductive_simps group_member_iff: "group_member t r i p"

definition groups_ok :: "repo \<Rightarrow> bool" where
  "groups_ok r = (\<forall>i g. map_of (r_groups r) i = Some g \<longrightarrow> g_id g = i)"

lemma groups_okD: "groups_ok r \<Longrightarrow> get_group i t r = Some g \<Longrightarrow> g_id g = i"
  by (auto simp: groups_ok_def get_group_def split: option.splits if_splits)

lemma expand_nested_sound:
  "p \<in> set (fst (expand_nested t r ns v)) \<Longrightarrow> \<exists>n \<in> set ns. group_member t r n p"
proof (induction t r ns v rule: expand_nested.induct)
  case (2 t r n ns v)
  then show ?case
    by (fastforce split: option.splits if_splits prod.splits intro: group_member.intros)
qed simp

definition expanded :: "uuid \<Rightarrow> repo \<Rightarrow> uuid set \<Rightarrow> uuid set \<Rightarrow> uuid \<Rightarrow> bool" where
  "expanded t r ps V i \<longleftrightarrow> (\<forall>g. get_group i t r = Some g \<longrightarrow> set (g_member_principal_ids g) \<subseteq> ps \<and>
     (\<forall>j \<in> set (g_member_group_ids g). get_group j t r \<noteq> None \<longrightarrow> j \<in> V))"

lemma expanded_mono: "expanded t r ps V i \<Longrightarrow> ps \<subseteq> ps' \<Longrightarrow> V \<subseteq> V' \<Longrightarrow> expanded t r ps' V' i"
  unfolding expanded_def by blast

lemma expand_nested_closed:
  "groups_ok r \<Longrightarrow>
     (\<forall>n \<in> set ns. get_group n t r \<noteq> None \<longrightarrow> n \<in> set (snd (expand_nested t r ns v))) \<and>
     (\<forall>i \<in> set (snd (expand_nested t r ns v)) - set v.
        expanded t r (set (fst (expand_nested t r ns v))) (set (snd (expand_nested t r ns v))) i)"
proof (induction t r ns v rule: expand_nested.induct)
  case (2 t r n ns v)
  show ?case
  proof (cases "get_group n t r")
    case None
    with "2.IH"(1) [OF None "2.prems"] show ?thesis by simp
  next
    case (Some g)
    then have id: "g_id g = n" using "2.prems" groups_okD by blast
    show ?thesis
    proof (cases "n \<in> set v")
      case True
      then have res: "expand_nested t r (n # ns) v = expand_nested t r ns v" using Some id by simp
      have "n \<in> set (snd (expand_nested t r ns v))" using True expand_nested_visited by blast
      with "2.IH"(2) [OF Some] "2.prems" True id show ?thesis unfolding res by simp
    next
      case False
      obtain ps1 v1 ps2 v2 where e: "expand_nested t r (g_member_group_ids g) (n # v) = (ps1, v1)"
        "expand_nested t r ns v1 = (ps2, v2)" by (meson surj_pair)
      have res: "expand_nested t r (n # ns) v = (g_member_principal_ids g @ ps1 @ ps2, v2)"
        using Some False id e by simp
      note sub = expand_nested_visited [of "n # v" t r "g_member_group_ids g", unfolded e]
        expand_nested_visited [of v1 t r ns, unfolded e]
      have I1: "\<forall>m \<in> set (g_member_group_ids g). get_group m t r \<noteq> None \<longrightarrow> m \<in> set v1"
        "\<forall>i \<in> set v1 - set (n # v). expanded t r (set ps1) (set v1) i"
        using "2.IH"(3) [OF Some] "2.prems" False id e by auto
      have I2: "\<forall>m \<in> set ns. get_group m t r \<noteq> None \<longrightarrow> m \<in> set v2"
        "\<forall>i \<in> set v2 - set v1. expanded t r (set ps2) (set v2) i"
        using "2.IH"(4) [OF Some] "2.prems" False id e by auto
      have "expanded t r (set (g_member_principal_ids g @ ps1 @ ps2)) (set v2) i" if i: "i \<in> set v2 - set v" for i
      proof -
        consider "i = n" | "i \<in> set v1 - set (n # v)" | "i \<in> set v2 - set v1"
          using i by fastforce
        then show ?thesis
        proof cases
          case 1
          with Some I1(1) sub show ?thesis by (auto simp: expanded_def)
        next
          case 2
          with I1(2) have "expanded t r (set ps1) (set v1) i" by blast
          then show ?thesis by (rule expanded_mono) (use sub in auto)
        next
          case 3
          with I2(2) have "expanded t r (set ps2) (set v2) i" by blast
          then show ?thesis by (rule expanded_mono) (use sub in auto)
        qed
      qed
      with I2(1) sub show ?thesis unfolding res by auto
    qed
  qed
qed simp

lemma expand_set:
  assumes "groups_ok r" and "get_group i t r = Some g"
  shows "set (expand_group_members_safe g t r) = {p. group_member t r i p}"
proof -
  obtain ps V where e: "expand_nested t r (g_member_group_ids g) [i] = (ps, V)" by fastforce
  have id: "g_id g = i" using assms groups_okD by blast
  have out: "expand_group_members_safe g t r = g_member_principal_ids g @ ps"
    by (simp add: expand_group_members_safe_def id e)
  let ?ps = "set (g_member_principal_ids g @ ps)"
  note cl = expand_nested_closed [OF assms(1), of "g_member_group_ids g" t "[i]", unfolded e fst_conv snd_conv]
  have sub: "i \<in> set V" using expand_nested_visited [of "[i]" t r "g_member_group_ids g"] by (simp add: e)
  have all: "expanded t r ?ps (set V) j" if "j \<in> set V" for j
  proof (cases "j = i")
    case True
    with cl assms(2) show ?thesis by (auto simp: expanded_def)
  next
    case False
    with cl that have "expanded t r (set ps) (set V) j" by auto
    then show ?thesis by (rule expanded_mono) auto
  qed
  have "p \<in> ?ps" if "group_member t r j p" "j \<in> set V" for j p
    using that
  proof (induction rule: group_member.induct)
    case (own j h p)
    with all [of j] show ?case unfolding expanded_def by blast
  next
    case (via j h k p)
    then have "get_group k t r \<noteq> None" by (auto simp: group_member_iff [of t r k p])
    with via all [of j] show ?case unfolding expanded_def by blast
  qed
  moreover have "group_member t r i p" if "p \<in> ?ps" for p
    using that expand_nested_sound [of p t r "g_member_group_ids g" "[i]"] assms(2)
    by (auto simp: e intro: group_member.intros)
  ultimately show ?thesis using sub by (auto simp: out)
qed

text \<open>
  Property C3: group expansion is complete and safe on cycles. Whatever the nesting of the groups
  (cycles included), the search ends and the principals it returns are exactly the members of the
  group, its own and those of the groups nested in it at any depth.
\<close>

theorem expansion_is_exact:
  assumes "groups_ok r" and "get_group i t r = Some g"
  shows "set (expand_group_members_safe g t r) = {p. group_member t r i p}"
  using assms by (rule expand_set)

definition demo_group :: "uuid \<Rightarrow> uuid list \<Rightarrow> uuid list \<Rightarrow> group" where
  "demo_group i ps gs = \<lparr>g_id = i, g_tenant_id = 1, g_name = ''g'', g_email = None, g_source_type = ''onedrive'',
     g_source_id = ''group:'' @ nat_str i, g_member_principal_ids = ps, g_member_group_ids = gs, g_created_at = 0,
     g_updated_at = 0\<rparr>"

definition demo_groups :: repo where
  "demo_groups = create_group (demo_group 10 [1] [11, 99]) (create_group (demo_group 11 [2] [12])
     (create_group (demo_group 12 [3, 1] [10]) empty_repo))"

lemma demo_groups_ok: "groups_ok demo_groups"
  by (simp add: groups_ok_def demo_groups_def create_group_def empty_repo_def demo_group_def)

theorem expansion_is_exact_witness:
  "expand_group_members_safe (demo_group 10 [1] [11, 99]) 1 demo_groups = [1, 2, 3, 1] \<and>
   {p. group_member 1 demo_groups 10 p} = {1, 2, 3}"
proof -
  have g: "get_group 10 1 demo_groups = Some (demo_group 10 [1] [11, 99])" by code_simp
  have e: "expand_group_members_safe (demo_group 10 [1] [11, 99]) 1 demo_groups = [1, 2, 3, 1]" by code_simp
  show ?thesis
    unfolding expansion_is_exact [OF demo_groups_ok g, symmetric] e by auto
qed

subsection \<open>Expansion of entries, deny overrides and the compiler\<close>

definition expanded_entry :: "uuid \<Rightarrow> instant \<Rightarrow> acl_entry \<Rightarrow> uuid \<Rightarrow> acl_entry" where
  "expanded_entry tenant_id now entry who =
     \<lparr>ae_document_id = ae_document_id entry, ae_principal_id = Some who, ae_group_id = None,
      ae_permission = ae_permission entry, ae_granted_via = ''group_membership'',
      ae_source_container_id = ae_source_container_id entry, ae_is_deny = ae_is_deny entry,
      ae_source_type = ae_source_type entry, ae_tenant_id = tenant_id, ae_created_at = now,
      ae_updated_at = now\<rparr>"

definition expand_entry :: "uuid \<Rightarrow> instant \<Rightarrow> repo \<Rightarrow> acl_entry \<Rightarrow> acl_entry list" where
  "expand_entry tenant_id now r entry =
     (case ae_group_id entry of
        None \<Rightarrow> []
      | Some gid \<Rightarrow>
          (case get_group gid tenant_id r of
             None \<Rightarrow> []
           | Some g \<Rightarrow> map (expanded_entry tenant_id now entry) (expand_group_members_safe g tenant_id r)))"

definition expand_group_membership :: "acl_entry list \<Rightarrow> uuid \<Rightarrow> instant \<Rightarrow> repo \<Rightarrow> acl_entry list" where
  "expand_group_membership entries tenant_id now r = concat (map (expand_entry tenant_id now r) entries)"

type_synonym entry_ref = "string \<times> uuid option"

definition entry_ref :: "acl_entry \<Rightarrow> entry_ref" where
  "entry_ref e = (ae_document_id e, ae_principal_id e)"

definition deny_keys :: "acl_entry list \<Rightarrow> entry_ref list" where
  "deny_keys entries = map entry_ref (filter (\<lambda>e. ae_is_deny e \<and> ae_principal_id e \<noteq> None) entries)"

definition without_denied :: "acl_entry list \<Rightarrow> acl_entry list" where
  "without_denied entries = filter (\<lambda>e. \<not> (ae_principal_id e \<noteq> None \<and> entry_ref e \<in> set (deny_keys entries) \<and>
     \<not> ae_is_deny e)) entries"

definition keep_best :: "(entry_ref, acl_entry) dict \<Rightarrow> acl_entry \<Rightarrow> (entry_ref, acl_entry) dict" where
  "keep_best best e =
     (case map_of best (entry_ref e) of
        None \<Rightarrow> AList.update (entry_ref e) e best
      | Some b \<Rightarrow> if permission_rank (ae_permission b) < permission_rank (ae_permission e)
                  then AList.update (entry_ref e) e best else best)"

definition apply_deny_overrides :: "acl_entry list \<Rightarrow> acl_entry list" where
  "apply_deny_overrides entries = map snd (foldl keep_best [] (without_denied entries))"

definition compile ::
    "(string \<Rightarrow> bool) \<Rightarrow> matcher list \<Rightarrow> canonical_document \<Rightarrow> (identity_hint \<times> permission_level) list \<Rightarrow>
     uuid \<Rightarrow> instant \<Rightarrow> world \<Rightarrow> acl_entry list \<times> world" where
  "compile valid_email matchers doc hints tenant_id now w =
     (let (direct, w) = compile_direct_entries valid_email matchers doc hints tenant_id now w in
      if cd_source_type doc \<notin> set MIRROR_BIND_SOURCES
      then let (inherited, w) = compute_inherited_entries doc now w;
               all_entries = direct @ inherited
           in (apply_deny_overrides (all_entries @ expand_group_membership all_entries tenant_id now (w_repo w)), w)
      else (apply_deny_overrides direct, w))"

subsection \<open>What deny overrides keep\<close>

definition best_ok :: "acl_entry list \<Rightarrow> (entry_ref, acl_entry) dict \<Rightarrow> bool" where
  "best_ok xs best \<longleftrightarrow> dict_wf best \<and> (\<forall>d p. case map_of best (d, p) of
       None \<Rightarrow> (\<forall>e \<in> set xs. entry_ref e \<noteq> (d, p))
     | Some b \<Rightarrow> b \<in> set xs \<and> entry_ref b = (d, p) \<and>
         (\<forall>e \<in> set xs. entry_ref e = (d, p) \<longrightarrow> ae_permission e \<le> ae_permission b))"

lemma best_okD:
  assumes "best_ok xs best"
  shows "dict_wf best"
    and "map_of best k = None \<Longrightarrow> e \<in> set xs \<Longrightarrow> entry_ref e \<noteq> k"
    and "map_of best k = Some b \<Longrightarrow> b \<in> set xs \<and> entry_ref b = k \<and>
         (\<forall>e \<in> set xs. entry_ref e = k \<longrightarrow> ae_permission e \<le> ae_permission b)"
  using assms by (cases k; fastforce simp: best_ok_def split: option.splits)+

lemma best_okI:
  assumes "dict_wf best"
    and "\<And>k e. map_of best k = None \<Longrightarrow> e \<in> set xs \<Longrightarrow> entry_ref e \<noteq> k"
    and "\<And>k b. map_of best k = Some b \<Longrightarrow> b \<in> set xs \<and> entry_ref b = k \<and>
         (\<forall>e \<in> set xs. entry_ref e = k \<longrightarrow> ae_permission e \<le> ae_permission b)"
  shows "best_ok xs best"
  unfolding best_ok_def using assms by (simp split: option.splits)

lemma map_of_keep_best:
  "map_of (keep_best best e) k =
     (if k = entry_ref e \<and> (\<forall>b. map_of best k = Some b \<longrightarrow> ae_permission b < ae_permission e)
      then Some e else map_of best k)"
  by (auto simp: keep_best_def dict_simps less_permission_level_def split: option.splits)

lemma keep_best_step:
  assumes "best_ok xs best"
  shows "best_ok (xs @ [e]) (keep_best best e)"
proof (rule best_okI)
  show "dict_wf (keep_best best e)"
    using best_okD(1) [OF assms] by (simp add: keep_best_def split: option.splits)
next
  fix k f assume "map_of (keep_best best e) k = None" "f \<in> set (xs @ [e])"
  then show "entry_ref f \<noteq> k"
    using best_okD(2) [OF assms, of k f] by (auto simp: map_of_keep_best split: if_splits)
next
  fix k b assume b: "map_of (keep_best best e) k = Some b"
  show "b \<in> set (xs @ [e]) \<and> entry_ref b = k \<and>
      (\<forall>f \<in> set (xs @ [e]). entry_ref f = k \<longrightarrow> ae_permission f \<le> ae_permission b)"
  proof (cases "map_of best k")
    case None
    with b have "k = entry_ref e" "b = e" by (auto simp: map_of_keep_best split: if_splits)
    with best_okD(2) [OF assms None] show ?thesis by auto
  next
    case (Some c)
    note c = best_okD(3) [OF assms Some]
    show ?thesis
    proof (cases "k = entry_ref e \<and> ae_permission c < ae_permission e")
      case True
      with b Some have "b = e" by (auto simp: map_of_keep_best split: if_splits)
      with True c show ?thesis by (auto intro: less_imp_le order_trans)
    next
      case False
      with b Some have "b = c" by (auto simp: map_of_keep_best split: if_splits)
      with False c show ?thesis by (auto simp: not_less)
    qed
  qed
qed

lemma keep_best_foldl: "best_ok xs (foldl keep_best [] xs)"
proof (induction xs rule: rev_induct)
  case Nil
  show ?case by (rule best_okI) auto
next
  case (snoc e xs)
  then show ?case using keep_best_step by simp
qed

lemma without_denied_iff:
  "e \<in> set (without_denied es) \<longleftrightarrow> e \<in> set es \<and> (ae_principal_id e \<noteq> None \<longrightarrow> ae_is_deny e \<or>
     (\<forall>f \<in> set es. entry_ref f = entry_ref e \<longrightarrow> \<not> ae_is_deny f))"
proof -
  have p: "entry_ref f = entry_ref e \<Longrightarrow> ae_principal_id f = ae_principal_id e" for f
    by (simp add: entry_ref_def)
  have key: "entry_ref e \<in> set (deny_keys es) \<longleftrightarrow>
      (\<exists>f \<in> set es. entry_ref f = entry_ref e \<and> ae_is_deny f)" if who: "ae_principal_id e \<noteq> None"
  proof
    assume "entry_ref e \<in> set (deny_keys es)"
    then show "\<exists>f \<in> set es. entry_ref f = entry_ref e \<and> ae_is_deny f"
      unfolding deny_keys_def set_map set_filter by (elim imageE) (auto intro: bexI)
  next
    assume "\<exists>f \<in> set es. entry_ref f = entry_ref e \<and> ae_is_deny f"
    then obtain f where "f \<in> set es" "entry_ref f = entry_ref e" "ae_is_deny f" by blast
    with p [of f] who show "entry_ref e \<in> set (deny_keys es)"
      unfolding deny_keys_def set_map set_filter by (intro image_eqI [of _ _ f]) auto
  qed
  show ?thesis
  proof (cases "ae_principal_id e = None")
    case True
    then show ?thesis by (simp add: without_denied_def)
  next
    case False
    then show ?thesis unfolding without_denied_def set_filter mem_Collect_eq key [OF False] by blast
  qed
qed

lemma mem_deny_overrides:
  "e \<in> set (apply_deny_overrides es) \<longleftrightarrow> map_of (foldl keep_best [] (without_denied es)) (entry_ref e) = Some e"
proof -
  let ?best = "foldl keep_best [] (without_denied es)"
  note b = best_okD [OF keep_best_foldl [of "without_denied es"]]
  have "e \<in> set (apply_deny_overrides es) \<longleftrightarrow> (\<exists>k. map_of ?best k = Some e)"
    by (force simp: apply_deny_overrides_def simp flip: in_set_dict_iff [OF b(1)])
  then show ?thesis using b(3) by metis
qed

lemma deny_overrides_distinct: "distinct (map entry_ref (apply_deny_overrides es))"
proof -
  let ?best = "foldl keep_best [] (without_denied es)"
  note b = best_okD [OF keep_best_foldl [of "without_denied es"]]
  have "map entry_ref (map snd ?best) = map fst ?best"
    using b(1,3) by (auto simp: in_set_dict_iff [OF b(1)])
  then show ?thesis using b(1) by (simp only: apply_deny_overrides_def dict_wf_def)
qed

lemma deny_overrides_keep:
  "distinct (map entry_ref (apply_deny_overrides es)) \<and>
   set (apply_deny_overrides es) \<subseteq> set es \<and>
   entry_ref ` set (apply_deny_overrides es) = entry_ref ` set es \<and>
   (\<forall>b \<in> set (apply_deny_overrides es). \<forall>e \<in> set es.
      ae_principal_id e \<noteq> None \<and> entry_ref e = entry_ref b \<longrightarrow>
        (ae_is_deny e \<longrightarrow> ae_is_deny b) \<and>
        (ae_is_deny e = ae_is_deny b \<longrightarrow> ae_permission e \<le> ae_permission b))"
proof (intro conjI ballI impI subsetI)
  let ?best = "foldl keep_best [] (without_denied es)"
  note b = best_okD [OF keep_best_foldl [of "without_denied es"]]
  show "distinct (map entry_ref (apply_deny_overrides es))" by (rule deny_overrides_distinct)
  have mem: "e \<in> set (without_denied es)" if "e \<in> set (apply_deny_overrides es)" for e
    using b(3) that unfolding mem_deny_overrides by blast
  show sub: "e \<in> set es" if "e \<in> set (apply_deny_overrides es)" for e
    using mem [OF that] by (simp add: without_denied_iff)
  have "\<exists>f \<in> set (without_denied es). entry_ref f = entry_ref e" if "e \<in> set es" for e
    using that unfolding Bex_def without_denied_iff by blast
  moreover have "\<exists>f \<in> set (apply_deny_overrides es). entry_ref f = entry_ref e"
    if "e \<in> set (without_denied es)" for e
    using b(2) [of "entry_ref e" e] b(3) [of "entry_ref e"] that
    unfolding Bex_def mem_deny_overrides by (metis not_None_eq)
  ultimately have "\<exists>f \<in> set (apply_deny_overrides es). entry_ref f = entry_ref e" if "e \<in> set es" for e
    using that by metis
  then show "entry_ref ` set (apply_deny_overrides es) = entry_ref ` set es"
    using sub by (auto simp: image_iff; metis)
next
  fix f e
  assume f: "f \<in> set (apply_deny_overrides es)" and e: "e \<in> set es"
    and k: "ae_principal_id e \<noteq> None \<and> entry_ref e = entry_ref f"
  note b = best_okD [OF keep_best_foldl [of "without_denied es"]]
  from f b(3) have wf: "f \<in> set (without_denied es)" unfolding mem_deny_overrides by blast
  have "ae_principal_id f \<noteq> None" using k by (auto simp: entry_ref_def)
  with wf e k show deny: "ae_is_deny f" if "ae_is_deny e" using that by (auto simp: without_denied_iff)
  assume same: "ae_is_deny e = ae_is_deny f"
  have "e \<in> set (without_denied es)"
    using wf e k same \<open>ae_principal_id f \<noteq> None\<close> by (auto simp: without_denied_iff)
  with f b(3) k show "ae_permission e \<le> ae_permission f" unfolding mem_deny_overrides by metis
qed

text \<open>
  The override pass keeps one entry for each document and principal that has any,
  it is one of the entries it was given, it is a deny when there is a deny for the same principal,
  and no entry of the same sort has a higher permission.
\<close>

theorem deny_overrides_spec:
  "distinct (map entry_ref (apply_deny_overrides es)) \<and>
   set (apply_deny_overrides es) \<subseteq> set es \<and>
   entry_ref ` set (apply_deny_overrides es) = entry_ref ` set es \<and>
   (\<forall>b \<in> set (apply_deny_overrides es). \<forall>e \<in> set es.
      ae_principal_id e \<noteq> None \<and> entry_ref e = entry_ref b \<longrightarrow>
        (ae_is_deny e \<longrightarrow> ae_is_deny b) \<and>
        (ae_is_deny e = ae_is_deny b \<longrightarrow> ae_permission e \<le> ae_permission b))"
  by (rule deny_overrides_keep)

theorem deny_overrides_spec_witness:
  "ae_is_deny (hd (apply_deny_overrides [demo_entry ''d'' 5 False, demo_entry ''d'' 5 True])) \<and>
   map (\<lambda>e. (ae_principal_id e, ae_is_deny e)) (apply_deny_overrides
     [demo_entry ''d'' 5 False, demo_entry ''d'' 6 False, demo_entry ''d'' 5 True]) = [(Some 6, False), (Some 5, True)]"
proof
  let ?es = "[demo_entry ''d'' 5 False, demo_entry ''d'' 5 True]"
  have "apply_deny_overrides ?es \<noteq> []" by code_simp
  then have b: "hd (apply_deny_overrides ?es) \<in> set (apply_deny_overrides ?es)" by simp
  have "entry_ref (demo_entry ''d'' 5 True) = entry_ref (hd (apply_deny_overrides ?es))" by code_simp
  moreover have "demo_entry ''d'' 5 True \<in> set ?es" "ae_principal_id (demo_entry ''d'' 5 True) \<noteq> None"
    "ae_is_deny (demo_entry ''d'' 5 True)" by (simp_all add: demo_entry_def)
  ultimately show "ae_is_deny (hd (apply_deny_overrides ?es))"
    using deny_overrides_spec [of ?es] b by blast
next
  show "map (\<lambda>e. (ae_principal_id e, ae_is_deny e)) (apply_deny_overrides
     [demo_entry ''d'' 5 False, demo_entry ''d'' 6 False, demo_entry ''d'' 5 True]) = [(Some 6, False), (Some 5, True)]"
    by code_simp
qed

subsection \<open>The compiled snapshot decides the reads\<close>

text \<open>Every entry the compiler makes is an allow of the document in the tenant.\<close>

definition entry_of :: "uuid \<Rightarrow> string \<Rightarrow> acl_entry \<Rightarrow> bool" where
  "entry_of t d e \<longleftrightarrow> ae_document_id e = d \<and> ae_tenant_id e = t \<and> \<not> ae_is_deny e"

lemma compile_hint_entries:
  assumes "\<forall>e \<in> set (fst s). entry_of t (cd_id doc) e"
  shows "\<forall>e \<in> set (fst (compile_hint valid ms doc t now s h)). entry_of t (cd_id doc) e"
  using assms
  by (cases s; cases h)
    (auto simp: compile_hint_def entry_of_def direct_entry_def split: sum.splits prod.splits)

lemma compile_direct_entries_of:
  "\<forall>e \<in> set (fst (compile_direct_entries valid ms doc hints t now w)). entry_of t (cd_id doc) e"
  unfolding compile_direct_entries_def
  by (rule foldl_invariant [where P = "\<lambda>s. \<forall>e \<in> set (fst s). entry_of t (cd_id doc) e"])
    (use compile_hint_entries in auto)

definition allow_entries :: "inherit_maps \<Rightarrow> acl_entry set" where
  "allow_entries maps = (\<lambda>x. snd (snd x)) ` set (snd maps)"

lemma allow_entries_update:
  "allow_entries (dm, AList.update k (d, e) am) \<subseteq> insert e (allow_entries (dm, am))"
  by (induction am) (auto simp: allow_entries_def)

lemma surviving_subset: "set (surviving maps) \<subseteq> allow_entries maps"
proof -
  obtain dm am where m: "maps = (dm, am)" by (cases maps)
  show ?thesis unfolding surviving_def m prod.case set_survivors allow_entries_def by force
qed

lemma allow_entries_perm:
  assumes "\<forall>e \<in> allow_entries maps. entry_of (cd_tenant_id doc) (cd_id doc) e"
  shows "\<forall>e \<in> allow_entries (inherit_perm doc now maps x). entry_of (cd_tenant_id doc) (cd_id doc) e"
proof -
  obtain dm am where m: "maps = (dm, am)" by (cases maps)
  obtain d c cp where x: "x = (d, c, cp)" by (cases x)
  have new: "entry_of (cd_tenant_id doc) (cd_id doc) (inherited_entry doc c now cp)"
    by (simp add: entry_of_def inherited_entry_def)
  have "snd (inherit_perm doc now maps x) = am \<or>
      (\<exists>k. snd (inherit_perm doc now maps x) = AList.update k (d, inherited_entry doc c now cp) am)"
    by (auto simp: inherit_perm_def m x Let_def split: option.splits)
  moreover have "allow_entries y = allow_entries (dm, snd y)" for y
    by (simp add: allow_entries_def)
  ultimately have "allow_entries (inherit_perm doc now maps x) \<subseteq> insert (inherited_entry doc c now cp) (allow_entries maps)"
    unfolding m using allow_entries_update by (metis (no_types) subset_insertI)
  with assms new show ?thesis by blast
qed

lemma ball_subset: "\<forall>x \<in> B. P x \<Longrightarrow> A \<subseteq> B \<Longrightarrow> \<forall>x \<in> A. P x"
  by blast

lemma inherited_entries_of:
  "\<forall>e \<in> set (fst (compute_inherited_entries doc now w)). entry_of (cd_tenant_id doc) (cd_id doc) e"
proof -
  let ?P = "\<lambda>maps. \<forall>e \<in> allow_entries maps. entry_of (cd_tenant_id doc) (cd_id doc) e"
  have cont: "?P (inherit_container doc now w' maps x)" if "?P maps" for maps w' x
    unfolding inherit_container_def case_prod_beta
    using that by (intro foldl_invariant [where P = ?P] allow_entries_perm) auto
  have par: "?P (fst (inherit_parent doc now s p))" if "?P (fst s)" for s p
    using that unfolding inherit_parent_def case_prod_beta Let_def fst_conv
    by (intro foldl_invariant [where P = ?P] cont) auto
  have "?P (fst (foldl (inherit_parent doc now) (([], []), w) (cd_parent_ids doc)))"
  proof (rule foldl_invariant [where P = "\<lambda>s. ?P (fst s)"])
    show "?P (fst (([], []), w))" by (simp add: allow_entries_def)
  qed (rule par)
  from ball_subset [OF this surviving_subset] show ?thesis
    unfolding compute_inherited_entries_def case_prod_beta Let_def fst_conv .
qed

text \<open>Reading a document whose rows are all under its own identifier.\<close>

definition sole_id :: "string \<Rightarrow> repo \<Rightarrow> bool" where
  "sole_id d r \<longleftrightarrow> str_strip d = d \<and> d \<noteq> [] \<and>
     (\<forall>a \<in> set (document_id_aliases d). a \<noteq> d \<longrightarrow> get_acl_entries a r = [])"

lemma self_alias: "str_strip d = d \<Longrightarrow> d \<noteq> [] \<Longrightarrow> d \<in> set (document_id_aliases d)"
  by (simp add: document_id_aliases_def Let_def source_prefixes_def)

lemma read_after_replace:
  assumes "sole_id d r" and es: "\<forall>e \<in> set es. entry_of t d e"
  shows "principal_can_read_document t who d (replace_acl_entries d es r) \<longleftrightarrow>
    (\<exists>e \<in> set es. ae_principal_id e = Some who)"
proof -
  let ?r = "replace_acl_entries d es r"
  have rows: "dict_get (r_acl_entries ?r) a [] = (if a = d then es else get_acl_entries a r)" for a
    by (simp add: replace_acl_entries_def get_acl_entries_def dict_get_update)
  have "e \<in> set (dict_get (r_acl_entries ?r) a []) \<longleftrightarrow> a = d \<and> e \<in> set es"
    if "a \<in> set (document_id_aliases d)" for a e
    using assms(1) that by (simp add: rows sole_id_def)
  moreover have "d \<in> set (document_id_aliases d)" using assms(1) by (simp add: sole_id_def self_alias)
  ultimately have mem: "e \<in> set (concat (map (\<lambda>a. filter (\<lambda>e. ae_tenant_id e = t \<and> ae_principal_id e = Some who)
        (dict_get (r_acl_entries ?r) a [])) (document_id_aliases d))) \<longleftrightarrow>
      e \<in> set es \<and> ae_tenant_id e = t \<and> ae_principal_id e = Some who" for e
    by fastforce
  show ?thesis
    unfolding principal_can_read_document_def Let_def Bex_def mem using es by (auto simp: entry_of_def)
qed

lemma expanded_entries_mem:
  assumes "groups_ok r"
  shows "(\<exists>e \<in> set (expand_group_membership es t now r). ae_principal_id e = Some who) \<longleftrightarrow>
    (\<exists>e \<in> set es. \<exists>gid. ae_group_id e = Some gid \<and> group_member t r gid who)"
proof -
  have "(\<exists>x \<in> set (expand_entry t now r e). ae_principal_id x = Some who) \<longleftrightarrow>
      (\<exists>gid. ae_group_id e = Some gid \<and> group_member t r gid who)" for e
  proof (cases "ae_group_id e")
    case None
    then show ?thesis by (simp add: expand_entry_def)
  next
    case (Some gid)
    show ?thesis
    proof (cases "get_group gid t r")
      case None
      with Some show ?thesis by (simp add: expand_entry_def group_member_iff [of t r gid])
    next
      case (Some g)
      with expand_set [OF assms Some] \<open>ae_group_id e = Some gid\<close> show ?thesis
        by (auto simp: expand_entry_def expanded_entry_def)
    qed
  qed
  then show ?thesis by (simp add: expand_group_membership_def)
qed

lemma deny_overrides_who:
  assumes "\<forall>e \<in> set es. ae_document_id e = d"
  shows "(\<exists>e \<in> set (apply_deny_overrides es). ae_principal_id e = p) \<longleftrightarrow> (\<exists>e \<in> set es. ae_principal_id e = p)"
proof -
  note k = deny_overrides_keep [of es]
  from k have sub: "set (apply_deny_overrides es) \<subseteq> set es"
    and refs: "entry_ref ` set (apply_deny_overrides es) = entry_ref ` set es" by blast+
  have "\<exists>f \<in> set (apply_deny_overrides es). ae_principal_id f = p" if "e \<in> set es" "ae_principal_id e = p" for e
  proof -
    from that(1) have "entry_ref e \<in> entry_ref ` set (apply_deny_overrides es)" unfolding refs by (rule imageI)
    then obtain f where "f \<in> set (apply_deny_overrides es)" "entry_ref e = entry_ref f" by (rule imageE)
    with that(2) show ?thesis by (intro bexI [of _ f]) (simp_all add: entry_ref_def)
  qed
  with sub show ?thesis by blast
qed

lemma expanded_entries_of:
  "\<forall>e \<in> set es. entry_of t d e \<Longrightarrow> \<forall>e \<in> set (expand_group_membership es t now r). entry_of t d e"
  by (force simp: expand_group_membership_def expand_entry_def expanded_entry_def entry_of_def
      split: option.splits)

lemma compile_entries_of:
  assumes c: "compile valid ms doc hints t now w = (es, w')" and t: "cd_tenant_id doc = t"
  shows "\<forall>e \<in> set es. entry_of t (cd_id doc) e"
proof -
  obtain direct w1 where d: "compile_direct_entries valid ms doc hints t now w = (direct, w1)" by fastforce
  obtain inh w2 where i: "compute_inherited_entries doc now w1 = (inh, w2)" by fastforce
  note direct = compile_direct_entries_of [where t = t and doc = doc and valid = valid and ms = ms and hints = hints
      and now = now and w = w, unfolded d fst_conv]
  note inherited = inherited_entries_of [where doc = doc and now = now and w = w1, unfolded i fst_conv t]
  have ov: "set (apply_deny_overrides xs) \<subseteq> set xs" for xs using deny_overrides_keep [of xs] by blast
  show ?thesis
  proof (cases "cd_source_type doc \<in> set MIRROR_BIND_SOURCES")
    case True
    then have "es = apply_deny_overrides direct" using c by (simp add: compile_def d)
    then show ?thesis using ball_subset [OF direct ov] by simp
  next
    case False
    define all where "all = direct @ inh @ expand_group_membership (direct @ inh) t now (w_repo w2)"
    have es: "es = apply_deny_overrides all" using c False by (auto simp: compile_def d i all_def)
    have "\<forall>e \<in> set all. entry_of t (cd_id doc) e"
      using direct inherited expanded_entries_of [of "direct @ inh" t "cd_id doc" now "w_repo w2"]
      by (auto simp: all_def)
    from ball_subset [OF this ov] show ?thesis unfolding es .
  qed
qed

text \<open>
  Property C1: the compiled snapshot decides the reads of the document. After its rows are
  replaced by the compiled ones, a principal can read the document exactly when a hint granted it
  directly, or (for sources that are not mirrored) an inherited entry grants it, or it is a member,
  at any depth, of a group that a hint or an inherited entry grants.
\<close>

theorem compiled_snapshot_decides_reads:
  assumes c: "compile valid ms doc hints t now w = (es, w')" and t: "cd_tenant_id doc = t"
    and sole: "sole_id (cd_id doc) (w_repo w')" and groups: "groups_ok (w_repo w')"
  shows "principal_can_read_document t who (cd_id doc) (replace_acl_entries (cd_id doc) es (w_repo w')) \<longleftrightarrow>
    (let (direct, w1) = compile_direct_entries valid ms doc hints t now w;
         inherited = fst (compute_inherited_entries doc now w1)
     in (\<exists>e \<in> set direct. ae_principal_id e = Some who) \<or>
        (cd_source_type doc \<notin> set MIRROR_BIND_SOURCES \<and>
          ((\<exists>e \<in> set inherited. ae_principal_id e = Some who) \<or>
           (\<exists>e \<in> set (direct @ inherited). \<exists>gid. ae_group_id e = Some gid \<and>
              group_member t (w_repo w') gid who))))"
proof -
  obtain direct w1 where d: "compile_direct_entries valid ms doc hints t now w = (direct, w1)" by fastforce
  obtain inh w2 where i: "compute_inherited_entries doc now w1 = (inh, w2)" by fastforce
  note direct = compile_direct_entries_of [where t = t and doc = doc and valid = valid and ms = ms and hints = hints
      and now = now and w = w, unfolded d fst_conv]
  note inherited = inherited_entries_of [where doc = doc and now = now and w = w1, unfolded i fst_conv t]
  define all where "all = (if cd_source_type doc \<in> set MIRROR_BIND_SOURCES then direct
    else direct @ inh @ expand_group_membership (direct @ inh) t now (w_repo w'))"
  have es: "es = apply_deny_overrides all"
    using c by (auto simp: compile_def d i all_def split: if_splits)
  have ok: "\<forall>e \<in> set all. entry_of t (cd_id doc) e"
    using direct inherited expanded_entries_of [of "direct @ inh" t "cd_id doc" now "w_repo w'"]
    by (auto simp: all_def)
  from read_after_replace [OF sole compile_entries_of [OF c t], of who] deny_overrides_who [of all "cd_id doc" "Some who"] ok
  have "principal_can_read_document t who (cd_id doc) (replace_acl_entries (cd_id doc) es (w_repo w')) \<longleftrightarrow>
      (\<exists>e \<in> set all. ae_principal_id e = Some who)"
    by (simp add: es entry_of_def)
  with expanded_entries_mem [OF groups, of "direct @ inh" t now who] show ?thesis
    by (simp add: all_def d i bex_Un)
qed

definition group_hint :: "string \<Rightarrow> identity_hint" where
  "group_hint i = \<lparr>ih_source_type = ''onedrive'', ih_external_id = ''group:'' @ i, ih_email = None,
     ih_username = None, ih_name = None\<rparr>"

definition group_world :: world where
  "group_world = init_world\<lparr>w_repo := demo_groups, w_next_uuid := 50\<rparr>"

definition group_compile :: "acl_entry list \<times> world" where
  "group_compile = compile (\<lambda>_. True) [EmailMatcher, UsernameMatcher] (demo_doc [])
     [(group_hint ''10'', READ)] 1 7 group_world"

lemma group_compile_world: "w_repo (snd group_compile) = demo_groups"
  by code_simp

theorem compiled_snapshot_decides_reads_witness:
  "principal_can_read_document 1 3 ''d''
     (replace_acl_entries ''d'' (fst group_compile) (w_repo (snd group_compile))) \<and>
   \<not> principal_can_read_document 1 4 ''d''
     (replace_acl_entries ''d'' (fst group_compile) (w_repo (snd group_compile)))"
proof -
  have c: "compile (\<lambda>_. True) [EmailMatcher, UsernameMatcher] (demo_doc []) [(group_hint ''10'', READ)] 1 7 group_world
      = (fst group_compile, snd group_compile)" by (simp add: group_compile_def)
  have id: "cd_id (demo_doc []) = ''d''" "cd_tenant_id (demo_doc []) = 1" by (simp_all add: demo_doc_def)
  have sole: "sole_id (cd_id (demo_doc [])) (w_repo (snd group_compile))"
    unfolding group_compile_world by code_simp
  have groups: "groups_ok (w_repo (snd group_compile))"
    unfolding group_compile_world by (rule demo_groups_ok)
  have direct: "map (\<lambda>e. (ae_principal_id e, ae_group_id e)) (fst (compile_direct_entries (\<lambda>_. True)
      [EmailMatcher, UsernameMatcher] (demo_doc []) [(group_hint ''10'', READ)] 1 7 group_world)) = [(None, Some 10)]"
    by code_simp
  have inh: "fst (compute_inherited_entries (demo_doc []) 7 w1) = []" for w1
    by (simp add: compute_inherited_entries_def demo_doc_def surviving_def)
  have mirror: "cd_source_type (demo_doc []) \<notin> set MIRROR_BIND_SOURCES" by code_simp
  have g: "get_group 10 1 demo_groups = Some (demo_group 10 [1] [11, 99])" by code_simp
  have members: "group_member 1 demo_groups 10 p \<longleftrightarrow> p \<in> {1, 2, 3}" for p
  proof -
    have e: "expand_group_members_safe (demo_group 10 [1] [11, 99]) 1 demo_groups = [1, 2, 3, 1]" by code_simp
    show ?thesis using expand_set [OF demo_groups_ok g] unfolding e by auto
  qed
  obtain direct w1 where d: "compile_direct_entries (\<lambda>_. True) [EmailMatcher, UsernameMatcher] (demo_doc [])
      [(group_hint ''10'', READ)] 1 7 group_world = (direct, w1)" by fastforce
  then obtain e where e: "direct = [e]" "ae_principal_id e = None" "ae_group_id e = Some 10"
    using direct by auto
  note reads = compiled_snapshot_decides_reads [OF c id(2) sole groups, unfolded d prod.case Let_def inh id(1) e(1)
      group_compile_world]
  show ?thesis
    unfolding group_compile_world reads using e mirror by (simp add: members [unfolded One_nat_def])
qed

definition deny_world :: world where
  "deny_world = svc_upsert_container_acl (demo_perm ''team'' 2 True) (svc_upsert_container_acl
     ((demo_perm ''team'' 0 False)\<lparr>ca_principal_id := None, ca_group_id := Some 10\<rparr>) group_world)"


text \<open>
  Of several groups granted on one document only one keeps its row, because all
  group rows share the key (document, None); the rows of the other groups are lost.
\<close>

theorem group_rows_collapse:
  "map ae_group_id (fst (compile (\<lambda>_. True) [EmailMatcher, UsernameMatcher] (demo_doc [])
     [(group_hint ''11'', READ), (group_hint ''12'', READ)] 1 7 group_world)) = [Some 11, None, None, None]"
  by code_simp

end
