(* ===== verification/Doc_Reader.thy ===== *)
theory Doc_Reader
  imports Py_Values Canonical_Repo
begin

text \<open>
  The document reader (\<open>backend/app/services/document_reader/\<close>): the in-memory store, the ACL
  checkers, the redaction of metadata and the gated read, which returns the body or, above a
  threshold, a stream of chunks. Bytes and code points are natural numbers; UTF-8 is written out
  because a stream is decoded chunk by chunk.
\<close>

type_synonym bytes = "nat list"
type_synonym codepoints = "nat list"     \<comment> \<open>Unicode code points\<close>

subsection \<open>UTF-8\<close>

definition utf8_char :: "nat \<Rightarrow> bytes" where
  "utf8_char c =
     (if c < 128 then [c]
      else if c < 2048 then [192 + c div 64, 128 + c mod 64]
      else if c < 65536 then [224 + c div 4096, 128 + c div 64 mod 64, 128 + c mod 64]
      else [240 + c div 262144, 128 + c div 4096 mod 64, 128 + c div 64 mod 64, 128 + c mod 64])"

definition utf8_encode :: "codepoints \<Rightarrow> bytes" where
  "utf8_encode cs = concat (map utf8_char cs)"

definition scalar :: "nat \<Rightarrow> bool" where
  "scalar c = (c < 55296 \<or> (57344 \<le> c \<and> c < 1114112))"

text \<open>
  \<open>decode("utf-8", errors="replace")\<close>: a lead byte fixes the number of continuation bytes and the
  range of the first one; a sequence that breaks off is replaced, as far as it was well formed,
  by one U+FFFD.
\<close>

definition utf8_need :: "nat \<Rightarrow> nat" where
  "utf8_need b = (if 194 \<le> b \<and> b \<le> 223 then 1 else if 224 \<le> b \<and> b \<le> 239 then 2
                  else if 240 \<le> b \<and> b \<le> 244 then 3 else 0)"

definition utf8_first_ok :: "nat \<Rightarrow> nat \<Rightarrow> bool" where
  "utf8_first_ok b x = ((if b = 224 then 160 else if b = 240 then 144 else 128) \<le> x \<and>
     x \<le> (if b = 237 then 159 else if b = 244 then 143 else 191))"

fun cont_run :: "nat \<Rightarrow> bytes \<Rightarrow> nat" where
  "cont_run 0 bs = 0"
| "cont_run (Suc n) [] = 0"
| "cont_run (Suc n) (x # bs) = (if 128 \<le> x \<and> x \<le> 191 then Suc (cont_run n bs) else 0)"

definition utf8_good :: "nat \<Rightarrow> bytes \<Rightarrow> nat" where
  "utf8_good b bs = (case bs of [] \<Rightarrow> 0
     | x # xs \<Rightarrow> if 0 < utf8_need b \<and> utf8_first_ok b x then Suc (cont_run (utf8_need b - 1) xs) else 0)"

definition utf8_value :: "nat \<Rightarrow> bytes \<Rightarrow> nat" where
  "utf8_value b bs = foldl (\<lambda>v x. v * 64 + (x - 128))
     (b - (if utf8_need b = 1 then 192 else if utf8_need b = 2 then 224 else 240)) (take (utf8_need b) bs)"

function utf8_decode :: "bytes \<Rightarrow> codepoints" where
  "utf8_decode [] = []"
| "utf8_decode (b # bs) =
     (if b < 128 then b # utf8_decode bs
      else if utf8_need b = 0 then 65533 # utf8_decode bs
      else let n = utf8_good b bs in
           if n = utf8_need b then utf8_value b bs # utf8_decode (drop n bs)
           else 65533 # utf8_decode (drop n bs))"
  by pat_completeness auto
termination utf8_decode
  by (relation "measure length") (auto simp: Let_def)

subsection \<open>The in-memory document store\<close>

record doc_store =
  ds_chunk :: nat      \<comment> \<open>\<open>settings.stream_chunk_bytes\<close>, or 8192 without settings\<close>
  ds_docs :: "(string \<times> string, pydict) dict"
  ds_objects :: "(string, bytes) dict"

definition default_object_key :: "string \<Rightarrow> string \<Rightarrow> string" where
  "default_object_key tenant_id document_id = tenant_id @ ''/'' @ document_id @ ''.bin''"

record upsert_args =
  ua_title :: string
  ua_body :: bytes
  ua_structured :: pydict
  ua_owner :: string
  ua_created_at :: pyval
  ua_updated_at :: pyval
  ua_visibility :: string
  ua_hidden :: "string list"
  ua_acl :: "string list"
  ua_object_key :: "string option"
  ua_extra :: pydict

definition store_upsert :: "string \<Rightarrow> string \<Rightarrow> upsert_args \<Rightarrow> doc_store \<Rightarrow> doc_store \<times> pydict" where
  "store_upsert tenant_id document_id a s =
     (let key = (if opt_str (ua_object_key a) \<noteq> [] then opt_str (ua_object_key a)
                 else default_object_key tenant_id document_id);
          meta = [(''document_id'', PStr document_id), (''tenant_id'', PStr tenant_id),
                  (''title'', PStr (ua_title a)), (''object_key'', PStr key),
                  (''body_size'', PInt (int (length (ua_body a)))),
                  (''owner_principal_id'', PStr (ua_owner a)),
                  (''created_at'', ua_created_at a), (''updated_at'', ua_updated_at a),
                  (''visibility_mode'', PStr (ua_visibility a)),
                  (''hidden_fields'', PList (map PStr (ua_hidden a))),
                  (''acl_entries'', PList (map PStr (ua_acl a))),
                  (''structured_metadata'', PDict (ua_structured a))];
          meta = foldl (\<lambda>m (k, v). AList.update k v m) meta (ua_extra a)
      in (s\<lparr>ds_docs := AList.update (tenant_id, document_id) meta (ds_docs s),
            ds_objects := AList.update key (ua_body a) (ds_objects s)\<rparr>, meta))"

definition store_delete :: "string \<Rightarrow> string \<Rightarrow> doc_store \<Rightarrow> doc_store" where
  "store_delete tenant_id document_id s =
     (case map_of (ds_docs s) (tenant_id, document_id) of
        None \<Rightarrow> s
      | Some meta \<Rightarrow>
          let s = s\<lparr>ds_docs := AList.delete (tenant_id, document_id) (ds_docs s)\<rparr> in
          if meta \<noteq> [] then
            (case dict_get meta ''object_key'' (PStr []) of
               PStr k \<Rightarrow> s\<lparr>ds_objects := AList.delete k (ds_objects s)\<rparr>
             | _ \<Rightarrow> s)
          else s)"

definition get_metadata :: "string \<Rightarrow> string \<Rightarrow> doc_store \<Rightarrow> pydict option" where
  "get_metadata tenant_id doc_id s =
     (case map_of (ds_docs s) (tenant_id, doc_id) of
        None \<Rightarrow> None | Some meta \<Rightarrow> if meta = [] then None else Some meta)"

definition get_body :: "string \<Rightarrow> doc_store \<Rightarrow> exn + bytes" where
  "get_body object_key s =
     (case map_of (ds_objects s) object_key of
        None \<Rightarrow> Inl (Raised ''FileNotFoundError'') | Some b \<Rightarrow> Inr b)"

text \<open>\<open>range(0, len(data), chunk)\<close> raises for a chunk size of 0.\<close>

function chunks :: "nat \<Rightarrow> bytes \<Rightarrow> bytes list" where
  "chunks n data = (if data = [] \<or> n = 0 then [] else take n data # chunks n (drop n data))"
  by pat_completeness auto
termination chunks
  by (relation "measure (\<lambda>(n, data). length data)") auto

declare chunks.simps [simp del]

definition get_body_stream :: "string \<Rightarrow> doc_store \<Rightarrow> exn + bytes list" where
  "get_body_stream object_key s =
     (case get_body object_key s of
        Inl e \<Rightarrow> Inl e
      | Inr data \<Rightarrow> if ds_chunk s = 0 then Inl (Raised ''ValueError'') else Inr (chunks (ds_chunk s) data))"

definition get_structured_metadata :: "string \<Rightarrow> string \<Rightarrow> doc_store \<Rightarrow> exn + pydict option" where
  "get_structured_metadata tenant_id doc_id s =
     (case get_metadata tenant_id doc_id s of
        None \<Rightarrow> Inr None
      | Some meta \<Rightarrow>
          (case py_or (pget meta ''structured_metadata'') (PDict []) of
             PDict d \<Rightarrow> Inr (Some d) | _ \<Rightarrow> Inl (Raised ''ValueError'')))"

subsection \<open>The ACL checkers\<close>

record mock_checker =
  mk_allowed :: "(string \<times> string \<times> string) list"
  mk_call_count :: nat
  mk_history :: "(string \<times> string \<times> string \<times> bool) list"

definition mock_grant :: "string \<Rightarrow> string \<Rightarrow> string \<Rightarrow> mock_checker \<Rightarrow> mock_checker" where
  "mock_grant t d p c = c\<lparr>mk_allowed := List.insert (t, d, p) (mk_allowed c)\<rparr>"

definition mock_revoke :: "string \<Rightarrow> string \<Rightarrow> string \<Rightarrow> mock_checker \<Rightarrow> mock_checker" where
  "mock_revoke t d p c = c\<lparr>mk_allowed := removeAll (t, d, p) (mk_allowed c)\<rparr>"

definition mock_clear :: "mock_checker \<Rightarrow> mock_checker" where
  "mock_clear c = \<lparr>mk_allowed = [], mk_call_count = 0, mk_history = []\<rparr>"

definition mock_is_allowed ::
    "string \<Rightarrow> string \<Rightarrow> string \<Rightarrow> mock_checker \<Rightarrow> (exn + bool) \<times> mock_checker" where
  "mock_is_allowed t p d c =
     (let allowed = (t, d, p) \<in> set (mk_allowed c)
      in (Inr allowed, c\<lparr>mk_call_count := Suc (mk_call_count c),
                         mk_history := mk_history c @ [(t, p, d, allowed)]\<rparr>))"

text \<open>The ACL service is outside the repository: its answer to a request is a parameter.\<close>

datatype http_reply = Unreachable | Reply nat pydict

definition says_allow :: "pyval \<Rightarrow> bool" where
  "says_allow v = (str_lower (py_str v) \<in> {''allow'', ''allowed'', ''permit''})"

definition http_decision :: "http_reply \<Rightarrow> exn + bool" where
  "http_decision reply =
     (case reply of
        Unreachable \<Rightarrow> Inl (HTTPException 500 ''ACL service unavailable'')
      | Reply status data \<Rightarrow>
          if status \<noteq> 200 then Inl (HTTPException 500 ''ACL service unavailable'')
          else (case map_of data ''allowed'' of
                  Some v \<Rightarrow> Inr (truthy v)
                | None \<Rightarrow>
                    (case map_of data ''decision'' of
                       Some v \<Rightarrow> Inr (says_allow v)
                     | None \<Rightarrow>
                         (case map_of data ''access'' of Some v \<Rightarrow> Inr (says_allow v) | None \<Rightarrow> Inr False))))"

definition http_is_allowed ::
    "(string \<Rightarrow> string \<Rightarrow> string \<Rightarrow> http_reply) \<Rightarrow> string \<Rightarrow> string \<Rightarrow> string \<Rightarrow> unit \<Rightarrow> (exn + bool) \<times> unit" where
  "http_is_allowed service t p d c = (http_decision (service t p d), c)"

text \<open>\<open>UUID(str(x))\<close>: \<open>uuid_of\<close> names the identifier a text denotes, \<open>None\<close> when it is malformed.\<close>

definition postgres_is_allowed ::
    "(string \<Rightarrow> uuid option) \<Rightarrow> string \<Rightarrow> string \<Rightarrow> string \<Rightarrow> repo \<Rightarrow> (exn + bool) \<times> repo" where
  "postgres_is_allowed uuid_of t p d r =
     (case (uuid_of t, uuid_of p) of
        (Some tenant, Some who) \<Rightarrow> (Inr (principal_can_read_document tenant who d r), r)
      | _ \<Rightarrow> (Inr False, r))"

subsection \<open>Redaction\<close>

definition SENSITIVE_META_KEYS :: "string list" where
  "SENSITIVE_META_KEYS = [''internal_notes'', ''hidden_annotation'', ''salary'', ''ssn'', ''secret_field'']"

fun str_key :: "pyval \<Rightarrow> string list" where
  "str_key (PStr s) = [s]"
| "str_key _ = []"

fun hashable :: "pyval \<Rightarrow> bool" where
  "hashable (PList xs) = False"
| "hashable (PDict d) = False"
| "hashable _ = True"

text \<open>\<open>set(v or [])\<close>, as far as its elements can be keys; \<open>None\<close> is the \<open>TypeError\<close>.\<close>

definition set_of_value :: "pyval \<Rightarrow> string list option" where
  "set_of_value v =
     (case py_or v (PList []) of
        PList xs \<Rightarrow> if list_all hashable xs then Some (concat (map str_key xs)) else None
      | PStr s \<Rightarrow> Some (map (\<lambda>c. [c]) s)
      | PDict d \<Rightarrow> Some (map fst d)
      | _ \<Rightarrow> None)"

definition is_owner :: "pydict \<Rightarrow> string \<Rightarrow> bool" where
  "is_owner metadata principal_id =
     (let owner = py_str (py_or (pget metadata ''owner_principal_id'') (PStr []))
      in owner \<noteq> [] \<and> owner = principal_id)"

definition redact_fields :: "pydict \<Rightarrow> string \<Rightarrow> exn + pydict" where
  "redact_fields metadata principal_id =
     (if is_owner metadata principal_id then Inr metadata
      else case set_of_value (pget metadata ''hidden_fields'') of
             None \<Rightarrow> Inl (Raised ''TypeError'')
           | Some hidden \<Rightarrow>
               let mode = str_lower (py_str (py_or (pget metadata ''visibility_mode'') (PStr ''acl'')));
                   hidden = (if mode = ''redacted'' then hidden @ SENSITIVE_META_KEYS else hidden)
               in Inr (foldl (\<lambda>m k. AList.delete k m) metadata hidden))"

subsection \<open>The gated read\<close>

record read_result =
  rr_meta :: pydict
  rr_body :: "bytes option"
  rr_stream :: "(exn + bytes list) option"

definition read_document ::
    "(string \<Rightarrow> string \<Rightarrow> string \<Rightarrow> 'c \<Rightarrow> (exn + bool) \<times> 'c) \<Rightarrow> doc_store \<Rightarrow> string \<Rightarrow> string \<Rightarrow> string \<Rightarrow>
     int \<Rightarrow> 'c \<Rightarrow> (exn + read_result) \<times> 'c" where
  "read_document is_allowed s tenant_id doc_id principal_id threshold c =
     (let (decision, c) = is_allowed tenant_id principal_id doc_id c in
      ((case decision of
         Inl e \<Rightarrow> Inl e
       | Inr allowed \<Rightarrow>
           if \<not> allowed then Inl (HTTPException 403 ''Access denied'')
           else case get_metadata tenant_id doc_id s of
                  None \<Rightarrow> Inl (HTTPException 404 ''Document not found'')
                | Some meta \<Rightarrow>
                    (case redact_fields meta principal_id of
                       Inl e \<Rightarrow> Inl e
                     | Inr visible \<Rightarrow>
                         (case py_int (py_or (pget visible ''body_size'') (PInt 0)) of
                            None \<Rightarrow> Inl (Raised ''ValueError'')
                          | Some body_size \<Rightarrow>
                              let object_key = py_str (py_or (pget visible ''object_key'') (PStr [])) in
                              if threshold < body_size
                              then Inr \<lparr>rr_meta = visible, rr_body = None,
                                        rr_stream = Some (get_body_stream object_key s)\<rparr>
                              else if object_key = []
                              then Inr \<lparr>rr_meta = visible, rr_body = Some [], rr_stream = None\<rparr>
                              else (case get_body object_key s of
                                      Inl e \<Rightarrow> Inl e
                                    | Inr body \<Rightarrow> Inr \<lparr>rr_meta = visible, rr_body = Some body,
                                                       rr_stream = None\<rparr>)))), c))"

definition build_document_payload ::
    "string \<Rightarrow> string \<Rightarrow> pydict \<Rightarrow> pyval \<Rightarrow> pydict option \<Rightarrow> pydict" where
  "build_document_payload doc_id tenant_id visible_metadata body structured =
     (let payload = AList.update ''document_id'' (PStr doc_id) visible_metadata;
          payload = AList.update ''tenant_id'' (PStr tenant_id) payload;
          payload = AList.update ''body'' body payload
      in AList.update ''structured_metadata''
           (PDict (case structured of None \<Rightarrow> [] | Some d \<Rightarrow> d)) payload)"

text \<open>The text of the streamed body: each chunk is decoded on its own.\<close>

definition streamed_text :: "bytes list \<Rightarrow> codepoints" where
  "streamed_text cs = concat (map utf8_decode cs)"

subsection \<open>Interface of the checkers\<close>

text \<open>
  A checker answers from the grants of its current state and keeps them: nothing is cached between
  calls. \<open>granted\<close> is the decision its state stands for.
\<close>

locale acl_checker =
  fixes is_allowed :: "string \<Rightarrow> string \<Rightarrow> string \<Rightarrow> 'c \<Rightarrow> (exn + bool) \<times> 'c"
    and granted :: "'c \<Rightarrow> string \<Rightarrow> string \<Rightarrow> string \<Rightarrow> bool"
  assumes decides: "fst (is_allowed t p d c) = Inr b \<Longrightarrow> b = granted c t p d"
    and keeps_grants: "granted (snd (is_allowed t p d c)) = granted c"
begin

lemma read_requires_grant:
  "fst (read_document is_allowed s t d p th c) = Inr res \<Longrightarrow> granted c t p d"
  using decides [of t p d c]
  by (auto simp: read_document_def Let_def split: prod.splits sum.splits if_splits)

lemma read_result_cases:
  assumes "fst (read_document is_allowed s t d p th c) = Inr res"
  shows "\<exists>meta. get_metadata t d s = Some meta \<and> redact_fields meta p = Inr (rr_meta res)"
  using assms
  by (auto simp: read_document_def Let_def split: prod.splits sum.splits if_splits option.splits)

lemma reads_keep_grants: "granted (snd (read_document is_allowed s t d p th c)) = granted c"
  using keeps_grants [of t p d c] by (auto simp: read_document_def Let_def split: prod.splits)

lemma denied_read:
  "fst (is_allowed t p d c) = Inr False \<Longrightarrow>
     fst (read_document is_allowed s t d p th c) = Inl (HTTPException 403 ''Access denied'')"
  by (auto simp: read_document_def Let_def split: prod.splits)

end

interpretation mock: acl_checker mock_is_allowed "\<lambda>c t p d. (t, d, p) \<in> set (mk_allowed c)"
  by unfold_locales (auto simp: mock_is_allowed_def Let_def)

interpretation http: acl_checker "http_is_allowed service" "\<lambda>_ t p d. http_decision (service t p d) = Inr True"
  for service
  by unfold_locales (auto simp: http_is_allowed_def)

definition pg_granted :: "(string \<Rightarrow> uuid option) \<Rightarrow> repo \<Rightarrow> string \<Rightarrow> string \<Rightarrow> string \<Rightarrow> bool" where
  "pg_granted uuid_of r t p d = (\<exists>tenant who. uuid_of t = Some tenant \<and> uuid_of p = Some who \<and>
     principal_can_read_document tenant who d r)"

interpretation pg: acl_checker "postgres_is_allowed uuid_of" "pg_granted uuid_of" for uuid_of
  by unfold_locales (auto simp: postgres_is_allowed_def pg_granted_def split: option.splits)

subsection \<open>What a read reveals\<close>

lemma map_of_delete_all: "map_of (foldl (\<lambda>m k. AList.delete k m) m ks) k = (if k \<in> set ks then None else map_of m k)"
  by (induction ks arbitrary: m) (auto simp: map_of_delete)

lemma redact_hides:
  assumes "redact_fields meta p = Inr v" and "\<not> is_owner meta p"
  shows "\<exists>hidden. set_of_value (pget meta ''hidden_fields'') = Some hidden \<and>
     (\<forall>k \<in> set hidden. map_of v k = None)"
  using assms by (auto simp: redact_fields_def Let_def map_of_delete_all split: option.splits)

lemma redact_subset: "redact_fields meta p = Inr v \<Longrightarrow> map_of v \<subseteq>\<^sub>m map_of meta"
  by (auto simp: redact_fields_def Let_def map_le_def map_of_delete_all split: option.splits if_splits)

text \<open>
  Property C8: a document is read only by the grants of the moment. With the Postgres checker, a
  read that returns anything was made by a principal that the ACL rows let read the document at
  that moment; the metadata returned are fields of the stored ones, and none of the document's
  hidden fields unless the reader owns it.
\<close>

theorem reader_serves_only_granted:
  assumes "fst (read_document (postgres_is_allowed uuid_of) s t d p th r) = Inr res"
  shows "\<exists>tenant who meta. uuid_of t = Some tenant \<and> uuid_of p = Some who \<and>
     principal_can_read_document tenant who d r \<and> get_metadata t d s = Some meta \<and>
     map_of (rr_meta res) \<subseteq>\<^sub>m map_of meta \<and>
     (is_owner meta p \<or> (\<exists>hidden. set_of_value (pget meta ''hidden_fields'') = Some hidden \<and>
        set hidden \<inter> dom (map_of (rr_meta res)) = {}))"
proof -
  from pg.read_result_cases [OF assms] obtain meta where m: "get_metadata t d s = Some meta"
    "redact_fields meta p = Inr (rr_meta res)" by blast
  moreover have "pg_granted uuid_of r t p d" by (rule pg.read_requires_grant [OF assms])
  moreover have "is_owner meta p \<or> (\<exists>hidden. set_of_value (pget meta ''hidden_fields'') = Some hidden \<and>
        set hidden \<inter> dom (map_of (rr_meta res)) = {})"
  proof (cases "is_owner meta p")
    case False
    from redact_hides [OF m(2) False] show ?thesis by (auto simp: disjoint_iff dom_def)
  qed simp
  ultimately show ?thesis using redact_subset [OF m(2)] by (auto simp: pg_granted_def)
qed

definition demo_args :: upsert_args where
  "demo_args = \<lparr>ua_title = ''t'', ua_body = utf8_encode [233, 233], ua_structured = [], ua_owner = ''5'',
     ua_created_at = PNone, ua_updated_at = PNone, ua_visibility = ''acl'', ua_hidden = [''acl_entries''],
     ua_acl = [''user:5''], ua_object_key = None, ua_extra = []\<rparr>"

definition demo_store :: doc_store where
  "demo_store = fst (store_upsert ''1'' ''d'' demo_args \<lparr>ds_chunk = 3, ds_docs = [], ds_objects = []\<rparr>)"

definition demo_uuid :: "string \<Rightarrow> uuid option" where
  "demo_uuid x = map_option nat (parse_int x)"

definition demo_acl_repo :: repo where
  "demo_acl_repo = insert_acl_entry (bound_share_acl_entry ''d'' 7 1 0) empty_repo"

theorem reader_serves_only_granted_witness:
  "\<exists>res. fst (read_document (postgres_is_allowed demo_uuid) demo_store ''1'' ''d'' ''7'' 100 demo_acl_repo) = Inr res \<and>
     rr_body res = Some [195, 169, 195, 169] \<and> principal_can_read_document 1 7 ''d'' demo_acl_repo"
proof -
  let ?read = "fst (read_document (postgres_is_allowed demo_uuid) demo_store ''1'' ''d'' ''7'' 100 demo_acl_repo)"
  have ok: "(case ?read of Inr res \<Rightarrow> rr_body res = Some [195, 169, 195, 169] | Inl e \<Rightarrow> False)" by code_simp
  then obtain res where res: "?read = Inr res" "rr_body res = Some [195, 169, 195, 169]"
    by (auto split: sum.splits)
  have ids: "demo_uuid ''1'' = Some 1" "demo_uuid ''7'' = Some 7" by code_simp+
  from reader_serves_only_granted [OF res(1)] ids have "principal_can_read_document 1 7 ''d'' demo_acl_repo" by auto
  with res show ?thesis by blast
qed

subsection \<open>Streaming\<close>

lemma concat_chunks: "0 < n \<Longrightarrow> concat (chunks n data) = data"
proof (induction n data rule: chunks.induct)
  case (1 n data)
  then show ?case by (simp add: chunks.simps [of n data])
qed

text \<open>
  The threshold decides only how the body is delivered. Whenever one threshold gives
  the body of a document as a whole and another as a stream, the chunks of the stream are the
  bytes of the body.
\<close>

theorem stream_carries_the_body:
  assumes "map_of (ds_objects s) [] = None"
    and "fst (read_document ch s t d p th c) = Inr whole" and "rr_body whole = Some body"
    and "fst (read_document ch s t d p th' c) = Inr streamed" and "rr_stream streamed = Some (Inr cs)"
  shows "concat cs = body"
proof -
  from assms(2) obtain meta vis where m: "get_metadata t d s = Some meta" "redact_fields meta p = Inr vis"
    by (auto simp: read_document_def Let_def split: prod.splits sum.splits if_splits option.splits)
  define key where "key = py_str (py_or (pget vis ''object_key'') (PStr []))"
  from assms(4,5) m have str: "get_body_stream key s = Inr cs"
    by (auto simp: read_document_def Let_def key_def split: prod.splits sum.splits if_splits option.splits)
  then obtain data where data: "get_body key s = Inr data" "concat cs = data"
    by (auto simp: get_body_stream_def concat_chunks split: sum.splits if_splits)
  then have "key \<noteq> []" using assms(1) by (auto simp: get_body_def)
  then have "rr_body whole = Some data"
    using assms(2,3) m data(1)
    by (auto simp: read_document_def Let_def simp flip: key_def split: prod.splits sum.splits if_splits option.splits)
  with assms(3) data(2) show ?thesis by simp
qed

theorem stream_carries_the_body_witness:
  "(case fst (read_document mock_is_allowed demo_store ''1'' ''d'' ''5'' 100
        \<lparr>mk_allowed = [(''1'', ''d'', ''5'')], mk_call_count = 0, mk_history = []\<rparr>) of
      Inl _ \<Rightarrow> False | Inr whole \<Rightarrow> rr_body whole = Some (concat [[195, 169, 195], [169]])) \<and>
   (case fst (read_document mock_is_allowed demo_store ''1'' ''d'' ''5'' 0
        \<lparr>mk_allowed = [(''1'', ''d'', ''5'')], mk_call_count = 0, mk_history = []\<rparr>) of
      Inl _ \<Rightarrow> False | Inr r \<Rightarrow> rr_stream r = Some (Inr [[195, 169, 195], [169]]))"
proof -
  let ?c = "\<lparr>mk_allowed = [(''1'', ''d'', ''5'')], mk_call_count = 0, mk_history = []\<rparr>"
  let ?whole = "fst (read_document mock_is_allowed demo_store ''1'' ''d'' ''5'' 100 ?c)"
  let ?str = "fst (read_document mock_is_allowed demo_store ''1'' ''d'' ''5'' 0 ?c)"
  have s: "case ?str of Inl _ \<Rightarrow> False | Inr r \<Rightarrow> rr_stream r = Some (Inr [[195, 169, 195], [169]])" by code_simp
  have w: "case ?whole of Inl _ \<Rightarrow> False | Inr r \<Rightarrow> rr_body r \<noteq> None" by code_simp
  have e: "map_of (ds_objects demo_store) [] = None" by code_simp
  from w obtain whole body where w': "?whole = Inr whole" "rr_body whole = Some body" by (auto split: sum.splits)
  from s obtain r where r: "?str = Inr r" "rr_stream r = Some (Inr [[195, 169, 195], [169]])"
    by (auto split: sum.splits)
  from stream_carries_the_body [OF e w' r] w' s show ?thesis by simp
qed

subsection \<open>Decoding\<close>

lemma utf8_decode_char2:
  assumes "128 \<le> c" "c < 2048"
  shows "utf8_decode (utf8_char c @ bs) = c # utf8_decode bs"
proof -
  have r: "2 \<le> c div 64" "c div 64 \<le> 31" "c mod 64 < 64" using assms by auto
  have need: "utf8_need (192 + c div 64) = 1" using r by (simp add: utf8_need_def)
  have "utf8_good (192 + c div 64) ((128 + c mod 64) # bs) = 1"
    using r by (simp add: utf8_good_def need utf8_first_ok_def)
  moreover have "utf8_value (192 + c div 64) ((128 + c mod 64) # bs) = c"
    by (simp add: utf8_value_def need)
  ultimately show ?thesis using assms need by (simp add: utf8_char_def)
qed

lemma base64_digits:
  fixes c :: nat
  shows "c = c div 4096 * 4096 + c div 64 mod 64 * 64 + c mod 64"
    and "c = c div 262144 * 262144 + c div 4096 mod 64 * 4096 + c div 64 mod 64 * 64 + c mod 64"
proof -
  have d: "c div 4096 = c div 64 div 64" "c div 262144 = c div 64 div 64 div 64" by (simp_all flip: div_mult2_eq)
  have "c = 64 * (c div 64) + c mod 64" "c div 64 = 64 * (c div 64 div 64) + c div 64 mod 64"
    "c div 64 div 64 = 64 * (c div 64 div 64 div 64) + c div 64 div 64 mod 64" by simp_all
  then show "c = c div 4096 * 4096 + c div 64 mod 64 * 64 + c mod 64"
    and "c = c div 262144 * 262144 + c div 4096 mod 64 * 4096 + c div 64 mod 64 * 64 + c mod 64"
    unfolding d by linarith+
qed

lemma utf8_decode_char3:
  assumes "2048 \<le> c" "c < 65536" "scalar c"
  shows "utf8_decode (utf8_char c @ bs) = c # utf8_decode bs"
proof -
  let ?b = "224 + c div 4096" and ?x = "128 + c div 64 mod 64" and ?y = "128 + c mod 64"
  have r: "c div 4096 \<le> 15" "c div 64 mod 64 < 64" "c mod 64 < 64" using assms by auto
  have c: "c = c div 4096 * 4096 + c div 64 mod 64 * 64 + c mod 64"
    by (rule base64_digits(1))
  have need: "utf8_need ?b = 2" using r by (simp add: utf8_need_def)
  have "c div 4096 = 0 \<Longrightarrow> 32 \<le> c div 64 mod 64" using assms(1) by auto
  moreover have "c div 4096 = 13 \<Longrightarrow> c div 64 mod 64 \<le> 31"
    using assms(3) c r unfolding scalar_def by linarith
  ultimately have "utf8_first_ok ?b ?x" using r by (auto simp: utf8_first_ok_def)
  then have good: "utf8_good ?b (?x # ?y # bs) = 2"
    using r by (simp add: utf8_good_def need)
  have val: "utf8_value ?b (?x # ?y # bs) = c"
    using c by (simp add: utf8_value_def need)
  show ?thesis using assms need good val by (simp add: utf8_char_def Let_def)
qed

lemma cont_run_two: "128 \<le> x \<Longrightarrow> x \<le> 191 \<Longrightarrow> 128 \<le> y \<Longrightarrow> y \<le> 191 \<Longrightarrow> cont_run 2 (x # y # bs) = 2"
  by (simp add: numeral_2_eq_2)

lemma utf8_decode_char4:
  assumes "65536 \<le> c" "c < 1114112"
  shows "utf8_decode (utf8_char c @ bs) = c # utf8_decode bs"
proof -
  let ?b = "240 + c div 262144" and ?x = "128 + c div 4096 mod 64" and ?y = "128 + c div 64 mod 64"
    and ?z = "128 + c mod 64"
  have r: "c div 262144 \<le> 4" "c div 4096 mod 64 < 64" "c div 64 mod 64 < 64" "c mod 64 < 64" using assms by auto
  note c = base64_digits(2) [of c]
  have need: "utf8_need ?b = 3" using r by (simp add: utf8_need_def)
  have "c div 262144 = 0 \<Longrightarrow> 16 \<le> c div 4096 mod 64" using assms(1) c r by linarith
  moreover have "c div 262144 = 4 \<Longrightarrow> c div 4096 mod 64 \<le> 15" using assms(2) c r by linarith
  ultimately have "utf8_first_ok ?b ?x" using r by (auto simp: utf8_first_ok_def)
  then have good: "utf8_good ?b (?x # ?y # ?z # bs) = 3"
    using r by (simp add: utf8_good_def need cont_run_two)
  have val: "utf8_value ?b (?x # ?y # ?z # bs) = c"
    using c by (simp add: utf8_value_def need algebra_simps)
  show ?thesis using assms need good val by (simp add: utf8_char_def Let_def)
qed

lemma utf8_decode_char: "scalar c \<Longrightarrow> utf8_decode (utf8_char c @ bs) = c # utf8_decode bs"
  using utf8_decode_char2 [of c bs] utf8_decode_char3 [of c bs] utf8_decode_char4 [of c bs]
  by (cases "c < 128"; cases "c < 2048"; cases "c < 65536") (auto simp: utf8_char_def scalar_def)

lemma utf8_decode_encode: "list_all scalar cs \<Longrightarrow> utf8_decode (utf8_encode cs) = cs"
proof (induction cs)
  case (Cons c cs)
  then show ?case using utf8_decode_char [of c "utf8_encode cs"] by (simp add: utf8_encode_def)
qed (simp add: utf8_encode_def)

text \<open>
  UTF-8 text survives the store and a whole-body read: decoding the bytes of any
  text of Unicode scalar values gives the text back, so the replacement character never appears.
\<close>

theorem decoded_body_is_the_text:
  assumes "list_all scalar cs" and "ua_body a = utf8_encode cs" and "opt_str (ua_object_key a) = k" and "k \<noteq> []"
  shows "map_sum id utf8_decode (get_body k (fst (store_upsert t d a s))) = Inr cs"
  using assms utf8_decode_encode [OF assms(1)]
  by (simp add: store_upsert_def Let_def get_body_def map_of_update)

theorem decoded_body_is_the_text_witness:
  "map_sum id utf8_decode (get_body ''k'' (fst (store_upsert ''1'' ''d''
     (demo_args\<lparr>ua_body := utf8_encode [72, 233, 8364, 128512], ua_object_key := Some ''k''\<rparr>) demo_store)))
   = Inr [72, 233, 8364, 128512]"
proof -
  let ?a = "demo_args\<lparr>ua_body := utf8_encode [72, 233, 8364, 128512], ua_object_key := Some ''k''\<rparr>"
  have s: "list_all scalar [72, 233, 8364, 128512]" by (simp add: scalar_def)
  have b: "ua_body ?a = utf8_encode [72, 233, 8364, 128512]" "opt_str (ua_object_key ?a) = ''k''"
    by simp_all
  show ?thesis by (rule decoded_body_is_the_text [OF s b]) (rule list.distinct(2))
qed

text \<open>
  The streamed body is not that text. \<open>stream_document_json\<close> decodes each chunk on
  its own, so a character whose bytes fall into two chunks reaches the client as replacement
  characters, although the chunks carry exactly the bytes of the body.
\<close>

theorem streamed_text_breaks_characters:
  "(case get_body_stream ''1/d.bin'' demo_store of
      Inl _ \<Rightarrow> False
    | Inr cs \<Rightarrow> utf8_decode (concat cs) = [233, 233] \<and> streamed_text cs = [233, 65533, 65533])"
proof -
  have cs: "get_body_stream ''1/d.bin'' demo_store = Inr [[195, 169, 195], [169]]" by code_simp
  show ?thesis
    unfolding cs streamed_text_def
    by (simp add: utf8_good_def utf8_need_def utf8_first_ok_def utf8_value_def)
qed

end
