(* ===== verification/Mcp.thy ===== *)
theory Mcp
  imports Doc_Reader
begin

text \<open>
  The MCP gateway (\<open>backend/app/services/mcp_gateway/\<close>): the session cache with its revocation
  sets, the identity taken from the token, the refusal of impersonation, the allow-list, the
  dispatch to search or document reading, and the handler that audits every call. The federated
  search is a parameter (\<open>search\<close>), the ACL checker one of those of the document reader.
\<close>

subsection \<open>The session cache\<close>

record mcp_cache =
  mc_ttl :: int
  mc_entries :: "(string, (string, string \<times> instant) dict) dict"
  mc_revoked_jtis :: "(string, string list) dict"
  mc_revoked_principals :: "(string, string list) dict"

definition empty_cache :: "int \<Rightarrow> mcp_cache" where
  "empty_cache ttl = \<lparr>mc_ttl = ttl, mc_entries = [], mc_revoked_jtis = [], mc_revoked_principals = []\<rparr>"

definition remember :: "string \<Rightarrow> string \<Rightarrow> string \<Rightarrow> instant \<Rightarrow> mcp_cache \<Rightarrow> mcp_cache" where
  "remember tenant_id jti principal_id now c =
     (if jti = [] then c
      else let bucket = AList.update jti (principal_id, now) (dict_get (mc_entries c) tenant_id [])
           in c\<lparr>mc_entries := AList.update tenant_id bucket (mc_entries c)\<rparr>)"

definition expire :: "string \<Rightarrow> instant \<Rightarrow> mcp_cache \<Rightarrow> mcp_cache" where
  "expire tenant_id now c =
     (case map_of (mc_entries c) tenant_id of
        None \<Rightarrow> c
      | Some bucket \<Rightarrow>
          c\<lparr>mc_entries := AList.update tenant_id
              (filter (\<lambda>(jti, pid, cached_at). \<not> mc_ttl c < now - cached_at) bucket) (mc_entries c)\<rparr>)"

definition is_revoked :: "string \<Rightarrow> string \<Rightarrow> string \<Rightarrow> instant \<Rightarrow> mcp_cache \<Rightarrow> bool \<times> mcp_cache" where
  "is_revoked tenant_id jti principal_id now c =
     (let c = expire tenant_id now c in
      (if jti \<noteq> [] \<and> jti \<in> set (dict_get (mc_revoked_jtis c) tenant_id []) then True
       else principal_id \<noteq> [] \<and> principal_id \<in> set (dict_get (mc_revoked_principals c) tenant_id []), c))"

definition revoke_in :: "string \<Rightarrow> string \<Rightarrow> (string, string list) dict \<Rightarrow> (string, string list) dict" where
  "revoke_in tenant_id x d = AList.update tenant_id (List.insert x (dict_get d tenant_id [])) d"

definition apply_event :: "pydict \<Rightarrow> mcp_cache \<Rightarrow> mcp_cache" where
  "apply_event payload c =
     (let event_type = py_str (py_or (pget payload ''event_type'') (PStr []));
          tenant_id = py_str (py_or (pget payload ''tenant_id'') (PStr []))
      in if tenant_id = [] then c
         else if event_type = ''token_revoked'' then
           (let jti = py_str (py_or (pget payload ''jti'') (PStr [])) in
            if jti = [] then c
            else c\<lparr>mc_revoked_jtis := revoke_in tenant_id jti (mc_revoked_jtis c),
                   mc_entries := (case map_of (mc_entries c) tenant_id of None \<Rightarrow> mc_entries c
                      | Some bucket \<Rightarrow> AList.update tenant_id (AList.delete jti bucket) (mc_entries c))\<rparr>)
         else if event_type = ''session_revoked'' then
           (let principal_id = py_str (py_or (pget payload ''principal_id'') (PStr [])) in
            if principal_id = [] then c
            else c\<lparr>mc_revoked_principals := revoke_in tenant_id principal_id (mc_revoked_principals c),
                   mc_entries := (case map_of (mc_entries c) tenant_id of None \<Rightarrow> mc_entries c
                      | Some bucket \<Rightarrow> AList.update tenant_id
                          (filter (\<lambda>(jti, pid, _). pid \<noteq> principal_id) bucket) (mc_entries c))\<rparr>)
         else c)"

subsection \<open>Identity\<close>

definition mcp_principal_id :: "pydict \<Rightarrow> string" where
  "mcp_principal_id u =
     py_str (py_or (py_or (py_or (pget u ''sub'') (pget u ''principal_id'')) (pget u ''user_id'')) (PStr []))"

definition mcp_tenant_id :: "pydict \<Rightarrow> exn + string" where
  "mcp_tenant_id u = (if truthy (pget u ''tenant_id'') then Inr (py_str (pget u ''tenant_id''))
     else Inl (Raised ''UnauthorizedError''))"

definition get_mcp_identity :: "pydict \<Rightarrow> instant \<Rightarrow> mcp_cache \<Rightarrow> (exn + pydict) \<times> mcp_cache" where
  "get_mcp_identity u now c =
     (case mcp_tenant_id u of
        Inl e \<Rightarrow> (Inl e, c)
      | Inr tenant_id \<Rightarrow>
          let principal_id = mcp_principal_id u in
          if principal_id = [] then (Inl (Raised ''UnauthorizedError''), c)
          else let jti = py_str (py_or (pget u ''jti'') (PStr []));
                   (revoked, c) = is_revoked tenant_id jti principal_id now c
               in if revoked then (Inl (Raised ''UnauthorizedError''), c)
                  else (Inr u, remember tenant_id jti principal_id now c))"

definition foreign :: "string \<Rightarrow> pyval \<Rightarrow> bool" where
  "foreign own claimed = (claimed \<noteq> PNone \<and> py_str claimed \<noteq> own)"

definition reject_impersonation :: "pydict \<Rightarrow> pyval \<Rightarrow> pyval \<Rightarrow> pydict \<Rightarrow> exn + unit" where
  "reject_impersonation u body_tenant_id body_user_id args =
     (case mcp_tenant_id u of
        Inl e \<Rightarrow> Inl e
      | Inr token_tenant \<Rightarrow>
          let token_principal = mcp_principal_id u in
          if list_ex (foreign token_tenant) [body_tenant_id, pget args ''tenant_id'']
          then Inl (HTTPException 403 ''Tenant impersonation denied'')
          else if list_ex (foreign token_principal)
                    [body_user_id, pget args ''user_id'', pget args ''principal_id'', pget args ''actor_id'']
          then Inl (HTTPException 403 ''User impersonation denied'')
          else Inr ())"

subsection \<open>Allow-list\<close>

record tool_policy =
  tp_tenant_id :: string
  tp_server_name :: string
  tp_tool_name :: string
  tp_allowed :: bool

definition is_tool_allowed :: "tool_policy list \<Rightarrow> string \<Rightarrow> string \<Rightarrow> string \<Rightarrow> bool" where
  "is_tool_allowed rows tenant_id server_name tool_name =
     (case find (\<lambda>r. tp_tenant_id r = tenant_id \<and> tp_server_name r = server_name \<and>
                     tp_tool_name r = tool_name) rows of
        None \<Rightarrow> False | Some r \<Rightarrow> tp_allowed r)"

text \<open>\<open>ORDER BY\<close> is by the database's collation, a parameter.\<close>

definition list_allowed_tools :: "(string \<Rightarrow> 'k::linorder) \<Rightarrow> tool_policy list \<Rightarrow> string \<Rightarrow> string \<Rightarrow> string list" where
  "list_allowed_tools collation rows tenant_id server_name =
     sort_key collation [tp_tool_name r. r \<leftarrow> rows, tp_tenant_id r = tenant_id \<and>
                           tp_server_name r = server_name \<and> tp_allowed r]"

subsection \<open>Dispatch\<close>

definition SEARCH_TOOLS :: "string list" where
  "SEARCH_TOOLS = [''search'', ''federated_search'']"

definition READ_TOOLS :: "string list" where
  "READ_TOOLS = [''read_document'', ''document.read'', ''get_document'']"

text \<open>The text of a body stands in the payload as the list of its code points.\<close>

definition text_val :: "codepoints \<Rightarrow> pyval" where
  "text_val cs = PList (map (\<lambda>c. PInt (int c)) cs)"

record 'c backend =
  bk_is_allowed :: "string \<Rightarrow> string \<Rightarrow> string \<Rightarrow> 'c \<Rightarrow> (exn + bool) \<times> 'c"
  bk_store :: doc_store
  bk_threshold :: int
  bk_search :: "string \<Rightarrow> string \<Rightarrow> string \<Rightarrow> int \<Rightarrow> exn + pydict"

definition dispatch_tool ::
    "'c backend \<Rightarrow> string \<Rightarrow> pydict \<Rightarrow> string \<Rightarrow> string \<Rightarrow> 'c \<Rightarrow> (exn + pydict) \<times> 'c" where
  "dispatch_tool bk tool_name args tenant_id principal_id c =
     (if tool_name \<in> set SEARCH_TOOLS then
        (let query = str_strip (py_str (py_or (pget args ''query'') (PStr []))) in
         if query = [] then (Inl (HTTPException 400 ''search requires arguments.query''), c)
         else case py_int (py_or (pget args ''size'') (PInt 20)) of
                None \<Rightarrow> (Inl (Raised ''ValueError''), c)
              | Some sz \<Rightarrow> (bk_search bk query tenant_id principal_id (max 1 (min sz 100)), c))
      else if tool_name \<in> set READ_TOOLS then
        (let doc_id = str_strip (py_str (py_or (py_or (pget args ''document_id'') (pget args ''doc_id'')) (PStr []))) in
         if doc_id = [] then (Inl (HTTPException 400 ''read_document requires arguments.document_id''), c)
         else let (res, c) = read_document (bk_is_allowed bk) (bk_store bk) tenant_id doc_id principal_id
                               (bk_threshold bk) c
              in ((case res of
                     Inl e \<Rightarrow> Inl e
                   | Inr r \<Rightarrow>
                       (case get_structured_metadata tenant_id doc_id (bk_store bk) of
                          Inl e \<Rightarrow> Inl e
                        | Inr structured \<Rightarrow>
                            Inr (build_document_payload doc_id tenant_id (rr_meta r)
                              (text_val (utf8_decode (case rr_body r of None \<Rightarrow> [] | Some b \<Rightarrow> b))) structured))), c))
      else (Inl (HTTPException 400 (''Unknown tool: '' @ tool_name)), c))"

subsection \<open>The handler\<close>

datatype outcome = Success | Rejected | ErrorOutcome

record mcp_audit =
  ma_tenant_id :: string
  ma_actor_id :: uuid
  ma_host :: "string option"
  ma_client :: string
  ma_user :: string
  ma_tool :: string
  ma_outcome :: outcome
  ma_server_name :: string

record tool_call =
  tc_tool :: string
  tc_arguments :: pydict
  tc_user_id :: "string option"
  tc_tenant_id :: "string option"
  tc_principal_id :: "string option"

definition opt_val :: "string option \<Rightarrow> pyval" where
  "opt_val x = (case x of None \<Rightarrow> PNone | Some s \<Rightarrow> PStr s)"

text \<open>The body of the \<open>try\<close>, then \<open>except\<close> and \<open>finally\<close>.\<close>

definition tool_body ::
    "'c backend \<Rightarrow> tool_policy list \<Rightarrow> string \<Rightarrow> tool_call \<Rightarrow> pydict \<Rightarrow> string \<Rightarrow> string \<Rightarrow> 'c \<Rightarrow> (exn + pydict) \<times> 'c" where
  "tool_body bk rows server body u tenant_id principal_id c =
     (case reject_impersonation u (opt_val (tc_tenant_id body))
             (py_or (opt_val (tc_user_id body)) (opt_val (tc_principal_id body))) (tc_arguments body) of
        Inl e \<Rightarrow> (Inl e, c)
      | Inr _ \<Rightarrow>
          if \<not> is_tool_allowed rows tenant_id server (tc_tool body)
          then (Inl (HTTPException 403 ''Tool not allowlisted''), c)
          else dispatch_tool bk (tc_tool body) (tc_arguments body) tenant_id principal_id c)"

definition outcome_of :: "exn + 'a \<Rightarrow> outcome" where
  "outcome_of r = (case r of
     Inr _ \<Rightarrow> Success
   | Inl (HTTPException status _) \<Rightarrow> if status \<in> {401, 403} then Rejected else ErrorOutcome
   | Inl (Raised _) \<Rightarrow> ErrorOutcome)"

definition call_mcp_tool ::
    "(string \<Rightarrow> uuid) \<Rightarrow> 'c backend \<Rightarrow> tool_policy list \<Rightarrow> string \<Rightarrow> tool_call \<Rightarrow> string option \<Rightarrow> string \<Rightarrow>
     pydict \<Rightarrow> mcp_audit list \<times> 'c \<Rightarrow> (exn + pydict) \<times> mcp_audit list \<times> 'c" where
  "call_mcp_tool actor_of bk rows server body host client u = (\<lambda>(audit, c).
     (case mcp_tenant_id u of
        Inl e \<Rightarrow> (Inl e, audit, c)
      | Inr tenant_id \<Rightarrow>
          let principal_id = mcp_principal_id u;
              (res, c) = tool_body bk rows server body u tenant_id principal_id c;
              row = \<lparr>ma_tenant_id = tenant_id, ma_actor_id = actor_of principal_id, ma_host = host,
                     ma_client = client, ma_user = principal_id, ma_tool = tc_tool body,
                     ma_outcome = outcome_of res, ma_server_name = server\<rparr>
          in (map_sum id (\<lambda>result. [(''server'', PStr server), (''tool'', PStr (tc_tool body)),
                (''outcome'', PStr ''success''), (''result'', PDict result)]) res, audit @ [row], c)))"

text \<open>The dependency \<open>get_mcp_identity\<close> runs before the handler.\<close>

definition post_mcp ::
    "(string \<Rightarrow> uuid) \<Rightarrow> 'c backend \<Rightarrow> tool_policy list \<Rightarrow> string \<Rightarrow> tool_call \<Rightarrow> string option \<Rightarrow> string \<Rightarrow>
     pydict \<Rightarrow> instant \<Rightarrow> mcp_cache \<times> mcp_audit list \<times> 'c \<Rightarrow>
     (exn + pydict) \<times> mcp_cache \<times> mcp_audit list \<times> 'c" where
  "post_mcp actor_of bk rows server body host client u now = (\<lambda>(cache, audit, c).
     (case get_mcp_identity u now cache of
        (Inl e, cache) \<Rightarrow> (Inl e, cache, audit, c)
      | (Inr u, cache) \<Rightarrow>
          let (res, audit, c) = call_mcp_tool actor_of bk rows server body host client u (audit, c)
          in (res, cache, audit, c)))"

subsection \<open>Revocation is permanent\<close>

text \<open>What the cache holds against a session; the clock and the entries play no part.\<close>

definition blocked :: "mcp_cache \<Rightarrow> string \<Rightarrow> string \<Rightarrow> string \<Rightarrow> bool" where
  "blocked c t jti p \<longleftrightarrow> (jti \<noteq> [] \<and> jti \<in> set (dict_get (mc_revoked_jtis c) t [])) \<or>
     (p \<noteq> [] \<and> p \<in> set (dict_get (mc_revoked_principals c) t []))"

lemma expire_sets [simp]:
  "mc_revoked_jtis (expire t now c) = mc_revoked_jtis c"
  "mc_revoked_principals (expire t now c) = mc_revoked_principals c"
  by (simp_all add: expire_def split: option.splits)

lemma remember_sets [simp]:
  "mc_revoked_jtis (remember t jti p now c) = mc_revoked_jtis c"
  "mc_revoked_principals (remember t jti p now c) = mc_revoked_principals c"
  by (simp_all add: remember_def Let_def)

lemma is_revoked_blocked: "fst (is_revoked t jti p now c) = blocked c t jti p"
  by (simp add: is_revoked_def blocked_def Let_def)

lemma is_revoked_sets [simp]:
  "mc_revoked_jtis (snd (is_revoked t jti p now c)) = mc_revoked_jtis c"
  "mc_revoked_principals (snd (is_revoked t jti p now c)) = mc_revoked_principals c"
  by (simp_all add: is_revoked_def Let_def)

lemma revoke_in_grows: "set (dict_get d t []) \<subseteq> set (dict_get (revoke_in t' x d) t [])"
  by (auto simp: revoke_in_def dict_get_update)

lemma revoke_in_adds: "x \<in> set (dict_get (revoke_in t x d) t [])"
  by (simp add: revoke_in_def dict_get_update)

lemma apply_event_grows:
  "set (dict_get (mc_revoked_jtis c) t []) \<subseteq> set (dict_get (mc_revoked_jtis (apply_event e c)) t [])"
  "set (dict_get (mc_revoked_principals c) t []) \<subseteq> set (dict_get (mc_revoked_principals (apply_event e c)) t [])"
  using revoke_in_grows by (simp_all add: apply_event_def Let_def)

lemma identity_sets:
  "mc_revoked_jtis (snd (get_mcp_identity u now c)) = mc_revoked_jtis c"
  "mc_revoked_principals (snd (get_mcp_identity u now c)) = mc_revoked_principals c"
  by (simp_all add: get_mcp_identity_def Let_def is_revoked_def split: sum.split)

text \<open>The gateway's steps on the cache: a request is identified, or a revocation event arrives.\<close>

inductive mcp_step :: "mcp_cache \<Rightarrow> mcp_cache \<Rightarrow> bool" where
  request: "mcp_step c (snd (get_mcp_identity u now c))"
| event: "mcp_step c (apply_event e c)"

inductive_cases mcp_stepE: "mcp_step c c'"

lemma step_keeps_blocked: "mcp_step c c' \<Longrightarrow> blocked c t jti p \<Longrightarrow> blocked c' t jti p"
  by (erule mcp_stepE) (use apply_event_grows identity_sets in \<open>fastforce simp: blocked_def\<close>)+

lemma steps_keep_blocked: "mcp_step\<^sup>*\<^sup>* c c' \<Longrightarrow> blocked c t jti p \<Longrightarrow> blocked c' t jti p"
  by (induction rule: rtranclp_induct) (auto intro: step_keeps_blocked)

lemma blocked_identity:
  assumes "mcp_tenant_id u = Inr t" "blocked c t (py_str (py_or (pget u ''jti'') (PStr []))) (mcp_principal_id u)"
  shows "fst (get_mcp_identity u now c) = Inl (Raised ''UnauthorizedError'')"
  using assms is_revoked_blocked [of t "py_str (py_or (pget u ''jti'') (PStr []))" "mcp_principal_id u" now c]
  by (auto simp: get_mcp_identity_def Let_def split: prod.splits)

lemma event_blocks:
  assumes "pget e ''event_type'' = PStr ''token_revoked''" "pget e ''tenant_id'' = PStr t" "t \<noteq> []"
    "pget e ''jti'' = PStr jti" "jti \<noteq> []"
  shows "blocked (apply_event e c) t jti p"
  using assms revoke_in_adds by (simp add: apply_event_def blocked_def Let_def)

lemma session_event_blocks:
  assumes "pget e ''event_type'' = PStr ''session_revoked''" "pget e ''tenant_id'' = PStr t" "t \<noteq> []"
    "pget e ''principal_id'' = PStr p" "p \<noteq> []"
  shows "blocked (apply_event e c) t jti p"
  using assms revoke_in_adds by (simp add: apply_event_def blocked_def Let_def)

text \<open>
  Property C9: revocation is permanent. Once the revocation event of a token or of a principal has
  been applied, every later request of the tenant with that token, or by that principal, is refused,
  whatever requests, clock values and further events came in between.
\<close>

theorem revoked_sessions_stay_out:
  assumes "pget e ''tenant_id'' = PStr t" "t \<noteq> []"
    and "(pget e ''event_type'' = PStr ''token_revoked'' \<and> pget e ''jti'' = PStr jti \<and> jti \<noteq> [] \<and> pget u ''jti'' = PStr jti)
      \<or> (pget e ''event_type'' = PStr ''session_revoked'' \<and> pget e ''principal_id'' = PStr (mcp_principal_id u) \<and>
         mcp_principal_id u \<noteq> [])"
    and "mcp_step\<^sup>*\<^sup>* (apply_event e c) c'" and "mcp_tenant_id u = Inr t"
  shows "fst (get_mcp_identity u now c') = Inl (Raised ''UnauthorizedError'')"
proof (rule blocked_identity [OF assms(5)], rule steps_keep_blocked [OF assms(4)])
  show "blocked (apply_event e c) t (py_str (py_or (pget u ''jti'') (PStr []))) (mcp_principal_id u)"
    using assms(3) event_blocks [of e t jti c "mcp_principal_id u"] session_event_blocks [of e t "mcp_principal_id u" c] assms(1,2)
    by auto
qed

definition demo_event :: pydict where
  "demo_event = [(''event_type'', PStr ''token_revoked''), (''tenant_id'', PStr ''t''), (''jti'', PStr ''j1'')]"

definition demo_user :: "string \<Rightarrow> pydict" where
  "demo_user jti = [(''sub'', PStr ''ann''), (''tenant_id'', PStr ''t''), (''jti'', PStr jti)]"

theorem revoked_sessions_stay_out_witness:
  "fst (get_mcp_identity (demo_user ''j1'') 9000
     (snd (get_mcp_identity (demo_user ''j2'') 8000 (apply_event demo_event (empty_cache 1800)))))
   = Inl (Raised ''UnauthorizedError'')"
proof (rule revoked_sessions_stay_out [of demo_event "''t''" "''j1''"])
  show "pget demo_event ''tenant_id'' = PStr ''t''" by (simp add: demo_event_def)
  show "mcp_step\<^sup>*\<^sup>* (apply_event demo_event (empty_cache 1800))
      (snd (get_mcp_identity (demo_user ''j2'') 8000 (apply_event demo_event (empty_cache 1800))))"
    by (rule r_into_rtranclp) (rule mcp_step.request)
  show "mcp_tenant_id (demo_user ''j1'') = Inr ''t''" by (simp add: mcp_tenant_id_def demo_user_def)
qed (simp_all add: demo_event_def demo_user_def)

subsection \<open>Every call is gated and audited\<close>

lemma tool_body_gates:
  assumes "fst (tool_body bk rows server body u t p c) = Inr res"
  shows "reject_impersonation u (opt_val (tc_tenant_id body))
      (py_or (opt_val (tc_user_id body)) (opt_val (tc_principal_id body))) (tc_arguments body) = Inr ()
    \<and> is_tool_allowed rows t server (tc_tool body)"
  using assms by (auto simp: tool_body_def split: sum.splits if_splits)

lemma no_foreign_claims:
  assumes "reject_impersonation u bt bu args = Inr ()" and "mcp_tenant_id u = Inr t"
  shows "\<not> foreign t bt \<and> \<not> foreign t (pget args ''tenant_id'') \<and> \<not> foreign (mcp_principal_id u) bu \<and>
    \<not> foreign (mcp_principal_id u) (pget args ''user_id'') \<and>
    \<not> foreign (mcp_principal_id u) (pget args ''principal_id'') \<and> \<not> foreign (mcp_principal_id u) (pget args ''actor_id'')"
  using assms by (auto simp: reject_impersonation_def Let_def split: if_splits)

lemma is_tool_allowed_row:
  "is_tool_allowed rows t s n \<Longrightarrow> \<exists>r \<in> set rows. tp_tenant_id r = t \<and> tp_server_name r = s \<and> tp_tool_name r = n \<and> tp_allowed r"
  by (auto simp: is_tool_allowed_def dest: find_SomeD split: option.splits)


definition demo_backend :: "mock_checker backend" where
  "demo_backend = \<lparr>bk_is_allowed = mock_is_allowed, bk_store = demo_store, bk_threshold = 100,
     bk_search = (\<lambda>q t p n. Inr [(''size'', PInt n)])\<rparr>"

definition demo_call :: tool_call where
  "demo_call = \<lparr>tc_tool = ''search'', tc_arguments = [(''query'', PStr '' x ''), (''size'', PStr ''500'')],
     tc_user_id = Some ''ann'', tc_tenant_id = None, tc_principal_id = None\<rparr>"

definition demo_run :: "(exn + pydict) \<times> mcp_audit list \<times> mock_checker" where
  "demo_run = call_mcp_tool (\<lambda>_. 9) demo_backend [\<lparr>tp_tenant_id = ''t'', tp_server_name = ''srv'', tp_tool_name = ''search'',
     tp_allowed = True\<rparr>] ''srv'' demo_call None ''cli'' (demo_user ''j1'') ([], \<lparr>mk_allowed = [], mk_call_count = 0, mk_history = []\<rparr>)"


text \<open>
  A user id that is the caller's own hides a foreign principal id. The handler passes
  \<open>user_id or principal_id\<close> to the check, so a body that names another principal is accepted
  when it also names the caller as its user.
\<close>

theorem matching_user_hides_foreign_principal:
  "(let body = demo_call\<lparr>tc_principal_id := Some ''bob''\<rparr>; u = demo_user ''j1'' in
     fst (tool_body demo_backend [\<lparr>tp_tenant_id = ''t'', tp_server_name = ''srv'', tp_tool_name = ''search'',
       tp_allowed = True\<rparr>] ''srv'' body u ''t'' ''ann'' \<lparr>mk_allowed = [], mk_call_count = 0, mk_history = []\<rparr>)
     = Inr [(''size'', PInt 100)] \<and>
     fst (tool_body demo_backend [] ''srv'' (body\<lparr>tc_user_id := None\<rparr>) u ''t'' ''ann''
       \<lparr>mk_allowed = [], mk_call_count = 0, mk_history = []\<rparr>)
     = Inl (HTTPException 403 ''User impersonation denied''))"
  by code_simp

text \<open>
  The document tool answers large documents with an empty body. Above the streaming
  threshold the reader returns a stream and no body; the dispatcher ignores the stream and sends
  the empty text with a success outcome.
\<close>

theorem large_documents_read_empty:
  "(case fst (dispatch_tool (demo_backend\<lparr>bk_threshold := 3\<rparr>) ''read_document'' [(''document_id'', PStr ''d'')]
       ''1'' ''5'' \<lparr>mk_allowed = [(''1'', ''d'', ''5'')], mk_call_count = 0, mk_history = []\<rparr>) of
      Inl _ \<Rightarrow> False
    | Inr payload \<Rightarrow> pget payload ''body_size'' = PInt 4 \<and> pget payload ''body'' = text_val [])"
  by code_simp

end
