(* ===== verification/Tenancy.thy ===== *)
theory Tenancy
  imports Prelude
begin

text \<open>
  The contract of every tenant-partitioned store of the program, as an interface: an operation
  belongs to one tenant, leaves the view of every other tenant alone, and acts on its own tenant
  as a function of that tenant's view. The lemmas proved from it are non-interference: what a
  tenant sees after any interleaving of operations is what it would see had it been alone.
\<close>

locale tenant_store =
  fixes step :: "'s \<Rightarrow> 'op \<Rightarrow> 's"
    and tenant_of :: "'op \<Rightarrow> 't"
    and view :: "'t \<Rightarrow> 's \<Rightarrow> 'v"
  assumes frame: "tenant_of x \<noteq> t \<Longrightarrow> view t (step s x) = view t s"
    and own: "tenant_of x = t \<Longrightarrow> view t s = view t s' \<Longrightarrow> view t (step s x) = view t (step s' x)"
begin

lemma view_step_cong: "view t s = view t s' \<Longrightarrow> view t (step s x) = view t (step s' x)"
proof (cases "tenant_of x = t")
  case True
  then show "view t s = view t s' \<Longrightarrow> ?thesis" by (rule own)
next
  case False
  then show "view t s = view t s' \<Longrightarrow> ?thesis" by (simp add: frame)
qed

lemma view_run_cong: "view t s = view t s' \<Longrightarrow> view t (foldl step s xs) = view t (foldl step s' xs)"
proof (induction xs arbitrary: s s')
  case (Cons x xs)
  show ?case unfolding foldl.simps by (rule Cons.IH [OF view_step_cong [OF Cons.prems]])
qed simp

lemma alone: "view t (foldl step s xs) = view t (foldl step s (filter (\<lambda>x. tenant_of x = t) xs))"
proof (induction xs arbitrary: s)
  case (Cons x xs)
  show ?case
  proof (cases "tenant_of x = t")
    case False
    then have "view t (foldl step (step s x) xs) = view t (foldl step s xs)"
      by (intro view_run_cong frame)
    with False Cons show ?thesis by simp
  qed (use Cons in simp)
qed simp

lemma untouched: "\<forall>x \<in> set xs. tenant_of x \<noteq> t \<Longrightarrow> view t (foldl step s xs) = view t s"
  using alone [of t s xs] by (simp add: filter_False)

text \<open>Two interleavings with the same operations of the tenant, in the same order, look the same.\<close>

lemma interleavings:
  "filter (\<lambda>x. tenant_of x = t) xs = filter (\<lambda>x. tenant_of x = t) ys \<Longrightarrow>
     view t (foldl step s xs) = view t (foldl step s ys)"
  using alone [of t s xs] alone [of t s ys] by simp

end

text \<open>The dictionary of a tenant in a two-level store.\<close>

definition bucket :: "('t, ('k, 'v) dict) dict \<Rightarrow> 't \<Rightarrow> ('k, 'v) dict" where
  "bucket d t = dict_get d t []"

lemma bucket_update [simp]: "bucket (AList.update t b d) t' = (if t' = t then b else bucket d t')"
  by (simp add: bucket_def dict_get_update)

lemma bucket_delete [simp]: "bucket (AList.delete t d) t' = (if t' = t then [] else bucket d t')"
  by (simp add: bucket_def dict_get_delete)

lemma bucket_Nil [simp]: "bucket [] t = []"
  by (simp add: bucket_def)

text \<open>
  A store that is one dictionary keyed by tenant, whose operations rewrite the entry of their
  tenant (\<open>act\<close>), satisfies the contract with the entry as the view.
\<close>

locale keyed_store =
  fixes step :: "('t, 'b) dict \<Rightarrow> 'op \<Rightarrow> ('t, 'b) dict"
    and tenant_of :: "'op \<Rightarrow> 't"
    and act :: "'op \<Rightarrow> 'b option \<Rightarrow> 'b option"
  assumes acts: "map_of (step s x) k = (if k = tenant_of x then act x (map_of s k) else map_of s k)"

sublocale keyed_store \<subseteq> tenant_store step tenant_of "\<lambda>t s. map_of s t"
  by unfold_locales (simp_all add: acts)

lemma foldl_at_key:
  assumes "\<And>s x k. map_of (f s x) k = (if k = t then h x (map_of s k) else map_of s k)"
  shows "map_of (foldl f s xs) k = (if k = t then foldl (\<lambda>b x. h x b) (map_of s k) xs else map_of s k)"
  using assms by (induction xs arbitrary: s) auto

lemma map_of_bucket_update:
  "map_of (AList.update t (g (bucket s t)) s) k =
     (if k = t then Some (g (case map_of s k of None \<Rightarrow> [] | Some b \<Rightarrow> b)) else map_of s k)"
  by (simp add: map_of_update bucket_def dict_get_def)

end
