(* ===== verification/Search_Stores.thy ===== *)
theory Search_Stores
  imports Tenancy Acl_Filter
begin

text \<open>
  The in-process search stores (\<open>backend/app/services/lexical/mock_store.py\<close> and
  \<open>backend/app/services/vector/mock_store.py\<close>): tenant-partitioned documents and chunks, searched
  through the ACL filter. Identifiers, titles and ACL terms are strings; scores are the constant
  1.0 of the code. A search that the code ends with an exception is an \<open>Inl\<close>.
\<close>

subsection \<open>Lexical store\<close>

type_synonym lex_store = "(string, (string, pydict) dict) dict"

definition id_key_of :: "pyval \<Rightarrow> string option" where
  "id_key_of v = (case v of PStr s \<Rightarrow> if s \<noteq> [] then Some s else None | _ \<Rightarrow> None)"

definition lex_ensure :: "string \<Rightarrow> lex_store \<Rightarrow> lex_store" where
  "lex_ensure tenant_id s = (if map_of s tenant_id = None then AList.update tenant_id [] s else s)"

definition lex_index_document :: "string \<Rightarrow> string \<Rightarrow> pydict \<Rightarrow> lex_store \<Rightarrow> lex_store" where
  "lex_index_document tenant_id document_id document s =
     (let s = lex_ensure tenant_id s
      in AList.update tenant_id (AList.update document_id document (bucket s tenant_id)) s)"

definition lex_index_batch :: "string \<Rightarrow> pydict list \<Rightarrow> lex_store \<Rightarrow> lex_store \<times> nat" where
  "lex_index_batch tenant_id documents s =
     (foldl (\<lambda>s doc. case id_key_of (pget doc ''document_id'') of
          None \<Rightarrow> s
        | Some doc_id \<Rightarrow> AList.update tenant_id (AList.update doc_id doc (bucket s tenant_id)) s)
       (lex_ensure tenant_id s) documents, length documents)"

definition lex_delete_document :: "string \<Rightarrow> string \<Rightarrow> lex_store \<Rightarrow> lex_store" where
  "lex_delete_document tenant_id document_id s =
     (case map_of s tenant_id of
        None \<Rightarrow> s
      | Some docs \<Rightarrow> if map_of docs document_id = None then s
                     else AList.update tenant_id (AList.delete document_id docs) s)"

definition lex_clear_tenant :: "string \<Rightarrow> lex_store \<Rightarrow> lex_store" where
  "lex_clear_tenant tenant_id s = AList.delete tenant_id s"

fun str_list :: "pyval \<Rightarrow> string list" where
  "str_list (PList xs) = concat (map (\<lambda>v. case v of PStr t \<Rightarrow> [t] | _ \<Rightarrow> []) xs)"
| "str_list _ = []"

definition doc_field :: "pydict \<Rightarrow> string \<Rightarrow> pyval \<Rightarrow> string" where
  "doc_field doc k dflt = py_str (dict_get doc k dflt)"

definition lex_matches :: "string list \<Rightarrow> string \<Rightarrow> string \<times> pydict \<Rightarrow> bool" where
  "lex_matches acl_terms query = (\<lambda>(doc_id, doc).
     document_is_visible acl_terms (Some (str_list (pget doc ''acl_filter_terms''))) \<and>
     (query = [] \<or> query = ''*'' \<or>
      contains (str_lower query)
        (str_lower (doc_field doc ''title'' (PStr []) @ '' '' @ doc_field doc ''body_text'' (PStr []) @ '' '' @
                    py_str (dict_get doc ''file_path'' (PStr [])) @ '' '' @ doc_id))))"

record lex_hit =
  lh_document_id :: string
  lh_title :: pyval
  lh_snippet :: string
  lh_file_path :: pyval
  lh_source :: pyval
  lh_language :: pyval

definition lex_hit_of :: "string \<times> pydict \<Rightarrow> lex_hit" where
  "lex_hit_of = (\<lambda>(doc_id, doc).
     \<lparr>lh_document_id = doc_id, lh_title = dict_get doc ''title'' (PStr []),
      lh_snippet = take 200 (doc_field doc ''body_text'' (PStr [])), lh_file_path = pget doc ''file_path'',
      lh_source = pget doc ''source'', lh_language = pget doc ''language''\<rparr>)"

definition facet_counts :: "string \<Rightarrow> (string \<times> pydict) list \<Rightarrow> (pyval, nat) dict" where
  "facet_counts field docs = foldl (\<lambda>counts (_, doc).
     let v = pget doc field in if truthy v then AList.update v (dict_get counts v 0 + 1) counts else counts) [] docs"

record lex_result =
  lr_results :: "lex_hit list"
  lr_facets :: "(string, (pyval, nat) dict) dict"
  lr_total :: nat

text \<open>Slicing a body or counting a facet value of the wrong type raises \<open>TypeError\<close>.\<close>

definition lex_typed :: "string list \<Rightarrow> (string \<times> pydict) list \<Rightarrow> bool" where
  "lex_typed facets docs = list_all (\<lambda>(_, doc).
     (case dict_get doc ''body_text'' (PStr []) of PStr _ \<Rightarrow> True | _ \<Rightarrow> False) \<and>
     list_all (\<lambda>f. case pget doc f of PList xs \<Rightarrow> xs = [] | PDict d \<Rightarrow> d = [] | _ \<Rightarrow> True) facets) docs"

definition lex_search ::
    "string \<Rightarrow> string \<Rightarrow> string list \<Rightarrow> string list \<Rightarrow> nat \<Rightarrow> nat \<Rightarrow> lex_store \<Rightarrow> string + lex_result" where
  "lex_search tenant_id query acl_terms facets from sz s =
     (if is_fail_closed acl_terms then Inr \<lparr>lr_results = [], lr_facets = [], lr_total = 0\<rparr>
      else case map_of s tenant_id of
             None \<Rightarrow> Inl ''KeyError''
           | Some docs \<Rightarrow>
               let visible_docs = filter (lex_matches acl_terms query) docs;
                   results = map lex_hit_of visible_docs
               in if \<not> lex_typed facets visible_docs then Inl ''TypeError''
                  else Inr \<lparr>lr_results = take sz (drop from results),
                            lr_facets = foldl (\<lambda>m f. AList.update f (facet_counts f visible_docs) m) [] facets,
                            lr_total = length results\<rparr>)"

datatype lex_op = LexIndex string string pydict | LexBatch string "pydict list"
  | LexDelete string string | LexClear string

fun lex_tenant :: "lex_op \<Rightarrow> string" where
  "lex_tenant (LexIndex t d doc) = t"
| "lex_tenant (LexBatch t docs) = t"
| "lex_tenant (LexDelete t d) = t"
| "lex_tenant (LexClear t) = t"

fun lex_step :: "lex_store \<Rightarrow> lex_op \<Rightarrow> lex_store" where
  "lex_step s (LexIndex t d doc) = lex_index_document t d doc s"
| "lex_step s (LexBatch t docs) = fst (lex_index_batch t docs s)"
| "lex_step s (LexDelete t d) = lex_delete_document t d s"
| "lex_step s (LexClear t) = lex_clear_tenant t s"


text \<open>What an operation does to the documents of its tenant.\<close>

abbreviation docs_of :: "('k, 'v) dict option \<Rightarrow> ('k, 'v) dict" where
  "docs_of b \<equiv> (case b of None \<Rightarrow> [] | Some d \<Rightarrow> d)"

fun lex_act :: "lex_op \<Rightarrow> (string, pydict) dict option \<Rightarrow> (string, pydict) dict option" where
  "lex_act (LexIndex t d doc) b = Some (AList.update d doc (docs_of b))"
| "lex_act (LexBatch t docs) b = foldl (\<lambda>b doc. case id_key_of (pget doc ''document_id'') of
       None \<Rightarrow> b | Some d \<Rightarrow> Some (AList.update d doc (docs_of b))) (Some (docs_of b)) docs"
| "lex_act (LexDelete t d) b = (case b of None \<Rightarrow> None | Some docs \<Rightarrow> Some (AList.delete d docs))"
| "lex_act (LexClear t) b = None"

lemma map_of_lex_ensure: "map_of (lex_ensure t s) k = (if k = t then Some (docs_of (map_of s k)) else map_of s k)"
  by (auto simp: lex_ensure_def map_of_update split: option.splits)

lemma map_of_lex_batch:
  "map_of (fst (lex_index_batch t docs s)) k = (if k = t then lex_act (LexBatch t docs) (map_of s k) else map_of s k)"
proof -
  let ?h = "\<lambda>doc b. case id_key_of (pget doc ''document_id'') of
       None \<Rightarrow> b | Some d \<Rightarrow> Some (AList.update d doc (docs_of b))"
  show ?thesis
    unfolding lex_index_batch_def fst_conv
    by (subst foldl_at_key [where t = t and h = ?h])
      (auto simp: map_of_bucket_update [where g = "AList.update _ _"] map_of_lex_ensure split: option.splits)
qed

interpretation lex: keyed_store lex_step lex_tenant lex_act
proof
  fix s :: lex_store and x k
  show "map_of (lex_step s x) k = (if k = lex_tenant x then lex_act x (map_of s k) else map_of s k)"
  proof (cases x)
    case (LexIndex t d doc)
    then show ?thesis
      by (simp add: lex_index_document_def Let_def map_of_lex_ensure
          map_of_bucket_update [where g = "AList.update d doc"])
  next
    case (LexDelete t d)
    then show ?thesis
      by (auto simp: lex_delete_document_def map_of_update delete_absent split: option.splits)
  qed (simp_all add: map_of_lex_batch lex_clear_tenant_def map_of_delete del: lex_act.simps(2))
qed

subsection \<open>Vector store\<close>

text \<open>Embeddings are opaque to the mock store: their type is a parameter.\<close>

record 'e chunk =
  vc_embedding :: 'e
  vc_document_id :: string
  vc_model_version :: string
  vc_acl_terms :: "string list"
  vc_chunk_text :: string
  vc_metadata :: pydict

type_synonym 'e vec_store = "(string, (string, 'e chunk) dict) dict"

definition vec_upsert_chunk :: "string \<Rightarrow> string \<Rightarrow> 'e chunk \<Rightarrow> 'e vec_store \<Rightarrow> 'e vec_store" where
  "vec_upsert_chunk tenant_id chunk_id c s =
     (let s = (if map_of s tenant_id = None then AList.update tenant_id [] s else s)
      in AList.update tenant_id (AList.update chunk_id c (bucket s tenant_id)) s)"

text \<open>An item of a batch, with the fields the caller may leave out.\<close>

record 'e chunk_item =
  it_chunk_id :: string
  it_document_id :: "string option"
  it_embedding :: 'e
  it_model_version :: "string option"
  it_acl_terms :: "string list option"
  it_acl_filter_terms :: "string list option"
  it_chunk_text :: "string option"
  it_metadata :: "pydict option"

definition list_or :: "'a list option \<Rightarrow> 'a list option \<Rightarrow> 'a list" where
  "list_or a b = (case a of Some (x # xs) \<Rightarrow> x # xs | _ \<Rightarrow> (case b of Some ys \<Rightarrow> ys | None \<Rightarrow> []))"

definition chunk_of_item :: "'e chunk_item \<Rightarrow> 'e chunk" where
  "chunk_of_item i =
     \<lparr>vc_embedding = it_embedding i,
      vc_document_id = (case it_document_id i of None \<Rightarrow> it_chunk_id i | Some d \<Rightarrow> d),
      vc_model_version = (case it_model_version i of None \<Rightarrow> ''v1'' | Some v \<Rightarrow> v),
      vc_acl_terms = list_or (it_acl_terms i) (it_acl_filter_terms i),
      vc_chunk_text = opt_str (it_chunk_text i),
      vc_metadata = (case it_metadata i of None \<Rightarrow> [] | Some m \<Rightarrow> m)\<rparr>"

definition vec_upsert_batch :: "string \<Rightarrow> 'e chunk_item list \<Rightarrow> 'e vec_store \<Rightarrow> 'e vec_store \<times> nat" where
  "vec_upsert_batch tenant_id items s =
     (foldl (\<lambda>s i. vec_upsert_chunk tenant_id (it_chunk_id i) (chunk_of_item i) s) s items, length items)"

definition vec_delete_chunk :: "string \<Rightarrow> string \<Rightarrow> 'e vec_store \<Rightarrow> 'e vec_store" where
  "vec_delete_chunk tenant_id chunk_id s =
     (case map_of s tenant_id of
        None \<Rightarrow> s
      | Some cs \<Rightarrow> if map_of cs chunk_id = None then s else AList.update tenant_id (AList.delete chunk_id cs) s)"

definition vec_clear_tenant :: "string \<Rightarrow> 'e vec_store \<Rightarrow> 'e vec_store" where
  "vec_clear_tenant tenant_id s = AList.delete tenant_id s"

record vec_hit =
  vh_chunk_id :: string
  vh_document_id :: string
  vh_model_version :: string
  vh_chunk_text :: string
  vh_metadata :: pydict

definition vec_hit_of :: "string \<times> 'e chunk \<Rightarrow> vec_hit" where
  "vec_hit_of = (\<lambda>(chunk_id, c). \<lparr>vh_chunk_id = chunk_id, vh_document_id = vc_document_id c,
     vh_model_version = vc_model_version c, vh_chunk_text = vc_chunk_text c, vh_metadata = vc_metadata c\<rparr>)"

definition vec_wanted :: "string list \<Rightarrow> string option \<Rightarrow> string \<times> 'e chunk \<Rightarrow> bool" where
  "vec_wanted acl_terms model_version = (\<lambda>(chunk_id, c).
     \<not> (opt_str model_version \<noteq> [] \<and> Some (vc_model_version c) \<noteq> model_version) \<and>
     document_is_visible acl_terms (Some (vc_acl_terms c)))"

text \<open>The loop, with its \<open>continue\<close>s and its \<open>break\<close>.\<close>

fun vec_scan :: "string list \<Rightarrow> string option \<Rightarrow> int \<Rightarrow> vec_hit list \<Rightarrow> (string \<times> 'e chunk) list \<Rightarrow> vec_hit list" where
  "vec_scan acl_terms mv top_k results [] = results"
| "vec_scan acl_terms mv top_k results (x # xs) =
     (if \<not> vec_wanted acl_terms mv x then vec_scan acl_terms mv top_k results xs
      else let results = results @ [vec_hit_of x]
           in if top_k \<le> int (length results) then results else vec_scan acl_terms mv top_k results xs)"

definition vec_search ::
    "string \<Rightarrow> string list \<Rightarrow> int \<Rightarrow> string option \<Rightarrow> 'e vec_store \<Rightarrow> vec_hit list" where
  "vec_search tenant_id acl_terms top_k model_version s =
     (if is_fail_closed acl_terms then []
      else case map_of s tenant_id of None \<Rightarrow> [] | Some cs \<Rightarrow> vec_scan acl_terms model_version top_k [] cs)"

datatype 'e vec_op = VecUpsert string string "'e chunk" | VecBatch string "'e chunk_item list"
  | VecDelete string string | VecClear string

fun vec_tenant :: "'e vec_op \<Rightarrow> string" where
  "vec_tenant (VecUpsert t i c) = t"
| "vec_tenant (VecBatch t items) = t"
| "vec_tenant (VecDelete t i) = t"
| "vec_tenant (VecClear t) = t"

fun vec_step :: "'e vec_store \<Rightarrow> 'e vec_op \<Rightarrow> 'e vec_store" where
  "vec_step s (VecUpsert t i c) = vec_upsert_chunk t i c s"
| "vec_step s (VecBatch t items) = fst (vec_upsert_batch t items s)"
| "vec_step s (VecDelete t i) = vec_delete_chunk t i s"
| "vec_step s (VecClear t) = vec_clear_tenant t s"

fun vec_act :: "'e vec_op \<Rightarrow> (string, 'e chunk) dict option \<Rightarrow> (string, 'e chunk) dict option" where
  "vec_act (VecUpsert t i c) b = Some (AList.update i c (docs_of b))"
| "vec_act (VecBatch t items) b =
     foldl (\<lambda>b i. Some (AList.update (it_chunk_id i) (chunk_of_item i) (docs_of b))) b items"
| "vec_act (VecDelete t i) b = (case b of None \<Rightarrow> None | Some cs \<Rightarrow> Some (AList.delete i cs))"
| "vec_act (VecClear t) b = None"

lemma map_of_vec_upsert:
  "map_of (vec_upsert_chunk t i c s) k = (if k = t then Some (AList.update i c (docs_of (map_of s k))) else map_of s k)"
  by (auto simp: vec_upsert_chunk_def Let_def bucket_def dict_get_def map_of_update split: option.splits)

interpretation vec: keyed_store vec_step vec_tenant vec_act
proof
  fix s :: "'e vec_store" and x k
  show "map_of (vec_step s x) k = (if k = vec_tenant x then vec_act x (map_of s k) else map_of s k)"
  proof (cases x)
    case (VecBatch t items)
    have "map_of (foldl (\<lambda>s i. vec_upsert_chunk t (it_chunk_id i) (chunk_of_item i) s) s items) k =
        (if k = t then foldl (\<lambda>b i. Some (AList.update (it_chunk_id i) (chunk_of_item i) (docs_of b))) (map_of s k) items
         else map_of s k)"
      by (rule foldl_at_key) (rule map_of_vec_upsert)
    with VecBatch show ?thesis by (simp add: vec_upsert_batch_def)
  next
    case (VecDelete t d)
    then show ?thesis
      by (auto simp: vec_delete_chunk_def map_of_update delete_absent split: option.splits)
  qed (simp_all add: map_of_vec_upsert vec_clear_tenant_def map_of_delete)
qed

subsection \<open>What a search returns\<close>

lemma vec_scan_eq: "vec_scan u mv k results xs =
    results @ take (nat (max 1 (k - int (length results)))) (map vec_hit_of (filter (vec_wanted u mv) xs))"
proof (induction u mv k results xs rule: vec_scan.induct)
  case (2 u mv k results x xs)
  show ?case
  proof (cases "vec_wanted u mv x")
    case True
    show ?thesis
    proof (cases "k \<le> int (length (results @ [vec_hit_of x]))")
      case True
      then have "nat (max 1 (k - int (length results))) = 1" by simp
      with True \<open>vec_wanted u mv x\<close> show ?thesis by (simp add: Let_def)
    next
      case False
      then have "nat (max 1 (k - int (length results))) = Suc (nat (max 1 (k - int (length (results @ [vec_hit_of x])))))"
        by simp
      with False True 2 show ?thesis by (simp add: Let_def)
    qed
  qed (use 2 in simp)
qed simp

text \<open>
  Property C11: searches of both stores respect the ACL. Every hit of a search is a document, or
  a chunk, that the searching tenant itself stored and that is visible to the caller; the total and
  the facet counts of the lexical search are those of visible documents only.
\<close>

theorem searches_respect_acl:
  "(case lex_search t q u facets from sz s of
      Inl _ \<Rightarrow> True
    | Inr r \<Rightarrow> \<exists>docs. set docs \<subseteq> {x \<in> set (docs_of (map_of s t)). lex_matches u q x} \<and>
        lr_results r = map lex_hit_of (take sz (drop from docs)) \<and> lr_total r = length docs \<and>
        lr_facets r = foldl (\<lambda>m f. AList.update f (facet_counts f docs) m) [] (if docs = [] \<and> is_fail_closed u then [] else facets) \<and>
        list_all (\<lambda>(i, d). document_is_visible u (Some (str_list (pget d ''acl_filter_terms'')))) docs) \<and>
   (\<exists>cs. set cs \<subseteq> set (docs_of (map_of v t)) \<and> vec_search t u k mv v = map vec_hit_of cs \<and>
      list_all (\<lambda>(i, c). document_is_visible u (Some (vc_acl_terms c))) cs)"
proof
  show "case lex_search t q u facets from sz s of
      Inl _ \<Rightarrow> True
    | Inr r \<Rightarrow> \<exists>docs. set docs \<subseteq> {x \<in> set (docs_of (map_of s t)). lex_matches u q x} \<and>
        lr_results r = map lex_hit_of (take sz (drop from docs)) \<and> lr_total r = length docs \<and>
        lr_facets r = foldl (\<lambda>m f. AList.update f (facet_counts f docs) m) [] (if docs = [] \<and> is_fail_closed u then [] else facets) \<and>
        list_all (\<lambda>(i, d). document_is_visible u (Some (str_list (pget d ''acl_filter_terms'')))) docs"
  proof (cases "is_fail_closed u")
    case True
    then show ?thesis by (auto simp: lex_search_def intro!: exI [of _ "[]"])
  next
    case False
    have vis: "list_all (\<lambda>(i, d). document_is_visible u (Some (str_list (pget d ''acl_filter_terms''))))
        (filter (lex_matches u q) docs)" for docs
      by (auto simp: list_all_iff lex_matches_def)
    show ?thesis
    proof (cases "map_of s t")
      case (Some docs)
      with False vis [of docs] show ?thesis
        by (auto simp: lex_search_def Let_def take_map drop_map intro!: exI [of _ "filter (lex_matches u q) docs"])
    qed (use False in \<open>simp add: lex_search_def\<close>)
  qed
  show "\<exists>cs. set cs \<subseteq> set (docs_of (map_of v t)) \<and> vec_search t u k mv v = map vec_hit_of cs \<and>
      list_all (\<lambda>(i, c). document_is_visible u (Some (vc_acl_terms c))) cs"
  proof (cases "is_fail_closed u \<or> map_of v t = None")
    case False
    then obtain cs where cs: "map_of v t = Some cs" by auto
    let ?hits = "take (nat (max 1 k)) (filter (vec_wanted u mv) cs)"
    have "list_all (\<lambda>(i, c). document_is_visible u (Some (vc_acl_terms c))) ?hits"
      by (auto simp: list_all_iff vec_wanted_def dest!: in_set_takeD)
    moreover have "set ?hits \<subseteq> set (docs_of (map_of v t))" by (auto simp: cs dest!: in_set_takeD)
    moreover have "vec_search t u k mv v = map vec_hit_of ?hits"
      using False by (simp add: vec_search_def cs vec_scan_eq take_map)
    ultimately show ?thesis by blast
  qed (auto simp: vec_search_def intro!: exI [of _ "[]"])
qed

text \<open>
  Tenants cannot see each other through the search stores. Whatever operations are
  interleaved on the lexical and the vector store, a search of a tenant gives the result it would
  give after that tenant's own operations alone.
\<close>

theorem search_stores_isolate_tenants:
  "lex_search t q u facets from sz (foldl lex_step s ops) =
     lex_search t q u facets from sz (foldl lex_step s (filter (\<lambda>x. lex_tenant x = t) ops)) \<and>
   vec_search t u k mv (foldl vec_step v vops) =
     vec_search t u k mv (foldl vec_step v (filter (\<lambda>x. vec_tenant x = t) vops))"
  using lex.alone [where t = t and s = s and xs = ops] vec.alone [where t = t and s = v and xs = vops]
  by (simp add: lex_search_def vec_search_def)

text \<open>
  Two divergences of the mock stores from the interface. Searching a tenant that has
  no index raises \<open>KeyError\<close> in the lexical store, although the code computes the empty default one
  line earlier; and a vector search for zero results returns one.
\<close>

theorem mock_store_edge_cases:
  "lex_search ''t'' ''*'' [''user:a''] [] 0 20 [] = Inl ''KeyError'' \<and>
   length (vec_search ''t'' [''user:a''] 0 None
     (vec_upsert_chunk ''t'' ''c1'' \<lparr>vc_embedding = (), vc_document_id = ''d'', vc_model_version = ''v1'',
        vc_acl_terms = [''user:a''], vc_chunk_text = ''x'', vc_metadata = []\<rparr> [])) = 1"
  by code_simp

end
