(* ===== verification/Graph_Store.thy ===== *)
theory Graph_Store
  imports Tenancy Core_Models
begin

text \<open>
  The in-memory knowledge graph (\<open>backend/app/services/graph/mock_store.py\<close>): nodes and edges per
  tenant, the layered traversal, the merge of two persons and its undoing from a snapshot. The
  state of one tenant is a pair of its nodes and its edges. Values are copied where the code shares
  references, so a later in-place update of a returned node is not modelled. Relationship types
  are ASCII. The order in which Python iterates over the set of visited nodes is a parameter.
\<close>

record node =
  nd_label :: string
  nd_labels :: "string list"
  nd_source_id :: string
  nd_properties :: pydict

record edge =
  ed_rel_type :: string
  ed_source_id :: string
  ed_target_id :: string
  ed_properties :: pydict
  ed_source_label :: "string option"
  ed_target_label :: "string option"

type_synonym tgraph = "(string, node) dict \<times> edge list"

record graph_store =
  gs_nodes :: "(string, (string, node) dict) dict"
  gs_edges :: "(string, edge list) dict"

definition chr_upper :: "char \<Rightarrow> char" where
  "chr_upper c = (let n = (of_char c :: nat) in if 97 \<le> n \<and> n \<le> 122 then char_of (n - 32) else c)"

definition str_upper :: "string \<Rightarrow> string" where
  "str_upper s = map chr_upper s"

subsection \<open>Operations on the graph of one tenant\<close>

definition put_node :: "string \<Rightarrow> string \<Rightarrow> pydict \<Rightarrow> tgraph \<Rightarrow> tgraph" where
  "put_node label source_id properties = (\<lambda>(ns, es).
     let props = AList.update ''source_id'' (PStr source_id) properties;
         props = AList.update ''label'' (PStr label) props
     in (AList.update source_id \<lparr>nd_label = label, nd_labels = [label], nd_source_id = source_id,
           nd_properties = props\<rparr> ns, es))"

definition stub_node :: "string option \<Rightarrow> string \<Rightarrow> node" where
  "stub_node label source_id =
     (let l = (if opt_str label \<noteq> [] then opt_str label else ''Entity'')
      in \<lparr>nd_label = l, nd_labels = [l], nd_source_id = source_id,
          nd_properties = [(''source_id'', PStr source_id)]\<rparr>)"

definition ensure_node :: "string option \<Rightarrow> string \<Rightarrow> (string, node) dict \<Rightarrow> (string, node) dict" where
  "ensure_node label source_id ns =
     (if map_of ns source_id = None then AList.update source_id (stub_node label source_id) ns else ns)"

definition same_edge :: "string \<Rightarrow> string \<Rightarrow> string \<Rightarrow> edge \<Rightarrow> bool" where
  "same_edge rel src tgt e = (ed_rel_type e = rel \<and> ed_source_id e = src \<and> ed_target_id e = tgt)"

definition dict_merge :: "('k, 'v) dict \<Rightarrow> ('k, 'v) dict \<Rightarrow> ('k, 'v) dict" where
  "dict_merge d upd = foldl (\<lambda>d (k, v). AList.update k v d) d upd"

fun update_first :: "('a \<Rightarrow> bool) \<Rightarrow> ('a \<Rightarrow> 'a) \<Rightarrow> 'a list \<Rightarrow> 'a list option" where
  "update_first P f [] = None"
| "update_first P f (x # xs) = (if P x then Some (f x # xs) else map_option ((#) x) (update_first P f xs))"

definition put_edge ::
    "string \<Rightarrow> string \<Rightarrow> string \<Rightarrow> pydict \<Rightarrow> string option \<Rightarrow> string option \<Rightarrow> tgraph \<Rightarrow> tgraph" where
  "put_edge rel_type source_id target_id properties source_label target_label = (\<lambda>(ns, es).
     let ns = ensure_node target_label target_id (ensure_node source_label source_id ns);
         rel = str_upper rel_type
     in (ns, case update_first (same_edge rel source_id target_id)
                    (\<lambda>e. e\<lparr>ed_properties := dict_merge (ed_properties e) properties\<rparr>) es of
               Some es' \<Rightarrow> es'
             | None \<Rightarrow> es @ [\<lparr>ed_rel_type = rel, ed_source_id = source_id, ed_target_id = target_id,
                 ed_properties = properties, ed_source_label = source_label, ed_target_label = target_label\<rparr>]))"

definition involves :: "string \<Rightarrow> edge \<Rightarrow> bool" where
  "involves i e = (ed_source_id e = i \<or> ed_target_id e = i)"

definition drop_node :: "string \<Rightarrow> tgraph \<Rightarrow> tgraph" where
  "drop_node source_id = (\<lambda>(ns, es).
     if map_of ns source_id \<noteq> None
     then (AList.delete source_id ns, filter (\<lambda>e. \<not> involves source_id e) es) else (ns, es))"

record merge_snapshot =
  ms_secondary_id :: string
  ms_secondary_node :: "node option"
  ms_original_edges :: "edge list"

definition redirect :: "string \<Rightarrow> string \<Rightarrow> edge \<Rightarrow> edge" where
  "redirect primary_id secondary_id e =
     e\<lparr>ed_source_id := (if ed_source_id e = secondary_id then primary_id else ed_source_id e),
       ed_target_id := (if ed_target_id e = secondary_id then primary_id else ed_target_id e)\<rparr>"

definition redirections :: "string \<Rightarrow> edge \<Rightarrow> nat" where
  "redirections secondary_id e = (if ed_source_id e = secondary_id then 1 else 0) +
     (if ed_target_id e = secondary_id then 1 else 0)"

definition merge_graph :: "string \<Rightarrow> string \<Rightarrow> tgraph \<Rightarrow> tgraph \<times> nat \<times> merge_snapshot" where
  "merge_graph primary_id secondary_id = (\<lambda>(ns, es).
     ((AList.delete secondary_id ns, map (redirect primary_id secondary_id) es),
      sum_list (map (redirections secondary_id) es),
      \<lparr>ms_secondary_id = secondary_id, ms_secondary_node = map_of ns secondary_id,
       ms_original_edges = filter (involves secondary_id) es\<rparr>))"

fun drop_first :: "('a \<Rightarrow> bool) \<Rightarrow> 'a list \<Rightarrow> 'a list" where
  "drop_first P [] = []"
| "drop_first P (x # xs) = (if P x then xs else x # drop_first P xs)"

definition restore_edge :: "string \<Rightarrow> string \<Rightarrow> edge list \<Rightarrow> edge \<Rightarrow> edge list" where
  "restore_edge primary_id secondary_id es orig =
     (let s = (if ed_source_id orig = secondary_id then primary_id else ed_source_id orig);
          t = (if ed_target_id orig = secondary_id then primary_id else ed_target_id orig)
      in drop_first (same_edge (ed_rel_type orig) s t) es @ [orig])"

definition split_graph :: "string \<Rightarrow> string \<Rightarrow> merge_snapshot option \<Rightarrow> tgraph \<Rightarrow> tgraph \<times> bool \<times> nat" where
  "split_graph primary_id secondary_id snapshot = (\<lambda>(ns, es).
     case snapshot of
       None \<Rightarrow> ((ns, es), False, 0)
     | Some snap \<Rightarrow>
         ((case ms_secondary_node snap of None \<Rightarrow> ns | Some n \<Rightarrow> AList.update secondary_id n ns,
           foldl (restore_edge primary_id secondary_id) es (ms_original_edges snap)),
          True, length (ms_original_edges snap)))"

subsection \<open>Traversal\<close>

definition rel_allowed :: "string list option \<Rightarrow> edge \<Rightarrow> bool" where
  "rel_allowed types e = (case types of None \<Rightarrow> True
     | Some [] \<Rightarrow> True | Some ts \<Rightarrow> ed_rel_type e \<in> set (map str_upper ts))"

text \<open>One edge of one layer: visited nodes, collected edges and the next layer.\<close>

definition visit_edge ::
    "string list option \<Rightarrow> string list \<Rightarrow> string list \<times> edge list \<times> string list \<Rightarrow> edge \<Rightarrow>
     string list \<times> edge list \<times> string list" where
  "visit_edge types layer = (\<lambda>(visited, collected, next) e.
     if \<not> rel_allowed types e then (visited, collected, next)
     else if ed_source_id e \<in> set layer
       then (if ed_target_id e \<in> set visited then (visited, collected @ [e], next)
             else (visited @ [ed_target_id e], collected @ [e], next @ [ed_target_id e]))
     else if ed_target_id e \<in> set layer
       then (if ed_source_id e \<in> set visited then (visited, collected @ [e], next)
             else (visited @ [ed_source_id e], collected @ [e], next @ [ed_source_id e]))
     else (visited, collected, next))"

fun traverse_layers ::
    "string list option \<Rightarrow> edge list \<Rightarrow> nat \<Rightarrow> string list \<Rightarrow> string list \<Rightarrow> edge list \<Rightarrow> string list \<times> edge list" where
  "traverse_layers types es 0 layer visited collected = (visited, collected)"
| "traverse_layers types es (Suc n) layer visited collected =
     (let (visited, collected, next) = foldl (visit_edge types layer) (visited, collected, []) es
      in if next = [] then (visited, collected)
         else traverse_layers types es n next visited collected)"

definition traverse_graph ::
    "(string list \<Rightarrow> string list) \<Rightarrow> string \<Rightarrow> string list option \<Rightarrow> nat \<Rightarrow> nat \<Rightarrow> tgraph \<Rightarrow> node list \<times> edge list" where
  "traverse_graph iter start types depth limit = (\<lambda>(ns, es).
     if map_of ns start = None then ([], [])
     else let (visited, collected) = traverse_layers types es depth [start] [start] []
          in (take limit (List.map_filter (map_of ns) (iter visited)), take limit collected))"

definition related_graph ::
    "(string list \<Rightarrow> string list) \<Rightarrow> string \<Rightarrow> nat \<Rightarrow> nat \<Rightarrow> string list option \<Rightarrow> tgraph \<Rightarrow> node list" where
  "related_graph iter node_id depth limit types g =
     filter (\<lambda>n. nd_source_id n \<noteq> node_id) (fst (traverse_graph iter node_id types depth limit g))"

definition prop_lower :: "node \<Rightarrow> string \<Rightarrow> string" where
  "prop_lower n k = str_lower (py_str (dict_get (nd_properties n) k (PStr [])))"

definition person_matches :: "string \<Rightarrow> string option \<Rightarrow> string option \<Rightarrow> node \<Rightarrow> bool" where
  "person_matches query department team n =
     (nd_label n = ''Person'' \<and>
      \<not> (opt_str department \<noteq> [] \<and> prop_lower n ''department'' \<noteq> str_lower (opt_str department)) \<and>
      \<not> (opt_str team \<noteq> [] \<and> prop_lower n ''team'' \<noteq> str_lower (opt_str team)) \<and>
      (contains (str_lower query) (prop_lower n ''display_name'') \<or>
       contains (str_lower query) (prop_lower n ''email'')))"

fun people_scan :: "(node \<Rightarrow> bool) \<Rightarrow> nat \<Rightarrow> node list \<Rightarrow> node list \<Rightarrow> node list" where
  "people_scan P limit results [] = results"
| "people_scan P limit results (n # ns) =
     (if P n then (if limit \<le> Suc (length results) then results @ [n]
                   else people_scan P limit (results @ [n]) ns)
      else people_scan P limit results ns)"

definition people_search_graph :: "string \<Rightarrow> string option \<Rightarrow> string option \<Rightarrow> nat \<Rightarrow> tgraph \<Rightarrow> node list" where
  "people_search_graph query department team limit = (\<lambda>(ns, es).
     people_scan (person_matches query department team) limit [] (map snd ns))"

definition count_edges_by_type :: "tgraph \<Rightarrow> (string, nat) dict" where
  "count_edges_by_type = (\<lambda>(ns, es).
     foldl (\<lambda>counts e. AList.update (ed_rel_type e) (dict_get counts (ed_rel_type e) 0 + 1) counts) [] es)"

definition list_node_ids :: "string option \<Rightarrow> tgraph \<Rightarrow> string list" where
  "list_node_ids label = (\<lambda>(ns, es).
     if opt_str label \<noteq> []
     then [i. (i, n) \<leftarrow> ns, nd_label n = opt_str label \<or> opt_str label \<in> set (nd_labels n)]
     else map fst ns)"

subsection \<open>The store\<close>

definition empty_graph :: graph_store where
  "empty_graph = \<lparr>gs_nodes = [], gs_edges = []\<rparr>"

definition ensure_tenant :: "string \<Rightarrow> graph_store \<Rightarrow> graph_store" where
  "ensure_tenant t s = s\<lparr>gs_nodes := dict_setdefault t [] (gs_nodes s), gs_edges := dict_setdefault t [] (gs_edges s)\<rparr>"

definition tenant_graph :: "string \<Rightarrow> graph_store \<Rightarrow> tgraph" where
  "tenant_graph t s = (dict_get (gs_nodes s) t [], dict_get (gs_edges s) t [])"

text \<open>Every mutating method makes sure the tenant exists and then rewrites its two entries.\<close>

definition on_tenant :: "string \<Rightarrow> (tgraph \<Rightarrow> tgraph) \<Rightarrow> graph_store \<Rightarrow> graph_store" where
  "on_tenant t f s =
     (let s = ensure_tenant t s; (ns, es) = f (tenant_graph t s)
      in s\<lparr>gs_nodes := AList.update t ns (gs_nodes s), gs_edges := AList.update t es (gs_edges s)\<rparr>)"

definition graph_clear_tenant :: "string \<Rightarrow> graph_store \<Rightarrow> graph_store" where
  "graph_clear_tenant t s = s\<lparr>gs_nodes := AList.update t [] (gs_nodes s), gs_edges := AList.update t [] (gs_edges s)\<rparr>"

definition upsert_node :: "string \<Rightarrow> string \<Rightarrow> string \<Rightarrow> pydict \<Rightarrow> graph_store \<Rightarrow> graph_store" where
  "upsert_node t label source_id properties = on_tenant t (put_node label source_id properties)"

definition upsert_edge ::
    "string \<Rightarrow> string \<Rightarrow> string \<Rightarrow> string \<Rightarrow> pydict \<Rightarrow> string option \<Rightarrow> string option \<Rightarrow> graph_store \<Rightarrow> graph_store" where
  "upsert_edge t rel_type source_id target_id properties source_label target_label =
     on_tenant t (put_edge rel_type source_id target_id properties source_label target_label)"

definition delete_node :: "string \<Rightarrow> string \<Rightarrow> graph_store \<Rightarrow> graph_store \<times> bool" where
  "delete_node t source_id s = (on_tenant t (drop_node source_id) s,
     map_of (fst (tenant_graph t s)) source_id \<noteq> None)"

definition merge_persons :: "string \<Rightarrow> string \<Rightarrow> string \<Rightarrow> graph_store \<Rightarrow> graph_store \<times> nat \<times> merge_snapshot" where
  "merge_persons t primary_id secondary_id s =
     (on_tenant t (\<lambda>g. fst (merge_graph primary_id secondary_id g)) s,
      snd (merge_graph primary_id secondary_id (tenant_graph t s)))"

definition split_persons ::
    "string \<Rightarrow> string \<Rightarrow> string \<Rightarrow> merge_snapshot option \<Rightarrow> graph_store \<Rightarrow> graph_store \<times> bool \<times> nat" where
  "split_persons t primary_id secondary_id snapshot s =
     (on_tenant t (\<lambda>g. fst (split_graph primary_id secondary_id snapshot g)) s,
      snd (split_graph primary_id secondary_id snapshot (tenant_graph t s)))"

definition get_edges_involving :: "string \<Rightarrow> string \<Rightarrow> graph_store \<Rightarrow> edge list" where
  "get_edges_involving t source_id s = filter (involves source_id) (snd (tenant_graph t s))"

definition traverse ::
    "(string list \<Rightarrow> string list) \<Rightarrow> string \<Rightarrow> string \<Rightarrow> string list option \<Rightarrow> nat \<Rightarrow> nat \<Rightarrow> graph_store \<Rightarrow>
     node list \<times> edge list" where
  "traverse iter t start types depth limit s = traverse_graph iter start types depth limit (tenant_graph t s)"

lemma tenant_graph_ensure [simp]: "tenant_graph t (ensure_tenant t' s) = tenant_graph t s"
  by (simp add: tenant_graph_def ensure_tenant_def dict_get_setdefault)

lemma tenant_graph_on [simp]:
  "tenant_graph t (on_tenant t' f s) = (if t = t' then f (tenant_graph t s) else tenant_graph t s)"
  by (cases "f (tenant_graph t' s)")
    (auto simp: on_tenant_def Let_def tenant_graph_def ensure_tenant_def dict_get_update dict_get_setdefault)

lemma tenant_graph_clear [simp]:
  "tenant_graph t (graph_clear_tenant t' s) = (if t = t' then ([], []) else tenant_graph t s)"
  by (simp add: tenant_graph_def graph_clear_tenant_def dict_get_update)

datatype graph_op = GNode string string string pydict
  | GEdge string string string string pydict "string option" "string option"
  | GDelete string string | GMerge string string string | GSplit string string string "merge_snapshot option"
  | GClear string

fun graph_tenant :: "graph_op \<Rightarrow> string" where
  "graph_tenant (GNode t l i ps) = t"
| "graph_tenant (GEdge t r a b ps la lb) = t"
| "graph_tenant (GDelete t i) = t"
| "graph_tenant (GMerge t p s) = t"
| "graph_tenant (GSplit t p s snap) = t"
| "graph_tenant (GClear t) = t"

fun graph_step :: "graph_store \<Rightarrow> graph_op \<Rightarrow> graph_store" where
  "graph_step s (GNode t l i ps) = upsert_node t l i ps s"
| "graph_step s (GEdge t r a b ps la lb) = upsert_edge t r a b ps la lb s"
| "graph_step s (GDelete t i) = fst (delete_node t i s)"
| "graph_step s (GMerge t p q) = fst (merge_persons t p q s)"
| "graph_step s (GSplit t p q snap) = fst (split_persons t p q snap s)"
| "graph_step s (GClear t) = graph_clear_tenant t s"

lemmas graph_op_defs = upsert_node_def upsert_edge_def delete_node_def merge_persons_def split_persons_def

interpretation graph: tenant_store graph_step graph_tenant tenant_graph
proof
  show "graph_tenant x \<noteq> t \<Longrightarrow> tenant_graph t (graph_step s x) = tenant_graph t s" for x t s
    by (cases x) (simp_all add: graph_op_defs)
  show "graph_tenant x = t \<Longrightarrow> tenant_graph t s = tenant_graph t s' \<Longrightarrow>
      tenant_graph t (graph_step s x) = tenant_graph t (graph_step s' x)" for x t s s'
    by (cases x) (simp_all add: graph_op_defs)
qed

text \<open>
  The graphs of two tenants are separate. After any interleaving of node, edge,
  delete, merge, split and clear operations, a traversal of a tenant's graph gives what it gives
  after that tenant's operations alone.
\<close>

theorem graph_isolates_tenants:
  "traverse iter t start types depth limit (foldl graph_step s ops) =
   traverse iter t start types depth limit (foldl graph_step s (filter (\<lambda>x. graph_tenant x = t) ops))"
  using graph.alone [of t s ops] by (simp add: traverse_def)

subsection \<open>The traversal is exact\<close>

definition adj :: "string list option \<Rightarrow> edge list \<Rightarrow> string \<Rightarrow> string \<Rightarrow> bool" where
  "adj types es a b \<longleftrightarrow> (\<exists>e \<in> set es. rel_allowed types e \<and>
     ((ed_source_id e = a \<and> ed_target_id e = b) \<or> (ed_target_id e = a \<and> ed_source_id e = b)))"

definition neighbours :: "string list option \<Rightarrow> edge list \<Rightarrow> string set \<Rightarrow> string set" where
  "neighbours types es X = {b. \<exists>a \<in> X. adj types es a b}"

lemma adj_Cons: "adj types (e # es) a b \<longleftrightarrow> adj types [e] a b \<or> adj types es a b"
  by (auto simp: adj_def)

lemma neighbours_Cons: "neighbours types (e # es) X = neighbours types [e] X \<union> neighbours types es X"
  by (auto simp: neighbours_def adj_Cons [of types e es])

lemma neighbours_Un: "neighbours types es (X \<union> Y) = neighbours types es X \<union> neighbours types es Y"
  by (auto simp: neighbours_def)

lemma neighbours_Nil [simp]: "neighbours types [] X = {}"
  by (simp add: neighbours_def adj_def)

lemma visit_edge_sets:
  assumes "visit_edge types layer (V, C, N) e = (V', C', N')" and "set layer \<subseteq> set V"
  shows "set V' = set V \<union> neighbours types [e] (set layer) \<and> set N' = set N \<union> (set V' - set V)"
  using assms by (auto simp: visit_edge_def neighbours_def adj_def split: if_splits)

lemma visit_edges_sets:
  "foldl (visit_edge types layer) (V, C, N) es = (V', C', N') \<Longrightarrow> set layer \<subseteq> set V \<Longrightarrow>
     set V' = set V \<union> neighbours types es (set layer) \<and> set N' = set N \<union> (set V' - set V)"
proof (induction es arbitrary: V C N)
  case (Cons e es)
  obtain V1 C1 N1 where 1: "visit_edge types layer (V, C, N) e = (V1, C1, N1)" by (metis prod_cases3)
  from visit_edge_sets [OF 1 Cons.prems(2)] have s1: "set V1 = set V \<union> neighbours types [e] (set layer)"
    "set N1 = set N \<union> (set V1 - set V)" by blast+
  from Cons.IH [of V1 C1 N1] Cons.prems 1 s1 have "set V' = set V1 \<union> neighbours types es (set layer)"
    "set N' = set N1 \<union> (set V' - set V1)" by auto
  with s1 show ?case unfolding neighbours_Cons [of types e es] by blast
qed simp

definition grow :: "string list option \<Rightarrow> edge list \<Rightarrow> string set \<Rightarrow> string set" where
  "grow types es X = X \<union> neighbours types es X"

lemma traverse_layers_grow:
  "set layer \<subseteq> set V \<Longrightarrow> neighbours types es (set V - set layer) \<subseteq> set V \<Longrightarrow>
     set (fst (traverse_layers types es n layer V C)) = (grow types es ^^ n) (set V)"
proof (induction n arbitrary: layer V C)
  case (Suc n)
  obtain V1 C1 N1 where f: "foldl (visit_edge types layer) (V, C, []) es = (V1, C1, N1)" by (metis prod_cases3)
  from visit_edges_sets [OF f Suc.prems(1)] have V1: "set V1 = set V \<union> neighbours types es (set layer)"
    and N1: "set N1 = set V1 - set V" by auto
  have "neighbours types es (set V) = neighbours types es (set V - set layer) \<union> neighbours types es (set layer)"
    using Suc.prems(1) by (metis Diff_partition Un_commute neighbours_Un)
  with Suc.prems(2) V1 have g: "grow types es (set V) = set V1" by (auto simp: grow_def)
  have stay: "(grow types es ^^ n) X = X" if "grow types es X = X" for X n
    using that by (induction n) simp_all
  show ?case
  proof (cases "N1 = []")
    case True
    then have "set V1 = set V" using N1 V1 by auto
    with g stay [of "set V" "Suc n"] have "(grow types es ^^ Suc n) (set V) = set V1" by simp
    with f True show ?thesis by simp
  next
    case False
    have "set V1 - set N1 = set V" using N1 V1 by auto
    then have "neighbours types es (set V1 - set N1) \<subseteq> set V1" using g by (auto simp: grow_def)
    with Suc.IH [of N1 V1 C1] N1 have "set (fst (traverse_layers types es n N1 V1 C1)) = (grow types es ^^ n) (set V1)"
      by simp
    with f False g show ?thesis by (simp add: funpow_Suc_right del: funpow.simps)
  qed
qed simp

lemma grow_paths: "(grow types es ^^ n) {a} = {b. \<exists>k \<le> n. (adj types es ^^ k) a b}"
proof (induction n)
  case (Suc n)
  have "b \<in> grow types es {b. \<exists>k \<le> n. (adj types es ^^ k) a b} \<longleftrightarrow> (\<exists>k \<le> Suc n. (adj types es ^^ k) a b)" for b
  proof
    assume "b \<in> grow types es {b. \<exists>k \<le> n. (adj types es ^^ k) a b}"
    then show "\<exists>k \<le> Suc n. (adj types es ^^ k) a b"
      unfolding grow_def neighbours_def by (auto intro: le_SucI) (meson Suc_le_mono relpowp_Suc_I)
  next
    assume "\<exists>k \<le> Suc n. (adj types es ^^ k) a b"
    then obtain k where k: "k \<le> Suc n" "(adj types es ^^ k) a b" by blast
    show "b \<in> grow types es {b. \<exists>k \<le> n. (adj types es ^^ k) a b}"
    proof (cases k)
      case 0
      with k show ?thesis by (auto simp: grow_def intro!: exI [of _ 0])
    next
      case (Suc m)
      with k(2) obtain c where "(adj types es ^^ m) a c" "adj types es c b" by (auto elim: relpowp_Suc_E)
      with k(1) Suc show ?thesis by (auto simp: grow_def neighbours_def)
    qed
  qed
  with Suc show ?case by auto
qed auto

text \<open>
  Property C12: the traversal is a bounded reachability search. Its nodes are the first
  \<open>limit\<close> of a list whose members are exactly the stored nodes at most \<open>depth\<close> allowed edges away
  from the start, along edges in either direction; the search ends on cyclic graphs.
\<close>

theorem traversal_is_bounded_reachability:
  assumes "\<And>xs. set (iter xs) = set xs" and "map_of ns start \<noteq> None"
  shows "\<exists>full. fst (traverse_graph iter start types depth limit (ns, es)) = take limit full \<and>
     set full = {n. \<exists>i. \<exists>k \<le> depth. (adj types es ^^ k) start i \<and> map_of ns i = Some n}"
proof -
  obtain V C where t: "traverse_layers types es depth [start] [start] [] = (V, C)" by fastforce
  have "set (fst (traverse_layers types es depth [start] [start] [])) = (grow types es ^^ depth) {start}"
    using traverse_layers_grow [of "[start]" "[start]" types es depth "[]"] by (simp add: neighbours_def)
  then have V: "set V = {b. \<exists>k \<le> depth. (adj types es ^^ k) start b}" by (simp add: t grow_paths)
  have "fst (traverse_graph iter start types depth limit (ns, es)) = take limit (List.map_filter (map_of ns) (iter V))"
    using assms(2) by (auto simp: traverse_graph_def t)
  moreover have "set (List.map_filter (map_of ns) (iter V)) =
      {n. \<exists>i. \<exists>k \<le> depth. (adj types es ^^ k) start i \<and> map_of ns i = Some n}"
    by (auto simp: List.map_filter_def assms(1) V image_iff) force+
  ultimately show ?thesis by blast
qed

definition demo_edge :: "string \<Rightarrow> string \<Rightarrow> pydict \<Rightarrow> edge" where
  "demo_edge a b ps = \<lparr>ed_rel_type = ''KNOWS'', ed_source_id = a, ed_target_id = b, ed_properties = ps,
     ed_source_label = None, ed_target_label = None\<rparr>"

definition demo_tgraph :: tgraph where
  "demo_tgraph = (map (\<lambda>i. (i, stub_node None i)) [''a'', ''b'', ''c'', ''d''],
     [demo_edge ''a'' ''b'' [], demo_edge ''c'' ''b'' [], demo_edge ''c'' ''d'' [], demo_edge ''d'' ''a'' []])"

theorem traversal_is_bounded_reachability_witness:
  "\<exists>full. fst (traverse_graph id ''a'' None 1 10 demo_tgraph) = take 10 full \<and>
     set full = {stub_node None ''a'', stub_node None ''b'', stub_node None ''d''}"
proof -
  obtain ns es where g: "demo_tgraph = (ns, es)" by fastforce
  have start: "map_of ns ''a'' \<noteq> None" using g by (auto simp: demo_tgraph_def)
  obtain full where f: "fst (traverse_graph id ''a'' None 1 10 (ns, es)) = take 10 full"
    "set full = {n. \<exists>i. \<exists>k \<le> 1. (adj None es ^^ k) ''a'' i \<and> map_of ns i = Some n}"
    using traversal_is_bounded_reachability [of id, OF _ start, of None 1 10 es] by auto
  have "{b. \<exists>k \<le> 1. (adj None es ^^ k) ''a'' b} = {''a''} \<union> {b. adj None es ''a'' b}"
    unfolding grow_paths [symmetric] by (simp add: grow_def neighbours_def)
  moreover have "{b. adj None es ''a'' b} = {''b'', ''d''}"
  proof -
    have es: "es = [demo_edge ''a'' ''b'' [], demo_edge ''c'' ''b'' [], demo_edge ''c'' ''d'' [], demo_edge ''d'' ''a'' []]"
      using g by (simp add: demo_tgraph_def)
    have "adj None es ''a'' b \<longleftrightarrow> b = ''b'' \<or> b = ''d''" for b
      unfolding es adj_def by (simp add: demo_edge_def rel_allowed_def) blast
    then show ?thesis by blast
  qed
  ultimately have r: "{b. \<exists>k \<le> 1. (adj None es ^^ k) ''a'' b} = {''a'', ''b'', ''d''}" by auto
  have ns: "map_of ns ''a'' = Some (stub_node None ''a'')" "map_of ns ''b'' = Some (stub_node None ''b'')"
    "map_of ns ''d'' = Some (stub_node None ''d'')" using g by (auto simp: demo_tgraph_def)
  have "set full = {n. \<exists>i \<in> {''a'', ''b'', ''d''}. map_of ns i = Some n}"
    unfolding f(2) r [symmetric] by blast
  then have "set full = {stub_node None ''a'', stub_node None ''b'', stub_node None ''d''}"
    using ns by auto
  with f(1) show ?thesis unfolding g by blast
qed

text \<open>
  A traversal of depth two reports the relationships of the first layer twice: an
  edge between two layers is collected from both of its ends.
\<close>

theorem traversal_repeats_relationships:
  "snd (traverse_graph id ''a'' None 2 10
     (map (\<lambda>i. (i, stub_node None i)) [''a'', ''b''], [demo_edge ''a'' ''b'' []])) =
   [demo_edge ''a'' ''b'' [], demo_edge ''a'' ''b'' []]"
  by code_simp

subsection \<open>Merging and splitting persons\<close>

definition edge_key :: "edge \<Rightarrow> string \<times> string \<times> string" where
  "edge_key e = (ed_rel_type e, ed_source_id e, ed_target_id e)"

lemma same_edge_key: "same_edge (ed_rel_type o1) (ed_source_id o1) (ed_target_id o1) e \<longleftrightarrow> edge_key e = edge_key o1"
  by (auto simp: same_edge_def edge_key_def)

lemma mset_drop_first:
  "x \<in> set xs \<Longrightarrow> P x \<Longrightarrow> (\<And>y. y \<in> set xs \<Longrightarrow> P y \<Longrightarrow> y = x) \<Longrightarrow> mset (drop_first P xs) = mset xs - {#x#}"
proof (induction xs)
  case (Cons y ys)
  show ?case
  proof (cases "P y")
    case True
    with Cons.prems(3) [of y] have "y = x" by simp
    with True show ?thesis by simp
  next
    case False
    then have yx: "y \<noteq> x" using Cons.prems(2) by blast
    then have "mset (drop_first P ys) = mset ys - {#x#}"
      using Cons.prems by (intro Cons.IH) auto
    with False yx show ?thesis by (simp add: diff_add_mset_swap)
  qed
qed simp

lemma restore_edge_eq:
  "restore_edge p q es o1 = drop_first (\<lambda>e. edge_key e = edge_key (redirect p q o1)) es @ [o1]"
  unfolding restore_edge_def Let_def same_edge_def edge_key_def redirect_def by simp

lemma key_redirect_no_secondary:
  "p \<noteq> q \<Longrightarrow> involves q o1 \<Longrightarrow> edge_key o1 \<noteq> edge_key (redirect p q o2)"
  by (auto simp: involves_def edge_key_def redirect_def)

lemma restore_edges:
  assumes "p \<noteq> q" and "\<forall>o1 \<in> set os. involves q o1"
    and "mset cur = mset (map (redirect p q) (os @ rest)) + mset fin" and "\<forall>e \<in> set fin. involves q e"
    and "distinct (map (\<lambda>e. edge_key (redirect p q e)) (os @ rest))"
  shows "mset (foldl (restore_edge p q) cur os) = mset os + mset (map (redirect p q) rest) + mset fin"
  using assms
proof (induction os arbitrary: cur fin)
  case (Cons o1 os)
  let ?P = "\<lambda>e. edge_key e = edge_key (redirect p q o1)"
  have cur: "set cur = set (map (redirect p q) (o1 # os @ rest)) \<union> set fin"
    using arg_cong [OF Cons.prems(3), of set_mset] by auto
  have uniq: "y = redirect p q o1" if "y \<in> set cur" "?P y" for y
  proof -
    have "y \<notin> set fin"
      using that(2) Cons.prems(4) key_redirect_no_secondary [OF Cons.prems(1), of y o1] by auto
    with that(1) cur obtain e where e: "e \<in> set (o1 # os @ rest)" "y = redirect p q e" by auto
    with that(2) Cons.prems(5) have "e = o1" by (auto dest: sym)
    with e show ?thesis by simp
  qed
  have "mset (restore_edge p q cur o1) = mset cur - {#redirect p q o1#} + {#o1#}"
    unfolding restore_edge_eq using mset_drop_first [of "redirect p q o1" cur ?P] cur uniq by simp
  also have "\<dots> = mset (map (redirect p q) (os @ rest)) + mset (fin @ [o1])"
    using Cons.prems(3) by simp
  finally have "mset (foldl (restore_edge p q) (restore_edge p q cur o1) os) =
      mset os + mset (map (redirect p q) rest) + mset (fin @ [o1])"
    using Cons.prems by (intro Cons.IH) auto
  then show ?case by simp
qed simp

lemma redirect_uninvolved: "\<not> involves q e \<Longrightarrow> redirect p q e = e"
  by (simp add: involves_def redirect_def)

lemma distinct_map_mset: "mset xs = mset ys \<Longrightarrow> distinct (map f xs) = distinct (map f ys)"
  by (metis mset_eq_imp_distinct_iff mset_map)

text \<open>
  Splitting undoes merging. When redirecting the edges of the secondary person to the
  primary makes no two edges parallel, splitting with the snapshot of the merge gives back the
  same nodes and the same edges (as a bag: restored edges move to the end).
\<close>

theorem split_undoes_merge:
  assumes "p \<noteq> q" and "distinct (map (\<lambda>e. edge_key (redirect p q e)) es)"
    and "merge_graph p q (ns, es) = (g, n, snap)" and "split_graph p q (Some snap) g = ((ns', es'), ok)"
  shows "map_of ns' = map_of ns \<and> mset es' = mset es \<and> ok = (True, length (filter (involves q) es))"
proof -
  let ?os = "filter (involves q) es" and ?rest = "filter (\<lambda>e. \<not> involves q e) es"
  have snap: "g = (AList.delete q ns, map (redirect p q) es)" "ms_secondary_node snap = map_of ns q"
    "ms_original_edges snap = ?os"
    using assms(3) by (auto simp: merge_graph_def)
  have es': "es' = foldl (restore_edge p q) (map (redirect p q) es) ?os"
    and ns': "ns' = (case map_of ns q of None \<Rightarrow> AList.delete q ns | Some x \<Rightarrow> AList.update q x (AList.delete q ns))"
    and ok: "ok = (True, length ?os)"
    using assms(4) by (auto simp: split_graph_def snap)
  have parts: "mset (?os @ ?rest) = mset es" by simp
  have "mset es' = mset ?os + mset (map (redirect p q) ?rest) + mset []"
    unfolding es'
  proof (rule restore_edges [OF assms(1)])
    show "mset (map (redirect p q) es) = mset (map (redirect p q) (?os @ ?rest)) + mset []"
      using parts by (metis add.right_neutral mset.simps(1) mset_map)
    show "distinct (map (\<lambda>e. edge_key (redirect p q e)) (?os @ ?rest))"
      using assms(2) distinct_map_mset [OF parts] by blast
  qed auto
  also have "map (redirect p q) ?rest = ?rest"
    by (intro map_idI) (simp add: redirect_uninvolved)
  finally have "mset es' = mset es" using parts by simp
  moreover have "map_of ns' = map_of ns"
    by (auto simp: ns' map_of_update map_of_delete fun_eq_iff split: option.splits)
  ultimately show ?thesis using ok by blast
qed

theorem split_undoes_merge_witness:
  "(let (g, n, snap) = merge_graph ''a'' ''d'' demo_tgraph;
        ((ns', es'), ok) = split_graph ''a'' ''d'' (Some snap) g
    in n = 2 \<and> map_of ns' ''d'' = map_of (fst demo_tgraph) ''d'' \<and> mset es' = mset (snd demo_tgraph))"
proof -
  obtain ns es where d: "demo_tgraph = (ns, es)" by fastforce
  obtain g n snap where m: "merge_graph ''a'' ''d'' demo_tgraph = (g, n, snap)" by (metis prod_cases3)
  obtain ns' es' ok where sp: "split_graph ''a'' ''d'' (Some snap) g = ((ns', es'), ok)" by (metis surj_pair)
  have "fst (snd (merge_graph ''a'' ''d'' demo_tgraph)) = 2" by code_simp
  then have n: "n = 2" by (simp add: m)
  have keys: "distinct (map (\<lambda>e. edge_key (redirect ''a'' ''d'' e)) (snd demo_tgraph))" by code_simp
  from split_undoes_merge [OF _ keys [unfolded d snd_conv] m [unfolded d] sp] have
    "map_of ns' = map_of ns \<and> mset es' = mset es" by simp
  with n show ?thesis by (simp add: m [unfolded d] sp d)
qed

text \<open>
  With parallel edges the undoing loses data. When both persons are connected to the
  same node, the split removes the primary's own edge in place of the redirected one: the primary
  is left with the properties of the secondary's edge.
\<close>

theorem split_loses_parallel_edges:
  "(let es = [demo_edge ''p'' ''x'' [(''w'', PInt 1)], demo_edge ''q'' ''x'' [(''w'', PInt 2)]];
        (g, n, snap) = merge_graph ''p'' ''q'' ([], es);
        ((ns', es'), ok) = split_graph ''p'' ''q'' (Some snap) g
    in es' = [demo_edge ''p'' ''x'' [(''w'', PInt 2)], demo_edge ''q'' ''x'' [(''w'', PInt 2)]])"
  by code_simp

end
