(* ===== verification/Signals.thy ===== *)
theory Signals
  imports Tenancy Core_Models "HOL-Library.List_Lexorder" "HOL-Library.Char_ord"
begin

text \<open>
  Activity signals (\<open>backend/app/services/signals/mock_store.py\<close> over \<open>app/models/activity.py\<close>): the
  append-only events of a tenant with their time-to-live, the recomputed user signals, the document
  popularity behind a privacy threshold, the response cache and the purge. Times are seconds; the
  clock is an argument. The popularity score, a floating-point logarithm, is a parameter.
\<close>

record activity_event =
  av_event_id :: string
  av_actor :: string
  av_object :: string
  av_type :: string
  av_source :: string
  av_time :: instant
  av_session :: "string option"
  av_context :: "pydict option"
  av_privacy :: string
  av_ttl :: "int option"

record activity_config =
  ac_tenant_id :: string
  ac_privacy_threshold :: int
  ac_retention_days :: int
  ac_high_privacy_days :: int
  ac_disablement :: bool
  ac_disabled_sources :: "string list"

record stored_event =
  se_event_id :: string
  se_tenant_id :: string
  se_actor :: string
  se_object :: string
  se_type :: string
  se_source :: string
  se_time :: instant
  se_session :: "string option"
  se_context :: "pydict option"
  se_privacy :: string
  se_ttl :: int
  se_ingested :: instant

record user_signals =
  us_last_active :: "instant option"
  us_top_viewed :: "string list"
  us_top_edited :: "string list"
  us_authored :: "string list"
  us_collaborators :: "string list"
  us_sources :: "string list"
  us_heatmap :: "(int, nat) dict"      \<comment> \<open>by day since the epoch\<close>
  us_counts :: "(string, nat) dict"

record user_response =
  ur_user_id :: string
  ur_tenant_id :: string
  ur_signals :: user_signals
  ur_updated_at :: instant
  ur_freshness :: "int option"

record 'p doc_response =
  dr_document_id :: string
  dr_tenant_id :: string
  dr_protected :: bool
  dr_score :: "'p option"
  dr_views :: "nat option"
  dr_viewers :: "nat option"
  dr_last_viewed :: "instant option"
  dr_updated_at :: instant
  dr_window_days :: int

record purge_result =
  pr_purged_events :: nat
  pr_tenants_touched :: "string list"
  pr_aggregates_rebuilt :: nat

datatype 'p payload = UserPayload user_response | DocPayload "'p doc_response"

record 'p activity_store =
  as_events :: "(string, (string, stored_event) dict) dict"
  as_configs :: "(string, activity_config) dict"
  as_user_cache :: "(string, (string, user_response) dict) dict"
  as_response_cache :: "(string \<times> string \<times> string, instant \<times> 'p payload) dict"
  as_lag_samples :: "int list"
  as_ingest_count :: nat
  as_dup_count :: nat

definition empty_activity :: "'p activity_store" where
  "empty_activity = \<lparr>as_events = [], as_configs = [], as_user_cache = [], as_response_cache = [],
     as_lag_samples = [], as_ingest_count = 0, as_dup_count = 0\<rparr>"

record signal_settings =
  st_privacy_threshold :: int
  st_retention_days :: int
  st_high_privacy_days :: int
  st_popularity_window_days :: int

subsection \<open>Counters\<close>

definition counter :: "'k list \<Rightarrow> ('k, nat) dict" where
  "counter xs = foldl (\<lambda>d x. AList.update x (dict_get d x 0 + 1) d) [] xs"

definition most_common :: "nat \<Rightarrow> ('k, nat) dict \<Rightarrow> 'k list" where
  "most_common n d = map fst (take n (sort_desc snd d))"

subsection \<open>Events\<close>

definition ttl_for_event :: "activity_event \<Rightarrow> activity_config \<Rightarrow> int" where
  "ttl_for_event ev config =
     (case av_ttl ev of
        Some t \<Rightarrow> if 0 < t then t
                  else if av_privacy ev \<in> {''restricted'', ''confidential''}
                       then ac_high_privacy_days config * 86400 else ac_retention_days config * 86400
      | None \<Rightarrow> if av_privacy ev \<in> {''restricted'', ''confidential''}
                then ac_high_privacy_days config * 86400 else ac_retention_days config * 86400)"

definition default_config :: "signal_settings \<Rightarrow> string \<Rightarrow> activity_config" where
  "default_config st tenant_id =
     \<lparr>ac_tenant_id = tenant_id, ac_privacy_threshold = st_privacy_threshold st,
      ac_retention_days = st_retention_days st, ac_high_privacy_days = st_high_privacy_days st,
      ac_disablement = False, ac_disabled_sources = []\<rparr>"

definition act_ensure_tenant ::
    "signal_settings \<Rightarrow> string \<Rightarrow> activity_config option \<Rightarrow> 'p activity_store \<Rightarrow> 'p activity_store" where
  "act_ensure_tenant st tenant_id config s =
     s\<lparr>as_configs := (case map_of (as_configs s) tenant_id of
          None \<Rightarrow> AList.update tenant_id (case config of Some c \<Rightarrow> c | None \<Rightarrow> default_config st tenant_id) (as_configs s)
        | Some _ \<Rightarrow> (case config of Some c \<Rightarrow> AList.update tenant_id c (as_configs s) | None \<Rightarrow> as_configs s)),
       as_events := dict_setdefault tenant_id [] (as_events s),
       as_user_cache := dict_setdefault tenant_id [] (as_user_cache s)\<rparr>"

definition config_of :: "signal_settings \<Rightarrow> string \<Rightarrow> 'p activity_store \<Rightarrow> activity_config" where
  "config_of st tenant_id s = dict_get (as_configs s) tenant_id (default_config st tenant_id)"

definition get_config :: "signal_settings \<Rightarrow> string \<Rightarrow> 'p activity_store \<Rightarrow> activity_config \<times> 'p activity_store" where
  "get_config st tenant_id s =
     (let s = act_ensure_tenant st tenant_id None s in (config_of st tenant_id s, s))"

definition invalidate_tenant_cache :: "string \<Rightarrow> 'p activity_store \<Rightarrow> 'p activity_store" where
  "invalidate_tenant_cache tenant_id s =
     s\<lparr>as_response_cache := filter (\<lambda>(k, _). fst k \<noteq> tenant_id) (as_response_cache s)\<rparr>"

definition set_config :: "activity_config \<Rightarrow> 'p activity_store \<Rightarrow> 'p activity_store" where
  "set_config config s = invalidate_tenant_cache (ac_tenant_id config)
     (s\<lparr>as_configs := AList.update (ac_tenant_id config) config (as_configs s)\<rparr>)"

definition cache_get ::
    "string \<Rightarrow> string \<Rightarrow> string \<Rightarrow> instant \<Rightarrow> 'p activity_store \<Rightarrow> 'p payload option \<times> 'p activity_store" where
  "cache_get tenant_id kind key now s =
     (case map_of (as_response_cache s) (tenant_id, kind, key) of
        None \<Rightarrow> (None, s)
      | Some (expires, payload) \<Rightarrow>
          if expires < now
          then (None, s\<lparr>as_response_cache := AList.delete (tenant_id, kind, key) (as_response_cache s)\<rparr>)
          else (Some payload, s))"

definition cache_set ::
    "string \<Rightarrow> string \<Rightarrow> string \<Rightarrow> 'p payload \<Rightarrow> instant \<Rightarrow> 'p activity_store \<Rightarrow> 'p activity_store" where
  "cache_set tenant_id kind key payload now s =
     s\<lparr>as_response_cache := AList.update (tenant_id, kind, key) (now + 60, payload) (as_response_cache s)\<rparr>"

definition tenant_events :: "string \<Rightarrow> 'p activity_store \<Rightarrow> stored_event list" where
  "tenant_events tenant_id s = map snd (bucket (as_events s) tenant_id)"

definition live :: "instant \<Rightarrow> stored_event \<Rightarrow> bool" where
  "live now ev = (now < se_ingested ev + se_ttl ev)"

definition active_events :: "string \<Rightarrow> instant \<Rightarrow> 'p activity_store \<Rightarrow> stored_event list" where
  "active_events tenant_id now s = filter (live now) (tenant_events tenant_id s)"

definition get_event :: "string \<Rightarrow> string \<Rightarrow> 'p activity_store \<Rightarrow> stored_event option" where
  "get_event tenant_id event_id s = map_of (bucket (as_events s) tenant_id) event_id"

definition list_events ::
    "string \<Rightarrow> string option \<Rightarrow> string option \<Rightarrow> bool \<Rightarrow> instant \<Rightarrow> 'p activity_store \<Rightarrow> stored_event list" where
  "list_events tenant_id object_id actor_id include_expired now s =
     filter (\<lambda>ev. \<not> (opt_str object_id \<noteq> [] \<and> se_object ev \<noteq> opt_str object_id) \<and>
                  \<not> (opt_str actor_id \<noteq> [] \<and> se_actor ev \<noteq> opt_str actor_id) \<and>
                  (include_expired \<or> live now ev)) (tenant_events tenant_id s)"

subsection \<open>User signals\<close>

definition max_time :: "instant list \<Rightarrow> instant option" where
  "max_time ts = foldl (\<lambda>m t. case m of None \<Rightarrow> Some t | Some x \<Rightarrow> if x < t then Some t else Some x) None ts"

definition objects_of_type :: "string \<Rightarrow> stored_event list \<Rightarrow> string list" where
  "objects_of_type ty evs = map se_object (filter (\<lambda>e. se_type e = ty) evs)"

definition user_signals_of :: "string \<Rightarrow> stored_event list \<Rightarrow> user_signals" where
  "user_signals_of user_id active =
     (let evs = sort_desc se_time (filter (\<lambda>e. se_actor e = user_id) active);
          collab = filter (\<lambda>e. se_object e \<in> set (map se_object evs) \<and> se_actor e \<noteq> user_id) active
      in \<lparr>us_last_active = max_time (map se_time evs),
          us_top_viewed = most_common 10 (counter (objects_of_type ''view'' evs)),
          us_top_edited = most_common 10 (counter (objects_of_type ''edit'' evs)),
          us_authored = sort (dedup (objects_of_type ''authored'' evs)),
          us_collaborators = most_common 10 (counter (map se_actor collab)),
          us_sources = most_common 5 (counter (map se_source evs)),
          us_heatmap = counter (map (\<lambda>e. se_time e div 86400) evs),
          us_counts = counter (map se_type evs)\<rparr>)"

definition recompute_user ::
    "string \<Rightarrow> string \<Rightarrow> instant \<Rightarrow> 'p activity_store \<Rightarrow> user_response \<times> 'p activity_store" where
  "recompute_user tenant_id user_id now s =
     (let resp = \<lparr>ur_user_id = user_id, ur_tenant_id = tenant_id,
                  ur_signals = user_signals_of user_id (active_events tenant_id now s),
                  ur_updated_at = now, ur_freshness = Some 0\<rparr>
      in (resp, s\<lparr>as_user_cache := AList.update tenant_id
            (AList.update user_id resp (bucket (as_user_cache s) tenant_id)) (as_user_cache s)\<rparr>))"

subsection \<open>Ingest\<close>

definition stored_of :: "string \<Rightarrow> activity_event \<Rightarrow> activity_config \<Rightarrow> instant \<Rightarrow> stored_event" where
  "stored_of tenant_id ev config now =
     \<lparr>se_event_id = av_event_id ev, se_tenant_id = tenant_id, se_actor = av_actor ev, se_object = av_object ev,
      se_type = av_type ev, se_source = av_source ev, se_time = av_time ev, se_session = av_session ev,
      se_context = av_context ev, se_privacy = av_privacy ev, se_ttl = ttl_for_event ev config,
      se_ingested = now\<rparr>"

definition add_lag :: "int \<Rightarrow> int list \<Rightarrow> int list" where
  "add_lag lag samples =
     (let samples = samples @ [lag]
      in if 5000 < length samples then drop (length samples - 2500) samples else samples)"

definition ingest_event ::
    "signal_settings \<Rightarrow> string \<Rightarrow> activity_event \<Rightarrow> instant \<Rightarrow> 'p activity_store \<Rightarrow> (exn + string) \<times> 'p activity_store" where
  "ingest_event st tenant_id ev now s =
     (let s = act_ensure_tenant st tenant_id None s;
          (config, s) = get_config st tenant_id s
      in if ac_disablement config \<and> av_source ev \<in> set (ac_disabled_sources config)
         then (Inl (Raised ''ValueError''), s)
         else if map_of (bucket (as_events s) tenant_id) (av_event_id ev) \<noteq> None
         then (Inr ''already_processed'', s\<lparr>as_dup_count := Suc (as_dup_count s)\<rparr>)
         else
           let stored = stored_of tenant_id ev config now;
               s = s\<lparr>as_events := AList.update tenant_id
                       (AList.update (av_event_id ev) stored (bucket (as_events s) tenant_id)) (as_events s),
                     as_ingest_count := Suc (as_ingest_count s),
                     as_lag_samples := add_lag (max 0 (now - se_time stored)) (as_lag_samples s)\<rparr>;
               s = snd (recompute_user tenant_id (av_actor ev) now s)
           in (Inr ''ingested'', invalidate_tenant_cache tenant_id s))"

definition get_user_signals ::
    "signal_settings \<Rightarrow> string \<Rightarrow> string \<Rightarrow> instant \<Rightarrow> 'p activity_store \<Rightarrow> user_response option \<times> 'p activity_store" where
  "get_user_signals st tenant_id user_id now s =
     (let s = act_ensure_tenant st tenant_id None s;
          (cached, s) = cache_get tenant_id ''user'' user_id now s
      in case cached of
           Some (UserPayload r) \<Rightarrow> (Some r, s)
         | Some (DocPayload _) \<Rightarrow> (None, s)      \<comment> \<open>never stored under this kind\<close>
         | None \<Rightarrow>
             let (resp, s) = recompute_user tenant_id user_id now s;
                 ingests = map se_ingested (filter (\<lambda>e. se_actor e = user_id) (active_events tenant_id now s));
                 resp = resp\<lparr>ur_freshness := map_option (\<lambda>m. max 0 (now - m)) (max_time ingests)\<rparr>;
                 s = s\<lparr>as_user_cache := AList.update tenant_id
                       (AList.update user_id resp (bucket (as_user_cache s) tenant_id)) (as_user_cache s)\<rparr>
             in (Some resp, cache_set tenant_id ''user'' user_id (UserPayload resp) now s))"

subsection \<open>Document signals\<close>

definition document_events :: "signal_settings \<Rightarrow> string \<Rightarrow> string \<Rightarrow> instant \<Rightarrow> 'p activity_store \<Rightarrow> stored_event list" where
  "document_events st tenant_id document_id now s =
     filter (\<lambda>e. se_object e = document_id \<and> now - st_popularity_window_days st * 86400 \<le> se_time e)
       (active_events tenant_id now s)"

definition distinct_actors :: "stored_event list \<Rightarrow> nat" where
  "distinct_actors evs = length (dedup (map se_actor evs))"

definition document_response ::
    "(nat \<Rightarrow> 'p) \<Rightarrow> signal_settings \<Rightarrow> string \<Rightarrow> string \<Rightarrow> int \<Rightarrow> instant \<Rightarrow> 'p activity_store \<Rightarrow> 'p doc_response" where
  "document_response score st tenant_id document_id threshold now s =
     (let evs = document_events st tenant_id document_id now s;
          views = filter (\<lambda>e. se_type e = ''view'') evs
      in if int (distinct_actors evs) < threshold
         then \<lparr>dr_document_id = document_id, dr_tenant_id = tenant_id, dr_protected = True, dr_score = None,
               dr_views = None, dr_viewers = None, dr_last_viewed = None, dr_updated_at = now,
               dr_window_days = st_popularity_window_days st\<rparr>
         else \<lparr>dr_document_id = document_id, dr_tenant_id = tenant_id, dr_protected = False,
               dr_score = Some (score (length views)), dr_views = Some (length views),
               dr_viewers = Some (distinct_actors evs), dr_last_viewed = max_time (map se_time views),
               dr_updated_at = now, dr_window_days = st_popularity_window_days st\<rparr>)"

definition get_document_signals ::
    "(nat \<Rightarrow> 'p) \<Rightarrow> signal_settings \<Rightarrow> string \<Rightarrow> string \<Rightarrow> instant \<Rightarrow> 'p activity_store \<Rightarrow>
     'p doc_response option \<times> 'p activity_store" where
  "get_document_signals score st tenant_id document_id now s =
     (let s = act_ensure_tenant st tenant_id None s;
          (cached, s) = cache_get tenant_id ''doc'' document_id now s
      in case cached of
           Some (DocPayload r) \<Rightarrow> (Some r, s)
         | Some (UserPayload _) \<Rightarrow> (None, s)      \<comment> \<open>never stored under this kind\<close>
         | None \<Rightarrow>
             let (config, s) = get_config st tenant_id s;
                 resp = document_response score st tenant_id document_id (ac_privacy_threshold config) now s
             in (Some resp, cache_set tenant_id ''doc'' document_id (DocPayload resp) now s))"

subsection \<open>Purge, clear, recompute\<close>

text \<open>One tenant of the purge: its expired events go; if there were any, its caches are rebuilt.\<close>

definition purge_tenant :: "instant \<Rightarrow> 'p activity_store \<Rightarrow> string \<Rightarrow> 'p activity_store" where
  "purge_tenant now s tenant_id =
     (let events = bucket (as_events s) tenant_id;
          expired = [i. (i, ev) \<leftarrow> events, \<not> live now ev]
      in if expired = [] then s
         else
           let kept = foldl (\<lambda>d i. AList.delete i d) events expired;
               s = invalidate_tenant_cache tenant_id (s\<lparr>as_events := AList.update tenant_id kept (as_events s)\<rparr>);
               actors = dedup (map (\<lambda>(i, e). se_actor e) kept);
               s = foldl (\<lambda>s actor. snd (recompute_user tenant_id actor now s)) s actors
           in s\<lparr>as_user_cache := AList.update tenant_id
                  (filter (\<lambda>(uid, _). uid \<in> set actors) (bucket (as_user_cache s) tenant_id)) (as_user_cache s)\<rparr>)"

definition expired_count :: "instant \<Rightarrow> (string, stored_event) dict \<Rightarrow> nat" where
  "expired_count now events = length (filter (\<lambda>(i, ev). \<not> live now ev) events)"

definition purge_expired :: "instant \<Rightarrow> 'p activity_store \<Rightarrow> 'p activity_store \<times> purge_result" where
  "purge_expired now s =
     (let purged = sum_list (map (\<lambda>(t, events). expired_count now events) (as_events s))
      in (foldl (purge_tenant now) s (map fst (as_events s)),
          \<lparr>pr_purged_events = purged,
           pr_tenants_touched = sort (map fst (filter (\<lambda>(t, events). 0 < expired_count now events) (as_events s))),
           pr_aggregates_rebuilt = purged\<rparr>))"

definition act_clear_tenant :: "string \<Rightarrow> 'p activity_store \<Rightarrow> 'p activity_store" where
  "act_clear_tenant tenant_id s = invalidate_tenant_cache tenant_id
     (s\<lparr>as_events := AList.delete tenant_id (as_events s),
        as_user_cache := AList.delete tenant_id (as_user_cache s),
        as_configs := AList.delete tenant_id (as_configs s)\<rparr>)"

definition recompute_signals :: "signal_settings \<Rightarrow> string \<Rightarrow> instant \<Rightarrow> 'p activity_store \<Rightarrow> 'p activity_store" where
  "recompute_signals st tenant_id now s =
     (let s = act_ensure_tenant st tenant_id None s;
          actors = dedup (map se_actor (active_events tenant_id now s))
      in invalidate_tenant_cache tenant_id
           (foldl (\<lambda>s actor. snd (recompute_user tenant_id actor now s)) s actors))"

subsection \<open>Frame facts\<close>

lemma recompute_user_frame [simp]:
  "as_events (snd (recompute_user t u now s)) = as_events s"
  "as_configs (snd (recompute_user t u now s)) = as_configs s"
  "as_response_cache (snd (recompute_user t u now s)) = as_response_cache s"
  "as_dup_count (snd (recompute_user t u now s)) = as_dup_count s"
  by (simp_all add: recompute_user_def Let_def)

lemma recompute_users_frame [simp]:
  "as_events (foldl (\<lambda>s a. snd (recompute_user t a now s)) s as) = as_events s"
  "as_configs (foldl (\<lambda>s a. snd (recompute_user t a now s)) s as) = as_configs s"
  "as_response_cache (foldl (\<lambda>s a. snd (recompute_user t a now s)) s as) = as_response_cache s"
  by (induction as arbitrary: s) simp_all

lemma ensure_frame [simp]:
  "bucket (as_events (act_ensure_tenant st t None s)) t' = bucket (as_events s) t'"
  "config_of st t' (act_ensure_tenant st t None s) = config_of st t' s"
  "as_response_cache (act_ensure_tenant st t c s) = as_response_cache s"
  "as_dup_count (act_ensure_tenant st t c s) = as_dup_count s"
  by (auto simp: act_ensure_tenant_def config_of_def bucket_def dict_get_setdefault dict_get_update dict_get_def
      map_of_setdefault map_of_update split: option.splits)

lemma invalidate_frame [simp]:
  "as_events (invalidate_tenant_cache t s) = as_events s"
  "as_configs (invalidate_tenant_cache t s) = as_configs s"
  "as_dup_count (invalidate_tenant_cache t s) = as_dup_count s"
  by (simp_all add: invalidate_tenant_cache_def)

lemma tenant_events_cong: "bucket (as_events s) t = bucket (as_events s') t \<Longrightarrow> tenant_events t s = tenant_events t s'"
  by (simp add: tenant_events_def)

lemma config_of_cong: "as_configs s = as_configs s' \<Longrightarrow> config_of st t s = config_of st t s'"
  by (simp add: config_of_def)

lemma map_of_filter_key: "map_of (filter (\<lambda>(k, _). P k) d) k = (if P k then map_of d k else None)"
  by (induction d) auto

lemma invalidated: "map_of (as_response_cache (invalidate_tenant_cache t s)) (t', k, d) =
    (if t' = t then None else map_of (as_response_cache s) (t', k, d))"
  by (simp add: invalidate_tenant_cache_def map_of_filter_key)

subsection \<open>Ingest is idempotent\<close>

text \<open>
  An event is counted once. After an ingest of an event that was not refused, a
  second ingest with the same identifier, however its other fields differ, reports
  \<open>already_processed\<close>, counts a duplicate, and changes neither the events nor the caches.
\<close>

theorem ingest_is_idempotent:
  assumes "ingest_event st t ev now s = (Inr r, s1)"
    and "av_event_id ev' = av_event_id ev" "av_source ev' = av_source ev"
  shows "\<exists>s2. ingest_event st t ev' now' s1 = (Inr ''already_processed'', s2) \<and>
     (\<forall>t'. tenant_events t' s2 = tenant_events t' s1) \<and>
     as_response_cache s2 = as_response_cache s1 \<and> as_dup_count s2 = Suc (as_dup_count s1)"
proof -
  define c where "c = config_of st t s"
  have allowed: "\<not> (ac_disablement c \<and> av_source ev \<in> set (ac_disabled_sources c))"
    using assms(1) by (auto simp: ingest_event_def get_config_def Let_def c_def split: if_splits)
  have stored: "map_of (bucket (as_events s1) t) (av_event_id ev) \<noteq> None"
    using assms(1) by (auto simp: ingest_event_def get_config_def Let_def map_of_update split: if_splits)
  have "config_of st t s1 = config_of st t (act_ensure_tenant st t None (act_ensure_tenant st t None s))"
    using assms(1) by (auto simp: ingest_event_def get_config_def Let_def config_of_def split: if_splits)
  then have "config_of st t s1 = c" by (simp add: c_def)
  with allowed stored assms(2,3) show ?thesis
    by (auto simp: ingest_event_def get_config_def Let_def intro!: tenant_events_cong)
qed

definition demo_settings :: signal_settings where
  "demo_settings = \<lparr>st_privacy_threshold = 2, st_retention_days = 90, st_high_privacy_days = 30,
     st_popularity_window_days = 30\<rparr>"

definition demo_activity :: "string \<Rightarrow> string \<Rightarrow> activity_event" where
  "demo_activity i actor = \<lparr>av_event_id = i, av_actor = actor, av_object = ''d'', av_type = ''view'', av_source = ''drive'',
     av_time = 5, av_session = None, av_context = None, av_privacy = ''public'', av_ttl = Some 100\<rparr>"

theorem ingest_is_idempotent_witness:
  "\<exists>s2. ingest_event demo_settings ''t'' (demo_activity ''e1'' ''bob'') 9
       (snd (ingest_event demo_settings ''t'' (demo_activity ''e1'' ''ann'') 7 (empty_activity :: nat activity_store)))
     = (Inr ''already_processed'', s2) \<and> map se_actor (tenant_events ''t'' s2) = [''ann'']"
proof -
  let ?s0 = "empty_activity :: nat activity_store"
  let ?i = "ingest_event demo_settings ''t'' (demo_activity ''e1'' ''ann'') 7 ?s0"
  have "fst ?i = Inr ''ingested''" by code_simp
  then have i: "?i = (Inr ''ingested'', snd ?i)" by (metis prod.collapse)
  have e: "map se_actor (tenant_events ''t'' (snd ?i)) = [''ann'']" by code_simp
  have f: "av_event_id (demo_activity ''e1'' ''bob'') = av_event_id (demo_activity ''e1'' ''ann'')"
    "av_source (demo_activity ''e1'' ''bob'') = av_source (demo_activity ''e1'' ''ann'')"
    by (simp_all add: demo_activity_def)
  from ingest_is_idempotent [OF i f, of 9] e show ?thesis by auto
qed

subsection \<open>The purge removes exactly what expired\<close>

definition act_wf :: "'p activity_store \<Rightarrow> bool" where
  "act_wf s \<longleftrightarrow> dict_wf (as_events s) \<and> (\<forall>t. dict_wf (bucket (as_events s) t))"

lemma map_of_delete_keys: "map_of (foldl (\<lambda>d i. AList.delete i d) d ks) k = (if k \<in> set ks then None else map_of d k)"
  by (induction ks arbitrary: d) (auto simp: map_of_delete)

lemma purge_tenant_frame:
  "t' \<noteq> t \<Longrightarrow> bucket (as_events (purge_tenant now s t)) t' = bucket (as_events s) t'"
  "as_configs (purge_tenant now s t) = as_configs s"
  by (simp_all add: purge_tenant_def Let_def)

lemma purge_tenant_events:
  assumes "dict_wf (bucket (as_events s) t)"
  shows "get_event t i (purge_tenant now s t) =
    (case get_event t i s of None \<Rightarrow> None | Some ev \<Rightarrow> if live now ev then Some ev else None)"
proof -
  define b where "b = bucket (as_events s) t"
  define expired where "expired = [i. (i, ev) \<leftarrow> b, \<not> live now ev]"
  have mem: "i \<in> set expired \<longleftrightarrow> (\<exists>ev. map_of b i = Some ev \<and> \<not> live now ev)"
    using assms by (auto simp: expired_def b_def simp flip: in_set_dict_iff)
  have "map_of (bucket (as_events (purge_tenant now s t)) t) i = (if i \<in> set expired then None else map_of b i)"
  proof (cases "expired = []")
    case True
    then show ?thesis by (simp add: purge_tenant_def Let_def flip: b_def expired_def)
  next
    case False
    then have "as_events (purge_tenant now s t) = AList.update t (foldl (\<lambda>d i. AList.delete i d) b expired) (as_events s)"
      unfolding purge_tenant_def Let_def b_def [symmetric] expired_def [symmetric] by simp
    then show ?thesis by (simp add: map_of_delete_keys)
  qed
  then show ?thesis unfolding get_event_def b_def [symmetric] mem by (auto split: option.splits)
qed

lemma purge_tenant_get_event:
  assumes "\<forall>t. dict_wf (bucket (as_events s) t)"
  shows "get_event t i (purge_tenant now s t') = (if t' = t then
      (case get_event t i s of None \<Rightarrow> None | Some ev \<Rightarrow> if live now ev then Some ev else None) else get_event t i s)"
  using purge_tenant_events [of s t i now] purge_tenant_frame(1) [of t t' now s] assms
  by (auto simp: get_event_def)

lemma dict_wf_delete_keys: "dict_wf d \<Longrightarrow> dict_wf (foldl (\<lambda>d i. AList.delete i d) d ks)"
  by (induction ks arbitrary: d) auto

lemma purge_tenant_wf: "\<forall>t. dict_wf (bucket (as_events s) t) \<Longrightarrow> \<forall>t. dict_wf (bucket (as_events (purge_tenant now s t')) t)"
  by (auto simp: purge_tenant_def Let_def dict_wf_delete_keys)

lemma purge_fold:
  "\<forall>t. dict_wf (bucket (as_events s) t) \<Longrightarrow> get_event t i (foldl (purge_tenant now) s ts) = (if t \<in> set ts then
      (case get_event t i s of None \<Rightarrow> None | Some ev \<Rightarrow> if live now ev then Some ev else None) else get_event t i s)"
proof (induction ts arbitrary: s)
  case (Cons t' ts)
  note IH = Cons.IH [OF purge_tenant_wf [OF Cons.prems], of now t']
  show ?case
    unfolding foldl.simps IH purge_tenant_get_event [OF Cons.prems] by (auto split: option.splits)
qed simp

text \<open>
  The purge removes exactly the expired events. For every tenant and identifier, the
  event found after the purge is the one found before if it is still within its time-to-live, and
  none otherwise.
\<close>

theorem purge_removes_expired:
  assumes "act_wf s"
  shows "get_event t i (fst (purge_expired now s)) =
    (case get_event t i s of None \<Rightarrow> None | Some ev \<Rightarrow> if live now ev then Some ev else None)"
proof (cases "t \<in> set (map fst (as_events s))")
  case True
  with purge_fold [of s t i now] assms show ?thesis by (simp add: purge_expired_def act_wf_def Let_def)
next
  case False
  then have "map_of (as_events s) t = None" by (simp add: map_of_eq_None_iff)
  then have "get_event t i s = None" by (simp add: get_event_def bucket_def dict_get_def)
  with False purge_fold [of s t i now] assms show ?thesis by (simp add: purge_expired_def act_wf_def Let_def)
qed

definition demo_signals :: "nat activity_store" where
  "demo_signals = foldl (\<lambda>s (now, ev). snd (ingest_event demo_settings ''t'' ev now s)) empty_activity
     [(7, demo_activity ''e1'' ''ann''), (50, demo_activity ''e2'' ''bob'')]"

lemma demo_signals_events: "map (\<lambda>(t, b). (t, map fst b)) (as_events demo_signals) = [(''t'', [''e1'', ''e2''])]"
  by code_simp

lemma demo_signals_wf: "act_wf demo_signals"
proof -
  obtain b where b: "as_events demo_signals = [(''t'', b)]" "map fst b = [''e1'', ''e2'']"
    using demo_signals_events by (auto simp: map_eq_Cons_conv)
  then show ?thesis by (simp add: act_wf_def bucket_def dict_get_def dict_wf_def)
qed

theorem purge_removes_expired_witness:
  "get_event ''t'' ''e1'' (fst (purge_expired 120 demo_signals)) = None \<and>
   map_option se_actor (get_event ''t'' ''e2'' (fst (purge_expired 120 demo_signals))) = Some ''bob''"
proof -
  have 1: "map_option (live 120) (get_event ''t'' ''e1'' demo_signals) = Some False"
    "map_option (live 120) (get_event ''t'' ''e2'' demo_signals) = Some True"
    "map_option se_actor (get_event ''t'' ''e2'' demo_signals) = Some ''bob''" by code_simp+
  show ?thesis
    unfolding purge_removes_expired [OF demo_signals_wf] using 1 by (auto split: option.splits)
qed

subsection \<open>The privacy threshold\<close>

definition actors_on :: "string \<Rightarrow> string \<Rightarrow> 'p activity_store \<Rightarrow> string set" where
  "actors_on t d s = se_actor ` {e \<in> set (tenant_events t s). se_object e = d}"

definition discloses_nothing :: "'p doc_response \<Rightarrow> bool" where
  "discloses_nothing r = (dr_protected r \<and> dr_score r = None \<and> dr_views r = None \<and> dr_viewers r = None \<and>
     dr_last_viewed r = None)"

definition fit :: "signal_settings \<Rightarrow> 'p activity_store \<Rightarrow> string \<Rightarrow> string \<Rightarrow> 'p doc_response \<Rightarrow> bool" where
  "fit st s t d r = (discloses_nothing r \<or> ac_privacy_threshold (config_of st t s) \<le> int (card (actors_on t d s)))"

definition cache_ok :: "signal_settings \<Rightarrow> 'p activity_store \<Rightarrow> bool" where
  "cache_ok st s \<longleftrightarrow> (\<forall>t d ex r. map_of (as_response_cache s) (t, ''doc'', d) = Some (ex, DocPayload r) \<longrightarrow> fit st s t d r)"

lemma cache_okD: "cache_ok st s \<Longrightarrow> map_of (as_response_cache s) (t, ''doc'', d) = Some (ex, DocPayload r) \<Longrightarrow> fit st s t d r"
  unfolding cache_ok_def by blast

lemma fit_cong: "bucket (as_events s') t = bucket (as_events s) t \<Longrightarrow> config_of st t s' = config_of st t s \<Longrightarrow>
    fit st s' t d r = fit st s t d r"
  by (simp add: fit_def actors_on_def tenant_events_def)

lemma cache_ok_step:
  assumes "cache_ok st s"
    and "\<And>t d v. map_of (as_response_cache s') (t, ''doc'', d) = Some v \<Longrightarrow>
      map_of (as_response_cache s) (t, ''doc'', d) = Some v \<and> bucket (as_events s') t = bucket (as_events s) t \<and>
      config_of st t s' = config_of st t s"
  shows "cache_ok st s'"
  unfolding cache_ok_def
proof (intro allI impI)
  fix t d ex r assume "map_of (as_response_cache s') (t, ''doc'', d) = Some (ex, DocPayload r)"
  with assms(2) have "map_of (as_response_cache s) (t, ''doc'', d) = Some (ex, DocPayload r)"
    and "bucket (as_events s') t = bucket (as_events s) t" "config_of st t s' = config_of st t s" by blast+
  with cache_okD [OF assms(1)] fit_cong show "fit st s' t d r" by blast
qed

lemma document_response_fit:
  "fit st s t d (document_response score st t d (ac_privacy_threshold (config_of st t s)) now s)"
proof -
  have sub: "set (map se_actor (document_events st t d now s)) \<subseteq> actors_on t d s"
    by (auto simp: document_events_def active_events_def actors_on_def)
  have "distinct_actors (document_events st t d now s) \<le> card (actors_on t d s)"
    unfolding distinct_actors_def
    using card_mono [OF _ sub] by (simp add: actors_on_def distinct_card [OF distinct_dedup, symmetric])
  then show ?thesis
    by (auto simp: fit_def discloses_nothing_def document_response_def Let_def)
qed

datatype signal_op = SIngest string activity_event instant | SConfig activity_config | SPurge instant
  | SClear string | SRecompute string instant | SUser string string instant | SDoc string string instant

fun signal_step :: "(nat \<Rightarrow> 'p) \<Rightarrow> signal_settings \<Rightarrow> 'p activity_store \<Rightarrow> signal_op \<Rightarrow> 'p activity_store" where
  "signal_step score st s (SIngest t ev now) = snd (ingest_event st t ev now s)"
| "signal_step score st s (SConfig c) = set_config c s"
| "signal_step score st s (SPurge now) = fst (purge_expired now s)"
| "signal_step score st s (SClear t) = act_clear_tenant t s"
| "signal_step score st s (SRecompute t now) = recompute_signals st t now s"
| "signal_step score st s (SUser t u now) = snd (get_user_signals st t u now s)"
| "signal_step score st s (SDoc t d now) = snd (get_document_signals score st t d now s)"

lemma cache_get_subset:
  "map_of (as_response_cache (snd (cache_get t k d now s))) x = Some v \<Longrightarrow> map_of (as_response_cache s) x = Some v"
  by (auto simp: cache_get_def map_of_delete split: option.splits if_splits)

lemma cache_get_frame [simp]:
  "as_events (snd (cache_get t k d now s)) = as_events s" "as_configs (snd (cache_get t k d now s)) = as_configs s"
  by (simp_all add: cache_get_def split: option.split)

lemma cache_get_hit: "fst (cache_get t k d now s) = Some p \<Longrightarrow> \<exists>ex. map_of (as_response_cache s) (t, k, d) = Some (ex, p)"
  by (auto simp: cache_get_def split: option.splits if_splits)

lemma cache_ok_frame:
  assumes "cache_ok st s" "\<And>x v. map_of (as_response_cache s') x = Some v \<Longrightarrow> map_of (as_response_cache s) x = Some v"
    "\<And>t. bucket (as_events s') t = bucket (as_events s) t" "\<And>t. config_of st t s' = config_of st t s"
  shows "cache_ok st s'"
proof (rule cache_ok_step [OF assms(1)], intro conjI)
  fix t d v assume "map_of (as_response_cache s') (t, ''doc'', d) = Some v"
  then show "map_of (as_response_cache s) (t, ''doc'', d) = Some v" by (rule assms(2))
  show "bucket (as_events s') t = bucket (as_events s) t" by (rule assms(3))
  show "config_of st t s' = config_of st t s" by (rule assms(4))
qed

lemma ensure_cache_ok: "cache_ok st s \<Longrightarrow> cache_ok st (act_ensure_tenant st t None s)"
  by (rule cache_ok_frame [where s = s]) simp_all

lemma cache_get_ok:
  assumes "cache_ok st s"
  shows "cache_ok st (snd (cache_get t k d now s))"
  by (rule cache_ok_frame [OF assms]) (erule cache_get_subset, simp_all add: config_of_def)

lemma recompute_user_ok: "cache_ok st s \<Longrightarrow> cache_ok st (snd (recompute_user t u now s))"
  by (rule cache_ok_frame [where s = s]) (simp_all add: config_of_def)

lemma recompute_users_ok: "cache_ok st s \<Longrightarrow> cache_ok st (foldl (\<lambda>s a. snd (recompute_user t a now s)) s as)"
  by (induction as arbitrary: s) (simp_all add: recompute_user_ok)

lemma invalidate_cache_ok:
  assumes "cache_ok st s" "as_response_cache s1 = as_response_cache s"
    and "\<And>t'. t' \<noteq> t \<Longrightarrow> bucket (as_events s1) t' = bucket (as_events s) t'"
    and "\<And>t'. t' \<noteq> t \<Longrightarrow> config_of st t' s1 = config_of st t' s"
  shows "cache_ok st (invalidate_tenant_cache t s1)"
proof (rule cache_ok_step [OF assms(1)], intro conjI)
  fix t' d v assume "map_of (as_response_cache (invalidate_tenant_cache t s1)) (t', ''doc'', d) = Some v"
  then have t: "t' \<noteq> t" and m: "map_of (as_response_cache s1) (t', ''doc'', d) = Some v"
    by (simp_all add: invalidated split: if_splits)
  from m show "map_of (as_response_cache s) (t', ''doc'', d) = Some v" unfolding assms(2) .
  show "bucket (as_events (invalidate_tenant_cache t s1)) t' = bucket (as_events s) t'"
    unfolding invalidate_frame by (rule assms(3) [OF t])
  show "config_of st t' (invalidate_tenant_cache t s1) = config_of st t' s"
    unfolding config_of_def invalidate_frame using assms(4) [OF t] unfolding config_of_def .
qed

lemma cache_set_entry: "map_of (as_response_cache (cache_set t k d p now s)) x =
    (if x = (t, k, d) then Some (now + 60, p) else map_of (as_response_cache s) x)"
  by (simp add: cache_set_def map_of_update)

lemma cache_set_ok:
  assumes "cache_ok st s" "\<And>r. k = ''doc'' \<Longrightarrow> p = DocPayload r \<Longrightarrow> fit st s t d r"
  shows "cache_ok st (cache_set t k d p now s)"
  unfolding cache_ok_def
proof (intro allI impI)
  fix t' d' ex r assume m: "map_of (as_response_cache (cache_set t k d p now s)) (t', ''doc'', d') = Some (ex, DocPayload r)"
  have c: "fit st (cache_set t k d p now s) t' d' r = fit st s t' d' r"
    by (rule fit_cong) (simp_all add: cache_set_def config_of_def)
  show "fit st (cache_set t k d p now s) t' d' r"
  proof (cases "(t', ''doc'', d') = (t, k, d)")
    case True
    then have k: "k = ''doc''" "t' = t" "d' = d" by simp_all
    have "p = DocPayload r" using m unfolding cache_set_entry True by simp
    with k assms(2) c show ?thesis by simp
  next
    case False
    then have "map_of (as_response_cache s) (t', ''doc'', d') = Some (ex, DocPayload r)"
      using m unfolding cache_set_entry by (simp only: if_not_P [OF False] if_False)
    from cache_okD [OF assms(1) this] c show ?thesis by simp
  qed
qed

lemma ingest_cache_ok:
  assumes "cache_ok st s"
  shows "cache_ok st (snd (ingest_event st t ev now s))"
proof -
  define s0 where "s0 = act_ensure_tenant st t None (act_ensure_tenant st t None s)"
  define c where "c = config_of st t s0"
  have ok: "cache_ok st s0" unfolding s0_def by (intro ensure_cache_ok assms)
  show ?thesis
  proof (cases "(ac_disablement c \<and> av_source ev \<in> set (ac_disabled_sources c)) \<or>
      map_of (bucket (as_events s0) t) (av_event_id ev) \<noteq> None")
    case True
    have "cache_ok st (s0\<lparr>as_dup_count := n\<rparr>)" for n
      by (rule cache_ok_frame [OF ok]) (simp_all add: config_of_def)
    with True ok show ?thesis
      unfolding ingest_event_def get_config_def Let_def s0_def [symmetric] c_def [symmetric] by auto
  next
    case False
    define s1 where "s1 = snd (recompute_user t (av_actor ev) now (s0\<lparr>as_events := AList.update t
        (AList.update (av_event_id ev) (stored_of t ev c now) (bucket (as_events s0) t)) (as_events s0),
        as_ingest_count := Suc (as_ingest_count s0),
        as_lag_samples := add_lag (max 0 (now - se_time (stored_of t ev c now))) (as_lag_samples s0)\<rparr>))"
    have "snd (ingest_event st t ev now s) = invalidate_tenant_cache t s1"
      using False unfolding ingest_event_def get_config_def Let_def s0_def [symmetric] c_def [symmetric]
      by (auto simp: s1_def)
    moreover have "cache_ok st (invalidate_tenant_cache t s1)"
      by (rule invalidate_cache_ok [OF ok]) (simp_all add: s1_def config_of_def)
    ultimately show ?thesis by simp
  qed
qed

lemma purge_tenant_cache_ok:
  assumes "cache_ok st s"
  shows "cache_ok st (purge_tenant now s t)"
proof (cases "[i. (i, ev) \<leftarrow> bucket (as_events s) t, \<not> live now ev] = []")
  case False
  define kept where "kept = foldl (\<lambda>d i. AList.delete i d) (bucket (as_events s) t)
      [i. (i, ev) \<leftarrow> bucket (as_events s) t, \<not> live now ev]"
  define s1 where "s1 = invalidate_tenant_cache t (s\<lparr>as_events := AList.update t kept (as_events s)\<rparr>)"
  define actors where "actors = dedup (map (\<lambda>(i, e). se_actor e) kept)"
  have "cache_ok st s1" unfolding s1_def
    by (rule invalidate_cache_ok [OF assms]) (simp_all add: config_of_def)
  then have ok: "cache_ok st (foldl (\<lambda>s actor. snd (recompute_user t actor now s)) s1 actors)"
    by (rule recompute_users_ok)
  have "cache_ok st (foldl (\<lambda>s actor. snd (recompute_user t actor now s)) s1 actors\<lparr>as_user_cache := c\<rparr>)" for c
    by (rule cache_ok_frame [OF ok]) (simp_all add: config_of_def)
  then show ?thesis
    unfolding purge_tenant_def Let_def if_not_P [OF False] kept_def [symmetric] s1_def [symmetric] actors_def [symmetric] by simp
qed (simp add: purge_tenant_def Let_def assms)

lemma purge_cache_ok: "cache_ok st s \<Longrightarrow> cache_ok st (fst (purge_expired now s))"
proof -
  have "cache_ok st s \<Longrightarrow> cache_ok st (foldl (purge_tenant now) s ts)" for ts
    by (induction ts arbitrary: s) (simp_all add: purge_tenant_cache_ok)
  then show "cache_ok st s \<Longrightarrow> cache_ok st (fst (purge_expired now s))" by (simp add: purge_expired_def Let_def)
qed

lemma config_of_update [simp]: "t' \<noteq> k \<Longrightarrow>
    config_of st t' (s\<lparr>as_configs := AList.update k c (as_configs s)\<rparr>) = config_of st t' s"
  by (simp add: config_of_def dict_get_def map_of_update)

lemma set_config_cache_ok: "cache_ok st s \<Longrightarrow> cache_ok st (set_config c s)"
  unfolding set_config_def by (erule invalidate_cache_ok) simp_all

lemma clear_cache_ok: "cache_ok st s \<Longrightarrow> cache_ok st (act_clear_tenant t s)"
  unfolding act_clear_tenant_def
  by (erule invalidate_cache_ok)
    (simp_all add: config_of_def bucket_def dict_get_def map_of_delete)

lemma recompute_cache_ok:
  assumes "cache_ok st s"
  shows "cache_ok st (recompute_signals st t now s)"
  unfolding recompute_signals_def Let_def
  by (rule invalidate_cache_ok [OF recompute_users_ok [OF ensure_cache_ok [OF assms]]]) simp_all

lemma user_signals_cache_ok:
  assumes "cache_ok st s"
  shows "cache_ok st (snd (get_user_signals st t u now s))"
proof -
  define g where "g = cache_get t ''user'' u now (act_ensure_tenant st t None s)"
  have ok: "cache_ok st (snd g)" unfolding g_def by (intro cache_get_ok ensure_cache_ok assms)
  have "cache_ok st (snd (recompute_user t u now (snd g))\<lparr>as_user_cache := c\<rparr>)" for c
    by (rule cache_ok_frame [OF ok]) (simp_all add: config_of_def)
  then have "cache_ok st (cache_set t ''user'' u p now (snd (recompute_user t u now (snd g))\<lparr>as_user_cache := c\<rparr>))"
    for c p by (rule cache_set_ok) simp
  with ok show ?thesis
    unfolding get_user_signals_def Let_def g_def [symmetric]
    by (simp add: split_beta split: option.split payload.split)
qed

lemma document_signals_answer:
  assumes "cache_ok st s"
  shows "cache_ok st (snd (get_document_signals score st t d now s))"
    and "fst (get_document_signals score st t d now s) = Some r \<Longrightarrow> fit st s t d r"
proof -
  define s0 where "s0 = act_ensure_tenant st t None s"
  define g where "g = cache_get t ''doc'' d now s0"
  define s1 where "s1 = act_ensure_tenant st t None (snd g)"
  define p where "p = document_response score st t d (ac_privacy_threshold (config_of st t s1)) now s1"
  have ok0: "cache_ok st s0" unfolding s0_def by (rule ensure_cache_ok [OF assms])
  have okg: "cache_ok st (snd g)" unfolding g_def by (rule cache_get_ok [OF ok0])
  have ok1: "cache_ok st s1" unfolding s1_def by (rule ensure_cache_ok [OF okg])
  have same: "fit st s1 t d r = fit st s t d r" "fit st s0 t d r = fit st s t d r" for r
    by (rule fit_cong; simp add: s1_def g_def s0_def config_of_cong [of "snd (cache_get _ _ _ _ _)"])+
  have p: "fit st s1 t d p" unfolding p_def by (rule document_response_fit)
  have okp: "cache_ok st (cache_set t ''doc'' d (DocPayload p) now s1)"
    by (rule cache_set_ok [OF ok1]) (use p in simp)
  have unf: "get_document_signals score st t d now s = (case fst g of
      Some (DocPayload r) \<Rightarrow> (Some r, snd g) | Some (UserPayload _) \<Rightarrow> (None, snd g)
      | None \<Rightarrow> (Some p, cache_set t ''doc'' d (DocPayload p) now s1))"
    unfolding get_document_signals_def get_config_def Let_def s0_def [symmetric] g_def [symmetric]
    by (simp add: split_beta p_def s1_def split: option.split payload.split)
  from okg okp show "cache_ok st (snd (get_document_signals score st t d now s))"
    unfolding unf by (simp split: option.split payload.split)
  assume r: "fst (get_document_signals score st t d now s) = Some r"
  show "fit st s t d r"
  proof (cases "fst g")
    case None
    with r have "r = p" unfolding unf by simp
    with p same show ?thesis by simp
  next
    case (Some q)
    with r have "fst g = Some (DocPayload r)" unfolding unf by (simp split: payload.splits)
    then obtain ex where "map_of (as_response_cache s0) (t, ''doc'', d) = Some (ex, DocPayload r)"
      using cache_get_hit unfolding g_def by blast
    from cache_okD [OF ok0 this] same show ?thesis by simp
  qed
qed

lemma signal_step_cache_ok: "cache_ok st s \<Longrightarrow> cache_ok st (signal_step score st s op)"
  by (cases op) (simp_all add: ingest_cache_ok set_config_cache_ok purge_cache_ok clear_cache_ok
      recompute_cache_ok user_signals_cache_ok document_signals_answer(1))

lemma signal_run_cache_ok: "cache_ok st (foldl (signal_step score st) empty_activity ops)"
proof (induction ops rule: rev_induct)
  case Nil
  show ?case by (simp add: cache_ok_def empty_activity_def)
next
  case (snoc op ops)
  then show ?case by (simp add: signal_step_cache_ok)
qed

text \<open>
  Property C13: the privacy threshold of document signals holds in every reachable state, cached
  answers included. After any sequence of ingests, configuration changes, purges, clears and reads,
  an answer either discloses no count, score or time, or the document has at least the tenant's
  current threshold of distinct actors.
\<close>

theorem privacy_threshold_holds:
  assumes "s = foldl (signal_step score st) empty_activity ops"
    and "fst (get_document_signals score st t d now s) = Some r"
  shows "discloses_nothing r \<or> ac_privacy_threshold (config_of st t s) \<le> int (card (actors_on t d s))"
  using document_signals_answer(2) [OF signal_run_cache_ok] assms unfolding fit_def by blast

definition demo_ops :: "signal_op list" where
  "demo_ops = [SIngest ''t'' (demo_activity ''e1'' ''ann'') 7, SDoc ''t'' ''d'' 8,
     SIngest ''t'' (demo_activity ''e2'' ''bob'') 9]"

definition demo_score :: "nat \<Rightarrow> nat" where "demo_score n = n"

theorem privacy_threshold_holds_witness:
  "(\<exists>r. fst (get_document_signals demo_score demo_settings ''t'' ''d'' 10
      (foldl (signal_step demo_score demo_settings) empty_activity demo_ops)) = Some r \<and> dr_views r = Some 2) \<and>
   2 \<le> int (card (actors_on ''t'' ''d'' (foldl (signal_step demo_score demo_settings) empty_activity demo_ops)))"
proof -
  let ?s = "foldl (signal_step demo_score demo_settings) empty_activity demo_ops"
  let ?a = "fst (get_document_signals demo_score demo_settings ''t'' ''d'' 10 ?s)"
  have "map_option dr_views ?a = Some (Some 2)" by code_simp
  then obtain r where r: "?a = Some r" "dr_views r = Some 2" by auto
  have c: "ac_privacy_threshold (config_of demo_settings ''t'' ?s) = 2" by code_simp
  have "\<not> discloses_nothing r" using r(2) by (simp add: discloses_nothing_def)
  with privacy_threshold_holds [OF refl r(1)] r c show ?thesis by auto
qed

text \<open>
  The threshold counts actors of any event, while the answer calls them viewers: two editors and no
  view already reveal a count of two distinct viewers.
\<close>

lemma editors_count_as_viewers:
  "map_option dr_viewers (fst (get_document_signals demo_score demo_settings ''t'' ''d'' 10
     (foldl (signal_step demo_score demo_settings) empty_activity
       (map (\<lambda>a. SIngest ''t'' ((demo_activity a a)\<lparr>av_type := ''edit''\<rparr>) 7) [''ann'', ''bob''])))) = Some (Some 2)"
  by code_simp

end
