(* ===== verification/Normalizer.thy ===== *)
theory Normalizer
  imports Core_Models
begin

text \<open>
  The source-specific normalizers (\<open>backend/app/normalizer/strategies/\<close>) and their registry: what
  the raw objects of Drive, Gmail, OneDrive and Outlook say about permissions, containers and the
  people behind a document. Raw objects are JSON values; an operation the value does not have is
  the exception Python raises. The bodies that need a download, a decoder of MIME parts or HTML
  entities are not modelled: the text of a Gmail message is a parameter.
\<close>

definition mk_hint :: "string \<Rightarrow> pyval \<Rightarrow> pyval \<Rightarrow> pyval \<Rightarrow> identity_hint res" where
  "mk_hint source ext email nm =
     rbind (py_need_str ext) (\<lambda>x. rbind (py_opt_str email) (\<lambda>e. rbind (py_opt_str nm) (\<lambda>n.
       Inr \<lparr>ih_source_type = source, ih_external_id = x, ih_email = e, ih_username = None, ih_name = n\<rparr>)))"

lemma mk_hint_simps [simp]:
  "mk_hint src (PStr x) (PStr e) PNone =
     Inr \<lparr>ih_source_type = src, ih_external_id = x, ih_email = Some e, ih_username = None, ih_name = None\<rparr>"
  "mk_hint src (PStr x) (PStr e) (PStr n) =
     Inr \<lparr>ih_source_type = src, ih_external_id = x, ih_email = Some e, ih_username = None, ih_name = Some n\<rparr>"
  by (simp_all add: mk_hint_def)

text \<open>The interface \<open>NormalizerStrategy\<close>, one field per method the pipeline calls.\<close>

record strategy =
  ns_extract_text :: "pydict \<Rightarrow> string res"
  ns_map_metadata :: "pydict \<Rightarrow> pydict res"
  ns_permission_hints :: "pydict \<Rightarrow> (identity_hint \<times> permission_level) list res"
  ns_containers :: "pydict \<Rightarrow> string list res"
  ns_identity_hints :: "pydict \<Rightarrow> (string, identity_hint) dict res"

subsection \<open>Google Drive\<close>

definition bound_text :: "int \<Rightarrow> string \<Rightarrow> string" where
  "bound_text max_chars s = (if s \<noteq> [] \<and> max_chars < int (length s) then take (nat max_chars) s else s)"

text \<open>
  The registry builds the class without a Drive client, so the branch that exports or downloads
  the file is never taken.
\<close>

definition drive_text :: "int \<Rightarrow> pydict \<Rightarrow> string res" where
  "drive_text max_chars raw =
     (case pget raw ''_test_extracted_text'' of PStr (c # cs) \<Rightarrow> Inr (bound_text max_chars (c # cs))
      | _ \<Rightarrow>
        (case find (\<lambda>k. case pget raw k of PStr s \<Rightarrow> str_strip s \<noteq> [] | _ \<Rightarrow> False)
                [''_extracted_text'', ''extractedText'', ''fullText'', ''content'', ''body''] of
           Some k \<Rightarrow> (case pget raw k of PStr s \<Rightarrow> Inr (bound_text max_chars s) | _ \<Rightarrow> Inr [])
         | None \<Rightarrow>
             (let nm = dict_get raw ''name'' (PStr []) in
              if \<not> truthy nm then Inr []
              else (case nm of PStr s \<Rightarrow> Inr (bound_text max_chars s) | _ \<Rightarrow> Inl (Raised ''TypeError'')))))"

definition drive_level :: "pyval \<Rightarrow> permission_level" where
  "drive_level role =
     (if role = PStr ''owner'' then OWNER
      else if role = PStr ''writer'' \<or> role = PStr ''fileOrganizer'' then WRITE else READ)"

definition drive_perm_hint :: "pyval \<Rightarrow> (identity_hint \<times> permission_level) option res" where
  "drive_perm_hint perm =
     (case perm of
        PDict d \<Rightarrow>
          (let perm_type = dict_get d ''type'' (PStr []); email = dict_get d ''emailAddress'' (PStr []);
               role = dict_get d ''role'' (PStr ''reader''); perm_id = dict_get d ''id'' (PStr [])
           in if truthy (dict_get d ''deleted'' (PBool False)) then Inr None
              else if perm_type = PStr ''user'' \<and> truthy email
              then rbind (mk_hint ''google_drive'' (py_or perm_id email) email (pget d ''displayName''))
                     (\<lambda>h. Inr (Some (h, drive_level role)))
              else Inr None)
      | _ \<Rightarrow> Inl (Raised ''AttributeError''))"

definition drive_owner_hint :: "pyval \<Rightarrow> identity_hint res" where
  "drive_owner_hint owner =
     rbind (py_get owner ''emailAddress'' (PStr [])) (\<lambda>email.
     rbind (py_get owner ''permissionId'' email) (\<lambda>ext.
     rbind (py_get owner ''displayName'' PNone) (\<lambda>nm. mk_hint ''google_drive'' ext email nm)))"

definition drive_first_owner :: "pydict \<Rightarrow> pyval option res" where
  "drive_first_owner raw =
     (let owners = dict_get raw ''owners'' (PList []) in
      if truthy owners then rbind (py_first owners) (\<lambda>x. Inr (Some x)) else Inr None)"

definition drive_permission_hints :: "pydict \<Rightarrow> (identity_hint \<times> permission_level) list res" where
  "drive_permission_hints raw =
     rbind (py_iter (dict_get raw ''permissions'' (PList []))) (\<lambda>perms.
     rbind (res_map drive_perm_hint perms) (\<lambda>found.
       let hints = List.map_filter (\<lambda>x. x) found in
       if hints \<noteq> [] then Inr hints
       else rbind (drive_first_owner raw) (\<lambda>owner. case owner of
              None \<Rightarrow> Inr []
            | Some x \<Rightarrow> rbind (drive_owner_hint x) (\<lambda>h. Inr [(h, OWNER)]))))"

definition drive_containers :: "pydict \<Rightarrow> string list res" where
  "drive_containers raw = Inr []"

definition drive_identity_hints :: "pydict \<Rightarrow> (string, identity_hint) dict res" where
  "drive_identity_hints raw =
     rbind (drive_first_owner raw) (\<lambda>owner.
     rbind (case owner of None \<Rightarrow> Inr []
            | Some x \<Rightarrow> rbind (drive_owner_hint x) (\<lambda>h. Inr [(''owner'', h), (''creator'', h)])) (\<lambda>hints.
       let user = dict_get raw ''lastModifyingUser'' (PDict []) in
       if \<not> truthy user then Inr hints
       else rbind (py_get user ''emailAddress'' PNone) (\<lambda>email.
         if \<not> truthy email then Inr hints
         else rbind (drive_owner_hint user) (\<lambda>h. Inr (AList.update ''last_modifier'' h hints)))))"

definition drive_size :: "pyval \<Rightarrow> pyval" where
  "drive_size size_bytes =
     (case size_bytes of
        PStr s \<Rightarrow> PInt (case py_int (PStr s) of Some n \<Rightarrow> n | None \<Rightarrow> 0)
      | PNone \<Rightarrow> PInt 0
      | v \<Rightarrow> v)"

definition drive_metadata :: "pydict \<Rightarrow> pydict res" where
  "drive_metadata raw =
     rbind (drive_first_owner raw) (\<lambda>owner.
     rbind (case owner of None \<Rightarrow> Inr (PStr []) | Some x \<Rightarrow> py_get x ''emailAddress'' (PStr [])) (\<lambda>owner_email.
     rbind (if truthy (pget raw ''parents'') then py_first (pget raw ''parents'') else Inr (PStr [])) (\<lambda>parent.
       Inr [(''mime_type'', dict_get raw ''mimeType'' (PStr [])),
            (''file_extension'', dict_get raw ''fileExtension'' (PStr [])),
            (''owner_email'', owner_email),
            (''shared_drive_id'', dict_get raw ''driveId'' (PStr [])),
            (''parent_folder_id'', parent),
            (''web_view_link'', dict_get raw ''webViewLink'' (PStr [])),
            (''size_bytes'', drive_size (pget raw ''size'')),
            (''visibility_mode'', PStr ''restricted'')])))"

definition google_drive_normalizer :: "int \<Rightarrow> strategy" where
  "google_drive_normalizer max_chars =
     \<lparr>ns_extract_text = drive_text max_chars, ns_map_metadata = drive_metadata,
      ns_permission_hints = drive_permission_hints, ns_containers = drive_containers,
      ns_identity_hints = drive_identity_hints\<rparr>"

subsection \<open>Gmail\<close>

definition gmail_headers :: "pydict \<Rightarrow> pyval list res" where
  "gmail_headers raw =
     rbind (py_get (dict_get raw ''payload'' (PDict [])) ''headers'' (PList [])) py_iter"

text \<open>\<open>h["name"].lower()\<close> and \<open>h["value"]\<close>; headers that are not dictionaries are skipped.\<close>

definition add_header :: "pydict res \<Rightarrow> pyval \<Rightarrow> pydict res" where
  "add_header acc h =
     (case h of
        PDict d \<Rightarrow> rbind acc (\<lambda>m.
          (case map_of d ''name'' of
             None \<Rightarrow> Inl (Raised ''KeyError'')
           | Some nm \<Rightarrow> rbind (py_meth nm str_lower) (\<lambda>k.
               (case map_of d ''value'' of
                  None \<Rightarrow> Inl (Raised ''KeyError'')
                | Some v \<Rightarrow> Inr (AList.update k v m)))))
      | _ \<Rightarrow> acc)"

definition header_dict :: "pydict \<Rightarrow> pydict res" where
  "header_dict raw = rbind (gmail_headers raw) (foldl add_header (Inr []))"

definition GHOST_MAILBOX :: string where
  "GHOST_MAILBOX = ''user@example.com''"

definition mailbox_owner_email :: "pydict \<Rightarrow> string option res" where
  "mailbox_owner_email raw =
     rbind (header_dict raw) (\<lambda>hd.
     rbind (py_meth (py_or (pget hd ''delivered-to'') (PStr [])) str_strip) (\<lambda>delivered_to.
       let configured = str_strip (py_str (py_or (pget raw ''_mailbox_email'') (PStr [])));
           email = str_lower (str_strip (if delivered_to \<noteq> [] then delivered_to else configured))
       in Inr (if email = [] \<or> email = GHOST_MAILBOX then None else Some email)))"

definition gmail_hint :: "string \<Rightarrow> string option \<Rightarrow> identity_hint" where
  "gmail_hint email nm = \<lparr>ih_source_type = ''google_gmail'', ih_external_id = email, ih_email = Some email,
     ih_username = None, ih_name = nm\<rparr>"

definition gmail_permission_hints :: "pydict \<Rightarrow> (identity_hint \<times> permission_level) list res" where
  "gmail_permission_hints raw =
     rbind (mailbox_owner_email raw) (\<lambda>mailbox. case mailbox of
         None \<Rightarrow> Inr []
       | Some email \<Rightarrow> Inr [(gmail_hint email None, OWNER)])"

text \<open>\<open>re.search('<([^>]+)>', s)\<close> and \<open>re.match('^([^<]+)<', s)\<close>.\<close>

fun find_angle :: "string \<Rightarrow> string option" where
  "find_angle [] = None"
| "find_angle (c # cs) =
     (let inner = takeWhile (\<lambda>x. x \<noteq> CHR ''>'') cs in
      if c = CHR ''<'' \<and> inner \<noteq> [] \<and> length inner < length cs then Some inner else find_angle cs)"

definition extract_email :: "string \<Rightarrow> string" where
  "extract_email from_header =
     (if from_header = [] then []
      else (case find_angle from_header of Some g \<Rightarrow> str_strip g | None \<Rightarrow> str_strip from_header))"

definition extract_name :: "string \<Rightarrow> string" where
  "extract_name from_header =
     (let g = takeWhile (\<lambda>x. x \<noteq> CHR ''<'') from_header in
      if g \<noteq> [] \<and> length g < length from_header then str_strip g else [])"

definition gmail_identity_hints :: "pydict \<Rightarrow> (string, identity_hint) dict res" where
  "gmail_identity_hints raw =
     rbind (header_dict raw) (\<lambda>hd.
     rbind (mailbox_owner_email raw) (\<lambda>mailbox.
     rbind (let v = dict_get hd ''from'' (PStr []) in
            if truthy v then (case v of PStr s \<Rightarrow> Inr s | _ \<Rightarrow> Inl (Raised ''TypeError'')) else Inr []) (\<lambda>from_email.
       let owner = (case mailbox of Some e \<Rightarrow> [(''owner'', gmail_hint e None)] | None \<Rightarrow> []);
           sender = extract_email from_email
       in Inr (if sender \<noteq> []
               then owner @ [(''creator'', gmail_hint sender (Some (extract_name from_email)))] else owner))))"

definition gmail_to_list :: "pyval \<Rightarrow> pyval res" where
  "gmail_to_list v =
     (if truthy v
      then (case v of PStr s \<Rightarrow> Inr (PList (map PStr (filter (\<lambda>e. e \<noteq> []) (map str_strip (split_on CHR '','' s)))))
            | _ \<Rightarrow> Inl (Raised ''AttributeError''))
      else Inr (PList []))"

fun any_attachment :: "pyval list \<Rightarrow> bool res" where
  "any_attachment [] = Inr False"
| "any_attachment (part # parts) =
     rbind (py_get part ''filename'' (PStr [])) (\<lambda>filename.
     rbind (if truthy filename
            then rbind (py_get part ''body'' (PDict [])) (\<lambda>b. py_get b ''attachmentId'' PNone) else Inr PNone) (\<lambda>a.
       if truthy a then Inr True else any_attachment parts))"

definition has_attachments :: "pyval \<Rightarrow> bool res" where
  "has_attachments payload = rbind (py_get payload ''parts'' (PList [])) (\<lambda>ps. rbind (py_iter ps) any_attachment)"

definition gmail_metadata :: "pydict \<Rightarrow> pydict res" where
  "gmail_metadata raw =
     rbind (header_dict raw) (\<lambda>hd.
     rbind (gmail_to_list (dict_get hd ''to'' (PStr []))) (\<lambda>to_list.
     rbind (has_attachments (dict_get raw ''payload'' (PDict []))) (\<lambda>attachments.
       Inr [(''from_email'', dict_get hd ''from'' (PStr [])), (''to_emails'', to_list),
            (''subject'', dict_get hd ''subject'' (PStr [])),
            (''thread_id'', dict_get raw ''threadId'' (PStr [])),
            (''label_ids'', dict_get raw ''labelIds'' (PList [])),
            (''has_attachments'', PBool attachments),
            (''message_size_bytes'', dict_get raw ''sizeEstimate'' (PInt 0)),
            (''visibility_mode'', PStr ''restricted'')])))"

definition no_containers :: "pydict \<Rightarrow> string list res" where
  "no_containers raw = Inr []"

definition google_gmail_normalizer :: "(pydict \<Rightarrow> string res) \<Rightarrow> strategy" where
  "google_gmail_normalizer gmail_text =
     \<lparr>ns_extract_text = gmail_text, ns_map_metadata = gmail_metadata,
      ns_permission_hints = gmail_permission_hints, ns_containers = no_containers,
      ns_identity_hints = gmail_identity_hints\<rparr>"

subsection \<open>OneDrive and Outlook\<close>

definition ms_hint :: "string \<Rightarrow> pyval \<Rightarrow> pyval \<Rightarrow> identity_hint res" where
  "ms_hint source email nm =
     rbind (py_meth email str_lower) (\<lambda>e. mk_hint source (PStr e) (PStr e) (py_or nm PNone))"

definition ms_person :: "pydict \<Rightarrow> string \<Rightarrow> (pyval \<times> pyval) res" where
  "ms_person raw key =
     rbind (py_get (py_or (pget raw key) (PDict [])) ''user'' PNone) (\<lambda>u.
       let user = py_or u (PDict []) in
       rbind (py_get user ''email'' PNone) (\<lambda>a.
       rbind (if truthy a then Inr a else py_get user ''userPrincipalName'' PNone) (\<lambda>b.
       rbind (py_get user ''displayName'' PNone) (\<lambda>n.
         Inr (py_or b (PStr []), py_or n (PStr []))))))"

definition onedrive_identity_hints :: "pydict \<Rightarrow> (string, identity_hint) dict res" where
  "onedrive_identity_hints raw =
     rbind (ms_person raw ''createdBy'') (\<lambda>(creator_email, creator_name).
     rbind (if truthy creator_email
            then rbind (ms_hint ''onedrive'' creator_email creator_name)
                   (\<lambda>h. Inr [(''owner'', h), (''creator'', h)])
            else Inr []) (\<lambda>hints.
     rbind (ms_person raw ''lastModifiedBy'') (\<lambda>(modifier_email, modifier_name).
     rbind (if truthy modifier_email
            then rbind (py_meth modifier_email str_lower) (\<lambda>m. rbind (py_meth creator_email str_lower) (\<lambda>c.
                   if m \<noteq> c
                   then rbind (ms_hint ''onedrive'' modifier_email modifier_name)
                          (\<lambda>h. Inr (hints @ [(''last_modifier'', h)]))
                   else Inr hints))
            else Inr hints) (\<lambda>hints.
       if hints \<noteq> [] then Inr hints
       else rbind (py_get (py_or (pget raw ''structured_metadata'') (PDict [])) ''created_by'' PNone) (\<lambda>e.
              if truthy e
              then rbind (ms_hint ''onedrive'' e PNone) (\<lambda>h. Inr [(''owner'', h), (''creator'', h)])
              else Inr [])))))"

definition onedrive_containers :: "pydict \<Rightarrow> string list res" where
  "onedrive_containers raw =
     rbind (py_get (py_or (pget raw ''parentReference'') (PDict [])) ''id'' PNone)
       (\<lambda>parent. Inr (if truthy parent then [py_str parent] else []))"

definition text_field :: "pyval \<Rightarrow> bool" where
  "text_field v = (case v of PStr s \<Rightarrow> str_strip s \<noteq> [] | _ \<Rightarrow> False)"

definition first_text :: "pyval list \<Rightarrow> string" where
  "first_text vs = (case find text_field vs of Some (PStr s) \<Rightarrow> s | _ \<Rightarrow> [])"

definition onedrive_text :: "pydict \<Rightarrow> string res" where
  "onedrive_text raw =
     Inr (first_text (map (pget raw) [''content'', ''body'', ''extractedText'', ''name'', ''title'']))"

definition metadata_of :: "pydict \<Rightarrow> pydict" where
  "metadata_of raw = (case pget raw ''structured_metadata'' of PDict m \<Rightarrow> m | _ \<Rightarrow> [])"

definition onedrive_metadata :: "pydict \<Rightarrow> pydict res" where
  "onedrive_metadata raw =
     (let meta = metadata_of raw in
      Inr [(''mime_type'', py_or (py_or (pget meta ''mime_type'') (pget raw ''mimeType'')) (PStr [])),
           (''file_extension'', py_or (pget meta ''file_extension'') (PStr [])),
           (''size_bytes'', py_or (py_or (pget meta ''size_bytes'') (pget raw ''size'')) (PInt 0)),
           (''web_url'', py_or (py_or (pget meta ''web_url'') (pget raw ''webUrl'')) (PStr [])),
           (''parent_path'', py_or (pget meta ''parent_path'') (PStr [])),
           (''created_by'', py_or (pget meta ''created_by'') (PStr []))])"

definition no_permission_hints :: "pydict \<Rightarrow> (identity_hint \<times> permission_level) list res" where
  "no_permission_hints raw = Inr []"

definition onedrive_normalizer :: strategy where
  "onedrive_normalizer =
     \<lparr>ns_extract_text = onedrive_text, ns_map_metadata = onedrive_metadata,
      ns_permission_hints = no_permission_hints, ns_containers = onedrive_containers,
      ns_identity_hints = onedrive_identity_hints\<rparr>"

definition outlook_text :: "pydict \<Rightarrow> string res" where
  "outlook_text raw =
     Inr (first_text (map (\<lambda>k. case pget raw k of PDict d \<Rightarrow> pget d ''content'' | v \<Rightarrow> v)
       [''content'', ''bodyPreview'', ''body'', ''subject'', ''title'']))"

definition outlook_metadata :: "pydict \<Rightarrow> pydict res" where
  "outlook_metadata raw =
     (let meta = metadata_of raw in
      Inr [(''from_email'', py_or (pget meta ''from_email'') (PStr [])),
           (''to_emails'', py_or (pget meta ''to_emails'') (PList [])),
           (''conversation_id'', py_or (pget meta ''conversation_id'') (PStr [])),
           (''has_attachments'', PBool (truthy (pget meta ''has_attachments''))),
           (''importance'', py_or (pget meta ''importance'') (PStr [])),
           (''received_at'', py_or (pget meta ''received_at'') (PStr []))])"

definition outlook_identity_hints :: "pydict \<Rightarrow> (string, identity_hint) dict res" where
  "outlook_identity_hints raw =
     rbind (py_get (py_or (pget raw ''from'') (PDict [])) ''emailAddress'' PNone) (\<lambda>a.
       let addr = py_or a (PDict []) in
       rbind (py_get addr ''address'' PNone) (\<lambda>e.
       rbind (py_get addr ''name'' PNone) (\<lambda>sender_name.
       rbind (if truthy e then Inr e
              else py_get (py_or (pget raw ''structured_metadata'') (PDict [])) ''from_email'' PNone) (\<lambda>sender.
         if truthy sender
         then rbind (ms_hint ''outlook'' sender sender_name) (\<lambda>h. Inr [(''creator'', h), (''owner'', h)])
         else Inr []))))"

definition outlook_normalizer :: strategy where
  "outlook_normalizer =
     \<lparr>ns_extract_text = outlook_text, ns_map_metadata = outlook_metadata,
      ns_permission_hints = no_permission_hints, ns_containers = no_containers,
      ns_identity_hints = outlook_identity_hints\<rparr>"

subsection \<open>The fallback and the registry\<close>

definition generic_text :: "pydict \<Rightarrow> string res" where
  "generic_text raw =
     Inr (case find (\<lambda>v. case v of PStr s \<Rightarrow> s \<noteq> [] | _ \<Rightarrow> False) (map (pget raw)
            [''content'', ''text'', ''body'', ''description'', ''snippet'', ''title'', ''name'']) of
          Some (PStr s) \<Rightarrow> s | _ \<Rightarrow> [])"

definition generic_metadata :: "pydict \<Rightarrow> pydict res" where
  "generic_metadata raw = Inr []"

definition generic_identity_hints :: "pydict \<Rightarrow> (string, identity_hint) dict res" where
  "generic_identity_hints raw = Inr []"

definition generic_normalizer :: strategy where
  "generic_normalizer =
     \<lparr>ns_extract_text = generic_text, ns_map_metadata = generic_metadata,
      ns_permission_hints = no_permission_hints, ns_containers = no_containers,
      ns_identity_hints = generic_identity_hints\<rparr>"

record normalizer_registry =
  nr_strategies :: "(string, strategy) dict"
  nr_fallback :: "strategy option"

definition nr_register :: "string \<Rightarrow> strategy \<Rightarrow> normalizer_registry \<Rightarrow> normalizer_registry" where
  "nr_register source_type st r = r\<lparr>nr_strategies := AList.update source_type st (nr_strategies r)\<rparr>"

definition nr_register_fallback :: "strategy \<Rightarrow> normalizer_registry \<Rightarrow> normalizer_registry" where
  "nr_register_fallback st r = r\<lparr>nr_fallback := Some st\<rparr>"

definition nr_get :: "string \<Rightarrow> normalizer_registry \<Rightarrow> strategy res" where
  "nr_get source_type r =
     (case map_of (nr_strategies r) source_type of
        Some st \<Rightarrow> Inr st
      | None \<Rightarrow> (case nr_fallback r of Some st \<Rightarrow> Inr st | None \<Rightarrow> Inl (Raised ''ValueError'')))"

definition default_registry :: "int \<Rightarrow> (pydict \<Rightarrow> string res) \<Rightarrow> normalizer_registry" where
  "default_registry max_chars gmail_text =
     nr_register_fallback generic_normalizer
       (nr_register ''outlook'' outlook_normalizer
       (nr_register ''onedrive'' onedrive_normalizer
       (nr_register ''google_gmail'' (google_gmail_normalizer gmail_text)
       (nr_register ''google_drive'' (google_drive_normalizer max_chars)
         \<lparr>nr_strategies = [], nr_fallback = None\<rparr>))))"

subsection \<open>What the Drive hints say\<close>

lemma res_map_memD: "res_map f xs = Inr ys \<Longrightarrow> y \<in> set ys \<Longrightarrow> \<exists>x \<in> set xs. f x = Inr y"
  by (induction xs arbitrary: ys) (auto simp: rbind_Inr_iff)

lemma res_map_memI: "res_map f xs = Inr ys \<Longrightarrow> x \<in> set xs \<Longrightarrow> \<exists>y \<in> set ys. f x = Inr y"
  by (induction xs arbitrary: ys) (auto simp: rbind_Inr_iff)

lemma map_filter_id_mem: "x \<in> set (List.map_filter (\<lambda>x. x) xs) \<longleftrightarrow> Some x \<in> set xs"
  by (induction xs) (auto simp: List.map_filter_def)

definition live_user_share :: "pyval \<Rightarrow> bool" where
  "live_user_share perm = (case perm of
     PDict d \<Rightarrow> \<not> truthy (dict_get d ''deleted'' (PBool False)) \<and> dict_get d ''type'' (PStr []) = PStr ''user'' \<and>
       truthy (dict_get d ''emailAddress'' (PStr []))
   | _ \<Rightarrow> False)"

definition share_hint :: "pyval \<Rightarrow> identity_hint \<times> permission_level \<Rightarrow> bool" where
  "share_hint perm hl = (case perm of
     PDict d \<Rightarrow> dict_get d ''emailAddress'' (PStr []) = PStr (opt_str (ih_email (fst hl))) \<and>
       opt_str (ih_email (fst hl)) \<noteq> [] \<and> ih_source_type (fst hl) = ''google_drive'' \<and>
       snd hl = drive_level (dict_get d ''role'' (PStr ''reader''))
   | _ \<Rightarrow> False)"

lemma mk_hint_Inr: "mk_hint src x e n = Inr h \<Longrightarrow> truthy e \<Longrightarrow>
    ih_source_type h = src \<and> e = PStr (opt_str (ih_email h)) \<and> opt_str (ih_email h) \<noteq> []"
  by (auto simp: mk_hint_def rbind_Inr_iff py_opt_str_def split: pyval.splits)

lemma drive_perm_hint_Some: "drive_perm_hint perm = Inr (Some hl) \<Longrightarrow> live_user_share perm \<and> share_hint perm hl"
  by (auto simp: drive_perm_hint_def live_user_share_def share_hint_def Let_def rbind_Inr_iff
      split: pyval.splits if_splits dest: mk_hint_Inr)

lemma drive_perm_hint_None: "drive_perm_hint perm = Inr None \<Longrightarrow> \<not> live_user_share perm"
  by (auto simp: drive_perm_hint_def live_user_share_def Let_def rbind_Inr_iff split: pyval.splits if_splits)

text \<open>
  The permission hints of a Drive file are its live user shares. When the permission
  list is read without an exception, every share with a user that is not deleted has a hint with its
  address and level, and every hint comes from such a share; deleted, group, domain and anyone
  permissions give none. Only a file without any such share falls back to one hint, its first
  owner with OWNER.
\<close>

theorem drive_hints_are_live_user_shares:
  assumes "drive_permission_hints raw = Inr hints" "pget raw ''permissions'' = PList perms"
  shows "(\<forall>perm \<in> set perms. live_user_share perm \<longrightarrow> (\<exists>hl \<in> set hints. share_hint perm hl)) \<and>
    ((\<forall>hl \<in> set hints. \<exists>perm \<in> set perms. live_user_share perm \<and> share_hint perm hl) \<or>
     ((\<forall>perm \<in> set perms. \<not> live_user_share perm) \<and> length hints \<le> 1 \<and> (\<forall>hl \<in> set hints. snd hl = OWNER)))"
proof -
  have "dict_get raw ''permissions'' (PList []) = PList perms"
    using assms(2) by (simp add: pget_def dict_get_def split: option.splits)
  then obtain found where found: "res_map drive_perm_hint perms = Inr found"
    and rest: "(let hints = List.map_filter (\<lambda>x. x) found in
       if hints \<noteq> [] then Inr hints
       else rbind (drive_first_owner raw) (\<lambda>owner. case owner of
              None \<Rightarrow> Inr [] | Some x \<Rightarrow> rbind (drive_owner_hint x) (\<lambda>h. Inr [(h, OWNER)]))) = Inr hints"
    using assms(1) by (auto simp: drive_permission_hints_def rbind_Inr_iff)
  define live where "live = List.map_filter (\<lambda>x. x) found"
  have fwd: "\<exists>hl \<in> set live. share_hint perm hl" if "perm \<in> set perms" "live_user_share perm" for perm
  proof -
    from res_map_memI [OF found that(1)] obtain y where y: "y \<in> set found" "drive_perm_hint perm = Inr y" by blast
    show ?thesis
    proof (cases y)
      case None
      with y drive_perm_hint_None that(2) show ?thesis by simp
    next
      case (Some hl)
      with y have "hl \<in> set live" by (simp add: live_def map_filter_id_mem)
      with drive_perm_hint_Some y Some show ?thesis by blast
    qed
  qed
  have conv: "\<exists>perm \<in> set perms. live_user_share perm \<and> share_hint perm hl" if "hl \<in> set live" for hl
  proof -
    from that have "Some hl \<in> set found" by (simp add: live_def map_filter_id_mem)
    from res_map_memD [OF found this] drive_perm_hint_Some show ?thesis by blast
  qed
  show ?thesis
  proof (cases "live = []")
    case True
    with rest have "length hints \<le> 1 \<and> (\<forall>hl \<in> set hints. snd hl = OWNER)"
      by (auto simp: live_def rbind_Inr_iff split: option.splits)
    with True fwd show ?thesis by auto
  next
    case False
    with rest have "hints = live" by (simp add: live_def Let_def)
    with fwd conv show ?thesis by blast
  qed
qed

definition demo_file :: pydict where
  "demo_file = [(''id'', PStr ''f1''), (''name'', PStr ''Plan''), (''permissions'', PList
     [PDict [(''id'', PStr ''p1''), (''type'', PStr ''user''), (''emailAddress'', PStr ''ann@x.org''), (''role'', PStr ''writer'')],
      PDict [(''id'', PStr ''p2''), (''type'', PStr ''user''), (''emailAddress'', PStr ''old@x.org''), (''deleted'', PBool True)],
      PDict [(''id'', PStr ''p3''), (''type'', PStr ''anyone'')]]),
     (''lastModifyingUser'', PDict [(''emailAddress'', PStr ''zoe@x.org'')])]"

lemma share_hint_email:
  "share_hint (PDict d) hl \<Longrightarrow> dict_get d ''emailAddress'' (PStr []) = PStr e \<Longrightarrow> opt_str (ih_email (fst hl)) = e"
  by (simp add: share_hint_def)

theorem drive_hints_are_live_user_shares_witness:
  "\<exists>hints. drive_permission_hints demo_file = Inr hints \<and> map snd hints = [WRITE] \<and>
     (\<exists>hl \<in> set hints. ih_email (fst hl) = Some ''ann@x.org'')"
proof -
  have "(case drive_permission_hints demo_file of Inr hs \<Rightarrow> map snd hs | _ \<Rightarrow> []) = [WRITE]" by code_simp
  then obtain hints where hints: "drive_permission_hints demo_file = Inr hints" "map snd hints = [WRITE]"
    by (auto split: sum.splits)
  obtain perms where perms: "pget demo_file ''permissions'' = PList perms" "perms \<noteq> []"
    "hd perms = PDict [(''id'', PStr ''p1''), (''type'', PStr ''user''), (''emailAddress'', PStr ''ann@x.org''), (''role'', PStr ''writer'')]"
    by (simp add: demo_file_def)
  have live: "live_user_share (hd perms)" unfolding perms(3) by code_simp
  have mem: "hd perms \<in> set perms" using perms(2) by (rule hd_in_set)
  note all = drive_hints_are_live_user_shares [OF hints(1) perms(1), THEN conjunct1, THEN bspec, OF mem]
  from mp [OF all live] obtain hl where hl: "hl \<in> set hints" "share_hint (hd perms) hl" by (rule bexE)
  from hl(2) have "opt_str (ih_email (fst hl)) = ''ann@x.org''" unfolding perms(3) by (rule share_hint_email) code_simp
  then have "ih_email (fst hl) = Some ''ann@x.org''" by (cases "ih_email (fst hl)") simp_all
  with hl(1) have "\<exists>hl \<in> set hints. ih_email (fst hl) = Some ''ann@x.org''" by (intro bexI [of _ hl])
  with hints show ?thesis by (intro exI [of _ hints] conjI)
qed

end
