(* ===== verification/Uuids.thy ===== *)
theory Uuids
  imports Py_Values
begin

text \<open>
  The string of a UUID, as the code writes identifiers into JWT claims, ACL terms and Redis keys,
  with its injectivity and the characters it is made of.
\<close>

subsection \<open>\<open>str(uuid)\<close>\<close>

text \<open>
  Thirty-two hexadecimal digits in groups of 8, 4, 4, 4 and 12. A number beyond 128 bits, which no
  identifier is, would have a longer first group, so that the function is injective as it stands.
\<close>

fun hex_nat :: "nat \<Rightarrow> string" where
  "hex_nat n = (if n < 16 then [hex_digit n] else hex_nat (n div 16) @ [hex_digit (n mod 16)])"

declare hex_nat.simps [simp del]

definition hex32 :: "nat \<Rightarrow> string" where
  "hex32 n = (let h = hex_nat n in replicate (32 - length h) (hex_digit 0) @ h)"

definition dashed :: "string \<Rightarrow> string" where
  "dashed h = (let k = length h - 24; t = drop k h in
     take k h @ ''-'' @ take 4 t @ ''-'' @ take 4 (drop 4 t) @ ''-'' @ take 4 (drop 8 t) @ ''-'' @ drop 12 t)"

definition uuid_str :: "uuid \<Rightarrow> string" where
  "uuid_str n = dashed (hex32 n)"

definition hex_val :: "char \<Rightarrow> nat" where
  "hex_val c = (let n = (of_char c :: nat) in if n < 58 then n - 48 else n - 87)"

definition hex_num :: "string \<Rightarrow> nat" where
  "hex_num s = foldl (\<lambda>a c. 16 * a + hex_val c) 0 s"

lemma of_char_hex_digit: "d < 16 \<Longrightarrow> (of_char (hex_digit d) :: nat) = (if d < 10 then 48 + d else 87 + d)"
  by (simp add: hex_digit_def)

lemma hex_val_digit [simp]: "d < 16 \<Longrightarrow> hex_val (hex_digit d) = d"
  by (simp add: hex_val_def Let_def of_char_hex_digit)

lemma hex_num_snoc [simp]: "hex_num (s @ [c]) = 16 * hex_num s + hex_val c"
  by (simp add: hex_num_def)

lemma hex_num_nat: "hex_num (hex_nat n) = n"
proof (induction n rule: hex_nat.induct)
  case (1 n)
  show ?case
  proof (cases "n < 16")
    case True
    then show ?thesis by (simp add: hex_nat.simps [of n] hex_num_def)
  next
    case False
    with 1 show ?thesis by (simp add: hex_nat.simps [of n])
  qed
qed

lemma hex_num_pad: "hex_num (replicate k (hex_digit 0) @ s) = hex_num s"
  by (induction k) (simp_all add: hex_num_def)

definition hex_char :: "char \<Rightarrow> bool" where
  "hex_char c = (let n = (of_char c :: nat) in (48 \<le> n \<and> n \<le> 57) \<or> (97 \<le> n \<and> n \<le> 102))"

lemma hex_char_digit: "d < 16 \<Longrightarrow> hex_char (hex_digit d)"
  by (auto simp: hex_char_def Let_def of_char_hex_digit)

lemma hex_char_nat: "\<forall>c \<in> set (hex_nat n). hex_char c"
proof (induction n rule: hex_nat.induct)
  case (1 n)
  show ?case
  proof (cases "n < 16")
    case True
    then show ?thesis by (simp add: hex_nat.simps [of n] hex_char_digit)
  next
    case False
    with 1 show ?thesis by (simp add: hex_nat.simps [of n] hex_char_digit)
  qed
qed

lemma hex_char_32: "\<forall>c \<in> set (hex32 n). hex_char c"
  using hex_char_nat [of n] by (auto simp: hex32_def Let_def hex_char_digit)

lemma hex32_length: "32 \<le> length (hex32 n)"
  by (simp add: hex32_def Let_def)

lemma no_dash: "hex_char c \<Longrightarrow> c \<noteq> CHR ''-''"
  by (auto simp: hex_char_def)

lemma undash: "filter (\<lambda>c. c \<noteq> CHR ''-'') (dashed h) = filter (\<lambda>c. c \<noteq> CHR ''-'') h"
proof -
  define k where "k = length h - 24"
  define t where "t = drop k h"
  have "h = take k h @ take 4 t @ take 4 (drop 4 t) @ take 4 (drop 8 t) @ drop 12 t"
  proof -
    have "t = take 4 t @ drop 4 t" "drop 4 t = take 4 (drop 4 t) @ drop 8 t"
      "drop 8 t = take 4 (drop 8 t) @ drop 12 t"
      using append_take_drop_id [of 4 "drop 4 t"] append_take_drop_id [of 4 "drop 8 t"] by simp_all
    then show ?thesis using append_take_drop_id [of k h] by (simp add: t_def)
  qed
  then have "filter (\<lambda>c. c \<noteq> CHR ''-'') h = filter (\<lambda>c. c \<noteq> CHR ''-'')
      (take k h @ take 4 t @ take 4 (drop 4 t) @ take 4 (drop 8 t) @ drop 12 t)" by (rule arg_cong)
  then show ?thesis by (simp add: dashed_def Let_def t_def k_def)
qed

lemma hex_num_uuid: "hex_num (filter (\<lambda>c. c \<noteq> CHR ''-'') (uuid_str n)) = n"
proof -
  have "filter (\<lambda>c. c \<noteq> CHR ''-'') (hex32 n) = hex32 n"
    using hex_char_32 [of n] no_dash by (simp add: filter_id_conv)
  then show ?thesis by (simp add: uuid_str_def undash) (simp add: hex32_def Let_def hex_num_pad hex_num_nat)
qed

lemma uuid_str_inject [simp]: "uuid_str m = uuid_str n \<longleftrightarrow> m = n"
  using hex_num_uuid [of m] hex_num_uuid [of n] by metis

lemma uuid_str_chars: "c \<in> set (uuid_str n) \<Longrightarrow> hex_char c \<or> c = CHR ''-''"
proof -
  assume c: "c \<in> set (uuid_str n)"
  have "set (dashed h) \<subseteq> insert (CHR ''-'') (set h)" for h
    by (auto simp: dashed_def Let_def dest: in_set_takeD in_set_dropD)
  with c hex_char_32 [of n] show ?thesis by (auto simp: uuid_str_def)
qed

lemma uuid_str_not_space: "c \<in> set (uuid_str n) \<Longrightarrow> \<not> is_space c"
  by (drule uuid_str_chars) (auto simp: hex_char_def is_space_def Let_def)

lemma uuid_str_nonempty [simp]: "uuid_str n \<noteq> []"
  by (simp add: uuid_str_def dashed_def Let_def)

lemma dropWhile_none: "(\<And>c. c \<in> set s \<Longrightarrow> \<not> P c) \<Longrightarrow> dropWhile P s = s"
  by (cases s) auto

lemma strip_no_space: "(\<And>c. c \<in> set s \<Longrightarrow> \<not> is_space c) \<Longrightarrow> str_strip s = s"
  using dropWhile_none [of s is_space] dropWhile_none [of "rev s" is_space] by (simp add: str_strip_def)

lemma uuid_str_strip [simp]: "str_strip (uuid_str n) = uuid_str n"
  by (rule strip_no_space) (rule uuid_str_not_space)

lemma uuid_str_hd: "hex_char (hd (uuid_str n))"
proof -
  have "hex32 n \<noteq> []" using hex32_length [of n] by auto
  then obtain c h where h: "hex32 n = c # h" by (cases "hex32 n") auto
  then have "0 < length (hex32 n) - 24" using hex32_length [of n] by simp
  then have "hd (uuid_str n) = c" unfolding uuid_str_def dashed_def Let_def h by (simp add: take_Cons')
  with hex_char_32 [of n] h show ?thesis by simp
qed

subsection \<open>\<open>UUID(s)\<close>\<close>

text \<open>
  \<open>uuid.UUID(s)\<close> succeeds on 32 hexadecimal digits, dashes and the decorations below ignored; the
  signs, blanks and underscores \<open>int(s, 16)\<close> would also take are not modelled.
\<close>

definition hex_any :: "char \<Rightarrow> bool" where
  "hex_any c = hex_char (chr_lower c)"

fun drop_sub :: "string \<Rightarrow> string \<Rightarrow> string" where
  "drop_sub sub [] = []"
| "drop_sub sub (c # cs) =
     (if sub \<noteq> [] \<and> starts_with sub (c # cs) then drop_sub sub (drop (length sub - 1) cs) else c # drop_sub sub cs)"

definition strip_braces :: "string \<Rightarrow> string" where
  "strip_braces s = (let brace = (\<lambda>c. c = CHR ''{'' \<or> c = CHR ''}'')
     in rev (dropWhile brace (rev (dropWhile brace s))))"

definition uuid_digits :: "string \<Rightarrow> string" where
  "uuid_digits s = filter (\<lambda>c. c \<noteq> CHR ''-'') (strip_braces (drop_sub ''uuid:'' (drop_sub ''urn:'' s)))"

definition is_uuid :: "string \<Rightarrow> bool" where
  "is_uuid s = (length (uuid_digits s) = 32 \<and> list_all hex_any (uuid_digits s))"

definition parse_uuid :: "string \<Rightarrow> uuid option" where
  "parse_uuid s = (if is_uuid s then Some (hex_num (str_lower (uuid_digits s))) else None)"

lemma drop_sub_id: "sub \<noteq> [] \<Longrightarrow> hd sub \<notin> set s \<Longrightarrow> drop_sub sub s = s"
proof (induction s)
  case (Cons c cs)
  then have "\<not> starts_with sub (c # cs)" by (cases sub) (auto simp: starts_with_def)
  with Cons show ?case by simp
qed simp

lemma length_hex_nat: "n < 16 ^ Suc k \<Longrightarrow> length (hex_nat n) \<le> Suc k"
proof (induction n arbitrary: k rule: hex_nat.induct)
  case (1 n)
  show ?case
  proof (cases "n < 16")
    case True
    then show ?thesis by (simp add: hex_nat.simps [of n])
  next
    case False
    then obtain j where j: "k = Suc j" using 1(2) by (cases k) auto
    have "n div 16 < 16 ^ Suc j" using 1(2) unfolding j by (simp add: less_mult_imp_div_less)
    from 1(1) [OF False this] False show ?thesis by (simp add: hex_nat.simps [of n] j)
  qed
qed

definition uuid_ok :: "uuid \<Rightarrow> bool" where
  "uuid_ok n \<longleftrightarrow> n < 16 ^ 32"

lemma parse_uuid_str [simp]:
  assumes "uuid_ok n"
  shows "parse_uuid (uuid_str n) = Some n"
proof -
  have no: "CHR ''u'' \<notin> set (uuid_str n)"
    using uuid_str_chars [of "CHR ''u''" n] by (auto simp: hex_char_def)
  have brace: "dropWhile (\<lambda>c. c = CHR ''{'' \<or> c = CHR ''}'') s = s" if "set s \<subseteq> set (uuid_str n)" for s
  proof (rule dropWhile_none)
    fix c assume "c \<in> set s"
    with that have "c \<in> set (uuid_str n)" by blast
    from uuid_str_chars [OF this] show "\<not> (c = CHR ''{'' \<or> c = CHR ''}'')" by (auto simp: hex_char_def)
  qed
  have "drop_sub ''uuid:'' (drop_sub ''urn:'' (uuid_str n)) = uuid_str n"
    by (simp add: drop_sub_id no)
  then have d: "uuid_digits (uuid_str n) = hex32 n"
    using undash [of "hex32 n"] hex_char_32 [of n] no_dash
    by (simp add: uuid_digits_def strip_braces_def Let_def brace) (simp add: uuid_str_def filter_id_conv)
  have len: "length (hex32 n) = 32"
    using length_hex_nat [of n 31] assms by (simp add: hex32_def Let_def uuid_ok_def)
  have low: "chr_lower c = c" if "hex_char c" for c
    using that by (auto simp: chr_lower_def hex_char_def Let_def)
  have "str_lower (hex32 n) = hex32 n"
    unfolding str_lower_def by (rule map_idI) (rule low, use hex_char_32 [of n] in blast)
  moreover have "list_all hex_any (hex32 n)"
    using hex_char_32 [of n] by (auto simp: list_all_iff hex_any_def low)
  ultimately show ?thesis
    using hex_num_pad [of "32 - length (hex_nat n)" "hex_nat n"] hex_num_nat [of n]
    by (simp add: parse_uuid_def is_uuid_def d len) (simp add: hex32_def Let_def)
qed

end
