(* ===== verification/Pipeline.thy ===== *)
theory Pipeline
  imports Uuids Normalizer Acl_Compiler Acl_Filter
begin

text \<open>
  The Block C pipeline (\<open>backend/app/services/pipeline.py\<close>): one raw object is normalized, the
  people behind it are resolved, its ACL is compiled, document and rows are stored, and the unified
  document for the index is built with the permissions of the compiled rows. The theory ends with
  what the components give together: the index and the read decision agree, and what a stored
  pending identity turns into when the person signs in (\<open>bind_pending_drive_shares\<close> of
  \<open>backend/app/storage/canonical_repo.py\<close>).
\<close>

subsection \<open>The unified document\<close>

record unified_document =
  ud_id :: string
  ud_title :: string
  ud_content :: string
  ud_source_type :: string
  ud_url :: string
  ud_permissions :: "string list"
  ud_created_at :: instant
  ud_updated_at :: instant
  ud_source_updated_at :: instant
  ud_structured_metadata :: pydict

definition USER_PREFIX :: string where "USER_PREFIX = ''user:''"
definition GROUP_PREFIX :: string where "GROUP_PREFIX = ''group:''"

definition entry_permission :: "acl_entry \<Rightarrow> string list" where
  "entry_permission e =
     (case ae_principal_id e of
        Some p \<Rightarrow> [USER_PREFIX @ uuid_str p]
      | None \<Rightarrow> (case ae_group_id e of Some g \<Rightarrow> [GROUP_PREFIX @ uuid_str g] | None \<Rightarrow> []))"

text \<open>\<open>list(set(permissions))\<close>: the order of a set is unspecified, and nothing below depends on it.\<close>

definition resolved_permissions :: "acl_entry list \<Rightarrow> string list" where
  "resolved_permissions entries = dedup (concat (map entry_permission entries))"

definition build_unified_document :: "canonical_document \<Rightarrow> acl_entry list \<Rightarrow> unified_document res" where
  "build_unified_document doc entries =
     (case cd_url doc of
        None \<Rightarrow> Inl (Raised ''ValidationError'')
      | Some url \<Rightarrow>
          Inr \<lparr>ud_id = cd_source_id doc, ud_title = cd_title doc, ud_content = cd_content doc,
               ud_source_type = cd_source_type doc, ud_url = url,
               ud_permissions = resolved_permissions entries, ud_created_at = cd_created_at doc,
               ud_updated_at = cd_updated_at doc, ud_source_updated_at = cd_source_updated_at doc,
               ud_structured_metadata = cd_structured_metadata doc\<rparr>)"

subsection \<open>Fields of the raw object\<close>

text \<open>Written over integers, so that the bound is not a unary numeral.\<close>

definition MAX_EXTRACTED_CHARS :: int where "MAX_EXTRACTED_CHARS = 500000"

definition cut_content :: "string \<Rightarrow> string" where
  "cut_content content =
     (if MAX_EXTRACTED_CHARS < int (length content) then take (nat MAX_EXTRACTED_CHARS) content else content)"

fun subject_of :: "pyval list \<Rightarrow> pyval res" where
  "subject_of [] = Inr (PStr [])"
| "subject_of (PDict d # hs) =
     rbind (py_meth (dict_get d ''name'' (PStr [])) str_lower) (\<lambda>n.
       if n = ''subject'' then Inr (py_or (dict_get d ''value'' (PStr [])) (PStr [])) else subject_of hs)"
| "subject_of (_ # hs) = subject_of hs"

definition extract_title :: "pydict \<Rightarrow> pyval res" where
  "extract_title raw =
     rbind (py_get (dict_get raw ''payload'' (PDict [])) ''headers'' (PList [])) (\<lambda>hs.
     rbind (py_iter hs) subject_of)"

definition title_of :: "pydict \<Rightarrow> pyval res" where
  "title_of raw =
     (let t = py_or (pget raw ''name'') (pget raw ''subject'') in
      if truthy t then Inr t else rbind (extract_title raw) (\<lambda>s. Inr (py_or s (PStr ''Untitled''))))"

text \<open>The MIME type seen in the bytes is the stated one; a test may inject another.\<close>

definition detect_mime :: "pydict \<Rightarrow> pyval \<times> pyval" where
  "detect_mime raw =
     (case map_of raw ''_test_detected_mime'' of
        Some detected \<Rightarrow> (detected, dict_get raw ''_test_mime_mismatch'' (PBool False))
      | None \<Rightarrow> (py_or (pget raw ''mimeType'') (PStr ''application/octet-stream''), PBool False))"

text \<open>
  \<open>re.sub(r'[+-]\d{2}:\d{2}$|Z$', '', ts)\<close>; \<open>iso_date\<close> stands for \<open>datetime.fromisoformat\<close> on the rest,
  read as UTC, and is \<open>None\<close> where it raises \<open>ValueError\<close>.
\<close>

definition is_offset :: "string \<Rightarrow> bool" where
  "is_offset t = (case t of
     [s, a, b, c, d, e] \<Rightarrow> (s = CHR ''+'' \<or> s = CHR ''-'') \<and> is_digit a \<and> is_digit b \<and> c = CHR '':'' \<and>
       is_digit d \<and> is_digit e
   | _ \<Rightarrow> False)"

definition strip_offset :: "string \<Rightarrow> string" where
  "strip_offset ts =
     (if is_offset (drop (length ts - 6) ts) then take (length ts - 6) ts
      else if ts \<noteq> [] \<and> last ts = CHR ''Z'' then butlast ts else ts)"

definition from_millis :: "int \<Rightarrow> instant res" where
  "from_millis ts =
     (if - 62135596800000 \<le> ts \<and> ts < 253402300800000 then Inr (ts div 1000) else Inl (Raised ''ValueError''))"

definition parse_timestamp :: "(string \<Rightarrow> instant option) \<Rightarrow> instant \<Rightarrow> pyval \<Rightarrow> instant res" where
  "parse_timestamp iso_date now ts =
     (case ts of
        PInt i \<Rightarrow> from_millis i
      | PBool b \<Rightarrow> from_millis (if b then 1 else 0)
      | PStr s \<Rightarrow> Inr (case iso_date (strip_offset s) of Some t \<Rightarrow> t | None \<Rightarrow> now)
      | _ \<Rightarrow> Inr now)"

definition parse_size :: "pyval \<Rightarrow> int" where
  "parse_size v =
     (case v of PInt i \<Rightarrow> i | PBool b \<Rightarrow> (if b then 1 else 0)
      | PStr s \<Rightarrow> (case py_int (PStr s) of Some i \<Rightarrow> i | None \<Rightarrow> 0) | _ \<Rightarrow> 0)"

subsection \<open>\<open>process_raw\<close>\<close>

record environment =
  en_registry :: normalizer_registry
  en_valid_email :: "string \<Rightarrow> bool"
  en_matchers :: "matcher list"
  en_iso :: "string \<Rightarrow> instant option"

record prepared =
  pp_content :: string
  pp_mime :: "pyval \<times> pyval"
  pp_metadata :: pydict
  pp_containers :: "string list"
  pp_hints :: "(string, identity_hint) dict"
  pp_strategy :: strategy

text \<open>Steps 1 to 6: what is read from the raw object before any state changes.\<close>

definition prepare :: "environment \<Rightarrow> pydict \<Rightarrow> string \<Rightarrow> prepared res" where
  "prepare env raw source_type =
     rbind (nr_get source_type (en_registry env)) (\<lambda>st.
     rbind (ns_extract_text st raw) (\<lambda>content.
     rbind (ns_map_metadata st raw) (\<lambda>metadata.
     rbind (ns_containers st raw) (\<lambda>containers.
     rbind (ns_identity_hints st raw) (\<lambda>hints.
       Inr \<lparr>pp_content = cut_content content, pp_mime = detect_mime raw, pp_metadata = metadata,
            pp_containers = containers, pp_hints = hints, pp_strategy = st\<rparr>)))))"

definition doc_id_of :: "pydict \<Rightarrow> string \<Rightarrow> string" where
  "doc_id_of raw source_type = source_type @ ''_'' @ py_str (dict_get raw ''id'' (PStr []))"

text \<open>Step 7: a role whose resolution raises is logged and left out.\<close>

definition resolve_role ::
    "environment \<Rightarrow> uuid \<Rightarrow> string \<Rightarrow> instant \<Rightarrow> (string, resolved_identity) dict \<times> world \<Rightarrow>
     string \<times> identity_hint \<Rightarrow> (string, resolved_identity) dict \<times> world" where
  "resolve_role env tenant_id doc_id now = (\<lambda>(found, w) (role, hint).
     case resolve (en_valid_email env) (en_matchers env) hint tenant_id (Some doc_id) None now w of
       (Inr ri, w) \<Rightarrow> (AList.update role ri found, w)
     | (Inl e, w) \<Rightarrow> (found, w))"

definition role_principal :: "(string, resolved_identity) dict \<Rightarrow> string \<Rightarrow> uuid option" where
  "role_principal found role =
     (case map_of found role of
        Some ri \<Rightarrow> if ri_is_pending ri then None else ri_principal_id ri
      | None \<Rightarrow> None)"

text \<open>
  Step 8: the fields, as the model class accepts them. Of the values pydantic coerces to \<open>bool\<close>
  only \<open>bool\<close> itself is modelled, for the mismatch a test injects.
\<close>

definition py_need_bool :: "pyval \<Rightarrow> bool res" where
  "py_need_bool v = (case v of PBool b \<Rightarrow> Inr b | _ \<Rightarrow> Inl (Raised ''ValidationError''))"

definition build_document ::
    "environment \<Rightarrow> pydict \<Rightarrow> string \<Rightarrow> uuid \<Rightarrow> instant \<Rightarrow> prepared \<Rightarrow> (string, resolved_identity) dict \<Rightarrow>
     canonical_document res" where
  "build_document env raw source_type tenant_id now pp found =
     rbind (parse_timestamp (en_iso env) now (py_or (pget raw ''createdTime'') (pget raw ''internalDate''))) (\<lambda>created.
     rbind (parse_timestamp (en_iso env) now (py_or (pget raw ''modifiedTime'') (pget raw ''internalDate''))) (\<lambda>source_updated.
     rbind (title_of raw) (\<lambda>title_val.
     rbind (py_need_str title_val) (\<lambda>title.
     rbind (py_need_str (dict_get raw ''id'' (PStr []))) (\<lambda>source_id.
     rbind (py_need_str (py_or (py_or (pget raw ''webViewLink'') (pget raw ''url''))
              (PStr (''https://'' @ source_type @ ''/'' @ source_id)))) (\<lambda>url.
     rbind (py_need_str (dict_get raw ''mimeType'' (PStr ''application/octet-stream''))) (\<lambda>mime.
     rbind (py_need_str (fst (pp_mime pp))) (\<lambda>detected.
     rbind (py_need_bool (snd (pp_mime pp))) (\<lambda>mismatch.
     rbind (py_opt_str (pget raw ''fileExtension'')) (\<lambda>extension.
       Inr \<lparr>cd_id = doc_id_of raw source_type, cd_source_type = source_type, cd_source_id = source_id,
            cd_tenant_id = tenant_id, cd_title = title, cd_content = pp_content pp, cd_url = Some url,
            cd_mime_type = mime, cd_detected_mime_type = detected, cd_mime_mismatch = mismatch,
            cd_file_extension = extension,
            cd_size_bytes = Some (parse_size (py_or (pget raw ''size'') (pget raw ''sizeEstimate''))),
            cd_created_at = created, cd_updated_at = now, cd_source_updated_at = source_updated,
            cd_owner_principal_id = role_principal found ''owner'',
            cd_creator_principal_id = role_principal found ''creator'',
            cd_last_modifier_principal_id = role_principal found ''last_modifier'',
            cd_structured_metadata = pp_metadata pp, cd_parent_ids = pp_containers pp\<rparr>))))))))))"

record pipeline_result =
  pl_document :: canonical_document
  pl_entries :: "acl_entry list"
  pl_unified :: unified_document

text \<open>Steps 10 to 13 change the state in this order; an exception leaves what was written before.\<close>

definition store_compiled ::
    "environment \<Rightarrow> canonical_document \<Rightarrow> (identity_hint \<times> permission_level) list \<Rightarrow> uuid \<Rightarrow> instant \<Rightarrow> world \<Rightarrow>
     pipeline_result res \<times> world" where
  "store_compiled env doc hints tenant_id now w =
     (let (entries, w) = compile (en_valid_email env) (en_matchers env) doc hints tenant_id now w;
          w = w\<lparr>w_repo := upsert_document doc (w_repo w)\<rparr>;
          w = w\<lparr>w_repo := replace_acl_entries (cd_id doc) entries (w_repo w)\<rparr>
      in (rbind (build_unified_document doc entries)
            (\<lambda>u. Inr \<lparr>pl_document = doc, pl_entries = entries, pl_unified = u\<rparr>), w))"

definition process_raw ::
    "environment \<Rightarrow> pydict \<Rightarrow> string \<Rightarrow> uuid \<Rightarrow> instant \<Rightarrow> world \<Rightarrow> pipeline_result res \<times> world" where
  "process_raw env raw source_type tenant_id now w =
     (case prepare env raw source_type of
        Inl e \<Rightarrow> (Inl e, w)
      | Inr pp \<Rightarrow>
          (let (found, w) = foldl (resolve_role env tenant_id (doc_id_of raw source_type) now) ([], w) (pp_hints pp)
           in case build_document env raw source_type tenant_id now pp found of
                Inl e \<Rightarrow> (Inl e, w)
              | Inr doc \<Rightarrow>
                  (case ns_permission_hints (pp_strategy pp) raw of
                     Inl e \<Rightarrow> (Inl e, w)
                   | Inr hints \<Rightarrow> store_compiled env doc hints tenant_id now w)))"

subsection \<open>Sign-in\<close>

text \<open>
  \<open>bind_pending_drive_shares\<close>, up to the re-indexing of the documents it returns. The code runs it
  on a SQL repository; these are the same methods on the in-memory one.
\<close>

definition bind_pending_drive_shares :: "uuid \<Rightarrow> string \<Rightarrow> uuid \<Rightarrow> instant \<Rightarrow> repo \<Rightarrow> repo \<times> string list" where
  "bind_pending_drive_shares tenant_id email who now r =
     (let (r, ids) = drain_pending_identity_queue tenant_id email who now r;
          (r, more) = (case get_principal_by_email email tenant_id r of
             Some ghost \<Rightarrow> if p_id ghost \<noteq> who then rebind_acl_principal tenant_id (p_id ghost) who r else (r, [])
           | None \<Rightarrow> (r, []))
      in (r, dedup (ids @ more)))"

subsection \<open>The index and the read decision agree\<close>

lemma build_document_Inr:
  "build_document env raw src t now pp found = Inr doc \<Longrightarrow>
     cd_id doc = doc_id_of raw src \<and> cd_source_type doc = src \<and> cd_tenant_id doc = t"
  by (auto simp: build_document_def rbind_Inr_iff)

lemma store_compiled_Inr:
  assumes "store_compiled env doc hints t now w = (Inr res, w')"
  obtains es w2 where "compile (en_valid_email env) (en_matchers env) doc hints t now w = (es, w2)"
    "w_repo w' = replace_acl_entries (cd_id doc) es (upsert_document doc (w_repo w2))"
    "pl_document res = doc" "pl_entries res = es" "ud_permissions (pl_unified res) = resolved_permissions es"
proof -
  obtain es w2 where c: "compile (en_valid_email env) (en_matchers env) doc hints t now w = (es, w2)" by fastforce
  show thesis
    by (rule that [OF c]; use assms c in
      \<open>auto simp: store_compiled_def Let_def rbind_Inr_iff build_unified_document_def split: option.splits\<close>)
qed

lemma process_raw_Inr:
  assumes "process_raw env raw src t now w = (Inr res, w')"
  obtains hints w1 where "store_compiled env (pl_document res) hints t now w1 = (Inr res, w')"
    "cd_id (pl_document res) = doc_id_of raw src" "cd_tenant_id (pl_document res) = t"
proof -
  obtain pp where pp: "prepare env raw src = Inr pp"
    using assms by (auto simp: process_raw_def split: sum.splits)
  obtain found w1 where f: "foldl (resolve_role env t (doc_id_of raw src) now) ([], w) (pp_hints pp) = (found, w1)"
    by fastforce
  obtain doc where doc: "build_document env raw src t now pp found = Inr doc"
    using assms by (auto simp: process_raw_def pp f split: sum.splits)
  obtain hints where s: "store_compiled env doc hints t now w1 = (Inr res, w')"
    using assms by (auto simp: process_raw_def pp f doc split: sum.splits)
  then have "pl_document res = doc" by (rule store_compiled_Inr)
  with s build_document_Inr [OF doc] show thesis by (intro that [of hints w1]) simp_all
qed

lemma user_permission_iff:
  "USER_PREFIX @ uuid_str who \<in> set (resolved_permissions es) \<longleftrightarrow> (\<exists>e \<in> set es. ae_principal_id e = Some who)"
proof -
  have "USER_PREFIX @ uuid_str who \<in> set (entry_permission e) \<longleftrightarrow> ae_principal_id e = Some who" for e
    by (cases "ae_principal_id e"; cases "ae_group_id e") (auto simp: entry_permission_def USER_PREFIX_def GROUP_PREFIX_def)
  then show ?thesis by (simp add: resolved_permissions_def)
qed

lemma sole_id_replace: "sole_id d (replace_acl_entries d es r) \<longleftrightarrow> sole_id d r"
  by (auto simp: sole_id_def get_acl_entries_def replace_acl_entries_def dict_get_update)

lemma sole_id_upsert [simp]: "sole_id d (upsert_document doc r) \<longleftrightarrow> sole_id d r"
  by (simp add: sole_id_def get_acl_entries_def upsert_document_def)

lemma reads_are_user_permissions:
  assumes "process_raw env raw src t now w = (Inr res, w')" "sole_id (doc_id_of raw src) (w_repo w')"
  shows "principal_can_read_document t who (doc_id_of raw src) (w_repo w') \<longleftrightarrow>
    USER_PREFIX @ uuid_str who \<in> set (ud_permissions (pl_unified res))"
proof -
  obtain hints w1 where s: "store_compiled env (pl_document res) hints t now w1 = (Inr res, w')"
    and d: "cd_id (pl_document res) = doc_id_of raw src" "cd_tenant_id (pl_document res) = t"
    using assms(1) by (rule process_raw_Inr)
  obtain es w2 where c: "compile (en_valid_email env) (en_matchers env) (pl_document res) hints t now w1 = (es, w2)"
    and r: "w_repo w' = replace_acl_entries (cd_id (pl_document res)) es (upsert_document (pl_document res) (w_repo w2))"
    and u: "ud_permissions (pl_unified res) = resolved_permissions es"
    using s by (rule store_compiled_Inr)
  have "sole_id (cd_id (pl_document res)) (upsert_document (pl_document res) (w_repo w2))"
    using assms(2) unfolding r d [symmetric] sole_id_replace .
  from read_after_replace [OF this compile_entries_of [OF c d(2)], of who] user_permission_iff [of who es]
  show ?thesis unfolding r u d(1) [symmetric] by simp
qed

definition sub_claims :: "uuid \<Rightarrow> pydict" where
  "sub_claims who = [(''sub'', PStr (uuid_str who))]"

lemma uuid_str_not_star: "uuid_str n \<noteq> ''*''"
  using uuid_str_hd [of n] by (auto simp: hex_char_def)

lemma strip_user: "str_strip (USER_PREFIX @ uuid_str n) = USER_PREFIX @ uuid_str n"
proof (rule strip_no_space)
  fix c assume "c \<in> set (USER_PREFIX @ uuid_str n)"
  then show "\<not> is_space c" using uuid_str_not_space [of c n] by (auto simp: USER_PREFIX_def is_space_def)
qed

lemma sub_terms: "acl_terms_from_jwt (sub_claims who) = [uuid_str who, USER_PREFIX @ uuid_str who]"
proof -
  have ne: "USER_PREFIX @ uuid_str who \<noteq> uuid_str who" "USER_PREFIX @ uuid_str who \<noteq> ''*''"
    by (simp_all add: USER_PREFIX_def)
  then show ?thesis
    using strip_user [of who] uuid_str_not_star [of who]
    by (simp add: acl_terms_from_jwt_def sub_claims_def jwt_claimed_def jwt_principal_def jwt_email_def
        jwt_groups_def jwt_add_def Let_def py_or_def USER_PREFIX_def)
qed

lemma permission_prefix: "p \<in> set (resolved_permissions es) \<Longrightarrow> starts_with USER_PREFIX p \<or> starts_with GROUP_PREFIX p"
  by (auto simp: resolved_permissions_def entry_permission_def split: option.splits)

lemma visible_to_sub:
  "document_is_visible [uuid_str who, USER_PREFIX @ uuid_str who] (Some (resolved_permissions es)) \<longleftrightarrow>
     USER_PREFIX @ uuid_str who \<in> set (resolved_permissions es)"
proof -
  let ?u = "[uuid_str who, USER_PREFIX @ uuid_str who]"
  have p: "p \<noteq> [] \<and> \<not> starts_with DENY_PREFIX p \<and> p \<noteq> uuid_str who" if m: "p \<in> set (resolved_permissions es)" for p
  proof -
    obtain q where "p = USER_PREFIX @ q \<or> p = GROUP_PREFIX @ q"
      using permission_prefix [OF m] unfolding starts_with_iff by blast
    then have "p \<noteq> [] \<and> (hd p = CHR ''u'' \<or> hd p = CHR ''g'')"
      by (auto simp: USER_PREFIX_def GROUP_PREFIX_def)
    moreover have "hd (uuid_str who) \<noteq> CHR ''u'' \<and> hd (uuid_str who) \<noteq> CHR ''g''"
      using uuid_str_hd [of who] by (auto simp: hex_char_def)
    moreover have "starts_with DENY_PREFIX p \<Longrightarrow> hd p = CHR ''d''"
      by (auto simp: starts_with_iff DENY_PREFIX_def)
    ultimately show ?thesis by auto
  qed
  have deny: "t \<in> set (deny_terms_for ?u) \<Longrightarrow> starts_with DENY_PREFIX t" for t
    by (auto simp: deny_terms_for_def split: if_splits)
  have "\<not> is_fail_closed ?u" "\<not> is_bypass ?u"
    using uuid_str_not_star [of who] by (auto simp: is_fail_closed_def is_bypass_def USER_PREFIX_def)
  from visible_unfold [OF this, of "resolved_permissions es"] p deny show ?thesis by auto
qed

text \<open>
  Property C14: the index and the read decision agree. After a raw object has gone through the
  pipeline, a principal can read the document in the repository exactly when the permissions of the
  unified document, which the index stores, name the principal; and then exactly those callers whose
  token carries the principal as subject see the indexed document in a search.
\<close>

theorem index_agrees_with_reads:
  assumes "process_raw env raw src t now w = (Inr res, w')" "sole_id (doc_id_of raw src) (w_repo w')"
  shows "(principal_can_read_document t who (doc_id_of raw src) (w_repo w') \<longleftrightarrow>
      USER_PREFIX @ uuid_str who \<in> set (ud_permissions (pl_unified res))) \<and>
    (principal_can_read_document t who (doc_id_of raw src) (w_repo w') \<longleftrightarrow>
      document_is_visible (acl_terms_from_jwt (sub_claims who)) (Some (ud_permissions (pl_unified res))))"
proof -
  have r: "principal_can_read_document t who (doc_id_of raw src) (w_repo w') \<longleftrightarrow>
      USER_PREFIX @ uuid_str who \<in> set (ud_permissions (pl_unified res))"
    using assms by (rule reads_are_user_permissions)
  obtain hints w1 where "store_compiled env (pl_document res) hints t now w1 = (Inr res, w')"
    using assms(1) by (rule process_raw_Inr)
  then obtain es where u: "ud_permissions (pl_unified res) = resolved_permissions es" by (rule store_compiled_Inr)
  from r visible_to_sub [of who es] show ?thesis unfolding sub_terms u by simp
qed

definition demo_env :: environment where
  "demo_env = \<lparr>en_registry = default_registry 500000 (\<lambda>_. Inr []), en_valid_email = (\<lambda>_. True),
     en_matchers = [EmailMatcher, UsernameMatcher], en_iso = (\<lambda>_. None)\<rparr>"

definition demo_start :: world where
  "demo_start = init_world\<lparr>w_repo := register_login_user 1 ''ann@x.org'' 7 empty_repo, w_next_uuid := 50\<rparr>"

definition demo_run :: "pipeline_result res \<times> world" where
  "demo_run = process_raw demo_env demo_file ''google_drive'' 1 9 demo_start"

lemma demo_run_result: "(case fst demo_run of Inr res \<Rightarrow> map ae_principal_id (pl_entries res) | Inl _ \<Rightarrow> []) = [Some 7]"
  by code_simp

lemma demo_run_sole: "sole_id (doc_id_of demo_file ''google_drive'') (w_repo (snd demo_run))"
  by code_simp

theorem index_agrees_with_reads_witness:
  "principal_can_read_document 1 7 ''google_drive_f1'' (w_repo (snd demo_run)) \<and>
   \<not> principal_can_read_document 1 8 ''google_drive_f1'' (w_repo (snd demo_run))"
proof -
  obtain res where res: "fst demo_run = Inr res"
    using demo_run_result by (cases "fst demo_run") simp_all
  then have run: "process_raw demo_env demo_file ''google_drive'' 1 9 demo_start = (Inr res, snd demo_run)"
    by (metis demo_run_def prod.collapse)
  have d: "doc_id_of demo_file ''google_drive'' = ''google_drive_f1''" by code_simp
  have who: "map ae_principal_id (pl_entries res) = [Some 7]" using demo_run_result by (simp add: res)
  obtain hints w1 where s: "store_compiled demo_env (pl_document res) hints 1 9 w1 = (Inr res, snd demo_run)"
    using run by (rule process_raw_Inr)
  have u: "ud_permissions (pl_unified res) = resolved_permissions (pl_entries res)"
    by (rule store_compiled_Inr [OF s]) simp
  have perm: "USER_PREFIX @ uuid_str n \<in> set (ud_permissions (pl_unified res)) \<longleftrightarrow> n = 7" for n
  proof -
    have "(\<exists>e \<in> set (pl_entries res). ae_principal_id e = Some n) \<longleftrightarrow> Some n \<in> set (map ae_principal_id (pl_entries res))"
      unfolding set_map image_iff eq_commute [of "Some n"] ..
    then show ?thesis unfolding u user_permission_iff who by auto
  qed
  show ?thesis
    using index_agrees_with_reads [OF run demo_run_sole, of 7] index_agrees_with_reads [OF run demo_run_sole, of 8] perm
    unfolding d by simp
qed

subsection \<open>Pending roles become grants\<close>

text \<open>
  A person named only as the last editor of a Drive file gets to read it. The file is
  shared with ann alone and was last changed by zoe, who has no account and no share. Resolving the
  editor's role queues zoe's address for the document, and when zoe signs in the queue is drained
  into a READ row: after the sign-in zoe reads a document that is not shared with her.
\<close>

theorem last_editor_gains_access:
  "let (r, ids) = bind_pending_drive_shares 1 ''zoe@x.org'' 8 20 (w_repo (snd demo_run))
   in \<not> principal_can_read_document 1 8 ''google_drive_f1'' (w_repo (snd demo_run)) \<and>
      principal_can_read_document 1 8 ''google_drive_f1'' r \<and> ids = [''google_drive_f1''] \<and>
      (case drive_permission_hints demo_file of Inr hs \<Rightarrow> map (ih_email \<circ> fst) hs | Inl _ \<Rightarrow> []) = [Some ''ann@x.org'']"
  by code_simp

text \<open>
  Time stamps lose their offset: whatever offset ends the string, the same instant is stored.
\<close>

lemma timestamp_ignores_offset:
  assumes "is_offset z" "is_offset z'"
  shows "parse_timestamp f now (PStr (s @ z)) = parse_timestamp f now (PStr (s @ z'))"
proof -
  have len: "length z = 6" if "is_offset z" for z using that by (auto simp: is_offset_def split: list.splits)
  have "strip_offset (s @ z) = s" if "is_offset z" for z using that len [OF that] by (simp add: strip_offset_def)
  with assms show ?thesis by (simp add: parse_timestamp_def)
qed

end
