(* ===== verification/Chunking.thy ===== *)
theory Chunking
  imports Py_Values
begin

text \<open>
  The chunkers (\<open>backend/app/services/chunking/prose.py\<close> and \<open>code.py\<close>): text is cut into
  sentences or lines, which are packed greedily into chunks of a wanted size; prose chunks repeat
  the last sentence of their predecessor. Sizes are integers, as in the code. The MD5 digest that
  names a chunk is a parameter.
\<close>

subsection \<open>Sentences\<close>

text \<open>\<open>re.split(r'(?<=[.!?])\s+', content)\<close>; the first argument is the current piece, reversed.\<close>

definition ends_sentence :: "string \<Rightarrow> bool" where
  "ends_sentence rcur = (case rcur of [] \<Rightarrow> False | c # _ \<Rightarrow> c = CHR ''.'' \<or> c = CHR ''!'' \<or> c = CHR ''?'')"

function sentences_from :: "string \<Rightarrow> string \<Rightarrow> string list" where
  "sentences_from rcur [] = [rev rcur]"
| "sentences_from rcur (c # cs) =
     (if is_space c \<and> ends_sentence rcur then rev rcur # sentences_from [] (dropWhile is_space cs)
      else sentences_from (c # rcur) cs)"
  by pat_completeness auto
termination sentences_from
  by (relation "measure (\<lambda>(_, cs). length cs)") (auto simp: le_imp_less_Suc length_dropWhile_le)

definition split_sentences :: "string \<Rightarrow> string list" where
  "split_sentences content = sentences_from [] content"

subsection \<open>Packing\<close>

text \<open>
  One turn of the loop over the pieces; the state holds the finished groups, the current group and
  \<open>current_len\<close>. The code chunker has no overlap.
\<close>

definition pack_step :: "int \<Rightarrow> int \<Rightarrow> string list list \<times> string list \<times> int \<Rightarrow> string \<Rightarrow>
    string list list \<times> string list \<times> int" where
  "pack_step chunk_size overlap = (\<lambda>(out, cur, n) piece.
     let (out, cur, n) =
       (if n + int (length piece) > chunk_size \<and> cur \<noteq> []
        then (if overlap > 0 then (out @ [cur], [last cur], int (length (last cur))) else (out @ [cur], [], 0))
        else (out, cur, n))
     in (out, cur @ [piece], n + int (length piece) + 1))"

definition pack :: "int \<Rightarrow> int \<Rightarrow> string list \<Rightarrow> string list list" where
  "pack chunk_size overlap pieces =
     (let (out, cur, n) = foldl (pack_step chunk_size overlap) ([], [], 0) pieces
      in if cur \<noteq> [] then out @ [cur] else out)"

subsection \<open>The chunks\<close>

record piece =
  pc_id :: string
  pc_content :: string
  pc_start :: int
  pc_end :: int
  pc_ends_mid_sentence :: bool
  pc_parent_doc_id :: string

definition chunk_id :: "(string \<Rightarrow> string) \<Rightarrow> nat \<Rightarrow> string \<Rightarrow> string" where
  "chunk_id md5_hex i chunk_text = take 16 (md5_hex (nat_str i @ take 50 chunk_text))"

definition prose_piece :: "(string \<Rightarrow> string) \<Rightarrow> string \<Rightarrow> nat \<times> string list \<Rightarrow> piece" where
  "prose_piece md5_hex parent_doc_id = (\<lambda>(i, g).
     let chunk_text = join '' '' g in
     \<lparr>pc_id = chunk_id md5_hex i chunk_text, pc_content = chunk_text, pc_start = 0,
      pc_end = int (length chunk_text), pc_ends_mid_sentence = False, pc_parent_doc_id = parent_doc_id\<rparr>)"

definition prose_chunk :: "(string \<Rightarrow> string) \<Rightarrow> int \<Rightarrow> int \<Rightarrow> string \<Rightarrow> string \<Rightarrow> piece list" where
  "prose_chunk md5_hex chunk_size overlap content parent_doc_id =
     (if content = [] then []
      else map (prose_piece md5_hex parent_doc_id)
             (enumerate 0 (pack chunk_size overlap (split_sentences content))))"

record code_piece =
  cp_id :: string
  cp_content :: string
  cp_is_truncated :: bool
  cp_language :: string
  cp_start_line :: int
  cp_end_line :: int

definition newline :: string where "newline = [char_of (10 :: nat)]"

definition code_piece_of :: "(string \<Rightarrow> string) \<Rightarrow> string \<Rightarrow> nat \<times> string list \<Rightarrow> code_piece" where
  "code_piece_of md5_hex language = (\<lambda>(i, g).
     let chunk_text = join newline g in
     \<lparr>cp_id = chunk_id md5_hex i chunk_text, cp_content = chunk_text, cp_is_truncated = False,
      cp_language = language, cp_start_line = 0, cp_end_line = int (length g)\<rparr>)"

definition code_chunk :: "(string \<Rightarrow> string) \<Rightarrow> int \<Rightarrow> string \<Rightarrow> string \<Rightarrow> code_piece list" where
  "code_chunk md5_hex chunk_size content language =
     (if content = [] then []
      else map (code_piece_of md5_hex language)
             (enumerate 0 (pack chunk_size 0 (split_on (char_of (10 :: nat)) content))))"

subsection \<open>Nothing is lost\<close>

text \<open>The pieces of a list of groups, each group after the first without the repeated piece.\<close>

definition unpack :: "bool \<Rightarrow> string list list \<Rightarrow> string list" where
  "unpack ov gs = (case gs of [] \<Rightarrow> [] | g # gs \<Rightarrow> g @ concat (map (if ov then tl else (\<lambda>g. g)) gs))"

lemma unpack_snoc: "unpack ov (gs @ [g]) = (if gs = [] then g else unpack ov gs @ (if ov then tl g else g))"
  by (cases gs) (auto simp: unpack_def)

definition chained :: "bool \<Rightarrow> string list list \<Rightarrow> bool" where
  "chained ov gs = (ov \<longrightarrow> successively (\<lambda>a b. hd b = last a) gs)"

definition packed :: "int \<Rightarrow> bool \<Rightarrow> string list list \<times> string list \<times> int \<Rightarrow> string list \<Rightarrow> bool" where
  "packed chunk_size ov s pre = (case s of (out, cur, n) \<Rightarrow>
     (cur = [] \<longrightarrow> out = [] \<and> pre = [] \<and> n = 0) \<and>
     (cur \<noteq> [] \<longrightarrow> unpack ov (out @ [cur]) = pre \<and> chained ov (out @ [cur]) \<and> [] \<notin> set out))"

lemma pack_step_packed:
  assumes "packed z (0 < ov) s pre"
  shows "packed z (0 < ov) (pack_step z ov s p) (pre @ [p])"
proof -
  obtain out cur n where s: "s = (out, cur, n)" by (cases s)
  show ?thesis
  proof (cases "cur = []")
    case True
    with assms show ?thesis by (simp add: packed_def s pack_step_def unpack_def chained_def)
  next
    case False
    then have u: "unpack (0 < ov) (out @ [cur]) = pre" and c: "chained (0 < ov) (out @ [cur])" and o: "[] \<notin> set out"
      using assms by (simp_all add: packed_def s)
    show ?thesis
    proof (cases "n + int (length p) > z")
      case True
      with False u c o show ?thesis
        by (simp add: packed_def s pack_step_def unpack_snoc chained_def successively_append_iff split: if_splits)
    next
      case not_full: False
      with False u c o show ?thesis
        by (auto simp: packed_def s pack_step_def unpack_snoc chained_def successively_append_iff)
    qed
  qed
qed

lemma pack_packed: "packed z (0 < ov) (foldl (pack_step z ov) ([], [], 0) ps) ps"
proof (induction ps rule: rev_induct)
  case Nil
  show ?case by (simp add: packed_def)
next
  case (snoc p ps)
  from pack_step_packed [OF snoc] show ?case by simp
qed

lemma pack_unpack: "unpack (0 < ov) (pack z ov ps) = ps \<and> chained (0 < ov) (pack z ov ps) \<and> [] \<notin> set (pack z ov ps)"
  using pack_packed [of z ov ps]
  by (auto simp: pack_def packed_def unpack_def chained_def split: prod.splits)

definition ink :: "string \<Rightarrow> string" where
  "ink s = filter (\<lambda>c. \<not> is_space c) s"

lemma ink_Nil [simp]: "ink [] = []"
  by (simp add: ink_def)

lemma ink_append [simp]: "ink (s @ t) = ink s @ ink t"
  by (simp add: ink_def)

lemma ink_dropWhile [simp]: "ink (dropWhile is_space s) = ink s"
  by (induction s) (simp_all add: ink_def)

lemma ink_sentences: "ink (concat (sentences_from rcur s)) = ink (rev rcur) @ ink s"
proof (induction rcur s rule: sentences_from.induct)
  case (2 rcur c cs)
  show ?case
  proof (cases "is_space c \<and> ends_sentence rcur")
    case True
    with 2 have "ink (concat (sentences_from rcur (c # cs))) = ink (rev rcur) @ ink cs" by simp
    with True show ?thesis by (simp add: ink_def)
  next
    case False
    with 2 have "ink (concat (sentences_from rcur (c # cs))) = ink (rev (c # rcur)) @ ink cs" by auto
    then show ?thesis by (simp add: ink_def)
  qed
qed (simp add: ink_def)

lemma contents_enumerate:
  "map pc_content (map (prose_piece h d) (enumerate k gs)) = map (join '' '') gs"
  "map cp_content (map (code_piece_of h l) (enumerate k gs)) = map (join newline) gs"
  by (induction gs arbitrary: k) (simp_all add: prose_piece_def code_piece_of_def Let_def)

definition prose_groups :: "int \<Rightarrow> int \<Rightarrow> string \<Rightarrow> string list list" where
  "prose_groups chunk_size overlap content = pack chunk_size overlap (split_sentences content)"

text \<open>
  The prose chunker loses no text and repeats only overlaps. Each chunk is a non-empty
  run of sentences joined by blanks; with overlap every chunk after the first starts with the last
  sentence of its predecessor, and without these repeated sentences the runs are the sentences of
  the text, in order; the sentences have all its characters other than white space.
\<close>

theorem prose_chunks_cover_the_text:
  assumes "content \<noteq> []"
  shows "map pc_content (prose_chunk md5_hex z ov content d) = map (join '' '') (prose_groups z ov content) \<and>
    [] \<notin> set (prose_groups z ov content) \<and> chained (0 < ov) (prose_groups z ov content) \<and>
    unpack (0 < ov) (prose_groups z ov content) = split_sentences content \<and>
    ink (concat (split_sentences content)) = ink content"
proof -
  have "ink (concat (split_sentences content)) = ink content"
    unfolding split_sentences_def ink_sentences by (simp add: ink_def)
  moreover have "map pc_content (prose_chunk md5_hex z ov content d) = map (join '' '') (prose_groups z ov content)"
    using assms contents_enumerate(1) [of md5_hex d 0 "prose_groups z ov content"]
    by (simp add: prose_chunk_def prose_groups_def)
  ultimately show ?thesis using pack_unpack [of ov z "split_sentences content"] by (simp add: prose_groups_def)
qed

definition demo_text :: string where "demo_text = ''One two. Three!  Four five six? Seven''"

theorem prose_chunks_cover_the_text_witness:
  "map pc_content (prose_chunk (\<lambda>s. s) 20 5 demo_text ''d'') =
     [''One two. Three!'', ''Three! Four five six?'', ''Four five six? Seven''] \<and>
   unpack True (prose_groups 20 5 demo_text) = [''One two.'', ''Three!'', ''Four five six?'', ''Seven'']"
proof -
  have ne: "demo_text \<noteq> []" by (simp add: demo_text_def)
  have g: "map (join '' '') (prose_groups 20 5 demo_text) =
      [''One two. Three!'', ''Three! Four five six?'', ''Four five six? Seven'']" by code_simp
  have sp: "split_sentences demo_text = [''One two.'', ''Three!'', ''Four five six?'', ''Seven'']" by code_simp
  from prose_chunks_cover_the_text [OF ne, of "\<lambda>s. s" 20 5 "''d''"] g sp show ?thesis by simp
qed

text \<open>
  The code chunker is a partition of the lines. The chunks' lines, joined again, are
  the text, and their line counts add up.
\<close>

theorem code_chunks_partition_the_lines:
  "join newline (concat (pack z 0 (split_on (char_of (10 :: nat)) content))) = content \<and>
   map cp_content (code_chunk md5_hex z content l) =
     (if content = [] then [] else map (join newline) (pack z 0 (split_on (char_of (10 :: nat)) content)))"
proof -
  have "concat gs = unpack False gs" for gs by (cases gs) (simp_all add: unpack_def)
  with pack_unpack [of 0 z "split_on (char_of (10 :: nat)) content"]
  have "concat (pack z 0 (split_on (char_of (10 :: nat)) content)) = split_on (char_of (10 :: nat)) content" by simp
  then show ?thesis
    using contents_enumerate(2) [of md5_hex l 0] by (simp add: newline_def [symmetric] code_chunk_def) (simp add: newline_def)
qed

subsection \<open>Chunk sizes\<close>

definition weight :: "string list \<Rightarrow> int" where
  "weight ps = sum_list (map (\<lambda>p. int (length p) + 1) ps)"

lemma weight_simps [simp]: "weight [] = 0" "weight (p # ps) = int (length p) + 1 + weight ps"
  "weight (ps @ qs) = weight ps + weight qs"
  by (simp_all add: weight_def)

lemma length_join: "ps \<noteq> [] \<Longrightarrow> int (length (join [c] ps)) = weight ps - 1"
proof (induction ps)
  case (Cons p ps)
  then show ?case by (cases ps) simp_all
qed simp

definition fits :: "int \<Rightarrow> bool \<Rightarrow> string list \<Rightarrow> bool" where
  "fits z ov g \<longleftrightarrow> weight g - 1 \<le> (if ov then z + 1 else z) \<or> length g \<le> (if ov then 2 else 1)"

definition sized :: "int \<Rightarrow> bool \<Rightarrow> string list list \<times> string list \<times> int \<Rightarrow> bool" where
  "sized z ov s = (case s of (out, cur, n) \<Rightarrow>
     (\<forall>g \<in> set out. fits z ov g) \<and> fits z ov cur \<and> (n = weight cur \<or> (ov \<and> n = weight cur - 1)))"

lemma pack_step_sized:
  assumes "sized z (0 < ov) s" "0 \<le> z"
  shows "sized z (0 < ov) (pack_step z ov s p)"
proof -
  obtain out cur n where s: "s = (out, cur, n)" by (cases s)
  from assms(1) have out: "\<forall>g \<in> set out. fits z (0 < ov) g" and cur: "fits z (0 < ov) cur"
    and n: "n = weight cur \<or> (0 < ov \<and> n = weight cur - 1)" by (simp_all add: sized_def s)
  show ?thesis
  proof (cases "n + int (length p) > z \<and> cur \<noteq> []")
    case True
    with out cur show ?thesis by (auto simp: sized_def s pack_step_def fits_def)
  next
    case False
    with n have "fits z (0 < ov) (cur @ [p])" by (auto simp: fits_def)
    with False out n show ?thesis by (auto simp: sized_def s pack_step_def)
  qed
qed

lemma pack_fits: "0 \<le> z \<Longrightarrow> g \<in> set (pack z ov ps) \<Longrightarrow> fits z (0 < ov) g"
proof -
  assume z: "0 \<le> z" and g: "g \<in> set (pack z ov ps)"
  have "sized z (0 < ov) (foldl (pack_step z ov) ([], [], 0) ps)"
    by (rule foldl_invariant) (simp add: sized_def fits_def, rule pack_step_sized [OF _ z])
  with g show ?thesis by (auto simp: pack_def sized_def split: prod.splits if_splits)
qed

text \<open>
  The size of a chunk. A code chunk of more than one line is within the wanted size; a
  prose chunk with overlap can exceed it by one character, and without limit when it has only two
  sentences, of which the first is the overlap.
\<close>

theorem chunk_sizes_are_bounded:
  assumes "0 \<le> z" "g \<in> set (pack z ov ps)"
  shows "int (length (join [c] g)) \<le> (if 0 < ov then z + 1 else z) \<or> length g \<le> (if 0 < ov then 2 else 1)"
proof -
  have "g \<noteq> []" using assms(2) pack_unpack [of ov z ps] by auto
  from length_join [OF this, of c] pack_fits [OF assms] show ?thesis by (simp add: fits_def)
qed

definition tight_pieces :: "string list" where
  "tight_pieces = [''aaaaaa'', ''bbb'', ''ccc'', ''ddd'']"

theorem chunk_sizes_are_bounded_witness:
  "[''bbb'', ''ccc'', ''ddd''] \<in> set (pack 10 1 tight_pieces) \<and>
   int (length (join '' '' [''bbb'', ''ccc'', ''ddd''])) = 10 + 1 \<and>
   map (length \<circ> join '' '') (pack 4 1 [''aaaaaa'', ''bbbbbb'']) = [6, 13]"
proof -
  have m: "[''bbb'', ''ccc'', ''ddd''] \<in> set (pack 10 1 tight_pieces)" by code_simp
  have l: "map (length \<circ> join '' '') (pack 4 1 [''aaaaaa'', ''bbbbbb'']) = [6, 13]" by code_simp
  have z: "(0 :: int) \<le> 10" by simp
  from chunk_sizes_are_bounded [OF z m, of "CHR '' ''"] m l show ?thesis by simp
qed

end
