(* ===== verification/Indexer.thy ===== *)
theory Indexer
  imports Pipeline Chunking Doc_Reader
begin

text \<open>
  The blind indexer (\<open>backend/app/services/indexer.py\<close>) over the stores it writes: the
  \<open>documents\<close> collection (\<open>backend/app/storage/qdrant_client.py\<close>), the process-local index
  (\<open>backend/app/services/ingest/local_index.py\<close>), the lexical index, the chunk vectors and the
  document store. The vector database is seen through its documented contract: an upsert replaces
  the point with the same identifier. Embeddings and the digest functions are parameters; time stamps are kept as instants
  where the code writes them in ISO format.
\<close>

subsection \<open>Point identifiers of the \<open>documents\<close> collection\<close>

datatype point_id = PointNum nat | PointUuid string

text \<open>\<open>uuid5\<close> hashes a name.\<close>

definition to_qdrant_id :: "(string \<Rightarrow> string) \<Rightarrow> string \<Rightarrow> point_id" where
  "to_qdrant_id uuid5 raw =
     (if raw \<noteq> [] \<and> list_all is_digit raw
      then PointNum (case parse_nat raw of Some n \<Rightarrow> n | None \<Rightarrow> 0)
      else if is_uuid raw then PointUuid raw else PointUuid (uuid5 raw))"

subsection \<open>Documents as they are indexed\<close>

record processed_doc =
  pd_id :: string
  pd_title :: string
  pd_content :: string
  pd_source_type :: string
  pd_url :: string
  pd_permissions :: "string list"
  pd_acl_terms :: "string list"
  pd_created_at :: instant
  pd_updated_at :: instant
  pd_source_updated_at :: instant
  pd_metadata :: pydict
  pd_tenant_id :: string

definition doc_acl_terms :: "string list \<Rightarrow> string list \<Rightarrow> string list" where
  "doc_acl_terms permissions extra_acl = merge_acl_terms [Some permissions, Some extra_acl]"

definition processed_of :: "(string \<Rightarrow> string list) \<Rightarrow> string \<Rightarrow> string list \<Rightarrow> unified_document \<Rightarrow> processed_doc" where
  "processed_of allowed_keys tenant_id extra_acl doc =
     (let permissions = dedup (ud_permissions doc @ extra_acl) in
      \<lparr>pd_id = ud_id doc, pd_title = ud_title doc, pd_content = ud_content doc,
       pd_source_type = ud_source_type doc, pd_url = ud_url doc, pd_permissions = permissions,
       pd_acl_terms = doc_acl_terms permissions [], pd_created_at = ud_created_at doc,
       pd_updated_at = ud_updated_at doc, pd_source_updated_at = ud_source_updated_at doc,
       pd_metadata = filter (\<lambda>(k, _). k \<in> set (allowed_keys (ud_source_type doc))) (ud_structured_metadata doc),
       pd_tenant_id = tenant_id\<rparr>)"

subsection \<open>The process-local index\<close>

record local_doc =
  ld_document_id :: string
  ld_title :: string
  ld_body_text :: string
  ld_content :: string
  ld_acl_terms :: "string list"
  ld_source :: string

type_synonym local_index = "(string, (string, local_doc) dict) dict"

definition li_upsert :: "string \<Rightarrow> local_doc \<Rightarrow> local_index \<Rightarrow> local_index" where
  "li_upsert tenant_id doc idx =
     (if tenant_id = [] \<or> ld_document_id doc = [] then idx
      else AList.update tenant_id
             (AList.update (ld_document_id doc) doc (dict_get idx tenant_id [])) idx)"

record local_hit =
  lh_document_id :: string
  lh_title :: string
  lh_snippet :: string

definition li_body :: "local_doc \<Rightarrow> string" where
  "li_body doc = (if ld_body_text doc \<noteq> [] then ld_body_text doc else ld_content doc)"

definition li_matches :: "string \<Rightarrow> string list \<Rightarrow> local_doc \<Rightarrow> bool" where
  "li_matches query acl_terms doc =
     (let acls = ld_acl_terms doc; q = str_lower (str_strip query);
          blob = str_lower (ld_title doc @ '' '' @ li_body doc)
      in \<not> (acls \<noteq> [] \<and> ''*'' \<notin> set acl_terms \<and> \<not> list_ex (\<lambda>t. t \<in> set acls) acl_terms) \<and>
         \<not> (q \<noteq> [] \<and> q \<noteq> ''*'' \<and> \<not> contains q blob))"

text \<open>The loop stops after the hit that reaches the limit, so at least one hit is returned.\<close>

definition li_search :: "string \<Rightarrow> string \<Rightarrow> string list \<Rightarrow> int \<Rightarrow> local_index \<Rightarrow> local_hit list" where
  "li_search tenant_id query acl_terms hit_limit idx =
     (if acl_terms = [] then []
      else map (\<lambda>doc. \<lparr>lh_document_id = ld_document_id doc, lh_title = ld_title doc, lh_snippet = take (nat 240) (li_body doc)\<rparr>)
             (take (nat (max 1 hit_limit)) (filter (li_matches query acl_terms) (map snd (dict_get idx tenant_id [])))))"

subsection \<open>What the fan-out writes\<close>

record lexical_doc =
  xd_document_id :: string
  xd_title :: string
  xd_body_text :: string
  xd_source :: string
  xd_acl_filter_terms :: "string list"
  xd_deleted :: bool

record vector_chunk =
  vk_chunk_id :: string
  vk_document_id :: string
  vk_model_version :: string
  vk_acl_terms :: "string list"
  vk_chunk_text :: string
  vk_metadata :: pydict

record index_settings =
  is_chunk_size :: int
  is_chunk_overlap :: int
  is_model_version :: string
  is_max_chunks :: int
  is_lexical_enabled :: bool
  is_allowed_keys :: "string \<Rightarrow> string list"
  is_md5 :: "string \<Rightarrow> string"
  is_uuid5 :: "string \<Rightarrow> string"
  is_tenant :: "string \<Rightarrow> uuid option"   \<comment> \<open>the identifier of a tenant the resolver finds\<close>

record index_state =
  ix_documents :: "(point_id, processed_doc) dict"
  ix_local :: local_index
  ix_lexical :: "(string \<times> string, lexical_doc) dict"               \<comment> \<open>by tenant and document\<close>
  ix_vectors :: "(string \<times> string \<times> string, vector_chunk) dict"    \<comment> \<open>by tenant, chunk and model version\<close>
  ix_store :: doc_store
  ix_db :: sqldb

text \<open>\<open>f"{title}\n{body}"\<close>\<close>

definition full_text :: "string \<Rightarrow> string \<Rightarrow> string" where
  "full_text title body = title @ newline @ body"

definition cap_pieces :: "int \<Rightarrow> piece list \<Rightarrow> piece list" where
  "cap_pieces max_setting pieces =
     (let max_chunks = nat (max 1 max_setting) in
      if length pieces > max_chunks
      then let head = max_chunks div 2; tail = max_chunks - head
           in take head pieces @ drop (length pieces - tail) pieces
      else pieces)"

definition pieces_of :: "index_settings \<Rightarrow> processed_doc \<Rightarrow> piece list" where
  "pieces_of st doc =
     (let whole = full_text (pd_title doc) (pd_content doc);
          pieces = prose_chunk (is_md5 st) (is_chunk_size st) (is_chunk_overlap st) whole (pd_id doc);
          pieces = (if pieces \<noteq> [] then pieces
                    else [\<lparr>pc_id = ''0'', pc_content = take (nat 2000) whole, pc_start = 0, pc_end = 0,
                           pc_ends_mid_sentence = False, pc_parent_doc_id = pd_id doc\<rparr>])
      in cap_pieces (is_max_chunks st) pieces)"

definition meta_extra :: "pydict \<Rightarrow> pydict" where
  "meta_extra m = filter (\<lambda>(k, v). k \<in> set [''from_email'', ''to_emails'', ''subject'', ''thread_id''] \<and>
     v \<noteq> PNone \<and> v \<noteq> PStr [] \<and> v \<noteq> PList []) m"

definition vector_chunk_of :: "index_settings \<Rightarrow> processed_doc \<Rightarrow> string list \<Rightarrow> piece \<Rightarrow> vector_chunk" where
  "vector_chunk_of st doc acl_terms p =
     \<lparr>vk_chunk_id = pd_id doc @ '':'' @ (if pc_id p \<noteq> [] then pc_id p else ''0''), vk_document_id = pd_id doc,
      vk_model_version = is_model_version st, vk_acl_terms = acl_terms, vk_chunk_text = pc_content p,
      vk_metadata = foldl (\<lambda>m (k, v). AList.update k v m)
        [(''source_type'', PStr (pd_source_type doc)), (''title'', PStr (pd_title doc)),
         (''parent_doc_id'', PStr (if pc_parent_doc_id p \<noteq> [] then pc_parent_doc_id p else pd_id doc))]
        (meta_extra (pd_metadata doc))\<rparr>"

text \<open>\<open>p.split(":", 1)[-1]\<close> of the first term with a colon.\<close>

definition store_owner :: "string list \<Rightarrow> string" where
  "store_owner acl_terms =
     (case find (\<lambda>p. CHR '':'' \<in> set p) acl_terms of
        Some p \<Rightarrow> tl (dropWhile (\<lambda>c. c \<noteq> CHR '':'') p) | None \<Rightarrow> [])"

definition store_args :: "processed_doc \<Rightarrow> string list \<Rightarrow> upsert_args" where
  "store_args doc acl_terms =
     \<lparr>ua_title = pd_title doc, ua_body = utf8_encode (map of_char (pd_content doc)), ua_structured = pd_metadata doc,
      ua_owner = store_owner acl_terms, ua_created_at = PInt (pd_created_at doc),
      ua_updated_at = PInt (pd_updated_at doc), ua_visibility = ''acl'', ua_hidden = [], ua_acl = acl_terms,
      ua_object_key = None, ua_extra = []\<rparr>"

definition fan_out_doc :: "index_settings \<Rightarrow> string \<Rightarrow> string list \<Rightarrow> index_state \<Rightarrow> processed_doc \<Rightarrow> index_state" where
  "fan_out_doc st tenant_id extra_acl s doc =
     (let acl_terms = doc_acl_terms (pd_permissions doc) extra_acl
      in s\<lparr>ix_local := li_upsert tenant_id
             \<lparr>ld_document_id = pd_id doc, ld_title = pd_title doc, ld_body_text = pd_content doc,
              ld_content = pd_content doc, ld_acl_terms = acl_terms, ld_source = pd_source_type doc\<rparr> (ix_local s),
           ix_store := fst (store_upsert tenant_id (pd_id doc) (store_args doc acl_terms) (ix_store s))\<rparr>)"

definition lexical_doc_of :: "string list \<Rightarrow> processed_doc \<Rightarrow> lexical_doc" where
  "lexical_doc_of extra_acl doc =
     \<lparr>xd_document_id = pd_id doc, xd_title = pd_title doc, xd_body_text = pd_content doc,
      xd_source = pd_source_type doc, xd_acl_filter_terms = doc_acl_terms (pd_permissions doc) extra_acl,
      xd_deleted = False\<rparr>"

definition pending_chunks :: "index_settings \<Rightarrow> string list \<Rightarrow> processed_doc \<Rightarrow> vector_chunk list" where
  "pending_chunks st extra_acl doc =
     map (vector_chunk_of st doc (doc_acl_terms (pd_permissions doc) extra_acl)) (pieces_of st doc)"

definition put_chunk :: "string \<Rightarrow> index_state \<Rightarrow> vector_chunk \<Rightarrow> index_state" where
  "put_chunk tenant_id s c = s\<lparr>ix_vectors := AList.update (tenant_id, vk_chunk_id c, vk_model_version c) c (ix_vectors s)\<rparr>"

definition put_lexical :: "string \<Rightarrow> index_state \<Rightarrow> lexical_doc \<Rightarrow> index_state" where
  "put_lexical tenant_id s d = s\<lparr>ix_lexical := AList.update (tenant_id, xd_document_id d) d (ix_lexical s)\<rparr>"

definition fanout_search_pipeline ::
    "index_settings \<Rightarrow> processed_doc list \<Rightarrow> string \<Rightarrow> string list \<Rightarrow> index_state \<Rightarrow> index_state" where
  "fanout_search_pipeline st docs tenant_id extra_acl s =
     (let s = foldl (fan_out_doc st tenant_id extra_acl) s docs;
          s = (if is_lexical_enabled st then foldl (put_lexical tenant_id) s (map (lexical_doc_of extra_acl) docs) else s)
      in foldl (put_chunk tenant_id) s (concat (map (pending_chunks st extra_acl) docs)))"

text \<open>A payload keeps 8000 characters of the content; a document without identifier is skipped.\<close>

definition cut_payload :: "processed_doc \<Rightarrow> processed_doc" where
  "cut_payload doc = (if 8000 < int (length (pd_content doc)) then doc\<lparr>pd_content := take (nat 8000) (pd_content doc)\<rparr> else doc)"

definition put_document :: "index_settings \<Rightarrow> index_state \<Rightarrow> processed_doc \<Rightarrow> index_state" where
  "put_document st s doc =
     (if pd_id doc = [] then s
      else s\<lparr>ix_documents := AList.update (to_qdrant_id (is_uuid5 st) (pd_id doc)) doc (ix_documents s)\<rparr>)"

definition bulk_index ::
    "index_settings \<Rightarrow> unified_document list \<Rightarrow> string \<Rightarrow> string list \<Rightarrow> index_state \<Rightarrow> index_state" where
  "bulk_index st documents tenant_id extra_acl s =
     (if documents = [] then s
      else let docs = map (processed_of (is_allowed_keys st) tenant_id extra_acl) documents;
               s = foldl (put_document st) s (map cut_payload docs)
           in fanout_search_pipeline st docs tenant_id extra_acl s)"

subsection \<open>Deleting and re-indexing\<close>

definition drop_documents :: "index_settings \<Rightarrow> string list \<Rightarrow> string \<Rightarrow> index_state \<Rightarrow> index_state" where
  "drop_documents st ids tenant_id s =
     s\<lparr>ix_documents := filter (\<lambda>(k, p). \<not> (pd_tenant_id p = tenant_id \<and>
        k \<in> set (map (to_qdrant_id (is_uuid5 st)) ids))) (ix_documents s)\<rparr>"

definition delete_by_ids ::
    "index_settings \<Rightarrow> string list \<Rightarrow> string \<Rightarrow> string \<Rightarrow> index_state \<Rightarrow> unit res \<times> index_state" where
  "delete_by_ids st document_ids tenant_id source_type s =
     (if document_ids = [] then (Inr (), s)
      else if tenant_id = [] then (Inl (Raised ''ValueError''), s)
      else let s = drop_documents st document_ids tenant_id s
           in (Inr (), case is_tenant st tenant_id of
                None \<Rightarrow> s
              | Some tenant \<Rightarrow> s\<lparr>ix_db := delete_documents_and_acls_sql document_ids tenant (ix_db s)\<rparr>))"

definition delete_by_source :: "index_settings \<Rightarrow> string \<Rightarrow> string \<Rightarrow> index_state \<Rightarrow> nat \<times> index_state" where
  "delete_by_source st tenant_id source_type s =
     (case is_tenant st tenant_id of
        None \<Rightarrow> (0, s)
      | Some tenant \<Rightarrow>
          let (db, deleted) = delete_documents_by_source_sql source_type tenant (ix_db s);
              s = s\<lparr>ix_db := db\<rparr>
          in (length deleted, if deleted \<noteq> [] then drop_documents st deleted tenant_id s else s))"

definition stored_unified :: "sqldb \<Rightarrow> string \<Rightarrow> unified_document option res" where
  "stored_unified db document_id =
     (case map_of (sd_documents db) document_id of
        None \<Rightarrow> Inr None
      | Some doc \<Rightarrow> rbind (build_unified_document doc (get_acl_entries_sql document_id db)) (\<lambda>u. Inr (Some u)))"

definition reindex_by_ids :: "index_settings \<Rightarrow> string \<Rightarrow> string list \<Rightarrow> index_state \<Rightarrow> unit res \<times> index_state" where
  "reindex_by_ids st tenant_id document_ids s =
     (case res_map (stored_unified (ix_db s)) document_ids of
        Inl e \<Rightarrow> (Inl e, s)
      | Inr found \<Rightarrow> (Inr (), bulk_index st (List.map_filter (\<lambda>x. x) found) tenant_id [] s))"

subsection \<open>What one call to \<open>bulk_index\<close> leaves in the vectors\<close>

lemma put_document_frame [simp]:
  "ix_vectors (put_document st s d) = ix_vectors s" "ix_local (put_document st s d) = ix_local s"
  "ix_db (put_document st s d) = ix_db s"
  by (simp_all add: put_document_def)

lemma put_documents_frame [simp]: "ix_vectors (foldl (put_document st) s ds) = ix_vectors s"
  by (rule foldl_cong_proj) simp

lemma fan_out_frame [simp]:
  "ix_vectors (foldl (fan_out_doc st t x) s ds) = ix_vectors s"
  "ix_documents (foldl (fan_out_doc st t x) s ds) = ix_documents s"
  by (induction ds arbitrary: s) (simp_all add: fan_out_doc_def Let_def)

lemma put_lexicals_frame [simp]:
  "ix_vectors (foldl (put_lexical t) s ds) = ix_vectors s"
  "ix_documents (foldl (put_lexical t) s ds) = ix_documents s"
  by (induction ds arbitrary: s) (simp_all add: put_lexical_def)

lemma put_chunks_documents [simp]: "ix_documents (foldl (put_chunk t) s cs) = ix_documents s"
  by (induction cs arbitrary: s) (simp_all add: put_chunk_def)

definition chunk_key :: "string \<Rightarrow> vector_chunk \<Rightarrow> string \<times> string \<times> string" where
  "chunk_key t c = (t, vk_chunk_id c, vk_model_version c)"

lemma put_chunks_lookup:
  "map_of (ix_vectors (foldl (put_chunk t) s cs)) k =
     (case find (\<lambda>c. chunk_key t c = k) (rev cs) of Some c \<Rightarrow> Some c | None \<Rightarrow> map_of (ix_vectors s) k)"
proof (induction cs rule: rev_induct)
  case (snoc c cs)
  then show ?case by (auto simp: put_chunk_def map_of_update chunk_key_def)
qed simp

definition new_chunks :: "index_settings \<Rightarrow> unified_document list \<Rightarrow> string \<Rightarrow> string list \<Rightarrow> vector_chunk list" where
  "new_chunks st us t x = concat (map (pending_chunks st x \<circ> processed_of (is_allowed_keys st) t x) us)"

lemma bulk_index_vectors:
  "map_of (ix_vectors (bulk_index st us t x s)) k =
     (case find (\<lambda>c. chunk_key t c = k) (rev (new_chunks st us t x)) of
        Some c \<Rightarrow> Some c | None \<Rightarrow> map_of (ix_vectors s) k)"
  by (cases "us = []")
    (simp_all add: bulk_index_def fanout_search_pipeline_def Let_def put_chunks_lookup new_chunks_def split: option.split)

lemma new_chunk_terms:
  "c \<in> set (new_chunks st us t x) \<Longrightarrow> \<exists>u \<in> set us. vk_document_id c = ud_id u \<and>
     vk_acl_terms c = doc_acl_terms (dedup (ud_permissions u @ x)) x"
  by (auto simp: new_chunks_def pending_chunks_def vector_chunk_of_def processed_of_def Let_def)

subsection \<open>The terms in the index\<close>

lemma merge_step_set:
  assumes "\<forall>t \<in> set ts. str_strip t = t \<and> t \<noteq> [] \<and> t \<noteq> ''*''"
  shows "set (foldl (\<lambda>merged t. let term_str = str_strip t
         in if term_str \<noteq> [] \<and> term_str \<notin> set merged \<and> term_str \<noteq> ''*'' then merged @ [term_str] else merged) acc ts)
     = set acc \<union> set ts"
  using assms by (induction ts arbitrary: acc) (auto simp: Let_def)

lemma doc_acl_terms_set:
  assumes "\<forall>t \<in> set ps. str_strip t = t \<and> t \<noteq> [] \<and> t \<noteq> ''*''"
  shows "set (doc_acl_terms ps []) = set ps"
  using merge_step_set [OF assms, of "[]"] by (simp add: doc_acl_terms_def merge_acl_terms_def)

lemma permission_clean:
  assumes "p \<in> set (resolved_permissions es)"
  shows "str_strip p = p \<and> p \<noteq> [] \<and> p \<noteq> ''*''"
proof -
  obtain n where "p = USER_PREFIX @ uuid_str n \<or> p = GROUP_PREFIX @ uuid_str n"
    using assms by (auto simp: resolved_permissions_def entry_permission_def split: option.splits)
  moreover have "str_strip (GROUP_PREFIX @ uuid_str n) = GROUP_PREFIX @ uuid_str n"
  proof (rule strip_no_space)
    fix c assume "c \<in> set (GROUP_PREFIX @ uuid_str n)"
    then show "\<not> is_space c" using uuid_str_not_space [of c n] by (auto simp: GROUP_PREFIX_def is_space_def)
  qed
  ultimately show ?thesis using strip_user [of n] by (auto simp: USER_PREFIX_def GROUP_PREFIX_def)
qed

lemma visible_set_cong:
  assumes "set a = set b"
  shows "document_is_visible u (Some a) = document_is_visible u (Some b)"
proof (cases "is_fail_closed u \<or> is_bypass u")
  case True
  then show ?thesis by (auto simp: document_is_visible_def)
next
  case False
  then show ?thesis by (simp add: visible_unfold assms)
qed

lemma process_raw_permissions:
  assumes "process_raw env raw src t now w = (Inr res, w')"
  shows "\<exists>es. ud_permissions (pl_unified res) = resolved_permissions es"
proof -
  obtain hints w1 where "store_compiled env (pl_document res) hints t now w1 = (Inr res, w')"
    using assms by (rule process_raw_Inr)
  then show ?thesis by (rule store_compiled_Inr) blast
qed


definition demo_index_settings :: index_settings where
  "demo_index_settings = \<lparr>is_chunk_size = 1000, is_chunk_overlap = 200, is_model_version = ''v1'', is_max_chunks = 80,
     is_lexical_enabled = True, is_allowed_keys = (\<lambda>_. [''owner_email'']), is_md5 = (\<lambda>x. ''m'' @ x), is_uuid5 = (\<lambda>x. x),
     is_tenant = (\<lambda>x. if x = ''t'' then Some 1 else None)\<rparr>"

definition empty_index :: index_state where
  "empty_index = \<lparr>ix_documents = [], ix_local = [], ix_lexical = [], ix_vectors = [],
     ix_store = \<lparr>ds_chunk = 8, ds_docs = [], ds_objects = []\<rparr>, ix_db = empty_db\<rparr>"

lemma demo_index_chunks:
  "(case fst demo_run of Inr res \<Rightarrow> map (vk_acl_terms \<circ> snd) (ix_vectors (bulk_index demo_index_settings [pl_unified res] ''t'' [] empty_index))
    | Inl _ \<Rightarrow> []) = [[USER_PREFIX @ uuid_str 7]]"
  by code_simp


subsection \<open>Deleted documents\<close>

lemma deleted_rows_not_read:
  "d \<in> set ids \<Longrightarrow> \<not> principal_can_read_document_sql t who d (delete_documents_and_acls_sql ids t db)"
proof -
  assume d: "d \<in> set ids"
  define al where "al = dedup (concat (map document_id_aliases ids))"
  have sub: "set (document_id_aliases d) \<subseteq> set al" using d by (auto simp: al_def)
  show ?thesis
  proof (cases "al = []")
    case True
    with sub show ?thesis by (simp add: principal_can_read_document_sql_def Let_def)
  next
    case False
    then have "sd_acl (delete_documents_and_acls_sql ids t db) =
        filter (\<lambda>e. \<not> (ae_document_id e \<in> set al \<and> ae_tenant_id e = t)) (sd_acl db)"
      by (simp add: delete_documents_and_acls_sql_def Let_def al_def)
    with sub show ?thesis by (auto simp: principal_can_read_document_sql_def Let_def)
  qed
qed

text \<open>
  Deleting a document leaves its text in the search. Afterwards no principal can read
  any of the deleted documents in the repository, but the chunk vectors, the lexical index, the
  process-local index and the document store are exactly as before, so that every chunk with its
  text is found by the same callers as before.
\<close>

theorem deletion_keeps_the_searchable_text:
  assumes "delete_by_ids st ids tenant src s = (Inr (), s')" "is_tenant st tenant = Some t"
  shows "(\<forall>d who. d \<notin> set ids \<or> \<not> principal_can_read_document_sql t who d (ix_db s')) \<and>
    ix_vectors s' = ix_vectors s \<and> ix_lexical s' = ix_lexical s \<and> ix_local s' = ix_local s \<and> ix_store s' = ix_store s"
proof (cases "ids = []")
  case True
  with assms(1) show ?thesis by (simp add: delete_by_ids_def)
next
  case False
  have s': "s' = (drop_documents st ids tenant s)\<lparr>ix_db := delete_documents_and_acls_sql ids t (ix_db s)\<rparr>"
    using assms False by (auto simp: delete_by_ids_def drop_documents_def split: if_splits)
  from deleted_rows_not_read [of _ ids t _ "ix_db s"] show ?thesis unfolding s' by (auto simp: drop_documents_def)
qed

definition demo_indexed :: index_state where
  "demo_indexed = (case fst demo_run of
     Inr res \<Rightarrow> bulk_index demo_index_settings [pl_unified res] ''t'' [] empty_index | Inl _ \<Rightarrow> empty_index)"

theorem deletion_keeps_the_searchable_text_witness:
  "(let s' = snd (delete_by_ids demo_index_settings [''f1''] ''t'' ''google_drive'' demo_indexed)
    in ix_documents s' = [] \<and> map (vk_acl_terms \<circ> snd) (ix_vectors s') = [[USER_PREFIX @ uuid_str 7]])"
proof -
  define s' where "s' = snd (delete_by_ids demo_index_settings [''f1''] ''t'' ''google_drive'' demo_indexed)"
  have f: "fst (delete_by_ids demo_index_settings [''f1''] ''t'' ''google_drive'' demo_indexed) = Inr ()" by code_simp
  have d: "delete_by_ids demo_index_settings [''f1''] ''t'' ''google_drive'' demo_indexed = (Inr (), s')"
    unfolding s'_def using f by (metis prod.collapse)
  have t: "is_tenant demo_index_settings ''t'' = Some 1" by (simp add: demo_index_settings_def)
  have docs: "ix_documents s' = []" unfolding s'_def by code_simp
  have "map (vk_acl_terms \<circ> snd) (ix_vectors demo_indexed) = [[USER_PREFIX @ uuid_str 7]]" by code_simp
  with deletion_keeps_the_searchable_text [OF d t] docs show ?thesis by (simp add: s'_def [symmetric])
qed

subsection \<open>Identifiers are shared by the tenants\<close>

lemma documents_after_bulk:
  "us \<noteq> [] \<Longrightarrow> ix_documents (bulk_index st us t x s) =
     ix_documents (foldl (put_document st) s (map cut_payload (map (processed_of (is_allowed_keys st) t x) us)))"
  by (simp add: bulk_index_def fanout_search_pipeline_def Let_def)

text \<open>
  The \<open>documents\<close> collection keeps one point per document identifier, for all tenants
  together. After one tenant has indexed a document, every point under that identifier belongs to
  this tenant: another tenant that indexed the same file before has lost its entry, and its searches
  there no longer find the document.
\<close>

theorem tenants_overwrite_each_other:
  assumes "ud_id u \<noteq> []"
  shows "\<exists>p. map_of (ix_documents (bulk_index st [u] tenant x s)) (to_qdrant_id (is_uuid5 st) (ud_id u)) = Some p \<and>
    pd_tenant_id p = tenant \<and> pd_id p = ud_id u"
proof -
  have "pd_id (cut_payload d) = pd_id d" "pd_tenant_id (cut_payload d) = pd_tenant_id d" for d
    by (simp_all add: cut_payload_def)
  with assms show ?thesis
    by (simp add: documents_after_bulk put_document_def processed_of_def Let_def map_of_update)
qed

theorem tenants_overwrite_each_other_witness:
  "(case fst demo_run of
      Inr res \<Rightarrow> (let s = bulk_index demo_index_settings [pl_unified res] ''other'' [] demo_indexed
         in map (pd_tenant_id \<circ> snd) (ix_documents s) = [''other'']) | Inl _ \<Rightarrow> False)"
proof -
  obtain res where res: "fst demo_run = Inr res"
    using demo_run_result by (cases "fst demo_run") simp_all
  have "(case fst demo_run of Inr res \<Rightarrow> ud_id (pl_unified res) | Inl _ \<Rightarrow> []) = ''f1''" by code_simp
  then have id: "ud_id (pl_unified res) = ''f1''" by (simp add: res)
  have "(case fst demo_run of Inr res \<Rightarrow> map fst (ix_documents
      (bulk_index demo_index_settings [pl_unified res] ''other'' [] demo_indexed)) | Inl _ \<Rightarrow> []) = [PointUuid ''f1'']"
    by code_simp
  then obtain p where p: "ix_documents (bulk_index demo_index_settings [pl_unified res] ''other'' [] demo_indexed) =
      [(PointUuid ''f1'', p)]" by (auto simp: res map_eq_Cons_conv)
  have pid: "to_qdrant_id (is_uuid5 demo_index_settings) ''f1'' = PointUuid ''f1''" by code_simp
  from tenants_overwrite_each_other [of "pl_unified res" demo_index_settings "''other''" "[]" demo_indexed]
  have "pd_tenant_id p = ''other''" unfolding id pid p by simp
  then show ?thesis by (simp add: res p)
qed

subsection \<open>The process-local index fails open\<close>

text \<open>
  The process-local index serves a document without ACL terms to every caller of the
  tenant who has any term at all, while the ACL filter refuses such a document to everyone without
  the bypass term. A document whose shares are all still pending is indexed without terms.
\<close>

theorem local_index_fails_open:
  assumes "acl_terms \<noteq> []" "''*'' \<notin> set acl_terms" "doc \<in> set (map snd (dict_get idx tenant []))"
    and "ld_acl_terms doc = []" "length (dict_get idx tenant []) \<le> nat limit"
  shows "ld_document_id doc \<in> lh_document_id ` set (li_search tenant ''*'' acl_terms limit idx) \<and>
    \<not> document_is_visible acl_terms (Some (ld_acl_terms doc))"
proof -
  have q: "str_lower (str_strip ''*'') = ''*''" by code_simp
  have m: "li_matches ''*'' acl_terms doc" using assms(4) by (simp add: li_matches_def Let_def q)
  have len: "length (filter (li_matches ''*'' acl_terms) (map snd (dict_get idx tenant []))) \<le> nat (max 1 limit)"
  proof -
    have "length (filter (li_matches ''*'' acl_terms) (map snd (dict_get idx tenant []))) \<le> nat limit"
      by (rule le_trans [OF length_filter_le]) (simp add: assms(5))
    also have "nat limit \<le> nat (max 1 limit)" by simp
    finally show ?thesis .
  qed
  have "lh_document_id ` set (li_search tenant ''*'' acl_terms limit idx) =
      ld_document_id ` set (filter (li_matches ''*'' acl_terms) (map snd (dict_get idx tenant [])))"
    using assms(1) len by (simp add: li_search_def image_image)
  moreover have "doc \<in> set (filter (li_matches ''*'' acl_terms) (map snd (dict_get idx tenant [])))"
    using assms(3) m by simp
  ultimately have "ld_document_id doc \<in> lh_document_id ` set (li_search tenant ''*'' acl_terms limit idx)"
    by (metis imageI)
  moreover have "\<not> document_is_visible acl_terms (Some (ld_acl_terms doc))"
    using assms(2,4) by (simp add: document_is_visible_def is_bypass_def)
  ultimately show ?thesis ..
qed

definition demo_local :: local_index where
  "demo_local = [(''t'', [(''f1'', \<lparr>ld_document_id = ''f1'', ld_title = ''Plan'', ld_body_text = ''secret'',
     ld_content = ''secret'', ld_acl_terms = [], ld_source = ''google_drive''\<rparr>)])]"

theorem local_index_fails_open_witness:
  "''f1'' \<in> lh_document_id ` set (li_search ''t'' ''*'' [''user:stranger''] 20 demo_local) \<and>
   \<not> document_is_visible [''user:stranger''] (Some [])"
proof -
  obtain doc where doc: "map snd (dict_get demo_local ''t'' []) = [doc]" "ld_document_id doc = ''f1''" "ld_acl_terms doc = []"
    "length (dict_get demo_local ''t'' []) = 1" by (simp add: demo_local_def dict_get_def)
  have "doc \<in> set (map snd (dict_get demo_local ''t'' []))" unfolding doc(1) by simp
  from local_index_fails_open [OF _ _ this doc(3), of "[''user:stranger'']" 20] doc show ?thesis by simp
qed

end
