(* ===== verification/Auth_State.thy ===== *)
theory Auth_State
  imports Uuids
begin

text \<open>
  The state of authentication: the partitioned cache of \<open>backend/app/storage/redis_client.py\<close>, the
  tables of users, refresh tokens and OAuth clients (\<open>backend/app/models/user.py\<close>,
  \<open>oauth_client.py\<close>), the signing keys, and the steps that read and change it. A step ends in a
  value or an exception, and keeps the changes made before an exception. PyJWT, the digests and
  bcrypt are parameters.
\<close>

subsection \<open>Steps with exceptions\<close>

type_synonym ('s, 'a) step = "'s \<Rightarrow> 'a res \<times> 's"

definition ret :: "'a \<Rightarrow> ('s, 'a) step" where "ret x = (\<lambda>s. (Inr x, s))"
definition raise :: "exn \<Rightarrow> ('s, 'a) step" where "raise e = (\<lambda>s. (Inl e, s))"
definition query :: "('s \<Rightarrow> 'a) \<Rightarrow> ('s, 'a) step" where "query f = (\<lambda>s. (Inr (f s), s))"
definition change :: "('s \<Rightarrow> 's) \<Rightarrow> ('s, unit) step" where "change f = (\<lambda>s. (Inr (), f s))"
definition of_res :: "'a res \<Rightarrow> ('s, 'a) step" where "of_res r = (\<lambda>s. (r, s))"

definition andthen :: "('s, 'a) step \<Rightarrow> ('a \<Rightarrow> ('s, 'b) step) \<Rightarrow> ('s, 'b) step" where
  "andthen m f = (\<lambda>s. case m s of (Inl e, s') \<Rightarrow> (Inl e, s') | (Inr x, s') \<Rightarrow> f x s')"

definition guard :: "bool \<Rightarrow> exn \<Rightarrow> ('s, unit) step" where
  "guard b e = (if b then ret () else raise e)"

lemma step_simps [simp]:
  "ret x s = (Inr x, s)" "raise e s = (Inl e, s)" "query f s = (Inr (f s), s)" "change g s = (Inr (), g s)"
  "of_res r s = (r, s)" "guard True e s = (Inr (), s)" "guard False e s = (Inl e, s)"
  by (simp_all add: ret_def raise_def query_def change_def of_res_def guard_def)

lemma andthen_Inr: "m s = (Inr x, s') \<Longrightarrow> andthen m f s = f x s'"
  by (simp add: andthen_def)

lemma andthen_Inl: "m s = (Inl e, s') \<Longrightarrow> andthen m f s = (Inl e, s')"
  by (simp add: andthen_def)

lemma andthen_simps [simp]:
  "andthen (ret x) f s = f x s" "andthen (raise e) f s = (Inl e, s)" "andthen (query g) f s = f (g s) s"
  "andthen (change h) k s = k () (h s)" "andthen (of_res (Inr x)) f s = f x s" "andthen (of_res (Inl e)) f s = (Inl e, s)"
  "andthen (guard b e) k s = (if b then k () s else (Inl e, s))"
  by (simp_all add: andthen_def guard_def)

lemma andthen_Inr_iff:
  "andthen m f s = (Inr y, s'') \<longleftrightarrow> (\<exists>x s'. m s = (Inr x, s') \<and> f x s' = (Inr y, s''))"
  by (auto simp: andthen_def split: prod.splits sum.splits)

text \<open>Left-to-right evaluation of a concrete step.\<close>

lemma andthen_weak: "m = m' \<Longrightarrow> s = s' \<Longrightarrow> andthen m f s = andthen m' f s'"
  by simp

lemma andthen_assoc: "andthen (andthen m f) g s = andthen m (\<lambda>x. andthen (f x) g) s"
  by (simp add: andthen_def split: prod.split sum.split)

lemma andthen_read: "andthen (\<lambda>s. (g s, s)) f s = (case g s of Inl e \<Rightarrow> (Inl e, s) | Inr x \<Rightarrow> f x s)"
  by (simp add: andthen_def split: sum.split)

lemma step_Inr_iff:
  "guard b e s = (Inr u, s') \<longleftrightarrow> b \<and> s' = s" "of_res r s = (Inr x, s') \<longleftrightarrow> r = Inr x \<and> s' = s"
  "query f s = (Inr y, s') \<longleftrightarrow> y = f s \<and> s' = s" "change g s = (Inr u, s') \<longleftrightarrow> s' = g s"
  "ret z s = (Inr x, s') \<longleftrightarrow> x = z \<and> s' = s" "raise e s = (Inr x, s') \<longleftrightarrow> False"
  by (auto simp: guard_def of_res_def query_def change_def ret_def raise_def)

lemma option_Inr_iff:
  "(case v of None \<Rightarrow> raise e | Some w \<Rightarrow> f w) s = (Inr y, s') \<longleftrightarrow> (\<exists>w. v = Some w \<and> f w s = (Inr y, s'))"
  by (cases v) (simp_all add: raise_def)

lemmas run_iff = andthen_Inr_iff step_Inr_iff option_Inr_iff

text \<open>A step keeps a predicate of the state, whether it ends in a value or in an exception.\<close>

definition keeps :: "('s \<Rightarrow> bool) \<Rightarrow> ('s, 'a) step \<Rightarrow> bool" where
  "keeps I m \<longleftrightarrow> (\<forall>s. I s \<longrightarrow> I (snd (m s)))"

lemma keepsD: "keeps I m \<Longrightarrow> I s \<Longrightarrow> m s = (r, s') \<Longrightarrow> I s'"
  by (force simp: keeps_def)

lemma keeps_basic [simp, intro]:
  "keeps I (ret x)" "keeps I (raise e)" "keeps I (query f)" "keeps I (of_res r)" "keeps I (guard b e)"
  by (simp_all add: keeps_def guard_def)

lemma keeps_change: "(\<And>s. I s \<Longrightarrow> I (f s)) \<Longrightarrow> keeps I (change f)"
  by (simp add: keeps_def)

lemma keeps_andthen [intro]: "keeps I m \<Longrightarrow> (\<And>x. keeps I (f x)) \<Longrightarrow> keeps I (andthen m f)"
  by (fastforce simp: keeps_def andthen_def split: prod.splits sum.splits)

text \<open>\<open>except E as e: raise f(e)\<close>, and \<open>except Exception: pass\<close>.\<close>

definition reraise :: "(exn \<Rightarrow> exn) \<Rightarrow> ('s, 'a) step \<Rightarrow> ('s, 'a) step" where
  "reraise f m = (\<lambda>s. case m s of (Inl e, s') \<Rightarrow> (Inl (f e), s') | (Inr x, s') \<Rightarrow> (Inr x, s'))"

definition attempt :: "('s, 'a) step \<Rightarrow> ('s, unit) step" where
  "attempt m = (\<lambda>s. (Inr (), snd (m s)))"

lemma keeps_reraise [intro]: "keeps I m \<Longrightarrow> keeps I (reraise f m)"
  by (fastforce simp: keeps_def reraise_def split: prod.splits sum.splits)

lemma keeps_attempt [intro]: "keeps I m \<Longrightarrow> keeps I (attempt m)"
  by (simp add: keeps_def attempt_def)

lemma reraise_Inr_iff: "reraise f m s = (Inr x, s') \<longleftrightarrow> m s = (Inr x, s')"
  by (auto simp: reraise_def split: prod.splits sum.splits)

lemma keeps_if [intro]: "keeps I m \<Longrightarrow> keeps I n \<Longrightarrow> keeps I (if b then m else n)"
  by simp

subsection \<open>The partitioned cache\<close>

text \<open>
  The dictionaries the client falls back to without a server; a server forgets a key when its
  time-to-live ends, which these do not. JSON values are kept as they are.
\<close>

record redis =
  rd_store :: "(string, pyval) dict"
  rd_sets :: "(string, string list) dict"

definition make_key :: "string \<Rightarrow> string \<Rightarrow> string" where
  "make_key tenant_id key = ''tenant:'' @ tenant_id @ '':'' @ key"

definition redis_get :: "string \<Rightarrow> string \<Rightarrow> redis \<Rightarrow> pyval" where
  "redis_get tenant_id key r = pget (rd_store r) (make_key tenant_id key)"

definition redis_set :: "string \<Rightarrow> string \<Rightarrow> pyval \<Rightarrow> redis \<Rightarrow> redis" where
  "redis_set tenant_id key v r = r\<lparr>rd_store := AList.update (make_key tenant_id key) v (rd_store r)\<rparr>"

definition redis_delete :: "string \<Rightarrow> string \<Rightarrow> redis \<Rightarrow> redis" where
  "redis_delete tenant_id key r =
     r\<lparr>rd_store := AList.delete (make_key tenant_id key) (rd_store r),
       rd_sets := AList.delete (make_key tenant_id key) (rd_sets r)\<rparr>"

definition redis_sadd :: "string \<Rightarrow> string \<Rightarrow> string \<Rightarrow> redis \<Rightarrow> redis" where
  "redis_sadd tenant_id key member r =
     (let members = dict_get (rd_sets r) (make_key tenant_id key) []
      in r\<lparr>rd_sets := AList.update (make_key tenant_id key)
             (if member \<in> set members then members else members @ [member]) (rd_sets r)\<rparr>)"

definition redis_sismember :: "string \<Rightarrow> string \<Rightarrow> string \<Rightarrow> redis \<Rightarrow> bool" where
  "redis_sismember tenant_id key member r = (member \<in> set (dict_get (rd_sets r) (make_key tenant_id key) []))"

lemma sismember_sadd [simp]:
  "redis_sismember t k m (redis_sadd t' k' m' r) \<longleftrightarrow>
     redis_sismember t k m r \<or> (make_key t k = make_key t' k' \<and> m = m')"
  by (auto simp: redis_sismember_def redis_sadd_def Let_def dict_get_update)

lemma sismember_set [simp]: "redis_sismember t k m (redis_set t' k' v r) = redis_sismember t k m r"
  by (simp add: redis_sismember_def redis_set_def)

lemma sismember_delete:
  "make_key t k \<noteq> make_key t' k' \<Longrightarrow> redis_sismember t k m (redis_delete t' k' r) = redis_sismember t k m r"
  by (simp add: redis_sismember_def redis_delete_def dict_get_delete)

lemma redis_get_simps [simp]:
  "redis_get t k (redis_sadd t' k' m r) = redis_get t k r"
  "redis_get t k (redis_set t' k' v r) = (if make_key t k = make_key t' k' then v else redis_get t k r)"
  "redis_get t k (redis_delete t' k' r) = (if make_key t k = make_key t' k' then PNone else redis_get t k r)"
  by (auto simp: redis_get_def redis_sadd_def redis_set_def redis_delete_def Let_def pget_update pget_def
      dict_get_update dict_get_delete)

subsection \<open>Tables\<close>

record user_row =
  u_principal_id :: uuid
  u_tenant_id :: uuid
  u_idp_subject :: string
  u_email :: string
  u_display_name :: string
  u_password_hash :: "string option"
  u_source_profiles :: pydict
  u_status :: string
  u_role :: string
  u_invited_by :: "uuid option"
  u_must_change_password :: bool
  u_is_active :: bool
  u_token_version :: int

record refresh_row =
  rt_token_id :: uuid
  rt_principal_id :: uuid
  rt_tenant_id :: uuid
  rt_hashed_token :: string
  rt_revoked :: bool
  rt_expires_at :: instant

record oauth_client =
  oc_client_id :: string
  oc_tenant_id :: uuid
  oc_hashed_secret :: string
  oc_client_type :: string
  oc_redirect_uris :: "string list"

record token_keys =
  tk_issuer :: string
  tk_access_ttl :: int
  tk_refresh_ttl :: int
  tk_private :: string
  tk_public :: string
  tk_public_by_kid :: "(string, string) dict"
  tk_active_kid :: string

record auth_state =
  au_users :: "(uuid, user_row) dict"
  au_refresh :: "(uuid, refresh_row) dict"
  au_clients :: "(string, oauth_client) dict"
  au_redis :: redis
  au_keys :: token_keys
  au_published :: "pydict list"
  au_audit :: "(uuid \<times> uuid \<times> string) list"    \<comment> \<open>tenant, actor and action\<close>
  au_drained :: "(uuid \<times> string \<times> uuid) list"  \<comment> \<open>calls of \<open>bind_pending_drive_shares\<close>\<close>
  au_next_uuid :: uuid

subsection \<open>Libraries\<close>

datatype jwt_error = ExpiredSignature | InvalidToken

record jwt_lib =
  jl_encode :: "pydict \<Rightarrow> string \<Rightarrow> string \<Rightarrow> string"
  jl_kid :: "string \<Rightarrow> pyval res"
  jl_decode :: "string \<Rightarrow> string \<Rightarrow> string \<Rightarrow> instant \<Rightarrow> jwt_error + pydict"
  jl_unverified :: "string \<Rightarrow> pydict res"

record crypto =
  cr_sha256_hex :: "string \<Rightarrow> string"
  cr_s256 :: "string \<Rightarrow> string"            \<comment> \<open>unpadded URL-safe base64 of the SHA-256 digest\<close>
  cr_verify :: "string \<Rightarrow> string \<Rightarrow> bool res"          \<comment> \<open>\<open>passlib.hash.bcrypt.verify\<close>\<close>
  cr_checkpw :: "nat list \<Rightarrow> string \<Rightarrow> bool res"       \<comment> \<open>\<open>bcrypt.checkpw\<close> on bytes\<close>
  cr_hashpw :: "nat list \<Rightarrow> uuid \<Rightarrow> string"           \<comment> \<open>\<open>bcrypt.hashpw\<close>, the salt given by a seed\<close>
  cr_uuid5 :: "string \<Rightarrow> uuid"             \<comment> \<open>in the namespace of principals\<close>

definition fresh_uuid :: "(auth_state, uuid) step" where
  "fresh_uuid = (\<lambda>s. (Inr (au_next_uuid s), s\<lparr>au_next_uuid := Suc (au_next_uuid s)\<rparr>))"

definition upd_redis :: "(redis \<Rightarrow> redis) \<Rightarrow> (auth_state, unit) step" where
  "upd_redis f = change (\<lambda>s. s\<lparr>au_redis := f (au_redis s)\<rparr>)"

definition publish :: "pydict \<Rightarrow> (auth_state, unit) step" where
  "publish event = change (\<lambda>s. s\<lparr>au_published := au_published s @ [event]\<rparr>)"

lemma fresh_uuid_simp [simp]: "fresh_uuid s = (Inr (au_next_uuid s), s\<lparr>au_next_uuid := Suc (au_next_uuid s)\<rparr>)"
  by (simp add: fresh_uuid_def)

end
