(* ===== verification/Tokens.thy ===== *)
theory Tokens
  imports Auth_State
begin

text \<open>
  Tokens: \<open>backend/app/services/token_service.py\<close> (issuing, rotation, validation),
  \<open>services/revocation.py\<close>, \<open>services/oauth_service.py\<close> (codes with PKCE, refresh, client
  credentials), \<open>services/admin/scopes.py\<close> and the guards of \<open>api/deps.py\<close>. Time stamps are seconds,
  as PyJWT writes them; the time of a call is an argument.
\<close>

definition unauthorized :: exn where "unauthorized = Raised ''UnauthorizedError''"
definition invalid_token :: exn where "invalid_token = Raised ''InvalidTokenError''"
definition revoked_token :: exn where "revoked_token = Raised ''RevokedTokenError''"
definition forbidden :: exn where "forbidden = Raised ''ForbiddenError''"

subsection \<open>Signing keys\<close>

text \<open>The end of \<open>_load_keys\<close>, once the key files have been read or generated.\<close>

definition load_keys :: "token_keys \<Rightarrow> token_keys" where
  "load_keys k =
     (if tk_public k \<noteq> [] \<and> map_of (tk_public_by_kid k) (tk_active_kid k) = None
      then k\<lparr>tk_public_by_kid := AList.update (tk_active_kid k) (tk_public k) (tk_public_by_kid k)\<rparr> else k)"

definition register_verification_key :: "string \<Rightarrow> string \<Rightarrow> token_keys \<Rightarrow> token_keys" where
  "register_verification_key kid pem k = k\<lparr>tk_public_by_kid := AList.update kid pem (tk_public_by_kid k)\<rparr>"

definition rotate_signing_key :: "string \<Rightarrow> string \<Rightarrow> string \<Rightarrow> token_keys \<Rightarrow> token_keys" where
  "rotate_signing_key new_kid private_pem public_pem k =
     k\<lparr>tk_private := private_pem, tk_public := public_pem, tk_active_kid := new_kid,
       tk_public_by_kid := AList.update new_kid public_pem (tk_public_by_kid k)\<rparr>"

definition with_keys :: "(auth_state, token_keys) step" where
  "with_keys = (\<lambda>s. let k = load_keys (au_keys s) in (Inr k, s\<lparr>au_keys := k\<rparr>))"

subsection \<open>Issuing\<close>

definition access_payload ::
    "token_keys \<Rightarrow> string \<Rightarrow> string \<Rightarrow> string list \<Rightarrow> string option \<Rightarrow> int \<Rightarrow> bool \<Rightarrow> instant \<Rightarrow> uuid \<Rightarrow> pydict" where
  "access_payload k tenant_id principal_id scopes role token_version must_change now jti =
     [(''iss'', PStr (tk_issuer k)), (''sub'', PStr principal_id), (''tenant_id'', PStr tenant_id),
      (''scopes'', PList (map PStr scopes)), (''iat'', PInt now), (''exp'', PInt (now + tk_access_ttl k)),
      (''jti'', PStr (uuid_str jti))] @
     (case role of None \<Rightarrow> []
      | Some r \<Rightarrow> [(''role'', PStr r), (''token_version'', PInt token_version),
                    (''must_change_password'', PBool must_change)])"

definition issue_access_token ::
    "jwt_lib \<Rightarrow> string \<Rightarrow> string \<Rightarrow> string list \<Rightarrow> string option \<Rightarrow> int \<Rightarrow> bool \<Rightarrow> instant \<Rightarrow> (auth_state, string) step" where
  "issue_access_token jw tenant_id principal_id scopes role token_version must_change now =
     andthen with_keys (\<lambda>k. andthen fresh_uuid (\<lambda>jti.
       ret (jl_encode jw (access_payload k tenant_id principal_id scopes role token_version must_change now jti)
              (tk_private k) (tk_active_kid k))))"

definition refresh_payload :: "token_keys \<Rightarrow> string \<Rightarrow> string \<Rightarrow> instant \<Rightarrow> uuid \<Rightarrow> pydict" where
  "refresh_payload k tenant_id principal_id now jti =
     [(''iss'', PStr (tk_issuer k)), (''sub'', PStr principal_id), (''tenant_id'', PStr tenant_id),
      (''token_type'', PStr ''refresh''), (''iat'', PInt now), (''exp'', PInt (now + tk_refresh_ttl k)),
      (''jti'', PStr (uuid_str jti))]"

definition issue_refresh_token :: "jwt_lib \<Rightarrow> string \<Rightarrow> string \<Rightarrow> instant \<Rightarrow> (auth_state, string) step" where
  "issue_refresh_token jw tenant_id principal_id now =
     andthen with_keys (\<lambda>k. andthen fresh_uuid (\<lambda>jti.
       ret (jl_encode jw (refresh_payload k tenant_id principal_id now jti) (tk_private k) (tk_active_kid k))))"

subsection \<open>Validation\<close>

definition verify_key :: "jwt_lib \<Rightarrow> token_keys \<Rightarrow> string \<Rightarrow> string" where
  "verify_key jw k token =
     (case jl_kid jw token of
        Inr (PStr (c # cs)) \<Rightarrow> (case map_of (tk_public_by_kid k) (c # cs) of Some pem \<Rightarrow> pem | None \<Rightarrow> tk_public k)
      | _ \<Rightarrow> tk_public k)"

definition revoked_key :: "pyval \<Rightarrow> string" where
  "revoked_key jti = ''revoked:'' @ py_str jti"

definition version_key :: "pyval \<Rightarrow> string" where
  "version_key who = ''token_version:'' @ py_str who"

definition jti_revoked :: "pydict \<Rightarrow> redis \<Rightarrow> bool" where
  "jti_revoked payload r =
     (let jti = pget payload ''jti''; tenant_id = pget payload ''tenant_id''
      in truthy jti \<and> truthy tenant_id \<and> redis_sismember (py_str tenant_id) (revoked_key jti) (py_str jti) r)"

text \<open>A stored or claimed version that is not a number is ignored.\<close>

definition version_revoked :: "pydict \<Rightarrow> redis \<Rightarrow> bool" where
  "version_revoked payload r =
     (let tenant_id = pget payload ''tenant_id''; who = pget payload ''sub''; claim = pget payload ''token_version''
      in truthy tenant_id \<and> who \<noteq> PNone \<and> claim \<noteq> PNone \<and>
         (let stored = redis_get (py_str tenant_id) (version_key who) r
          in stored \<noteq> PNone \<and>
             (case (py_int stored, py_int claim) of (Some a, Some b) \<Rightarrow> b < a | _ \<Rightarrow> False)))"

definition check_payload :: "pydict \<Rightarrow> redis \<Rightarrow> pydict res" where
  "check_payload payload r =
     (if jti_revoked payload r then Inl revoked_token
      else if version_revoked payload r then Inl revoked_token
      else if map_of payload ''tenant_id'' = None then Inl invalid_token
      else Inr payload)"

definition validate_token :: "jwt_lib \<Rightarrow> instant \<Rightarrow> string \<Rightarrow> (auth_state, pydict) step" where
  "validate_token jw now token =
     andthen with_keys (\<lambda>k.
       case jl_decode jw token (verify_key jw k token) (tk_issuer k) now of
         Inl _ \<Rightarrow> raise invalid_token
       | Inr payload \<Rightarrow> andthen (query au_redis) (\<lambda>r. of_res (check_payload payload r)))"

definition decode_without_validation :: "jwt_lib \<Rightarrow> string \<Rightarrow> (auth_state, pydict) step" where
  "decode_without_validation jw token = of_res (jl_unverified jw token)"

definition claim_scopes :: "pydict \<Rightarrow> string list res" where
  "claim_scopes payload = rbind (py_iter (py_or (pget payload ''scopes'') (PList []))) (res_map py_need_str)"

definition rotate_refresh_token :: "jwt_lib \<Rightarrow> instant \<Rightarrow> string \<Rightarrow> (auth_state, string \<times> string) step" where
  "rotate_refresh_token jw now token =
     andthen (validate_token jw now token) (\<lambda>payload.
     andthen (guard (pget payload ''token_type'' = PStr ''refresh'') invalid_token) (\<lambda>_.
     andthen (guard (truthy (pget payload ''tenant_id'') \<and> truthy (pget payload ''sub'')) invalid_token) (\<lambda>_.
       let tenant_id = py_str (pget payload ''tenant_id''); who = py_str (pget payload ''sub''); jti = pget payload ''jti''
       in andthen (if truthy jti then upd_redis (redis_sadd tenant_id (revoked_key jti) (py_str jti)) else ret ()) (\<lambda>_.
          andthen (of_res (claim_scopes payload)) (\<lambda>scopes.
          andthen (of_res (py_opt_str (pget payload ''role''))) (\<lambda>role.
          andthen (issue_access_token jw tenant_id who scopes role 0 False now) (\<lambda>access.
          andthen (issue_refresh_token jw tenant_id who now) (\<lambda>refresh.
            ret (access, refresh)))))))))"

subsection \<open>Revocation\<close>

definition need_uuid :: "string \<Rightarrow> (auth_state, uuid) step" where
  "need_uuid v = (case parse_uuid v of Some u \<Rightarrow> ret u | None \<Rightarrow> raise (Raised ''ValueError''))"

definition mark_revoked :: "uuid \<Rightarrow> (auth_state, unit) step" where
  "mark_revoked jti = change (\<lambda>s. case map_of (au_refresh s) jti of
     None \<Rightarrow> s | Some row \<Rightarrow> s\<lparr>au_refresh := AList.update jti (row\<lparr>rt_revoked := True\<rparr>) (au_refresh s)\<rparr>)"

definition revoke_token :: "jwt_lib \<Rightarrow> string \<Rightarrow> string \<Rightarrow> (auth_state, unit) step" where
  "revoke_token jw tenant_id token =
     andthen (decode_without_validation jw token) (\<lambda>payload.
       let jti = pget payload ''jti''; token_type = dict_get payload ''token_type'' (PStr ''access'') in
       if \<not> truthy jti then ret ()
       else andthen (if token_type = PStr ''refresh''
                     then andthen (need_uuid (py_str jti)) mark_revoked else ret ()) (\<lambda>_.
            andthen (upd_redis (redis_sadd tenant_id (revoked_key jti) (py_str jti))) (\<lambda>_.
            publish [(''event_type'', PStr ''token_revoked''), (''tenant_id'', PStr tenant_id), (''jti'', jti)])))"

definition revoke_row :: "string \<Rightarrow> auth_state \<Rightarrow> uuid \<times> refresh_row \<Rightarrow> auth_state" where
  "revoke_row tenant_id s = (\<lambda>(i, row).
     s\<lparr>au_refresh := AList.update i (row\<lparr>rt_revoked := True\<rparr>) (au_refresh s),
       au_redis := redis_sadd tenant_id (revoked_key (PStr (uuid_str i))) (uuid_str i) (au_redis s)\<rparr>)"

definition revoke_session :: "string \<Rightarrow> string \<Rightarrow> (auth_state, unit) step" where
  "revoke_session principal_id tenant_id =
     andthen (need_uuid principal_id) (\<lambda>who. andthen (need_uuid tenant_id) (\<lambda>tenant.
     andthen (change (\<lambda>s. foldl (revoke_row tenant_id) s
         (filter (\<lambda>(i, row). rt_principal_id row = who \<and> rt_tenant_id row = tenant \<and> \<not> rt_revoked row) (au_refresh s)))) (\<lambda>_.
     publish [(''event_type'', PStr ''session_revoked''), (''tenant_id'', PStr tenant_id),
              (''principal_id'', PStr principal_id)])))"

subsection \<open>Scopes\<close>

definition ADMIN_SCOPES :: "string list" where
  "ADMIN_SCOPES = [''search.read'', ''document.read'', ''connectors.read'', ''connectors.write'', ''admin.audit.read'',
     ''admin.users.read'', ''admin.users.write'', ''admin.connectors.read'', ''admin.connectors.write'',
     ''admin.sessions.revoke'', ''graph.admin'', ''signals.admin'']"

definition MEMBER_SCOPES :: "string list" where
  "MEMBER_SCOPES = [''search.read'', ''document.read'', ''connectors.read'', ''connectors.write'']"

definition scopes_for_role :: "string \<Rightarrow> string list" where
  "scopes_for_role role = (if role = ''admin'' then ADMIN_SCOPES else MEMBER_SCOPES)"

definition role_or_member :: "string \<Rightarrow> string" where
  "role_or_member role = (if role \<noteq> [] then role else ''member'')"

text \<open>\<open>_scopes_for_principal\<close>; a malformed identifier is caught and gives the fallback.\<close>

definition scopes_for_principal :: "string \<Rightarrow> string \<Rightarrow> string list \<Rightarrow> auth_state \<Rightarrow> string list" where
  "scopes_for_principal principal_id tenant_id fallback s =
     (case (parse_uuid principal_id, parse_uuid tenant_id) of
        (Some who, Some tenant) \<Rightarrow>
          (case map_of (au_users s) who of
             Some u \<Rightarrow> if u_tenant_id u = tenant then scopes_for_role (role_or_member (u_role u)) else fallback
           | None \<Rightarrow> fallback)
      | _ \<Rightarrow> fallback)"

end
