(* ===== verification/Oauth.thy ===== *)
theory Oauth
  imports Tokens
begin

text \<open>
  \<open>backend/app/services/oauth_service.py\<close>: authorization codes with PKCE, persisted refresh tokens
  that are rotated on use, client credentials; and the guards of \<open>backend/app/api/deps.py\<close>. The tables
  are those of one tenant database, the cache is shared. The ISO text of \<open>expires_at\<close> is kept as the
  instant it denotes.
\<close>

subsection \<open>PKCE\<close>

definition is_ascii :: "string \<Rightarrow> bool" where
  "is_ascii s = list_all (\<lambda>c. (of_char c :: nat) < 128) s"

text \<open>\<open>s.upper()\<close> on ASCII; other characters never give a method name.\<close>

definition ascii_upper :: "char \<Rightarrow> char" where
  "ascii_upper c = (let n = (of_char c :: nat) in if 97 \<le> n \<and> n \<le> 122 then char_of (n - 32) else c)"

text \<open>\<open>encode("ascii")\<close> and \<open>compare_digest\<close> raise on other text.\<close>

definition verify_pkce :: "crypto \<Rightarrow> string \<Rightarrow> string \<Rightarrow> string \<Rightarrow> bool res" where
  "verify_pkce cr code_verifier code_challenge challenge_method =
     (if code_verifier = [] \<or> code_challenge = [] then Inr False
      else let method_norm = map ascii_upper (if challenge_method \<noteq> [] then challenge_method else ''S256'') in
        if method_norm = ''S256'' then
          (if \<not> is_ascii code_verifier then Inl (Raised ''UnicodeEncodeError'')
           else if \<not> is_ascii code_challenge then Inl (Raised ''TypeError'')
           else Inr (cr_s256 cr code_verifier = code_challenge))
        else if method_norm = ''PLAIN'' then
          (if \<not> is_ascii code_verifier \<or> \<not> is_ascii code_challenge then Inl (Raised ''TypeError'')
           else Inr (code_verifier = code_challenge))
        else Inr False)"

subsection \<open>Authorization codes\<close>

definition AUTHZ_INDEX_TENANT :: string where "AUTHZ_INDEX_TENANT = ''oauth''"

definition code_key :: "string \<Rightarrow> string" where
  "code_key code = ''authz_code:'' @ code"

text \<open>The random \<open>code\<close> is an argument.\<close>

definition create_authorization_code ::
    "string \<Rightarrow> string \<Rightarrow> string \<Rightarrow> string \<Rightarrow> string \<Rightarrow> string \<Rightarrow> string \<Rightarrow> string list \<Rightarrow> instant \<Rightarrow> (auth_state, string) step" where
  "create_authorization_code code client_id redirect_uri code_challenge code_challenge_method tenant_id principal_id scopes now =
     (let code_data = PDict [(''client_id'', PStr client_id), (''redirect_uri'', PStr redirect_uri),
        (''code_challenge'', PStr code_challenge), (''code_challenge_method'', PStr code_challenge_method),
        (''tenant_id'', PStr tenant_id), (''principal_id'', PStr principal_id),
        (''scopes'', PList (map PStr scopes)), (''expires_at'', PInt (now + 600))]
      in andthen (upd_redis (redis_set AUTHZ_INDEX_TENANT (code_key code) code_data)) (\<lambda>_.
         andthen (upd_redis (redis_set tenant_id (code_key code) code_data)) (\<lambda>_. ret code)))"

definition peek_authorization_code :: "string \<Rightarrow> auth_state \<Rightarrow> pyval" where
  "peek_authorization_code code s = redis_get AUTHZ_INDEX_TENANT (code_key code) (au_redis s)"

definition code_expired :: "pyval \<Rightarrow> instant \<Rightarrow> bool" where
  "code_expired expires_at now = (case expires_at of PInt t \<Rightarrow> t < now | v \<Rightarrow> truthy v)"

definition as_dict :: "pyval \<Rightarrow> pydict res" where
  "as_dict v = (case v of PDict d \<Rightarrow> Inr d | _ \<Rightarrow> Inl (Raised ''AttributeError''))"

definition consume_authorization_code :: "string \<Rightarrow> instant \<Rightarrow> (auth_state, pydict) step" where
  "consume_authorization_code code now =
     andthen (query (peek_authorization_code code)) (\<lambda>v.
     andthen (guard (truthy v) unauthorized) (\<lambda>_.
     andthen (upd_redis (redis_delete AUTHZ_INDEX_TENANT (code_key code))) (\<lambda>_.
     andthen (of_res (as_dict v)) (\<lambda>code_data.
     let tenant_id = pget code_data ''tenant_id'' in
     andthen (if truthy tenant_id then upd_redis (redis_delete (py_str tenant_id) (code_key code)) else ret ()) (\<lambda>_.
     andthen (guard (\<not> code_expired (pget code_data ''expires_at'') now) unauthorized) (\<lambda>_.
     ret code_data))))))"

subsection \<open>Refresh tokens\<close>

text \<open>The constraints of the table: primary key, unique digest, foreign key to the users.\<close>

definition add_refresh_row :: "refresh_row \<Rightarrow> (auth_state, unit) step" where
  "add_refresh_row row = (\<lambda>s.
     if map_of (au_refresh s) (rt_token_id row) \<noteq> None \<or> map_of (au_users s) (rt_principal_id row) = None \<or>
        list_ex (\<lambda>(i, r). rt_hashed_token r = rt_hashed_token row) (au_refresh s)
     then (Inl (Raised ''IntegrityError''), s)
     else (Inr (), s\<lparr>au_refresh := AList.update (rt_token_id row) row (au_refresh s)\<rparr>))"

definition int_of :: "pyval \<Rightarrow> int res" where
  "int_of v = (case py_int v of Some i \<Rightarrow> Inr i | None \<Rightarrow> Inl (Raised ''ValueError''))"

definition persist_refresh_token :: "jwt_lib \<Rightarrow> crypto \<Rightarrow> instant \<Rightarrow> string \<Rightarrow> string \<Rightarrow> string \<Rightarrow> (auth_state, unit) step" where
  "persist_refresh_token jw cr now token tenant_id principal_id =
     andthen (validate_token jw now token) (\<lambda>payload.
     andthen (guard (truthy (pget payload ''jti'')) unauthorized) (\<lambda>_.
     andthen (query (tk_refresh_ttl \<circ> au_keys)) (\<lambda>ttl.
     andthen (of_res (if truthy (pget payload ''exp'') then int_of (pget payload ''exp'') else Inr (now + ttl))) (\<lambda>expires_at.
     andthen (need_uuid (py_str (pget payload ''jti''))) (\<lambda>token_id.
     andthen (need_uuid principal_id) (\<lambda>who.
     andthen (need_uuid tenant_id) (\<lambda>tenant.
     add_refresh_row \<lparr>rt_token_id = token_id, rt_principal_id = who, rt_tenant_id = tenant,
       rt_hashed_token = cr_sha256_hex cr token, rt_revoked = False, rt_expires_at = expires_at\<rparr>)))))))"

record token_response =
  tr_access :: string
  tr_refresh :: "string option"
  tr_expires_in :: int

text \<open>Both grants end in a fresh pair whose access token has neither role nor token version.\<close>

definition fresh_pair :: "jwt_lib \<Rightarrow> crypto \<Rightarrow> instant \<Rightarrow> string \<Rightarrow> string \<Rightarrow> string list \<Rightarrow> (auth_state, token_response) step" where
  "fresh_pair jw cr now tenant_id principal_id fallback =
     andthen (query (scopes_for_principal principal_id tenant_id fallback)) (\<lambda>scopes.
     andthen (issue_access_token jw tenant_id principal_id scopes None 0 False now) (\<lambda>access_token.
     andthen (issue_refresh_token jw tenant_id principal_id now) (\<lambda>refresh_token.
     andthen (persist_refresh_token jw cr now refresh_token tenant_id principal_id) (\<lambda>_.
     andthen (query (tk_access_ttl \<circ> au_keys)) (\<lambda>ttl.
     ret \<lparr>tr_access = access_token, tr_refresh = Some refresh_token, tr_expires_in = ttl\<rparr>)))))"

definition need_key :: "pydict \<Rightarrow> string \<Rightarrow> pyval res" where
  "need_key d k = (case map_of d k of Some v \<Rightarrow> Inr v | None \<Rightarrow> Inl (Raised ''KeyError''))"

definition exchange_authorization_code ::
    "jwt_lib \<Rightarrow> crypto \<Rightarrow> instant \<Rightarrow> string \<Rightarrow> string \<Rightarrow> string \<Rightarrow> string \<Rightarrow> (auth_state, token_response) step" where
  "exchange_authorization_code jw cr now code code_verifier client_id redirect_uri =
     andthen (consume_authorization_code code now) (\<lambda>d.
     andthen (guard (pget d ''client_id'' = PStr client_id) unauthorized) (\<lambda>_.
     andthen (guard (pget d ''redirect_uri'' = PStr redirect_uri) unauthorized) (\<lambda>_.
     andthen (of_res (py_need_str (py_or (pget d ''code_challenge'') (PStr [])))) (\<lambda>challenge.
     andthen (of_res (py_need_str (py_or (pget d ''code_challenge_method'') (PStr ''S256'')))) (\<lambda>challenge_method.
     andthen (of_res (verify_pkce cr code_verifier challenge challenge_method)) (\<lambda>proved.
     andthen (guard proved unauthorized) (\<lambda>_.
     andthen (of_res (need_key d ''tenant_id'')) (\<lambda>tenant_id.
     andthen (of_res (need_key d ''principal_id'')) (\<lambda>principal_id.
     andthen (of_res (claim_scopes d)) (\<lambda>scopes.
     fresh_pair jw cr now (py_str tenant_id) (py_str principal_id) scopes))))))))))"

text \<open>The refresh row is revoked and the identifier entered in the cache before the new pair is made.\<close>

definition refresh_access_token :: "jwt_lib \<Rightarrow> crypto \<Rightarrow> instant \<Rightarrow> string \<Rightarrow> (auth_state, token_response) step" where
  "refresh_access_token jw cr now token =
     andthen (validate_token jw now token) (\<lambda>payload.
     andthen (guard (pget payload ''token_type'' = PStr ''refresh'') unauthorized) (\<lambda>_.
     andthen (of_res (need_key payload ''jti'')) (\<lambda>jti.
     andthen (of_res (need_key payload ''sub'')) (\<lambda>principal_id.
     andthen (of_res (need_key payload ''tenant_id'')) (\<lambda>tenant_id.
     andthen (need_uuid (py_str jti)) (\<lambda>token_id.
     andthen (query (\<lambda>s. map_of (au_refresh s) token_id)) (\<lambda>found.
     case found of None \<Rightarrow> raise unauthorized | Some row \<Rightarrow>
       andthen (guard (\<not> rt_revoked row) unauthorized) (\<lambda>_.
       andthen (guard (uuid_str (rt_tenant_id row) = py_str tenant_id) unauthorized) (\<lambda>_.
       andthen (guard (rt_hashed_token row = cr_sha256_hex cr token) unauthorized) (\<lambda>_.
       andthen (guard (now \<le> rt_expires_at row) unauthorized) (\<lambda>_.
       andthen (mark_revoked token_id) (\<lambda>_.
       andthen (upd_redis (redis_sadd (py_str tenant_id) (revoked_key jti) (py_str jti))) (\<lambda>_.
       fresh_pair jw cr now (py_str tenant_id) (py_str principal_id) [])))))))))))))"

definition issue_tokens_for_client_credentials ::
    "jwt_lib \<Rightarrow> crypto \<Rightarrow> instant \<Rightarrow> string \<Rightarrow> string \<Rightarrow> string list \<Rightarrow> (auth_state, token_response) step" where
  "issue_tokens_for_client_credentials jw cr now client_id client_secret scopes =
     andthen (query (\<lambda>s. map_of (au_clients s) client_id)) (\<lambda>found.
     case found of None \<Rightarrow> raise unauthorized | Some client \<Rightarrow>
       andthen (of_res (cr_verify cr client_secret (oc_hashed_secret client))) (\<lambda>matches.
       andthen (guard matches unauthorized) (\<lambda>_.
       andthen (guard (oc_client_type client = ''confidential'') forbidden) (\<lambda>_.
       andthen (issue_access_token jw (uuid_str (oc_tenant_id client)) client_id scopes None 0 False now) (\<lambda>access_token.
       andthen (query (tk_access_ttl \<circ> au_keys)) (\<lambda>ttl.
       ret \<lparr>tr_access = access_token, tr_refresh = None, tr_expires_in = ttl\<rparr>))))))"

subsection \<open>Guards of the routes\<close>

definition get_current_user :: "jwt_lib \<Rightarrow> instant \<Rightarrow> string option \<Rightarrow> (auth_state, pydict) step" where
  "get_current_user jw now credentials =
     (case credentials of
        None \<Rightarrow> raise unauthorized
      | Some token \<Rightarrow>
          if token = [] then raise unauthorized
          else reraise (\<lambda>e. if e = invalid_token \<or> e = revoked_token then unauthorized else e) (validate_token jw now token))"

text \<open>\<open>x in v\<close>.\<close>

definition py_in :: "string \<Rightarrow> pyval \<Rightarrow> bool res" where
  "py_in x v = (case v of PList xs \<Rightarrow> Inr (PStr x \<in> set xs) | PStr s \<Rightarrow> Inr (contains x s)
     | PDict d \<Rightarrow> Inr (x \<in> set (map fst d)) | _ \<Rightarrow> Inl (Raised ''TypeError''))"

definition require_scope :: "string \<Rightarrow> pydict \<Rightarrow> pydict res" where
  "require_scope required_scope current_user =
     rbind (py_in required_scope (dict_get current_user ''scopes'' (PList []))) (\<lambda>granted.
       if granted then Inr current_user else Inl forbidden)"

definition require_matching_tenant :: "string \<Rightarrow> pydict \<Rightarrow> pydict res" where
  "require_matching_tenant x_tenant_id current_user =
     (let token_tenant = pget current_user ''tenant_id'' in
      if \<not> truthy token_tenant then Inl unauthorized
      else if py_str token_tenant \<noteq> x_tenant_id then Inl (Raised ''CrossTenantAccessError'')
      else Inr current_user)"

definition find_user :: "uuid \<Rightarrow> uuid \<Rightarrow> auth_state \<Rightarrow> user_row option" where
  "find_user who tenant s =
     (case map_of (au_users s) who of Some u \<Rightarrow> if u_tenant_id u = tenant then Some u else None | None \<Rightarrow> None)"

definition require_admin :: "string \<Rightarrow> pydict \<Rightarrow> auth_state \<Rightarrow> pydict res" where
  "require_admin tenant_id current_user s =
     (let principal_raw = pget current_user ''sub'' in
      if \<not> truthy principal_raw then Inl unauthorized
      else case (parse_uuid (py_str principal_raw), parse_uuid tenant_id) of
        (Some who, Some tenant) \<Rightarrow>
          (case find_user who tenant s of
             None \<Rightarrow> Inl forbidden
           | Some u \<Rightarrow>
               if \<not> u_is_active u \<or> u_status u \<noteq> ''active'' then Inl forbidden
               else if u_role u \<noteq> ''admin'' then Inl forbidden
               else Inr (AList.update ''principal_id'' (PStr (uuid_str (u_principal_id u)))
                      (AList.update ''is_active'' (PBool (u_is_active u))
                        (AList.update ''role'' (PStr (u_role u)) current_user))))
      | _ \<Rightarrow> Inl unauthorized)"

end
