(* ===== verification/Accounts.thy ===== *)
theory Accounts
  imports Oauth Doc_Reader
begin

text \<open>
  \<open>backend/app/services/native_auth.py\<close> and the routes of administrators on users and sessions
  (\<open>api/v1/admin/users.py\<close>, \<open>api/v1/admin/sessions.py\<close>, \<open>services/admin/audit_logger.py\<close>), with
  \<open>api/v1/me.py\<close>. Bcrypt is a parameter, its salt a fresh seed; random temporary passwords are
  arguments. The details of \<open>HTTPException\<close> are left out. The drain of pending shares, which the code
  runs after an account is made, is recorded with its arguments; its effect is in \<open>Pipeline\<close>.
\<close>

definition http :: "nat \<Rightarrow> exn" where
  "http code = HTTPException code []"

subsection \<open>Passwords\<close>

definition pw_bytes :: "string \<Rightarrow> nat list" where
  "pw_bytes password = take (nat 71) (utf8_encode (map of_char password))"

definition hash_password :: "crypto \<Rightarrow> uuid \<Rightarrow> string \<Rightarrow> string" where
  "hash_password cr salt password = cr_hashpw cr (pw_bytes password) salt"

definition verify_password :: "crypto \<Rightarrow> string \<Rightarrow> string \<Rightarrow> bool" where
  "verify_password cr password password_hash =
     (case cr_checkpw cr (pw_bytes password) password_hash of Inr b \<Rightarrow> b | Inl _ \<Rightarrow> False)"

text \<open>\<open>scalar_one_or_none\<close> on the users with the address.\<close>

definition user_by_email :: "string \<Rightarrow> uuid \<Rightarrow> auth_state \<Rightarrow> user_row option res" where
  "user_by_email email tenant s =
     (case filter (\<lambda>u. u_email u = email \<and> u_tenant_id u = tenant) (map snd (au_users s)) of
        [] \<Rightarrow> Inr None | [u] \<Rightarrow> Inr (Some u) | _ \<Rightarrow> Inl (Raised ''MultipleResultsFound''))"

definition has_password :: "user_row \<Rightarrow> bool" where
  "has_password u = (u_password_hash u \<noteq> None \<and> u_password_hash u \<noteq> Some [])"

definition authenticate_user :: "crypto \<Rightarrow> string \<Rightarrow> string \<Rightarrow> uuid \<Rightarrow> (auth_state, user_row) step" where
  "authenticate_user cr email password tenant_id =
     andthen (\<lambda>s. (user_by_email email tenant_id s, s)) (\<lambda>found.
     case found of None \<Rightarrow> raise unauthorized | Some u \<Rightarrow>
       andthen (guard (has_password u) unauthorized) (\<lambda>_.
       andthen (guard (verify_password cr password (the (u_password_hash u))) unauthorized) (\<lambda>_.
       andthen (guard (u_is_active u) unauthorized) (\<lambda>_.
       andthen (guard (u_status u = ''active'') unauthorized) (\<lambda>_. ret u)))))"

definition valid_role :: "string \<Rightarrow> bool" where
  "valid_role role = (role = ''admin'' \<or> role = ''member'')"

text \<open>The constraints of the table: primary key, unique address, unique subject.\<close>

definition add_user_row :: "user_row \<Rightarrow> (auth_state, unit) step" where
  "add_user_row row = (\<lambda>s.
     if map_of (au_users s) (u_principal_id row) \<noteq> None \<or>
        list_ex (\<lambda>(i, u). u_email u = u_email row \<or> u_idp_subject u = u_idp_subject row) (au_users s)
     then (Inl (Raised ''IntegrityError''), s)
     else (Inr (), s\<lparr>au_users := AList.update (u_principal_id row) row (au_users s)\<rparr>))"

definition drain :: "uuid \<Rightarrow> string \<Rightarrow> uuid \<Rightarrow> (auth_state, unit) step" where
  "drain tenant_id email who = change (\<lambda>s. s\<lparr>au_drained := au_drained s @ [(tenant_id, email, who)]\<rparr>)"

definition create_native_user ::
    "crypto \<Rightarrow> string \<Rightarrow> string \<Rightarrow> string \<Rightarrow> uuid \<Rightarrow> string \<Rightarrow> uuid option \<Rightarrow> bool \<Rightarrow> bool \<Rightarrow> (auth_state, user_row) step" where
  "create_native_user cr email password display_name tenant_id role invited_by must_change is_active =
     andthen (guard (valid_role role) (Raised ''ValueError'')) (\<lambda>_.
     andthen (\<lambda>s. (user_by_email email tenant_id s, s)) (\<lambda>found.
     andthen (guard (found = None) (Raised ''ValueError'')) (\<lambda>_.
     andthen fresh_uuid (\<lambda>salt.
     let idp_subject = ''native:'' @ email;
         u = \<lparr>u_principal_id = cr_uuid5 cr idp_subject, u_tenant_id = tenant_id, u_idp_subject = idp_subject,
              u_email = email, u_display_name = display_name, u_password_hash = Some (hash_password cr salt password),
              u_source_profiles = [(''auth_type'', PStr ''native'')],
              u_status = (if is_active then ''active'' else ''deactivated''), u_role = role, u_invited_by = invited_by,
              u_must_change_password = must_change, u_is_active = is_active, u_token_version = 0\<rparr>
     in andthen (add_user_row u) (\<lambda>_. andthen (drain tenant_id email (u_principal_id u)) (\<lambda>_. ret u))))))"

definition put_user :: "user_row \<Rightarrow> (auth_state, unit) step" where
  "put_user u = change (\<lambda>s. s\<lparr>au_users := AList.update (u_principal_id u) u (au_users s)\<rparr>)"

definition change_password :: "crypto \<Rightarrow> string \<Rightarrow> string \<Rightarrow> string \<Rightarrow> (auth_state, unit) step" where
  "change_password cr user_id old_password new_password =
     andthen (case parse_uuid user_id of Some i \<Rightarrow> ret i | None \<Rightarrow> raise (Raised ''DBAPIError'')) (\<lambda>who.
     andthen (query (\<lambda>s. map_of (au_users s) who)) (\<lambda>found.
     case found of None \<Rightarrow> raise (Raised ''ValueError'') | Some u \<Rightarrow>
       andthen (guard (has_password u) (Raised ''ValueError'')) (\<lambda>_.
       andthen (guard (verify_password cr old_password (the (u_password_hash u))) unauthorized) (\<lambda>_.
       andthen fresh_uuid (\<lambda>salt.
       put_user (u\<lparr>u_password_hash := Some (hash_password cr salt new_password), u_must_change_password := False\<rparr>))))))"

subsection \<open>The administrator's routes\<close>

definition write_audit_log :: "uuid \<Rightarrow> uuid \<Rightarrow> string \<Rightarrow> (auth_state, unit) step" where
  "write_audit_log tenant_id actor_id action_type =
     change (\<lambda>s. s\<lparr>au_audit := au_audit s @ [(tenant_id, actor_id, action_type)]\<rparr>)"

definition as_uuid :: "string \<Rightarrow> (auth_state, uuid) step" where
  "as_uuid v = (case parse_uuid v of Some u \<Rightarrow> ret u | None \<Rightarrow> raise (http 400))"

text \<open>\<open>get_tenant\<close>; \<open>known\<close> tells the tenants the resolver finds.\<close>

definition get_tenant :: "(uuid \<Rightarrow> bool) \<Rightarrow> pydict \<Rightarrow> string res" where
  "get_tenant known current_user =
     (let tenant_id = pget current_user ''tenant_id'' in
      if \<not> truthy tenant_id then Inl unauthorized
      else case parse_uuid (py_str tenant_id) of
        None \<Rightarrow> Inl (http 500)
      | Some t \<Rightarrow> if known t then Inr (uuid_str t) else Inl (http 404))"

definition as_admin ::
    "jwt_lib \<Rightarrow> (uuid \<Rightarrow> bool) \<Rightarrow> instant \<Rightarrow> string option \<Rightarrow> (pydict \<Rightarrow> string \<Rightarrow> (auth_state, 'a) step) \<Rightarrow> (auth_state, 'a) step" where
  "as_admin jw known now credentials handler =
     andthen (get_current_user jw now credentials) (\<lambda>current_user.
     andthen (of_res (get_tenant known current_user)) (\<lambda>tenant_id.
     andthen (\<lambda>s. (require_admin tenant_id current_user s, s)) (\<lambda>admin. handler admin tenant_id)))"

definition admin_ids :: "pydict \<Rightarrow> string \<Rightarrow> (uuid \<Rightarrow> uuid \<Rightarrow> (auth_state, 'a) step) \<Rightarrow> (auth_state, 'a) step" where
  "admin_ids admin tenant_id k =
     andthen (as_uuid tenant_id) (\<lambda>tenant. andthen (as_uuid (py_str (pget admin ''sub''))) (\<lambda>actor. k tenant actor))"

definition target_user :: "uuid \<Rightarrow> uuid \<Rightarrow> (user_row \<Rightarrow> (auth_state, 'a) step) \<Rightarrow> (auth_state, 'a) step" where
  "target_user target tenant k =
     andthen (query (find_user target tenant)) (\<lambda>found. case found of None \<Rightarrow> raise (http 404) | Some u \<Rightarrow> k u)"

definition create_user :: "crypto \<Rightarrow> string \<Rightarrow> string \<Rightarrow> string \<Rightarrow> string \<Rightarrow> pydict \<Rightarrow> string \<Rightarrow> (auth_state, user_row) step" where
  "create_user cr email display_name role temp_password admin tenant_id =
     andthen (guard (valid_role role) (http 400)) (\<lambda>_.
     admin_ids admin tenant_id (\<lambda>tenant actor.
     andthen (reraise (\<lambda>e. if e = Raised ''ValueError'' then http 400 else e)
       (create_native_user cr email temp_password display_name tenant role (Some actor) True True)) (\<lambda>u.
     andthen (write_audit_log tenant actor ''user.created'') (\<lambda>_. ret u))))"

text \<open>\<open>order_by(User.email)\<close> in the collation of the database.\<close>

definition list_users :: "(string \<Rightarrow> 'k::linorder) \<Rightarrow> string \<Rightarrow> (auth_state, user_row list) step" where
  "list_users collation tenant_id =
     andthen (as_uuid tenant_id) (\<lambda>tenant.
     query (\<lambda>s. sort_key (collation \<circ> u_email) (filter (\<lambda>u. u_tenant_id u = tenant) (map snd (au_users s)))))"

definition patched :: "string option \<Rightarrow> bool option \<Rightarrow> user_row \<Rightarrow> user_row" where
  "patched role is_active u =
     (let u = (case role of Some r \<Rightarrow> u\<lparr>u_role := r\<rparr> | None \<Rightarrow> u)
      in case is_active of
           Some b \<Rightarrow> u\<lparr>u_is_active := b, u_status := (if b then ''active'' else ''deactivated'')\<rparr>
         | None \<Rightarrow> u)"

definition patch_user :: "string \<Rightarrow> string option \<Rightarrow> bool option \<Rightarrow> pydict \<Rightarrow> string \<Rightarrow> (auth_state, user_row) step" where
  "patch_user user_id role is_active admin tenant_id =
     andthen (guard (role \<noteq> None \<or> is_active \<noteq> None) (http 400)) (\<lambda>_.
     andthen (guard (case role of Some r \<Rightarrow> valid_role r | None \<Rightarrow> True) (http 400)) (\<lambda>_.
     admin_ids admin tenant_id (\<lambda>tenant actor.
     andthen (as_uuid user_id) (\<lambda>target.
     target_user target tenant (\<lambda>u.
     andthen (put_user (patched role is_active u)) (\<lambda>_.
     andthen (write_audit_log tenant actor ''user.updated'') (\<lambda>_. ret (patched role is_active u))))))))"

definition deactivate_user :: "string \<Rightarrow> pydict \<Rightarrow> string \<Rightarrow> (auth_state, user_row) step" where
  "deactivate_user user_id admin tenant_id =
     admin_ids admin tenant_id (\<lambda>tenant actor.
     andthen (as_uuid user_id) (\<lambda>target.
     andthen (guard (target \<noteq> actor) (http 400)) (\<lambda>_.
     target_user target tenant (\<lambda>u.
     let u = u\<lparr>u_is_active := False, u_status := ''deactivated''\<rparr>
     in andthen (put_user u) (\<lambda>_. andthen (write_audit_log tenant actor ''user.deactivated'') (\<lambda>_. ret u))))))"

definition reset_password :: "crypto \<Rightarrow> string \<Rightarrow> string \<Rightarrow> pydict \<Rightarrow> string \<Rightarrow> (auth_state, string) step" where
  "reset_password cr temp_password user_id admin tenant_id =
     admin_ids admin tenant_id (\<lambda>tenant actor.
     andthen (as_uuid user_id) (\<lambda>target.
     target_user target tenant (\<lambda>u.
     andthen (guard (has_password u) (http 400)) (\<lambda>_.
     andthen fresh_uuid (\<lambda>salt.
     andthen (put_user (u\<lparr>u_password_hash := Some (hash_password cr salt temp_password), u_must_change_password := True\<rparr>)) (\<lambda>_.
     andthen (write_audit_log tenant actor ''user.password_reset'') (\<lambda>_. ret temp_password)))))))"

text \<open>
  The new version goes to the cache first. Exceptions of the revocation of the refresh rows are
  ignored.
\<close>

definition revoke_sessions :: "string \<Rightarrow> pydict \<Rightarrow> string \<Rightarrow> (auth_state, int) step" where
  "revoke_sessions user_id admin tenant_id =
     admin_ids admin tenant_id (\<lambda>tenant actor.
     andthen (as_uuid user_id) (\<lambda>target.
     target_user target tenant (\<lambda>u.
     let new_version = u_token_version u + 1; who = uuid_str (u_principal_id u)
     in andthen (put_user (u\<lparr>u_token_version := new_version\<rparr>)) (\<lambda>_.
        andthen (upd_redis (redis_set (uuid_str tenant) (version_key (PStr who)) (PStr (int_str new_version)))) (\<lambda>_.
        andthen (attempt (revoke_session who (uuid_str tenant))) (\<lambda>_.
        andthen (write_audit_log tenant actor ''session.revoked'') (\<lambda>_. ret new_version)))))))"

definition me_change_password ::
    "jwt_lib \<Rightarrow> crypto \<Rightarrow> (uuid \<Rightarrow> bool) \<Rightarrow> instant \<Rightarrow> string option \<Rightarrow> string \<Rightarrow> string \<Rightarrow> (auth_state, unit) step" where
  "me_change_password jw cr known now credentials old_password new_password =
     andthen (get_current_user jw now credentials) (\<lambda>current_user.
     andthen (of_res (get_tenant known current_user)) (\<lambda>tenant_id.
     reraise (\<lambda>e. if e = Raised ''ValueError'' then http 400 else http 401)
       (change_password cr (py_str (pget current_user ''sub'')) old_password new_password)))"

end
