(* ===== verification/Signin.thy ===== *)
theory Signin
  imports Accounts
begin

text \<open>
  The routes that hand out tokens: \<open>backend/app/api/v1/auth.py\<close> (login with a password, refresh,
  single sign-on with state and PKCE) and \<open>backend/app/api/v1/oauth.py\<close> (token and revocation
  endpoints). The identity provider, the tenants of the control plane and the random values are
  arguments. The state is the cache and the database of one tenant.
\<close>

subsection \<open>Password and refresh\<close>

record login_response =
  lr_access :: string
  lr_refresh :: string
  lr_expires_in :: int
  lr_role :: string
  lr_must_change :: bool

definition native_login ::
    "jwt_lib \<Rightarrow> crypto \<Rightarrow> (string \<Rightarrow> uuid option) \<Rightarrow> (uuid \<Rightarrow> bool) \<Rightarrow> instant \<Rightarrow> string \<Rightarrow> string \<Rightarrow> string \<Rightarrow>
     (auth_state, login_response) step" where
  "native_login jw cr subdomain known now email password tenant_subdomain =
     (case subdomain tenant_subdomain of
        None \<Rightarrow> raise (http 404)
      | Some tenant \<Rightarrow>
          andthen (guard (known tenant) (http 500)) (\<lambda>_.
          andthen (reraise (\<lambda>e. http 401) (authenticate_user cr email password tenant)) (\<lambda>u.
          let tenant_id = uuid_str tenant; who = uuid_str (u_principal_id u); role = role_or_member (u_role u)
          in andthen (issue_access_token jw tenant_id who (scopes_for_role role) (Some role) (u_token_version u)
                        (u_must_change_password u) now) (\<lambda>access_token.
             andthen (issue_refresh_token jw tenant_id who now) (\<lambda>refresh_token.
             andthen (persist_refresh_token jw cr now refresh_token tenant_id who) (\<lambda>_.
             andthen (drain tenant (u_email u) (u_principal_id u)) (\<lambda>_.
             andthen (query (tk_access_ttl \<circ> au_keys)) (\<lambda>ttl.
             ret \<lparr>lr_access = access_token, lr_refresh = refresh_token, lr_expires_in = ttl, lr_role = role,
                  lr_must_change = u_must_change_password u\<rparr>)))))))) "

text \<open>The tenant of a refresh token, resolved; other exceptions of the resolver pass.\<close>

definition refresh_tenant :: "(uuid \<Rightarrow> bool) \<Rightarrow> pydict \<Rightarrow> unit res" where
  "refresh_tenant known payload =
     (let tenant_id = pget payload ''tenant_id'' in
      if \<not> truthy tenant_id \<or> py_str tenant_id = [] then Inl (http 401)
      else case parse_uuid (py_str tenant_id) of
        None \<Rightarrow> Inl (Raised ''ValueError'')
      | Some t \<Rightarrow> if known t then Inr () else Inl (http 401))"

definition unauthorized_401 :: "exn \<Rightarrow> exn" where
  "unauthorized_401 e = (if e = unauthorized then http 401 else e)"

definition checked_refresh ::
    "jwt_lib \<Rightarrow> crypto \<Rightarrow> (uuid \<Rightarrow> bool) \<Rightarrow> instant \<Rightarrow> string \<Rightarrow> (auth_state, token_response) step" where
  "checked_refresh jw cr known now token =
     andthen (validate_token jw now token) (\<lambda>payload.
     andthen (guard (pget payload ''token_type'' = PStr ''refresh'') (http 401)) (\<lambda>_.
     andthen (of_res (refresh_tenant known payload)) (\<lambda>_.
     refresh_access_token jw cr now token)))"

definition refresh_session ::
    "jwt_lib \<Rightarrow> crypto \<Rightarrow> (uuid \<Rightarrow> bool) \<Rightarrow> instant \<Rightarrow> string \<Rightarrow> (auth_state, login_response) step" where
  "refresh_session jw cr known now token =
     reraise unauthorized_401
       (andthen (checked_refresh jw cr known now token) (\<lambda>tokens.
        andthen (query (tk_access_ttl \<circ> au_keys)) (\<lambda>ttl.
        ret \<lparr>lr_access = tr_access tokens, lr_refresh = (case tr_refresh tokens of Some r \<Rightarrow> r | None \<Rightarrow> []),
             lr_expires_in = (if tr_expires_in tokens \<noteq> 0 then tr_expires_in tokens else ttl),
             lr_role = ''member'', lr_must_change = False\<rparr>)))"

subsection \<open>Single sign-on\<close>

record oidc_settings =
  os_issuer :: string
  os_client_id :: string
  os_client_secret :: string
  os_redirect_uri :: string

definition OIDC_STATE_PARTITION :: string where "OIDC_STATE_PARTITION = ''oidc''"

definition ALLOWED_OIDC_REDIRECT_PREFIXES :: "string list" where
  "ALLOWED_OIDC_REDIRECT_PREFIXES = [''http://localhost'', ''https://localhost'']"

definition redirect_uri_allowed :: "oidc_settings \<Rightarrow> string \<Rightarrow> bool res" where
  "redirect_uri_allowed st redirect =
     (let configured = str_strip (os_redirect_uri st) in
      if configured \<noteq> [] \<and> \<not> (is_ascii redirect \<and> is_ascii configured) then Inl (Raised ''TypeError'')
      else if configured \<noteq> [] \<and> redirect = configured then Inr True
      else Inr (list_ex (\<lambda>prefix. starts_with prefix redirect) ALLOWED_OIDC_REDIRECT_PREFIXES))"

definition state_key :: "string \<Rightarrow> string" where
  "state_key state = ''oidc_state:'' @ state"

definition strip_slashes :: "string \<Rightarrow> string" where
  "strip_slashes s = rev (dropWhile (\<lambda>c. c = CHR ''/'') (rev s))"

text \<open>The redirect is the address with its parameters, before URL encoding.\<close>

definition sso_login ::
    "crypto \<Rightarrow> oidc_settings \<Rightarrow> (string \<Rightarrow> uuid option) \<Rightarrow> string \<Rightarrow> string \<Rightarrow> string \<Rightarrow> string \<Rightarrow>
     (auth_state, string \<times> (string \<times> string) list) step" where
  "sso_login cr st subdomain state code_verifier redirect_uri tenant_subdomain =
     andthen (guard (os_issuer st \<noteq> [] \<and> os_client_id st \<noteq> []) (http 500)) (\<lambda>_.
     andthen (guard (tenant_subdomain \<noteq> []) (http 400)) (\<lambda>_.
     case subdomain tenant_subdomain of None \<Rightarrow> raise (http 404) | Some tenant \<Rightarrow>
       let redirect = (if redirect_uri \<noteq> [] then redirect_uri else os_redirect_uri st)
       in andthen (guard (redirect \<noteq> []) (http 400)) (\<lambda>_.
          andthen (of_res (redirect_uri_allowed st redirect)) (\<lambda>allowed.
          andthen (guard allowed (http 400)) (\<lambda>_.
          andthen (upd_redis (redis_set OIDC_STATE_PARTITION (state_key state)
            (PDict [(''code_verifier'', PStr code_verifier), (''redirect_uri'', PStr redirect),
              (''tenant_id'', PStr (uuid_str tenant)), (''tenant_subdomain'', PStr tenant_subdomain)]))) (\<lambda>_.
          ret (strip_slashes (os_issuer st) @ ''/authorize'',
               [(''client_id'', os_client_id st), (''redirect_uri'', redirect), (''response_type'', ''code''),
                (''scope'', ''openid profile email''), (''state'', state),
                (''code_challenge'', cr_s256 cr code_verifier), (''code_challenge_method'', ''S256'')]))))))) "

text \<open>The signature of the identity token is not verified.\<close>

definition id_token_claims :: "jwt_lib \<Rightarrow> oidc_settings \<Rightarrow> instant \<Rightarrow> string \<Rightarrow> pydict res" where
  "id_token_claims jw st now id_token =
     rbind (jl_unverified jw id_token) (\<lambda>claims.
       let issuer = strip_slashes (os_issuer st);
           token_iss = strip_slashes (py_str (py_or (pget claims ''iss'') (PStr [])));
           aud = pget claims ''aud''; ex = pget claims ''exp''
       in if issuer = [] \<or> token_iss \<noteq> issuer then Inl (http 401)
          else if \<not> (aud = PStr (os_client_id st) \<or> (case aud of PList xs \<Rightarrow> PStr (os_client_id st) \<in> set xs | _ \<Rightarrow> False))
          then Inl (http 401)
          else if ex \<noteq> PNone \<and> (case py_int ex of Some t \<Rightarrow> t < now | None \<Rightarrow> True) then Inl (http 401)
          else Inr claims)"

text \<open>
  The answer of the identity provider to the exchange is an argument. \<open>SsoLoginResponse\<close>, which the
  last step calls, is not defined anywhere in the program, so that step raises \<open>NameError\<close>.
\<close>

definition sso_tokens :: "jwt_lib \<Rightarrow> uuid \<Rightarrow> instant \<Rightarrow> user_row \<Rightarrow> (auth_state, login_response) step" where
  "sso_tokens jw tenant now u =
     (let tenant_id = uuid_str tenant; who = uuid_str (u_principal_id u); role = role_or_member (u_role u)
      in andthen (issue_access_token jw tenant_id who (scopes_for_role role) (Some role) (u_token_version u) False now) (\<lambda>_.
         andthen (issue_refresh_token jw tenant_id who now) (\<lambda>_.
         raise (Raised ''NameError''))))"

definition sso_user :: "string \<Rightarrow> uuid \<Rightarrow> auth_state \<Rightarrow> user_row res" where
  "sso_user email tenant s =
     (case filter (\<lambda>u. u_email u = email \<and> u_tenant_id u = tenant \<and> u_is_active u) (map snd (au_users s)) of
        [] \<Rightarrow> Inl (http 401)
      | [u] \<Rightarrow> if u_status u = ''active'' then Inr u else Inl (http 401)
      | _ \<Rightarrow> Inl (Raised ''MultipleResultsFound''))"

definition sso_callback ::
    "jwt_lib \<Rightarrow> oidc_settings \<Rightarrow> (uuid \<Rightarrow> bool) \<Rightarrow> (string \<Rightarrow> pyval \<Rightarrow> pyval \<Rightarrow> nat \<times> pydict) \<Rightarrow> instant \<Rightarrow>
     string \<Rightarrow> string \<Rightarrow> (auth_state, login_response) step" where
  "sso_callback jw st known idp now code state =
     andthen (guard (os_issuer st \<noteq> [] \<and> os_client_id st \<noteq> [] \<and> os_client_secret st \<noteq> []) (http 500)) (\<lambda>_.
     andthen (guard (state \<noteq> []) (http 400)) (\<lambda>_.
     andthen (query (\<lambda>s. redis_get OIDC_STATE_PARTITION (state_key state) (au_redis s))) (\<lambda>v.
     andthen (upd_redis (redis_delete OIDC_STATE_PARTITION (state_key state))) (\<lambda>_.
     andthen (guard (truthy v) (http 401)) (\<lambda>_.
     andthen (of_res (as_dict v)) (\<lambda>state_data.
     andthen (guard (truthy (pget state_data ''tenant_id'')) (http 401)) (\<lambda>_.
     let (status, idp_payload) =
       idp code (py_or (pget state_data ''redirect_uri'') (PStr (os_redirect_uri st))) (pget state_data ''code_verifier'')
     in andthen (guard (status = 200) (http 400)) (\<lambda>_.
        andthen (guard (truthy (pget idp_payload ''id_token'')) (http 400)) (\<lambda>_.
        andthen (of_res (py_need_str (pget idp_payload ''id_token''))) (\<lambda>id_token.
        andthen (of_res (id_token_claims jw st now id_token)) (\<lambda>claims.
        andthen (of_res (py_meth (py_or (pget claims ''email'') (PStr [])) (str_lower \<circ> str_strip))) (\<lambda>email.
        andthen (guard (email \<noteq> []) (http 401)) (\<lambda>_.
        case parse_uuid (py_str (pget state_data ''tenant_id'')) of
          None \<Rightarrow> raise (http 401)
        | Some tenant \<Rightarrow>
            andthen (guard (known tenant) (http 401)) (\<lambda>_.
            andthen (\<lambda>s. (sso_user email tenant s, s)) (\<lambda>u. sso_tokens jw tenant now u)))))))))))))))"

subsection \<open>The token endpoint\<close>

text \<open>The fields of the form; absent ones are empty.\<close>

record token_form =
  tf_grant_type :: string
  tf_code :: string
  tf_redirect_uri :: string
  tf_client_id :: string
  tf_client_secret :: string
  tf_refresh_token :: string
  tf_code_verifier :: string
  tf_scope :: string
  tf_tenant_id :: string

definition py_split :: "string \<Rightarrow> string list" where
  "py_split s = filter (\<lambda>w. w \<noteq> []) (split_on (CHR '' '') (map (\<lambda>c. if is_space c then CHR '' '' else c) s))"

definition tenant_session :: "(uuid \<Rightarrow> bool) \<Rightarrow> string \<Rightarrow> unit res" where
  "tenant_session known tenant_id =
     (case parse_uuid tenant_id of
        None \<Rightarrow> Inl (Raised ''ValueError'') | Some t \<Rightarrow> if known t then Inr () else Inl (http 401))"

definition grant_client ::
    "jwt_lib \<Rightarrow> crypto \<Rightarrow> (uuid \<Rightarrow> bool) \<Rightarrow> instant \<Rightarrow> token_form \<Rightarrow> (auth_state, token_response) step" where
  "grant_client jw cr known now f =
     andthen (guard (tf_client_id f \<noteq> [] \<and> tf_client_secret f \<noteq> [] \<and> tf_tenant_id f \<noteq> []) (http 400)) (\<lambda>_.
     andthen (of_res (tenant_session known (tf_tenant_id f))) (\<lambda>_.
     issue_tokens_for_client_credentials jw cr now (tf_client_id f) (tf_client_secret f) (py_split (tf_scope f))))"

definition grant_code ::
    "jwt_lib \<Rightarrow> crypto \<Rightarrow> (uuid \<Rightarrow> bool) \<Rightarrow> instant \<Rightarrow> token_form \<Rightarrow> (auth_state, token_response) step" where
  "grant_code jw cr known now f =
     andthen (guard (tf_code f \<noteq> [] \<and> tf_redirect_uri f \<noteq> [] \<and> tf_code_verifier f \<noteq> [] \<and> tf_client_id f \<noteq> []) (http 400)) (\<lambda>_.
     andthen (query (peek_authorization_code (tf_code f))) (\<lambda>v.
     andthen (guard (truthy v) (http 401)) (\<lambda>_.
     andthen (of_res (as_dict v)) (\<lambda>d.
     let authz_tenant = py_str (py_or (pget d ''tenant_id'') (PStr [])) in
     andthen (guard (authz_tenant \<noteq> []) (http 401)) (\<lambda>_.
     andthen (of_res (tenant_session known authz_tenant)) (\<lambda>_.
     exchange_authorization_code jw cr now (tf_code f) (tf_code_verifier f) (tf_client_id f) (tf_redirect_uri f)))))))"

definition token_endpoint ::
    "jwt_lib \<Rightarrow> crypto \<Rightarrow> (uuid \<Rightarrow> bool) \<Rightarrow> instant \<Rightarrow> token_form \<Rightarrow> (auth_state, token_response) step" where
  "token_endpoint jw cr known now f =
     reraise (\<lambda>e. if e = unauthorized then http 401 else if e = forbidden then http 403 else e)
       (if tf_grant_type f = ''client_credentials'' then grant_client jw cr known now f
        else if tf_grant_type f = ''refresh_token'' then
          andthen (guard (tf_refresh_token f \<noteq> []) (http 400)) (\<lambda>_.
          checked_refresh jw cr known now (tf_refresh_token f))
        else if tf_grant_type f = ''authorization_code'' then grant_code jw cr known now f
        else raise (http 422))"

definition revoke_endpoint ::
    "jwt_lib \<Rightarrow> (uuid \<Rightarrow> bool) \<Rightarrow> instant \<Rightarrow> string option \<Rightarrow> string \<Rightarrow> (auth_state, unit) step" where
  "revoke_endpoint jw known now credentials token =
     andthen (get_current_user jw now credentials) (\<lambda>current_user.
     andthen (of_res (get_tenant known current_user)) (\<lambda>tenant_id. revoke_token jw tenant_id token))"

end
