(* ===== verification/Sessions.thy ===== *)
theory Sessions
  imports Signin
begin

text \<open>
  Sessions over time: the requests on one tenant database and the shared cache as operations, and
  what every run of them keeps. The laws a fact about the cache and the refresh tokens must obey to
  survive every operation are an interface; the revoked row, the revoked identifier and the used
  authorization code provide it.
\<close>

subsection \<open>Requests\<close>

record auth_env =
  ae_jwt :: jwt_lib
  ae_crypto :: crypto
  ae_subdomain :: "string \<Rightarrow> uuid option"
  ae_known :: "uuid \<Rightarrow> bool"
  ae_oidc :: oidc_settings
  ae_idp :: "string \<Rightarrow> pyval \<Rightarrow> pyval \<Rightarrow> nat \<times> pydict"

datatype admin_request =
    Create_User string string string string
  | Patch_User string "string option" "bool option"
  | Deactivate_User string
  | Reset_Password string string
  | Revoke_Sessions string

datatype auth_request =
    Login string string string
  | Refresh string
  | Token token_form
  | Revoke "string option" string
  | New_Code string string string string string string string "string list"
  | Sso_Login string string string string
  | Sso_Callback string string
  | Change_Password "string option" string string
  | Admin "string option" admin_request
  | Rotate_Pair string
  | Register_Key string string
  | Rotate_Key string string string

definition void :: "('s, 'a) step \<Rightarrow> ('s, unit) step" where
  "void m = andthen m (\<lambda>_. ret ())"

fun admin_step :: "auth_env \<Rightarrow> admin_request \<Rightarrow> pydict \<Rightarrow> string \<Rightarrow> (auth_state, unit) step" where
  "admin_step env (Create_User email name role pw) admin t = void (create_user (ae_crypto env) email name role pw admin t)"
| "admin_step env (Patch_User i role active) admin t = void (patch_user i role active admin t)"
| "admin_step env (Deactivate_User i) admin t = void (deactivate_user i admin t)"
| "admin_step env (Reset_Password pw i) admin t = void (reset_password (ae_crypto env) pw i admin t)"
| "admin_step env (Revoke_Sessions i) admin t = void (revoke_sessions i admin t)"

fun serve :: "auth_env \<Rightarrow> instant \<Rightarrow> auth_request \<Rightarrow> (auth_state, unit) step" where
  "serve env now (Login email pw sub) =
     void (native_login (ae_jwt env) (ae_crypto env) (ae_subdomain env) (ae_known env) now email pw sub)"
| "serve env now (Refresh token) = void (refresh_session (ae_jwt env) (ae_crypto env) (ae_known env) now token)"
| "serve env now (Token f) = void (token_endpoint (ae_jwt env) (ae_crypto env) (ae_known env) now f)"
| "serve env now (Revoke creds token) = revoke_endpoint (ae_jwt env) (ae_known env) now creds token"
| "serve env now (New_Code code client uri ch m t who scopes) =
     void (create_authorization_code code client uri ch m t who scopes now)"
| "serve env now (Sso_Login state verifier uri sub) =
     void (sso_login (ae_crypto env) (ae_oidc env) (ae_subdomain env) state verifier uri sub)"
| "serve env now (Sso_Callback code state) =
     void (sso_callback (ae_jwt env) (ae_oidc env) (ae_known env) (ae_idp env) now code state)"
| "serve env now (Change_Password creds old new) =
     me_change_password (ae_jwt env) (ae_crypto env) (ae_known env) now creds old new"
| "serve env now (Admin creds r) = as_admin (ae_jwt env) (ae_known env) now creds (admin_step env r)"
| "serve env now (Rotate_Pair token) = void (rotate_refresh_token (ae_jwt env) now token)"
| "serve env now (Register_Key kid pem) = change (\<lambda>s. s\<lparr>au_keys := register_verification_key kid pem (au_keys s)\<rparr>)"
| "serve env now (Rotate_Key kid priv pub) = change (\<lambda>s. s\<lparr>au_keys := rotate_signing_key kid priv pub (au_keys s)\<rparr>)"

text \<open>A run serves requests at their times; exceptions end a request, not the run.\<close>

definition run :: "auth_env \<Rightarrow> (instant \<times> auth_request) list \<Rightarrow> auth_state \<Rightarrow> auth_state" where
  "run env rs s = foldl (\<lambda>s (now, r). snd (serve env now r s)) s rs"

subsection \<open>Facts that survive every request\<close>

lemma keeps_read: "keeps I (\<lambda>s. (f s, s))"
  by (simp add: keeps_def)

lemma keeps_option: "keeps I m \<Longrightarrow> (\<And>x. keeps I (f x)) \<Longrightarrow> keeps I (case v of None \<Rightarrow> m | Some x \<Rightarrow> f x)"
  by (cases v) simp_all

lemma keeps_sum: "(\<And>x. keeps I (f x)) \<Longrightarrow> (\<And>x. keeps I (g x)) \<Longrightarrow> keeps I (case v of Inl x \<Rightarrow> f x | Inr x \<Rightarrow> g x)"
  by (cases v) simp_all

lemma keeps_pair: "(\<And>x y. keeps I (f x y)) \<Longrightarrow> keeps I (case v of (x, y) \<Rightarrow> f x y)"
  by (cases v) simp

lemma keeps_let: "(\<And>x. keeps I (f x)) \<Longrightarrow> keeps I (Let v f)"
  by (simp add: Let_def)

lemma keeps_void: "keeps I m \<Longrightarrow> keeps I (void m)"
  by (simp add: void_def keeps_andthen)

lemmas keeps_structure = keeps_basic keeps_read keeps_option keeps_sum keeps_pair keeps_let keeps_void keeps_if
  keeps_andthen keeps_reraise keeps_attempt

locale session_fact =
  fixes J :: "redis \<Rightarrow> (uuid, refresh_row) dict \<Rightarrow> token_keys \<Rightarrow> bool"
    and fresh_code :: "string \<Rightarrow> bool"
    and other_kid :: "string \<Rightarrow> bool"
  assumes sadd: "J r t k \<Longrightarrow> J (redis_sadd tenant (revoked_key j) m r) t k"
    and version: "J r t k \<Longrightarrow> J (redis_set tenant (version_key who) v r) t k"
    and code_set: "fresh_code c \<Longrightarrow> J r t k \<Longrightarrow> J (redis_set tenant (code_key c) v r) t k"
    and code_delete: "J r t k \<Longrightarrow> J (redis_delete tenant (code_key c) r) t k"
    and state_set: "J r t k \<Longrightarrow> J (redis_set OIDC_STATE_PARTITION (state_key c) v r) t k"
    and state_delete: "J r t k \<Longrightarrow> J (redis_delete OIDC_STATE_PARTITION (state_key c) r) t k"
    and mark: "rt_revoked row \<Longrightarrow> J r t k \<Longrightarrow> J r (AList.update i row t) k"
    and add: "map_of t i = None \<Longrightarrow> J r t k \<Longrightarrow> J r (AList.update i row t) k"
    and load: "J r t k \<Longrightarrow> J r t (load_keys k)"
    and register: "other_kid kid \<Longrightarrow> J r t k \<Longrightarrow> J r t (register_verification_key kid pem k)"
    and rotate: "other_kid kid \<Longrightarrow> J r t k \<Longrightarrow> J r t (rotate_signing_key kid priv pub k)"
begin

definition holds :: "auth_state \<Rightarrow> bool" where
  "holds s = J (au_redis s) (au_refresh s) (au_keys s)"

lemma keeps_frame:
  "(\<And>s. au_redis (f s) = au_redis s \<and> au_refresh (f s) = au_refresh s \<and> au_keys (f s) = au_keys s) \<Longrightarrow> keeps holds (change f)"
  by (simp add: keeps_def holds_def)

lemma keeps_redis: "(\<And>r t k. J r t k \<Longrightarrow> J (f r) t k) \<Longrightarrow> keeps holds (upd_redis f)"
  by (simp add: keeps_def holds_def upd_redis_def)

lemma keeps_mark: "keeps holds (mark_revoked i)"
  by (auto simp: keeps_def holds_def mark_revoked_def mark split: option.splits)

lemma keeps_add: "keeps holds (add_refresh_row row)"
  by (auto simp: keeps_def holds_def add_refresh_row_def add)

lemma keeps_with_keys: "keeps holds with_keys"
  by (simp add: keeps_def holds_def with_keys_def Let_def load)

lemma keeps_fresh: "keeps holds fresh_uuid"
  by (simp add: keeps_def holds_def)

lemma keeps_publish: "keeps holds (publish e)"
  unfolding publish_def by (rule keeps_frame) simp

lemma keeps_user_row: "keeps holds (add_user_row row)"
  by (simp add: keeps_def holds_def add_user_row_def)

lemma holds_revoke_rows: "holds s \<Longrightarrow> holds (foldl (revoke_row tenant) s rows)"
  by (induction rows arbitrary: s) (auto simp: holds_def revoke_row_def mark sadd)

lemma keeps_revoke_rows: "keeps holds (change (\<lambda>s. foldl (revoke_row tenant) s (f s)))"
  by (simp add: keeps_def holds_revoke_rows)

lemmas keeps_prims = keeps_structure keeps_mark keeps_add keeps_with_keys keeps_fresh keeps_publish keeps_user_row
  keeps_revoke_rows keeps_redis [OF sadd] keeps_redis [OF version] keeps_redis [OF code_delete]
  keeps_redis [OF state_set] keeps_redis [OF state_delete]

lemma keeps_need_uuid: "keeps holds (need_uuid v)"
  unfolding need_uuid_def by (intro keeps_prims)

lemma keeps_validate: "keeps holds (validate_token jw now token)"
  unfolding validate_token_def by (intro keeps_prims)

lemma keeps_access: "keeps holds (issue_access_token jw t who sc role v mc now)"
  unfolding issue_access_token_def by (intro keeps_prims)

lemma keeps_refresh: "keeps holds (issue_refresh_token jw t who now)"
  unfolding issue_refresh_token_def by (intro keeps_prims)

lemmas keeps_tokens = keeps_prims keeps_need_uuid keeps_validate keeps_access keeps_refresh

lemma keeps_rotate_pair: "keeps holds (rotate_refresh_token jw now token)"
  unfolding rotate_refresh_token_def by (intro keeps_tokens)

lemma keeps_revoke_token: "keeps holds (revoke_token jw tenant token)"
  unfolding revoke_token_def decode_without_validation_def by (intro keeps_tokens)

lemma keeps_revoke_session: "keeps holds (revoke_session who tenant)"
  unfolding revoke_session_def by (intro keeps_tokens)

lemma keeps_persist: "keeps holds (persist_refresh_token jw cr now token t who)"
  unfolding persist_refresh_token_def by (intro keeps_tokens)

lemma keeps_pair_of_tokens: "keeps holds (fresh_pair jw cr now t who fallback)"
  unfolding fresh_pair_def by (intro keeps_tokens keeps_persist)

lemma keeps_consume: "keeps holds (consume_authorization_code code now)"
  unfolding consume_authorization_code_def by (intro keeps_tokens)

lemma keeps_refresh_access: "keeps holds (refresh_access_token jw cr now token)"
  unfolding refresh_access_token_def by (intro keeps_tokens keeps_pair_of_tokens)

lemma keeps_exchange: "keeps holds (exchange_authorization_code jw cr now code v client uri)"
  unfolding exchange_authorization_code_def by (intro keeps_tokens keeps_consume keeps_pair_of_tokens)

lemma keeps_client: "keeps holds (issue_tokens_for_client_credentials jw cr now client secret scopes)"
  unfolding issue_tokens_for_client_credentials_def by (intro keeps_tokens)

lemma keeps_new_code: "fresh_code code \<Longrightarrow> keeps holds (create_authorization_code code client uri ch m t who scopes now)"
  unfolding create_authorization_code_def by (intro keeps_tokens keeps_redis [OF code_set])

lemma keeps_current: "keeps holds (get_current_user jw now creds)"
  unfolding get_current_user_def by (intro keeps_tokens)

lemma keeps_drain: "keeps holds (drain t email who)"
  unfolding drain_def by (rule keeps_frame) simp

lemma keeps_put_user: "keeps holds (put_user u)"
  unfolding put_user_def by (rule keeps_frame) simp

lemma keeps_audit: "keeps holds (write_audit_log t actor a)"
  unfolding write_audit_log_def by (rule keeps_frame) simp

lemma keeps_as_uuid: "keeps holds (as_uuid v)"
  unfolding as_uuid_def by (intro keeps_prims)

lemmas keeps_accounts = keeps_tokens keeps_current keeps_drain keeps_put_user keeps_audit keeps_as_uuid
  keeps_persist keeps_revoke_session

lemma keeps_authenticate: "keeps holds (authenticate_user cr email pw t)"
  unfolding authenticate_user_def by (intro keeps_accounts)

lemma keeps_new_user: "keeps holds (create_native_user cr email pw n t role inviter mc act)"
  unfolding create_native_user_def by (intro keeps_accounts)

lemma keeps_admin_ids: "(\<And>t a. keeps holds (k t a)) \<Longrightarrow> keeps holds (admin_ids admin t k)"
  unfolding admin_ids_def by (intro keeps_accounts)

lemma keeps_target: "(\<And>u. keeps holds (k u)) \<Longrightarrow> keeps holds (target_user i t k)"
  unfolding target_user_def by (intro keeps_accounts)

lemma keeps_admin_step: "keeps holds (admin_step env r admin t)"
  by (cases r; simp only: admin_step.simps create_user_def patch_user_def deactivate_user_def reset_password_def
      revoke_sessions_def; intro keeps_accounts keeps_admin_ids keeps_target keeps_new_user)

lemma keeps_change_password: "keeps holds (change_password cr i old new)"
  unfolding change_password_def by (intro keeps_accounts)

lemma keeps_login: "keeps holds (native_login jw cr subdomain known now email pw sub)"
  unfolding native_login_def by (intro keeps_accounts keeps_authenticate)

lemma keeps_checked: "keeps holds (checked_refresh jw cr known now token)"
  unfolding checked_refresh_def by (intro keeps_accounts keeps_refresh_access)

lemma keeps_endpoint: "keeps holds (token_endpoint jw cr known now f)"
  unfolding token_endpoint_def grant_client_def grant_code_def
  by (intro keeps_accounts keeps_checked keeps_client keeps_exchange)

lemma keeps_sso_login: "keeps holds (sso_login cr st subdomain state v uri sub)"
  unfolding sso_login_def by (intro keeps_accounts)

lemma keeps_sso_callback: "keeps holds (sso_callback jw st known idp now code state)"
  unfolding sso_callback_def sso_tokens_def by (intro keeps_accounts)

lemma keeps_register: "other_kid kid \<Longrightarrow> keeps holds (change (\<lambda>s. s\<lparr>au_keys := register_verification_key kid pem (au_keys s)\<rparr>))"
  by (simp add: keeps_def holds_def register)

lemma keeps_rotate: "other_kid kid \<Longrightarrow> keeps holds (change (\<lambda>s. s\<lparr>au_keys := rotate_signing_key kid priv pub (au_keys s)\<rparr>))"
  by (simp add: keeps_def holds_def rotate)

definition admissible :: "auth_request \<Rightarrow> bool" where
  "admissible r = (case r of New_Code code client uri ch m t who scopes \<Rightarrow> fresh_code code
     | Register_Key kid pem \<Rightarrow> other_kid kid | Rotate_Key kid priv pub \<Rightarrow> other_kid kid | _ \<Rightarrow> True)"

lemma keeps_serve: "admissible r \<Longrightarrow> keeps holds (serve env now r)"
  by (cases r; simp only: serve.simps refresh_session_def revoke_endpoint_def me_change_password_def as_admin_def
        admissible_def auth_request.case;
      intro keeps_accounts keeps_login keeps_checked keeps_endpoint keeps_revoke_token keeps_new_code
        keeps_sso_login keeps_sso_callback keeps_change_password keeps_admin_step keeps_rotate_pair
        keeps_register keeps_rotate; simp)

lemma holds_run: "holds s \<Longrightarrow> list_all (\<lambda>(now, r). admissible r) rs \<Longrightarrow> holds (run env rs s)"
proof (induction rs arbitrary: s)
  case (Cons x rs)
  obtain now r where x: "x = (now, r)" by (cases x)
  have "holds (snd (serve env now r s))"
    using keeps_serve [of r env now] Cons.prems by (simp add: x keeps_def)
  with Cons show ?case by (simp add: run_def x)
qed (simp add: run_def)

end

subsection \<open>Keys of the cache\<close>

text \<open>Tenants, kinds of key and random identifiers have no colon, so that keys do not collide.\<close>

lemma split_at_colon:
  "CHR '':'' \<notin> set a \<Longrightarrow> CHR '':'' \<notin> set b \<Longrightarrow> a @ CHR '':'' # x = b @ CHR '':'' # y \<Longrightarrow> a = b \<and> x = y"
proof (induction a arbitrary: b)
  case Nil
  then show ?case by (cases b) auto
next
  case (Cons c a)
  then show ?case by (cases b) auto
qed

lemma colons_append: "count_list (a @ b) c = count_list a c + count_list b c"
  by (induction a) auto

lemma key_eq:
  assumes "CHR '':'' \<notin> set t" "CHR '':'' \<notin> set a" "CHR '':'' \<notin> set j" "CHR '':'' \<notin> set a'"
    and eq: "t @ CHR '':'' # a @ CHR '':'' # j = t' @ CHR '':'' # a' @ CHR '':'' # j'"
  shows "t = t' \<and> a = a' \<and> j = j'"
proof -
  have "count_list t' CHR '':'' + count_list j' CHR '':'' = 0"
    using arg_cong [OF eq, of "\<lambda>s. count_list s CHR '':''"] assms(1-4) by (simp add: colons_append count_notin)
  then have "CHR '':'' \<notin> set t'" by (simp add: count_list_0_iff)
  with split_at_colon [OF assms(1) this eq] split_at_colon [OF assms(2,4)] show ?thesis by metis
qed

lemma revoked_key_colon: "revoked_key (PStr j) = ''revoked'' @ CHR '':'' # j"
  by (simp add: revoked_key_def)

lemma code_key_colon: "code_key c = ''authz_code'' @ CHR '':'' # c"
  by (simp add: code_key_def)

lemma state_key_colon: "state_key c = ''oidc_state'' @ CHR '':'' # c"
  by (simp add: state_key_def)

lemma version_key_colon: "version_key w = ''token_version'' @ CHR '':'' # py_str w"
  by (simp add: version_key_def)

lemma make_key_eq: "make_key t a = make_key t' a' \<longleftrightarrow> t @ CHR '':'' # a = t' @ CHR '':'' # a'"
  by (simp add: make_key_def)

lemmas key_colon = make_key_eq revoked_key_colon code_key_colon state_key_colon version_key_colon

lemma revoked_not_code:
  assumes "CHR '':'' \<notin> set t" "CHR '':'' \<notin> set j"
  shows "make_key t (revoked_key (PStr j)) \<noteq> make_key t' (code_key c)"
    "make_key t (revoked_key (PStr j)) \<noteq> make_key t' (state_key c)"
  using key_eq [OF assms(1) _ assms(2), of "''revoked''" "''authz_code''" t' c]
    key_eq [OF assms(1) _ assms(2), of "''revoked''" "''oidc_state''" t' c]
  by (auto simp: key_colon simp del: append_Cons)

lemma code_not_other:
  assumes "CHR '':'' \<notin> set c"
  shows "make_key AUTHZ_INDEX_TENANT (code_key c) \<noteq> make_key t' (version_key w)"
    "make_key AUTHZ_INDEX_TENANT (code_key c) \<noteq> make_key t' (state_key c')"
    "make_key AUTHZ_INDEX_TENANT (code_key c) = make_key t' (code_key c') \<Longrightarrow> c = c'"
  using key_eq [of AUTHZ_INDEX_TENANT "''authz_code''" c "''token_version''" t' "py_str w"]
    key_eq [of AUTHZ_INDEX_TENANT "''authz_code''" c "''oidc_state''" t' c']
    key_eq [of AUTHZ_INDEX_TENANT "''authz_code''" c "''authz_code''" t' c'] assms
  by (auto simp: key_colon AUTHZ_INDEX_TENANT_def simp del: append_Cons)

subsection \<open>The facts that last\<close>

definition row_revoked :: "uuid \<Rightarrow> redis \<Rightarrow> (uuid, refresh_row) dict \<Rightarrow> token_keys \<Rightarrow> bool" where
  "row_revoked i r t k \<longleftrightarrow> (\<exists>row. map_of t i = Some row \<and> rt_revoked row)"

definition jti_entered :: "string \<Rightarrow> string \<Rightarrow> redis \<Rightarrow> (uuid, refresh_row) dict \<Rightarrow> token_keys \<Rightarrow> bool" where
  "jti_entered tenant j r t k \<longleftrightarrow> CHR '':'' \<notin> set tenant \<and> CHR '':'' \<notin> set j \<and>
     redis_sismember tenant (revoked_key (PStr j)) j r"

definition code_used :: "string \<Rightarrow> redis \<Rightarrow> (uuid, refresh_row) dict \<Rightarrow> token_keys \<Rightarrow> bool" where
  "code_used c r t k \<longleftrightarrow> CHR '':'' \<notin> set c \<and> \<not> truthy (redis_get AUTHZ_INDEX_TENANT (code_key c) r)"

definition key_known :: "string \<Rightarrow> string \<Rightarrow> string \<Rightarrow> redis \<Rightarrow> (uuid, refresh_row) dict \<Rightarrow> token_keys \<Rightarrow> bool" where
  "key_known kid pem issuer r t k \<longleftrightarrow> map_of (tk_public_by_kid k) kid = Some pem \<and> tk_issuer k = issuer"

interpretation row: session_fact "row_revoked i" "\<lambda>_. True" "\<lambda>_. True" for i
  by unfold_locales (auto simp: row_revoked_def map_of_update)

interpretation jti: session_fact "jti_entered tenant j" "\<lambda>_. True" "\<lambda>_. True" for tenant j
  by unfold_locales (auto simp: jti_entered_def sismember_delete revoked_not_code)

interpretation code: session_fact "code_used c" "\<lambda>c'. c' \<noteq> c" "\<lambda>_. True" for c
  by unfold_locales (auto simp: code_used_def code_not_other dest: code_not_other(3))

interpretation kid: session_fact "key_known kid pem issuer" "\<lambda>_. True" "\<lambda>kid'. kid' \<noteq> kid" for kid pem issuer
  by unfold_locales (auto simp: key_known_def map_of_update load_keys_def register_verification_key_def rotate_signing_key_def)

subsection \<open>Revoked tokens\<close>

lemma validate_payload:
  assumes "validate_token jw now tok s = (Inr p, s')"
    and "\<forall>tok key iss now p. jl_decode jw tok key iss now = Inr p \<longrightarrow> jl_unverified jw tok = Inr p"
  shows "jl_unverified jw tok = Inr p" "\<not> jti_revoked p (au_redis s')" "\<not> version_revoked p (au_redis s')"
    "s' = s\<lparr>au_keys := load_keys (au_keys s)\<rparr>"
  using assms by (auto simp: validate_token_def andthen_def with_keys_def Let_def check_payload_def query_def of_res_def
      raise_def split: sum.splits if_splits)

lemma current_user_payload:
  assumes "fst (get_current_user jw now (Some tok) s) = Inr p"
  obtains s' where "validate_token jw now tok s = (Inr p, s')"
  using assms by (cases "validate_token jw now tok s")
    (auto simp: get_current_user_def reraise_def raise_def split: if_splits sum.splits prod.splits)

lemma revoke_token_enters:
  assumes "revoke_token jw tenant tok s = (Inr (), s')" "jl_unverified jw tok = Inr p" "pget p ''jti'' = PStr j" "j \<noteq> []"
  shows "redis_sismember tenant (revoked_key (PStr j)) j (au_redis s')"
proof -
  have "truthy (pget p ''jti'')" using assms(3,4) by simp
  with assms(1,2) obtain s1 s2 where
    s2: "upd_redis (redis_sadd tenant (revoked_key (pget p ''jti'')) (py_str (pget p ''jti''))) s1 = (Inr (), s2)"
    and s': "s' = s2\<lparr>au_published := au_published s'\<rparr>"
    by (auto simp: revoke_token_def decode_without_validation_def andthen_Inr_iff Let_def publish_def of_res_def change_def
        split: if_splits)
  from s2 have "redis_sismember tenant (revoked_key (PStr j)) j (au_redis s2)"
    by (auto simp: upd_redis_def assms(3))
  with s' show ?thesis by (metis auth_state.surjective auth_state.update_convs(6) auth_state.select_convs(4))
qed


subsection \<open>Refresh tokens and codes work once\<close>

lemma need_Inr_iff:
  "need_uuid v s = (Inr u, s') \<longleftrightarrow> parse_uuid v = Some u \<and> s' = s"
  "need_key d k = Inr w \<longleftrightarrow> map_of d k = Some w"
  by (auto simp: need_uuid_def need_key_def raise_def ret_def split: option.splits)

lemma mark_revoked_Inr: "mark_revoked i s = (r, s') \<Longrightarrow> map_of (au_refresh s) i = Some row \<Longrightarrow>
    r = Inr () \<and> (\<exists>row. map_of (au_refresh s') i = Some row \<and> rt_revoked row)"
  by (auto simp: mark_revoked_def map_of_update)

lemma upd_redis_Inr: "upd_redis f s = (Inr u, s') \<longleftrightarrow> s' = s\<lparr>au_redis := f (au_redis s)\<rparr>"
  by (auto simp: upd_redis_def change_def)

lemma refresh_Inr:
  assumes "refresh_access_token jw cr now tok s = (Inr x, s')"
  obtains p i s1 s2 t who where "validate_token jw now tok s = (Inr p, s1)" "parse_uuid (py_str (pget p ''jti'')) = Some i"
    "\<not> row.holds i s1" "row.holds i s2" "fresh_pair jw cr now t who [] s2 = (Inr x, s')"
proof -
  obtain p s1 jti i row s2 t who and u :: unit where v: "validate_token jw now tok s = (Inr p, s1)"
    and j: "map_of p ''jti'' = Some jti" "parse_uuid (py_str jti) = Some i"
    and row: "map_of (au_refresh s1) i = Some row" "\<not> rt_revoked row"
    and m: "mark_revoked i s1 = (Inr u, s2)"
    and f: "fresh_pair jw cr now t who [] (s2\<lparr>au_redis := redis_sadd t (revoked_key jti) (py_str jti) (au_redis s2)\<rparr>) = (Inr x, s')"
    using assms unfolding refresh_access_token_def run_iff need_Inr_iff upd_redis_Inr by blast
  show thesis
  proof (rule that [OF v _ _ _ f])
    show "parse_uuid (py_str (pget p ''jti'')) = Some i" using j by (simp add: pget_def dict_get_def)
    show "\<not> row.holds i s1" using row by (simp add: row.holds_def row_revoked_def)
    show "row.holds i (s2\<lparr>au_redis := redis_sadd t (revoked_key jti) (py_str jti) (au_redis s2)\<rparr>)"
      using mark_revoked_Inr [OF m row(1)] by (simp add: row.holds_def row_revoked_def)
  qed
qed

lemma all_admissible: "list_all (\<lambda>(now, r). row.admissible r) rs"
  by (auto simp: list_all_iff row.admissible_def split: auth_request.splits)

text \<open>
  Property C17: a refresh token works once. After it has been exchanged for a new pair, every later
  exchange of the same token is refused, whatever happened in between.
\<close>

theorem refresh_token_works_once:
  assumes "\<forall>tok key iss now p. jl_decode (ae_jwt env) tok key iss now = Inr p \<longrightarrow> jl_unverified (ae_jwt env) tok = Inr p"
    and "refresh_access_token (ae_jwt env) (ae_crypto env) now tok s = (Inr x, s')"
  shows "\<exists>e. fst (refresh_access_token (ae_jwt env) (ae_crypto env) now' tok (run env rs s')) = Inl e"
proof (cases "refresh_access_token (ae_jwt env) (ae_crypto env) now' tok (run env rs s')")
  case (Pair out s4)
  obtain p i s1 s2 t who where v: "validate_token (ae_jwt env) now tok s = (Inr p, s1)"
    and i: "parse_uuid (py_str (pget p ''jti'')) = Some i" and used: "row.holds i s2"
    and f: "fresh_pair (ae_jwt env) (ae_crypto env) now t who [] s2 = (Inr x, s')"
    using assms(2) by (rule refresh_Inr)
  have "row.holds i s'" by (rule keepsD [OF row.keeps_pair_of_tokens used f])
  then have lasting: "row.holds i (run env rs s')" by (rule row.holds_run) (rule all_admissible)
  show ?thesis
  proof (cases out)
    case (Inr y)
    with Pair have "refresh_access_token (ae_jwt env) (ae_crypto env) now' tok (run env rs s') = (Inr y, s4)" by simp
    then obtain q j s3 where w: "validate_token (ae_jwt env) now' tok (run env rs s') = (Inr q, s3)"
      and j: "parse_uuid (py_str (pget q ''jti'')) = Some j" and fresh: "\<not> row.holds j s3"
      by (rule refresh_Inr)
    have "q = p" using validate_payload(1) [OF v assms(1)] validate_payload(1) [OF w assms(1)] by simp
    with i j keepsD [OF row.keeps_validate lasting w] fresh show ?thesis by simp
  qed (simp add: Pair)
qed

lemma establishes:
  assumes "andthen m f s = (r, s')" "\<And>out s1. m s = (out, s1) \<Longrightarrow> I s1" "\<And>x. keeps I (f x)"
  shows "I s'"
proof (cases "m s")
  case (Pair out s1)
  with assms(2) have "I s1" by simp
  with Pair assms(1) keepsD [OF assms(3)] show ?thesis by (cases out) (auto simp: andthen_def)
qed

lemma consume_uses:
  assumes "consume_authorization_code code now s = (r, s')" "CHR '':'' \<notin> set code"
  shows "code.holds code s'"
proof (cases "truthy (peek_authorization_code code s)")
  case False
  with assms show ?thesis
    by (auto simp: consume_authorization_code_def code.holds_def code_used_def peek_authorization_code_def)
next
  case True
  have "andthen (upd_redis (redis_delete AUTHZ_INDEX_TENANT (code_key code))) (\<lambda>_.
     andthen (of_res (as_dict (peek_authorization_code code s))) (\<lambda>d.
     let tenant_id = pget d ''tenant_id'' in
     andthen (if truthy tenant_id then upd_redis (redis_delete (py_str tenant_id) (code_key code)) else ret ()) (\<lambda>_.
     andthen (guard (\<not> code_expired (pget d ''expires_at'') now) unauthorized) (\<lambda>_. ret d)))) s = (r, s')"
    using assms(1) True by (simp add: consume_authorization_code_def)
  then show ?thesis
  proof (rule establishes)
    show "code.holds code s1" if "upd_redis (redis_delete AUTHZ_INDEX_TENANT (code_key code)) s = (out, s1)" for out s1
      using that assms(2) by (auto simp: upd_redis_def code.holds_def code_used_def)
  qed (intro code.keeps_prims)
qed

lemma consume_used:
  assumes "code.holds code s"
  shows "consume_authorization_code code now s = (Inl unauthorized, s)"
  using assms by (simp add: consume_authorization_code_def peek_authorization_code_def code.holds_def code_used_def)

lemma exchange_uses:
  assumes "exchange_authorization_code jw cr now code v client uri s = (r, s')" "CHR '':'' \<notin> set code"
  shows "code.holds code s'"
  using assms(1) unfolding exchange_authorization_code_def
  by (rule establishes) (erule consume_uses [OF _ assms(2)], intro code.keeps_tokens code.keeps_pair_of_tokens)


subsection \<open>Issued tokens\<close>

lemma issue_access_Inr:
  "issue_access_token jw t who sc role v mc now s =
     (Inr (jl_encode jw (access_payload (load_keys (au_keys s)) t who sc role v mc now (au_next_uuid s))
        (tk_private (load_keys (au_keys s))) (tk_active_kid (load_keys (au_keys s)))),
      s\<lparr>au_keys := load_keys (au_keys s), au_next_uuid := Suc (au_next_uuid s)\<rparr>)"
  by (simp add: issue_access_token_def with_keys_def andthen_def Let_def)

lemma access_claims:
  "pget (access_payload k t who sc role v mc now i) ''tenant_id'' = PStr t"
  "pget (access_payload k t who sc role v mc now i) ''sub'' = PStr who"
  "pget (access_payload k t who sc role v mc now i) ''scopes'' = PList (map PStr sc)"
  "pget (access_payload k t who sc role v mc now i) ''jti'' = PStr (uuid_str i)"
  "pget (access_payload k t who sc role v mc now i) ''token_version'' = (if role = None then PNone else PInt v)"
  "map_of (access_payload k t who sc role v mc now i) ''tenant_id'' = Some (PStr t)"
  by (simp_all add: access_payload_def split: option.split)

lemma keep_kid:
  assumes "kid.holds i pem issuer s" "list_all (\<lambda>(now, r). kid.admissible i r) rs"
  shows "map_of (tk_public_by_kid (load_keys (au_keys (run env rs s)))) i = Some pem"
    "tk_issuer (load_keys (au_keys (run env rs s))) = issuer"
  using kid.holds_run [OF assms, of env]
  by (auto simp: kid.holds_def key_known_def load_keys_def map_of_update)

text \<open>
  Property C19: an issued token is accepted until it expires. Through every run of requests, key
  rotations to other identifiers included, validation returns the claims the token was issued with,
  unless its identifier was revoked or its principal's token version was raised. PyJWT is assumed to
  give back the header and, under the public key of the signing key, the payload of this token.
\<close>

theorem issued_token_stays_valid:
  assumes "issue_access_token (ae_jwt env) t who sc role v mc now s = (Inr tok, s')"
    and k: "k = load_keys (au_keys s)" "p = access_payload k t who sc role v mc now (au_next_uuid s)"
    and "tk_active_kid k = i" "i \<noteq> []" "map_of (tk_public_by_kid k) i = Some pub"
    and "jl_kid (ae_jwt env) tok = Inr (PStr i)"
    and "\<forall>n. n < now + tk_access_ttl k \<longrightarrow> jl_decode (ae_jwt env) tok pub (tk_issuer k) n = Inr p"
    and "list_all (\<lambda>(now, r). kid.admissible i r) rs" "now' < now + tk_access_ttl k"
    and "\<not> jti_revoked p (au_redis (run env rs s'))" "\<not> version_revoked p (au_redis (run env rs s'))"
  shows "fst (validate_token (ae_jwt env) now' tok (run env rs s')) = Inr p \<and> pget p ''sub'' = PStr who \<and>
    pget p ''tenant_id'' = PStr t \<and> pget p ''scopes'' = PList (map PStr sc)"
proof -
  have "kid.holds i pub (tk_issuer k) s'"
    using assms(1,6) k(1) by (auto simp: issue_access_Inr kid.holds_def key_known_def)
  note key = keep_kid [OF this assms(9), of env]
  have "verify_key (ae_jwt env) (load_keys (au_keys (run env rs s'))) tok = pub"
    using assms(5,7) key(1) by (cases i) (simp_all add: verify_key_def)
  then have "fst (validate_token (ae_jwt env) now' tok (run env rs s')) = Inr p"
    using assms(8,10-12) key(2) access_claims(6)
    by (simp add: validate_token_def with_keys_def andthen_def query_def of_res_def Let_def check_payload_def k(2))
  then show ?thesis by (simp add: k(2) access_claims)
qed

subsection \<open>The administrator's revocation\<close>

lemma digits_val_append: "digits_val a (xs @ [c]) =
   (if is_digit c then map_option (\<lambda>n. n * 10 + (of_char c - 48)) (digits_val a xs) else None)"
  if "\<forall>x \<in> set xs. is_digit x"
  using that by (induction xs arbitrary: a) auto

lemma digit_char_digit: "d < 10 \<Longrightarrow> is_digit (digit_char d)" "d < 10 \<Longrightarrow> of_char (digit_char d) = 48 + d"
  by (simp_all add: is_digit_def digit_char_def Let_def)

lemma nat_str_digits: "\<forall>c \<in> set (nat_str n). is_digit c"
proof (induction n rule: nat_str.induct)
  case (1 n)
  then show ?case by (cases "n < 10") (auto simp: nat_str.simps [of n] digit_char_digit)
qed

lemma nat_str_Cons: "\<exists>c cs. nat_str n = c # cs"
  by (cases "nat_str n") (auto simp: nat_str.simps [of n] split: if_splits)

lemma digits_val_nat_str: "digits_val 0 (nat_str n) = Some n"
proof (induction n rule: nat_str.induct)
  case (1 n)
  show ?case
  proof (cases "n < 10")
    case True
    then show ?thesis by (simp add: nat_str.simps [of n] digit_char_digit)
  next
    case False
    then show ?thesis using 1
      by (simp add: nat_str.simps [of n] digits_val_append [OF nat_str_digits] digit_char_digit)
  qed
qed

lemma parse_nat_str: "parse_nat (nat_str n) = Some n"
  using nat_str_Cons [of n] nat_str_digits [of n] by (auto simp: parse_nat_def digits_val_nat_str [symmetric])

lemma digit_not_space: "is_digit c \<Longrightarrow> \<not> is_space c" "is_digit c \<Longrightarrow> c \<noteq> CHR ''-'' \<and> c \<noteq> CHR ''+''"
  by (auto simp: is_digit_def is_space_def Let_def)

lemma parse_int_str: "0 \<le> i \<Longrightarrow> parse_int (int_str i) = Some i"
proof -
  assume i: "0 \<le> i"
  obtain c cs where c: "nat_str (nat i) = c # cs" using nat_str_Cons by blast
  have d: "\<forall>x \<in> set (c # cs). is_digit x" using nat_str_digits [of "nat i"] c by simp
  then have "str_strip (c # cs) = c # cs" by (intro strip_no_space) (blast dest: digit_not_space)
  with i c d digit_not_space(2) [of c] parse_nat_str [of "nat i"] show ?thesis
    by (simp add: parse_int_def int_str_def)
qed

definition spares :: "string \<Rightarrow> string \<Rightarrow> uuid \<Rightarrow> auth_state \<Rightarrow> bool" where
  "spares tenant key j s \<longleftrightarrow> \<not> redis_sismember tenant key (uuid_str j) (au_redis s) \<and>
     (\<forall>i \<in> fst ` set (au_refresh s). uuid_str i \<noteq> uuid_str j)"

lemma spares_revoke_row:
  assumes "spares tenant key j s" "uuid_str (fst x) \<noteq> uuid_str j"
  shows "spares tenant key j (revoke_row t s x)"
proof (cases x)
  case (Pair i row)
  with assms show ?thesis by (auto simp: spares_def revoke_row_def keys_update)
qed

lemma spares_revoke_rows:
  "spares tenant key j s \<Longrightarrow> \<forall>x \<in> set xs. uuid_str (fst x) \<noteq> uuid_str j \<Longrightarrow>
     spares tenant key j (foldl (revoke_row t) s xs)"
  by (induction xs arbitrary: s) (simp_all add: spares_revoke_row)

lemma spares_frame: "(\<And>s. au_redis (f s) = au_redis s \<and> au_refresh (f s) = au_refresh s) \<Longrightarrow> keeps (spares tenant key j) (change f)"
  by (simp add: keeps_def spares_def)

lemma spares_revoke_session: "keeps (spares tenant key j) (revoke_session who t)"
proof -
  have rows: "keeps (spares tenant key j) (change (\<lambda>s. foldl (revoke_row t) s (filter P (au_refresh s))))" for P
    by (rule keeps_change, rule spares_revoke_rows) (auto simp: spares_def)
  show ?thesis unfolding revoke_session_def need_uuid_def publish_def by (intro keeps_structure rows spares_frame) simp
qed

lemma spares_revoke_sessions: "keeps (spares tenant key j) (revoke_sessions user_id admin tenant_id)"
proof -
  have version: "keeps (spares tenant key j) (upd_redis (redis_set t (version_key w) v))" for t w v
    unfolding upd_redis_def by (rule keeps_change) (simp add: spares_def)
  show ?thesis
    unfolding revoke_sessions_def admin_ids_def as_uuid_def target_user_def put_user_def write_audit_log_def
    by (intro keeps_structure spares_revoke_session version spares_frame) simp_all
qed

text \<open>The version in the cache survives the revocation of the refresh rows.\<close>

lemma version_revoke_rows: "redis_get t k (au_redis (foldl (revoke_row t') s xs)) = redis_get t k (au_redis s)"
  by (induction xs arbitrary: s) (simp_all add: revoke_row_def split_beta)

lemma version_revoke_session: "keeps (\<lambda>s. redis_get t k (au_redis s) = v) (revoke_session who t')"
  unfolding revoke_session_def need_uuid_def publish_def
  by (intro keeps_structure) (simp_all add: keeps_def version_revoke_rows)

lemma revoke_sessions_version:
  assumes "revoke_sessions user_id admin tenant_id s = (Inr v, s')"
  obtains tenant target u where "parse_uuid tenant_id = Some tenant" "parse_uuid user_id = Some target"
    "find_user target tenant s = Some u" "v = u_token_version u + 1"
    "redis_get (uuid_str tenant) (version_key (PStr (uuid_str (u_principal_id u)))) (au_redis s') = PStr (int_str v)"
proof -
  obtain tenant actor target u s2 where p: "parse_uuid tenant_id = Some tenant" "parse_uuid user_id = Some target"
    and u: "find_user target tenant s = Some u" "v = u_token_version u + 1"
    and a: "attempt (revoke_session (uuid_str (u_principal_id u)) (uuid_str tenant))
      (s\<lparr>au_users := AList.update (u_principal_id u) (u\<lparr>u_token_version := u_token_version u + 1\<rparr>) (au_users s),
         au_redis := redis_set (uuid_str tenant) (version_key (PStr (uuid_str (u_principal_id u))))
           (PStr (int_str (u_token_version u + 1))) (au_redis s)\<rparr>) = (Inr (), s2)"
      (is "attempt _ ?s1 = _")
    and s': "s2\<lparr>au_audit := au_audit s2 @ [(tenant, actor, ''session.revoked'')]\<rparr> = s'"
    using assms
    by (simp add: revoke_sessions_def admin_ids_def target_user_def run_iff as_uuid_def put_user_def upd_redis_Inr
      write_audit_log_def Let_def split: option.splits) blast
  have s1: "redis_get (uuid_str tenant) (version_key (PStr (uuid_str (u_principal_id u)))) (au_redis ?s1) = PStr (int_str v)"
    by (simp add: u(2))
  show thesis
    by (rule that [OF p u]) (use keepsD [OF keeps_attempt [OF version_revoke_session] s1 a] in \<open>simp add: s' [symmetric]\<close>)
qed

text \<open>
  What an administrator's revocation of a user's sessions does, and what it misses. An
  access token of the user's logins, whose token version is older, is refused afterwards. But an
  access token from a refresh, a code exchange or client credentials carries no version: unless its
  identifier is that of a stored refresh token, it is accepted as before, although the route promises
  to invalidate all tokens.
\<close>

theorem revocation_misses_refreshed_tokens:
  assumes "revoke_sessions user_id admin tenant_id s = (Inr v, s')" "0 \<le> v"
    and "find_user target tenant s = Some u" "parse_uuid user_id = Some target" "parse_uuid tenant_id = Some tenant"
    and "\<forall>i \<in> fst ` set (au_refresh s). uuid_str i \<noteq> uuid_str j"
    and "check_payload (access_payload k t who sc None 0 False n j) (au_redis s) = Inr q" "t \<noteq> []"
  shows "check_payload (access_payload k t who sc None 0 False n j) (au_redis s') = Inr q \<and>
    (older < v \<longrightarrow> check_payload (access_payload k (uuid_str tenant) (uuid_str (u_principal_id u)) sc' (Some role) older mc n' j')
        (au_redis s') = Inl revoked_token)"
proof
  have "spares t (revoked_key (PStr (uuid_str j))) j s"
    using assms(6-8) uuid_str_nonempty [of j]
    by (auto simp: spares_def check_payload_def jti_revoked_def Let_def access_claims split: if_splits)
  then have "spares t (revoked_key (PStr (uuid_str j))) j s'" by (rule keepsD [OF spares_revoke_sessions _ assms(1)])
  then show "check_payload (access_payload k t who sc None 0 False n j) (au_redis s') = Inr q"
    using assms(7,8)
    by (auto simp: spares_def check_payload_def jti_revoked_def version_revoked_def Let_def access_claims split: if_splits)
  have "redis_get (uuid_str tenant) (version_key (PStr (uuid_str (u_principal_id u)))) (au_redis s') = PStr (int_str v)"
    using assms(1) by (rule revoke_sessions_version) (use assms(3-5) in simp)
  then show "older < v \<longrightarrow> check_payload (access_payload k (uuid_str tenant) (uuid_str (u_principal_id u)) sc' (Some role) older mc n' j')
      (au_redis s') = Inl revoked_token"
    using assms(2) uuid_str_nonempty [of tenant]
    by (simp add: check_payload_def version_revoked_def Let_def access_claims parse_int_str)
qed

subsection \<open>Deactivation\<close>

text \<open>
  Two states that agree for a step: equal but for the passwords, names, activity and versions of the
  users, and the records no step reads.
\<close>

definition user_view :: "user_row \<Rightarrow> uuid \<times> string" where
  "user_view u = (u_tenant_id u, u_role u)"

definition same_sessions :: "auth_state \<Rightarrow> auth_state \<Rightarrow> bool" where
  "same_sessions s s' \<longleftrightarrow> au_refresh s = au_refresh s' \<and> au_clients s = au_clients s' \<and> au_redis s = au_redis s' \<and>
     au_keys s = au_keys s' \<and> au_next_uuid s = au_next_uuid s' \<and>
     (\<forall>i. map_option user_view (map_of (au_users s) i) = map_option user_view (map_of (au_users s') i))"

definition agree :: "(auth_state, 'a) step \<Rightarrow> bool" where
  "agree m \<longleftrightarrow> (\<forall>s s'. same_sessions s s' \<longrightarrow> fst (m s) = fst (m s') \<and> same_sessions (snd (m s)) (snd (m s')))"

lemma agreeD: "agree m \<Longrightarrow> same_sessions s s' \<Longrightarrow> fst (m s) = fst (m s')"
  by (simp add: agree_def)

lemma agree_basic: "agree (ret x)" "agree (raise e)" "agree (of_res r)" "agree (guard b e)"
  by (simp_all add: agree_def guard_def)

lemma agree_query: "(\<And>s s'. same_sessions s s' \<Longrightarrow> f s = f s') \<Longrightarrow> agree (query f)"
  by (simp add: agree_def)

lemma agree_andthen: "agree m \<Longrightarrow> (\<And>x. agree (f x)) \<Longrightarrow> agree (andthen m f)"
  unfolding agree_def andthen_def
proof (intro allI impI)
  fix s s' assume m: "\<forall>s s'. same_sessions s s' \<longrightarrow> fst (m s) = fst (m s') \<and> same_sessions (snd (m s)) (snd (m s'))"
    and f: "\<And>x. \<forall>s s'. same_sessions s s' \<longrightarrow> fst (f x s) = fst (f x s') \<and> same_sessions (snd (f x s)) (snd (f x s'))"
    and s: "same_sessions s s'"
  let ?k = "\<lambda>s. case m s of (Inl e, s') \<Rightarrow> (Inl e, s') | (Inr x, s') \<Rightarrow> f x s'"
  obtain r t t' where "m s = (r, t)" "m s' = (r, t')" "same_sessions t t'" using m s by (metis prod.collapse)
  then show "fst (?k s) = fst (?k s') \<and> same_sessions (snd (?k s)) (snd (?k s'))" using f by (cases r) simp_all
qed

lemma agree_option: "agree m \<Longrightarrow> (\<And>x. agree (f x)) \<Longrightarrow> agree (case v of None \<Rightarrow> m | Some x \<Rightarrow> f x)"
  by (cases v) simp_all

lemma agree_sum: "(\<And>x. agree (f x)) \<Longrightarrow> (\<And>x. agree (g x)) \<Longrightarrow> agree (case v of Inl x \<Rightarrow> f x | Inr x \<Rightarrow> g x)"
  by (cases v) simp_all

lemma agree_let: "(\<And>x. agree (f x)) \<Longrightarrow> agree (Let v f)"
  by (simp add: Let_def)

lemma agree_state: "agree with_keys" "agree fresh_uuid" "agree (upd_redis f)" "agree (mark_revoked i)"
  by (simp_all add: agree_def with_keys_def Let_def same_sessions_def upd_redis_def mark_revoked_def split: option.split)

lemma agree_add: "agree (add_refresh_row row)"
proof (unfold agree_def, intro allI impI)
  fix s s' assume s: "same_sessions s s'"
  then have "map_of (au_users s) (rt_principal_id row) = None \<longleftrightarrow> map_of (au_users s') (rt_principal_id row) = None"
    unfolding same_sessions_def by (metis map_option_is_None)
  with s show "fst (add_refresh_row row s) = fst (add_refresh_row row s') \<and>
      same_sessions (snd (add_refresh_row row s)) (snd (add_refresh_row row s'))"
    by (simp add: add_refresh_row_def same_sessions_def)
qed

lemma same_scopes: "same_sessions s s' \<Longrightarrow> scopes_for_principal who t fb s = scopes_for_principal who t fb s'"
proof -
  assume s: "same_sessions s s'"
  have "map_option user_view (map_of (au_users s) i) = map_option user_view (map_of (au_users s') i)" for i
    using s by (simp add: same_sessions_def)
  from this [of "the (parse_uuid who)"] show ?thesis
    by (cases "map_of (au_users s) (the (parse_uuid who))"; cases "map_of (au_users s') (the (parse_uuid who))")
      (auto simp: scopes_for_principal_def user_view_def split: option.split)
qed

lemmas agree_rules = agree_basic agree_andthen agree_option agree_sum agree_let agree_state agree_add

lemma agree_validate: "agree (validate_token jw now tok)"
  unfolding validate_token_def by (intro agree_rules agree_query) (simp add: same_sessions_def)

lemma agree_fresh_pair: "agree (fresh_pair jw cr now t who fb)"
  unfolding fresh_pair_def issue_access_token_def issue_refresh_token_def persist_refresh_token_def need_uuid_def
  by (intro agree_rules agree_query agree_validate) (simp_all add: same_sessions_def same_scopes [unfolded same_sessions_def])

lemma agree_refresh: "agree (refresh_access_token jw cr now tok)"
  unfolding refresh_access_token_def need_uuid_def
  by (intro agree_rules agree_query agree_validate agree_fresh_pair) (simp_all add: same_sessions_def)

lemma find_user_lookup: "find_user who tenant s = Some u \<Longrightarrow> map_of (au_users s) who = Some u"
  by (auto simp: find_user_def split: option.splits if_splits)

lemma deactivate_same:
  assumes "deactivate_user user_id admin tenant_id s = (Inr u, s')"
    and "\<forall>(i, u) \<in> set (au_users s). u_principal_id u = i"
  shows "same_sessions s s' \<and> \<not> u_is_active u \<and> map_of (au_users s') (u_principal_id u) = Some u"
proof -
  obtain tenant target u0 where f: "find_user target tenant s = Some u0"
    and u: "u = u0\<lparr>u_is_active := False, u_status := ''deactivated''\<rparr>"
    and s': "\<exists>a. s' = s\<lparr>au_users := AList.update (u_principal_id u0) u (au_users s), au_audit := a\<rparr>"
    using assms(1) by (simp add: deactivate_user_def admin_ids_def target_user_def run_iff as_uuid_def put_user_def
      write_audit_log_def Let_def split: option.splits del: andthen_simps) blast
  have "u_principal_id u0 = target" using assms(2) map_of_SomeD [OF find_user_lookup [OF f]] by auto
  with u s' find_user_lookup [OF f] show ?thesis by (auto simp: same_sessions_def map_of_update user_view_def)
qed

text \<open>
  Deactivating a user does not end the user's sessions. After an administrator has
  deactivated an account, every exchange of a refresh token, the user's own included, has the same
  outcome as before: a fresh pair of tokens with the scopes of the role.
\<close>

theorem deactivation_keeps_refresh_working:
  assumes "deactivate_user user_id admin tenant_id s = (Inr u, s')" "\<forall>(i, u) \<in> set (au_users s). u_principal_id u = i"
  shows "\<not> u_is_active u \<and> map_of (au_users s') (u_principal_id u) = Some u \<and>
    fst (refresh_access_token jw cr now tok s') = fst (refresh_access_token jw cr now tok s)"
  using deactivate_same [OF assms] agreeD [OF agree_refresh, of s s' jw cr now tok] by simp

subsection \<open>A concrete tenant\<close>

text \<open>
  Tenant 1 with the administrator 2 and the user 3, who holds the refresh token \<open>old\<close> (identifier 5)
  and whose new tokens all read \<open>new\<close> (identifier 7).
\<close>

definition demo_claims :: "string \<Rightarrow> uuid \<Rightarrow> pydict" where
  "demo_claims typ jti =
     [(''sub'', PStr (uuid_str 3)), (''tenant_id'', PStr (uuid_str 1)), (''token_type'', PStr typ),
      (''exp'', PInt 1000), (''jti'', PStr (uuid_str jti))]"

definition demo_decode :: "string \<Rightarrow> jwt_error + pydict" where
  "demo_decode tok = (if tok = ''old'' then Inr (demo_claims ''refresh'' 5)
     else if tok = ''new'' then Inr (demo_claims ''refresh'' 7) else Inl InvalidToken)"

definition demo_jwt :: jwt_lib where
  "demo_jwt = \<lparr>jl_encode = (\<lambda>p priv kid. ''new''), jl_kid = (\<lambda>tok. Inr (PStr ''k1'')),
     jl_decode = (\<lambda>tok key iss now. demo_decode tok),
     jl_unverified = (\<lambda>tok. case demo_decode tok of Inr p \<Rightarrow> Inr p | Inl _ \<Rightarrow> Inl (Raised ''DecodeError''))\<rparr>"

definition demo_crypto :: crypto where
  "demo_crypto = \<lparr>cr_sha256_hex = (\<lambda>x. x), cr_s256 = (\<lambda>x. x), cr_verify = (\<lambda>a b. Inr (a = b)),
     cr_checkpw = (\<lambda>pw h. Inr (map of_char h = pw)), cr_hashpw = (\<lambda>pw salt. map char_of pw), cr_uuid5 = length\<rparr>"

definition demo_auth :: auth_env where
  "demo_auth = \<lparr>ae_jwt = demo_jwt, ae_crypto = demo_crypto, ae_subdomain = (\<lambda>_. Some 1), ae_known = (\<lambda>t. t = 1),
     ae_oidc = \<lparr>os_issuer = [], os_client_id = [], os_client_secret = [], os_redirect_uri = []\<rparr>,
     ae_idp = (\<lambda>_ _ _. (500, []))\<rparr>"

definition demo_user :: "uuid \<Rightarrow> string \<Rightarrow> user_row" where
  "demo_user i role = \<lparr>u_principal_id = i, u_tenant_id = 1, u_idp_subject = nat_str i, u_email = nat_str i,
     u_display_name = [], u_password_hash = Some ''pw'', u_source_profiles = [], u_status = ''active'', u_role = role,
     u_invited_by = None, u_must_change_password = False, u_is_active = True, u_token_version = 0\<rparr>"

definition demo_auth_state :: auth_state where
  "demo_auth_state = \<lparr>au_users = [(2, demo_user 2 ''admin''), (3, demo_user 3 ''member'')],
     au_refresh = [(5, \<lparr>rt_token_id = 5, rt_principal_id = 3, rt_tenant_id = 1, rt_hashed_token = ''old'',
       rt_revoked = False, rt_expires_at = 1000\<rparr>)],
     au_clients = [], au_redis = \<lparr>rd_store = [], rd_sets = []\<rparr>,
     au_keys = \<lparr>tk_issuer = ''snyq'', tk_access_ttl = 60, tk_refresh_ttl = 600, tk_private = ''s1'', tk_public = ''p1'',
       tk_public_by_kid = [], tk_active_kid = ''k1''\<rparr>,
     au_published = [], au_audit = [], au_drained = [], au_next_uuid = 7\<rparr>"

definition demo_requests :: "(instant \<times> auth_request) list" where
  "demo_requests = [(20, Rotate_Key ''k2'' ''s2'' ''p2''), (21, Login ''3'' ''pw'' ''acme''), (22, Refresh ''new''),
     (23, New_Code ''c2'' ''app'' ''uri'' ''ch'' ''plain'' ''t'' ''w'' [])]"

definition demo_admin :: pydict where "demo_admin = [(''sub'', PStr (uuid_str 2))]"

definition succeeds :: "'a res \<times> 's \<Rightarrow> bool" where
  "succeeds m = (case fst m of Inr _ \<Rightarrow> True | Inl _ \<Rightarrow> False)"

lemma succeedsE:
  assumes "succeeds m"
  obtains x where "m = (Inr x, snd m)"
  using assms by (cases m; cases "fst m") (auto simp: succeeds_def)

lemma demo_faithful:
  "\<forall>tok key iss now p. jl_decode (ae_jwt demo_auth) tok key iss now = Inr p \<longrightarrow> jl_unverified (ae_jwt demo_auth) tok = Inr p"
  by (simp add: demo_auth_def demo_jwt_def)

lemma demo_colons: "CHR '':'' \<notin> set (uuid_str 1)" "CHR '':'' \<notin> set (uuid_str 5)"
  by code_simp+


lemma andthen_prims:
  "andthen with_keys f s = f (load_keys (au_keys s)) (s\<lparr>au_keys := load_keys (au_keys s)\<rparr>)"
  "andthen fresh_uuid g s = g (au_next_uuid s) (s\<lparr>au_next_uuid := Suc (au_next_uuid s)\<rparr>)"
  "andthen (upd_redis u) h s = h () (s\<lparr>au_redis := u (au_redis s)\<rparr>)"
  "andthen (attempt m) k s = k () (snd (m s))"
  by (simp_all add: with_keys_def upd_redis_def attempt_def andthen_def Let_def)

lemmas step_defs = validate_token_def issue_access_token_def issue_refresh_token_def persist_refresh_token_def
  fresh_pair_def refresh_access_token_def need_uuid_def need_key_def check_payload_def jti_revoked_def version_revoked_def
  exchange_authorization_code_def consume_authorization_code_def revoke_sessions_def admin_ids_def target_user_def as_uuid_def
  deactivate_user_def put_user_def write_audit_log_def revoke_session_def publish_def


lemma demo_hash: "cr_sha256_hex demo_crypto x = x"
  by (simp add: demo_crypto_def)

lemmas eval_defs = check_payload_def jti_revoked_def version_revoked_def redis_sismember_def redis_get_def redis_sadd_def redis_set_def
  redis_delete_def make_key_def revoked_key_def version_key_def code_key_def load_keys_def demo_jwt_def demo_decode_def demo_claims_def demo_auth_state_def
  demo_user_def scopes_for_principal_def Let_def pget_def dict_get_def claim_scopes_def py_iter_def
  py_need_str_def peek_authorization_code_def AUTHZ_INDEX_TENANT_def
  int_of_def as_dict_def code_expired_def succeeds_def role_or_member_def scopes_for_role_def find_user_def demo_admin_def demo_hash

lemmas evaluate = andthen_assoc andthen_prims andthen_read parse_uuid_str uuid_ok_def

lemma apply_updates:
  "add_refresh_row row s =
     (if map_of (au_refresh s) (rt_token_id row) \<noteq> None \<or> map_of (au_users s) (rt_principal_id row) = None \<or>
        list_ex (\<lambda>(i, r). rt_hashed_token r = rt_hashed_token row) (au_refresh s)
      then (Inl (Raised ''IntegrityError''), s)
      else (Inr (), s\<lparr>au_refresh := AList.update (rt_token_id row) row (au_refresh s)\<rparr>))"
  "mark_revoked i s = (Inr (), case map_of (au_refresh s) i of
     None \<Rightarrow> s | Some row \<Rightarrow> s\<lparr>au_refresh := AList.update i (row\<lparr>rt_revoked := True\<rparr>) (au_refresh s)\<rparr>)"
  by (simp_all add: add_refresh_row_def mark_revoked_def)

lemma andthen_updates:
  "andthen (mark_revoked i) f s = f () (snd (mark_revoked i s))"
  "andthen (add_refresh_row row) g s = (case add_refresh_row row s of (Inl e, s) \<Rightarrow> (Inl e, s) | (Inr x, s) \<Rightarrow> g x s)"
  by (simp_all add: mark_revoked_def andthen_def)

lemma demo_refresh_succeeds: "succeeds (refresh_access_token demo_jwt demo_crypto 10 ''old'' demo_auth_state)"
  by (simp add: step_defs evaluate eval_defs andthen_updates apply_updates cong: andthen_weak)

lemma demo_revoke_sessions: "fst (revoke_sessions (uuid_str 3) demo_admin (uuid_str 1) demo_auth_state) = Inr 1"
  by (simp add: step_defs evaluate eval_defs cong: andthen_weak)

lemma demo_deactivate: "succeeds (deactivate_user (uuid_str 3) demo_admin (uuid_str 1) demo_auth_state)"
  by (simp add: step_defs evaluate eval_defs cong: andthen_weak)

definition demo_code_state :: auth_state where
  "demo_code_state = snd (create_authorization_code ''c1'' ''app'' ''uri'' ''v1'' ''plain''
     ''00000000-0000-0000-0000-000000000001'' ''00000000-0000-0000-0000-000000000003'' [''search.read''] 5 demo_auth_state)"

lemma demo_literals:
  "parse_uuid ''00000000-0000-0000-0000-000000000001'' = Some 1"
  "parse_uuid ''00000000-0000-0000-0000-000000000003'' = Some 3"
  "verify_pkce demo_crypto ''v1'' ''v1'' ''plain'' = Inr True"
  by code_simp+

lemma demo_exchange: "succeeds (exchange_authorization_code demo_jwt demo_crypto 10 ''c1'' ''v1'' ''app'' ''uri'' demo_code_state)"
  by (simp add: demo_code_state_def create_authorization_code_def step_defs evaluate eval_defs andthen_updates apply_updates
      demo_literals cong: andthen_weak)


theorem refresh_token_works_once_witness:
  "\<exists>e. fst (refresh_access_token demo_jwt demo_crypto 30 ''old''
     (run demo_auth demo_requests (snd (refresh_access_token demo_jwt demo_crypto 10 ''old'' demo_auth_state)))) = Inl e"
proof -
  obtain x where x: "refresh_access_token demo_jwt demo_crypto 10 ''old'' demo_auth_state =
      (Inr x, snd (refresh_access_token demo_jwt demo_crypto 10 ''old'' demo_auth_state))"
    using demo_refresh_succeeds by (rule succeedsE)
  have j: "ae_jwt demo_auth = demo_jwt" "ae_crypto demo_auth = demo_crypto" by (simp_all add: demo_auth_def)
  show ?thesis
    by (rule refresh_token_works_once [of demo_auth, unfolded j, OF demo_faithful [unfolded j] x])
qed


theorem revocation_misses_refreshed_tokens_witness:
  "let s' = snd (revoke_sessions (uuid_str 3) demo_admin (uuid_str 1) demo_auth_state); k = au_keys demo_auth_state;
       p = access_payload k (uuid_str 1) (uuid_str 3) MEMBER_SCOPES None 0 False 10 7
   in check_payload p (au_redis s') = Inr p \<and>
      check_payload (access_payload k (uuid_str 1) (uuid_str 3) MEMBER_SCOPES (Some ''member'') 0 False 10 8) (au_redis s') =
        Inl revoked_token"
proof -
  let ?m = "revoke_sessions (uuid_str 3) demo_admin (uuid_str 1) demo_auth_state"
  have m: "?m = (Inr 1, snd ?m)" using demo_revoke_sessions by (metis prod.collapse)
  have f: "find_user 3 1 demo_auth_state = Some (demo_user 3 ''member'')" by code_simp
  have p: "parse_uuid (uuid_str 3) = Some 3" "parse_uuid (uuid_str 1) = Some 1" by code_simp+
  have r: "\<forall>i \<in> fst ` set (au_refresh demo_auth_state). uuid_str i \<noteq> uuid_str 7"
    by (simp add: demo_auth_state_def)
  have c: "check_payload (access_payload (au_keys demo_auth_state) (uuid_str 1) (uuid_str 3) MEMBER_SCOPES None 0 False 10 7)
      (au_redis demo_auth_state) =
    Inr (access_payload (au_keys demo_auth_state) (uuid_str 1) (uuid_str 3) MEMBER_SCOPES None 0 False 10 7)" by code_simp
  from revocation_misses_refreshed_tokens [OF m _ f p r c,
      where older = 0 and sc' = MEMBER_SCOPES and role = "''member''" and mc = False and n' = 10 and j' = 8]
  show ?thesis by (simp add: Let_def demo_user_def)
qed

theorem deactivation_keeps_refresh_working_witness:
  "let s' = snd (deactivate_user (uuid_str 3) demo_admin (uuid_str 1) demo_auth_state)
   in fst (refresh_access_token demo_jwt demo_crypto 10 ''old'' s') =
        fst (refresh_access_token demo_jwt demo_crypto 10 ''old'' demo_auth_state) \<and>
      succeeds (refresh_access_token demo_jwt demo_crypto 10 ''old'' demo_auth_state)"
proof -
  obtain u where u: "deactivate_user (uuid_str 3) demo_admin (uuid_str 1) demo_auth_state =
    (Inr u, snd (deactivate_user (uuid_str 3) demo_admin (uuid_str 1) demo_auth_state))"
    using demo_deactivate by (rule succeedsE)
  have w: "\<forall>(i, u) \<in> set (au_users demo_auth_state). u_principal_id u = i"
    by (simp add: demo_auth_state_def demo_user_def)
  from deactivation_keeps_refresh_working [OF u w, of demo_jwt demo_crypto 10 "''old''"] demo_refresh_succeeds
  show ?thesis by (simp add: Let_def)
qed

definition demo_issued :: pydict where
  "demo_issued = access_payload (load_keys (au_keys demo_auth_state)) (uuid_str 1) (uuid_str 3) MEMBER_SCOPES
     (Some ''member'') 0 False 10 7"

definition demo_verify :: jwt_lib where
  "demo_verify = demo_jwt\<lparr>jl_decode := (\<lambda>tok key iss now. if tok = ''new'' \<and> key = ''p1'' \<and> now < 70 then Inr demo_issued
     else Inl ExpiredSignature)\<rparr>"

theorem issued_token_stays_valid_witness:
  "fst (validate_token demo_verify 60 ''new'' (run (demo_auth\<lparr>ae_jwt := demo_verify\<rparr>) [(20, Rotate_Key ''k2'' ''s2'' ''p2'')]
     (snd (issue_access_token demo_verify (uuid_str 1) (uuid_str 3) MEMBER_SCOPES (Some ''member'') 0 False 10 demo_auth_state))))
   = Inr demo_issued"
proof -
  let ?m = "issue_access_token demo_verify (uuid_str 1) (uuid_str 3) MEMBER_SCOPES (Some ''member'') 0 False 10 demo_auth_state"
  let ?env = "demo_auth\<lparr>ae_jwt := demo_verify\<rparr>" and ?rs = "[(20, Rotate_Key ''k2'' ''s2'' ''p2'')]"
  have m: "issue_access_token (ae_jwt ?env) (uuid_str 1) (uuid_str 3) MEMBER_SCOPES (Some ''member'') 0 False 10 demo_auth_state
      = (Inr ''new'', snd ?m)"
    by (simp add: issue_access_Inr demo_verify_def demo_jwt_def)
  have p: "demo_issued = access_payload (load_keys (au_keys demo_auth_state)) (uuid_str 1) (uuid_str 3) MEMBER_SCOPES
     (Some ''member'') 0 False 10 (au_next_uuid demo_auth_state)"
    by (simp add: demo_issued_def demo_auth_state_def)
  have fine: "\<not> jti_revoked demo_issued (au_redis (run ?env ?rs (snd ?m)))" "\<not> version_revoked demo_issued (au_redis (run ?env ?rs (snd ?m)))"
    by code_simp+
  have "fst (validate_token (ae_jwt ?env) 60 ''new'' (run ?env ?rs (snd ?m))) = Inr demo_issued \<and>
    pget demo_issued ''sub'' = PStr (uuid_str 3) \<and> pget demo_issued ''tenant_id'' = PStr (uuid_str 1) \<and>
    pget demo_issued ''scopes'' = PList (map PStr MEMBER_SCOPES)"
    by (rule issued_token_stays_valid [OF m refl p, where i = "''k1''" and pub = "''p1''"])
      (simp_all only: fine not_False_eq_True,
       simp_all add: demo_auth_state_def load_keys_def demo_verify_def demo_jwt_def kid.admissible_def)
  then show ?thesis by simp
qed

end
