(* ===== verification/Federated.thy ===== *)
theory Federated
  imports Acl_Filter
begin

text \<open>
  Federated search: \<open>backend/app/api/v1/search/federated.py\<close>, \<open>services/query_federator/__init__.py\<close> and
  \<open>models/federated.py\<close>. The engines, the embedding service, \<open>html.unescape\<close> and the weight
  \<open>1 / (60 + rank)\<close> are arguments. Scores are any linear order with zero and addition, so the results
  hold for floating-point numbers without assuming laws of addition. Latencies and traces are left out.
\<close>

subsection \<open>Hits\<close>

record 's hit =
  ht_document_id :: string      \<comment> \<open>\<open>document_id\<close> or \<open>id\<close>\<close>
  ht_title :: string
  ht_snippet :: string
  ht_score :: 's
  ht_sources :: "string list"
  ht_from_email :: string
  ht_source_type :: string
  ht_metadata :: pydict         \<comment> \<open>empty where it is not a dictionary\<close>

definition structured_meta :: "pydict \<Rightarrow> pydict" where
  "structured_meta payload =
     (case pget payload ''structured_metadata'' of PDict raw \<Rightarrow> raw
      | _ \<Rightarrow> (case pget payload ''metadata'' of
          PDict nested \<Rightarrow> (case pget nested ''structured_metadata'' of PDict inner \<Rightarrow> inner | _ \<Rightarrow> nested)
        | _ \<Rightarrow> []))"

text \<open>
  \<open>re.sub(r"(?is)<(script|style)[^>]*>.*?</\1>", " ", s)\<close>: from an opening tag to the first closing tag of
  the same name. \<open>after p s\<close> is the rest of \<open>s\<close> after the first \<open>p\<close>, if there is one.
\<close>

fun after :: "string \<Rightarrow> string \<Rightarrow> string option" where
  "after p [] = (if p = [] then Some [] else None)"
| "after p (c # s) = (if starts_with p (c # s) then Some (drop (length p) (c # s)) else after p s)"

lemma after_length: "after p s = Some r \<Longrightarrow> length r \<le> length s"
  by (induction p s rule: after.induct) (auto split: if_splits)

definition ci_prefix :: "string \<Rightarrow> string \<Rightarrow> bool" where
  "ci_prefix p s = starts_with p (str_lower s)"

definition after_ci :: "string \<Rightarrow> string \<Rightarrow> string option" where
  "after_ci p s = map_option (\<lambda>r. drop (length s - length r) s) (after p (str_lower s))"

lemma after_ci_length: "after_ci p s = Some r \<Longrightarrow> length r \<le> length s"
  by (auto simp: after_ci_def)

definition block_end :: "string \<Rightarrow> string \<Rightarrow> string option" where
  "block_end name s =
     (if ci_prefix (''<'' @ name) s
      then case after ''>'' (drop (1 + length name) s) of
             Some body \<Rightarrow> after_ci (''</'' @ name @ ''>'') body | None \<Rightarrow> None
      else None)"

definition block_rest :: "string \<Rightarrow> string option" where
  "block_rest s = (case block_end ''script'' s of Some r \<Rightarrow> Some r | None \<Rightarrow> block_end ''style'' s)"

lemma block_end_length: "block_end name s = Some r \<Longrightarrow> s \<noteq> [] \<Longrightarrow> length r < length s"
  by (cases s) (fastforce simp: block_end_def split: if_splits option.splits dest!: after_ci_length after_length)+

lemma block_rest_length: "block_rest s = Some r \<Longrightarrow> s \<noteq> [] \<Longrightarrow> length r < length s"
  by (auto simp: block_rest_def split: option.splits dest: block_end_length)

function drop_blocks :: "string \<Rightarrow> string" where
  "drop_blocks [] = []"
| "drop_blocks (c # s) = (case block_rest (c # s) of Some r \<Rightarrow> '' '' @ drop_blocks r | None \<Rightarrow> c # drop_blocks s)"
  by pat_completeness auto
termination by (relation "measure length") (auto dest: block_rest_length)

text \<open>\<open>re.sub(r"<[^>]+>", " ", s)\<close>.\<close>

definition tag_rest :: "string \<Rightarrow> string option" where
  "tag_rest s = (if starts_with ''<'' s \<and> \<not> starts_with ''<>'' s then after ''>'' s else None)"

lemma tag_rest_length: "tag_rest s = Some r \<Longrightarrow> length r < length s"
proof -
  assume t: "tag_rest s = Some r"
  then obtain s' where s: "s = CHR ''<'' # s'" "after ''>'' s = Some r"
    by (auto simp: tag_rest_def starts_with_iff split: if_splits)
  then have "after ''>'' s' = Some r" by (simp add: starts_with_def)
  from after_length [OF this] s(1) show ?thesis by simp
qed

function drop_tags :: "string \<Rightarrow> string" where
  "drop_tags [] = []"
| "drop_tags (c # s) = (case tag_rest (c # s) of Some r \<Rightarrow> '' '' @ drop_tags r | None \<Rightarrow> c # drop_tags s)"
  by pat_completeness auto
termination by (relation "measure length") (auto dest: tag_rest_length)

text \<open>\<open>re.sub(r"\s+", " ", s)\<close>.\<close>

fun squeeze :: "string \<Rightarrow> string" where
  "squeeze [] = []"
| "squeeze [c] = (if is_space c then '' '' else [c])"
| "squeeze (c # d # s) = (if is_space c then (if is_space d then squeeze (d # s) else CHR '' '' # squeeze (d # s))
     else c # squeeze (d # s))"

definition clean_body :: "(string \<Rightarrow> string) \<Rightarrow> string \<Rightarrow> string" where
  "clean_body unescape body = str_strip (squeeze (unescape (drop_tags (drop_blocks body))))"

definition or_str :: "pyval list \<Rightarrow> string" where
  "or_str vs = py_str (foldr py_or vs (PStr []))"

definition hit_meta_of :: "string \<Rightarrow> string \<Rightarrow> string \<Rightarrow> pydict \<Rightarrow> pydict" where
  "hit_meta_of from_email subject source_type meta =
     (if from_email \<noteq> [] then [(''from_email'', PStr from_email)] else []) @
     (if subject \<noteq> [] then [(''subject'', PStr subject)] else []) @
     (if source_type \<noteq> [] then [(''source_type'', PStr source_type)] else []) @
     (if truthy (pget meta ''to_emails'') then [(''to_emails'', pget meta ''to_emails'')] else [])"

definition payload_to_hit :: "(string \<Rightarrow> string) \<Rightarrow> pydict \<Rightarrow> 's \<Rightarrow> 's hit" where
  "payload_to_hit unescape payload score =
     (let body = clean_body unescape (or_str [pget payload ''content'', pget payload ''body_text'', pget payload ''snippet'']);
          meta = structured_meta payload;
          from_email = or_str [pget payload ''from_email'', pget meta ''from_email'', pget meta ''from''];
          subject = or_str [pget payload ''subject'', pget meta ''subject''];
          source_type = or_str [pget payload ''source_type'', pget meta ''source_type'']
      in \<lparr>ht_document_id = or_str [pget payload ''id'', pget payload ''document_id''],
          ht_title = or_str [pget payload ''title'', PStr subject, pget payload ''id''],
          ht_snippet = take (nat 6000) body, ht_score = score, ht_sources = [''indexed''], ht_from_email = from_email,
          ht_source_type = source_type, ht_metadata = hit_meta_of from_email subject source_type meta\<rparr>)"

subsection \<open>Backends\<close>

record backend_status =
  bs_name :: string
  bs_ok :: bool
  bs_hit_count :: nat

definition ok_status :: "string \<Rightarrow> 'a list \<Rightarrow> 'a list \<times> backend_status" where
  "ok_status name hits = (hits, \<lparr>bs_name = name, bs_ok = True, bs_hit_count = length hits\<rparr>)"

definition failed_status :: "string \<Rightarrow> 'a list \<times> backend_status" where
  "failed_status name = ([], \<lparr>bs_name = name, bs_ok = False, bs_hit_count = 0\<rparr>)"

definition is_browse :: "string \<Rightarrow> bool" where
  "is_browse query = (query = [] \<or> str_strip query \<in> {''*'', ''all''})"

text \<open>The shared embedding; an exception or an empty vector gives \<open>None\<close>.\<close>

definition query_embedding_for_search :: "(string \<Rightarrow> 'v list res) \<Rightarrow> string \<Rightarrow> 'v list option" where
  "query_embedding_for_search embed_q query =
     (if is_browse query then None
      else case embed_q query of Inr (x # xs) \<Rightarrow> Some (x # xs) | _ \<Rightarrow> None)"

definition embedded :: "(string \<Rightarrow> 'v list res) \<Rightarrow> string \<Rightarrow> 'v list option \<Rightarrow> 'v list res" where
  "embedded embed_q query shared =
     rbind (case shared of Some (x # xs) \<Rightarrow> Inr (x # xs) | _ \<Rightarrow> embed_q query)
       (\<lambda>vec. if vec = [] then Inl (Raised ''ValueError'') else Inr vec)"

record ('v, 's) engines =
  en_embed :: "string \<Rightarrow> 'v list res"
  en_unescape :: "string \<Rightarrow> string"
  en_scroll :: "string \<Rightarrow> nat \<Rightarrow> (pydict \<times> 's) list res"       \<comment> \<open>tenant, limit; each with the score one\<close>
  en_points :: "string \<Rightarrow> 'v list \<Rightarrow> nat \<Rightarrow> (pydict \<times> 's) list res"
  en_lexical :: "(string \<Rightarrow> string \<Rightarrow> string list \<Rightarrow> nat \<Rightarrow> 's hit list res) option option"
    \<comment> \<open>\<open>None\<close> when disabled, \<open>Some None\<close> without a client\<close>
  en_vector :: "(string \<Rightarrow> 'v list \<Rightarrow> string list \<Rightarrow> nat \<Rightarrow> 's hit list res) option"
    \<comment> \<open>\<open>None\<close> without an address\<close>

definition safe_call_lexical :: "('v, 's) engines \<Rightarrow> string \<Rightarrow> string \<Rightarrow> string list \<Rightarrow> nat \<Rightarrow> 's hit list \<times> backend_status" where
  "safe_call_lexical en query tenant_id acl_terms sz =
     (case en_lexical en of
        None \<Rightarrow> ok_status ''lexical'' []
      | Some None \<Rightarrow> ok_status ''lexical'' []
      | Some (Some search) \<Rightarrow>
          (case search tenant_id query acl_terms (sz * 2) of
             Inr hits \<Rightarrow> ok_status ''lexical'' hits | Inl e \<Rightarrow> failed_status ''lexical''))"

definition meta_str :: "pydict \<Rightarrow> string \<Rightarrow> string" where
  "meta_str meta k = or_str [pget meta k]"

definition enrich :: "'s hit \<Rightarrow> 's hit" where
  "enrich h =
     h\<lparr>ht_snippet := take (nat 4000) (ht_snippet h),
       ht_title := (if ht_title h \<noteq> [] then ht_title h else meta_str (ht_metadata h) ''title''),
       ht_from_email := (if ht_from_email h \<noteq> [] then ht_from_email h else meta_str (ht_metadata h) ''from_email''),
       ht_source_type := (if ht_source_type h \<noteq> [] then ht_source_type h else meta_str (ht_metadata h) ''source_type'')\<rparr>"

definition safe_call_vector ::
    "('v, 's) engines \<Rightarrow> string \<Rightarrow> string \<Rightarrow> string list \<Rightarrow> nat \<Rightarrow> 'v list option \<Rightarrow> 's hit list \<times> backend_status" where
  "safe_call_vector en query tenant_id acl_terms sz shared =
     (case en_vector en of
        None \<Rightarrow> failed_status ''vector''
      | Some search \<Rightarrow>
          (case rbind (embedded (en_embed en) query shared) (\<lambda>vec. search tenant_id vec acl_terms (sz * 2)) of
             Inr hits \<Rightarrow> ok_status ''vector'' (map enrich hits) | Inl e \<Rightarrow> failed_status ''vector''))"

text \<open>The ACL of a payload: \<open>permissions\<close>, or else \<open>acl_terms\<close>.\<close>

definition payload_acl :: "pydict \<Rightarrow> string list option res" where
  "payload_acl payload =
     (let v = py_or (pget payload ''permissions'') (pget payload ''acl_terms'') in
      if \<not> truthy v then Inr None else rbind (py_iter v) (\<lambda>xs. rbind (res_map py_need_str xs) (\<lambda>ts. Inr (Some ts))))"

definition visible_hit :: "('v, 's) engines \<Rightarrow> string list \<Rightarrow> pydict \<times> 's \<Rightarrow> 's hit option res" where
  "visible_hit en acl_terms = (\<lambda>(payload, score).
     rbind (payload_acl payload) (\<lambda>doc_acl.
       let h = payload_to_hit (en_unescape en) payload score
       in Inr (if document_is_visible acl_terms doc_acl \<and> ht_document_id h \<noteq> [] then Some h else None)))"

definition safe_call_indexed ::
    "('v, 's) engines \<Rightarrow> string \<Rightarrow> string \<Rightarrow> string list \<Rightarrow> nat \<Rightarrow> 'v list option \<Rightarrow> 's hit list \<times> backend_status" where
  "safe_call_indexed en query tenant_id acl_terms sz shared =
     (case rbind (if is_browse query then en_scroll en tenant_id (sz * 2)
                  else rbind (embedded (en_embed en) query shared) (\<lambda>vec. en_points en tenant_id vec (sz * 2)))
             (res_map (visible_hit en acl_terms)) of
        Inr hits \<Rightarrow> ok_status ''indexed'' (List.map_filter (\<lambda>h. h) hits)
      | Inl e \<Rightarrow> failed_status ''indexed'')"

subsection \<open>Fusion\<close>

record 's merge_bucket =
  bu_title :: string
  bu_snippet :: string
  bu_lexical_score :: "'s option"
  bu_vector_score :: "'s option"
  bu_sources :: "string list"
  bu_from_email :: string
  bu_source_type :: string
  bu_metadata :: pydict

definition prefer_snippet :: "string \<Rightarrow> string \<Rightarrow> string" where
  "prefer_snippet existing candidate =
     (let a = str_strip existing; b = str_strip candidate in if length b > length a then b else a)"

definition merge_meta :: "pydict \<Rightarrow> pydict \<Rightarrow> pydict" where
  "merge_meta old extra =
     foldl (\<lambda>m (k, v). AList.update k v m) old
       (filter (\<lambda>(k, v). v \<noteq> PNone \<and> v \<noteq> PStr [] \<and> v \<noteq> PList []) extra)"

definition ingest_hit_meta :: "'s merge_bucket \<Rightarrow> 's hit \<Rightarrow> 's merge_bucket" where
  "ingest_hit_meta b doc =
     (let title = ht_title doc; meta = ht_metadata doc;
          from_email = (if ht_from_email doc \<noteq> [] then ht_from_email doc
                        else or_str [pget meta ''from_email'', pget meta ''from'']);
          source_type = (if ht_source_type doc \<noteq> [] then ht_source_type doc else meta_str meta ''source_type'')
      in b\<lparr>bu_title := (if title \<noteq> [] \<and> (bu_title b = [] \<or> length title > length (bu_title b)) then title else bu_title b),
           bu_snippet := prefer_snippet (bu_snippet b) (ht_snippet doc),
           bu_from_email := (if from_email \<noteq> [] \<and> bu_from_email b = [] then from_email else bu_from_email b),
           bu_source_type := (if source_type \<noteq> [] \<and> bu_source_type b = [] then source_type else bu_source_type b),
           bu_metadata := merge_meta (bu_metadata b) meta\<rparr>)"

definition new_bucket :: "'s hit \<Rightarrow> string list \<Rightarrow> 's merge_bucket" where
  "new_bucket doc sources =
     \<lparr>bu_title = ht_title doc, bu_snippet = ht_snippet doc, bu_lexical_score = None, bu_vector_score = None,
      bu_sources = sources, bu_from_email = ht_from_email doc, bu_source_type = ht_source_type doc,
      bu_metadata = ht_metadata doc\<rparr>"

type_synonym 's fusion = "(string, 's) dict \<times> (string, 's merge_bucket) dict"

definition add_source :: "string list \<Rightarrow> string \<Rightarrow> string list" where
  "add_source src s = (if s \<in> set src then src else src @ [s])"

definition fuse_lexical :: "(nat \<Rightarrow> 's::{linorder,zero,plus}) \<Rightarrow> 's fusion \<Rightarrow> nat \<times> 's hit \<Rightarrow> 's fusion" where
  "fuse_lexical w = (\<lambda>(scores, metadata) (rank, doc).
     let doc_id = ht_document_id doc; sources = (if ht_sources doc \<noteq> [] then ht_sources doc else [''lexical'']) in
     if doc_id = [] then (scores, metadata)
     else (AList.update doc_id (dict_get scores doc_id 0 + w rank) scores,
           AList.update doc_id
             (ingest_hit_meta (case map_of metadata doc_id of
                None \<Rightarrow> (new_bucket doc sources)\<lparr>bu_lexical_score := Some (ht_score doc)\<rparr>
              | Some b \<Rightarrow> b\<lparr>bu_sources := foldl add_source (bu_sources b) sources,
                            bu_lexical_score := Some (ht_score doc)\<rparr>) doc) metadata))"

definition fuse_vector :: "(nat \<Rightarrow> 's::{linorder,zero,plus}) \<Rightarrow> 's fusion \<Rightarrow> nat \<times> 's hit \<Rightarrow> 's fusion" where
  "fuse_vector w = (\<lambda>(scores, metadata) (rank, doc).
     let doc_id = ht_document_id doc in
     if doc_id = [] then (scores, metadata)
     else (AList.update doc_id (dict_get scores doc_id 0 + w rank) scores,
           AList.update doc_id
             (ingest_hit_meta (case map_of metadata doc_id of
                None \<Rightarrow> (new_bucket doc [''vector''])\<lparr>bu_vector_score := Some (ht_score doc)\<rparr>
              | Some b \<Rightarrow> b\<lparr>bu_sources := add_source (bu_sources b) ''vector'',
                            bu_vector_score := Some (ht_score doc)\<rparr>) doc) metadata))"

record 's result_item =
  ri_document_id :: string
  ri_score :: 's
  ri_title :: string
  ri_snippet :: string
  ri_sources :: "string list"
  ri_lexical_score :: "'s option"
  ri_vector_score :: "'s option"
  ri_metadata :: pydict         \<comment> \<open>empty for \<open>None\<close>\<close>

definition result_of :: "(string, 's merge_bucket) dict \<Rightarrow> string \<times> 's \<Rightarrow> 's result_item" where
  "result_of metadata = (\<lambda>(doc_id, score).
     let b = the (map_of metadata doc_id);
         m = bu_metadata b;
         m = (if bu_from_email b \<noteq> [] then dict_setdefault ''from_email'' (PStr (bu_from_email b)) m else m);
         m = (if bu_source_type b \<noteq> [] then dict_setdefault ''source_type'' (PStr (bu_source_type b)) m else m)
     in \<lparr>ri_document_id = doc_id, ri_score = score, ri_title = bu_title b, ri_snippet = bu_snippet b,
         ri_sources = bu_sources b, ri_lexical_score = bu_lexical_score b, ri_vector_score = bu_vector_score b,
         ri_metadata = m\<rparr>)"

definition fused :: "(nat \<Rightarrow> 's::{linorder,zero,plus}) \<Rightarrow> 's hit list \<Rightarrow> 's hit list \<Rightarrow> 's fusion" where
  "fused w lexical_results vector_results =
     foldl (fuse_vector w) (foldl (fuse_lexical w) ([], []) (List.enumerate 1 lexical_results))
       (List.enumerate 1 vector_results)"

definition merge_and_rank ::
    "(nat \<Rightarrow> 's::{linorder,zero,plus}) \<Rightarrow> 's hit list \<Rightarrow> 's hit list \<Rightarrow> nat \<Rightarrow> 's result_item list" where
  "merge_and_rank w lexical_results vector_results sz =
     (let (scores, metadata) = fused w lexical_results vector_results
      in map (result_of metadata) (take sz (sort_desc snd scores)))"

subsection \<open>The route\<close>

definition run_federated_backends ::
    "('v, 's::{linorder,zero,plus}) engines \<Rightarrow> (nat \<Rightarrow> 's) \<Rightarrow> string \<Rightarrow> string \<Rightarrow> string list \<Rightarrow> nat \<Rightarrow> bool \<Rightarrow> bool \<Rightarrow>
     's result_item list \<times> backend_status list" where
  "run_federated_backends en w query tenant_id acl_terms sz enable_lexical enable_vector =
     (let shared = query_embedding_for_search (en_embed en) query;
          (indexed_results, st_i) = safe_call_indexed en query tenant_id acl_terms sz shared;
          (lexical_results, st_l) = (if enable_lexical
             then (let (h, st) = safe_call_lexical en query tenant_id acl_terms sz in (h, [st])) else ([], []));
          (vector_results, st_v) = (if enable_vector
             then (let (h, st) = safe_call_vector en query tenant_id acl_terms sz shared in (h, [st])) else ([], []))
      in (merge_and_rank w (indexed_results @ lexical_results) vector_results sz, st_i # st_l @ st_v))"

text \<open>The validated request: \<open>0 \<le> from\<close> and \<open>1 \<le> size \<le> 100\<close>.\<close>

record search_request =
  sq_query :: string
  sq_tenant_id :: string
  sq_from :: nat
  sq_size :: nat
  sq_enable_lexical :: bool
  sq_enable_vector :: bool

record 's search_response =
  sr_results :: "'s result_item list"
  sr_total :: nat
  sr_degraded :: bool
  sr_backends :: "backend_status list"

definition federated_search ::
    "('v, 's::{linorder,zero,plus}) engines \<Rightarrow> (nat \<Rightarrow> 's) \<Rightarrow> search_request \<Rightarrow> pydict \<Rightarrow> 's search_response res" where
  "federated_search en w body current_user =
     (let tenant_id = or_str [pget current_user ''tenant_id''] in
      if sq_tenant_id body \<noteq> [] \<and> sq_tenant_id body \<noteq> tenant_id then Inl (HTTPException 403 ''Tenant mismatch'')
      else let acl_terms = acl_terms_from_jwt current_user in
        if is_fail_closed acl_terms
        then Inr \<lparr>sr_results = [], sr_total = 0, sr_degraded = False, sr_backends = []\<rparr>
        else let (merged, statuses) = run_federated_backends en w (sq_query body) tenant_id acl_terms (sq_size body)
                   (sq_enable_lexical body) (sq_enable_vector body)
          in if \<not> list_ex bs_ok statuses then Inl (HTTPException 503 ''All search backends unavailable'')
             else Inr \<lparr>sr_results = take (sq_size body) (drop (sq_from body) merged), sr_total = length merged,
                  sr_degraded = (\<not> list_all bs_ok statuses), sr_backends = statuses\<rparr>)"

text \<open>\<open>federated_search_inprocess\<close>, which the MCP gateway calls; the terms are those of the principal alone.\<close>

definition build_acl_terms :: "string \<Rightarrow> string list \<Rightarrow> string list" where
  "build_acl_terms principal_id groups =
     (let terms = dedup (filter (\<lambda>t. t \<noteq> []) (principal_id # groups)) in if is_fail_closed terms then [] else terms)"

definition inprocess_terms :: "string \<Rightarrow> string list" where
  "inprocess_terms principal_id =
     (let terms = build_acl_terms principal_id []; u = ''user:'' @ principal_id
      in if principal_id \<noteq> [] \<and> u \<notin> set terms then terms @ [u] else terms)"

definition federated_search_inprocess ::
    "('v, 's::{linorder,zero,plus}) engines \<Rightarrow> (nat \<Rightarrow> 's) \<Rightarrow> string \<Rightarrow> string \<Rightarrow> string \<Rightarrow> nat \<Rightarrow> string list option \<Rightarrow>
     bool \<Rightarrow> bool \<Rightarrow> 's search_response" where
  "federated_search_inprocess en w query tenant_id principal_id sz acl_terms enable_lexical enable_vector =
     (let terms = (case acl_terms of None \<Rightarrow> inprocess_terms principal_id | Some ts \<Rightarrow> ts);
          (merged, statuses) = run_federated_backends en w query tenant_id terms sz enable_lexical enable_vector
      in \<lparr>sr_results = merged, sr_total = length merged,
          sr_degraded = (\<not> list_ex bs_ok statuses \<or> \<not> list_all bs_ok statuses), sr_backends = statuses\<rparr>)"

subsection \<open>Reciprocal rank fusion\<close>

definition ranks :: "string \<Rightarrow> 's hit list \<Rightarrow> nat list" where
  "ranks d hits = map fst (filter (\<lambda>(r, h). ht_document_id h = d) (List.enumerate 1 hits))"

text \<open>The score of a document: the weights of its ranks, added from the left.\<close>

definition rrf :: "(nat \<Rightarrow> 's::{linorder,zero,plus}) \<Rightarrow> 's hit list \<Rightarrow> 's hit list \<Rightarrow> string \<Rightarrow> 's" where
  "rrf w lexical vector d = foldl (\<lambda>s r. s + w r) 0 (ranks d lexical @ ranks d vector)"

definition bump :: "(nat \<Rightarrow> 's::{linorder,zero,plus}) \<Rightarrow> (string, 's) dict \<Rightarrow> nat \<times> 's hit \<Rightarrow> (string, 's) dict" where
  "bump w scores = (\<lambda>(rank, doc). if ht_document_id doc = [] then scores
     else AList.update (ht_document_id doc) (dict_get scores (ht_document_id doc) 0 + w rank) scores)"

lemma fst_fuse: "fst (fuse_lexical w f x) = bump w (fst f) x" "fst (fuse_vector w f x) = bump w (fst f) x"
  by (auto simp: fuse_lexical_def fuse_vector_def bump_def Let_def split_beta)

lemma fst_fused:
  "fst (fused w lexical vector) = foldl (bump w) [] (List.enumerate 1 lexical @ List.enumerate 1 vector)"
proof -
  have "fst (foldl (fuse_lexical w) f xs) = foldl (bump w) (fst f) xs" for f xs
    by (induction xs arbitrary: f) (simp_all add: fst_fuse)
  moreover have "fst (foldl (fuse_vector w) f xs) = foldl (bump w) (fst f) xs" for f xs
    by (induction xs arbitrary: f) (simp_all add: fst_fuse)
  ultimately show ?thesis by (simp add: fused_def)
qed

lemma bump_wf: "dict_wf sc \<Longrightarrow> dict_wf (foldl (bump w) sc xs)"
  by (induction xs arbitrary: sc) (simp_all add: bump_def split_beta)

lemma bump_keys: "fst ` set (foldl (bump w) sc xs) = fst ` set sc \<union> {d \<in> ht_document_id ` snd ` set xs. d \<noteq> []}"
  by (induction xs arbitrary: sc) (auto simp: bump_def split_beta keys_update)

lemma bump_score:
  "d \<noteq> [] \<Longrightarrow> dict_get (foldl (bump w) sc xs) d 0 =
     foldl (\<lambda>s r. s + w r) (dict_get sc d 0) (map fst (filter (\<lambda>(r, h). ht_document_id h = d) xs))"
  by (induction xs arbitrary: sc) (simp_all add: bump_def split_beta dict_get_update)

lemma enumerate_snd: "snd ` set (List.enumerate n xs) = set xs"
  by (metis map_snd_enumerate set_map)

lemma fused_scores:
  "dict_wf (fst (fused w lexical vector))"
  "fst ` set (fst (fused w lexical vector)) = {d \<in> ht_document_id ` (set lexical \<union> set vector). d \<noteq> []}"
  "(d, v) \<in> set (fst (fused w lexical vector)) \<Longrightarrow> v = rrf w lexical vector d"
proof -
  show wf: "dict_wf (fst (fused w lexical vector))" unfolding fst_fused by (rule bump_wf) simp
  show keys: "fst ` set (fst (fused w lexical vector)) = {d \<in> ht_document_id ` (set lexical \<union> set vector). d \<noteq> []}"
    unfolding fst_fused bump_keys by (simp add: image_Un enumerate_snd)
  assume v: "(d, v) \<in> set (fst (fused w lexical vector))"
  then have "d \<in> fst ` set (fst (fused w lexical vector))" by force
  then have d: "d \<noteq> []" unfolding keys by simp
  from v have "dict_get (fst (fused w lexical vector)) d 0 = v"
    using in_set_dict_iff [OF wf] by (simp add: dict_get_def)
  then show "v = rrf w lexical vector d"
    by (simp add: fst_fused bump_score [OF d] rrf_def ranks_def)
qed

lemma result_of_simps [simp]: "ri_document_id (result_of m x) = fst x" "ri_score (result_of m x) = snd x"
  by (simp_all add: result_of_def split_beta Let_def)

lemma merge_as_take:
  "map (\<lambda>r. (ri_document_id r, ri_score r)) (merge_and_rank w lexical vector n) =
     take n (sort_desc snd (fst (fused w lexical vector)))"
  by (simp add: merge_and_rank_def split_beta Let_def comp_def)

lemma sorted_prefix:
  assumes "sorted_wrt (\<lambda>x y. f x \<ge> f y) (xs :: 'a list)" "x \<in> set (take n xs)" "y \<in> set xs" "y \<notin> set (take n xs)"
  shows "(f y :: 's::linorder) \<le> f x"
proof -
  have "y \<in> set (drop n xs)" using assms(3,4) by (metis UnE append_take_drop_id set_append)
  with assms(1,2) show ?thesis
    by (metis append_take_drop_id sorted_wrt_append)
qed

text \<open>
  Property C20: federated ranking is reciprocal rank fusion. The results are distinct documents of the
  hits, each with the sum of the weights of its ranks in the two lists, in falling order; they are the
  best ones: there are as many as wanted or available, and no document left out has a higher score.
  Nothing is assumed of addition, so this holds for floating-point scores.
\<close>

theorem federated_ranking_is_rrf:
  assumes "rs = merge_and_rank w lexical vector n" "ids = {d \<in> ht_document_id ` (set lexical \<union> set vector). d \<noteq> []}"
  shows "distinct (map ri_document_id rs) \<and> sorted_wrt (\<lambda>x y. ri_score x \<ge> ri_score y) rs \<and>
    length rs = min n (card ids) \<and>
    (\<forall>r \<in> set rs. ri_document_id r \<in> ids \<and> ri_score r = rrf w lexical vector (ri_document_id r)) \<and>
    (\<forall>d \<in> ids. d \<in> ri_document_id ` set rs \<or> (\<forall>r \<in> set rs. rrf w lexical vector d \<le> ri_score r))"
proof (intro conjI)
  let ?sc = "fst (fused w lexical vector)" and ?p = "\<lambda>r. (ri_document_id r, ri_score r)"
  let ?s = "sort_desc snd ?sc"
  note m = merge_as_take [of w lexical vector n, folded assms(1)]
  note f = fused_scores [where w = w and lexical = lexical and vector = vector, folded assms(2)]
  have "mset (map fst ?s) = mset (map fst ?sc)" by simp
  from mset_eq_imp_distinct_iff [OF this] have wf: "distinct (map fst ?s)" using f(1) by (simp add: dict_wf_def)
  show "distinct (map ri_document_id rs)"
    using wf arg_cong [OF m, of "map fst"] by (simp add: comp_def take_map [symmetric])
  have srt: "sorted_wrt (\<lambda>x y. snd x \<ge> snd y) ?s" by (rule sorted_sort_desc)
  then have "sorted_wrt (\<lambda>x y. snd x \<ge> snd y) (map ?p rs)" unfolding m by (rule sorted_wrt_take)
  then show "sorted_wrt (\<lambda>x y. ri_score x \<ge> ri_score y) rs" by (simp add: sorted_wrt_map)
  have "length ?sc = card ids" using f(1,2) by (metis dict_wf_def distinct_card length_map list.set_map)
  then show "length rs = min n (card ids)" using arg_cong [OF m, of length] by simp
  show "\<forall>r \<in> set rs. ri_document_id r \<in> ids \<and> ri_score r = rrf w lexical vector (ri_document_id r)"
  proof
    fix r assume "r \<in> set rs"
    then have "?p r \<in> set (map ?p rs)" by simp
    then have "?p r \<in> set ?sc" unfolding m by (auto dest: in_set_takeD)
    with f(2,3) show "ri_document_id r \<in> ids \<and> ri_score r = rrf w lexical vector (ri_document_id r)" by force
  qed
  show "\<forall>d \<in> ids. d \<in> ri_document_id ` set rs \<or> (\<forall>r \<in> set rs. rrf w lexical vector d \<le> ri_score r)"
  proof (intro ballI disjCI)
    fix d r assume d: "d \<in> ids" and out: "\<not> (\<forall>r \<in> set rs. rrf w lexical vector d \<le> ri_score r)"
    then obtain r where r: "r \<in> set rs" "\<not> rrf w lexical vector d \<le> ri_score r" by blast
    have "d \<in> fst ` set ?sc" using d unfolding f(2) .
    then obtain v where v: "(d, v) \<in> set ?sc" by force
    have "?p r \<in> set (take n ?s)" unfolding m [symmetric] using r(1) by simp
    then have "(d, v) \<in> set (take n ?s)"
      using sorted_prefix [OF srt, of "?p r" n "(d, v)"] v f(3) [OF v] r(2) by auto
    then have "(d, v) \<in> set (map ?p rs)" unfolding m .
    then show "d \<in> ri_document_id ` set rs" by force
  qed
qed

subsection \<open>Where results come from\<close>

text \<open>
  A document the points of the tenant contain with an ACL the terms satisfy; a document the lexical or
  the vector engine gave when asked for the tenant and the terms.
\<close>

definition indexed_source :: "('v, 's) engines \<Rightarrow> string \<Rightarrow> string list \<Rightarrow> string \<Rightarrow> bool" where
  "indexed_source en tenant terms d \<longleftrightarrow>
     (\<exists>payload score xs a n. (payload, score) \<in> set xs \<and>
        (en_scroll en tenant n = Inr xs \<or> (\<exists>vec. en_points en tenant vec n = Inr xs)) \<and>
        payload_acl payload = Inr a \<and> document_is_visible terms a \<and>
        d = or_str [pget payload ''id'', pget payload ''document_id''])"

definition engine_source :: "('v, 's) engines \<Rightarrow> string \<Rightarrow> string list \<Rightarrow> string \<Rightarrow> bool" where
  "engine_source en tenant terms d \<longleftrightarrow>
     (\<exists>hits n. d \<in> ht_document_id ` set hits \<and>
        ((\<exists>search query. en_lexical en = Some (Some search) \<and> search tenant query terms n = Inr hits) \<or>
         (\<exists>search vec. en_vector en = Some search \<and> search tenant vec terms n = Inr hits)))"

lemma res_map_set: "res_map f xs = Inr ys \<Longrightarrow> y \<in> set ys \<Longrightarrow> \<exists>x \<in> set xs. f x = Inr y"
  by (induction xs arbitrary: ys) (auto simp: rbind_Inr_iff)

lemma indexed_hits:
  assumes "safe_call_indexed en q tenant terms sz shared = (hits, st)" "h \<in> set hits"
  shows "indexed_source en tenant terms (ht_document_id h)"
proof -
  let ?src = "if is_browse q then en_scroll en tenant (sz * 2)
    else rbind (embedded (en_embed en) q shared) (\<lambda>vec. en_points en tenant vec (sz * 2))"
  obtain hs where hs: "rbind ?src (res_map (visible_hit en terms)) = Inr hs" "hits = List.map_filter (\<lambda>h. h) hs"
    using assms by (cases "rbind ?src (res_map (visible_hit en terms))")
      (simp_all add: safe_call_indexed_def ok_status_def failed_status_def)
  obtain xs where src: "?src = Inr xs" and ys: "res_map (visible_hit en terms) xs = Inr hs" "Some h \<in> set hs"
    using hs assms(2) by (auto simp: rbind_Inr_iff List.map_filter_def)
  have xs: "en_scroll en tenant (sz * 2) = Inr xs \<or> (\<exists>vec. en_points en tenant vec (sz * 2) = Inr xs)"
    using src by (auto simp: rbind_Inr_iff split: if_splits)
  obtain payload score where p: "(payload, score) \<in> set xs" "visible_hit en terms (payload, score) = Inr (Some h)"
    using res_map_set [OF ys] by force
  then show ?thesis
    using xs unfolding indexed_source_def
    by (intro exI [of _ payload] exI [of _ score] exI [of _ xs])
      (auto simp: visible_hit_def rbind_Inr_iff payload_to_hit_def Let_def split: if_splits)
qed

lemma lexical_hits:
  assumes "safe_call_lexical en q tenant terms sz = (hits, st)" "h \<in> set hits"
  shows "engine_source en tenant terms (ht_document_id h)"
  using assms unfolding engine_source_def safe_call_lexical_def
  by (fastforce simp: ok_status_def failed_status_def split: option.splits sum.splits)

lemma vector_hits:
  assumes "safe_call_vector en q tenant terms sz shared = (hits, st)" "h \<in> set hits"
  shows "engine_source en tenant terms (ht_document_id h)"
proof -
  obtain search vec hs where s: "en_vector en = Some search" "search tenant vec terms (sz * 2) = Inr hs"
    and h: "hits = map enrich hs"
    using assms by (auto simp: safe_call_vector_def ok_status_def failed_status_def rbind_Inr_iff split: option.splits sum.splits)
  have "ht_document_id h \<in> ht_document_id ` set hs" using assms(2) h by (auto simp: enrich_def)
  with s show ?thesis unfolding engine_source_def by blast
qed

lemma backend_results:
  assumes "run_federated_backends en w q tenant terms sz use_l use_v = (rs, sts)"
  obtains lexical vector where "rs = merge_and_rank w lexical vector sz"
    "\<And>h. h \<in> set lexical \<union> set vector \<Longrightarrow>
       indexed_source en tenant terms (ht_document_id h) \<or> engine_source en tenant terms (ht_document_id h)"
proof -
  let ?sh = "query_embedding_for_search (en_embed en) q"
  obtain ih ist where i: "safe_call_indexed en q tenant terms sz ?sh = (ih, ist)" by fastforce
  obtain lh lst where l: "safe_call_lexical en q tenant terms sz = (lh, lst)" by fastforce
  obtain vh vst where v: "safe_call_vector en q tenant terms sz ?sh = (vh, vst)" by fastforce
  show thesis
  proof (rule that)
    show "rs = merge_and_rank w (ih @ (if use_l then lh else [])) (if use_v then vh else []) sz"
      using assms by (auto simp: run_federated_backends_def Let_def i l v)
    show "indexed_source en tenant terms (ht_document_id h) \<or> engine_source en tenant terms (ht_document_id h)"
      if "h \<in> set (ih @ (if use_l then lh else [])) \<union> set (if use_v then vh else [])" for h
      using that indexed_hits [OF i] lexical_hits [OF l] vector_hits [OF v] by (auto split: if_splits)
  qed
qed

lemma merge_ids: "r \<in> set (merge_and_rank w lexical vector n) \<Longrightarrow> ri_document_id r \<in> ht_document_id ` (set lexical \<union> set vector)"
proof -
  assume "r \<in> set (merge_and_rank w lexical vector n)"
  then have "(ri_document_id r, ri_score r) \<in> set (map (\<lambda>r. (ri_document_id r, ri_score r)) (merge_and_rank w lexical vector n))" by simp
  then have "(ri_document_id r, ri_score r) \<in> set (fst (fused w lexical vector))"
    unfolding merge_as_take by (auto dest: in_set_takeD)
  then have "ri_document_id r \<in> fst ` set (fst (fused w lexical vector))" by force
  then show ?thesis unfolding fused_scores(2) by blast
qed

lemma length_merge: "length (merge_and_rank w lexical vector n) \<le> n"
  using arg_cong [OF merge_as_take, of length w lexical vector n] by simp

text \<open>
  Property C21: a federated search answers only from what the caller may see. Every result is a point
  of the token's tenant whose own ACL the token's terms satisfy, checked by the handler, or was given
  by the lexical or vector engine when asked for exactly this tenant and these terms; a caller without
  terms gets nothing.
\<close>

theorem federated_results_are_authorised:
  assumes "federated_search en w body user = Inr resp" "r \<in> set (sr_results resp)"
    and "tenant = or_str [pget user ''tenant_id'']" "terms = acl_terms_from_jwt user"
  shows "(indexed_source en tenant terms (ri_document_id r) \<or> engine_source en tenant terms (ri_document_id r)) \<and>
    \<not> is_fail_closed terms"
proof -
  have open_: "\<not> is_fail_closed terms" using assms(1,2) unfolding assms(4) by (auto simp: federated_search_def Let_def split: if_splits)
  obtain merged sts where m: "run_federated_backends en w (sq_query body) (or_str [pget user ''tenant_id''])
      (acl_terms_from_jwt user) (sq_size body) (sq_enable_lexical body) (sq_enable_vector body) = (merged, sts)" by fastforce
  have "sr_results resp = take (sq_size body) (drop (sq_from body) merged)"
    using assms(1) open_ unfolding assms(4) by (auto simp: federated_search_def Let_def m split: if_splits)
  with assms(2) have r: "r \<in> set merged" by (metis in_set_takeD in_set_dropD)
  show ?thesis
  proof (rule backend_results [OF m])
    fix l v assume l: "merged = merge_and_rank w l v (sq_size body)"
      and h: "\<And>h. h \<in> set l \<union> set v \<Longrightarrow> indexed_source en (or_str [pget user ''tenant_id'']) (acl_terms_from_jwt user) (ht_document_id h) \<or>
        engine_source en (or_str [pget user ''tenant_id'']) (acl_terms_from_jwt user) (ht_document_id h)"
    obtain x where x: "x \<in> set l \<union> set v" "ri_document_id r = ht_document_id x" using merge_ids [OF r [unfolded l]] by blast
    show ?thesis using h [OF x(1)] open_ unfolding assms(3,4) x(2) by (rule conjI)
  qed
qed

text \<open>
  There is no second page. The merged list is cut to \<open>size\<close> before the page is taken
  from it, so a request that starts at \<open>size\<close> or later gets an empty page, and the total never exceeds
  \<open>size\<close>, whatever the backends found.
\<close>

theorem second_page_is_empty:
  assumes "federated_search en w body user = Inr resp" "sq_size body \<le> sq_from body"
  shows "sr_results resp = [] \<and> sr_total resp \<le> sq_size body"
proof -
  let ?t = "or_str [pget user ''tenant_id'']" and ?ts = "acl_terms_from_jwt user"
  obtain merged sts where m: "run_federated_backends en w (sq_query body) ?t ?ts (sq_size body)
      (sq_enable_lexical body) (sq_enable_vector body) = (merged, sts)" by fastforce
  then obtain l v where "merged = merge_and_rank w l v (sq_size body)" by (rule backend_results)
  then have "length merged \<le> sq_size body" by (simp add: length_merge)
  with assms m show ?thesis by (auto simp: federated_search_def Let_def split: if_splits)
qed

subsection \<open>A concrete search\<close>

definition demo_hit :: "string \<Rightarrow> int hit" where
  "demo_hit d = \<lparr>ht_document_id = d, ht_title = d, ht_snippet = ''text'', ht_score = 1, ht_sources = [],
     ht_from_email = [], ht_source_type = [], ht_metadata = []\<rparr>"

definition demo_point :: "string \<Rightarrow> string \<Rightarrow> pydict \<times> int" where
  "demo_point d term = ([(''id'', PStr d), (''content'', PStr ''<b>x</b><script>y</script> z''), (''permissions'', PList [PStr term])], 1)"

definition demo_engines :: "(int, int) engines" where
  "demo_engines = \<lparr>en_embed = (\<lambda>q. Inr [1]), en_unescape = (\<lambda>s. s),
     en_scroll = (\<lambda>t n. Inr []), en_points = (\<lambda>t v n. Inr [demo_point ''a'' ''user:u'', demo_point ''b'' ''user:w'']),
     en_lexical = Some (Some (\<lambda>t q ts n. Inr [demo_hit ''a'', demo_hit ''c''])),
     en_vector = Some (\<lambda>t v ts n. Inr [demo_hit ''c'', demo_hit ''c''])\<rparr>"

definition demo_weight :: "nat \<Rightarrow> int" where
  "demo_weight r = 1000 div (60 + int r)"

definition demo_search :: "nat \<Rightarrow> search_request" where
  "demo_search start = \<lparr>sq_query = ''q'', sq_tenant_id = [], sq_from = start, sq_size = 2, sq_enable_lexical = True, sq_enable_vector = True\<rparr>"

definition demo_caller :: pydict where
  "demo_caller = [(''sub'', PStr ''u''), (''tenant_id'', PStr ''t'')]"

definition demo_response :: "nat \<Rightarrow> int search_response" where
  "demo_response start = (case federated_search demo_engines demo_weight (demo_search start) demo_caller of
     Inr r \<Rightarrow> r | Inl _ \<Rightarrow> \<lparr>sr_results = [], sr_total = 0, sr_degraded = False, sr_backends = []\<rparr>)"

lemma demo_response_0: "federated_search demo_engines demo_weight (demo_search 0) demo_caller = Inr (demo_response 0)"
  by code_simp

lemma demo_response_2: "federated_search demo_engines demo_weight (demo_search 2) demo_caller = Inr (demo_response 2)"
  by code_simp

lemma demo_ids: "map ri_document_id (sr_results (demo_response 0)) = [''c'', ''a'']"
  by code_simp

lemma demo_total: "sr_total (demo_response 2) = 2"
  by code_simp

theorem federated_ranking_is_rrf_witness:
  "map ri_score (merge_and_rank demo_weight [demo_hit ''a'', demo_hit ''c''] [demo_hit ''c''] 1) = [32] \<and>
   length (merge_and_rank demo_weight [demo_hit ''a'', demo_hit ''c''] [demo_hit ''c''] 1) = min 1 (card {''a'', ''c''})"
proof
  show "map ri_score (merge_and_rank demo_weight [demo_hit ''a'', demo_hit ''c''] [demo_hit ''c''] 1) = [32]" by code_simp
  show "length (merge_and_rank demo_weight [demo_hit ''a'', demo_hit ''c''] [demo_hit ''c''] 1) = min 1 (card {''a'', ''c''})"
  proof -
    have ids: "{''a'', ''c''} = {d \<in> ht_document_id ` (set [demo_hit ''a'', demo_hit ''c''] \<union> set [demo_hit ''c'']). d \<noteq> []}"
      by (auto simp: demo_hit_def)
    show ?thesis using federated_ranking_is_rrf [OF refl ids, of demo_weight 1] by (elim conjE)
  qed
qed

theorem federated_results_are_authorised_witness:
  "map ri_document_id (sr_results (demo_response 0)) = [''c'', ''a''] \<and>
   (indexed_source demo_engines ''t'' (acl_terms_from_jwt demo_caller) ''a'' \<or>
    engine_source demo_engines ''t'' (acl_terms_from_jwt demo_caller) ''a'')"
proof -
  have "''a'' \<in> set (map ri_document_id (sr_results (demo_response 0)))" unfolding demo_ids by simp
  then obtain r where r: "r \<in> set (sr_results (demo_response 0))" "ri_document_id r = ''a''" by auto
  have t: "''t'' = or_str [pget demo_caller ''tenant_id'']" by code_simp
  from federated_results_are_authorised [OF demo_response_0 r(1) t refl] r(2) demo_ids show ?thesis by simp
qed

theorem second_page_is_empty_witness: "sr_results (demo_response 2) = [] \<and> sr_total (demo_response 2) = 2"
  using second_page_is_empty [OF demo_response_2] demo_total by (simp add: demo_search_def)

end
