(* ===== verification/Routing.thy ===== *)
theory Routing
  imports Uuids
begin

text \<open>
  Exceptions as the synchronisation code sees them, and the tenant resolver
  (\<open>backend/app/services/tenant_resolver.py\<close>): the routing of a tenant is looked up in a cache kept
  per tenant, then in the control-plane table, and the database password is fetched from the vault
  each time. The vault is a parameter, numbered by the call.
\<close>

subsection \<open>Exceptions with their class and message\<close>

text \<open>The class names an instance has, its own first, and \<open>str(exc)\<close>.\<close>

record py_error =
  pe_classes :: "string list"
  pe_text :: string

definition isa :: "py_error \<Rightarrow> string \<Rightarrow> bool" where
  "isa e c = (c \<in> set (pe_classes e))"

definition error_of :: "string list \<Rightarrow> string \<Rightarrow> py_error" where
  "error_of classes message = \<lparr>pe_classes = classes @ [''Exception''], pe_text = message\<rparr>"

lemma isa_error_of [simp]: "isa (error_of cs m) c \<longleftrightarrow> c \<in> set cs \<or> c = ''Exception''"
  by (auto simp: isa_def error_of_def)

lemma pe_text_error_of [simp]: "pe_text (error_of cs m) = m"
  by (simp add: error_of_def)

definition unauthorized_error :: "string \<Rightarrow> py_error" where
  "unauthorized_error message = error_of [''UnauthorizedError'', ''SnyQException''] message"

definition tenant_not_found :: "string \<Rightarrow> py_error" where
  "tenant_not_found tenant_id =
     error_of [''TenantNotFoundError'', ''SnyQException''] (''Tenant not found: '' @ tenant_id)"

definition vault_error :: "string \<Rightarrow> py_error" where
  "vault_error message = error_of [''VaultError'', ''SnyQException''] (''Vault error: '' @ message)"

definition bad_uuid :: py_error where
  "bad_uuid = error_of [''ValueError''] ''badly formed hexadecimal UUID string''"

definition error_of_exn :: "exn \<Rightarrow> py_error" where
  "error_of_exn e = (case e of
      Raised c \<Rightarrow> error_of [c] []
    | HTTPException code detail \<Rightarrow> error_of [''HTTPException''] (nat_str code @ '': '' @ detail))"

subsection \<open>Tenant routing\<close>

record tenant_row =
  tn_db_host :: string
  tn_db_name :: string
  tn_db_user :: string
  tn_db_secret_key :: string
  tn_config :: pydict

record tenant_routing =
  tr_tenant_id :: string
  tr_db_host :: string
  tr_db_name :: string
  tr_db_user :: string
  tr_db_password :: string
  tr_config :: pydict

text \<open>What is cached under \<open>tenant:{tenant_id}:routing\<close>: the names, and the key of the secret.\<close>

record cached_routing =
  cr_tenant_id :: string
  cr_db_host :: string
  cr_db_name :: string
  cr_db_user :: string
  cr_db_secret_key :: string
  cr_config :: pydict

record routing_state =
  rs_cache :: "(string, cached_routing) dict"
  rs_tenants :: "(uuid, tenant_row) dict"

type_synonym vault = "nat \<Rightarrow> string \<Rightarrow> py_error + string"

definition routing_of_cached :: "cached_routing \<Rightarrow> string \<Rightarrow> tenant_routing" where
  "routing_of_cached c password =
     \<lparr>tr_tenant_id = cr_tenant_id c, tr_db_host = cr_db_host c, tr_db_name = cr_db_name c,
      tr_db_user = cr_db_user c, tr_db_password = password, tr_config = cr_config c\<rparr>"

definition cached_of_row :: "uuid \<Rightarrow> tenant_row \<Rightarrow> cached_routing" where
  "cached_of_row t row =
     \<lparr>cr_tenant_id = uuid_str t, cr_db_host = tn_db_host row, cr_db_name = tn_db_name row,
      cr_db_user = tn_db_user row, cr_db_secret_key = tn_db_secret_key row, cr_config = tn_config row\<rparr>"

text \<open>Step 1: a cached entry counts when the vault still answers for its key; a failure is passed over.\<close>

definition resolve_cached :: "vault \<Rightarrow> nat \<Rightarrow> string \<Rightarrow> routing_state \<Rightarrow> tenant_routing option" where
  "resolve_cached vault tick tenant_id s =
     (case map_of (rs_cache s) tenant_id of
        None \<Rightarrow> None
      | Some c \<Rightarrow>
          if cr_db_secret_key c = [] then None
          else (case vault tick (cr_db_secret_key c) of
                  Inl _ \<Rightarrow> None
                | Inr password \<Rightarrow> Some (routing_of_cached c password)))"

text \<open>Steps 2 to 5.\<close>

definition resolve_routing ::
    "vault \<Rightarrow> nat \<Rightarrow> string \<Rightarrow> routing_state \<Rightarrow> (py_error + tenant_routing) \<times> routing_state" where
  "resolve_routing vault tick tenant_id s =
     (case resolve_cached vault tick tenant_id s of
        Some routing \<Rightarrow> (Inr routing, s)
      | None \<Rightarrow>
          (case parse_uuid tenant_id of
             None \<Rightarrow> (Inl bad_uuid, s)
           | Some t \<Rightarrow>
               (case map_of (rs_tenants s) t of
                  None \<Rightarrow> (Inl (tenant_not_found tenant_id), s)
                | Some row \<Rightarrow>
                    (case vault (Suc tick) (tn_db_secret_key row) of
                       Inl e \<Rightarrow> (Inl (vault_error (''Failed to retrieve secret for tenant '' @ tenant_id @ '': '' @ pe_text e)), s)
                     | Inr password \<Rightarrow>
                         (Inr (routing_of_cached (cached_of_row t row) password),
                          s\<lparr>rs_cache := AList.update tenant_id (cached_of_row t row) (rs_cache s)\<rparr>)))))"

definition invalidate_routing :: "string \<Rightarrow> routing_state \<Rightarrow> routing_state" where
  "invalidate_routing tenant_id s = s\<lparr>rs_cache := AList.delete tenant_id (rs_cache s)\<rparr>"

text \<open>
  What the cache may hold: for each tenant the names of its own row. Nothing in the code
  invalidates it when the row changes, so this is an invariant of \<open>resolve\<close> on a fixed table only.
\<close>

definition routing_coherent :: "routing_state \<Rightarrow> bool" where
  "routing_coherent s \<longleftrightarrow> (\<forall>tenant_id c. map_of (rs_cache s) tenant_id = Some c \<longrightarrow>
     (\<exists>t row. parse_uuid tenant_id = Some t \<and> map_of (rs_tenants s) t = Some row \<and> c = cached_of_row t row))"

lemma routing_coherentD:
  assumes "routing_coherent s" "map_of (rs_cache s) tenant_id = Some c"
  obtains t row where "parse_uuid tenant_id = Some t" "map_of (rs_tenants s) t = Some row" "c = cached_of_row t row"
  using assms unfolding routing_coherent_def by blast

lemma resolve_cached_row:
  assumes "routing_coherent s" "resolve_cached v n tenant_id s = Some r"
  obtains t row password where "parse_uuid tenant_id = Some t" "map_of (rs_tenants s) t = Some row"
    "r = routing_of_cached (cached_of_row t row) password" "v n (tn_db_secret_key row) = Inr password"
proof -
  from assms(2) obtain c password where c: "map_of (rs_cache s) tenant_id = Some c"
      and p: "v n (cr_db_secret_key c) = Inr password" "r = routing_of_cached c password"
    unfolding resolve_cached_def by (auto split: option.splits if_splits sum.splits)
  obtain t row where t: "parse_uuid tenant_id = Some t" "map_of (rs_tenants s) t = Some row" and "c = cached_of_row t row"
    using assms(1) c by (rule routing_coherentD)
  with p have "r = routing_of_cached (cached_of_row t row) password" "v n (tn_db_secret_key row) = Inr password"
    by (simp_all add: cached_of_row_def)
  with t show ?thesis by (rule that)
qed

lemma resolve_routing_cases:
  assumes "routing_coherent s" "resolve_routing v n tenant_id s = (Inr r, s')"
  obtains t row password k where "parse_uuid tenant_id = Some t" "map_of (rs_tenants s) t = Some row"
    "r = routing_of_cached (cached_of_row t row) password" "v k (tn_db_secret_key row) = Inr password"
    "s' = s \<or> s' = s\<lparr>rs_cache := AList.update tenant_id (cached_of_row t row) (rs_cache s)\<rparr>"
proof (cases "resolve_cached v n tenant_id s")
  case (Some r')
  with assms(2) have r: "resolve_cached v n tenant_id s = Some r" "s' = s" unfolding resolve_routing_def by simp_all
  obtain t row password where "parse_uuid tenant_id = Some t" "map_of (rs_tenants s) t = Some row"
    "r = routing_of_cached (cached_of_row t row) password" "v n (tn_db_secret_key row) = Inr password"
    using assms(1) r(1) by (rule resolve_cached_row)
  then show ?thesis using that r(2) by blast
next
  case None
  with assms(2) show ?thesis
    using that unfolding resolve_routing_def by (auto split: option.splits sum.splits)
qed

lemma resolve_routing_coherent:
  assumes "routing_coherent s" "resolve_routing v n tenant_id s = (res, s')"
  shows "routing_coherent s'"
proof (cases res)
  case (Inl e)
  with assms(2) have "s' = s"
    unfolding resolve_routing_def by (auto split: option.splits sum.splits)
  with assms(1) show ?thesis by simp
next
  case (Inr r)
  note run = assms(2) [unfolded Inr]
  obtain t row password k where "parse_uuid tenant_id = Some t" "map_of (rs_tenants s) t = Some row"
    and "s' = s \<or> s' = s\<lparr>rs_cache := AList.update tenant_id (cached_of_row t row) (rs_cache s)\<rparr>"
    using assms(1) run by (rule resolve_routing_cases)
  then show ?thesis using assms(1) unfolding routing_coherent_def by (auto simp: update_conv' split: if_splits)
qed

end
