(* ===== verification/Sync_Stores.thy ===== *)
theory Sync_Stores
  imports Routing
begin

text \<open>
  The two stores a crawl reports to: the resume cursors and watch channels per tenant and source
  (\<open>backend/app/services/cursor_store.py\<close>, one row per key pair), and the connector status in Redis
  (\<open>backend/app/connectors/google/status_store.py\<close>). The JSON of a status is kept as a record;
  whether Redis can be reached is a field of the store.
\<close>

subsection \<open>The cursor store\<close>

record cursor_row =
  sc_cursor :: "string option"
  sc_watch_data :: "pydict option"
  sc_watch_expiration :: "int option"
  sc_last_sync_at :: "instant option"

type_synonym cursor_table = "(string \<times> string, cursor_row) dict"

definition blank_cursor_row :: cursor_row where
  "blank_cursor_row = \<lparr>sc_cursor = None, sc_watch_data = None, sc_watch_expiration = None, sc_last_sync_at = None\<rparr>"

text \<open>\<open>cursor or None\<close>\<close>

definition some_cursor :: "string \<Rightarrow> string option" where
  "some_cursor c = (if c = [] then None else Some c)"

definition get_cursor_and_watch :: "string \<Rightarrow> string \<Rightarrow> cursor_table \<Rightarrow> string option \<times> pydict option" where
  "get_cursor_and_watch tenant_id source_type t =
     (case map_of t (tenant_id, source_type) of
        None \<Rightarrow> (None, None) | Some r \<Rightarrow> (sc_cursor r, sc_watch_data r))"

definition get_cursor :: "string \<Rightarrow> string \<Rightarrow> cursor_table \<Rightarrow> string option" where
  "get_cursor tenant_id source_type t = fst (get_cursor_and_watch tenant_id source_type t)"

definition update_cursor :: "string \<Rightarrow> string \<Rightarrow> string \<Rightarrow> instant \<Rightarrow> cursor_table \<Rightarrow> cursor_table" where
  "update_cursor tenant_id source_type cursor now t =
     (let r = (case map_of t (tenant_id, source_type) of None \<Rightarrow> blank_cursor_row | Some r \<Rightarrow> r)
      in AList.update (tenant_id, source_type)
           (r\<lparr>sc_cursor := some_cursor cursor, sc_last_sync_at := Some now\<rparr>) t)"

text \<open>\<open>int(expiration_val)\<close>, zero for what does not parse; zero is stored as NULL.\<close>

definition expiration_of :: "pydict \<Rightarrow> int option" where
  "expiration_of watch_data =
     (let v = (if watch_data = [] then PInt 0 else dict_get watch_data ''expiration'' (PInt 0));
          ms = (if truthy v then (case py_int v of Some n \<Rightarrow> n | None \<Rightarrow> 0) else 0)
      in if ms = 0 then None else Some ms)"

definition some_watch :: "pydict \<Rightarrow> pydict option" where
  "some_watch w = (if w = [] then None else Some w)"

definition set_watch_info :: "string \<Rightarrow> string \<Rightarrow> pydict \<Rightarrow> cursor_table \<Rightarrow> cursor_table" where
  "set_watch_info tenant_id source_type watch_data t =
     (case map_of t (tenant_id, source_type) of
        Some r \<Rightarrow> AList.update (tenant_id, source_type)
          (r\<lparr>sc_watch_data := some_watch watch_data, sc_watch_expiration := expiration_of watch_data\<rparr>) t
      | None \<Rightarrow>
          if watch_data = [] then t
          else AList.update (tenant_id, source_type)
            (blank_cursor_row\<lparr>sc_watch_data := Some watch_data, sc_watch_expiration := expiration_of watch_data\<rparr>) t)"

definition clear_watch_info :: "string \<Rightarrow> string \<Rightarrow> cursor_table \<Rightarrow> cursor_table" where
  "clear_watch_info tenant_id source_type t =
     (case map_of t (tenant_id, source_type) of
        None \<Rightarrow> t
      | Some r \<Rightarrow> AList.update (tenant_id, source_type) (r\<lparr>sc_watch_data := None, sc_watch_expiration := None\<rparr>) t)"

definition get_watch_info :: "string \<Rightarrow> string \<Rightarrow> cursor_table \<Rightarrow> pydict option" where
  "get_watch_info tenant_id source_type t =
     (case map_of t (tenant_id, source_type) of None \<Rightarrow> None | Some r \<Rightarrow> sc_watch_data r)"

record watch_found =
  wf_tenant_id :: string
  wf_source_type :: string
  wf_watch_data :: "pydict option"

definition found_of :: "(string \<times> string) \<times> cursor_row \<Rightarrow> watch_found" where
  "found_of kr = (case kr of ((tenant_id, source_type), r) \<Rightarrow>
     \<lparr>wf_tenant_id = tenant_id, wf_source_type = source_type, wf_watch_data = sc_watch_data r\<rparr>)"

definition watches_channel :: "string \<Rightarrow> string \<Rightarrow> cursor_row \<Rightarrow> bool" where
  "watches_channel channel_id resource_id r =
     (case sc_watch_data r of
        None \<Rightarrow> False
      | Some w \<Rightarrow> w \<noteq> [] \<and> pget w ''channel_id'' = PStr channel_id \<and> pget w ''resource_id'' = PStr resource_id)"

definition get_watch_by_channel :: "string \<Rightarrow> string \<Rightarrow> cursor_table \<Rightarrow> watch_found option" where
  "get_watch_by_channel channel_id resource_id t =
     map_option found_of (find (\<lambda>(_, r). watches_channel channel_id resource_id r) t)"

text \<open>\<open>scalar_one_or_none\<close> raises when more than one row comes back; the address is not looked at.\<close>

definition get_watch_by_email :: "string \<Rightarrow> string \<Rightarrow> cursor_table \<Rightarrow> py_error + watch_found option" where
  "get_watch_by_email email_address source_type t =
     (case filter (\<lambda>((_, src), _). src = source_type) t of
        [] \<Rightarrow> Inr None
      | [kr] \<Rightarrow> Inr (Some (found_of kr))
      | _ \<Rightarrow> Inl (error_of [''MultipleResultsFound''] ''Multiple rows were found when one or none was required''))"

definition list_tenants_with_cursor :: "string \<Rightarrow> cursor_table \<Rightarrow> string list" where
  "list_tenants_with_cursor source_type t =
     map (\<lambda>((tenant_id, _), _). tenant_id)
       (filter (\<lambda>((_, src), r). src = source_type \<and> sc_cursor r \<noteq> None \<and> sc_cursor r \<noteq> Some []) t)"

definition get_expiring_watches :: "int \<Rightarrow> instant \<Rightarrow> cursor_table \<Rightarrow> watch_found list" where
  "get_expiring_watches hours now t =
     map found_of (filter (\<lambda>(_, r). case sc_watch_expiration r of
         None \<Rightarrow> False | Some ms \<Rightarrow> ms \<le> (now + hours * 3600) * 1000) t)"

lemma get_cursor_update [simp]:
  "get_cursor tenant_id source_type (update_cursor tenant_id' source_type' c now t) =
     (if tenant_id = tenant_id' \<and> source_type = source_type' then some_cursor c
      else get_cursor tenant_id source_type t)"
  by (auto simp: get_cursor_def get_cursor_and_watch_def update_cursor_def Let_def map_of_update)

lemma get_cursor_watch [simp]:
  "get_cursor tenant_id source_type (set_watch_info tenant_id' source_type' w t) = get_cursor tenant_id source_type t"
  "get_cursor tenant_id source_type (clear_watch_info tenant_id' source_type' t) = get_cursor tenant_id source_type t"
  by (auto simp: get_cursor_def get_cursor_and_watch_def set_watch_info_def clear_watch_info_def
      blank_cursor_row_def map_of_update split: option.splits)

text \<open>
  The poll fallback lists a tenant exactly when its cursor is set: an empty cursor, which a reset
  stores, takes it off the list.
\<close>

lemma listed_iff_cursor:
  assumes "dict_wf t"
  shows "tenant_id \<in> set (list_tenants_with_cursor source_type t) \<longleftrightarrow>
    (\<exists>c. get_cursor tenant_id source_type t = Some c \<and> c \<noteq> [])"
proof
  assume "tenant_id \<in> set (list_tenants_with_cursor source_type t)"
  then obtain r where r: "((tenant_id, source_type), r) \<in> set t" "sc_cursor r \<noteq> None" "sc_cursor r \<noteq> Some []"
    unfolding list_tenants_with_cursor_def by auto
  from assms r(1) have "map_of t (tenant_id, source_type) = Some r" by (simp add: in_set_dict_iff)
  with r(2,3) show "\<exists>c. get_cursor tenant_id source_type t = Some c \<and> c \<noteq> []"
    unfolding get_cursor_def get_cursor_and_watch_def by auto
next
  assume "\<exists>c. get_cursor tenant_id source_type t = Some c \<and> c \<noteq> []"
  then obtain r where "map_of t (tenant_id, source_type) = Some r" and c: "sc_cursor r \<noteq> None" "sc_cursor r \<noteq> Some []"
    unfolding get_cursor_def get_cursor_and_watch_def by (auto split: option.splits)
  then have "((tenant_id, source_type), r) \<in> set t" by (auto dest: map_of_SomeD)
  with c show "tenant_id \<in> set (list_tenants_with_cursor source_type t)"
    unfolding list_tenants_with_cursor_def by (force intro: rev_image_eqI)
qed

lemma watch_by_email_ambiguous:
  assumes "map_of t (t1, source_type) \<noteq> None" "map_of t (t2, source_type) \<noteq> None" "t1 \<noteq> t2"
  obtains e where "get_watch_by_email email_address source_type t = Inl e" "isa e ''MultipleResultsFound''"
proof -
  let ?rows = "filter (\<lambda>((_, src), _). src = source_type) t"
  obtain r1 r2 where r: "((t1, source_type), r1) \<in> set ?rows" "((t2, source_type), r2) \<in> set ?rows"
    using assms(1,2) by (auto dest!: map_of_SomeD)
  then obtain a b rest where "?rows = a # b # rest"
    using assms(3) by (cases ?rows; cases "tl ?rows") auto
  then show ?thesis using that unfolding get_watch_by_email_def by simp
qed

subsection \<open>The connector status\<close>

record connector_status =
  cs_connection_status :: string
  cs_files_indexed :: int
  cs_last_sync_at :: "instant option"
  cs_last_error :: "string option"

record status_store =
  ss_client :: bool      \<comment> \<open>Redis can be reached\<close>
  ss_values :: "(string, connector_status) dict"

definition status_key :: "string \<Rightarrow> string \<Rightarrow> string \<Rightarrow> string" where
  "status_key tenant_id source_type user_id =
     (let uid = str_strip user_id in
      if uid \<noteq> [] then ''connector_status:'' @ tenant_id @ '':'' @ uid @ '':'' @ source_type
      else ''connector_status:'' @ tenant_id @ '':'' @ source_type)"

definition not_connected :: connector_status where
  "not_connected = \<lparr>cs_connection_status = ''not_connected'', cs_files_indexed = 0,
     cs_last_sync_at = None, cs_last_error = None\<rparr>"

definition get_status_raw :: "string \<Rightarrow> string \<Rightarrow> string \<Rightarrow> status_store \<Rightarrow> connector_status option" where
  "get_status_raw tenant_id source_type user_id s =
     (if ss_client s then map_of (ss_values s) (status_key tenant_id source_type user_id) else None)"

definition get_status :: "string \<Rightarrow> string \<Rightarrow> string \<Rightarrow> status_store \<Rightarrow> connector_status" where
  "get_status tenant_id source_type user_id s =
     (case get_status_raw tenant_id source_type user_id s of Some d \<Rightarrow> d | None \<Rightarrow> not_connected)"

definition is_disconnected :: "string \<Rightarrow> string \<Rightarrow> string \<Rightarrow> status_store \<Rightarrow> bool" where
  "is_disconnected tenant_id source_type user_id s =
     (case get_status_raw tenant_id source_type user_id s of
        None \<Rightarrow> False | Some d \<Rightarrow> cs_connection_status d = ''not_connected'')"

definition put_status :: "string \<Rightarrow> connector_status \<Rightarrow> status_store \<Rightarrow> status_store" where
  "put_status key d s = (if ss_client s then s\<lparr>ss_values := AList.update key d (ss_values s)\<rparr> else s)"

definition clear_status :: "string \<Rightarrow> string \<Rightarrow> string \<Rightarrow> status_store \<Rightarrow> connector_status \<times> status_store" where
  "clear_status tenant_id source_type user_id s =
     (not_connected, put_status (status_key tenant_id source_type user_id) not_connected s)"

record status_update =
  su_connection_status :: "string option"
  su_files_indexed :: "int option"
  su_last_error :: "string option"
  su_increment :: int
  su_force :: bool

definition apply_status :: "status_update \<Rightarrow> instant \<Rightarrow> connector_status \<Rightarrow> connector_status" where
  "apply_status u now d =
     (let d = (case su_connection_status u of
                 None \<Rightarrow> d | Some c \<Rightarrow> if c = [] then d else d\<lparr>cs_connection_status := c\<rparr>);
          d = (case su_files_indexed u of
                 Some n \<Rightarrow> d\<lparr>cs_files_indexed := n\<rparr>
               | None \<Rightarrow> if su_increment u \<noteq> 0 then d\<lparr>cs_files_indexed := cs_files_indexed d + su_increment u\<rparr> else d);
          d = (case su_last_error u of None \<Rightarrow> d | Some e \<Rightarrow> d\<lparr>cs_last_error := Some e\<rparr>)
      in if su_connection_status u \<in> {Some ''active'', Some ''error'', Some ''needs_reauth''}
         then d\<lparr>cs_last_sync_at := Some now\<rparr> else d)"

text \<open>Without \<open>force\<close> nothing but a disconnect overwrites a disconnect.\<close>

definition set_status ::
    "string \<Rightarrow> string \<Rightarrow> string \<Rightarrow> status_update \<Rightarrow> instant \<Rightarrow> status_store \<Rightarrow> connector_status \<times> status_store" where
  "set_status tenant_id source_type user_id u now s =
     (if \<not> su_force u \<and> is_disconnected tenant_id source_type user_id s \<and>
         su_connection_status u \<noteq> Some ''not_connected''
      then (get_status tenant_id source_type user_id s, s)
      else let d = apply_status u now (get_status tenant_id source_type user_id s)
           in (d, put_status (status_key tenant_id source_type user_id) d s))"

definition status_change :: "string \<Rightarrow> status_update" where
  "status_change c = \<lparr>su_connection_status = Some c, su_files_indexed = None, su_last_error = None,
     su_increment = 0, su_force = False\<rparr>"

lemma put_status_client [simp]: "ss_client (put_status k d s) = ss_client s"
  by (simp add: put_status_def)

lemma is_disconnected_put:
  "is_disconnected tenant_id source_type user_id (put_status k d s) =
     (if ss_client s \<and> k = status_key tenant_id source_type user_id then cs_connection_status d = ''not_connected''
      else is_disconnected tenant_id source_type user_id s)"
  by (auto simp: is_disconnected_def get_status_raw_def put_status_def map_of_update split: if_splits)

lemma clear_status_disconnects:
  assumes "ss_client s"
  shows "is_disconnected tenant_id source_type user_id (snd (clear_status tenant_id source_type user_id s))"
  using assms by (simp add: clear_status_def is_disconnected_put not_connected_def)

text \<open>An update that names no status keeps the status, so a disconnect survives every unforced update of any key.\<close>

lemma set_status_keeps_disconnect:
  assumes "is_disconnected tenant_id source_type user_id s" "\<not> su_force u"
  shows "is_disconnected tenant_id source_type user_id (snd (set_status t' src' u' u now s))"
proof (cases "status_key t' src' u' = status_key tenant_id source_type user_id")
  case True
  then have same: "get_status_raw t' src' u' s = get_status_raw tenant_id source_type user_id s"
    by (simp add: get_status_raw_def)
  with assms(1) have "is_disconnected t' src' u' s" by (simp add: is_disconnected_def)
  then show ?thesis
    using assms unfolding set_status_def
    by (auto simp: Let_def is_disconnected_put apply_status_def split: option.splits)
next
  case False
  then show ?thesis using assms(1) by (simp add: set_status_def Let_def is_disconnected_put)
qed

end
