(* ===== verification/Bridge.thy ===== *)
theory Bridge
  imports Indexer Sync_Stores
begin

text \<open>
  The bridge from connector objects into the pipeline
  (\<open>backend/app/connectors/google/pipeline_bridge.py\<close>): a batch is compiled object by object, on the
  tenant's Postgres when the resolver routes it and on one process-wide in-memory repository
  otherwise. In memory no step suspends, so the gathered coroutines run one after another; the
  routed run, whose interleaving the event loop decides, is a parameter that gives the document of
  each object in order, or nothing for one that failed.
\<close>

record sync_env =
  se_index :: index_settings
  se_pipe :: environment
  se_now :: "nat \<Rightarrow> instant"            \<comment> \<open>the clock, by the number of calls made so far\<close>
  se_vault :: vault
  se_routed :: "nat \<Rightarrow> tenant_routing \<Rightarrow> string \<Rightarrow> pydict list \<Rightarrow> sqldb \<Rightarrow> unified_document option list \<times> sqldb"

record sync_state =
  sy_index :: index_state
  sy_world :: world            \<comment> \<open>the in-memory pipeline and its repository\<close>
  sy_routing :: routing_state
  sy_cursors :: cursor_table
  sy_status :: status_store
  sy_tick :: nat

subsection \<open>One batch\<close>

text \<open>An object whose compilation raises is logged and counted; its document is \<open>None\<close>.\<close>

definition process_one :: "environment \<Rightarrow> string \<Rightarrow> uuid \<Rightarrow> instant \<Rightarrow> pydict \<Rightarrow> world \<Rightarrow> unified_document option \<times> world" where
  "process_one env source_type tenant_uuid now raw w =
     (case process_raw env raw source_type tenant_uuid now w of
        (Inr res, w) \<Rightarrow> (Some (pl_unified res), w)
      | (Inl _, w) \<Rightarrow> (None, w))"

fun gather_memory :: "sync_env \<Rightarrow> string \<Rightarrow> uuid \<Rightarrow> nat \<Rightarrow> pydict list \<Rightarrow> world \<Rightarrow> unified_document option list \<times> world" where
  "gather_memory env source_type tenant_uuid tick [] w = ([], w)"
| "gather_memory env source_type tenant_uuid tick (raw # raws) w =
     (let (r, w) = process_one (se_pipe env) source_type tenant_uuid (se_now env tick) raw w;
          (rs, w) = gather_memory env source_type tenant_uuid (Suc tick) raws w
      in (r # rs, w))"

text \<open>What \<open>_run_pipeline\<close> makes of the results: the documents there are, \<open>None\<close> when there is none.\<close>

definition unified_of :: "unified_document option list \<Rightarrow> unified_document list option" where
  "unified_of results = (case List.map_filter (\<lambda>r. r) results of [] \<Rightarrow> None | u # us \<Rightarrow> Some (u # us))"

text \<open>\<open>tenant_id:user_id\<close> is cut to its first part when there are exactly two.\<close>

definition base_tenant :: "string \<Rightarrow> string" where
  "base_tenant tenant_id = (case split_on (CHR '':'') tenant_id of [t, _] \<Rightarrow> t | _ \<Rightarrow> tenant_id)"

definition routed_batch ::
    "sync_env \<Rightarrow> tenant_routing \<Rightarrow> pydict list \<Rightarrow> string \<Rightarrow> sync_state \<Rightarrow> unified_document list option \<times> sync_state" where
  "routed_batch env routing raws source_type s =
     (let (results, db) = se_routed env (sy_tick s) routing source_type raws (ix_db (sy_index s))
      in (unified_of results,
          s\<lparr>sy_index := (sy_index s)\<lparr>ix_db := db\<rparr>, sy_tick := sy_tick s + length raws\<rparr>))"

definition memory_batch ::
    "sync_env \<Rightarrow> uuid \<Rightarrow> pydict list \<Rightarrow> string \<Rightarrow> sync_state \<Rightarrow> unified_document list option \<times> sync_state" where
  "memory_batch env tenant_uuid raws source_type s =
     (let (results, w) = gather_memory env source_type tenant_uuid (sy_tick s) raws (sy_world s)
      in (unified_of results, s\<lparr>sy_world := w, sy_tick := sy_tick s + length raws\<rparr>))"

definition route_batch :: "sync_env \<Rightarrow> string \<Rightarrow> sync_state \<Rightarrow> (py_error + tenant_routing) \<times> sync_state" where
  "route_batch env base s =
     (let (r, rs) = resolve_routing (se_vault env) (sy_tick s) base (sy_routing s)
      in (r, s\<lparr>sy_routing := rs, sy_tick := sy_tick s + 2\<rparr>))"

definition process_raw_batch ::
    "sync_env \<Rightarrow> pydict list \<Rightarrow> string \<Rightarrow> string \<Rightarrow> bool \<Rightarrow> sync_state \<Rightarrow>
     (py_error + unified_document list option) \<times> sync_state" where
  "process_raw_batch env raws source_type tenant_id require_postgres s =
     (if raws = [] then (Inr (Some []), s)
      else (case parse_uuid (base_tenant tenant_id) of
              None \<Rightarrow> (if require_postgres then Inl bad_uuid else Inr None, s)
            | Some tenant_uuid \<Rightarrow>
                (case route_batch env (base_tenant tenant_id) s of
                   (Inr routing, s) \<Rightarrow>
                     (let (docs, s) = routed_batch env routing raws source_type s in (Inr docs, s))
                 | (Inl e, s) \<Rightarrow>
                     if require_postgres then (Inl e, s)
                     else (let (docs, s) = memory_batch env tenant_uuid raws source_type s in (Inr docs, s)))))"

subsection \<open>What a batch can return\<close>

text \<open>
  Without \<open>require_postgres\<close> no routing failure leaves the batch: it returns documents or \<open>None\<close>.
  With it, no document is compiled anywhere but in the tenant's database.
\<close>

lemma batch_not_required: "\<exists>docs. fst (process_raw_batch env raws src t False s) = Inr docs"
  by (simp add: process_raw_batch_def split: option.split prod.split sum.split)

lemma batch_required_world: "sy_world (snd (process_raw_batch env raws src t True s)) = sy_world s"
  by (simp add: process_raw_batch_def route_batch_def routed_batch_def Let_def split: option.split prod.split sum.split)

lemma route_batch_frame:
  assumes "route_batch env base s = (r, s')"
  shows "sy_index s' = sy_index s" "sy_world s' = sy_world s" "sy_cursors s' = sy_cursors s" "sy_status s' = sy_status s"
  using assms by (auto simp: route_batch_def Let_def split: prod.splits)

lemma batch_frame:
  assumes "process_raw_batch env raws src t req s = (r, s')"
  shows "sy_cursors s' = sy_cursors s" "sy_status s' = sy_status s"
    "ix_documents (sy_index s') = ix_documents (sy_index s)" "ix_vectors (sy_index s') = ix_vectors (sy_index s)"
    "ix_lexical (sy_index s') = ix_lexical (sy_index s)"
  using assms
  by (auto simp: process_raw_batch_def routed_batch_def memory_batch_def Let_def
      dest: route_batch_frame split: if_splits option.splits prod.splits sum.splits)

lemma length_gather: "length (fst (gather_memory env src tid n raws w)) = length raws"
  by (induction raws arbitrary: n w) (simp_all add: Let_def split_beta)

lemma unified_of_Some_iff: "unified_of rs = Some us \<longleftrightarrow> us = List.map_filter (\<lambda>r. r) rs \<and> us \<noteq> []"
  by (auto simp: unified_of_def split: list.split)

lemma map_filter_length: "length (List.map_filter (\<lambda>r. r) rs) = length (filter (\<lambda>r. r \<noteq> None) rs)"
  by (induction rs) (auto simp: List.map_filter_def)

lemma unified_of_length: "unified_of rs = Some us \<Longrightarrow> length us = length (filter (\<lambda>r. r \<noteq> None) rs)"
  by (simp add: unified_of_Some_iff map_filter_length)

end
