(* ===== verification/Sync.thy ===== *)
theory Sync
  imports Bridge "HOL-Library.While_Combinator"
begin

text \<open>
  The sync orchestrator (\<open>backend/app/services/sync.py\<close>): a pass over the deletions and a pass over
  the delta pages with a checkpoint after each page. A connector is what the base class promises
  (\<open>backend/app/core/base_connector.py\<close>): three calls, numbered by the calls made so far, that answer
  or raise. Each pass is a loop with no bound of its own, run by \<open>while_option\<close>: a run that never
  ends is \<open>None\<close>.
\<close>

subsection \<open>Connectors\<close>

record delta_result =
  dr_documents :: "pydict list"
  dr_next_cursor :: "string option"
  dr_has_more :: bool

record deletion_result =
  xr_deleted_ids :: "string list"
  xr_next_cursor :: "string option"
  xr_has_more :: bool

record connector =
  cn_source_type :: string
  cn_fetch_deleted_ids :: "nat \<Rightarrow> string option \<Rightarrow> py_error + deletion_result"
  cn_fetch_delta :: "nat \<Rightarrow> string option \<Rightarrow> py_error + delta_result"
  cn_transform :: "nat \<Rightarrow> pydict list \<Rightarrow> py_error + unified_document list"

text \<open>A cursor counts when it is a non-empty string.\<close>

definition cursor_set :: "string option \<Rightarrow> bool" where
  "cursor_set c = (c \<noteq> None \<and> c \<noteq> Some [])"

lemma cursor_set_simps [simp]: "\<not> cursor_set None" "cursor_set (Some c) \<longleftrightarrow> c \<noteq> []"
  by (simp_all add: cursor_set_def)

lemma cursor_setE:
  assumes "cursor_set c" obtains t where "c = Some t" "t \<noteq> []"
  using assms by (cases c) simp_all

subsection \<open>Failures that stop a crawl\<close>

definition is_tenant_routing_failure :: "py_error \<Rightarrow> bool" where
  "is_tenant_routing_failure e =
     (if isa e ''TenantNotFoundError'' \<or> isa e ''VaultError'' then True
      else if isa e ''ValueError'' then
        contains ''uuid'' (str_lower (pe_text e)) \<or> contains ''badly formed hexadecimal'' (str_lower (pe_text e))
      else if isa e ''TypeError'' then contains ''uuid'' (str_lower (pe_text e))
      else if isa e ''RuntimeError'' then
        contains ''webhook ACL compile aborted'' (pe_text e) \<or> contains ''postgres routing unavailable'' (pe_text e) \<or>
        contains ''tenant session was not opened'' (pe_text e)
      else False)"

definition is_stale_cursor :: "py_error \<Rightarrow> bool" where
  "is_stale_cursor e = (contains ''Invalid Value'' (pe_text e) \<or> contains ''pageToken'' (pe_text e) \<or>
     contains ''invalid'' (str_lower (pe_text e)))"

subsection \<open>The two-pass sync\<close>

record sync_stats =
  ts_indexed_count :: nat
  ts_deleted_count :: nat
  ts_final_cursor :: "string option"
  ts_pages_processed :: nat
  ts_indexed_ids :: "string list"
  ts_pipeline :: "string option"

definition start_stats :: "string option \<Rightarrow> sync_stats" where
  "start_stats cursor = \<lparr>ts_indexed_count = 0, ts_deleted_count = 0, ts_final_cursor = cursor,
     ts_pages_processed = 0, ts_indexed_ids = [], ts_pipeline = None\<rparr>"

text \<open>The two callbacks, which may raise; an absent callback does nothing.\<close>

record hooks =
  hk_cursor :: "string \<Rightarrow> sync_state \<Rightarrow> (py_error + unit) \<times> sync_state"
  hk_progress :: "nat \<Rightarrow> sync_state \<Rightarrow> (py_error + unit) \<times> sync_state"

definition no_hooks :: hooks where
  "no_hooks = \<lparr>hk_cursor = (\<lambda>_ s. (Inr (), s)), hk_progress = (\<lambda>_ s. (Inr (), s))\<rparr>"

record sync_job =
  sj_env :: sync_env
  sj_connector :: connector
  sj_tenant_id :: string
  sj_extra_acl :: "string list"
  sj_hooks :: hooks

datatype phase = Going | Ended | Failed py_error

record crawl =
  cw_cursor :: "string option"
  cw_retried :: bool
  cw_stats :: sync_stats
  cw_state :: sync_state
  cw_phase :: phase

definition going :: "crawl \<Rightarrow> bool" where
  "going c = (cw_phase c = Going)"

definition begin_pass :: "string option \<Rightarrow> sync_stats \<Rightarrow> sync_state \<Rightarrow> crawl" where
  "begin_pass cursor stats s = \<lparr>cw_cursor = cursor, cw_retried = False, cw_stats = stats, cw_state = s, cw_phase = Going\<rparr>"

text \<open>The end of a page: on to the next cursor when there are more pages and a cursor for them.\<close>

definition turn_page :: "string option \<Rightarrow> bool \<Rightarrow> crawl \<Rightarrow> crawl" where
  "turn_page next_c has_more c =
     (if has_more \<and> cursor_set next_c then c\<lparr>cw_cursor := next_c\<rparr> else c\<lparr>cw_phase := Ended\<rparr>)"

text \<open>Pass 1: an authentication failure is raised, any other failure ends the pass.\<close>

definition delete_page :: "sync_job \<Rightarrow> string list \<Rightarrow> crawl \<Rightarrow> crawl" where
  "delete_page job ids c =
     (if ids = [] then c
      else let s = cw_state c;
               (r, ix) = delete_by_ids (se_index (sj_env job)) ids (sj_tenant_id job)
                           (cn_source_type (sj_connector job)) (sy_index s);
               c = c\<lparr>cw_state := s\<lparr>sy_index := ix\<rparr>\<rparr>
           in case r of
                Inl e \<Rightarrow> c\<lparr>cw_phase := Failed (error_of_exn e)\<rparr>
              | Inr _ \<Rightarrow> c\<lparr>cw_stats := (cw_stats c)\<lparr>ts_deleted_count := ts_deleted_count (cw_stats c) + length ids\<rparr>\<rparr>)"

definition next_tick :: "crawl \<Rightarrow> crawl" where
  "next_tick c = c\<lparr>cw_state := (cw_state c)\<lparr>sy_tick := Suc (sy_tick (cw_state c))\<rparr>\<rparr>"

definition deletion_step :: "sync_job \<Rightarrow> crawl \<Rightarrow> crawl" where
  "deletion_step job c =
     (case cn_fetch_deleted_ids (sj_connector job) (sy_tick (cw_state c)) (cw_cursor c) of
        Inl e \<Rightarrow>
          (if isa e ''NotImplementedError'' then (next_tick c)\<lparr>cw_phase := Ended\<rparr>
           else if isa e ''UnauthorizedError'' then (next_tick c)\<lparr>cw_phase := Failed e\<rparr>
           else (next_tick c)\<lparr>cw_phase := Ended\<rparr>)
      | Inr r \<Rightarrow>
          (let c = delete_page job (xr_deleted_ids r) (next_tick c)
           in case cw_phase c of
                Failed e \<Rightarrow> c
              | _ \<Rightarrow> turn_page (xr_next_cursor r) (xr_has_more r) c))"

text \<open>
  Pass 2, one page: the compiled documents when the pipeline gives any, otherwise what the
  connector's own \<open>transform\<close> gives; then the index, the counts and the progress callback.
\<close>

definition choose_docs ::
    "unified_document list \<Rightarrow> py_error + unified_document list option \<Rightarrow> py_error + unified_document list \<times> string" where
  "choose_docs transformed batch =
     (case batch of
        Inr (Some (u # us)) \<Rightarrow> Inr (u # us, ''block_c'')
      | Inr _ \<Rightarrow> Inr (transformed, ''fallback_transform'')
      | Inl e \<Rightarrow> if is_tenant_routing_failure e then Inl e else Inr (transformed, ''fallback_transform''))"

definition index_docs :: "sync_job \<Rightarrow> unified_document list \<Rightarrow> crawl \<Rightarrow> crawl" where
  "index_docs job docs c =
     (if docs = [] then c
      else let s = cw_state c; st = cw_stats c;
               s = s\<lparr>sy_index := bulk_index (se_index (sj_env job)) docs (sj_tenant_id job) (sj_extra_acl job) (sy_index s)\<rparr>;
               st = st\<lparr>ts_indexed_count := ts_indexed_count st + length docs,
                       ts_indexed_ids := ts_indexed_ids st @ map ud_id docs\<rparr>;
               (r, s) = hk_progress (sj_hooks job) (ts_indexed_count st) s;
               c = c\<lparr>cw_stats := st, cw_state := s\<rparr>
           in case r of Inl e \<Rightarrow> c\<lparr>cw_phase := Failed e\<rparr> | Inr _ \<Rightarrow> c)"

definition index_page :: "sync_job \<Rightarrow> pydict list \<Rightarrow> crawl \<Rightarrow> crawl" where
  "index_page job documents c =
     (if documents = [] then c
      else (case cn_transform (sj_connector job) (sy_tick (cw_state c)) documents of
              Inl e \<Rightarrow> (next_tick c)\<lparr>cw_phase := Failed e\<rparr>
            | Inr transformed \<Rightarrow>
                (let c = next_tick c;
                     (batch, s) = process_raw_batch (sj_env job) documents (cn_source_type (sj_connector job))
                                    (sj_tenant_id job) False (cw_state c);
                     c = c\<lparr>cw_state := s\<rparr>
                 in case choose_docs transformed batch of
                      Inl e \<Rightarrow> c\<lparr>cw_phase := Failed e\<rparr>
                    | Inr (docs, path) \<Rightarrow>
                        index_docs job docs (c\<lparr>cw_stats := (cw_stats c)\<lparr>ts_pipeline := Some path\<rparr>\<rparr>))))"

text \<open>The checkpoint comes after the index of the page; what the callback raises leaves the crawl.\<close>

definition checkpoint :: "sync_job \<Rightarrow> string option \<Rightarrow> crawl \<Rightarrow> crawl" where
  "checkpoint job next_c c =
     (case next_c of
        None \<Rightarrow> c
      | Some t \<Rightarrow>
          if t = [] then c
          else let (r, s) = hk_cursor (sj_hooks job) t (cw_state c);
                   c = c\<lparr>cw_stats := (cw_stats c)\<lparr>ts_final_cursor := Some t\<rparr>, cw_state := s\<rparr>
               in case r of Inl e \<Rightarrow> c\<lparr>cw_phase := Failed e\<rparr> | Inr _ \<Rightarrow> c)"

definition count_page :: "crawl \<Rightarrow> crawl" where
  "count_page c = c\<lparr>cw_stats := (cw_stats c)\<lparr>ts_pages_processed := Suc (ts_pages_processed (cw_stats c))\<rparr>\<rparr>"

definition close_page :: "sync_job \<Rightarrow> delta_result \<Rightarrow> crawl \<Rightarrow> crawl" where
  "close_page job r c =
     (let c = checkpoint job (dr_next_cursor r) (count_page c)
      in case cw_phase c of
           Failed e \<Rightarrow> c
         | _ \<Rightarrow> turn_page (dr_next_cursor r) (dr_has_more r) c)"

definition handle_page :: "sync_job \<Rightarrow> delta_result \<Rightarrow> crawl \<Rightarrow> crawl" where
  "handle_page job r c =
     (let c = index_page job (dr_documents r) c
      in case cw_phase c of Failed e \<Rightarrow> c | _ \<Rightarrow> close_page job r c)"

text \<open>A stale cursor is dropped once, and the crawl starts over; any other failure ends it quietly.\<close>

definition reset_cursor :: "sync_job \<Rightarrow> crawl \<Rightarrow> crawl" where
  "reset_cursor job c =
     (let (r, s) = hk_cursor (sj_hooks job) [] (cw_state c);
          c = c\<lparr>cw_cursor := None, cw_retried := True, cw_stats := (cw_stats c)\<lparr>ts_final_cursor := None\<rparr>, cw_state := s\<rparr>
      in case r of Inl e \<Rightarrow> c\<lparr>cw_phase := Failed e\<rparr> | Inr _ \<Rightarrow> c)"

definition delta_failed :: "sync_job \<Rightarrow> py_error \<Rightarrow> crawl \<Rightarrow> crawl" where
  "delta_failed job e c =
     (if isa e ''UnauthorizedError'' then c\<lparr>cw_phase := Failed e\<rparr>
      else if cursor_set (cw_cursor c) \<and> \<not> cw_retried c \<and> is_stale_cursor e then reset_cursor job c
      else c\<lparr>cw_phase := Ended\<rparr>)"

definition delta_step :: "sync_job \<Rightarrow> crawl \<Rightarrow> crawl" where
  "delta_step job c =
     (case cn_fetch_delta (sj_connector job) (sy_tick (cw_state c)) (cw_cursor c) of
        Inl e \<Rightarrow> delta_failed job e (next_tick c)
      | Inr r \<Rightarrow> handle_page job r (next_tick c))"

definition delta_pass :: "sync_job \<Rightarrow> crawl \<Rightarrow> crawl option" where
  "delta_pass job c = while_option going (delta_step job) c"

definition deletion_pass :: "sync_job \<Rightarrow> crawl \<Rightarrow> crawl option" where
  "deletion_pass job c = while_option going (deletion_step job) c"

definition outcome :: "crawl \<Rightarrow> (py_error + sync_stats) \<times> sync_state" where
  "outcome c = (case cw_phase c of Failed e \<Rightarrow> Inl e | _ \<Rightarrow> Inr (cw_stats c), cw_state c)"

definition run_two_pass_sync ::
    "sync_job \<Rightarrow> string option \<Rightarrow> sync_state \<Rightarrow> ((py_error + sync_stats) \<times> sync_state) option" where
  "run_two_pass_sync job cursor s =
     (case deletion_pass job (begin_pass None (start_stats cursor) s) of
        None \<Rightarrow> None
      | Some c \<Rightarrow>
          (case cw_phase c of
             Failed e \<Rightarrow> Some (Inl e, cw_state c)
           | _ \<Rightarrow> map_option outcome (delta_pass job (begin_pass cursor (cw_stats c) (cw_state c)))))"

subsection \<open>The pages of a source\<close>

text \<open>
  The pages a crawl meets from a cursor, when the source answers the same each time: the last page
  is the first without a further cursor.
\<close>

fun page_chain :: "(string option \<Rightarrow> delta_result) \<Rightarrow> string option \<Rightarrow> delta_result list \<Rightarrow> bool" where
  "page_chain src c [] = False"
| "page_chain src c (r # rs) =
     (src c = r \<and>
      (if dr_has_more r \<and> cursor_set (dr_next_cursor r) then page_chain src (dr_next_cursor r) rs else rs = []))"

definition answers :: "connector \<Rightarrow> (string option \<Rightarrow> delta_result) \<Rightarrow> bool" where
  "answers cn src = (\<forall>tick c. cn_fetch_delta cn tick c = Inr (src c))"

lemma answersD: "answers cn src \<Longrightarrow> cn_fetch_delta cn tick c = Inr (src c)"
  by (simp add: answers_def)

text \<open>The same crawl as a recursion over the pages.\<close>

fun crawl_pages :: "sync_job \<Rightarrow> delta_result list \<Rightarrow> crawl \<Rightarrow> crawl" where
  "crawl_pages job [] c = c"
| "crawl_pages job (r # rs) c =
     (let c = handle_page job r (next_tick c)
      in case cw_phase c of Failed e \<Rightarrow> c | _ \<Rightarrow> crawl_pages job rs c)"

lemma next_tick_sel [simp]:
  "cw_phase (next_tick c) = cw_phase c" "cw_cursor (next_tick c) = cw_cursor c"
  "sy_cursors (cw_state (next_tick c)) = sy_cursors (cw_state c)" "cw_stats (next_tick c) = cw_stats c"
  "sy_status (cw_state (next_tick c)) = sy_status (cw_state c)"
  by (simp_all add: next_tick_def)

lemma count_page_sel [simp]:
  "cw_phase (count_page c) = cw_phase c" "cw_cursor (count_page c) = cw_cursor c" "cw_state (count_page c) = cw_state c"
  by (simp_all add: count_page_def)

text \<open>Until the page is turned, the phase only ever changes to a failure.\<close>

definition alive :: "crawl \<Rightarrow> crawl \<Rightarrow> bool" where
  "alive c c' \<longleftrightarrow> (\<exists>e. cw_phase c' = Failed e) \<or> cw_phase c' = cw_phase c \<and> cw_cursor c' = cw_cursor c"

lemma alive_trans: "alive c c' \<Longrightarrow> alive c' c'' \<Longrightarrow> alive c c''"
  by (auto simp: alive_def)

lemma index_docs_alive: "alive c (index_docs job docs c)"
  by (simp add: index_docs_def alive_def Let_def split: prod.split sum.split)

lemma index_docs_after: "alive c c' \<Longrightarrow> alive c (index_docs job docs c')"
  by (rule alive_trans [OF _ index_docs_alive])

lemma index_page_alive: "alive c (index_page job docs c)"
proof (cases "docs = []")
  case True
  then show ?thesis by (simp add: index_page_def alive_def)
next
  case False
  then show ?thesis
    unfolding index_page_def Let_def
    by (auto split: sum.split prod.split intro!: index_docs_after) (auto simp: alive_def)
qed

lemma checkpoint_alive: "alive c (checkpoint job next_c c)"
  by (simp add: checkpoint_def alive_def Let_def split: prod.split sum.split option.split)

text \<open>What becomes of a page: a failure, the next page, or the end.\<close>

lemma handle_page_cases:
  assumes "cw_phase c = Going"
  obtains (failed) e where "cw_phase (handle_page job r c) = Failed e"
  | (turned) "cw_phase (handle_page job r c) = Going" "dr_has_more r" "cursor_set (dr_next_cursor r)"
      "cw_cursor (handle_page job r c) = dr_next_cursor r"
  | (finished) "cw_phase (handle_page job r c) = Ended" "\<not> (dr_has_more r \<and> cursor_set (dr_next_cursor r))"
proof (cases "cw_phase (index_page job (dr_documents r) c)")
  case (Failed e)
  then show ?thesis by (intro failed [of e]) (simp add: handle_page_def Let_def)
next
  case Ended
  then show ?thesis using index_page_alive [of c job "dr_documents r"] assms by (simp add: alive_def)
next
  case Going
  let ?c = "index_page job (dr_documents r) c"
  let ?d = "checkpoint job (dr_next_cursor r) (count_page ?c)"
  have h: "handle_page job r c = close_page job r ?c" using Going by (simp add: handle_page_def Let_def)
  show ?thesis
  proof (cases "cw_phase ?d")
    case (Failed e)
    then show ?thesis unfolding h by (intro failed [of e]) (simp add: close_page_def Let_def h)
  next
    case Ended
    then show ?thesis using checkpoint_alive [of "count_page ?c" job "dr_next_cursor r"] Going by (simp add: alive_def)
  next
    case Going
    then have "handle_page job r c = turn_page (dr_next_cursor r) (dr_has_more r) ?d"
      unfolding h by (simp add: close_page_def Let_def)
    then show ?thesis
      using Going \<open>cw_phase ?d = Going\<close> turned finished
      by (cases "dr_has_more r \<and> cursor_set (dr_next_cursor r)") (simp_all add: turn_page_def)
  qed
qed

lemma delta_step_page:
  assumes "answers (sj_connector job) src"
  shows "delta_step job c = handle_page job (src (cw_cursor c)) (next_tick c)"
  using answersD [OF assms] by (simp add: delta_step_def)

lemma pass_unfold: "while_option going f c = (if cw_phase c = Going then while_option going f (f c) else Some c)"
  using while_option_unfold [of going f c] by (simp add: going_def)

lemma delta_pass_pages:
  assumes src: "answers (sj_connector job) src"
  shows "cw_phase c = Going \<Longrightarrow> page_chain src (cw_cursor c) rs \<Longrightarrow> delta_pass job c = Some (crawl_pages job rs c)"
proof (induction rs arbitrary: c)
  case (Cons r rs)
  let ?c = "handle_page job r (next_tick c)"
  have r: "src (cw_cursor c) = r" using Cons.prems(2) by simp
  have step: "delta_pass job c = delta_pass job ?c"
    using pass_unfold [of "delta_step job" c] Cons.prems(1) delta_step_page [OF src, of c] unfolding delta_pass_def r by simp
  have "cw_phase (next_tick c) = Going" using Cons.prems(1) by simp
  then show ?case
  proof (cases rule: handle_page_cases [where job = job and r = r])
    case (failed e)
    then have "delta_pass job ?c = Some ?c" using pass_unfold [of "delta_step job" ?c] by (simp add: delta_pass_def)
    with failed show ?thesis by (simp add: step)
  next
    case turned
    then have "page_chain src (cw_cursor ?c) rs" using Cons.prems(2) by simp
    with Cons.IH [OF turned(1)] turned show ?thesis by (simp add: step)
  next
    case finished
    then have "delta_pass job ?c = Some ?c" "rs = []"
      using pass_unfold [of "delta_step job" ?c] Cons.prems(2) by (auto simp: delta_pass_def split: if_splits)
    with finished show ?thesis by (simp add: step)
  qed
qed simp

text \<open>
  A crawl over a source that answers, from a cursor with finitely many pages behind
  it, ends, and what it does is to handle those pages in their order, each once: index, count,
  checkpoint, up to the first page that fails.
\<close>

theorem crawl_handles_the_pages:
  assumes "answers (sj_connector job) src" "page_chain src cursor rs"
  shows "delta_pass job (begin_pass cursor st s) = Some (crawl_pages job rs (begin_pass cursor st s))"
  by (rule delta_pass_pages [OF assms(1)]) (simp_all add: begin_pass_def assms(2))

subsection \<open>Killed and restarted crawls\<close>

text \<open>
  The lives of one crawl: it handles a page without failing, or it is killed at any moment, also in
  the middle of a page, and starts again from the cursor that is stored. A kill may leave any state
  behind, except that the cursor store survives. The list holds the pages that were completed.
\<close>

inductive crawl_lives :: "sync_job \<Rightarrow> string \<Rightarrow> crawl \<Rightarrow> delta_result list \<Rightarrow> crawl \<Rightarrow> bool"
  for job :: sync_job and scope :: string and c0 :: crawl where
  born: "crawl_lives job scope c0 [] c0"
| page: "crawl_lives job scope c0 done_pages c \<Longrightarrow> cw_phase c = Going \<Longrightarrow>
    cn_fetch_delta (sj_connector job) (sy_tick (cw_state c)) (cw_cursor c) = Inr r \<Longrightarrow>
    c' = delta_step job c \<Longrightarrow> cw_phase c' = Going \<or> cw_phase c' = Ended \<Longrightarrow>
    crawl_lives job scope c0 (done_pages @ [r]) c'"
| killed: "crawl_lives job scope c0 done_pages c \<Longrightarrow> cw_phase c = Going \<Longrightarrow>
    sy_cursors s = sy_cursors (cw_state c) \<Longrightarrow>
    c' = begin_pass (get_cursor scope (cn_source_type (sj_connector job)) (sy_cursors s)) st s \<Longrightarrow>
    crawl_lives job scope c0 done_pages c'"

text \<open>The callbacks of a backfill: the checkpoint is stored, and the progress does not touch the cursors.\<close>

definition saves_cursor :: "sync_job \<Rightarrow> string \<Rightarrow> bool" where
  "saves_cursor job scope \<longleftrightarrow>
     (\<forall>t s s'. hk_cursor (sj_hooks job) t s = (Inr (), s') \<longrightarrow>
        (\<exists>now. sy_cursors s' = update_cursor scope (cn_source_type (sj_connector job)) t now (sy_cursors s))) \<and>
     (\<forall>n s r s'. hk_progress (sj_hooks job) n s = (r, s') \<longrightarrow> sy_cursors s' = sy_cursors s)"

lemma saves_cursorD:
  assumes "saves_cursor job scope"
  shows "hk_progress (sj_hooks job) n s = (r, s') \<Longrightarrow> sy_cursors s' = sy_cursors s"
    "hk_cursor (sj_hooks job) t s = (Inr (), s') \<Longrightarrow>
      get_cursor scope (cn_source_type (sj_connector job)) (sy_cursors s') = some_cursor t"
  using assms unfolding saves_cursor_def by (blast, metis get_cursor_update)

lemma index_docs_cursors:
  assumes "saves_cursor job scope"
  shows "sy_cursors (cw_state (index_docs job docs c)) = sy_cursors (cw_state c)"
  unfolding index_docs_def
  by (auto simp: Let_def dest: saves_cursorD(1) [OF assms] split: prod.split sum.split)

lemma index_page_cursors:
  assumes "saves_cursor job scope"
  shows "sy_cursors (cw_state (index_page job docs c)) = sy_cursors (cw_state c)"
  unfolding index_page_def
  by (auto simp: Let_def index_docs_cursors [OF assms] dest!: batch_frame(1) split: prod.split sum.split)

lemma turned_cursor_stored:
  assumes "saves_cursor job scope" "cw_phase c = Going" "cw_phase (handle_page job r c) = Going"
  shows "get_cursor scope (cn_source_type (sj_connector job)) (sy_cursors (cw_state (handle_page job r c))) =
    cw_cursor (handle_page job r c)"
  using assms(2)
proof (cases rule: handle_page_cases [where job = job and r = r])
  case turned
  obtain t where t: "dr_next_cursor r = Some t" "t \<noteq> []" using turned(3) by (rule cursor_setE)
  let ?c = "index_page job (dr_documents r) c"
  obtain x s where hk: "hk_cursor (sj_hooks job) t (cw_state ?c) = (x, s)" by fastforce
  from turned(1) hk t show ?thesis
    using saves_cursorD(2) [OF assms(1)]
    by (auto simp: handle_page_def close_page_def checkpoint_def turn_page_def Let_def some_cursor_def
        split: phase.splits sum.splits if_splits)
qed (use assms(3) in simp_all)

text \<open>Where a crawl stands: at the cursor that is stored, with the completed pages behind it.\<close>

definition stands :: "sync_job \<Rightarrow> string \<Rightarrow> (string option \<Rightarrow> delta_result) \<Rightarrow> delta_result list \<Rightarrow> delta_result list \<Rightarrow> crawl \<Rightarrow> bool" where
  "stands job scope src rs completed c \<longleftrightarrow>
     cw_phase c = Going \<and> get_cursor scope (cn_source_type (sj_connector job)) (sy_cursors (cw_state c)) = cw_cursor c \<and>
       (\<exists>post. rs = completed @ post \<and> page_chain src (cw_cursor c) post) \<or>
     cw_phase c = Ended \<and> completed = rs"

lemma lives_stand:
  assumes src: "answers (sj_connector job) src" and saves: "saves_cursor job scope"
    and start: "stands job scope src rs [] c0"
  shows "crawl_lives job scope c0 completed c \<Longrightarrow> stands job scope src rs completed c"
proof (induction rule: crawl_lives.induct)
  case born
  show ?case by (rule start)
next
  case (page completed c r c')
  have r: "r = src (cw_cursor c)" using page.hyps(3) answersD [OF src] by simp
  have c': "c' = handle_page job r (next_tick c)" using page.hyps(4) delta_step_page [OF src] r by simp
  obtain post where rs: "rs = completed @ post" and chain: "page_chain src (cw_cursor c) post"
    using page.IH page.hyps(2) by (auto simp: stands_def)
  then obtain post' where post: "post = r # post'" using r by (cases post) auto
  have going: "cw_phase (next_tick c) = Going" using page.hyps(2) by simp
  then show ?case
  proof (cases rule: handle_page_cases [where job = job and r = r])
    case (failed e)
    then show ?thesis using page.hyps(5) c' by simp
  next
    case turned
    then have "get_cursor scope (cn_source_type (sj_connector job)) (sy_cursors (cw_state c')) = cw_cursor c'"
      unfolding c' by (intro turned_cursor_stored [OF saves going])
    moreover have "page_chain src (cw_cursor c') post'" using chain turned by (simp add: post c')
    ultimately show ?thesis using turned(1) by (simp add: stands_def c' rs post)
  next
    case finished
    then have "post' = []" using chain by (auto simp: post split: if_splits)
    then show ?thesis using finished(1) by (simp add: stands_def c' rs post)
  qed
next
  case (killed completed c s c' st)
  then show ?case by (auto simp: stands_def begin_pass_def)
qed


subsection \<open>Where a finished crawl leaves the checkpoint\<close>

lemma finished_cursor_stored:
  assumes "saves_cursor job scope" "cw_phase c = Going" "cw_phase (handle_page job r c) = Ended"
    and "\<not> cursor_set (dr_next_cursor r)"
  shows "get_cursor scope (cn_source_type (sj_connector job)) (sy_cursors (cw_state (handle_page job r c))) =
    get_cursor scope (cn_source_type (sj_connector job)) (sy_cursors (cw_state c))"
proof -
  have none: "dr_next_cursor r = None \<or> dr_next_cursor r = Some []" using assms(4) by (simp add: cursor_set_def)
  show ?thesis
    using assms(3) none
    by (auto simp: handle_page_def close_page_def checkpoint_def turn_page_def Let_def index_page_cursors [OF assms(1)]
        split: phase.splits)
qed

lemma crawl_pages_checkpoint:
  assumes saves: "saves_cursor job scope"
  shows "cw_phase c = Going \<Longrightarrow> page_chain src (cw_cursor c) rs \<Longrightarrow>
    get_cursor scope (cn_source_type (sj_connector job)) (sy_cursors (cw_state c)) = cw_cursor c \<Longrightarrow>
    cw_phase (crawl_pages job rs c) = Ended \<Longrightarrow> \<not> cursor_set (dr_next_cursor (last rs)) \<Longrightarrow>
    page_chain src (get_cursor scope (cn_source_type (sj_connector job))
      (sy_cursors (cw_state (crawl_pages job rs c)))) [last rs]"
proof (induction rs arbitrary: c)
  case (Cons r rs)
  let ?c = "handle_page job r (next_tick c)"
  have going: "cw_phase (next_tick c) = Going" using Cons.prems(1) by simp
  then show ?case
  proof (cases rule: handle_page_cases [where job = job and r = r])
    case (failed e)
    then show ?thesis using Cons.prems(4) by simp
  next
    case turned
    then have chain: "page_chain src (cw_cursor ?c) rs" and "rs \<noteq> []" using Cons.prems(2) by auto
    then have "\<not> cursor_set (dr_next_cursor (last rs))" "cw_phase (crawl_pages job rs ?c) = Ended"
      using Cons.prems(4,5) turned(1) by simp_all
    with Cons.IH [OF turned(1) chain turned_cursor_stored [OF saves going turned(1)]] \<open>rs \<noteq> []\<close> turned(1)
    show ?thesis by simp
  next
    case finished
    then have rs: "rs = []" and r: "src (cw_cursor c) = r" "\<not> cursor_set (dr_next_cursor r)"
      using Cons.prems(2,5) by (auto split: if_splits)
    have "get_cursor scope (cn_source_type (sj_connector job)) (sy_cursors (cw_state ?c)) = cw_cursor c"
      using finished_cursor_stored [OF saves going finished(1) r(2)] Cons.prems(3) by simp
    then show ?thesis using r finished(1) by (simp add: rs)
  qed
qed simp

text \<open>
  The checkpoint of a crawl that ended well is not cleared: it stays at the last page,
  so that the next crawl from the stored cursor reads that page and nothing else.
\<close>

theorem finished_crawl_pins_the_last_page:
  assumes "answers (sj_connector job) src" "saves_cursor job scope"
    and "get_cursor scope (cn_source_type (sj_connector job)) (sy_cursors s) = cursor"
    and "page_chain src cursor rs" "\<not> cursor_set (dr_next_cursor (last rs))"
    and "delta_pass job (begin_pass cursor st s) = Some c" "cw_phase c = Ended"
    and "stored = get_cursor scope (cn_source_type (sj_connector job)) (sy_cursors (cw_state c))"
  shows "delta_pass job (begin_pass stored st' (cw_state c)) =
    Some (crawl_pages job [last rs] (begin_pass stored st' (cw_state c)))"
proof (rule delta_pass_pages [OF assms(1)])
  have "c = crawl_pages job rs (begin_pass cursor st s)"
    using delta_pass_pages [OF assms(1), of "begin_pass cursor st s" rs] assms(4,6) by (simp add: begin_pass_def)
  then show "page_chain src (cw_cursor (begin_pass stored st' (cw_state c))) [last rs]"
    using crawl_pages_checkpoint [OF assms(2), of "begin_pass cursor st s" src rs] assms(3,4,5,7,8)
    by (simp add: begin_pass_def)
qed (simp add: begin_pass_def)

subsection \<open>What every operation of a sync keeps\<close>

text \<open>
  The contract between the passes and what they call: a property of the state that the clock, the
  indexer, the pipeline bridge and the two callbacks keep is kept by the whole sync.
\<close>

lemma outcome_state: "snd (outcome c) = cw_state c"
  by (simp add: outcome_def)

lemma pass_invariant:
  assumes "while_option going f c = Some c'" "\<And>c. Q c \<Longrightarrow> Q (f c)" "Q c"
  shows "Q c'"
  by (rule while_option_rule [where P = Q and b = going and c = f]) (use assms in blast)+

locale sync_invariant =
  fixes P :: "sync_state \<Rightarrow> bool" and job :: sync_job
  assumes keeps_tick: "P s \<Longrightarrow> P (s\<lparr>sy_tick := n\<rparr>)"
    and keeps_delete: "P s \<Longrightarrow> delete_by_ids (se_index (sj_env job)) ids (sj_tenant_id job)
      (cn_source_type (sj_connector job)) (sy_index s) = (r, ix) \<Longrightarrow> P (s\<lparr>sy_index := ix\<rparr>)"
    and keeps_bulk: "P s \<Longrightarrow> P (s\<lparr>sy_index := bulk_index (se_index (sj_env job)) docs (sj_tenant_id job)
      (sj_extra_acl job) (sy_index s)\<rparr>)"
    and keeps_batch: "P s \<Longrightarrow> process_raw_batch (sj_env job) raws src t False s = (b, s') \<Longrightarrow> P s'"
    and keeps_cursor_hook: "P s \<Longrightarrow> hk_cursor (sj_hooks job) c s = (u, s') \<Longrightarrow> P s'"
    and keeps_progress_hook: "P s \<Longrightarrow> hk_progress (sj_hooks job) n s = (u, s') \<Longrightarrow> P s'"
begin

lemma basic [simp]:
  "P (cw_state (count_page c)) = P (cw_state c)" "P (cw_state (turn_page n m c)) = P (cw_state c)"
  by (simp_all add: count_page_def turn_page_def)

lemma ticked: "P (cw_state c) \<Longrightarrow> P (cw_state (next_tick c))"
  by (simp add: next_tick_def keeps_tick)

lemma indexed:
  assumes "P (cw_state c)"
  shows "P (cw_state (index_docs job docs c))"
  using keeps_progress_hook [OF keeps_bulk [OF assms]] assms
  by (auto simp: index_docs_def Let_def split: prod.split sum.split)

lemma page_indexed:
  assumes "P (cw_state c)"
  shows "P (cw_state (index_page job docs c))"
proof -
  have "P (cw_state (next_tick c))" using assms by (rule ticked)
  then show ?thesis
    using assms unfolding index_page_def
    by (auto simp: Let_def intro!: indexed dest: keeps_batch split: prod.split sum.split)
qed

lemma page_closed:
  assumes "P (cw_state c)"
  shows "P (cw_state (close_page job r c))"
proof -
  have "P (cw_state (checkpoint job n (count_page c)))" for n
    using assms keeps_cursor_hook [of "cw_state c"]
    by (auto simp: checkpoint_def Let_def count_page_def split: prod.split sum.split option.split)
  then show ?thesis by (simp add: close_page_def Let_def split: phase.split)
qed

lemma page_handled:
  assumes "P (cw_state c)"
  shows "P (cw_state (handle_page job r c))"
  using page_indexed [OF assms, of "dr_documents r"] page_closed
  by (simp add: handle_page_def Let_def split: phase.split)

lemma delta_stepped:
  assumes "P (cw_state c)"
  shows "P (cw_state (delta_step job c))"
proof -
  have "P (cw_state (reset_cursor job c))" if "P (cw_state c)" for c
    using that keeps_cursor_hook [of "cw_state c"]
    by (auto simp: reset_cursor_def Let_def split: prod.split sum.split)
  then have "P (cw_state (delta_failed job e (next_tick c)))" for e
    using ticked [OF assms] by (simp add: delta_failed_def)
  then show ?thesis
    using page_handled ticked [OF assms] by (simp add: delta_step_def split: sum.split)
qed

lemma deletion_stepped:
  assumes "P (cw_state c)"
  shows "P (cw_state (deletion_step job c))"
proof -
  have "P (cw_state (delete_page job ids (next_tick c)))" for ids
    using ticked [OF assms] keeps_delete [OF ticked [OF assms]]
    by (auto simp: delete_page_def Let_def split: prod.split sum.split)
  then show ?thesis
    using ticked [OF assms] by (simp add: deletion_step_def Let_def split: sum.split phase.split)
qed

lemma synced:
  assumes "P s" "run_two_pass_sync job cursor s = Some (r, s')"
  shows "P s'"
proof -
  have start: "P (cw_state (begin_pass k st t)) = P t" for k st t by (simp add: begin_pass_def)
  obtain c where del: "deletion_pass job (begin_pass None (start_stats cursor) s) = Some c"
    using assms(2) by (auto simp: run_two_pass_sync_def split: option.splits)
  have c: "P (cw_state c)"
    using pass_invariant [OF del [unfolded deletion_pass_def], of "\<lambda>c. P (cw_state c)"] deletion_stepped start assms(1)
    by blast
  show ?thesis
  proof (cases "\<exists>e. cw_phase c = Failed e")
    case True
    then show ?thesis using assms(2) del c by (auto simp: run_two_pass_sync_def)
  next
    case False
    then obtain d where delta: "delta_pass job (begin_pass cursor (cw_stats c) (cw_state c)) = Some d" and d: "outcome d = (r, s')"
      using assms(2) del by (auto simp: run_two_pass_sync_def split: phase.splits)
    have "P (cw_state d)"
      using pass_invariant [OF delta [unfolded delta_pass_def], of "\<lambda>c. P (cw_state c)"] delta_stepped start c
      by blast
    with d show ?thesis by (metis outcome_state snd_conv)
  qed
qed

end

subsection \<open>Examples\<close>

definition demo_sync_env :: sync_env where
  "demo_sync_env = \<lparr>se_index = demo_index_settings, se_pipe = demo_env, se_now = int,
     se_vault = (\<lambda>_ _. Inl (vault_error ''down'')), se_routed = (\<lambda>_ _ _ _ db. ([], db))\<rparr>"

definition demo_sync_state :: sync_state where
  "demo_sync_state = \<lparr>sy_index = empty_index, sy_world = demo_start, sy_routing = \<lparr>rs_cache = [], rs_tenants = []\<rparr>,
     sy_cursors = [], sy_status = \<lparr>ss_client = True, ss_values = []\<rparr>, sy_tick = 0\<rparr>"

definition demo_source :: "pydict list \<Rightarrow> string option \<Rightarrow> delta_result" where
  "demo_source docs c =
     (if c = None then \<lparr>dr_documents = docs, dr_next_cursor = Some ''p2'', dr_has_more = True\<rparr>
      else if c = Some ''p2'' then \<lparr>dr_documents = [], dr_next_cursor = Some ''p3'', dr_has_more = True\<rparr>
      else \<lparr>dr_documents = [], dr_next_cursor = None, dr_has_more = False\<rparr>)"

definition demo_pages :: "pydict list \<Rightarrow> delta_result list" where
  "demo_pages docs = map (demo_source docs) [None, Some ''p2'', Some ''p3'']"

definition demo_connector :: "pydict list \<Rightarrow> connector" where
  "demo_connector docs = \<lparr>cn_source_type = ''google_drive'',
     cn_fetch_deleted_ids = (\<lambda>_ _. Inl (error_of [''NotImplementedError''] [])),
     cn_fetch_delta = (\<lambda>_ c. Inr (demo_source docs c)), cn_transform = (\<lambda>_ _. Inr [])\<rparr>"

definition demo_hooks :: hooks where
  "demo_hooks = \<lparr>hk_cursor = (\<lambda>t s. (Inr (), s\<lparr>sy_cursors := update_cursor ''t'' ''google_drive'' t 5 (sy_cursors s)\<rparr>)),
     hk_progress = (\<lambda>_ s. (Inr (), s))\<rparr>"

definition demo_job :: "pydict list \<Rightarrow> sync_job" where
  "demo_job docs = \<lparr>sj_env = demo_sync_env, sj_connector = demo_connector docs, sj_tenant_id = uuid_str 1,
     sj_extra_acl = [''user:bob''], sj_hooks = demo_hooks\<rparr>"

lemma demo_answers: "answers (sj_connector (demo_job docs)) (demo_source docs)"
  by (simp add: answers_def demo_job_def demo_connector_def)

lemma demo_saves: "saves_cursor (demo_job docs) ''t''"
  by (auto simp: saves_cursor_def demo_job_def demo_hooks_def demo_connector_def)

lemma demo_chain: "page_chain (demo_source docs) None (demo_pages docs)" "page_chain (demo_source docs) (Some ''p2'') (tl (demo_pages docs))"
  by (simp_all add: demo_pages_def demo_source_def)

lemma demo_crawl_ids:
  "ts_indexed_ids (cw_stats (crawl_pages (demo_job [demo_file]) (demo_pages [demo_file]) (begin_pass None (start_stats None) demo_sync_state))) =
    [''f1'']"
  by code_simp

theorem crawl_handles_the_pages_witness:
  "map_option (\<lambda>c. ts_indexed_ids (cw_stats c)) (delta_pass (demo_job [demo_file]) (begin_pass None (start_stats None) demo_sync_state)) =
    Some [''f1'']"
  by (simp add: crawl_handles_the_pages [OF demo_answers demo_chain(1)] demo_crawl_ids)


theorem finished_crawl_pins_the_last_page_witness:
  "\<exists>c. delta_pass (demo_job []) (begin_pass None (start_stats None) demo_sync_state) = Some c \<and>
     map_option (\<lambda>d. ts_indexed_ids (cw_stats d))
       (delta_pass (demo_job []) (begin_pass (get_cursor ''t'' ''google_drive'' (sy_cursors (cw_state c)))
         (start_stats None) (cw_state c))) = Some []"
proof -
  let ?c = "crawl_pages (demo_job []) (demo_pages []) (begin_pass None (start_stats None) demo_sync_state)"
  let ?stored = "get_cursor ''t'' ''google_drive'' (sy_cursors (cw_state ?c))"
  have run: "delta_pass (demo_job []) (begin_pass None (start_stats None) demo_sync_state) = Some ?c"
    by (rule delta_pass_pages [OF demo_answers]) (simp_all add: begin_pass_def demo_chain)
  have ended: "cw_phase ?c = Ended" by code_simp
  have src: "cn_source_type (sj_connector (demo_job [])) = ''google_drive''" by (simp add: demo_job_def demo_connector_def)
  have start: "get_cursor ''t'' (cn_source_type (sj_connector (demo_job []))) (sy_cursors demo_sync_state) = None" by code_simp
  have last: "\<not> cursor_set (dr_next_cursor (last (demo_pages [])))" by code_simp
  have "ts_indexed_ids (cw_stats (crawl_pages (demo_job []) [last (demo_pages [])] (begin_pass ?stored (start_stats None) (cw_state ?c)))) = []"
    by code_simp
  then show ?thesis
    using run finished_crawl_pins_the_last_page [OF demo_answers demo_saves start demo_chain(1) last run ended refl,
        of "start_stats None"] by (simp add: src)
qed

end
