(* ===== verification/Backfill.thy ===== *)
theory Backfill
  imports Sync Acl_Filter
begin

text \<open>
  The backfill task around a crawl (\<open>backfill_tenant_source\<close> of \<open>backend/app/workers/tasks.py\<close>): the
  tenant check, the resume cursor, the two callbacks, the final cursor and the watch registration
  (\<open>backend/app/connectors/google/watch_manager.py\<close>), the status it leaves, and the error handling of
  the task. The provider's interfaces, the token store and the random channel identifiers are
  parameters.
\<close>

subsection \<open>The tenant check\<close>

record worker_settings =
  ws_dev :: bool            \<comment> \<open>the environment is development or test\<close>
  ws_loop_busy :: bool
  ws_public_url :: bool     \<comment> \<open>the webhook URL names neither localhost nor 127.0.0.1\<close>
  ws_topic :: "string option"   \<comment> \<open>the full Pub/Sub topic, when topic and project are configured\<close>

definition auth_failed :: "string \<Rightarrow> py_error" where
  "auth_failed tenant_id = error_of [''ValueError'']
     (''AUTH_FAILED: Tenant auth invalid or revoked for tenant_id: '' @ tenant_id)"

definition validate_tenant_auth ::
    "worker_settings \<Rightarrow> vault \<Rightarrow> string \<Rightarrow> sync_state \<Rightarrow> (py_error + unit) \<times> sync_state" where
  "validate_tenant_auth ws vault tenant_id s =
     (if tenant_id = [] then (Inl (auth_failed []), s)
      else if starts_with ''invalid'' (str_lower tenant_id) \<or> contains ''revoked'' (str_lower tenant_id)
      then (Inl (auth_failed tenant_id), s)
      else if parse_uuid (base_tenant tenant_id) = None then (Inr (), s)
      else if ws_loop_busy ws \<and> ws_dev ws then (Inr (), s)
      else let (r, rs) = resolve_routing vault (sy_tick s) (base_tenant tenant_id) (sy_routing s);
               s = s\<lparr>sy_routing := rs, sy_tick := sy_tick s + 2\<rparr>
           in case r of
                Inr _ \<Rightarrow> (Inr (), s)
              | Inl e \<Rightarrow>
                  if isa e ''TenantNotFoundError'' then (if ws_dev ws then Inr () else Inl (auth_failed tenant_id), s)
                  else if isa e ''ValueError'' then (Inl e, s)
                  else (if ws_dev ws then Inr () else Inl (auth_failed tenant_id), s))"

subsection \<open>Watches\<close>

text \<open>What is stored of the answer of \<open>changes.watch\<close> and of \<open>users.watch\<close>.\<close>

definition drive_watch_data :: "pydict \<Rightarrow> string \<Rightarrow> string \<Rightarrow> int \<Rightarrow> string \<Rightarrow> pydict" where
  "drive_watch_data response channel_id channel_token expiration_ms page_token =
     (let raw = pget response ''expiration'';
          ms = (if truthy raw then (case py_int raw of Some n \<Rightarrow> n | None \<Rightarrow> expiration_ms) else expiration_ms)
      in [(''channel_id'', py_or (pget response ''id'') (PStr channel_id)),
          (''resource_id'', dict_get response ''resourceId'' (PStr [])),
          (''channel_token'', PStr channel_token), (''expiration'', PInt ms), (''page_token'', PStr page_token)])"

definition gmail_watch_data :: "pydict \<Rightarrow> string \<Rightarrow> pydict option" where
  "gmail_watch_data response topic =
     (case (py_int (dict_get response ''expiration'' (PInt 0)), map_of response ''historyId'') of
        (Some ms, Some h) \<Rightarrow> Some [(''history_id'', h), (''expiration'', PInt ms), (''topic_name'', PStr topic)]
      | _ \<Rightarrow> None)"

definition safe_char :: "char \<Rightarrow> char" where
  "safe_char c = (if (of_char c :: nat) \<in> {48..57} \<union> {65..90} \<union> {97..122} \<or> c = CHR ''-'' \<or> c = CHR ''_''
     then c else CHR ''-'')"

definition channel_id_of :: "string \<Rightarrow> string \<Rightarrow> string" where
  "channel_id_of hex store_id = take 64 (''drv-'' @ hex @ ''-'' @ take 32 (map safe_char store_id))"

definition watch_hours :: int where "watch_hours = 168"

record watch_api =
  wa_drive :: "nat \<Rightarrow> string \<Rightarrow> string \<Rightarrow> py_error + pydict"   \<comment> \<open>from the page token and the channel identifier\<close>
  wa_gmail :: "nat \<Rightarrow> py_error + pydict"
  wa_hex :: "nat \<Rightarrow> string \<times> string"                     \<comment> \<open>twelve random digits, and the channel secret\<close>
  wa_microsoft :: "nat \<Rightarrow> string \<Rightarrow> string \<Rightarrow> string \<Rightarrow> cursor_table \<Rightarrow> cursor_table"

text \<open>Best effort: whatever is raised is logged.\<close>

definition register_watches ::
    "worker_settings \<Rightarrow> watch_api \<Rightarrow> instant \<Rightarrow> string \<Rightarrow> string \<Rightarrow> string option \<Rightarrow> sync_state \<Rightarrow> sync_state" where
  "register_watches ws api now source_type scope final_cursor s =
     (case final_cursor of
        None \<Rightarrow> s
      | Some cursor \<Rightarrow>
          if cursor = [] \<or> \<not> ws_public_url ws then s
          else let n = sy_tick s; t = sy_cursors s; s = s\<lparr>sy_tick := Suc n\<rparr>; (hex, secret) = wa_hex api n in
            if source_type = ''google_drive'' then
              (case wa_drive api n cursor (channel_id_of hex scope) of
                 Inl _ \<Rightarrow> s
               | Inr response \<Rightarrow> s\<lparr>sy_cursors := set_watch_info scope source_type
                   (drive_watch_data response (channel_id_of hex scope) secret ((now + watch_hours * 3600) * 1000) cursor) t\<rparr>)
            else if source_type = ''google_gmail'' then
              (case ws_topic ws of
                 None \<Rightarrow> s
               | Some topic \<Rightarrow>
                   (case wa_gmail api n of
                      Inl _ \<Rightarrow> s
                    | Inr response \<Rightarrow>
                        (case gmail_watch_data response topic of
                           None \<Rightarrow> s
                         | Some w \<Rightarrow> s\<lparr>sy_cursors := set_watch_info scope source_type w t\<rparr>)))
            else if source_type \<in> {''onedrive'', ''outlook''} then s\<lparr>sy_cursors := wa_microsoft api n scope source_type cursor t\<rparr>
            else s)"

subsection \<open>The task\<close>

definition cursor_scope_id :: "string \<Rightarrow> string \<Rightarrow> string" where
  "cursor_scope_id tenant_id user_id =
     (if str_strip user_id \<noteq> [] then tenant_id @ '':'' @ str_strip user_id else tenant_id)"

record backfill_job =
  bj_worker :: worker_settings
  bj_env :: sync_env
  bj_watch :: watch_api
  bj_connector :: "string \<Rightarrow> py_error + connector"      \<comment> \<open>the registry, by source\<close>
  bj_org_admin :: string
  bj_prepare :: "string \<Rightarrow> py_error + string"          \<comment> \<open>the Microsoft plugin: the principal it settles on\<close>
  bj_mailbox :: "string \<Rightarrow> string"                    \<comment> \<open>the mailbox in the token blob of a principal\<close>
  bj_blob_principal :: string                          \<comment> \<open>who connected the tenant's account\<close>
  bj_start_token :: "nat \<Rightarrow> py_error + string"

datatype backfill_result = Aborted nat | Completed sync_stats

definition or_else :: "string \<Rightarrow> string \<Rightarrow> string" where
  "or_else a b = (if a \<noteq> [] then a else b)"

definition is_google :: "string \<Rightarrow> bool" where "is_google source_type = starts_with ''google_'' source_type"
definition is_microsoft :: "string \<Rightarrow> bool" where "is_microsoft source_type = (source_type \<in> {''onedrive'', ''outlook''})"

text \<open>Who the crawl runs for: the user, the principal and the key of the cursors.\<close>

record crawl_identity =
  ci_user :: string
  ci_principal :: string
  ci_scope :: string

definition adopt_principal :: "string \<Rightarrow> string \<Rightarrow> crawl_identity \<Rightarrow> crawl_identity" where
  "adopt_principal tenant_id p ci =
     (if p = [] then ci\<lparr>ci_principal := p\<rparr>
      else \<lparr>ci_user = p, ci_principal = p, ci_scope = cursor_scope_id tenant_id p\<rparr>)"

definition first_identity :: "backfill_job \<Rightarrow> string \<Rightarrow> string \<Rightarrow> crawl_identity" where
  "first_identity job tenant_id user_id =
     (let p = str_strip user_id;
          p = (if p = ''organization'' \<and> bj_org_admin job \<noteq> [] then bj_org_admin job else p)
      in \<lparr>ci_user = user_id, ci_principal = p, ci_scope = cursor_scope_id tenant_id p\<rparr>)"

definition status_user :: "crawl_identity \<Rightarrow> string" where
  "status_user ci = or_else (ci_user ci) (ci_principal ci)"

definition on_status :: "(status_store \<Rightarrow> status_store) \<Rightarrow> sync_state \<Rightarrow> sync_state" where
  "on_status f s = s\<lparr>sy_status := f (sy_status s)\<rparr>"

definition mark ::
    "string \<Rightarrow> string \<Rightarrow> string \<Rightarrow> status_update \<Rightarrow> instant \<Rightarrow> sync_state \<Rightarrow> sync_state" where
  "mark tenant_id source_type user u now = on_status (\<lambda>st. snd (set_status tenant_id source_type user u now st))"

definition save_cursor :: "string \<Rightarrow> string \<Rightarrow> string \<Rightarrow> instant \<Rightarrow> sync_state \<Rightarrow> sync_state" where
  "save_cursor scope source_type cursor now s = s\<lparr>sy_cursors := update_cursor scope source_type cursor now (sy_cursors s)\<rparr>"

definition connector_disconnected :: py_error where
  "connector_disconnected = error_of [''RuntimeError''] ''connector_disconnected''"

definition backfill_hooks :: "backfill_job \<Rightarrow> string \<Rightarrow> string \<Rightarrow> crawl_identity \<Rightarrow> hooks" where
  "backfill_hooks job tenant_id source_type ci =
     \<lparr>hk_cursor = (\<lambda>cursor s.
        if is_disconnected tenant_id source_type (status_user ci) (sy_status s) then (Inl connector_disconnected, s)
        else (Inr (), save_cursor (ci_scope ci) source_type cursor (se_now (bj_env job) (sy_tick s)) s)),
      hk_progress = (\<lambda>n s.
        if is_disconnected tenant_id source_type (status_user ci) (sy_status s) then (Inl connector_disconnected, s)
        else (Inr (), mark tenant_id source_type (status_user ci)
               ((status_change ''syncing'')\<lparr>su_files_indexed := Some (int n)\<rparr>) (se_now (bj_env job) (sy_tick s)) s))\<rparr>"

text \<open>Up to the crawl: \<open>None\<close> says that a disconnect aborts the task.\<close>

definition admit ::
    "backfill_job \<Rightarrow> string \<Rightarrow> string \<Rightarrow> string \<Rightarrow> sync_state \<Rightarrow> (py_error + crawl_identity option) \<times> sync_state" where
  "admit job tenant_id source_type user_id s =
     (let ci = first_identity job tenant_id user_id; now = se_now (bj_env job) (sy_tick s) in
      if is_google source_type then
        let s = mark tenant_id source_type (status_user ci)
                  ((status_change ''syncing'')\<lparr>su_last_error := Some [], su_force := True\<rparr>) now s
        in (Inr (if status_user ci \<noteq> [] \<and> is_disconnected tenant_id source_type (status_user ci) (sy_status s)
                 then None else Some ci), s)
      else if is_microsoft source_type then
        (case bj_prepare job (ci_principal ci) of
           Inl e \<Rightarrow> (Inl e, s)
         | Inr p \<Rightarrow>
             let ci = adopt_principal tenant_id (str_strip (or_else p (ci_principal ci))) ci
             in (Inr (if status_user ci \<noteq> [] \<and> is_disconnected tenant_id source_type (status_user ci) (sy_status s)
                      then None else Some ci), s))
      else (Inr (Some ci), s))"

definition blob_identity :: "backfill_job \<Rightarrow> string \<Rightarrow> crawl_identity \<Rightarrow> crawl_identity" where
  "blob_identity job tenant_id ci =
     (if ci_principal ci \<noteq> [] then ci else adopt_principal tenant_id (str_strip (bj_blob_principal job)) ci)"

definition owner_acl :: "string \<Rightarrow> crawl_identity \<Rightarrow> string list" where
  "owner_acl mailbox_email ci =
     generate_acl_terms_for_user (Some (or_else (ci_principal ci) (ci_user ci))) (Some mailbox_email) None"

text \<open>After the crawl: the final cursor, or for Drive without one the start token of the change feed.\<close>

definition store_final_cursor ::
    "backfill_job \<Rightarrow> string \<Rightarrow> crawl_identity \<Rightarrow> sync_stats \<Rightarrow> sync_state \<Rightarrow> string option \<times> sync_state" where
  "store_final_cursor job source_type ci st s =
     (let now = se_now (bj_env job) (sy_tick s) in
      if cursor_set (ts_final_cursor st)
      then (ts_final_cursor st, save_cursor (ci_scope ci) source_type (the (ts_final_cursor st)) now s)
      else if source_type \<noteq> ''google_drive'' then (ts_final_cursor st, s)
      else (let next = s\<lparr>sy_tick := Suc (sy_tick s)\<rparr> in
            case bj_start_token job (sy_tick s) of
              Inl _ \<Rightarrow> (ts_final_cursor st, next)
            | Inr t \<Rightarrow> if t = [] then (ts_final_cursor st, next)
                       else (Some t, save_cursor (ci_scope ci) source_type t now next)))"

text \<open>For Gmail the history identifier of the watch replaces the page token. A value that is no string is not stored.\<close>

definition adopt_history :: "backfill_job \<Rightarrow> string \<Rightarrow> crawl_identity \<Rightarrow> sync_state \<Rightarrow> (py_error + unit) \<times> sync_state" where
  "adopt_history job source_type ci s =
     (if source_type \<noteq> ''google_gmail'' then (Inr (), s)
      else (case get_watch_info (ci_scope ci) source_type (sy_cursors s) of
              None \<Rightarrow> (Inr (), s)
            | Some w \<Rightarrow>
                (case map_of w ''history_id'' of
                   None \<Rightarrow> (Inr (), s)
                 | Some (PStr h) \<Rightarrow> (Inr (), save_cursor (ci_scope ci) source_type h (se_now (bj_env job) (sy_tick s)) s)
                 | Some PNone \<Rightarrow> (Inr (), save_cursor (ci_scope ci) source_type [] (se_now (bj_env job) (sy_tick s)) s)
                 | Some _ \<Rightarrow> (Inl (error_of [''DBAPIError''] ''expected str''), s))))"

definition finish_backfill ::
    "backfill_job \<Rightarrow> string \<Rightarrow> string \<Rightarrow> crawl_identity \<Rightarrow> sync_stats \<Rightarrow> sync_state \<Rightarrow>
     (py_error + backfill_result) \<times> sync_state" where
  "finish_backfill job tenant_id source_type ci st s =
     (let (final, s) = store_final_cursor job source_type ci st s;
          now = se_now (bj_env job) (sy_tick s);
          s = register_watches (bj_worker job) (bj_watch job) now source_type (ci_scope ci) final s;
          (r, s) = adopt_history job source_type ci s
      in case r of
           Inl e \<Rightarrow> (Inl e, s)
         | Inr _ \<Rightarrow>
             if is_disconnected tenant_id source_type (status_user ci) (sy_status s)
             then (Inr (Aborted (ts_indexed_count st)), s)
             else (Inr (Completed st), mark tenant_id source_type (status_user ci)
                    ((status_change ''active'')\<lparr>su_files_indexed := Some (int (ts_indexed_count st)), su_last_error := Some []\<rparr>) now s))"

definition backfill_sync :: "backfill_job \<Rightarrow> connector \<Rightarrow> string \<Rightarrow> string \<Rightarrow> string \<Rightarrow> crawl_identity \<Rightarrow> sync_job" where
  "backfill_sync job cn tenant_id source_type mailbox_email ci =
     \<lparr>sj_env = bj_env job, sj_connector = cn, sj_tenant_id = tenant_id,
      sj_extra_acl = owner_acl mailbox_email ci, sj_hooks = backfill_hooks job tenant_id source_type ci\<rparr>"

lemma backfill_sync_hooks [simp]: "sj_hooks (backfill_sync job cn t src mb ci) = backfill_hooks job t src ci"
  by (simp add: backfill_sync_def)

definition crawl_source ::
    "backfill_job \<Rightarrow> string \<Rightarrow> string \<Rightarrow> string \<Rightarrow> crawl_identity \<Rightarrow> sync_state \<Rightarrow>
     ((py_error + backfill_result) \<times> sync_state) option" where
  "crawl_source job tenant_id source_type mailbox_email ci s =
     (case bj_connector job source_type of
        Inl e \<Rightarrow> Some (Inl e, s)
      | Inr cn \<Rightarrow>
          (let resume = get_cursor (ci_scope ci) source_type (sy_cursors s);
               resume = (if cursor_set resume then resume else None);
               sync = backfill_sync job cn tenant_id source_type mailbox_email ci
           in case run_two_pass_sync sync resume s of
                None \<Rightarrow> None
              | Some (Inl e, s) \<Rightarrow>
                  (if isa e ''RuntimeError'' \<and> contains ''connector_disconnected'' (pe_text e) then Some (Inr (Aborted 0), s)
                   else Some (Inl e, s))
              | Some (Inr st, s) \<Rightarrow> Some (finish_backfill job tenant_id source_type ci st s)))"

datatype task_failure = Retry py_error | Fail py_error

text \<open>The handler around everything: the status, and a retry for rate limits.\<close>

definition needs_reauth :: "py_error \<Rightarrow> bool" where
  "needs_reauth e = (isa e ''UnauthorizedError'' \<or> isa e ''InvalidTokenError'' \<or> isa e ''RevokedTokenError'' \<or>
     contains ''Unauthorized'' (pe_text e) \<or> contains ''refresh'' (str_lower (pe_text e)) \<or>
     contains ''re-authorize'' (str_lower (pe_text e)) \<or> contains ''No Microsoft OAuth tokens'' (pe_text e))"

definition rate_limited :: "py_error \<Rightarrow> bool" where
  "rate_limited e = (contains ''429'' (pe_text e) \<or> contains ''quota'' (str_lower (pe_text e)))"

definition backfill_failed ::
    "backfill_job \<Rightarrow> string \<Rightarrow> string \<Rightarrow> string \<Rightarrow> py_error \<Rightarrow> sync_state \<Rightarrow>
     (task_failure + backfill_result) \<times> sync_state" where
  "backfill_failed job tenant_id source_type user e s =
     (if contains ''connector_disconnected'' (pe_text e) then (Inr (Aborted 0), s)
      else let s = mark tenant_id source_type user
                     ((status_change (if needs_reauth e then ''needs_reauth'' else ''error''))
                        \<lparr>su_last_error := Some (hd (pe_classes e))\<rparr>) (se_now (bj_env job) (sy_tick s)) s
           in (Inl (if rate_limited e then Retry e else Fail e), s))"

definition backfill_tenant_source ::
    "backfill_job \<Rightarrow> string \<Rightarrow> string \<Rightarrow> string \<Rightarrow> sync_state \<Rightarrow>
     ((task_failure + backfill_result) \<times> sync_state) option" where
  "backfill_tenant_source job tenant_id source_type user_id s =
     (case validate_tenant_auth (bj_worker job) (se_vault (bj_env job)) tenant_id s of
        (Inl e, s) \<Rightarrow> Some (backfill_failed job tenant_id source_type user_id e s)
      | (Inr _, s) \<Rightarrow>
          (case admit job tenant_id source_type user_id s of
             (Inl e, s) \<Rightarrow> Some (backfill_failed job tenant_id source_type user_id e s)
           | (Inr None, s) \<Rightarrow> Some (Inr (Aborted 0), s)
           | (Inr (Some ci), s) \<Rightarrow>
               (let mailbox_email = bj_mailbox job (ci_principal ci); ci = blob_identity job tenant_id ci in
                case crawl_source job tenant_id source_type mailbox_email ci s of
                  None \<Rightarrow> None
                | Some (Inl e, s) \<Rightarrow> Some (backfill_failed job tenant_id source_type (ci_user ci) e s)
                | Some (Inr r, s) \<Rightarrow> Some (Inr r, s))))"

subsection \<open>A disconnect and the task\<close>

lemma is_disconnected_mark:
  assumes "is_disconnected t src u (sy_status s)" "\<not> su_force x"
  shows "is_disconnected t src u (sy_status (mark t' src' u' x now s))"
  using set_status_keeps_disconnect [OF assms] by (simp add: mark_def on_status_def)

lemma status_change_force [simp]: "\<not> su_force (status_change c)"
  by (simp add: status_change_def)

text \<open>
  For a Google source the check for a user who disconnected while the task was queued
  never fires: the forced status written just before it erases the disconnect, and the task goes on.
\<close>

theorem queued_disconnect_is_overridden:
  assumes "is_google source_type" "admit job tenant_id source_type user_id s = (r, s')"
  shows "r = Inr (Some (first_identity job tenant_id user_id)) \<and>
    \<not> is_disconnected tenant_id source_type (status_user (first_identity job tenant_id user_id)) (sy_status s')"
proof -
  let ?u = "status_user (first_identity job tenant_id user_id)"
  have "\<not> is_disconnected tenant_id source_type ?u (sy_status (mark tenant_id source_type ?u
      ((status_change ''syncing'')\<lparr>su_last_error := Some [], su_force := True\<rparr>) now s))" for now
    by (cases "ss_client (sy_status s)")
      (simp_all add: mark_def on_status_def set_status_def Let_def is_disconnected_put apply_status_def status_change_def,
       simp add: is_disconnected_def get_status_raw_def)
  then show ?thesis using assms by (auto simp: admit_def Let_def)
qed

interpretation disconnect: sync_invariant "\<lambda>s. is_disconnected t src u (sy_status s)" "backfill_sync job cn tenant_id source_type mb ci"
  for t src u job cn tenant_id source_type mb ci
proof
  fix s c r s' assume "is_disconnected t src u (sy_status s)"
    "hk_cursor (sj_hooks (backfill_sync job cn tenant_id source_type mb ci)) c s = (r, s')"
  then show "is_disconnected t src u (sy_status s')" by (auto simp: backfill_hooks_def save_cursor_def split: if_splits)
next
  fix s n r s' assume "is_disconnected t src u (sy_status s)"
    "hk_progress (sj_hooks (backfill_sync job cn tenant_id source_type mb ci)) n s = (r, s')"
  then show "is_disconnected t src u (sy_status s')"
    by (auto simp: backfill_hooks_def intro!: is_disconnected_mark split: if_splits)
qed (auto dest: batch_frame(2))

lemma register_watches_status [simp]: "sy_status (register_watches ws api now src scope c s) = sy_status s"
  by (simp add: register_watches_def Let_def split: option.split prod.split sum.split)

lemma adopt_history_status:
  assumes "adopt_history job src ci s = (r, s')" shows "sy_status s' = sy_status s"
  using assms by (auto simp: adopt_history_def save_cursor_def split: if_splits option.splits pyval.splits)

lemma store_final_cursor_status:
  assumes "store_final_cursor job src ci st s = (r, s')" shows "sy_status s' = sy_status s"
  using assms by (auto simp: store_final_cursor_def save_cursor_def Let_def split: if_splits sum.splits)


subsection \<open>A source that only fails\<close>

definition only_fails :: "connector \<Rightarrow> bool" where
  "only_fails cn \<longleftrightarrow>
     (\<forall>n c. \<exists>e. cn_fetch_deleted_ids cn n c = Inl e \<and> \<not> isa e ''UnauthorizedError'') \<and>
     (\<forall>n c. \<exists>e. cn_fetch_delta cn n c = Inl e \<and> \<not> isa e ''UnauthorizedError'')"

lemma failing_deletions:
  assumes "only_fails (sj_connector job)" "cw_phase c = Going"
  shows "deletion_pass job c = Some ((next_tick c)\<lparr>cw_phase := Ended\<rparr>)"
proof -
  obtain e where "cn_fetch_deleted_ids (sj_connector job) (sy_tick (cw_state c)) (cw_cursor c) = Inl e"
      "\<not> isa e ''UnauthorizedError''"
    using assms(1) unfolding only_fails_def by blast
  then have "deletion_step job c = (next_tick c)\<lparr>cw_phase := Ended\<rparr>" by (simp add: deletion_step_def)
  then show ?thesis
    using assms(2) pass_unfold [of "deletion_step job" c] pass_unfold [of "deletion_step job" "deletion_step job c"]
    by (simp add: deletion_pass_def)
qed

lemma failing_delta:
  assumes "only_fails (sj_connector job)" "cw_phase c = Going" "cw_cursor c = None"
  shows "delta_pass job c = Some ((next_tick c)\<lparr>cw_phase := Ended\<rparr>)"
proof -
  obtain e where "cn_fetch_delta (sj_connector job) (sy_tick (cw_state c)) (cw_cursor c) = Inl e"
      "\<not> isa e ''UnauthorizedError''"
    using assms(1) unfolding only_fails_def by blast
  then have "delta_step job c = (next_tick c)\<lparr>cw_phase := Ended\<rparr>"
    using assms(3) by (simp add: delta_step_def delta_failed_def)
  then show ?thesis
    using assms(2) pass_unfold [of "delta_step job" c] pass_unfold [of "delta_step job" "delta_step job c"]
    by (simp add: delta_pass_def)
qed

lemma failing_sync:
  assumes "only_fails (sj_connector job)"
  shows "\<exists>s'. run_two_pass_sync job None s = Some (Inr (start_stats None), s') \<and> sy_status s' = sy_status s"
proof -
  let ?c = "begin_pass None (start_stats None) s"
  have g: "cw_phase (begin_pass None st t) = Going" "cw_cursor (begin_pass None st t) = None"
      "cw_stats (begin_pass None st t) = st" "cw_state (begin_pass None st t) = t" for st t
    by (simp_all add: begin_pass_def)
  show ?thesis
    by (simp add: run_two_pass_sync_def failing_deletions [OF assms g(1)] failing_delta [OF assms g(1,2)] outcome_def g)
qed

text \<open>
  A crawl whose source answers every request with an error that is no authentication
  failure (a rate limit, a server error, a lost network) completes with nothing indexed, and the
  connector is marked active without an error; the retry for rate limits is never reached.
\<close>

theorem failed_crawl_is_reported_active:
  assumes "bj_connector job source_type = Inr cn" "only_fails cn"
    and "\<not> cursor_set (get_cursor (ci_scope ci) source_type (sy_cursors s))"
    and "source_type \<noteq> ''google_gmail''" "ss_client (sy_status s)"
    and "\<not> is_disconnected tenant_id source_type (status_user ci) (sy_status s)"
  shows "\<exists>s'. crawl_source job tenant_id source_type mailbox_email ci s = Some (Inr (Completed (start_stats None)), s') \<and>
    cs_connection_status (get_status tenant_id source_type (status_user ci) (sy_status s')) = ''active'' \<and>
    cs_last_error (get_status tenant_id source_type (status_user ci) (sy_status s')) = Some []"
proof -
  let ?sync = "backfill_sync job cn tenant_id source_type mailbox_email ci"
  have "only_fails (sj_connector ?sync)" using assms(2) by (simp add: backfill_sync_def)
  then obtain s1 where run: "run_two_pass_sync ?sync None s = Some (Inr (start_stats None), s1)" "sy_status s1 = sy_status s"
    using failing_sync by blast
  then have crawl: "crawl_source job tenant_id source_type mailbox_email ci s =
      Some (finish_backfill job tenant_id source_type ci (start_stats None) s1)"
    using assms(1,3) by (simp add: crawl_source_def Let_def)
  obtain final s2 where final: "store_final_cursor job source_type ci (start_stats None) s1 = (final, s2)" by fastforce
  have st: "sy_status s2 = sy_status s" using store_final_cursor_status [OF final] run(2) by simp
  have key: "get_status t src u (put_status (status_key t src u) d x) = d" if "ss_client x" for t src u d x
    using that by (simp add: get_status_def get_status_raw_def put_status_def map_of_update)
  show ?thesis
    unfolding crawl finish_backfill_def
    using assms(4-6)
    by (simp add: final Let_def adopt_history_def st mark_def on_status_def set_status_def key apply_status_def status_change_def)
qed

subsection \<open>Examples\<close>

definition demo_failing :: connector where
  "demo_failing = \<lparr>cn_source_type = ''google_drive'',
     cn_fetch_deleted_ids = (\<lambda>_ _. Inl (error_of [''HTTPStatusError''] ''503'')),
     cn_fetch_delta = (\<lambda>_ _. Inl (error_of [''HTTPStatusError''] ''429 quota exceeded'')), cn_transform = (\<lambda>_ _. Inr [])\<rparr>"

definition demo_backfill :: "connector \<Rightarrow> backfill_job" where
  "demo_backfill cn = \<lparr>bj_worker = \<lparr>ws_dev = True, ws_loop_busy = False, ws_public_url = False, ws_topic = None\<rparr>,
     bj_env = demo_sync_env, bj_watch = \<lparr>wa_drive = (\<lambda>_ _ _. Inr []), wa_gmail = (\<lambda>_. Inr []), wa_hex = (\<lambda>_. ([], [])),
       wa_microsoft = (\<lambda>_ _ _ _ t. t)\<rparr>,
     bj_connector = (\<lambda>_. Inr cn), bj_org_admin = [], bj_prepare = (\<lambda>_. Inr []), bj_mailbox = (\<lambda>_. ''bob@x.org''),
     bj_blob_principal = [], bj_start_token = (\<lambda>_. Inr ''99'')\<rparr>"

definition demo_identity :: crawl_identity where
  "demo_identity = first_identity (demo_backfill (demo_connector [])) (uuid_str 1) ''bob''"

definition disconnected_state :: sync_state where
  "disconnected_state = demo_sync_state\<lparr>sy_status :=
     snd (clear_status (uuid_str 1) ''google_drive'' ''bob'' (sy_status demo_sync_state))\<rparr>"

lemma demo_status_user: "status_user demo_identity = ''bob''"
  by code_simp

lemma demo_disconnected: "is_disconnected (uuid_str 1) ''google_drive'' ''bob'' (sy_status disconnected_state)"
  by code_simp

theorem queued_disconnect_is_overridden_witness:
  "\<not> is_disconnected (uuid_str 1) ''google_drive'' ''bob'' (sy_status (snd
     (admit (demo_backfill (demo_connector [])) (uuid_str 1) ''google_drive'' ''bob'' disconnected_state)))"
proof -
  have g: "is_google ''google_drive''" by code_simp
  obtain r s' where a: "admit (demo_backfill (demo_connector [])) (uuid_str 1) ''google_drive'' ''bob'' disconnected_state = (r, s')"
    by fastforce
  show ?thesis
    using queued_disconnect_is_overridden [OF g a] demo_status_user unfolding a demo_identity_def by simp
qed

lemma demo_disconnected_run:
  "crawl_source (demo_backfill (demo_connector [])) (uuid_str 1) ''google_drive'' ''bob@x.org'' demo_identity disconnected_state \<noteq> None"
  by code_simp


lemma demo_only_fails: "only_fails demo_failing"
  by (simp add: only_fails_def demo_failing_def)

theorem failed_crawl_is_reported_active_witness:
  "\<exists>s'. crawl_source (demo_backfill demo_failing) (uuid_str 1) ''google_drive'' ''bob@x.org'' demo_identity demo_sync_state =
     Some (Inr (Completed (start_stats None)), s') \<and>
     cs_connection_status (get_status (uuid_str 1) ''google_drive'' ''bob'' (sy_status s')) = ''active''"
proof -
  have c: "bj_connector (demo_backfill demo_failing) ''google_drive'' = Inr demo_failing" by (simp add: demo_backfill_def)
  have n: "\<not> cursor_set (get_cursor (ci_scope demo_identity) ''google_drive'' (sy_cursors demo_sync_state))" by code_simp
  have up: "ss_client (sy_status demo_sync_state)" by code_simp
  have d: "\<not> is_disconnected (uuid_str 1) ''google_drive'' (status_user demo_identity) (sy_status demo_sync_state)" by code_simp
  have "''google_drive'' \<noteq> ''google_gmail''" by simp
  from failed_crawl_is_reported_active [OF c demo_only_fails n this up d] show ?thesis
    unfolding demo_status_user by blast
qed

end
