(* ===== verification/Index_Invariant.thy ===== *)
theory Index_Invariant
  imports Backfill
begin

text \<open>
  The shape of what the indexer stores (\<open>backend/app/services/indexer.py\<close>): each entry under the key
  made of its own fields, within the payload bound, and with ACL terms that are trimmed, distinct,
  non-empty and never the wildcard. Every indexing operation keeps it, and so does a whole backfill.
\<close>

subsection \<open>Well-formed entries\<close>

definition tidy_terms :: "string list \<Rightarrow> bool" where
  "tidy_terms ts \<longleftrightarrow> clean ts \<and> (\<forall>t \<in> set ts. str_strip t = t)"

definition document_wf :: "index_settings \<Rightarrow> point_id \<Rightarrow> processed_doc \<Rightarrow> bool" where
  "document_wf st k d \<longleftrightarrow> pd_id d \<noteq> [] \<and> k = to_qdrant_id (is_uuid5 st) (pd_id d) \<and>
     int (length (pd_content d)) \<le> 8000 \<and> tidy_terms (pd_acl_terms d)"

definition chunk_wf :: "string \<times> string \<times> string \<Rightarrow> vector_chunk \<Rightarrow> bool" where
  "chunk_wf k c \<longleftrightarrow> snd k = (vk_chunk_id c, vk_model_version c) \<and> tidy_terms (vk_acl_terms c)"

definition lexical_wf :: "string \<times> string \<Rightarrow> lexical_doc \<Rightarrow> bool" where
  "lexical_wf k d \<longleftrightarrow> snd k = xd_document_id d \<and> tidy_terms (xd_acl_filter_terms d)"

definition entries_wf :: "('k \<Rightarrow> 'v \<Rightarrow> bool) \<Rightarrow> ('k, 'v) dict \<Rightarrow> bool" where
  "entries_wf P d \<longleftrightarrow> dict_wf d \<and> (\<forall>(k, v) \<in> set d. P k v)"

definition index_wf :: "index_settings \<Rightarrow> index_state \<Rightarrow> bool" where
  "index_wf st ix \<longleftrightarrow> entries_wf (document_wf st) (ix_documents ix) \<and>
     entries_wf chunk_wf (ix_vectors ix) \<and> entries_wf lexical_wf (ix_lexical ix)"

lemma entries_wf_Nil [simp]: "entries_wf P []"
  by (simp add: entries_wf_def dict_wf_def)

lemma entries_wf_iff:
  assumes "dict_wf d"
  shows "entries_wf P d \<longleftrightarrow> (\<forall>k v. map_of d k = Some v \<longrightarrow> P k v)"
proof -
  have "(\<forall>(k, v) \<in> set d. P k v) \<longleftrightarrow> (\<forall>k v. (k, v) \<in> set d \<longrightarrow> P k v)" by blast
  then show ?thesis using assms by (simp add: entries_wf_def in_set_dict_iff)
qed

lemma entries_wf_update:
  assumes "entries_wf P d" "P k v"
  shows "entries_wf P (AList.update k v d)"
proof -
  have "dict_wf d" using assms(1) by (simp add: entries_wf_def)
  then show ?thesis
    using assms entries_wf_iff [of d P] entries_wf_iff [of "AList.update k v d" P]
    by (auto simp: map_of_update split: if_splits)
qed

lemma entries_wf_filter: "entries_wf P d \<Longrightarrow> entries_wf P (filter Q d)"
  by (auto simp: entries_wf_def intro: dict_wf_filter)

definition merge_term :: "string list \<Rightarrow> string \<Rightarrow> string list" where
  "merge_term merged t =
     (let term_str = str_strip t
      in if term_str \<noteq> [] \<and> term_str \<notin> set merged \<and> term_str \<noteq> ''*'' then merged @ [term_str] else merged)"

lemma merge_term_tidy: "tidy_terms ts \<Longrightarrow> tidy_terms (merge_term ts t)"
  by (auto simp: merge_term_def tidy_terms_def clean_def Let_def)

lemma tidy_doc_acl_terms: "tidy_terms (doc_acl_terms ps extra)"
proof -
  have step: "tidy_terms (foldl merge_term acc ts)" if "tidy_terms acc" for acc ts
    using that by (induction ts arbitrary: acc) (simp_all add: merge_term_tidy)
  have "tidy_terms (foldl merge_term (foldl merge_term [] ps) extra)"
    by (intro step) (simp add: tidy_terms_def)
  moreover have "doc_acl_terms ps extra = foldl merge_term (foldl merge_term [] ps) extra"
    by (simp add: doc_acl_terms_def merge_acl_terms_def merge_term_def [abs_def])
  ultimately show ?thesis by simp
qed

subsection \<open>Indexing keeps the shape\<close>

lemma put_document_wf:
  assumes "index_wf st ix" "int (length (pd_content d)) \<le> 8000" "tidy_terms (pd_acl_terms d)"
  shows "index_wf st (put_document st ix d)"
  using assms by (auto simp: put_document_def index_wf_def document_wf_def intro!: entries_wf_update)

lemma put_chunk_wf:
  assumes "index_wf st ix" "tidy_terms (vk_acl_terms c)"
  shows "index_wf st (put_chunk t ix c)"
  using assms by (auto simp: put_chunk_def index_wf_def chunk_wf_def intro!: entries_wf_update)

lemma put_lexical_wf:
  assumes "index_wf st ix" "tidy_terms (xd_acl_filter_terms d)"
  shows "index_wf st (put_lexical t ix d)"
  using assms by (auto simp: put_lexical_def index_wf_def lexical_wf_def intro!: entries_wf_update)

lemma fan_out_doc_wf: "index_wf st (fan_out_doc st' t x ix d) = index_wf st ix"
  by (simp add: fan_out_doc_def index_wf_def Let_def)

lemma foldl_wf:
  assumes "\<And>ix d. d \<in> set ds \<Longrightarrow> index_wf st ix \<Longrightarrow> index_wf st (f ix d)" "index_wf st ix"
  shows "index_wf st (foldl f ix ds)"
  using assms by (induction ds arbitrary: ix) auto

lemma cut_payload_wf:
  "length (pd_content (cut_payload d)) \<le> 8000" "pd_acl_terms (cut_payload d) = pd_acl_terms d"
  by (simp_all add: cut_payload_def)

lemma fanout_wf:
  assumes "index_wf st ix"
  shows "index_wf st (fanout_search_pipeline st' ds t x ix)"
  unfolding fanout_search_pipeline_def Let_def
  by (auto simp: lexical_doc_of_def pending_chunks_def vector_chunk_of_def tidy_doc_acl_terms fan_out_doc_wf assms
      intro!: foldl_wf put_chunk_wf put_lexical_wf)

lemma bulk_index_wf:
  assumes "index_wf st ix"
  shows "index_wf st (bulk_index st docs t x ix)"
proof -
  let ?ds = "map (processed_of (is_allowed_keys st) t x) docs"
  have "index_wf st (foldl (put_document st) ix (map cut_payload ?ds))"
    by (auto simp: cut_payload_wf processed_of_def Let_def tidy_doc_acl_terms assms intro!: foldl_wf put_document_wf)
  then show ?thesis using assms by (simp add: bulk_index_def Let_def fanout_wf)
qed

lemma delete_by_ids_wf:
  assumes "index_wf st ix" "delete_by_ids st' ids t src ix = (r, ix')"
  shows "index_wf st ix'"
  using assms by (auto simp: delete_by_ids_def drop_documents_def index_wf_def Let_def
      intro: entries_wf_filter split: if_splits option.splits)

lemma delete_by_source_wf:
  assumes "index_wf st ix" "delete_by_source st' t src ix = (n, ix')"
  shows "index_wf st ix'"
  using assms by (auto simp: delete_by_source_def drop_documents_def index_wf_def Let_def
      intro: entries_wf_filter split: if_splits option.splits prod.splits)

lemma batch_wf:
  assumes "index_wf st (sy_index s)" "process_raw_batch env raws src t req s = (b, s')"
  shows "index_wf st (sy_index s')"
  using assms(1) batch_frame(3-5) [OF assms(2)] by (simp add: index_wf_def)

interpretation wf: sync_invariant "\<lambda>s. index_wf (se_index (bj_env job)) (sy_index s)" "backfill_sync job cn t src mb ci"
  for job cn t src mb ci
  by unfold_locales
    (auto simp: backfill_sync_def backfill_hooks_def save_cursor_def mark_def on_status_def
      intro: delete_by_ids_wf bulk_index_wf batch_wf split: if_splits)

subsection \<open>The whole backfill\<close>

lemma register_watches_index [simp]: "sy_index (register_watches ws api now src scope c s) = sy_index s"
  by (simp add: register_watches_def Let_def split: option.split prod.split sum.split)

lemma finish_backfill_index:
  assumes "finish_backfill job t src ci st s = (r, s')"
  shows "sy_index s' = sy_index s"
proof -
  have f: "sy_index s2 = sy_index s1" if "store_final_cursor job src ci st s1 = (x, s2)" for x s1 s2
    using that by (auto simp: store_final_cursor_def save_cursor_def Let_def split: if_splits sum.splits)
  have h: "sy_index s2 = sy_index s1" if "adopt_history job src ci s1 = (x, s2)" for x s1 s2
    using that by (auto simp: adopt_history_def save_cursor_def split: if_splits option.splits pyval.splits)
  show ?thesis
    using assms by (auto simp: finish_backfill_def Let_def mark_def on_status_def dest!: f h split: prod.splits sum.splits if_splits)
qed

lemma crawl_source_wf:
  assumes "index_wf (se_index (bj_env job)) (sy_index s)" "crawl_source job t src mb ci s = Some (r, s')"
  shows "index_wf (se_index (bj_env job)) (sy_index s')"
proof (cases "bj_connector job src")
  case (Inl e)
  then show ?thesis using assms by (auto simp: crawl_source_def)
next
  case (Inr cn)
  define resume where "resume = (if cursor_set (get_cursor (ci_scope ci) src (sy_cursors s))
    then get_cursor (ci_scope ci) src (sy_cursors s) else None)"
  obtain x s1 where run: "run_two_pass_sync (backfill_sync job cn t src mb ci) resume s = Some (x, s1)"
    using assms(2) Inr by (auto simp: crawl_source_def resume_def [symmetric] Let_def split: option.splits)
  have "index_wf (se_index (bj_env job)) (sy_index s1)" using assms(1) run by (rule wf.synced)
  moreover have "sy_index s' = sy_index s1"
    using assms(2) Inr run finish_backfill_index
    by (cases x) (auto simp: crawl_source_def resume_def [symmetric] Let_def split: if_splits)
  ultimately show ?thesis by simp
qed

lemma admit_index:
  assumes "admit job t src u s = (r, s')" shows "sy_index s' = sy_index s"
  using assms by (auto simp: admit_def Let_def mark_def on_status_def split: if_splits sum.splits)

lemma backfill_failed_index:
  assumes "backfill_failed job t src u e s = (r, s')" shows "sy_index s' = sy_index s"
  using assms by (auto simp: backfill_failed_def Let_def mark_def on_status_def split: if_splits)

lemma backfill_failed_wf:
  assumes "backfill_failed job t src u e s = (r, s')" "index_wf st (sy_index s)"
  shows "index_wf st (sy_index s')"
  using assms(2) backfill_failed_index [OF assms(1)] by simp

lemma validate_index:
  assumes "validate_tenant_auth ws v t s = (r, s')" shows "sy_index s' = sy_index s"
  using assms by (auto simp: validate_tenant_auth_def Let_def split: if_splits prod.splits sum.splits)

text \<open>
  Property C24: a backfill, however it ends, leaves a well-formed index well-formed: every document is
  stored under the point of its own non-empty identifier with at most 8000 characters, every chunk and
  lexical entry under its own key, no key twice, and no entry carries an untrimmed, empty, repeated or
  wildcard access term, whatever the connector and the pipeline give.
\<close>

theorem backfill_keeps_index_well_formed:
  assumes "index_wf (se_index (bj_env job)) (sy_index s)"
    and "backfill_tenant_source job tenant_id source_type user_id s = Some (r, s')"
  shows "index_wf (se_index (bj_env job)) (sy_index s')"
proof -
  obtain v s1 where v: "validate_tenant_auth (bj_worker job) (se_vault (bj_env job)) tenant_id s = (v, s1)" by fastforce
  obtain ci s2 where a: "admit job tenant_id source_type user_id s1 = (ci, s2)" by fastforce
  have wf: "index_wf (se_index (bj_env job)) (sy_index s1)" "index_wf (se_index (bj_env job)) (sy_index s2)"
    using assms(1) validate_index [OF v] admit_index [OF a] by simp_all
  show ?thesis
    using assms(2) wf
    by (auto simp: backfill_tenant_source_def v a Let_def dest: crawl_source_wf [OF wf(2)] dest!: backfill_failed_wf
        split: sum.splits option.splits prod.splits)
qed

definition demo_plain :: connector where
  "demo_plain = (demo_connector [[]])\<lparr>cn_transform := (\<lambda>_ _. Inr [\<lparr>ud_id = ''m1'', ud_title = ''Hi'', ud_content = ''text'',
     ud_source_type = ''google_drive'', ud_url = ''u'', ud_permissions = [''user:bob''], ud_created_at = 1, ud_updated_at = 1,
     ud_source_updated_at = 1, ud_structured_metadata = []\<rparr>])\<rparr>"

lemma demo_plain_indexed:
  "map_option (\<lambda>(r, s). map fst (ix_documents (sy_index s)))
     (backfill_tenant_source (demo_backfill demo_plain) ''t'' ''google_drive'' ''bob'' demo_sync_state) = Some [PointUuid ''m1'']"
  by code_simp

theorem backfill_keeps_index_well_formed_witness:
  "\<exists>r s'. backfill_tenant_source (demo_backfill demo_plain) ''t'' ''google_drive'' ''bob'' demo_sync_state = Some (r, s') \<and>
     map fst (ix_documents (sy_index s')) = [PointUuid ''m1''] \<and>
     index_wf (se_index (bj_env (demo_backfill demo_plain))) (sy_index s')"
proof -
  obtain r s' where run: "backfill_tenant_source (demo_backfill demo_plain) ''t'' ''google_drive'' ''bob'' demo_sync_state = Some (r, s')"
    and docs: "map fst (ix_documents (sy_index s')) = [PointUuid ''m1'']"
    using demo_plain_indexed by auto
  have "index_wf (se_index (bj_env (demo_backfill demo_plain))) (sy_index demo_sync_state)"
    by (simp add: index_wf_def demo_sync_state_def empty_index_def)
  then have "index_wf (se_index (bj_env (demo_backfill demo_plain))) (sy_index s')"
    using run by (rule backfill_keeps_index_well_formed)
  with run docs show ?thesis by (intro exI conjI)
qed

end
