(* ===== verification/Notifications.thy ===== *)
theory Notifications
  imports Backfill
begin

text \<open>
  What happens on a push notification: the webhooks that authenticate it
  (\<open>backend/app/connectors/google/webhooks.py\<close>, \<open>backend/app/connectors/microsoft/webhooks.py\<close>), the
  incremental tasks behind them and the maintenance tasks for a connector's documents
  (\<open>backend/app/workers/tasks.py\<close>). The connectors' change feeds are parameters. A webhook returns the
  tasks it queues.
\<close>

subsection \<open>Incremental tasks\<close>

record notice_delta =
  nd_documents :: "pydict list"
  nd_deleted_ids :: "string list"
  nd_next_cursor :: "string option"

record notice_env =
  ne_worker :: worker_settings
  ne_sync :: sync_env
  ne_feed :: "nat \<Rightarrow> string \<Rightarrow> string \<Rightarrow> py_error + notice_delta"   \<comment> \<open>by tenant and cursor\<close>

record notice_result =
  nr_status :: string
  nr_indexed_count :: nat
  nr_deleted_count :: nat

definition no_cursor :: notice_result where
  "no_cursor = \<lparr>nr_status = ''no_cursor'', nr_indexed_count = 0, nr_deleted_count = 0\<rparr>"

text \<open>The hydrated text of a file under the name the pipeline reads.\<close>

definition attach_text :: "pydict \<Rightarrow> pydict" where
  "attach_text raw =
     (case pget raw ''_extracted_text'' of
        PStr t \<Rightarrow> if t = [] then raw else AList.update ''extractedText'' (PStr t) raw
      | _ \<Rightarrow> raw)"

definition compile_failed :: "string \<Rightarrow> py_error" where
  "compile_failed tenant_id = error_of [''RuntimeError'']
     (''webhook ACL compile failed: process_raw_batch returned None tenant='' @ tenant_id)"

text \<open>The batch must be compiled in the tenant's database, then it is indexed under the tenant given.\<close>

definition compile_notice ::
    "sync_env \<Rightarrow> pydict list \<Rightarrow> string \<Rightarrow> string \<Rightarrow> sync_state \<Rightarrow> (py_error + unified_document list) \<times> sync_state" where
  "compile_notice env documents source_type tenant_id s =
     (if documents = [] then (Inr [], s)
      else (case process_raw_batch env documents source_type tenant_id True s of
              (Inl e, s) \<Rightarrow> (Inl e, s)
            | (Inr None, s) \<Rightarrow> (Inl (compile_failed tenant_id), s)
            | (Inr (Some docs), s) \<Rightarrow>
                (Inr docs, s\<lparr>sy_index := bulk_index (se_index env) docs tenant_id [] (sy_index s)\<rparr>)))"

definition drop_notice ::
    "sync_env \<Rightarrow> string list \<Rightarrow> string \<Rightarrow> string \<Rightarrow> sync_state \<Rightarrow> (py_error + unit) \<times> sync_state" where
  "drop_notice env ids source_type tenant_id s =
     (if ids = [] then (Inr (), s)
      else let (r, ix) = delete_by_ids (se_index env) ids tenant_id source_type (sy_index s)
           in (case r of Inl e \<Rightarrow> Inl (error_of_exn e) | Inr _ \<Rightarrow> Inr (), s\<lparr>sy_index := ix\<rparr>))"

definition advance_cursor :: "sync_env \<Rightarrow> string \<Rightarrow> string \<Rightarrow> string option \<Rightarrow> sync_state \<Rightarrow> sync_state" where
  "advance_cursor env scope source_type next_c s =
     (case next_c of
        None \<Rightarrow> s
      | Some c \<Rightarrow> if c = [] then s else save_cursor scope source_type c (se_now env (sy_tick s)) s)"

text \<open>
  What the two tasks have in common: the feed from the stored cursor of the scope, the compilation
  and the deletions under one tenant identifier, and the cursor last.
\<close>

definition apply_delta ::
    "notice_env \<Rightarrow> string \<Rightarrow> string \<Rightarrow> string \<Rightarrow> string \<Rightarrow> (pydict \<Rightarrow> pydict) \<Rightarrow> sync_state \<Rightarrow>
     (py_error + notice_result) \<times> sync_state" where
  "apply_delta ne source_type scope tenant_id cursor prepare_raw s =
     (case ne_feed ne (sy_tick s) tenant_id cursor of
        Inl e \<Rightarrow> (Inl e, s\<lparr>sy_tick := Suc (sy_tick s)\<rparr>)
      | Inr d \<Rightarrow>
          (case compile_notice (ne_sync ne) (map prepare_raw (nd_documents d)) source_type tenant_id
                  (s\<lparr>sy_tick := Suc (sy_tick s)\<rparr>) of
             (Inl e, s) \<Rightarrow> (Inl e, s)
           | (Inr docs, s) \<Rightarrow>
               (case drop_notice (ne_sync ne) (nd_deleted_ids d) source_type tenant_id s of
                  (Inl e, s) \<Rightarrow> (Inl e, s)
                | (Inr _, s) \<Rightarrow>
                    (Inr \<lparr>nr_status = ''success'', nr_indexed_count = length docs, nr_deleted_count = length (nd_deleted_ids d)\<rparr>,
                     advance_cursor (ne_sync ne) scope source_type (nd_next_cursor d) s))))"

definition retry_or_fail :: "py_error \<Rightarrow> task_failure" where
  "retry_or_fail e = (if rate_limited e then Retry e else Fail e)"

text \<open>
  The Drive task: everything under the base tenant. On an authentication failure the code also tries
  to mark the connector row as paused, which is not part of this state.
\<close>

definition scope_tenant :: "string \<Rightarrow> string" where
  "scope_tenant scope = (if CHR '':'' \<in> set scope then hd (split_on (CHR '':'') scope) else scope)"

definition scope_user :: "string \<Rightarrow> string" where
  "scope_user scope = (if CHR '':'' \<in> set scope then split_on (CHR '':'') scope ! 1 else [])"

definition count_new :: "notice_env \<Rightarrow> string \<Rightarrow> notice_result \<Rightarrow> sync_state \<Rightarrow> sync_state" where
  "count_new ne scope r s =
     (if nr_indexed_count r = 0 then s
      else mark (scope_tenant scope) ''google_drive'' (scope_user scope)
             \<lparr>su_connection_status = None, su_files_indexed = None, su_last_error = None,
              su_increment = int (nr_indexed_count r), su_force = False\<rparr> (se_now (ne_sync ne) (sy_tick s)) s)"

definition process_drive_notification ::
    "notice_env \<Rightarrow> string \<Rightarrow> sync_state \<Rightarrow> (task_failure + notice_result) \<times> sync_state" where
  "process_drive_notification ne scope s =
     (case validate_tenant_auth (ne_worker ne) (se_vault (ne_sync ne)) (scope_tenant scope) s of
        (Inl e, s) \<Rightarrow> (Inl (retry_or_fail e), s)
      | (Inr _, s) \<Rightarrow>
          (case get_cursor scope ''google_drive'' (sy_cursors s) of
             None \<Rightarrow> (Inr no_cursor, s)
           | Some cursor \<Rightarrow>
               if cursor = [] then (Inr no_cursor, s)
               else (case apply_delta ne ''google_drive'' scope (scope_tenant scope) cursor attach_text s of
                       (Inl e, s) \<Rightarrow> (Inl (retry_or_fail e), s)
                     | (Inr r, s) \<Rightarrow> (Inr r, count_new ne scope r s))))"

text \<open>The Gmail task: compiled, indexed and deleted under the identifier it was given.\<close>

definition process_gmail_notification ::
    "notice_env \<Rightarrow> string \<Rightarrow> sync_state \<Rightarrow> (task_failure + notice_result) \<times> sync_state" where
  "process_gmail_notification ne scope s =
     (case validate_tenant_auth (ne_worker ne) (se_vault (ne_sync ne)) scope s of
        (Inl e, s) \<Rightarrow> (Inl (retry_or_fail e), s)
      | (Inr _, s) \<Rightarrow>
          (case get_cursor scope ''google_gmail'' (sy_cursors s) of
             None \<Rightarrow> (Inr no_cursor, s)
           | Some cursor \<Rightarrow>
               if cursor = [] then (Inr no_cursor, s)
               else (case apply_delta ne ''google_gmail'' scope scope cursor (\<lambda>raw. raw) s of
                       (Inl e, s) \<Rightarrow> (Inl (retry_or_fail e), s)
                     | (Inr r, s) \<Rightarrow> (Inr r, s))))"

subsection \<open>The Drive poll\<close>

definition enqueue_drive_acl_poll :: "string list \<Rightarrow> nat \<times> string list" where
  "enqueue_drive_acl_poll tenant_ids = (let ids = filter (\<lambda>t. t \<noteq> []) tenant_ids in (length ids, ids))"

definition poll_drive_acl_delta :: "cursor_table \<Rightarrow> nat \<times> string list" where
  "poll_drive_acl_delta t = enqueue_drive_acl_poll (list_tenants_with_cursor ''google_drive'' t)"

subsection \<open>Maintenance of a connector's documents\<close>

text \<open>
  \<open>reindex_connector_documents_task\<close>: the rows of the source, named by their \<open>source_id\<close>, are handed to
  \<open>reindex_by_ids\<close>; the count is that of the rows. The owner's terms are computed and not used.
\<close>

record reindex_report =
  rp_status :: string
  rp_reindexed_count :: nat

definition source_row_ids :: "sqldb \<Rightarrow> uuid \<Rightarrow> string \<Rightarrow> string list" where
  "source_row_ids db tenant source_type =
     map (cd_source_id \<circ> snd)
       (filter (\<lambda>(_, d). cd_tenant_id d = tenant \<and> cd_source_type d = source_type) (sd_documents db))"

definition reindex_connector_documents ::
    "sync_env \<Rightarrow> string \<Rightarrow> string \<Rightarrow> sync_state \<Rightarrow> (py_error + reindex_report) \<times> sync_state" where
  "reindex_connector_documents env tenant_id source_type s =
     (case parse_uuid tenant_id of
        None \<Rightarrow> (Inl bad_uuid, s)
      | Some tenant \<Rightarrow>
          (case route_batch env tenant_id s of
             (Inl e, s) \<Rightarrow> (Inl e, s)
           | (Inr _, s) \<Rightarrow>
               (let ids = source_row_ids (ix_db (sy_index s)) tenant source_type in
                if ids = [] then (Inr \<lparr>rp_status = ''completed'', rp_reindexed_count = 0\<rparr>, s)
                else (case reindex_by_ids (se_index env) tenant_id ids (sy_index s) of
                        (Inl e, ix) \<Rightarrow> (Inl (error_of_exn e), s\<lparr>sy_index := ix\<rparr>)
                      | (Inr _, ix) \<Rightarrow> (Inr \<lparr>rp_status = ''completed'', rp_reindexed_count = length ids\<rparr>, s\<lparr>sy_index := ix\<rparr>)))))"

text \<open>A failure is retried while retries remain, then reported.\<close>

definition reindex_connector_documents_task ::
    "sync_env \<Rightarrow> nat \<Rightarrow> nat \<Rightarrow> string \<Rightarrow> string \<Rightarrow> sync_state \<Rightarrow> (task_failure + reindex_report) \<times> sync_state" where
  "reindex_connector_documents_task env retries max_retries tenant_id source_type s =
     (case reindex_connector_documents env tenant_id source_type s of
        (Inr r, s) \<Rightarrow> (Inr r, s)
      | (Inl e, s) \<Rightarrow>
          (if retries < max_retries then Inl (Retry e) else Inr \<lparr>rp_status = ''failed'', rp_reindexed_count = 0\<rparr>, s))"

definition purge_connector_documents_task :: "sync_env \<Rightarrow> string \<Rightarrow> string \<Rightarrow> sync_state \<Rightarrow> nat \<times> sync_state" where
  "purge_connector_documents_task env tenant_id source_type s =
     (let (n, ix) = delete_by_source (se_index env) tenant_id source_type (sy_index s)
      in (n, s\<lparr>sy_index := ix\<rparr>))"

subsection \<open>Webhooks\<close>

datatype queued =
    DriveTask string
  | GmailTask string
  | ConnectorTask string string string   \<comment> \<open>source, tenant and user\<close>

record drive_headers =
  dh_channel_id :: "string option"
  dh_channel_token :: "string option"
  dh_resource_id :: "string option"
  dh_resource_state :: "string option"

definition given :: "string option \<Rightarrow> bool" where "given h = (h \<noteq> None \<and> h \<noteq> Some [])"

definition drive_webhook :: "drive_headers \<Rightarrow> cursor_table \<Rightarrow> exn + string \<times> queued list" where
  "drive_webhook h t =
     (if dh_resource_state h = Some ''sync'' then Inr (''sync_acknowledged'', [])
      else if \<not> given (dh_channel_id h) \<or> \<not> given (dh_channel_token h) \<or> \<not> given (dh_resource_id h)
      then Inl (HTTPException 400 ''Missing required headers'')
      else (case get_watch_by_channel (the (dh_channel_id h)) (the (dh_resource_id h)) t of
              None \<Rightarrow> Inl (HTTPException 403 ''Invalid channel'')
            | Some w \<Rightarrow>
                if pget (case wf_watch_data w of Some d \<Rightarrow> d | None \<Rightarrow> []) ''channel_token'' \<noteq> PStr (the (dh_channel_token h))
                then Inl (HTTPException 403 ''Invalid channel token'')
                else Inr (''accepted'', [DriveTask (wf_tenant_id w)])))"

text \<open>\<open>secrets.compare_digest\<close> raises on strings beyond ASCII; the caller does not catch that.\<close>

definition gmail_verification_ok :: "string \<Rightarrow> string \<Rightarrow> exn + bool" where
  "gmail_verification_ok expected provided =
     (let e = str_strip expected; g = str_strip provided in
      if e = [] \<or> g = [] \<or> length e \<noteq> length g then Inr False
      else if list_ex (\<lambda>c. (128::nat) \<le> of_char c) e \<or> list_ex (\<lambda>c. (128::nat) \<le> of_char c) g then Inl (Raised ''TypeError'')
      else Inr (g = e))"

text \<open>The message data after decoding; \<open>None\<close> for a body, or data, that does not decode.\<close>

record gmail_request =
  gq_body_ok :: bool
  gq_has_data :: bool
  gq_data :: "pydict option"
  gq_header_token :: string

definition gmail_webhook :: "string \<Rightarrow> gmail_request \<Rightarrow> cursor_table \<Rightarrow> exn + string \<times> queued list" where
  "gmail_webhook expected_token q t =
     (if \<not> gq_body_ok q then Inl (HTTPException 400 ''Invalid JSON body'')
      else if \<not> gq_has_data q then Inl (HTTPException 400 ''Missing message data'')
      else (case gq_data q of
              None \<Rightarrow> Inl (HTTPException 400 ''Invalid message data'')
            | Some data \<Rightarrow>
                if \<not> truthy (pget data ''emailAddress'') then Inl (HTTPException 400 ''Missing emailAddress'')
                else let provided = (if gq_header_token q \<noteq> [] then gq_header_token q
                                     else py_str (py_or (pget data ''token'') (PStr []))) in
                  rbind (gmail_verification_ok expected_token provided) (\<lambda>ok.
                    if \<not> ok then Inl (HTTPException 403 ''Invalid verification token'')
                    else (case get_watch_by_email (py_str (pget data ''emailAddress'')) ''google_gmail'' t of
                            Inl _ \<Rightarrow> Inl (HTTPException 500 ''Internal server error'')
                          | Inr None \<Rightarrow> Inl (HTTPException 403 ''Unknown watch'')
                          | Inr (Some w) \<Rightarrow> Inr (''accepted'', [GmailTask (wf_tenant_id w)])))))"

definition graph_watch :: "string \<Rightarrow> cursor_table \<Rightarrow> (string \<times> watch_found) option" where
  "graph_watch subscription_id t =
     (case get_watch_by_channel subscription_id ''onedrive'' t of
        Some w \<Rightarrow> Some (''onedrive'', w)
      | None \<Rightarrow> map_option (Pair ''outlook'') (get_watch_by_channel subscription_id ''outlook'' t))"

definition watch_dict :: "watch_found \<Rightarrow> pydict" where
  "watch_dict w = (case wf_watch_data w of Some d \<Rightarrow> d | None \<Rightarrow> [])"

definition text_of :: "pyval \<Rightarrow> string" where "text_of v = py_str (py_or v (PStr []))"

text \<open>\<open>tenant:user\<close> is split at the first colon when the watch names no user.\<close>

definition graph_target :: "watch_found \<Rightarrow> string \<times> string" where
  "graph_target w =
     (let tenant_id = wf_tenant_id w; user_id = text_of (pget (watch_dict w) ''user_id'') in
      if CHR '':'' \<in> set tenant_id \<and> user_id = []
      then (takeWhile (\<lambda>c. c \<noteq> CHR '':'') tenant_id, tl (dropWhile (\<lambda>c. c \<noteq> CHR '':'') tenant_id))
      else (tenant_id, user_id))"

definition graph_note :: "cursor_table \<Rightarrow> pydict \<Rightarrow> queued option" where
  "graph_note t note =
     (let subscription_id = text_of (pget note ''subscriptionId''); client_state = text_of (pget note ''clientState'') in
      if subscription_id = [] then None
      else (case graph_watch subscription_id t of
              None \<Rightarrow> None
            | Some (source_type, w) \<Rightarrow>
                let stored = pget (watch_dict w) ''client_state'' in
                if truthy stored \<and> stored \<noteq> PStr client_state then None
                else let (tenant_id, user_id) = graph_target w in Some (ConnectorTask source_type tenant_id user_id)))"

definition graph_webhook :: "string option \<Rightarrow> pydict list option \<Rightarrow> cursor_table \<Rightarrow> exn + string \<times> queued list" where
  "graph_webhook validation_token notifications t =
     (if given validation_token then Inr (the validation_token, [])
      else (case notifications of
              None \<Rightarrow> Inl (HTTPException 400 ''Empty notification payload'')
            | Some notes \<Rightarrow>
                if notes = [] then Inl (HTTPException 400 ''Empty notification payload'')
                else let accepted = List.map_filter (graph_note t) notes in
                     if accepted = [] then Inl (HTTPException 403 ''No valid notifications'')
                     else Inr (''accepted'', accepted)))"

subsection \<open>A failed notification can be repeated\<close>

lemma compile_notice_frame:
  assumes "compile_notice env docs src t s = (r, s')"
  shows "sy_cursors s' = sy_cursors s \<and> sy_world s' = sy_world s \<and> sy_status s' = sy_status s"
proof -
  have w: "sy_world s2 = sy_world s" if "process_raw_batch env docs src t True s = (x, s2)" for x s2
    using batch_required_world [of env docs src t s] that by simp
  show ?thesis
    using assms unfolding compile_notice_def
    by (auto split: if_splits prod.splits sum.splits option.splits dest: batch_frame(1,2) w)
qed

lemma drop_notice_frame:
  assumes "drop_notice env ids src t s = (r, s')"
  shows "sy_cursors s' = sy_cursors s \<and> sy_world s' = sy_world s \<and> sy_status s' = sy_status s"
  using assms by (auto simp: drop_notice_def Let_def split: if_splits prod.splits)

lemma advance_cursor_frame [simp]:
  "sy_world (advance_cursor env scope src c s) = sy_world s" "sy_index (advance_cursor env scope src c s) = sy_index s"
  by (simp_all add: advance_cursor_def save_cursor_def split: option.split)

lemma apply_delta_frame:
  assumes "apply_delta ne src scope t cursor f s = (r, s')"
  shows "sy_world s' = sy_world s \<and> (isl r \<longrightarrow> sy_cursors s' = sy_cursors s)"
  using assms unfolding apply_delta_def
  by (auto split: prod.splits sum.splits dest!: compile_notice_frame drop_notice_frame)

lemma validate_frame:
  assumes "validate_tenant_auth ws v t s = (r, s')"
  shows "sy_cursors s' = sy_cursors s \<and> sy_world s' = sy_world s \<and> sy_index s' = sy_index s \<and> sy_status s' = sy_status s"
  using assms by (auto simp: validate_tenant_auth_def Let_def split: if_splits prod.splits sum.splits)

lemma mark_frame [simp]: "sy_world (mark t src u x now s) = sy_world s" "sy_index (mark t src u x now s) = sy_index s"
  by (simp_all add: mark_def on_status_def)

lemma count_new_frame [simp]:
  "sy_world (count_new ne scope r s) = sy_world s" "sy_index (count_new ne scope r s) = sy_index s"
  by (simp_all add: count_new_def)

lemma drive_notice_frame:
  assumes "process_drive_notification ne scope s = (r, s')"
  shows "sy_world s' = sy_world s \<and> (isl r \<longrightarrow> sy_cursors s' = sy_cursors s)"
  using assms unfolding process_drive_notification_def
  by (auto split: prod.splits sum.splits option.splits if_splits dest!: validate_frame apply_delta_frame)

lemma gmail_notice_frame:
  assumes "process_gmail_notification ne scope s = (r, s')"
  shows "sy_world s' = sy_world s \<and> (isl r \<longrightarrow> sy_cursors s' = sy_cursors s)"
  using assms unfolding process_gmail_notification_def
  by (auto split: prod.splits sum.splits option.splits if_splits dest!: validate_frame apply_delta_frame)

text \<open>
  A notification is processed at least once: a task that fails or is to be retried
  leaves every cursor where it was, so that the same changes are read again; and no outcome puts a
  document into the process-local repository, the tenant's database is compulsory.
\<close>

theorem failed_notifications_keep_the_cursor:
  assumes "process_drive_notification ne scope s = (r1, s1)" "process_gmail_notification ne scope s = (r2, s2)"
  shows "(isl r1 \<longrightarrow> sy_cursors s1 = sy_cursors s) \<and> (isl r2 \<longrightarrow> sy_cursors s2 = sy_cursors s) \<and>
    sy_world s1 = sy_world s \<and> sy_world s2 = sy_world s"
  using drive_notice_frame [OF assms(1)] gmail_notice_frame [OF assms(2)] by simp

subsection \<open>Mail that arrives after the backfill\<close>

definition tenant_vectors :: "string \<Rightarrow> index_state \<Rightarrow> ((string \<times> string \<times> string) \<times> vector_chunk) list" where
  "tenant_vectors t ix = filter (\<lambda>(k, _). fst k = t) (ix_vectors ix)"

definition tenant_lexical :: "string \<Rightarrow> index_state \<Rightarrow> ((string \<times> string) \<times> lexical_doc) list" where
  "tenant_lexical t ix = filter (\<lambda>(k, _). fst k = t) (ix_lexical ix)"

lemma filter_key_update:
  assumes "\<not> P k" shows "filter (\<lambda>(k, _). P k) (AList.update k v d) = filter (\<lambda>(k, _). P k) d"
  using assms by (induction d) auto

lemma tenant_chunks_foreign:
  assumes "t \<noteq> t'" shows "tenant_vectors t (foldl (put_chunk t') s cs) = tenant_vectors t s"
  by (induction cs arbitrary: s)
    (simp_all add: put_chunk_def tenant_vectors_def filter_key_update [where P = "\<lambda>k. fst k = t"] assms [symmetric])

lemma tenant_lexicals_foreign:
  assumes "t \<noteq> t'" shows "tenant_lexical t (foldl (put_lexical t') s ds) = tenant_lexical t s"
  by (induction ds arbitrary: s)
    (simp_all add: put_lexical_def tenant_lexical_def filter_key_update [where P = "\<lambda>k. fst k = t"] assms [symmetric])

lemma fan_out_lexical [simp]: "ix_lexical (foldl (fan_out_doc st t x) s ds) = ix_lexical s"
  by (rule foldl_cong_proj) (simp add: fan_out_doc_def Let_def)

lemma put_documents_lexical [simp]: "ix_lexical (foldl (put_document st) s ds) = ix_lexical s"
  by (rule foldl_cong_proj) (simp add: put_document_def)

lemma put_chunks_lexical [simp]: "ix_lexical (foldl (put_chunk t) s cs) = ix_lexical s"
  by (rule foldl_cong_proj) (simp add: put_chunk_def)

lemma put_lexicals_vectors [simp]: "ix_vectors (foldl (put_lexical t) s ds) = ix_vectors s"
  by (rule foldl_cong_proj) (simp add: put_lexical_def)

lemma bulk_index_foreign:
  assumes "t \<noteq> t'"
  shows "tenant_vectors t (bulk_index st docs t' x s) = tenant_vectors t s \<and>
    tenant_lexical t (bulk_index st docs t' x s) = tenant_lexical t s"
proof -
  have v: "tenant_vectors t s1 = tenant_vectors t s2" if "ix_vectors s1 = ix_vectors s2" for s1 s2
    using that by (simp add: tenant_vectors_def)
  have l: "tenant_lexical t s1 = tenant_lexical t s2" if "ix_lexical s1 = ix_lexical s2" for s1 s2
    using that by (simp add: tenant_lexical_def)
  have fan: "tenant_vectors t (fanout_search_pipeline st ds t' x s) = tenant_vectors t s"
    "tenant_lexical t (fanout_search_pipeline st ds t' x s) = tenant_lexical t s" for ds s
    unfolding fanout_search_pipeline_def Let_def
    by (auto simp: tenant_chunks_foreign [OF assms] intro: v)
      (auto simp: l [OF put_chunks_lexical] tenant_lexicals_foreign [OF assms] l [OF fan_out_lexical])
  show ?thesis
    by (simp add: bulk_index_def Let_def fan v [OF put_documents_frame] l [OF put_documents_lexical])
qed

lemma delete_by_ids_frame:
  assumes "delete_by_ids st ids t src ix = (r, ix')"
  shows "ix_vectors ix' = ix_vectors ix \<and> ix_lexical ix' = ix_lexical ix"
  using assms by (auto simp: delete_by_ids_def drop_documents_def Let_def split: if_splits option.splits)

lemma compile_notice_foreign:
  assumes "compile_notice env docs src t' s = (r, s')" "t \<noteq> t'"
  shows "tenant_vectors t (sy_index s') = tenant_vectors t (sy_index s) \<and>
    tenant_lexical t (sy_index s') = tenant_lexical t (sy_index s)"
proof -
  have same: "tenant_vectors t (sy_index s2) = tenant_vectors t (sy_index s) \<and>
      tenant_lexical t (sy_index s2) = tenant_lexical t (sy_index s)"
    if "process_raw_batch env docs src t' True s = (x, s2)" for x s2
    using batch_frame(4,5) [OF that] by (simp add: tenant_vectors_def tenant_lexical_def)
  show ?thesis
    using assms(1) unfolding compile_notice_def
    by (auto simp: bulk_index_foreign [OF assms(2)] split: if_splits prod.splits sum.splits option.splits dest: same)
qed

lemma drop_notice_foreign:
  assumes "drop_notice env ids src t' s = (r, s')"
  shows "tenant_vectors t (sy_index s') = tenant_vectors t (sy_index s) \<and>
    tenant_lexical t (sy_index s') = tenant_lexical t (sy_index s)"
  using assms by (auto simp: drop_notice_def tenant_vectors_def tenant_lexical_def Let_def
      split: if_splits prod.splits dest!: delete_by_ids_frame)

lemma apply_delta_foreign:
  assumes "apply_delta ne src scope t' cursor f s = (r, s')" "t \<noteq> t'"
  shows "tenant_vectors t (sy_index s') = tenant_vectors t (sy_index s) \<and>
    tenant_lexical t (sy_index s') = tenant_lexical t (sy_index s)"
  using assms(1) unfolding apply_delta_def
  by (auto split: prod.splits sum.splits dest!: compile_notice_foreign [OF _ assms(2)] drop_notice_foreign [where t = t])

text \<open>
  The Gmail task of a mailbox runs under the identifier \<open>tenant:user\<close>, so whatever mail
  arrives, no chunk vector and no lexical entry of the tenant itself is added, changed or removed: a
  search of the tenant never sees the mail that came after the backfill.
\<close>

theorem gmail_notices_miss_the_tenant:
  assumes "str_strip user_id \<noteq> []"
    and "process_gmail_notification ne (cursor_scope_id tenant_id user_id) s = (r, s')"
  shows "tenant_vectors tenant_id (sy_index s') = tenant_vectors tenant_id (sy_index s) \<and>
    tenant_lexical tenant_id (sy_index s') = tenant_lexical tenant_id (sy_index s)"
proof -
  have "tenant_id \<noteq> cursor_scope_id tenant_id user_id" using assms(1) by (simp add: cursor_scope_id_def)
  then show ?thesis
    using assms(2) unfolding process_gmail_notification_def
    by (auto split: prod.splits sum.splits option.splits if_splits dest!: validate_frame apply_delta_foreign [where t = tenant_id])
qed

subsection \<open>Re-indexing by the wrong identifier\<close>

text \<open>No row is stored under what is the source's own identifier of a row.\<close>

definition ids_apart :: "sqldb \<Rightarrow> bool" where
  "ids_apart db \<longleftrightarrow> list_all (\<lambda>(_, d). map_of (sd_documents db) (cd_source_id d) = None) (sd_documents db)"

lemma reindex_finds_nothing:
  assumes "\<And>i. i \<in> set ids \<Longrightarrow> map_of (sd_documents (ix_db ix)) i = None"
  shows "reindex_by_ids st t ids ix = (Inr (), ix)"
proof -
  have found: "res_map (stored_unified (ix_db ix)) ids = Inr (map (\<lambda>_. None) ids)"
    using assms by (induction ids) (simp_all add: stored_unified_def rbind_def)
  have "List.map_filter (\<lambda>x. x) (map (\<lambda>_. None :: unified_document option) ids) = []" by (induction ids) (simp_all add: List.map_filter_def)
  then show ?thesis by (simp add: reindex_by_ids_def found bulk_index_def)
qed

text \<open>
  The task that is to re-index a source after an ACL fix looks its rows up by their
  \<open>source_id\<close> where \<open>reindex_by_ids\<close> wants the document identifier: it changes nothing in the index
  and reports every row as re-indexed.
\<close>

theorem reindex_task_reindexes_nothing:
  assumes "ids_apart (ix_db (sy_index s))" "reindex_connector_documents env tenant_id source_type s = (Inr report, s')"
  shows "sy_index s' = sy_index s \<and>
    (\<exists>tenant. parse_uuid tenant_id = Some tenant \<and>
       rp_reindexed_count report = length (source_row_ids (ix_db (sy_index s)) tenant source_type))"
proof -
  have apart: "map_of (sd_documents (ix_db (sy_index s))) i = None"
    if "i \<in> set (source_row_ids (ix_db (sy_index s)) tenant source_type)" for i tenant
    using assms(1) that by (auto simp: ids_apart_def source_row_ids_def list_all_iff)
  show ?thesis
    using assms(2) unfolding reindex_connector_documents_def
    by (auto simp: Let_def reindex_finds_nothing [OF apart] split: option.splits prod.splits sum.splits if_splits
        dest!: route_batch_frame(1))
qed

subsection \<open>Who can queue a task\<close>

lemma find_channel_row:
  assumes "get_watch_by_channel channel resource t = Some w"
  shows "\<exists>src r d. ((wf_tenant_id w, src), r) \<in> set t \<and> sc_watch_data r = Some d \<and> wf_watch_data w = Some d \<and>
    pget d ''channel_id'' = PStr channel \<and> pget d ''resource_id'' = PStr resource"
proof -
  obtain kr where kr: "find (\<lambda>(_, r). watches_channel channel resource r) t = Some kr" and w: "w = found_of kr"
    using assms by (auto simp: get_watch_by_channel_def)
  obtain tn src r where k: "kr = ((tn, src), r)" by (metis prod.exhaust)
  have "kr \<in> set t" "watches_channel channel resource r"
    using find_SomeD [OF kr] by (simp_all add: k)
  then show ?thesis
    unfolding w k by (auto simp: found_of_def watches_channel_def split: option.splits)
qed

text \<open>
  Property C25: a Drive notification queues at most one task, that of the tenant whose stored watch has
  the channel, the resource and the secret token of the request; without those headers, for an unknown
  channel or with another token it queues nothing and is refused.
\<close>

theorem drive_webhook_is_authenticated:
  assumes "drive_webhook h t = Inr (msg, tasks)" "tasks \<noteq> []"
  shows "\<exists>tenant_id src r d. tasks = [DriveTask tenant_id] \<and> ((tenant_id, src), r) \<in> set t \<and> sc_watch_data r = Some d \<and>
    dh_channel_id h \<noteq> None \<and> dh_channel_token h \<noteq> None \<and> dh_channel_token h \<noteq> Some [] \<and>
    pget d ''channel_id'' = PStr (the (dh_channel_id h)) \<and> pget d ''resource_id'' = PStr (the (dh_resource_id h)) \<and>
    pget d ''channel_token'' = PStr (the (dh_channel_token h))"
proof -
  obtain w where w: "get_watch_by_channel (the (dh_channel_id h)) (the (dh_resource_id h)) t = Some w"
    and hdr: "given (dh_channel_id h)" "given (dh_channel_token h)"
    and tok: "pget (case wf_watch_data w of Some d \<Rightarrow> d | None \<Rightarrow> []) ''channel_token'' = PStr (the (dh_channel_token h))"
    and tasks: "tasks = [DriveTask (wf_tenant_id w)]"
    using assms by (auto simp: drive_webhook_def split: if_splits option.splits)
  from find_channel_row [OF w] tok hdr tasks show ?thesis by (fastforce simp: given_def)
qed

subsection \<open>Examples\<close>

definition demo_mail :: unified_document where
  "demo_mail = \<lparr>ud_id = ''m1'', ud_title = ''Hi'', ud_content = ''text'', ud_source_type = ''google_gmail'', ud_url = ''u'',
     ud_permissions = [''user:bob''], ud_created_at = 1, ud_updated_at = 1, ud_source_updated_at = 1,
     ud_structured_metadata = []\<rparr>"

definition demo_tenant_row :: tenant_row where
  "demo_tenant_row = \<lparr>tn_db_host = ''h'', tn_db_name = ''n'', tn_db_user = ''u'', tn_db_secret_key = ''k'', tn_config = []\<rparr>"

definition demo_notice_env :: notice_env where
  "demo_notice_env = \<lparr>ne_worker = \<lparr>ws_dev = False, ws_loop_busy = False, ws_public_url = True, ws_topic = None\<rparr>,
     ne_sync = demo_sync_env\<lparr>se_vault := (\<lambda>_ _. Inr ''pw''), se_routed := (\<lambda>_ _ _ _ db. ([Some demo_mail], db))\<rparr>,
     ne_feed = (\<lambda>_ _ c. if c = ''7'' then Inr \<lparr>nd_documents = [[(''id'', PStr ''m1'')]], nd_deleted_ids = [], nd_next_cursor = Some ''8''\<rparr>
                         else Inl (error_of [''HTTPStatusError''] ''429''))\<rparr>"

definition demo_notice_state :: "string \<Rightarrow> sync_state" where
  "demo_notice_state cursor = demo_sync_state\<lparr>sy_routing := \<lparr>rs_cache = [], rs_tenants = [(1, demo_tenant_row)]\<rparr>,
     sy_cursors := update_cursor (cursor_scope_id (uuid_str 1) ''bob'') ''google_gmail'' cursor 0
       (update_cursor (cursor_scope_id (uuid_str 1) ''bob'') ''google_drive'' cursor 0 [])\<rparr>"

lemma demo_notices_fail:
  "isl (fst (process_drive_notification demo_notice_env (cursor_scope_id (uuid_str 1) ''bob'') (demo_notice_state ''5'')))"
  "isl (fst (process_gmail_notification demo_notice_env (cursor_scope_id (uuid_str 1) ''bob'') (demo_notice_state ''5'')))"
  by code_simp+

theorem failed_notifications_keep_the_cursor_witness:
  "isl (fst (process_gmail_notification demo_notice_env (cursor_scope_id (uuid_str 1) ''bob'') (demo_notice_state ''5''))) \<and>
   sy_cursors (snd (process_gmail_notification demo_notice_env (cursor_scope_id (uuid_str 1) ''bob'') (demo_notice_state ''5''))) =
     sy_cursors (demo_notice_state ''5'')"
proof -
  let ?scope = "cursor_scope_id (uuid_str 1) ''bob''"
  obtain r1 s1 r2 s2 where d: "process_drive_notification demo_notice_env ?scope (demo_notice_state ''5'') = (r1, s1)"
    and g: "process_gmail_notification demo_notice_env ?scope (demo_notice_state ''5'') = (r2, s2)" by fastforce
  have "isl r2" using demo_notices_fail(2) unfolding g by simp
  with failed_notifications_keep_the_cursor [OF d g] show ?thesis unfolding g by simp
qed

lemma demo_mail_indexed:
  "(case process_gmail_notification demo_notice_env (cursor_scope_id (uuid_str 1) ''bob'') (demo_notice_state ''7'') of
      (Inr r, s) \<Rightarrow> nr_indexed_count r = 1 \<and> tenant_vectors (cursor_scope_id (uuid_str 1) ''bob'') (sy_index s) \<noteq> []
    | (Inl f, s) \<Rightarrow> False)"
  by code_simp

theorem gmail_notices_miss_the_tenant_witness:
  "\<exists>r s'. process_gmail_notification demo_notice_env (cursor_scope_id (uuid_str 1) ''bob'') (demo_notice_state ''7'') = (Inr r, s') \<and>
     nr_indexed_count r = 1 \<and> tenant_vectors (uuid_str 1) (sy_index s') = []"
proof -
  let ?scope = "cursor_scope_id (uuid_str 1) ''bob''"
  obtain x s' where run: "process_gmail_notification demo_notice_env ?scope (demo_notice_state ''7'') = (x, s')" by fastforce
  then obtain r where r: "x = Inr r" "nr_indexed_count r = 1" using demo_mail_indexed by (cases x) auto
  have strip: "str_strip ''bob'' \<noteq> []" by code_simp
  have none: "tenant_vectors (uuid_str 1) (sy_index (demo_notice_state ''7'')) = []"
    by (simp add: tenant_vectors_def demo_notice_state_def demo_sync_state_def empty_index_def)
  have "tenant_vectors (uuid_str 1) (sy_index s') = []"
    using gmail_notices_miss_the_tenant [OF strip run] unfolding none by (rule conjunct1)
  with run r show ?thesis by blast
qed

definition demo_rows :: sqldb where
  "demo_rows = empty_db\<lparr>sd_documents := [(''google_drive_f1'',
     \<lparr>cd_id = ''google_drive_f1'', cd_source_type = ''google_drive'', cd_source_id = ''f1'', cd_tenant_id = 1, cd_title = ''Plan'',
      cd_content = ''Plan'', cd_url = None, cd_mime_type = [], cd_detected_mime_type = [], cd_mime_mismatch = False,
      cd_file_extension = None, cd_size_bytes = None, cd_created_at = 1, cd_updated_at = 1, cd_source_updated_at = 1,
      cd_owner_principal_id = None, cd_creator_principal_id = None, cd_last_modifier_principal_id = None,
      cd_structured_metadata = [], cd_parent_ids = []\<rparr>)]\<rparr>"

definition demo_reindex_state :: sync_state where
  "demo_reindex_state = (demo_notice_state ''7'')\<lparr>sy_index := empty_index\<lparr>ix_db := demo_rows\<rparr>\<rparr>"

lemma demo_reindexed:
  "(case reindex_connector_documents (ne_sync demo_notice_env) (uuid_str 1) ''google_drive'' demo_reindex_state of
      (Inr rep, s) \<Rightarrow> rp_reindexed_count rep = 1 | (Inl e, s) \<Rightarrow> False)"
  by code_simp

theorem reindex_task_reindexes_nothing_witness:
  "\<exists>rep s'. reindex_connector_documents (ne_sync demo_notice_env) (uuid_str 1) ''google_drive'' demo_reindex_state = (Inr rep, s') \<and>
     rp_reindexed_count rep = 1 \<and> sy_index s' = sy_index demo_reindex_state"
proof -
  obtain x s' where run: "reindex_connector_documents (ne_sync demo_notice_env) (uuid_str 1) ''google_drive'' demo_reindex_state = (x, s')"
    by fastforce
  then obtain rep where r: "x = Inr rep" "rp_reindexed_count rep = 1" using demo_reindexed by (cases x) auto
  have apart: "ids_apart (ix_db (sy_index demo_reindex_state))" by code_simp
  have "sy_index s' = sy_index demo_reindex_state"
    using reindex_task_reindexes_nothing [OF apart run [unfolded r(1)]] by (rule conjunct1)
  with run r show ?thesis by blast
qed

definition demo_channel_table :: cursor_table where
  "demo_channel_table = set_watch_info ''t:bob'' ''google_drive'' [(''channel_id'', PStr ''c''), (''resource_id'', PStr ''r''),
     (''channel_token'', PStr ''s'')] []"

definition demo_headers :: drive_headers where
  "demo_headers = \<lparr>dh_channel_id = Some ''c'', dh_channel_token = Some ''s'', dh_resource_id = Some ''r'',
     dh_resource_state = Some ''update''\<rparr>"

lemma demo_drive_hook: "drive_webhook demo_headers demo_channel_table = Inr (''accepted'', [DriveTask ''t:bob''])"
  by code_simp

theorem drive_webhook_is_authenticated_witness:
  "\<exists>src r. ((''t:bob'', src), r) \<in> set demo_channel_table \<and>
     map_option (\<lambda>d. pget d ''channel_token'') (sc_watch_data r) = Some (PStr ''s'')"
proof -
  have "[DriveTask ''t:bob''] \<noteq> []" by simp
  from drive_webhook_is_authenticated [OF demo_drive_hook this] show ?thesis
    by (auto simp: demo_headers_def)
qed

end
