(* ===== verification/Run_Sync.thy ===== *)
theory Run_Sync
  imports Sync
begin

text \<open>
  The older entry point of the orchestrator, \<open>SyncOrchestrator.run_sync\<close> of
  \<open>backend/app/services/sync.py\<close>: the same two passes with its own counts, without the guard on an
  empty deletion cursor, and with a cursor callback whose result is not awaited.
\<close>

record run_stats =
  un_deleted :: nat
  un_indexed :: nat
  un_errors :: nat
  un_final_cursor :: "string option"
  un_pipeline :: "string option"

record sync_loop =
  sl_cursor :: "string option"
  sl_stats :: run_stats
  sl_state :: sync_state
  sl_phase :: phase

definition looping :: "sync_loop \<Rightarrow> bool" where "looping l = (sl_phase l = Going)"

definition ticked_loop :: "sync_loop \<Rightarrow> sync_loop" where
  "ticked_loop l = l\<lparr>sl_state := (sl_state l)\<lparr>sy_tick := Suc (sy_tick (sl_state l))\<rparr>\<rparr>"

definition count_error :: "sync_loop \<Rightarrow> sync_loop" where
  "count_error l = l\<lparr>sl_stats := (sl_stats l)\<lparr>un_errors := Suc (un_errors (sl_stats l))\<rparr>, sl_phase := Ended\<rparr>"

definition note_cursor :: "string option \<Rightarrow> sync_loop \<Rightarrow> sync_loop" where
  "note_cursor c l = (if cursor_set c then l\<lparr>sl_stats := (sl_stats l)\<lparr>un_final_cursor := c\<rparr>\<rparr> else l)"

definition run_delete :: "sync_job \<Rightarrow> string list \<Rightarrow> sync_loop \<Rightarrow> sync_loop" where
  "run_delete job ids l =
     (if ids = [] then l
      else let s = sl_state l;
               (r, ix) = delete_by_ids (se_index (sj_env job)) ids (sj_tenant_id job)
                           (cn_source_type (sj_connector job)) (sy_index s);
               l = l\<lparr>sl_state := s\<lparr>sy_index := ix\<rparr>\<rparr>
           in case r of
                Inl e \<Rightarrow> l\<lparr>sl_phase := Failed (error_of_exn e)\<rparr>
              | Inr _ \<Rightarrow> l\<lparr>sl_stats := (sl_stats l)\<lparr>un_deleted := un_deleted (sl_stats l) + length ids\<rparr>\<rparr>)"

text \<open>Pass 1: the next cursor is taken as it is, also when it is empty.\<close>

definition run_deletion_step :: "sync_job \<Rightarrow> sync_loop \<Rightarrow> sync_loop" where
  "run_deletion_step job l =
     (case cn_fetch_deleted_ids (sj_connector job) (sy_tick (sl_state l)) (sl_cursor l) of
        Inl e \<Rightarrow> if isa e ''NotImplementedError'' then (ticked_loop l)\<lparr>sl_phase := Ended\<rparr> else count_error (ticked_loop l)
      | Inr r \<Rightarrow>
          (let l = run_delete job (xr_deleted_ids r) (ticked_loop l)
           in case sl_phase l of
                Failed e \<Rightarrow> l
              | _ \<Rightarrow>
                  (let l = note_cursor (xr_next_cursor r) l
                   in if xr_has_more r then l\<lparr>sl_cursor := xr_next_cursor r\<rparr> else l\<lparr>sl_phase := Ended\<rparr>)))"

definition run_index :: "sync_job \<Rightarrow> pydict list \<Rightarrow> sync_loop \<Rightarrow> sync_loop" where
  "run_index job documents l =
     (if documents = [] then l
      else (case cn_transform (sj_connector job) (sy_tick (sl_state l)) documents of
              Inl e \<Rightarrow> (ticked_loop l)\<lparr>sl_phase := Failed e\<rparr>
            | Inr transformed \<Rightarrow>
                (let l = ticked_loop l;
                     (batch, s) = process_raw_batch (sj_env job) documents (cn_source_type (sj_connector job))
                                    (sj_tenant_id job) False (sl_state l);
                     l = l\<lparr>sl_state := s\<rparr>
                 in case choose_docs transformed batch of
                      Inl e \<Rightarrow> l\<lparr>sl_phase := Failed e\<rparr>
                    | Inr (docs, path) \<Rightarrow>
                        (let l = l\<lparr>sl_stats := (sl_stats l)\<lparr>un_pipeline := Some path\<rparr>\<rparr> in
                         if docs = [] then l
                         else l\<lparr>sl_state := s\<lparr>sy_index := bulk_index (se_index (sj_env job)) docs (sj_tenant_id job)
                                  (sj_extra_acl job) (sy_index s)\<rparr>,
                                sl_stats := (sl_stats l)\<lparr>un_indexed := un_indexed (sl_stats l) + length docs\<rparr>\<rparr>))))"

definition run_checkpoint :: "sync_job \<Rightarrow> string option \<Rightarrow> sync_loop \<Rightarrow> sync_loop" where
  "run_checkpoint job c l =
     (if cursor_set c
      then let (r, s) = hk_cursor (sj_hooks job) (the c) (sl_state l); l = (note_cursor c l)\<lparr>sl_state := s\<rparr>
           in case r of Inl e \<Rightarrow> l\<lparr>sl_phase := Failed e\<rparr> | Inr _ \<Rightarrow> l
      else l)"

definition run_delta_step :: "sync_job \<Rightarrow> sync_loop \<Rightarrow> sync_loop" where
  "run_delta_step job l =
     (case cn_fetch_delta (sj_connector job) (sy_tick (sl_state l)) (sl_cursor l) of
        Inl e \<Rightarrow> count_error (ticked_loop l)
      | Inr r \<Rightarrow>
          (let l = run_index job (dr_documents r) (ticked_loop l)
           in case sl_phase l of
                Failed e \<Rightarrow> l
              | _ \<Rightarrow>
                  (let l = run_checkpoint job (dr_next_cursor r) l
                   in case sl_phase l of
                        Failed e \<Rightarrow> l
                      | _ \<Rightarrow> if dr_has_more r \<and> cursor_set (dr_next_cursor r) then l\<lparr>sl_cursor := dr_next_cursor r\<rparr>
                             else l\<lparr>sl_phase := Ended\<rparr>)))"

definition begin_loop :: "string option \<Rightarrow> run_stats \<Rightarrow> sync_state \<Rightarrow> sync_loop" where
  "begin_loop cursor st s = \<lparr>sl_cursor = cursor, sl_stats = st, sl_state = s, sl_phase = Going\<rparr>"

definition no_stats :: run_stats where
  "no_stats = \<lparr>un_deleted = 0, un_indexed = 0, un_errors = 0, un_final_cursor = None, un_pipeline = None\<rparr>"

text \<open>The terms the index gets when the caller gives none.\<close>

definition acl_from_config :: "pydict \<Rightarrow> string list" where
  "acl_from_config config =
     (let principal = py_str (py_or (pget config ''connected_by'') (PStr [])) in
      if principal = [] then []
      else principal # (if starts_with ''user:'' principal \<or> starts_with ''group:'' principal then []
                        else [''user:'' @ principal]))"

definition loop_result :: "sync_loop \<Rightarrow> (py_error + run_stats) \<times> sync_state" where
  "loop_result l = (case sl_phase l of Failed e \<Rightarrow> Inl e | _ \<Rightarrow> Inr (sl_stats l), sl_state l)"

definition run_deletions :: "sync_job \<Rightarrow> sync_loop \<Rightarrow> sync_loop option" where
  "run_deletions job l = while_option looping (run_deletion_step job) l"

definition run_sync :: "sync_job \<Rightarrow> string option \<Rightarrow> sync_state \<Rightarrow> ((py_error + run_stats) \<times> sync_state) option" where
  "run_sync job resume_cursor s =
     (case run_deletions job (begin_loop None no_stats s) of
        None \<Rightarrow> None
      | Some l \<Rightarrow>
          (case sl_phase l of
             Failed e \<Rightarrow> Some (Inl e, sl_state l)
           | _ \<Rightarrow> map_option loop_result
                    (while_option looping (run_delta_step job) (begin_loop resume_cursor (sl_stats l) (sl_state l)))))"

subsection \<open>A deletion feed that promises more without a cursor\<close>

lemma while_option_never:
  assumes "Q s" "\<And>s. Q s \<Longrightarrow> b s" "\<And>s. Q s \<Longrightarrow> Q (f s)"
  shows "while_option b f s = None"
proof -
  have "Q ((f ^^ k) s)" for k using assms(1,3) by (induction k) auto
  then show ?thesis using assms(2) by (auto simp: while_option_def)
qed

text \<open>The page the source gives, whenever it is asked from the start.\<close>

definition repeats :: "connector \<Rightarrow> deletion_result \<Rightarrow> bool" where
  "repeats cn r \<longleftrightarrow> (\<forall>tick. cn_fetch_deleted_ids cn tick None = Inr r) \<and> xr_has_more r \<and> xr_next_cursor r = None"

lemma repeated_deletion:
  assumes "repeats (sj_connector job) r" "sj_tenant_id job \<noteq> []" "sl_phase l = Going" "sl_cursor l = None"
  shows "sl_phase (run_deletion_step job l) = Going \<and> sl_cursor (run_deletion_step job l) = None"
  using assms
  by (auto simp: run_deletion_step_def repeats_def run_delete_def delete_by_ids_def ticked_loop_def note_cursor_def Let_def
      split: sum.splits prod.splits phase.splits)

lemma deletions_never_end:
  assumes "repeats (sj_connector job) r" "sj_tenant_id job \<noteq> []"
  shows "run_deletions job (begin_loop None no_stats s) = None"
  unfolding run_deletions_def
  by (rule while_option_never [where Q = "\<lambda>l. sl_phase l = Going \<and> sl_cursor l = None"])
    (use repeated_deletion [OF assms] in \<open>auto simp: begin_loop_def looping_def\<close>)

lemma guarded_deletions_end:
  assumes "repeats (sj_connector job) r" "sj_tenant_id job \<noteq> []"
  shows "deletion_pass job (begin_pass None st s) \<noteq> None"
proof -
  let ?c = "begin_pass None st s"
  have "cw_phase (deletion_step job ?c) \<noteq> Going"
    using assms by (auto simp: deletion_step_def repeats_def begin_pass_def next_tick_def delete_page_def delete_by_ids_def
        turn_page_def Let_def split: sum.splits prod.splits phase.splits)
  then show ?thesis
    using pass_unfold [of "deletion_step job" ?c] pass_unfold [of "deletion_step job" "deletion_step job ?c"]
    by (simp add: deletion_pass_def begin_pass_def)
qed

text \<open>
  When a connector answers its first deletion page with \<open>has_more\<close> and no cursor,
  \<open>run_sync\<close> asks for that page for ever: it deletes the same documents again and again and never
  reaches the delta pass, where \<open>run_two_pass_sync\<close> ends its deletion pass after one page.
\<close>

theorem run_sync_can_hang:
  assumes "repeats (sj_connector job) r" "sj_tenant_id job \<noteq> []"
  shows "run_sync job resume_cursor s = None \<and> deletion_pass job (begin_pass None st s) \<noteq> None"
  using deletions_never_end [OF assms] guarded_deletions_end [OF assms] by (simp add: run_sync_def)

definition demo_endless :: connector where
  "demo_endless = (demo_connector [])\<lparr>cn_fetch_deleted_ids :=
     (\<lambda>_ _. Inr \<lparr>xr_deleted_ids = [''f1''], xr_next_cursor = None, xr_has_more = True\<rparr>)\<rparr>"

theorem run_sync_can_hang_witness:
  "run_sync ((demo_job [])\<lparr>sj_connector := demo_endless\<rparr>) None demo_sync_state = None"
proof -
  let ?job = "(demo_job [])\<lparr>sj_connector := demo_endless\<rparr>"
  have r: "repeats (sj_connector ?job) \<lparr>xr_deleted_ids = [''f1''], xr_next_cursor = None, xr_has_more = True\<rparr>"
    by (simp add: repeats_def demo_endless_def)
  have t: "sj_tenant_id ?job \<noteq> []" by code_simp
  show ?thesis using run_sync_can_hang [OF r t] by blast
qed

end
