(* ===== verification/Json.thy ===== *)
theory Json
  imports Doc_Reader Complex_Main
begin

text \<open>
  JSON values as they travel between the assistant, its tools and the language model: parsed responses,
  search results and hits. Numbers are an abstract type \<open>'s\<close>, because scores are floating-point numbers;
  \<open>floats\<close> collects what the code asks of them beyond the arithmetic of the type class. The module also
  holds \<open>encode_acl_terms\<close> and \<open>acl_terms_for_json_body\<close> of \<open>assistant/infrastructure/tools.py\<close>, the
  JSON text in which the caller's ACL terms travel.
\<close>

datatype 's jval = JNull | JBool bool | JNum 's | JStr string
  | JList "'s jval list" | JDict "(string \<times> 's jval) list"

type_synonym 's jdict = "(string, 's jval) dict"

record 's floats =
  fl_lit :: "rat \<Rightarrow> 's"                    \<comment> \<open>a decimal literal\<close>
  fl_int :: "int \<Rightarrow> 's"                    \<comment> \<open>an integer as a JSON number\<close>
  fl_parse :: "string \<Rightarrow> 's option"        \<comment> \<open>\<open>float(s)\<close>; \<open>None\<close> is the \<open>ValueError\<close>\<close>
  fl_repr :: "'s \<Rightarrow> string"               \<comment> \<open>\<open>str(x)\<close>\<close>
  fl_fmt4 :: "'s \<Rightarrow> string"               \<comment> \<open>\<open>f"{x:.4f}"\<close>\<close>
  fl_age_h :: "string \<Rightarrow> 's option"        \<comment> \<open>hours since an ISO time; \<open>None\<close> is the \<open>ValueError\<close>\<close>

fun jtruthy :: "'s::zero jval \<Rightarrow> bool" where
  "jtruthy JNull = False"
| "jtruthy (JBool b) = b"
| "jtruthy (JNum x) = (x \<noteq> 0)"
| "jtruthy (JStr s) = (s \<noteq> [])"
| "jtruthy (JList xs) = (xs \<noteq> [])"
| "jtruthy (JDict d) = (d \<noteq> [])"

definition jor :: "'s::zero jval \<Rightarrow> 's jval \<Rightarrow> 's jval" where
  "jor a b = (if jtruthy a then a else b)"

definition jget :: "'s jdict \<Rightarrow> string \<Rightarrow> 's jval" where
  "jget d k = dict_get d k JNull"

text \<open>\<open>d.get(k1) or d.get(k2) or ... or ""\<close>.\<close>

definition jfirst :: "'s::zero jval list \<Rightarrow> 's jval" where
  "jfirst vs = foldr jor vs (JStr [])"

text \<open>\<open>v if isinstance(v, dict) else {}\<close>.\<close>

fun jdict_of :: "'s jval \<Rightarrow> 's jdict" where
  "jdict_of (JDict d) = d"
| "jdict_of _ = []"

fun is_dict :: "'s jval \<Rightarrow> bool" where
  "is_dict (JDict d) = True"
| "is_dict _ = False"

subsection \<open>\<open>str(v)\<close>, \<open>float(v)\<close> and iteration\<close>

fun j_repr :: "('s \<Rightarrow> string) \<Rightarrow> 's jval \<Rightarrow> string" where
  "j_repr show JNull = ''None''"
| "j_repr show (JBool b) = (if b then ''True'' else ''False'')"
| "j_repr show (JNum x) = show x"
| "j_repr show (JStr s) = repr_str s"
| "j_repr show (JList xs) = ''['' @ join '', '' (map (j_repr show) xs) @ '']''"
| "j_repr show (JDict d) = ''{'' @ join '', '' (map (\<lambda>(k, v). repr_str k @ '': '' @ j_repr show v) d) @ ''}''"

fun j_str :: "('s \<Rightarrow> string) \<Rightarrow> 's jval \<Rightarrow> string" where
  "j_str show (JStr s) = s"
| "j_str show v = j_repr show v"

text \<open>\<open>float(v)\<close>; \<open>None\<close> is the \<open>TypeError\<close> or \<open>ValueError\<close>.\<close>

fun j_float :: "('s, 'e) floats_scheme \<Rightarrow> 's jval \<Rightarrow> 's option" where
  "j_float fl (JNum x) = Some x"
| "j_float fl (JBool b) = Some (fl_lit fl (if b then 1 else 0))"
| "j_float fl (JStr s) = fl_parse fl s"
| "j_float fl _ = None"

definition as_float :: "('s, 'e) floats_scheme \<Rightarrow> 's jval \<Rightarrow> 's \<Rightarrow> 's" where
  "as_float fl v default_value = (case j_float fl v of Some x \<Rightarrow> x | None \<Rightarrow> default_value)"

definition j_iter :: "'s jval \<Rightarrow> 's jval list res" where
  "j_iter v = (case v of JList xs \<Rightarrow> Inr xs | JStr s \<Rightarrow> Inr (map (\<lambda>c. JStr [c]) s)
     | JDict d \<Rightarrow> Inr (map (\<lambda>(k, _). JStr k) d) | _ \<Rightarrow> Inl (Raised ''TypeError''))"

text \<open>\<open>v.get(k)\<close>, for a value that need not be a dictionary.\<close>

definition j_get :: "'s jval \<Rightarrow> string \<Rightarrow> 's jval res" where
  "j_get v k = (case v of JDict d \<Rightarrow> Inr (jget d k) | _ \<Rightarrow> Inl (Raised ''AttributeError''))"

fun j_hashable :: "'s jval \<Rightarrow> bool" where
  "j_hashable (JList xs) = False"
| "j_hashable (JDict d) = False"
| "j_hashable _ = True"

fun j_of_py :: "(int \<Rightarrow> 's) \<Rightarrow> pyval \<Rightarrow> 's jval" where
  "j_of_py num PNone = JNull"
| "j_of_py num (PBool b) = JBool b"
| "j_of_py num (PInt i) = JNum (num i)"
| "j_of_py num (PStr s) = JStr s"
| "j_of_py num (PList xs) = JList (map (j_of_py num) xs)"
| "j_of_py num (PDict d) = JDict (map (\<lambda>(k, v). (k, j_of_py num v)) d)"

definition j_of_pydict :: "(int \<Rightarrow> 's) \<Rightarrow> pydict \<Rightarrow> 's jdict" where
  "j_of_pydict num d = map (\<lambda>(k, v). (k, j_of_py num v)) d"

lemma jget_Nil [simp]: "jget [] k = JNull"
  by (simp add: jget_def)

lemma jget_Cons [simp]: "jget ((k, v) # d) k' = (if k' = k then v else jget d k')"
  by (auto simp: jget_def dict_get_def)

lemma jget_update [dict_simps]: "jget (AList.update k v d) k' = (if k' = k then v else jget d k')"
  by (simp add: jget_def dict_get_update)

lemma j_iter_list [simp]: "j_iter (JList xs) = Inr xs"
  by (simp add: j_iter_def)

lemma j_get_dict [simp]: "j_get (JDict d) k = Inr (jget d k)"
  by (simp add: j_get_def)


subsection \<open>The ACL terms in transport\<close>

text \<open>
  \<open>json.dumps(terms, separators=(",", ":"), ensure_ascii=False).encode("utf-8")\<close>. Quotes and backslashes are
  written by their codes, 34 and 92.
\<close>

definition backslash :: char where "backslash = CHR 0x5C"
definition dquote :: char where "dquote = CHR 0x22"

definition json_escape :: "char \<Rightarrow> string" where
  "json_escape c = (let n = (of_char c :: nat) in
     if c = dquote \<or> c = backslash then [backslash, c]
     else if n = 10 then [backslash, CHR ''n''] else if n = 13 then [backslash, CHR ''r'']
     else if n = 9 then [backslash, CHR ''t''] else if n = 12 then [backslash, CHR ''f'']
     else if n = 8 then [backslash, CHR ''b'']
     else if n < 32 then [backslash] @ ''u00'' @ [hex_digit (n div 16), hex_digit (n mod 16)]
     else [c])"

definition json_quote :: "string \<Rightarrow> string" where
  "json_quote s = [dquote] @ concat (map json_escape s) @ [dquote]"

definition string_bytes :: "string \<Rightarrow> bytes" where
  "string_bytes s = utf8_encode (map of_char s)"

definition encode_acl_terms :: "string list \<Rightarrow> bytes" where
  "encode_acl_terms acl_terms = string_bytes (''['' @ join '','' (map json_quote acl_terms) @ '']'')"

text \<open>
  \<open>json.loads(b.decode("utf-8"))\<close> where the text is an array of strings; \<open>None\<close> is any other text, among
  them a JSON value of another shape and a character above U+00FF.
\<close>

definition hex_value :: "char \<Rightarrow> nat option" where
  "hex_value c = (let n = of_char (chr_lower c) :: nat in
     if 48 \<le> n \<and> n \<le> 57 then Some (n - 48) else if 97 \<le> n \<and> n \<le> 102 then Some (n - 87) else None)"

definition json_unescape :: "char \<Rightarrow> char option" where
  "json_unescape e =
     (if e = dquote \<or> e = backslash \<or> e = CHR ''/'' then Some e
      else if e = CHR ''n'' then Some (char_of (10 :: nat)) else if e = CHR ''r'' then Some (char_of (13 :: nat))
      else if e = CHR ''t'' then Some (char_of (9 :: nat)) else if e = CHR ''f'' then Some (char_of (12 :: nat))
      else if e = CHR ''b'' then Some (char_of (8 :: nat)) else None)"

definition json_u :: "char \<Rightarrow> char \<Rightarrow> char \<Rightarrow> char \<Rightarrow> char option" where
  "json_u a b c d = (case (hex_value a, hex_value b, hex_value c, hex_value d) of
     (Some i, Some j, Some k, Some l) \<Rightarrow> if i = 0 \<and> j = 0 then Some (char_of (16 * k + l)) else None
   | _ \<Rightarrow> None)"

definition put_char :: "char option \<Rightarrow> (string \<times> string) option \<Rightarrow> (string \<times> string) option" where
  "put_char c r = (case (c, r) of (Some x, Some (s, rest)) \<Rightarrow> Some (x # s, rest) | _ \<Rightarrow> None)"

text \<open>The characters after the opening quote, with what follows the closing one.\<close>

fun json_string :: "string \<Rightarrow> (string \<times> string) option" where
  "json_string [] = None"
| "json_string (x # s) =
     (if x = dquote then Some ([], s)
      else if x = backslash then
        (case s of
           [] \<Rightarrow> None
         | e # t \<Rightarrow> if e = CHR ''u'' then (case t of a # b # c # d # t' \<Rightarrow> put_char (json_u a b c d) (json_string t') | _ \<Rightarrow> None)
                    else put_char (json_unescape e) (json_string t))
      else if (of_char x :: nat) < 32 then None
      else put_char (Some x) (json_string s))"

lemma json_string_length: "json_string s = Some (w, r) \<Longrightarrow> length r < length s"
proof (induction s arbitrary: w rule: json_string.induct)
  case (2 x s)
  show ?case
  proof (cases "x = backslash \<and> x \<noteq> dquote")
    case False
    with 2 show ?thesis by (fastforce simp: put_char_def split: if_splits option.splits)
  next
    case True
    with 2 obtain e t where s: "s = e # t" by (auto split: list.splits)
    show ?thesis
    proof (cases "e = CHR ''u''")
      case False
      with 2 True s show ?thesis by (fastforce simp: put_char_def split: option.splits)
    next
      case u: True
      with 2 True s obtain a b c d t' where "t = a # b # c # d # t'" by (auto split: list.splits)
      with 2 True s u show ?thesis by (fastforce simp: put_char_def split: option.splits)
    qed
  qed
qed simp

definition json_space :: "char \<Rightarrow> bool" where
  "json_space c \<longleftrightarrow> c \<in> {CHR '' '', CHR 0x09, CHR 0x0A, CHR 0x0D}"

definition skip_ws :: "string \<Rightarrow> string" where
  "skip_ws s = dropWhile json_space s"

lemma skip_ws_length: "length (skip_ws s) \<le> length s"
  by (simp add: skip_ws_def length_dropWhile_le)

text \<open>The elements up to the closing bracket.\<close>

function json_items :: "string \<Rightarrow> (string list \<times> string) option" where
  "json_items s =
     (case skip_ws s of
        [] \<Rightarrow> None
      | q # t \<Rightarrow>
          if q \<noteq> dquote then None
          else case json_string t of
                 None \<Rightarrow> None
               | Some (w, r) \<Rightarrow>
                   (case skip_ws r of
                      [] \<Rightarrow> None
                    | x # r' \<Rightarrow>
                        if x = CHR '']'' then Some ([w], r')
                        else if x = CHR '','' then map_option (\<lambda>(ws, e). (w # ws, e)) (json_items r')
                        else None))"
  by pat_completeness auto
termination
proof (relation "measure length")
  fix s q t p w r x r'
  assume "skip_ws s = q # t" "json_string t = Some p" "(w, r) = p" "skip_ws r = x # r'"
  then show "(r', s) \<in> measure length"
    using skip_ws_length [of s] skip_ws_length [of r] json_string_length [of t w r] by simp
qed simp

declare json_items.simps [simp del]

definition json_strings :: "string \<Rightarrow> string list option" where
  "json_strings s =
     (case skip_ws s of
        [] \<Rightarrow> None
      | b # t \<Rightarrow>
          if b \<noteq> CHR ''['' then None
          else case (case skip_ws t of
                       [] \<Rightarrow> None
                     | x # r \<Rightarrow> if x = CHR '']'' then Some ([], r) else json_items t) of
                 None \<Rightarrow> None
               | Some (ws, r) \<Rightarrow> if skip_ws r = [] then Some ws else None)"

definition bytes_string :: "bytes \<Rightarrow> string option" where
  "bytes_string b = (let cs = utf8_decode b in if \<forall>c \<in> set cs. c < 256 then Some (map char_of cs) else None)"

definition acl_terms_for_json_body :: "bytes \<Rightarrow> string list res" where
  "acl_terms_for_json_body acl_compiled_filter =
     (case Option.bind (bytes_string acl_compiled_filter) json_strings of
        Some ts \<Rightarrow> Inr ts | None \<Rightarrow> Inl (Raised ''ValueError''))"

subsection \<open>The terms survive the transport\<close>

lemma hex_value_digit: "d < 16 \<Longrightarrow> hex_value (hex_digit d) = Some d"
  by (auto simp: hex_value_def hex_digit_def chr_lower_def Let_def)

lemma json_escape_control:
  assumes "(of_char c :: nat) < 32"
  shows "json_string (json_escape c @ t) = put_char (Some c) (json_string t)"
proof -
  have ne: "c \<noteq> dquote" "c \<noteq> backslash" using assms by (auto simp: dquote_def backslash_def)
  have c: "c = char_of (of_char c :: nat)" by simp
  show ?thesis
  proof (cases "(of_char c :: nat) \<in> {8, 9, 10, 12, 13}")
    case True
    then consider "(of_char c :: nat) = 8" | "(of_char c :: nat) = 9" | "(of_char c :: nat) = 10"
      | "(of_char c :: nat) = 12" | "(of_char c :: nat) = 13" by blast
    then show ?thesis
      by cases (use c ne in \<open>simp_all add: json_escape_def Let_def json_unescape_def dquote_def backslash_def\<close>)
  next
    case False
    let ?n = "of_char c :: nat"
    have u: "json_u CHR ''0'' CHR ''0'' (hex_digit (?n div 16)) (hex_digit (?n mod 16)) = Some c"
      using assms hex_value_digit [of "?n div 16"] hex_value_digit [of "?n mod 16"]
      by (simp add: json_u_def hex_value_def [of "CHR ''0''"] chr_lower_def)
    show ?thesis using False assms ne u by (simp add: json_escape_def Let_def dquote_def backslash_def)
  qed
qed

lemma json_string_escape: "json_string (json_escape c @ t) = put_char (Some c) (json_string t)"
proof (cases "(of_char c :: nat) < 32")
  case True
  then show ?thesis by (rule json_escape_control)
next
  case False
  then show ?thesis
    by (auto simp: json_escape_def Let_def json_unescape_def backslash_def dquote_def)
qed

lemma json_string_quote: "json_string (concat (map json_escape s) @ dquote # r) = Some (s, r)"
proof (induction s)
  case (Cons c s)
  then show ?case by (simp add: json_string_escape put_char_def)
qed simp


lemma skip_ws_Cons [simp]: "skip_ws (c # s) = (if json_space c then skip_ws s else c # s)"
  by (simp add: skip_ws_def)

lemma not_json_space: "\<not> json_space dquote" "\<not> json_space (CHR '']'')" "\<not> json_space (CHR '','')" "\<not> json_space (CHR ''['')"
  by (simp_all add: json_space_def dquote_def)

lemma json_items_quoted: "json_items (join '','' (map json_quote (t # ts)) @ CHR '']'' # r) = Some (t # ts, r)"
proof (induction ts arbitrary: t)
  case Nil
  have q: "join '','' (map json_quote [t]) @ CHR '']'' # r = dquote # concat (map json_escape t) @ dquote # CHR '']'' # r"
    by (simp add: json_quote_def)
  show ?case unfolding q json_items.simps [of "dquote # _"] by (simp add: json_string_quote not_json_space)
next
  case (Cons u us)
  have q: "join '','' (map json_quote (t # u # us)) @ CHR '']'' # r =
      dquote # concat (map json_escape t) @ dquote # CHR '','' # join '','' (map json_quote (u # us)) @ CHR '']'' # r"
    by (simp add: json_quote_def)
  have "CHR '','' \<noteq> CHR '']''" by simp
  then show ?case unfolding q json_items.simps [of "dquote # _"]
    using Cons.IH [of u] by (simp add: json_string_quote not_json_space)
qed

lemma json_strings_quoted: "json_strings (''['' @ join '','' (map json_quote ts) @ '']'') = Some ts"
proof (cases ts)
  case Nil
  then show ?thesis by (simp add: json_strings_def not_json_space) (simp add: skip_ws_def)
next
  case (Cons t us)
  have q: "join '','' (map json_quote ts) @ '']'' = dquote # tl (join '','' (map json_quote ts) @ '']'')"
    unfolding Cons by (cases us) (simp_all add: json_quote_def)
  have "json_items (join '','' (map json_quote ts) @ '']'') = Some (ts, [])"
    unfolding Cons by (rule json_items_quoted)
  then have "json_items (dquote # tl (join '','' (map json_quote ts) @ '']'')) = Some (ts, [])"
    using q by simp
  then show ?thesis
    by (subst q) (simp add: json_strings_def not_json_space, simp add: skip_ws_def dquote_def)
qed

lemma bytes_string_bytes [simp]: "bytes_string (string_bytes s) = Some s"
proof -
  have d: "utf8_decode (string_bytes s) = map of_char s"
    unfolding string_bytes_def
  proof (rule utf8_decode_encode)
    have "scalar (of_char c)" for c :: char
      unfolding scalar_def using nat_of_char_less_256 [of c] by linarith
    then show "list_all scalar (map of_char s)" by (simp add: list_all_iff)
  qed
  show ?thesis unfolding bytes_string_def d
    by (simp add: comp_def)
qed

lemma acl_terms_round_trip: "acl_terms_for_json_body (encode_acl_terms ts) = Inr ts"
  unfolding acl_terms_for_json_body_def encode_acl_terms_def
  by (simp only: bytes_string_bytes bind.simps json_strings_quoted option.case)

end
