(* ===== verification/Intent.thy ===== *)
theory Intent
  imports Federated
begin

text \<open>
  The intent router of the assistant (\<open>assistant/core/intent_router.py\<close>) and the text clean-up of
  \<open>assistant/infrastructure/chat_provider.py\<close>, which are written with regular expressions. \<open>re\<close> has the
  constructs their patterns use, and \<open>matches\<close> lists the ends of the matches at a position in the order
  in which Python tries them, so that \<open>search\<close>, \<open>match\<close> and \<open>sub\<close> follow the \<open>re\<close> module.
\<close>

subsection \<open>Regular expressions\<close>

text \<open>A position: the character before it, and the text after it.\<close>

type_synonym position = "char option \<times> string"

datatype re =
    Chr "char \<Rightarrow> bool"        \<comment> \<open>one character of a class\<close>
  | Seq re re
  | Alt re re
  | Opt re                     \<comment> \<open>greedy \<open>r?\<close>\<close>
  | Many "char \<Rightarrow> bool"       \<comment> \<open>greedy \<open>[...]*\<close>\<close>
  | Bound                      \<comment> \<open>\<open>\b\<close>\<close>
  | End                        \<comment> \<open>\<open>$\<close>\<close>

definition is_word :: "char \<Rightarrow> bool" where
  "is_word c = (let n = (of_char c :: nat) in
     (48 \<le> n \<and> n \<le> 57) \<or> (65 \<le> n \<and> n \<le> 90) \<or> n = 95 \<or> (97 \<le> n \<and> n \<le> 122) \<or>
     n \<in> {170, 178, 179, 181, 185, 186, 188, 189, 190} \<or> (192 \<le> n \<and> n \<noteq> 215 \<and> n \<noteq> 247))"

definition word_at :: "char option \<Rightarrow> bool" where
  "word_at c = (case c of None \<Rightarrow> False | Some x \<Rightarrow> is_word x)"

fun many :: "(char \<Rightarrow> bool) \<Rightarrow> char option \<Rightarrow> string \<Rightarrow> position list" where
  "many cls p [] = [(p, [])]"
| "many cls p (c # s) = (if cls c then many cls (Some c) s else []) @ [(p, c # s)]"

fun matches :: "re \<Rightarrow> position \<Rightarrow> position list" where
  "matches (Chr cls) (p, s) = (case s of [] \<Rightarrow> [] | c # t \<Rightarrow> if cls c then [(Some c, t)] else [])"
| "matches (Seq r1 r2) x = concat (map (matches r2) (matches r1 x))"
| "matches (Alt r1 r2) x = matches r1 x @ matches r2 x"
| "matches (Opt r) x = matches r x @ [x]"
| "matches (Many cls) (p, s) = many cls p s"
| "matches Bound (p, s) =
     (if word_at p = word_at (case s of [] \<Rightarrow> None | c # t \<Rightarrow> Some c) then [] else [(p, s)])"
| "matches End (p, s) = (if s = [] \<or> s = [CHR 0x0A] then [(p, s)] else [])"

definition re_match :: "re \<Rightarrow> string \<Rightarrow> bool" where
  "re_match r s = (matches r (None, s) \<noteq> [])"

fun search_from :: "re \<Rightarrow> char option \<Rightarrow> string \<Rightarrow> bool" where
  "search_from r p [] = (matches r (p, []) \<noteq> [])"
| "search_from r p (c # s) = (matches r (p, c # s) \<noteq> [] \<or> search_from r (Some c) s)"

definition re_search :: "re \<Rightarrow> string \<Rightarrow> bool" where
  "re_search r s = search_from r None s"

text \<open>\<open>re.sub(r, repl, s)\<close> for a pattern that matches no empty text.\<close>

function sub_from :: "re \<Rightarrow> string \<Rightarrow> char option \<Rightarrow> string \<Rightarrow> string" where
  "sub_from r repl p [] = []"
| "sub_from r repl p (c # s) =
     (case matches r (p, c # s) of
        (q, t) # _ \<Rightarrow> if length t \<le> length s then repl @ sub_from r repl q t else c # sub_from r repl (Some c) s
      | [] \<Rightarrow> c # sub_from r repl (Some c) s)"
  by pat_completeness auto
termination by (relation "measure (\<lambda>(r, repl, p, s). length s)") auto

definition re_sub :: "re \<Rightarrow> string \<Rightarrow> string \<Rightarrow> string" where
  "re_sub r repl s = sub_from r repl None s"

text \<open>Words and classes: \<open>lit\<close> ignores the case of letters, \<open>alts\<close> is \<open>r1|r2|...\<close>.\<close>

fun seqs :: "re list \<Rightarrow> re" where
  "seqs [] = Many (\<lambda>c. False)"
| "seqs [r] = r"
| "seqs (r # rs) = Seq r (seqs rs)"

fun alts :: "re list \<Rightarrow> re" where
  "alts [] = Chr (\<lambda>c. False)"
| "alts [r] = r"
| "alts (r # rs) = Alt r (alts rs)"

definition lit :: "string \<Rightarrow> re" where
  "lit w = seqs (map (\<lambda>x. Chr (\<lambda>c. chr_lower c = x)) w)"

definition plus_of :: "(char \<Rightarrow> bool) \<Rightarrow> re" where
  "plus_of cls = Seq (Chr cls) (Many cls)"

definition spaces :: re where     \<comment> \<open>\<open>\s+\<close>\<close>
  "spaces = plus_of is_space"

subsection \<open>Intents\<close>

datatype intent = SEARCH | READ | CHAT | GREETING

primrec intent_value :: "intent \<Rightarrow> string" where
  "intent_value SEARCH = ''search''"
| "intent_value READ = ''read''"
| "intent_value CHAT = ''chat''"
| "intent_value GREETING = ''greeting''"

definition READ_RE :: re where
  "READ_RE = seqs [Bound,
     alts [lit ''read'', lit ''open'',
           seqs [lit ''show'', spaces, Opt (seqs [lit ''me'', spaces]), Opt (seqs [lit ''the'', spaces]),
                 alts [lit ''full'', lit ''entire'']],
           seqs [lit ''document'', spaces, Opt (lit ''#''), plus_of is_word],
           seqs [lit ''blob'', Chr (\<lambda>c. c \<in> {CHR '':'', CHR ''/''})]],
     Bound]"

definition SEARCH_RE :: re where
  "SEARCH_RE = seqs [Bound,
     alts [lit ''find'', lit ''search'', seqs [lit ''look'', spaces, lit ''up''], seqs [lit ''where'', spaces, lit ''is''],
           seqs [lit ''who'', spaces, lit ''knows''],
           seqs [lit ''doc'', Opt (lit ''s''), spaces, lit ''about''], seqs [lit ''related'', spaces, lit ''to'']],
     Bound]"

definition GREETING_RE :: re where
  "GREETING_RE = seqs [Many is_space,
     alts (map lit [''hi'', ''hello'', ''hey'', ''hiya'', ''yo'', ''sup'', ''howdy''] @
       [seqs [lit ''good'', spaces, alts [lit ''morning'', lit ''afternoon'', lit ''evening'']],
        lit ''thanks'', seqs [lit ''thank'', spaces, lit ''you''], lit ''thx'', lit ''ty''] @
       map lit [''ok'', ''okay'', ''cool'', ''great'', ''nice''] @ [seqs [lit ''got'', spaces, lit ''it'']] @
       [lit ''bye'', lit ''goodbye'', seqs [lit ''see'', spaces, lit ''ya'']]),
     Many (\<lambda>c. is_space c \<or> c \<in> {CHR ''!'', CHR ''.'', CHR ''?''}), End]"

definition ATTACHED_RE :: re where
  "ATTACHED_RE = seqs [Bound, alts [lit ''this'', lit ''attached'', lit ''file''], Bound]"

text \<open>\<open>len(text.split())\<close>.\<close>

fun word_count :: "bool \<Rightarrow> string \<Rightarrow> nat" where
  "word_count inside [] = 0"
| "word_count inside (c # s) =
     (if is_space c then word_count False s else (if inside then 0 else 1) + word_count True s)"

definition words :: "string \<Rightarrow> nat" where
  "words s = word_count False s"

definition is_greeting_or_chitchat :: "string \<Rightarrow> bool" where
  "is_greeting_or_chitchat prompt =
     (let t = str_strip prompt in
      if t = [] then True
      else if re_match GREETING_RE t then True
      else words t \<le> 2 \<and> \<not> contains ''?'' t \<and> \<not> re_search SEARCH_RE t \<and> \<not> re_search READ_RE t)"

definition classify_intent :: "string \<Rightarrow> string list \<Rightarrow> intent" where
  "classify_intent prompt attachments =
     (let t = str_strip prompt in
      if is_greeting_or_chitchat t \<and> attachments = [] then GREETING
      else if attachments \<noteq> [] \<and> re_search READ_RE t then READ
      else if attachments \<noteq> [] \<and> re_search ATTACHED_RE t then READ
      else if re_search READ_RE t then READ
      else if re_search SEARCH_RE t \<or> (contains ''?'' t \<and> words t \<le> 24) then SEARCH
      else if words t \<le> 2 then CHAT
      else if 3 \<le> words t then SEARCH
      else CHAT)"

end
