(* ===== verification/Assistant_Rank.thy ===== *)
theory Assistant_Rank
  imports Json Intent
begin

text \<open>
  Ranking in the assistant: \<open>assistant/core/ranker_boost.py\<close>, which turns the federator's results into hits
  and adds the activity boost, and the selection of hits for the prompt (\<open>filter_relevant_hits\<close> and
  \<open>plain_source_text\<close> of \<open>assistant/infrastructure/chat_provider.py\<close>). The scores are floating-point numbers,
  of which only the linear order is used.
\<close>

subsection \<open>Hits\<close>

record 's ranked_hit =
  rh_document_id :: string
  rh_base_score :: 's
  rh_boosted_score :: 's
  rh_title :: string
  rh_snippet :: string
  rh_sources :: "'s jval list"
  rh_boost_reason :: "string option"
  rh_meta :: "'s jdict"

definition j_list :: "'s::zero jval \<Rightarrow> 's jval list res" where     \<comment> \<open>\<open>list(v or [])\<close>\<close>
  "j_list v = (if jtruthy v then j_iter v else Inr [])"

text \<open>\<open>item.get(...)\<close> of a dictionary: \<open>document_id\<close> or \<open>id\<close>, and the sender.\<close>

definition item_id :: "('s::zero, 'e) floats_scheme \<Rightarrow> 's jdict \<Rightarrow> string" where
  "item_id fl d = j_str (fl_repr fl) (jfirst [jget d ''document_id'', jget d ''id''])"

definition item_sender :: "('s::zero, 'e) floats_scheme \<Rightarrow> 's jdict \<Rightarrow> string" where
  "item_sender fl d = j_str (fl_repr fl) (jfirst [jget d ''from_email'', jget (jdict_of (jget d ''metadata'')) ''from_email''])"

definition item_meta :: "string \<Rightarrow> 's jdict \<Rightarrow> 's jdict" where
  "item_meta from_email d =
     (if from_email = [] then d
      else let m = AList.update ''from_email'' (JStr from_email) d
           in AList.update ''metadata''
                (JDict (AList.update ''from_email'' (JStr from_email) (jdict_of (jget m ''metadata'')))) m)"

definition hit_of_item :: "('s::zero, 'e) floats_scheme \<Rightarrow> 's jdict \<Rightarrow> 's ranked_hit res" where
  "hit_of_item fl d =
     rbind (j_list (jget d ''sources'')) (\<lambda>sources.
       let base = as_float fl (jget d ''score'') 0 in
       Inr \<lparr>rh_document_id = item_id fl d, rh_base_score = base, rh_boosted_score = base,
            rh_title = j_str (fl_repr fl) (jfirst [jget d ''title'']),
            rh_snippet = j_str (fl_repr fl) (jfirst [jget d ''snippet'', jget d ''body'']),
            rh_sources = sources, rh_boost_reason = None, rh_meta = item_meta (item_sender fl d) d\<rparr>)"

fun base_hits_of :: "('s::zero, 'e) floats_scheme \<Rightarrow> 's jval list \<Rightarrow> 's ranked_hit list res" where
  "base_hits_of fl [] = Inr []"
| "base_hits_of fl (JDict d # items) =
     (if item_id fl d = [] then base_hits_of fl items
      else rbind (hit_of_item fl d) (\<lambda>h. rbind (base_hits_of fl items) (\<lambda>hs. Inr (h # hs))))"
| "base_hits_of fl (v # items) = base_hits_of fl items"

definition extract_base_hits :: "('s::zero, 'e) floats_scheme \<Rightarrow> 's jdict \<Rightarrow> 's ranked_hit list res" where
  "extract_base_hits fl federator_payload =
     rbind (j_list (jor (jget federator_payload ''results'') (jget federator_payload ''hits''))) (base_hits_of fl)"

subsection \<open>The activity boost\<close>

type_synonym 's weights = "(string, 's) dict"

definition raise_weight :: "string \<Rightarrow> 's::{linorder,zero} \<Rightarrow> 's weights \<Rightarrow> 's weights" where
  "raise_weight k w ws = AList.update k (max (dict_get ws k 0) w) ws"

text \<open>\<open>s.replace("Z", "+00:00")\<close>.\<close>

definition utc_offset :: "string \<Rightarrow> string" where
  "utc_offset s = concat (map (\<lambda>c. if c = CHR ''Z'' then ''+00:00'' else [c]) s)"

definition temporal_bump :: "('s::{linorder,zero,plus,minus,times,inverse}, 'e) floats_scheme \<Rightarrow> 's jval \<Rightarrow> 's \<Rightarrow> 's" where
  "temporal_bump fl event_time w =
     (if \<not> jtruthy event_time then w
      else case fl_age_h fl (utc_offset (j_str (fl_repr fl) event_time)) of
             None \<Rightarrow> w
           | Some h \<Rightarrow>
               let age_h = max 0 h; week = fl_lit fl 168
               in w + max 0 (fl_lit fl 0.15 * (fl_lit fl 1 - min age_h week / week)))"

definition ingest_entry ::
    "('s::{linorder,zero,plus,minus,times,inverse}, 'e) floats_scheme \<Rightarrow> 's \<Rightarrow> 's jval \<Rightarrow> 's weights \<Rightarrow> 's weights" where
  "ingest_entry fl default_weight entry ws =
     (case entry of
        JStr k \<Rightarrow> raise_weight k default_weight ws
      | JDict d \<Rightarrow>
          let doc_id = j_str (fl_repr fl) (jfirst [jget d ''document_id'', jget d ''object_id'', jget d ''id'']);
              raw = dict_get d ''score'' (dict_get d ''views'' (dict_get d ''weight'' (JNum default_weight)));
              event_time = jor (jget d ''event_time'') (jget d ''last_viewed_at'')
          in if doc_id = [] then ws
             else raise_weight doc_id (temporal_bump fl event_time (as_float fl raw default_weight)) ws
      | _ \<Rightarrow> ws)"

definition ingest_weights ::
    "('s::{linorder,zero,plus,minus,times,inverse}, 'e) floats_scheme \<Rightarrow> 's jdict \<Rightarrow> string \<times> rat \<Rightarrow> 's weights \<Rightarrow>
     's weights res" where
  "ingest_weights fl d = (\<lambda>(key, lit) ws.
     rbind (j_list (jget d key)) (\<lambda>entries.
       Inr (foldl (\<lambda>ws e. ingest_entry fl (fl_lit fl lit) e ws) ws entries)))"

fun ingest_all ::
    "('s::{linorder,zero,plus,minus,times,inverse}, 'e) floats_scheme \<Rightarrow> 's jdict \<Rightarrow> (string \<times> rat) list \<Rightarrow> 's weights \<Rightarrow>
     's weights res" where
  "ingest_all fl d [] ws = Inr ws"
| "ingest_all fl d (x # xs) ws = rbind (ingest_weights fl d x ws) (ingest_all fl d xs)"

definition recent_doc_weights ::
    "('s::{linorder,zero,plus,minus,times,inverse}, 'e) floats_scheme \<Rightarrow> 's jdict \<Rightarrow> 's weights res" where
  "recent_doc_weights fl payload =
     (let signals = (case jget payload ''signals'' of JDict d \<Rightarrow> d | _ \<Rightarrow> payload) in
      rbind (ingest_all fl signals
               [(''top_viewed_docs'', 0.25), (''authored_docs'', 0.20), (''recent_views'', 0.30), (''worked_on_docs'', 0.22)] [])
        (ingest_all fl payload [(''top_viewed_docs'', 0.25), (''recent_views'', 0.30)]))"

definition boost_hit ::
    "('s::{linorder,zero,plus,times}, 'e) floats_scheme \<Rightarrow> 's weights \<Rightarrow> 's ranked_hit \<Rightarrow> 's ranked_hit" where
  "boost_hit fl ws h =
     (let delta = fl_lit fl 0.35 * dict_get ws (rh_document_id h) 0
      in h\<lparr>rh_boosted_score := rh_base_score h + delta,
           rh_boost_reason := (if delta \<noteq> 0 then Some (''activity_signal+'' @ fl_fmt4 fl delta) else None)\<rparr>)"

definition apply_signal_boost ::
    "('s::{linorder,zero,plus,minus,times,inverse}, 'e) floats_scheme \<Rightarrow> 's ranked_hit list \<Rightarrow> 's jdict \<Rightarrow> 's ranked_hit list res" where
  "apply_signal_boost fl base_hits signals_payload =
     rbind (recent_doc_weights fl signals_payload) (\<lambda>ws.
       Inr (sort_desc rh_boosted_score (map (boost_hit fl ws) base_hits)))"

text \<open>\<open>_pick\<close>: the first key with a score of at least zero, in the hit's metadata and then below its \<open>metadata\<close>.\<close>

fun pick_in :: "('s::{linorder,zero}, 'e) floats_scheme \<Rightarrow> 's jdict list \<Rightarrow> string list \<Rightarrow> 's" where
  "pick_in fl [] ks = fl_lit fl (- 1)"
| "pick_in fl (d # ds) ks =
     (case find (\<lambda>v. 0 \<le> v) (map (\<lambda>k. as_float fl (jget d k) (fl_lit fl (- 1))) ks) of
        Some v \<Rightarrow> v | None \<Rightarrow> pick_in fl ds ks)"

definition retrieval_confidence :: "('s::{linorder,zero,plus,minus,times,inverse}, 'e) floats_scheme \<Rightarrow> 's ranked_hit list \<Rightarrow> 's" where
  "retrieval_confidence fl hits =
     (case hits of
        [] \<Rightarrow> 0
      | h # _ \<Rightarrow>
          let meta = rh_meta h; dicts = [meta, jdict_of (jget meta ''metadata''), meta];
              similarity = max (pick_in fl dicts [''vector_score'']) (pick_in fl dicts [''lexical_score'']);
              one = fl_lit fl 1
          in if fl_lit fl 0.05 \<le> similarity then min one similarity
             else let rrf = max (max (rh_boosted_score h) (rh_base_score h)) (pick_in fl dicts [''fusion_score'', ''score''])
               in if rrf \<le> 0 then 0
                  else if rrf \<le> fl_lit fl 0.05 then min one (rrf * fl_lit fl 61)
                  else min one rrf)"

subsection \<open>What the boost keeps\<close>

lemma boost_hit_keeps [simp]:
  "rh_document_id (boost_hit fl ws h) = rh_document_id h" "rh_base_score (boost_hit fl ws h) = rh_base_score h"
  "rh_snippet (boost_hit fl ws h) = rh_snippet h" "rh_title (boost_hit fl ws h) = rh_title h"
  "rh_meta (boost_hit fl ws h) = rh_meta h"
  by (simp_all add: boost_hit_def Let_def)

lemma apply_signal_boost_Inr:
  "apply_signal_boost fl hs p = Inr bs \<Longrightarrow>
     \<exists>ws. recent_doc_weights fl p = Inr ws \<and> bs = sort_desc rh_boosted_score (map (boost_hit fl ws) hs)"
  by (auto simp: apply_signal_boost_def rbind_Inr_iff)

lemma boost_ids:
  "apply_signal_boost fl hs p = Inr bs \<Longrightarrow> rh_document_id ` set bs = rh_document_id ` set hs"
  by (auto dest!: apply_signal_boost_Inr simp: image_image)

lemma hit_of_item_id: "hit_of_item fl d = Inr h \<Longrightarrow> rh_document_id h = item_id fl d"
  by (auto simp: hit_of_item_def rbind_Inr_iff Let_def)

lemma base_hit_items:
  "base_hits_of fl items = Inr hs \<Longrightarrow> h \<in> set hs \<Longrightarrow>
     \<exists>d. JDict d \<in> set items \<and> hit_of_item fl d = Inr h \<and> item_id fl d \<noteq> []"
proof (induction fl items arbitrary: hs rule: base_hits_of.induct)
  case (2 fl d items)
  show ?case
  proof (cases "item_id fl d = []")
    case True
    with 2 show ?thesis by fastforce
  next
    case False
    with 2(3) obtain x xs where x: "hit_of_item fl d = Inr x" "base_hits_of fl items = Inr xs" "hs = x # xs"
      by (auto simp: rbind_Inr_iff)
    show ?thesis
    proof (cases "h = x")
      case True
      with x False show ?thesis by auto
    next
      case ne: False
      with 2(4) x(3) have "h \<in> set xs" by simp
      from 2(2) [OF False x(2) this] show ?thesis by auto
    qed
  qed
qed fastforce+

subsection \<open>Source text\<close>

text \<open>
  \<open>plain_source_text\<close>. \<open>unescape\<close> is \<open>html.unescape\<close>; \<open>ellipsis\<close> is the character U+2026, which the strings
  of this development do not hold.
\<close>

definition BR_RE :: re where
  "BR_RE = seqs [lit ''<br'', Many is_space, Opt (lit ''/''), lit ''>'']"

definition BLANKS_RE :: re where
  "BLANKS_RE = plus_of (\<lambda>c. c = CHR '' '' \<or> c = CHR 0x09)"

definition NEWLINES_RE :: re where
  "NEWLINES_RE = (let nl = (\<lambda>c. c = CHR 0x0A) in seqs [Chr nl, Chr nl, Chr nl, Many nl])"

definition plain_text :: "(string \<Rightarrow> string) \<Rightarrow> string \<Rightarrow> string" where
  "plain_text unescape raw =
     str_strip (re_sub NEWLINES_RE [CHR 0x0A, CHR 0x0A] (re_sub BLANKS_RE '' ''
       (unescape (drop_tags (re_sub (lit ''</p>'') [CHR 0x0A] (re_sub BR_RE [CHR 0x0A] (drop_blocks raw)))))))"

definition str_rstrip :: "string \<Rightarrow> string" where
  "str_rstrip s = rev (dropWhile is_space (rev s))"

definition cut_text :: "string \<Rightarrow> nat \<Rightarrow> string \<Rightarrow> string" where
  "cut_text ellipsis limit s = (if length s > limit then str_rstrip (take limit s) @ ellipsis else s)"

definition plain_source_text :: "(string \<Rightarrow> string) \<Rightarrow> string \<Rightarrow> nat \<Rightarrow> string \<Rightarrow> string" where
  "plain_source_text unescape ellipsis limit raw =
     (let cleaned = plain_text unescape raw in if limit \<noteq> 0 then cut_text ellipsis limit cleaned else cleaned)"

definition source_text_is_usable :: "(string \<Rightarrow> string) \<Rightarrow> string \<Rightarrow> bool" where
  "source_text_is_usable unescape s = (40 \<le> length (plain_text unescape s))"

lemma cut_text_length: "length (cut_text ellipsis limit s) \<le> limit + length ellipsis"
proof -
  have "length (str_rstrip (take limit s)) \<le> limit"
    unfolding str_rstrip_def length_rev using length_dropWhile_le [of is_space "rev (take limit s)"] by simp
  then show ?thesis by (simp add: cut_text_def)
qed

subsection \<open>The hits that ground the answer\<close>

text \<open>The hits are dictionaries from here on: \<open>hit.__dict__\<close>, later enriched.\<close>

definition row_of_hit :: "'s ranked_hit \<Rightarrow> 's jdict" where
  "row_of_hit h =
     [(''document_id'', JStr (rh_document_id h)), (''base_score'', JNum (rh_base_score h)),
      (''boosted_score'', JNum (rh_boosted_score h)), (''title'', JStr (rh_title h)),
      (''snippet'', JStr (rh_snippet h)), (''sources'', JList (rh_sources h)),
      (''boost_reason'', case rh_boost_reason h of None \<Rightarrow> JNull | Some r \<Rightarrow> JStr r), (''meta'', JDict (rh_meta h))]"

definition hit_numeric_score :: "('s, 'e) floats_scheme \<Rightarrow> 's jdict \<Rightarrow> 's option" where
  "hit_numeric_score fl hit =
     (let meta = jdict_of (jget hit ''meta'');
          tries = [(k, d). k \<leftarrow> [''boosted_score'', ''score'', ''base_score'', ''fusion_score'', ''vector_score''], d \<leftarrow> [hit, meta]]
      in case find (\<lambda>s. s \<noteq> None) (map (\<lambda>(k, d). j_float fl (jget d k)) tries) of Some s \<Rightarrow> s | None \<Rightarrow> None)"

definition is_rrf_score :: "('s::{linorder,zero}, 'e) floats_scheme \<Rightarrow> 's \<Rightarrow> bool" where
  "is_rrf_score fl score = (0 < score \<and> score < fl_lit fl 0.05)"

definition from_reader :: "'s jdict \<Rightarrow> bool" where
  "from_reader hit = (case jget hit ''sources'' of
     JList xs \<Rightarrow> list_ex (\<lambda>v. v = JStr ''document_reader'' \<or> v = JStr ''document_reader_fallback'') xs | _ \<Rightarrow> False)"

definition TOP_K_SOURCES :: nat where "TOP_K_SOURCES = 5"

definition keeps_hit :: "('s::{linorder,zero}, 'e) floats_scheme \<Rightarrow> nat \<Rightarrow> 's jdict \<Rightarrow> bool" where
  "keeps_hit fl kept hit =
     (from_reader hit \<or>
      ((str_strip (j_str (fl_repr fl) (jfirst [jget hit ''snippet'', jget hit ''body'', jget hit ''title''])) \<noteq> [] \<or>
        jtruthy (jget hit ''document_id'')) \<and>
       (case hit_numeric_score fl hit of
          None \<Rightarrow> True
        | Some score \<Rightarrow>
            let least = (if is_rrf_score fl score then fl_lit fl 0.001 else fl_lit fl 0.02)
            in \<not> (score < least \<and> 2 \<le> kept))))"

fun relevant_from :: "('s::{linorder,zero}, 'e) floats_scheme \<Rightarrow> 's jdict list \<Rightarrow> 's jdict list \<Rightarrow> 's jdict list" where
  "relevant_from fl kept [] = kept"
| "relevant_from fl kept (hit # hits) =
     (if keeps_hit fl (length kept) hit
      then if TOP_K_SOURCES \<le> Suc (length kept) then kept @ [hit] else relevant_from fl (kept @ [hit]) hits
      else relevant_from fl kept hits)"

definition filter_relevant_hits :: "('s::{linorder,zero}, 'e) floats_scheme \<Rightarrow> 's jdict list \<Rightarrow> 's jdict list" where
  "filter_relevant_hits fl ranked_hits =
     (let kept = relevant_from fl [] ranked_hits;
          kept = (if kept = [] then filter (\<lambda>h. jtruthy (jget h ''document_id'') \<or>
                        str_strip (j_str (fl_repr fl) (jfirst [jget h ''snippet''])) \<noteq> []) (take TOP_K_SOURCES ranked_hits)
                  else kept)
      in take TOP_K_SOURCES kept)"

lemma set_relevant_from: "set (relevant_from fl kept hits) \<subseteq> set kept \<union> set hits"
  by (induction fl kept hits rule: relevant_from.induct) auto

lemma relevant_hits: "set (filter_relevant_hits fl hits) \<subseteq> set hits"
  using set_relevant_from [of fl "[]" hits]
  by (auto simp: filter_relevant_hits_def Let_def dest!: in_set_takeD split: if_splits)

lemma length_relevant: "length (filter_relevant_hits fl hits) \<le> TOP_K_SOURCES"
  by (simp add: filter_relevant_hits_def Let_def)

end
