(* ===== verification/Assistant_Prompt.thy ===== *)
theory Assistant_Prompt
  imports Assistant_Rank
begin

text \<open>
  The prompt of the assistant (\<open>assistant/infrastructure/chat_provider.py\<close>): the hits with their full bodies
  from the document store, the source blocks within the context budget, the earlier turns, and the two
  messages that go to the language model. \<open>texts\<close> supplies what the strings here cannot hold: the
  characters beyond U+00FF, HTML entities and decoded UTF-8.
\<close>

record texts =
  tx_unescape :: "string \<Rightarrow> string"      \<comment> \<open>\<open>html.unescape\<close>\<close>
  tx_decode :: "bytes \<Rightarrow> string"         \<comment> \<open>\<open>decode("utf-8", errors="ignore")\<close>\<close>
  tx_ellipsis :: string                  \<comment> \<open>U+2026\<close>
  tx_em_dash :: string                   \<comment> \<open>U+2014\<close>
  tx_en_dash :: string                   \<comment> \<open>U+2013\<close>
  tx_apostrophe :: string                \<comment> \<open>U+2019\<close>

definition plain :: "texts \<Rightarrow> string \<Rightarrow> string" where
  "plain tx s = plain_source_text (tx_unescape tx) (tx_ellipsis tx) 0 s"

definition nl :: string where "nl = [CHR 0x0A]"

definition MAX_SOURCE_CHARS :: nat where "MAX_SOURCE_CHARS = 1500"
definition MAX_CONTEXT_CHARS :: nat where "MAX_CONTEXT_CHARS = 12000"
definition MAX_HISTORY_TURNS :: nat where "MAX_HISTORY_TURNS = 6"

definition REFUSE_TEXT :: string where
  "REFUSE_TEXT = ''I don't have that information in the available documents.''"

definition GREETING_TEXT :: "texts \<Rightarrow> string" where
  "GREETING_TEXT tx = ''Hi '' @ tx_em_dash tx @ '' I can help with your indexed Drive, Gmail, and docs. '' @
     ''Ask a specific question and I'' @ tx_apostrophe tx @ ''ll answer from your sources.''"

definition is_refuse_answer :: "string \<Rightarrow> bool" where
  "is_refuse_answer s =
     (let normalized = str_lower (str_strip s) in
      contains ''don't have enough information in the provided context'' normalized \<or>
      contains ''don't have that information in the available documents'' normalized \<or>
      contains ''dont have that information in the available documents'' normalized)"

subsection \<open>Metadata of a hit\<close>

definition is_blank :: "'s jval \<Rightarrow> bool" where     \<comment> \<open>\<open>v in (None, "", [])\<close>\<close>
  "is_blank v \<longleftrightarrow> v = JNull \<or> v = JStr [] \<or> v = JList []"

definition meta_sources :: "'s::zero jdict \<Rightarrow> 's jdict list" where
  "meta_sources hit =
     (let meta = jdict_of (jget hit ''meta''); nested = jdict_of (jget meta ''metadata'');
          extra = jdict_of (jget hit ''metadata'');
          structured = jdict_of (jget nested ''structured_metadata'');
          structured = (if structured = [] then jdict_of (jget extra ''structured_metadata'') else structured)
      in [hit, meta, nested, extra, structured])"

definition first_of :: "'s::zero jdict \<Rightarrow> string list \<Rightarrow> 's jval" where
  "first_of hit keys =
     (case find (\<lambda>v. \<not> is_blank v) [jget d k. k \<leftarrow> keys, d \<leftarrow> meta_sources hit] of Some v \<Rightarrow> v | None \<Rightarrow> JNull)"

record 's hit_facts =
  hm_document_id :: string
  hm_chunk_id :: "'s jval"
  hm_page :: "'s jval"
  hm_title :: string
  hm_source :: "'s jval"
  hm_from_email :: string
  hm_subject :: string

definition hit_meta :: "('s::zero, 'e) floats_scheme \<Rightarrow> 's jdict \<Rightarrow> 's hit_facts" where
  "hit_meta fl hit =
     (let str_of = (\<lambda>v. j_str (fl_repr fl) (jfirst [v])) in
      \<lparr>hm_document_id = str_of (first_of hit [''document_id'', ''id'']),
       hm_chunk_id = first_of hit [''chunk_id'', ''chunkId''],
       hm_page = first_of hit [''page'', ''page_number'', ''pageNumber''],
       hm_title = str_of (first_of hit [''title'', ''subject'']),
       hm_source = first_of hit [''source'', ''source_type'', ''repository''],
       hm_from_email = str_of (first_of hit [''from_email'', ''from'', ''sender'']),
       hm_subject = str_of (first_of hit [''subject''])\<rparr>)"

definition body_of :: "('s::zero, 'e) floats_scheme \<Rightarrow> texts \<Rightarrow> 's jdict \<Rightarrow> string" where
  "body_of fl tx hit = plain tx (str_strip (j_str (fl_repr fl) (jfirst [jget hit ''snippet'', jget hit ''body''])))"

definition format_source_block :: "('s::zero, 'e) floats_scheme \<Rightarrow> texts \<Rightarrow> 's jdict \<Rightarrow> nat \<Rightarrow> string" where
  "format_source_block fl tx hit index =
     (let meta = hit_meta fl hit;
          snippet = cut_text (tx_ellipsis tx) MAX_SOURCE_CHARS (body_of fl tx hit);
          title = (if hm_title meta \<noteq> [] then hm_title meta else if hm_document_id meta \<noteq> [] then hm_document_id meta
                   else ''Document '' @ nat_str index);
          extras = (if hm_from_email meta \<noteq> [] then [''from='' @ hm_from_email meta] else []) @
                   (if hm_subject meta \<noteq> [] \<and> hm_subject meta \<noteq> hm_title meta then [''subject='' @ hm_subject meta] else []) @
                   (if jtruthy (hm_source meta) then [''source='' @ j_str (fl_repr fl) (hm_source meta)] else []);
          head = ''[Source '' @ nat_str index @ '': '' @ title @ '']'';
          head = (if extras \<noteq> [] then head @ '' ('' @ join ''; '' extras @ '')'' else head)
      in head @ nl @ (if snippet \<noteq> [] then snippet else ''(empty snippet)''))"

definition or_null :: "string \<Rightarrow> 's jval" where
  "or_null s = (if s = [] then JNull else JStr s)"

definition debug_source_chunks :: "('s::zero, 'e) floats_scheme \<Rightarrow> texts \<Rightarrow> 's jdict list \<Rightarrow> 's jdict list" where
  "debug_source_chunks fl tx ranked_hits =
     map (\<lambda>(i, hit). let meta = hit_meta fl hit in
        [(''source_id'', JStr (''['' @ nat_str i @ '']'')), (''document_id'', or_null (hm_document_id meta)),
         (''chunk_id'', hm_chunk_id meta), (''page'', hm_page meta), (''title'', or_null (hm_title meta)),
         (''from_email'', or_null (hm_from_email meta)), (''source'', hm_source meta),
         (''score'', dict_get hit ''boosted_score'' (jget hit ''score'')), (''base_score'', jget hit ''base_score''),
         (''snippet'', JStr (take 500 (body_of fl tx hit)))])
       (List.enumerate 1 (take TOP_K_SOURCES ranked_hits))"

subsection \<open>Full bodies\<close>

text \<open>
  The store is asked by tenant and document id alone. An exception ends the work on a hit, after the
  snippet may already have been replaced; \<open>seen\<close> then stays as it was.
\<close>

definition merge_structured :: "'s::zero jdict \<Rightarrow> 's jdict \<Rightarrow> 's jdict" where
  "merge_structured sm row =
     (if sm = [] then row
      else let merged = foldl (\<lambda>m (k, v). AList.update k v m) (jdict_of (jget row ''metadata''))
                          (filter (\<lambda>(k, v). \<not> is_blank v) sm);
               row = AList.update ''metadata'' (JDict merged) row
           in if jtruthy (jget sm ''from_email'') then AList.update ''from_email'' (jget sm ''from_email'') row else row)"

definition enrich_row ::
    "('s::zero, 'e) floats_scheme \<Rightarrow> texts \<Rightarrow> doc_store \<Rightarrow> string \<Rightarrow> string \<Rightarrow> string \<Rightarrow> 's jdict \<Rightarrow> 's jdict \<times> bool" where
  "enrich_row fl tx store tenant_id doc_id snippet row =
     (let meta = (case get_metadata tenant_id doc_id store of None \<Rightarrow> [] | Some m \<Rightarrow> j_of_pydict (fl_int fl) m);
          object_key = jget meta ''object_key'' in
      case (if jtruthy object_key then map_sum id (tx_decode tx) (get_body (j_str (fl_repr fl) object_key) store) else Inr []) of
        Inl e \<Rightarrow> (row, False)
      | Inr raw \<Rightarrow>
          let body_text = plain tx raw;
              row = (if length body_text > length snippet
                     then let row = AList.update ''snippet'' (JStr (take 6000 body_text)) row
                          in if jtruthy (jget meta ''title'') \<and> \<not> jtruthy (jget row ''title'')
                             then AList.update ''title'' (jget meta ''title'') row else row
                     else row)
          in case get_structured_metadata tenant_id doc_id store of
               Inl e \<Rightarrow> (row, False)
             | Inr None \<Rightarrow> (row, True)
             | Inr (Some sm) \<Rightarrow> (merge_structured (j_of_pydict (fl_int fl) sm) row, True))"

fun enrich_rows ::
    "('s::zero, 'e) floats_scheme \<Rightarrow> texts \<Rightarrow> doc_store \<Rightarrow> string \<Rightarrow> string list \<Rightarrow> 's jdict list \<Rightarrow> 's jdict list" where
  "enrich_rows fl tx store tenant_id seen [] = []"
| "enrich_rows fl tx store tenant_id seen (row # rows) =
     (let doc_id = j_str (fl_repr fl) (jfirst [jget row ''document_id'']);
          snippet = plain tx (j_str (fl_repr fl) (jfirst [jget row ''snippet'', jget row ''body'']));
          (row', fetched) = (if doc_id \<noteq> [] \<and> doc_id \<notin> set seen \<and> length snippet < 600
                             then enrich_row fl tx store tenant_id doc_id snippet row else (row, False))
      in row' # enrich_rows fl tx store tenant_id (if fetched then doc_id # seen else seen) rows)"

definition enrich_hits_with_full_bodies ::
    "('s::zero, 'e) floats_scheme \<Rightarrow> texts \<Rightarrow> doc_store \<Rightarrow> 's jdict list \<Rightarrow> string \<Rightarrow> 's jdict list" where
  "enrich_hits_with_full_bodies fl tx store hits tenant_id =
     (if hits = [] \<or> str_strip tenant_id = [] then hits
      else enrich_rows fl tx store tenant_id [] (take TOP_K_SOURCES hits))"

text \<open>Enrichment keeps the identity of every hit.\<close>

lemma jget_merge_structured:
  "k \<noteq> ''metadata'' \<Longrightarrow> k \<noteq> ''from_email'' \<Longrightarrow> jget (merge_structured sm row) k = jget row k"
  by (simp add: merge_structured_def Let_def jget_update)

lemma enrich_row_id: "jget (fst (enrich_row fl tx store tenant d s row)) ''document_id'' = jget row ''document_id''"
  by (auto simp: enrich_row_def Let_def jget_update jget_merge_structured split: sum.split option.split)

lemma enrich_rows_ids:
  "map (\<lambda>h. jget h ''document_id'') (enrich_rows fl tx store tenant seen rows) = map (\<lambda>h. jget h ''document_id'') rows"
  using enrich_row_id by (induction rows arbitrary: seen) (auto simp: Let_def split_beta)

lemma enriched_ids:
  "(\<lambda>h. jget h ''document_id'') ` set (enrich_hits_with_full_bodies fl tx store hits tenant)
     \<subseteq> (\<lambda>h. jget h ''document_id'') ` set hits"
proof -
  have "(\<lambda>h. jget h ''document_id'') ` set (enrich_rows fl tx store tenant [] (take n hits)) =
      (\<lambda>h. jget h ''document_id'') ` set (take n hits)" for n
    using arg_cong [OF enrich_rows_ids, of set] by simp
  then show ?thesis by (auto simp: enrich_hits_with_full_bodies_def dest: in_set_takeD)
qed


subsection \<open>The messages\<close>

definition GROUNDED_SYSTEM_PROMPT :: "texts \<Rightarrow> string" where
  "GROUNDED_SYSTEM_PROMPT tx = join nl
    [''You are SynQ AI, an intelligent business knowledge assistant.'',
      '''',
      ''CRITICAL RULES (Phase 1 quality bar):'',
      ''- Answer ONLY using the document context provided below. Do NOT use your own knowledge.'',
      ''- If the answer is in the documents, extract and present it clearly with specific details (names, numbers, dates, quotes).'',
      ''- Cite sources inline as [1], [2], etc. matching the source numbers below (at most 2'' @ tx_en_dash tx @ ''3 citations).'',
      ''- If the documents do not contain the answer, say exactly: I don't have that information in the available documents.'',
      ''- For questions about which apps or accounts are connected to SynQ AI, use the CONNECTED INTEGRATIONS section (not the document list).'',
      ''- For greetings (hello, hi, hey), respond warmly and mention you can help with their uploaded documents.'',
      ''- Be direct, specific, and conversational. Do NOT dump raw document text.'',
      ''- When the user asks for a brief / summary / story / lessons, use short bold section labels and bullets '' @ tx_em_dash tx @ '' still only from the sources.'',
      ''- Source headers (title, from=, subject=) are evidence. For newsletters, From identifies the author; '' @ [dquote] @ ''3MM'' @ [dquote] @ '' means '' @ [dquote] @ ''3 Minute Monday'' @ [dquote] @ ''.'',
      ''- Answer in the same language as the question.'',
      ''- Lead with the answer. No preamble like '' @ [dquote] @ ''Here is what I found'' @ [dquote] @ '' or '' @ [dquote] @ ''Based on the sources'' @ [dquote] @ ''.'']"

datatype role = User | Assistant | Tool

primrec role_value :: "role \<Rightarrow> string" where
  "role_value User = ''user''" | "role_value Assistant = ''assistant''" | "role_value Tool = ''tool''"

record 's turn_record =
  tn_role :: role
  tn_content :: string
  tn_meta :: "'s jdict"

text \<open>The blocks that fit: the first one that does not ends the loop.\<close>

fun blocks_within :: "nat \<Rightarrow> string list \<Rightarrow> string list" where
  "blocks_within used [] = []"
| "blocks_within used (b # bs) =
     (if used + length b > MAX_CONTEXT_CHARS then [] else b # blocks_within (used + length b + 2) bs)"

definition source_blocks :: "('s::{linorder,zero}, 'e) floats_scheme \<Rightarrow> texts \<Rightarrow> 's jdict list \<Rightarrow> string list" where
  "source_blocks fl tx ranked_hits =
     blocks_within 0 (map (\<lambda>(i, hit). format_source_block fl tx hit i)
       (List.enumerate 1 (take TOP_K_SOURCES (filter_relevant_hits fl ranked_hits))))"

definition sources_text :: "('s::{linorder,zero}, 'e) floats_scheme \<Rightarrow> texts \<Rightarrow> 's jdict list \<Rightarrow> string" where
  "sources_text fl tx ranked_hits =
     (let blocks = source_blocks fl tx ranked_hits
      in if blocks \<noteq> [] then join (nl @ nl) blocks else ''(no authorized sources)'')"

definition last_n :: "nat \<Rightarrow> 'a list \<Rightarrow> 'a list" where     \<comment> \<open>\<open>xs[-n:]\<close>\<close>
  "last_n n xs = drop (length xs - n) xs"

definition history_line :: "'s turn_record \<Rightarrow> string option" where
  "history_line turn =
     (let content = map (\<lambda>c. if c = CHR 0x0A then CHR '' '' else c) (str_strip (tn_content turn))
      in if tn_role turn = Tool \<or> content = [] then None
         else Some (role_value (tn_role turn) @ '': '' @ take 400 content))"

definition prior_turns :: "'s turn_record list \<Rightarrow> 's turn_record list" where
  "prior_turns history =
     last_n MAX_HISTORY_TURNS
       (if history \<noteq> [] \<and> tn_role (last history) = User then butlast history else history)"

definition history_text :: "'s turn_record list \<Rightarrow> string" where
  "history_text history =
     (let ls = List.map_filter history_line (prior_turns history) in if ls \<noteq> [] then join nl ls else ''(none)'')"

definition user_message ::
    "('s::{linorder,zero}, 'e) floats_scheme \<Rightarrow> texts \<Rightarrow> string \<Rightarrow> 's jdict list \<Rightarrow> 's turn_record list \<Rightarrow> string option \<Rightarrow>
     string option \<Rightarrow> string" where
  "user_message fl tx user_prompt ranked_hits history account_email connector_summary =
     (let email = str_strip (opt_str account_email);
          summary = str_strip (opt_str connector_summary)
      in ''CONNECTED INTEGRATIONS:'' @ nl @ (if summary \<noteq> [] then summary else ''(no connector summary)'') @ nl @ nl @
         ''DOCUMENTS:'' @ nl @ sources_text fl tx ranked_hits @ nl @ nl @
         ''Signed-in account: '' @ (if email \<noteq> [] then str_lower email else ''(not provided)'') @ nl @
         ''Prior conversation (not evidence; sources above win if they conflict):'' @ nl @ history_text history @ nl @ nl @
         ''QUESTION: '' @ user_prompt @ nl @ nl @
         ''Answer based on CONNECTED INTEGRATIONS for connection/account questions, '' @
         ''and on DOCUMENTS for content questions. '' @
         ''If a From header or title abbreviation matches the person/topic asked about, '' @
         ''use that source '' @ tx_em_dash tx @
         '' do not refuse just because the display name is missing from the body.'')"

definition assemble_chat_messages ::
    "('s::{linorder,zero}, 'e) floats_scheme \<Rightarrow> texts \<Rightarrow> string \<Rightarrow> 's jdict list \<Rightarrow> 's turn_record list \<Rightarrow> string option \<Rightarrow>
     string option \<Rightarrow> (string \<times> string) list \<times> string" where
  "assemble_chat_messages fl tx user_prompt ranked_hits history account_email connector_summary =
     (let user = user_message fl tx user_prompt ranked_hits history account_email connector_summary
      in ([(''system'', GROUNDED_SYSTEM_PROMPT tx), (''user'', user)],
          GROUNDED_SYSTEM_PROMPT tx @ nl @ nl @ user))"

subsection \<open>The budgets\<close>

lemma join_length_sum: "length (join sep bs) = sum_list (map length bs) + length sep * (length bs - 1)"
  by (induction sep bs rule: join.induct) auto

lemma blocks_within_budget:
  "blocks_within used bs \<noteq> [] \<Longrightarrow> used + length (join (nl @ nl) (blocks_within used bs)) \<le> MAX_CONTEXT_CHARS"
proof (induction used bs rule: blocks_within.induct)
  case (2 used b bs)
  show ?case
  proof (cases "used + length b > MAX_CONTEXT_CHARS \<or> blocks_within (used + length b + 2) bs = []")
    case True
    with 2 show ?thesis by auto
  next
    case False
    with 2 show ?thesis by (simp add: join_Cons nl_def)
  qed
qed simp

lemma length_blocks_within: "length (blocks_within used bs) \<le> length bs"
  by (induction used bs rule: blocks_within.induct) auto

lemma sources_text_fits: "length (sources_text fl tx hits) \<le> MAX_CONTEXT_CHARS"
proof (cases "source_blocks fl tx hits = []")
  case True
  then show ?thesis by (simp add: sources_text_def MAX_CONTEXT_CHARS_def)
next
  case False
  then have "length (join (nl @ nl) (source_blocks fl tx hits)) \<le> MAX_CONTEXT_CHARS"
    using blocks_within_budget [of 0] unfolding source_blocks_def by fastforce
  with False show ?thesis by (simp add: sources_text_def)
qed

lemma source_blocks_count: "length (source_blocks fl tx hits) \<le> TOP_K_SOURCES"
proof -
  have "length (source_blocks fl tx hits) \<le> length (take TOP_K_SOURCES (filter_relevant_hits fl hits))"
    unfolding source_blocks_def by (rule order_trans [OF length_blocks_within]) simp
  then show ?thesis using length_relevant [of fl hits] by simp
qed

lemma history_line_length: "history_line t = Some s \<Longrightarrow> length s \<le> 411"
  by (cases "tn_role t") (auto simp: history_line_def Let_def split: if_splits)

lemma prior_turns_length: "length (prior_turns history) \<le> MAX_HISTORY_TURNS"
  by (simp add: prior_turns_def last_n_def)

end
