(* ===== verification/Assistant_Provider.thy ===== *)
theory Assistant_Provider
  imports Assistant_Prompt
begin

text \<open>
  The chat providers of the assistant (\<open>assistant/infrastructure/chat_provider.py\<close>): the offline synthesizer,
  the OpenRouter client with its list of models to fall back on, the choice between them and the removal
  of secrets from provider errors. The language model is a function of the number of the request and the
  request; its answer is an exception, by its text, or a JSON object. The temperature of a request and the
  timings are left out, and an exception of the extraction itself is named by its class.
\<close>

record chat_generation =
  cg_text :: string
  cg_provider :: string
  cg_error :: "string option"

subsection \<open>Errors without secrets\<close>

definition key_char :: "char \<Rightarrow> bool" where
  "key_char c = (let n = (of_char c :: nat) in
     (48 \<le> n \<and> n \<le> 57) \<or> (65 \<le> n \<and> n \<le> 90) \<or> (97 \<le> n \<and> n \<le> 122) \<or> n = 95 \<or> n = 45)"

definition exact :: "string \<Rightarrow> re" where
  "exact w = seqs (map (\<lambda>x. Chr (\<lambda>c. c = x)) w)"

definition one_of :: "string \<Rightarrow> re" where
  "one_of cs = Chr (\<lambda>c. c \<in> set cs)"

definition KEY_RE :: re where
  "KEY_RE = Seq (exact ''sk-'') (plus_of key_char)"

definition non_space :: "char \<Rightarrow> bool" where
  "non_space c = (\<not> is_space c)"

definition BEARER_RE :: re where
  "BEARER_RE = Seq (lit ''bearer'') (Seq spaces (plus_of non_space))"

definition API_KEY_RE :: re where
  "API_KEY_RE = Seq (lit ''api'') (Seq (Opt (one_of ''_-'')) (Seq (lit ''key'')
     (Seq (Opt (one_of [CHR 0x27, dquote])) (Seq (Many is_space) (Seq (one_of '':='') (Seq (Many is_space) (plus_of non_space)))))))"

definition redact_provider_error :: "texts \<Rightarrow> string \<Rightarrow> string" where
  "redact_provider_error tx exc_text =
     (let t = re_sub KEY_RE ''[redacted]'' exc_text;
          t = re_sub BEARER_RE ''Bearer [redacted]'' t;
          t = re_sub API_KEY_RE ''api_key=[redacted]'' t
      in if length t > 240 then take 240 t @ tx_ellipsis tx else t)"

subsection \<open>The offline synthesizer\<close>

text \<open>\<open>s.rsplit(p, 1)[-1]\<close> for a text that contains \<open>p\<close>.\<close>

definition after_last :: "string \<Rightarrow> string \<Rightarrow> string" where
  "after_last p s = (case find (\<lambda>i. starts_with p (drop i s)) (rev [0..<Suc (length s)]) of
     Some i \<Rightarrow> drop (i + length p) s | None \<Rightarrow> s)"

definition question_of :: "string \<Rightarrow> string" where
  "question_of prompt =
     str_strip (if contains ''QUESTION:'' prompt then after_last ''QUESTION:'' prompt
                else if contains (''Question:'' @ nl) prompt then after_last (''Question:'' @ nl) prompt else prompt)"

definition last_user_message :: "(string \<times> string) list \<Rightarrow> string" where
  "last_user_message messages =
     (case find (\<lambda>(r, c). r = ''user'') (rev messages) of Some (r, c) \<Rightarrow> c | None \<Rightarrow> [])"

definition strip_char :: "char \<Rightarrow> string \<Rightarrow> string" where
  "strip_char q s = rev (dropWhile ((=) q) (rev (dropWhile ((=) q) s)))"

definition display_name :: "string \<Rightarrow> string" where
  "display_name sender =
     (if CHR ''<'' \<in> set sender
      then let d = strip_char dquote (str_strip (takeWhile (\<lambda>c. c \<noteq> CHR ''<'') sender))
           in if d \<noteq> [] then d else sender
      else sender)"

definition fake_answer :: "('s::{linorder,zero}, 'e) floats_scheme \<Rightarrow> texts \<Rightarrow> 's jdict \<Rightarrow> string" where
  "fake_answer fl tx hit =
     (let meta = hit_meta fl hit;
          flat = map (\<lambda>c. if c = CHR 0x0A then CHR '' '' else c)
                   (plain tx (j_str (fl_repr fl) (jfirst [jget hit ''snippet''])));
          title = str_strip (j_str (fl_repr fl)
                    (jfirst [JStr (hm_title meta), jget hit ''title'', jget hit ''document_id'', JStr ''your document'']));
          sender = str_strip (hm_from_email meta);
          snippet = cut_text (tx_ellipsis tx) 280 flat
      in if sender \<noteq> [] then ''From **'' @ display_name sender @ ''** ('' @ title @ ''): '' @ snippet @ '' [1]''
         else ''From **'' @ title @ ''**: '' @ snippet @ '' [1]'')"

definition fake_generate ::
    "('s::{linorder,zero}, 'e) floats_scheme \<Rightarrow> texts \<Rightarrow> (string \<times> string) list \<Rightarrow> 's jdict list \<Rightarrow> chat_generation" where
  "fake_generate fl tx messages ranked_hits =
     \<lparr>cg_text =
        (if is_greeting_or_chitchat (question_of (last_user_message messages)) then GREETING_TEXT tx
         else case filter_relevant_hits fl ranked_hits of [] \<Rightarrow> REFUSE_TEXT | hit # _ \<Rightarrow> fake_answer fl tx hit),
      cg_provider = ''fake'', cg_error = None\<rparr>"

subsection \<open>The text of a completion\<close>

definition part_text :: "('s::zero, 'e) floats_scheme \<Rightarrow> 's jval \<Rightarrow> string" where
  "part_text fl v = (case v of JStr s \<Rightarrow> s
     | JDict d \<Rightarrow> j_str (fl_repr fl) (jfirst [jget d ''text'', jget d ''content'']) | _ \<Rightarrow> [])"

definition text_from_value :: "('s::zero, 'e) floats_scheme \<Rightarrow> 's jval \<Rightarrow> string" where
  "text_from_value fl v =
     str_strip (case v of JNull \<Rightarrow> [] | JList xs \<Rightarrow> concat (map (part_text fl) xs) | _ \<Rightarrow> j_str (fl_repr fl) v)"

definition message_text :: "('s::zero, 'e) floats_scheme \<Rightarrow> 's jdict \<Rightarrow> string" where
  "message_text fl message =
     (let t = text_from_value fl (jget message ''content'');
          t = (if t = [] then text_from_value fl (jor (jget message ''reasoning'') (jget message ''reasoning_content'')) else t)
      in if t \<noteq> [] then t
         else case jget message ''reasoning_details'' of
                JList details \<Rightarrow>
                  text_from_value fl (JList (map (\<lambda>i. case i of JDict d \<Rightarrow> jget d ''text'' | _ \<Rightarrow> i) details))
              | _ \<Rightarrow> [])"

definition completion_text :: "('s::zero, 'e) floats_scheme \<Rightarrow> 's jdict \<Rightarrow> (string \<times> string option) res" where
  "completion_text fl data =
     (if jtruthy (jget data ''error'')
      then Inr ([], Some (''provider_error:'' @ j_str (fl_repr fl) (jget data ''error'')))
      else if \<not> jtruthy (jget data ''choices'') then Inr ([], Some ''empty_choices'')
      else case jget data ''choices'' of
             JDict d \<Rightarrow> Inl (Raised ''KeyError'')
           | JNum x \<Rightarrow> Inl (Raised ''TypeError'')
           | JBool b \<Rightarrow> Inl (Raised ''TypeError'')
           | choices \<Rightarrow>
               let choice = (case choices of JList (c # cs) \<Rightarrow> jdict_of c | _ \<Rightarrow> []);
                   t = message_text fl (jdict_of (jor (jget choice ''message'') (jget choice ''delta'')));
                   finish = jfirst [jget choice ''finish_reason'', jget choice ''native_finish_reason'', JStr ''unknown'']
               in Inr (if t = [] then ([], Some (''empty_content:'' @ j_str (fl_repr fl) finish)) else (t, None)))"

subsection \<open>OpenRouter\<close>

record llm_request =
  lr_model :: string
  lr_max_tokens :: int
  lr_reasoning_off :: bool      \<comment> \<open>the request carries \<open>extra_body\<close>\<close>
  lr_messages :: "(string \<times> string) list"

type_synonym 's llm = "nat \<Rightarrow> llm_request \<Rightarrow> string + 's jdict"

definition may_reason :: "string \<Rightarrow> bool" where
  "may_reason model = list_ex (\<lambda>t. contains t (str_lower model)) [''qwen3'', ''qwq'', ''thinking'', ''reason'']"

definition FALLBACK_MODELS :: "string list" where
  "FALLBACK_MODELS = [''qwen/qwen-2.5-coder-32b-instruct'', ''google/gemini-2.5-flash'', ''openai/gpt-4o-mini'',
     ''meta-llama/llama-3.3-70b-instruct'']"

definition candidate_models :: "string \<Rightarrow> string list" where
  "candidate_models model = model # filter (\<lambda>m. m \<noteq> model) FALLBACK_MODELS"

text \<open>One candidate: its text, or the error to remember, and the number of the next request.\<close>

record candidate_result =
  cr_text :: string
  cr_error :: "string option"
  cr_next :: nat

definition try_again ::
    "('s::zero, 'e) floats_scheme \<Rightarrow> texts \<Rightarrow> 's llm \<Rightarrow> (string \<times> string) list \<Rightarrow> int \<Rightarrow> string \<Rightarrow> nat \<Rightarrow> candidate_result" where
  "try_again fl tx llm messages budget model n =
     (case llm n \<lparr>lr_model = model, lr_max_tokens = max budget 2048, lr_reasoning_off = False, lr_messages = messages\<rparr> of
        Inl e \<Rightarrow> \<lparr>cr_text = [], cr_error = Some (redact_provider_error tx e), cr_next = Suc n\<rparr>
      | Inr data \<Rightarrow>
          (case completion_text fl data of
             Inl e \<Rightarrow> \<lparr>cr_text = [], cr_error = Some (redact_provider_error tx (case e of Raised s \<Rightarrow> s | HTTPException c s \<Rightarrow> s)), cr_next = Suc n\<rparr>
           | Inr (t, _) \<Rightarrow> \<lparr>cr_text = t, cr_error = None, cr_next = Suc n\<rparr>))"

definition first_reply ::
    "texts \<Rightarrow> 's llm \<Rightarrow> (string \<times> string) list \<Rightarrow> int \<Rightarrow> string \<Rightarrow> nat \<Rightarrow> (string + 's jdict) \<times> nat" where
  "first_reply tx llm messages budget model n =
     (case llm n \<lparr>lr_model = model, lr_max_tokens = budget, lr_reasoning_off = may_reason model, lr_messages = messages\<rparr> of
        Inr data \<Rightarrow> (Inr data, Suc n)
      | Inl _ \<Rightarrow>
          (llm (Suc n) \<lparr>lr_model = model, lr_max_tokens = budget, lr_reasoning_off = False, lr_messages = messages\<rparr>, Suc (Suc n)))"

definition try_candidate ::
    "('s::zero, 'e) floats_scheme \<Rightarrow> texts \<Rightarrow> 's llm \<Rightarrow> (string \<times> string) list \<Rightarrow> int \<Rightarrow> string \<Rightarrow> nat \<Rightarrow> candidate_result res" where
  "try_candidate fl tx llm messages budget model n =
     (case first_reply tx llm messages budget model n of
        (Inl e, n) \<Rightarrow> Inr \<lparr>cr_text = [], cr_error = Some (redact_provider_error tx e), cr_next = n\<rparr>
      | (Inr data, n) \<Rightarrow>
          rbind (completion_text fl data) (\<lambda>(t, _).
            Inr (if t = [] then try_again fl tx llm messages budget model n
                 else \<lparr>cr_text = t, cr_error = None, cr_next = n\<rparr>)))"

fun try_candidates ::
    "('s::zero, 'e) floats_scheme \<Rightarrow> texts \<Rightarrow> 's llm \<Rightarrow> (string \<times> string) list \<Rightarrow> int \<Rightarrow> string list \<Rightarrow> string option \<Rightarrow> nat \<Rightarrow>
     (string \<times> string option \<times> nat) res" where
  "try_candidates fl tx llm messages budget [] last_err n = Inr ([], last_err, n)"
| "try_candidates fl tx llm messages budget (m # ms) last_err n =
     rbind (try_candidate fl tx llm messages budget m n) (\<lambda>r.
       if cr_text r \<noteq> [] then Inr (cr_text r, last_err, cr_next r)
       else try_candidates fl tx llm messages budget ms
              (case cr_error r of None \<Rightarrow> last_err | Some e \<Rightarrow> Some e) (cr_next r))"

definition token_budget :: "string \<Rightarrow> int \<Rightarrow> int" where
  "token_budget model max_tokens = max max_tokens (if may_reason model then 2048 else 1024)"

definition openrouter_generate ::
    "('s::zero, 'e) floats_scheme \<Rightarrow> texts \<Rightarrow> 's llm \<Rightarrow> string \<Rightarrow> int \<Rightarrow> (string \<times> string) list \<Rightarrow> (chat_generation \<times> nat) res" where
  "openrouter_generate fl tx llm model max_tokens messages =
     rbind (try_candidates fl tx llm messages (token_budget model max_tokens) (candidate_models model) None 0)
       (\<lambda>(t, last_err, n).
         Inr (\<lparr>cg_text = t, cg_provider = ''openrouter'',
               cg_error = (if t \<noteq> [] then None
                           else Some (if opt_str last_err \<noteq> [] then opt_str last_err else ''empty_content''))\<rparr>, n))"

subsection \<open>The factory\<close>

record chat_settings =
  cs_provider :: "string option"     \<comment> \<open>\<open>llm_chat_provider\<close>\<close>
  cs_api_key :: "string option"      \<comment> \<open>\<open>openrouter_api_key\<close>\<close>
  cs_model :: "string option"        \<comment> \<open>\<open>qwen_model\<close>\<close>
  cs_max_tokens :: int               \<comment> \<open>\<open>llm_chat_max_tokens\<close>\<close>
  cs_max_rounds :: int               \<comment> \<open>\<open>llm_max_tool_call_rounds\<close>, 2 for zero\<close>

datatype provider = Fake_Chat | Open_Router string

definition create_chat_provider :: "chat_settings \<Rightarrow> provider res" where
  "create_chat_provider cfg =
     (let name = str_lower (str_strip (if opt_str (cs_provider cfg) \<noteq> [] then opt_str (cs_provider cfg) else ''fake''));
          has_openrouter = (opt_str (cs_api_key cfg) \<noteq> [] \<and> opt_str (cs_model cfg) \<noteq> [])
      in if name \<in> {''openrouter'', ''qwen''} \<or> (name \<in> {''fake'', ''template'', ''auto''} \<and> has_openrouter)
         then Inr (if has_openrouter then Open_Router (opt_str (cs_model cfg)) else Fake_Chat)
         else if name \<in> {''fake'', ''template'', ''auto''} then Inr Fake_Chat
         else Inl (Raised ''ValueError''))"

definition chat_generate ::
    "('s::{linorder,zero}, 'e) floats_scheme \<Rightarrow> texts \<Rightarrow> 's llm \<Rightarrow> chat_settings \<Rightarrow> (string \<times> string) list \<Rightarrow> 's jdict list \<Rightarrow>
     chat_generation res" where
  "chat_generate fl tx llm cfg messages ranked_hits =
     rbind (create_chat_provider cfg) (\<lambda>p. case p of
        Fake_Chat \<Rightarrow> Inr (fake_generate fl tx messages ranked_hits)
      | Open_Router model \<Rightarrow>
          rbind (openrouter_generate fl tx llm model (cs_max_tokens cfg) messages) (\<lambda>(g, n). Inr g))"


subsection \<open>What a generation gives\<close>

lemma try_candidate_requests:
  "try_candidate fl tx llm messages budget m n = Inr r \<Longrightarrow> n < cr_next r \<and> cr_next r \<le> n + 3"
  by (auto simp: try_candidate_def first_reply_def try_again_def rbind_Inr_iff split: sum.splits prod.splits if_splits)

lemma try_candidates_requests:
  "try_candidates fl tx llm messages budget ms e n = Inr (t, e', n') \<Longrightarrow> n \<le> n' \<and> n' \<le> n + 3 * length ms"
proof (induction ms arbitrary: e n)
  case (Cons m ms)
  then obtain r where r: "try_candidate fl tx llm messages budget m n = Inr r" by (auto simp: rbind_Inr_iff)
  from try_candidate_requests [OF r] have b: "n < cr_next r" "cr_next r \<le> n + 3" by simp_all
  show ?case
  proof (cases "cr_text r = []")
    case False
    with Cons.prems r b show ?thesis by auto
  next
    case True
    with Cons.prems r have "try_candidates fl tx llm messages budget ms
        (case cr_error r of None \<Rightarrow> e | Some e \<Rightarrow> Some e) (cr_next r) = Inr (t, e', n')" by simp
    from Cons.IH [OF this] b show ?thesis by simp
  qed
qed simp

lemma candidate_models_length: "length (candidate_models model) \<le> 5"
proof -
  have "length (filter (\<lambda>m. m \<noteq> model) FALLBACK_MODELS) \<le> length FALLBACK_MODELS" by (rule length_filter_le)
  then show ?thesis by (simp add: candidate_models_def FALLBACK_MODELS_def)
qed

lemma generation_outcome:
  assumes "openrouter_generate fl tx llm model max_tokens messages = Inr (g, n)"
  shows "(cg_text g = [] \<longleftrightarrow> cg_error g \<noteq> None) \<and> n \<le> 15"
proof -
  obtain t e where c: "try_candidates fl tx llm messages (token_budget model max_tokens) (candidate_models model) None 0 = Inr (t, e, n)"
    and g: "g = \<lparr>cg_text = t, cg_provider = ''openrouter'',
       cg_error = (if t \<noteq> [] then None else Some (if opt_str e \<noteq> [] then opt_str e else ''empty_content''))\<rparr>"
    using assms by (auto simp: openrouter_generate_def rbind_Inr_iff)
  have "n \<le> 15" using try_candidates_requests [OF c] candidate_models_length [of model] by simp
  then show ?thesis by (simp add: g)
qed

text \<open>A candidate that answers its first request with text ends the search, unless one before it did.\<close>

lemma candidate_found:
  assumes "m \<in> set ms" "\<And>n. \<exists>data t e. llm n \<lparr>lr_model = m, lr_max_tokens = budget, lr_reasoning_off = may_reason m, lr_messages = messages\<rparr> = Inr data
      \<and> completion_text fl data = Inr (t, e) \<and> t \<noteq> []"
    and "try_candidates fl tx llm messages budget ms e n = Inr (t, e', n')"
  shows "t \<noteq> []"
  using assms(1,3)
proof (induction ms arbitrary: e n)
  case (Cons m' ms)
  then obtain r where r: "try_candidate fl tx llm messages budget m' n = Inr r" by (auto simp: rbind_Inr_iff)
  show ?case
  proof (cases "cr_text r = []")
    case False
    with Cons.prems r show ?thesis by auto
  next
    case True
    have "m' \<noteq> m"
    proof
      assume m: "m' = m"
      obtain data t e where d: "llm n \<lparr>lr_model = m, lr_max_tokens = budget, lr_reasoning_off = may_reason m, lr_messages = messages\<rparr> = Inr data"
        "completion_text fl data = Inr (t, e)" "t \<noteq> []" using assms(2) [of n] by blast
      with r True show False by (auto simp: m try_candidate_def first_reply_def)
    qed
    with Cons.prems True r show ?thesis by (intro Cons.IH) auto
  qed
qed simp

subsection \<open>Redaction\<close>

definition key_at :: "string \<Rightarrow> bool" where
  "key_at s = (starts_with ''sk-'' s \<and> 3 < length s \<and> key_char (s ! 3))"

definition no_key :: "string \<Rightarrow> bool" where
  "no_key s = (\<forall>i. \<not> key_at (drop i s))"

lemma no_key_Cons: "no_key (c # s) \<longleftrightarrow> \<not> key_at (c # s) \<and> no_key s"
proof
  assume "no_key (c # s)"
  then have n: "\<not> key_at (drop i (c # s))" for i by (simp only: no_key_def) blast
  from n [of 0] n [of "Suc i" for i] show "\<not> key_at (c # s) \<and> no_key s" by (simp add: no_key_def)
next
  assume "\<not> key_at (c # s) \<and> no_key s"
  then show "no_key (c # s)" unfolding no_key_def by (auto simp: drop_Cons split: nat.split)
qed

lemma no_key_Nil [simp]: "no_key []"
  by (simp add: no_key_def key_at_def starts_with_def)

text \<open>The four shapes a text can have at the places of a key, from its last character to its first.\<close>

fun key_tail :: "nat \<Rightarrow> string \<Rightarrow> bool" where
  "key_tail 0 s = (s \<noteq> [] \<and> key_char (hd s))"
| "key_tail (Suc n) s = (s \<noteq> [] \<and> hd s = ''-ks'' ! n \<and> key_tail n (tl s))"

lemma key_at_tail: "key_at s = key_tail 3 s"
  by (cases s; cases "tl s"; cases "tl (tl s)"; cases "tl (tl (tl s))")
    (auto simp: key_at_def starts_with_def numeral_3_eq_3)


lemma no_key_append: "CHR ''s'' \<notin> set r \<Longrightarrow> no_key s \<Longrightarrow> no_key (r @ s)"
proof (induction r)
  case (Cons c r)
  then have "\<not> key_at ((c # r) @ s)" by (auto simp: key_at_def starts_with_def)
  with Cons show ?case by (simp add: no_key_Cons)
qed simp

lemma no_key_suffix: "no_key (u @ s) \<Longrightarrow> no_key s"
  by (induction u) (simp_all add: no_key_Cons)

lemma many_suffix: "y \<in> set (many cls p s) \<Longrightarrow> \<exists>u. s = u @ snd y"
proof (induction cls p s rule: many.induct)
  case (2 cls p c s)
  then show ?case by (auto split: if_splits)
qed simp

lemma matches_suffix: "y \<in> set (matches r x) \<Longrightarrow> \<exists>u. snd x = u @ snd y"
proof (induction r arbitrary: x y)
  case (Chr cls)
  then show ?case by (cases x) (auto split: list.splits if_splits)
next
  case (Seq r1 r2)
  then obtain z where "z \<in> set (matches r1 x)" "y \<in> set (matches r2 z)" by auto
  with Seq.IH show ?case by (metis append_assoc)
next
  case (Many cls)
  then show ?case using many_suffix by (cases x) auto
next
  case Bound
  then show ?case by (cases x) (auto split: if_splits)
next
  case End
  then show ?case by (cases x) (auto split: if_splits)
next
  case (Alt r1 r2)
  then have "y \<in> set (matches r1 x) \<or> y \<in> set (matches r2 x)" by simp
  with Alt.IH show ?case by blast
next
  case (Opt r)
  then have "y \<in> set (matches r x) \<or> y = x" by auto
  with Opt.IH [of y x] show ?case by auto
qed

text \<open>
  A replacement without \<open>s\<close> that begins a key only where the replaced text did leaves no new key.
\<close>

definition keyless :: "re \<Rightarrow> string \<Rightarrow> bool" where
  "keyless r repl \<longleftrightarrow> repl \<noteq> [] \<and> CHR ''s'' \<notin> set repl \<and> hd repl \<noteq> CHR ''k'' \<and> hd repl \<noteq> CHR ''-'' \<and>
     (key_char (hd repl) \<longrightarrow> (\<forall>p c t. matches r (p, c # t) \<noteq> [] \<longrightarrow> key_char c))"

lemma key_tail_sub:
  assumes "keyless r repl" "n \<le> 3"
  shows "key_tail n (sub_from r repl p s) \<Longrightarrow> key_tail n s"
  using assms(2)
proof (induction n arbitrary: p s)
  case 0
  show ?case
  proof (cases s)
    case Nil
    with 0 show ?thesis by simp
  next
    case (Cons c t)
    then have "key_char c \<or> (matches r (p, c # t) \<noteq> [] \<and> key_char (hd repl))"
      using 0 assms(1) by (auto simp: keyless_def split: list.splits prod.splits if_splits)
    with assms(1) show ?thesis unfolding keyless_def Cons by auto
  qed
next
  case (Suc n)
  have n: "n \<in> {0, 1, 2}" using Suc.prems(2) by auto
  show ?case
  proof (cases s)
    case Nil
    with Suc.prems show ?thesis by simp
  next
    case (Cons c t)
    show ?thesis
    proof (cases "sub_from r repl p s = c # sub_from r repl (Some c) t")
      case True
      from Suc.prems(1) [unfolded True key_tail.simps list.sel]
      have c: "c = ''-ks'' ! n" and t: "key_tail n (sub_from r repl (Some c) t)" by blast+
      have "key_tail n t" by (rule Suc.IH [OF t]) (use Suc.prems(2) in simp)
      with c show ?thesis by (simp add: Cons)
    next
      case False
      then obtain q u where "sub_from r repl p s = repl @ sub_from r repl q u"
        by (auto simp: Cons split: list.splits prod.splits if_splits)
      with Suc.prems(1) assms(1) have "hd repl = ''-ks'' ! n" by (auto simp: keyless_def)
      moreover have "hd repl \<in> set repl" using assms(1) by (auto simp: keyless_def)
      ultimately show ?thesis using n assms(1) by (auto simp: keyless_def numeral_2_eq_2)
    qed
  qed
qed

lemma key_at_sub: "keyless r repl \<Longrightarrow> key_at (sub_from r repl p s) \<Longrightarrow> key_at s"
  by (simp add: key_at_tail) (rule key_tail_sub, auto)

lemma no_key_sub:
  assumes k: "keyless r repl"
    and m: "\<And>p c s. good (c # s) \<Longrightarrow> key_at (c # s) \<Longrightarrow> \<exists>q t ms. matches r (p, c # s) = (q, t) # ms \<and> length t \<le> length s"
    and g: "\<And>u s. good (u @ s) \<Longrightarrow> good s"
  shows "good s \<Longrightarrow> no_key (sub_from r repl p s)"
proof (induction "length s" arbitrary: p s rule: less_induct)
  case less
  show ?case
  proof (cases s)
    case (Cons c s')
    show ?thesis
    proof (cases "\<exists>q t ms. matches r (p, c # s') = (q, t) # ms \<and> length t \<le> length s'")
      case True
      then obtain q t ms where mt: "matches r (p, c # s') = (q, t) # ms" "length t \<le> length s'" by blast
      have "(q, t) \<in> set (matches r (p, c # s'))" by (simp add: mt)
      from matches_suffix [OF this] obtain u where "s = u @ t" by (auto simp: Cons)
      with less.prems g [of u t] have "good t" by simp
      with less.hyps [of t q] mt(2) have "no_key (sub_from r repl q t)" by (simp add: Cons)
      with k mt show ?thesis by (simp add: Cons no_key_append keyless_def)
    next
      case False
      then have out: "sub_from r repl p s = c # sub_from r repl (Some c) s'"
        by (auto simp: Cons split: list.splits prod.splits)
      have "good s'" using less.prems g [of "[c]" s'] by (simp add: Cons)
      then have "no_key (sub_from r repl (Some c) s')" using less.hyps [of s' "Some c"] by (simp add: Cons)
      moreover have "\<not> key_at (sub_from r repl p s)"
        using key_at_sub [OF k, of p s] m [of c s' p] less.prems False by (auto simp: Cons)
      ultimately show ?thesis unfolding out by (simp add: no_key_Cons)
    qed
  qed simp
qed

lemma key_re_matches:
  assumes "key_at (c # s)"
  shows "\<exists>q t ms. matches KEY_RE (p, c # s) = (q, t) # ms \<and> length t \<le> length s"
proof -
  obtain k d x u where s: "s = k # d # x # u" using assms
    by (cases s; cases "tl s"; cases "tl (tl s)") (auto simp: key_at_def starts_with_def)
  with assms have c: "c = CHR ''s''" "k = CHR ''k''" "d = CHR ''-''" "key_char x"
    by (auto simp: key_at_def starts_with_def numeral_3_eq_3)
  have e: "matches KEY_RE (p, c # s) = many key_char (Some x) u"
    by (simp add: s c KEY_RE_def exact_def plus_of_def)
  have "many key_char (Some x) u \<noteq> []" by (cases u) auto
  then obtain q t ms where m: "many key_char (Some x) u = (q, t) # ms" by (cases "many key_char (Some x) u") auto
  then have "(q, t) \<in> set (many key_char (Some x) u)" by simp
  from many_suffix [OF this] have "length t \<le> length s" by (auto simp: s)
  with e m show ?thesis by auto
qed

lemma no_key_keyed: "no_key (sub_from KEY_RE ''[redacted]'' p s)"
proof (rule no_key_sub [where good = "\<lambda>s. True"])
  show "keyless KEY_RE ''[redacted]''" by (simp add: keyless_def key_char_def)
qed (use key_re_matches in auto)

lemma no_key_kept: "keyless r repl \<Longrightarrow> no_key s \<Longrightarrow> no_key (sub_from r repl p s)"
  by (rule no_key_sub [where good = no_key]) (auto simp: no_key_Cons dest: no_key_suffix)

lemma keyless_bearer: "keyless BEARER_RE ''Bearer [redacted]''"
proof -
  have "key_char c" if "chr_lower c = CHR ''b''" for c
  proof -
    have "(of_char c :: nat) \<in> {66, 98}" using arg_cong [OF that, of "of_char :: char \<Rightarrow> nat"]
      by (auto simp: chr_lower_def Let_def of_char_eq_iff split: if_splits)
    then show ?thesis by (auto simp: key_char_def)
  qed
  then show ?thesis by (auto simp: keyless_def BEARER_RE_def lit_def split: if_splits)
qed

lemma keyless_api: "keyless API_KEY_RE ''api_key=[redacted]''"
proof -
  have "key_char c" if "chr_lower c = CHR ''a''" for c
  proof -
    have "(of_char c :: nat) \<in> {65, 97}" using arg_cong [OF that, of "of_char :: char \<Rightarrow> nat"]
      by (auto simp: chr_lower_def Let_def of_char_eq_iff split: if_splits)
    then show ?thesis by (auto simp: key_char_def)
  qed
  then show ?thesis by (auto simp: keyless_def API_KEY_RE_def lit_def split: if_splits)
qed

lemma no_key_take: "no_key s \<Longrightarrow> no_key (take n s)"
proof (induction s arbitrary: n)
  case (Cons c s)
  show ?case
  proof (cases n)
    case (Suc m)
    have "\<not> key_at (c # take m s)" using Cons.prems
      by (cases m; cases "m - 1"; cases "m - 2"; cases s; cases "tl s"; cases "tl (tl s)")
        (auto simp: no_key_Cons key_at_def starts_with_def)
    with Cons Suc show ?thesis by (simp add: no_key_Cons)
  qed simp
qed simp

lemma no_key_end:
  assumes "\<forall>c \<in> set e. \<not> key_char c" "no_key s"
  shows "no_key (s @ e)"
  using assms(2)
proof (induction s)
  case Nil
  have "no_key e" using assms(1)
  proof (induction e)
    case (Cons c e)
    then have "c \<noteq> CHR ''s''" by (auto simp: key_char_def)
    with Cons show ?case by (auto simp: no_key_Cons key_at_def starts_with_def)
  qed simp
  then show ?case by simp
next
  case (Cons c s)
  have nk: "\<not> key_char CHR ''-'' \<Longrightarrow> False" "\<not> key_char CHR ''k'' \<Longrightarrow> False" by (simp_all add: key_char_def)
  have "key_at (c # s)" if "key_at ((c # s) @ e)"
  proof -
    have "3 < length (c # s)"
    proof (rule ccontr)
      assume "\<not> 3 < length (c # s)"
      then have "((c # s) @ e) ! 3 = e ! (3 - length (c # s))" "3 - length (c # s) < length e"
        using that by (simp_all only: nth_append key_at_def) (auto simp: not_less)
      with assms(1) that show False by (metis key_at_def nth_mem)
    qed
    with that show ?thesis by (simp add: key_at_def starts_with_def nth_append)
  qed
  with Cons show ?case by (auto simp: no_key_Cons)
qed


lemma no_key_free: "no_key s \<Longrightarrow> s = u @ ''sk-'' @ c # v \<Longrightarrow> \<not> key_char c"
  by (auto simp: no_key_def key_at_def starts_with_def dest!: spec [of _ "length u"])

lemma redacted_no_key: "\<forall>c \<in> set (tx_ellipsis tx). \<not> key_char c \<Longrightarrow> no_key (redact_provider_error tx e)"
  by (auto simp: redact_provider_error_def Let_def re_sub_def intro!: no_key_end no_key_take no_key_kept keyless_bearer keyless_api no_key_keyed)


definition demo_texts :: texts where
  "demo_texts = \<lparr>tx_unescape = id, tx_decode = map char_of, tx_ellipsis = ''...'', tx_em_dash = ''--'', tx_en_dash = ''-'',
     tx_apostrophe = ''`''\<rparr>"


end
