(* ===== verification/Assistant_Memory.thy ===== *)
theory Assistant_Memory
  imports Assistant_Prompt
begin

text \<open>
  The conversations of the assistant: \<open>assistant/domain/models.py\<close> and the episodic memory of
  \<open>assistant/infrastructure/memory_store.py\<close>. Every operation is given whether the database answers;
  when it does not, the store falls back on dictionaries of the process. The times of \<open>updated_at\<close> are the
  numbers of the writes.
\<close>

record 's session_ctx =
  sx_tenant_id :: string
  sx_user_id :: string
  sx_session_id :: string
  sx_history :: "'s turn_record list"
  sx_intent_stack :: "string list"
  sx_last_document_ids :: "string list"

definition append_user :: "string \<Rightarrow> 's session_ctx \<Rightarrow> 's session_ctx" where
  "append_user prompt ctx = ctx\<lparr>sx_history := sx_history ctx @ [\<lparr>tn_role = User, tn_content = prompt, tn_meta = []\<rparr>]\<rparr>"

definition append_assistant :: "string \<Rightarrow> 's jdict \<Rightarrow> 's session_ctx \<Rightarrow> 's session_ctx" where
  "append_assistant content meta ctx =
     ctx\<lparr>sx_history := sx_history ctx @ [\<lparr>tn_role = Assistant, tn_content = content, tn_meta = meta\<rparr>]\<rparr>"

record 's session_row =
  sw_ctx :: "'s session_ctx"
  sw_updated :: nat

record 's memory =
  mm_rows :: "(string \<times> string, 's session_row) dict"                  \<comment> \<open>\<open>orchestrator_sessions\<close>\<close>
  mm_fallback :: "(string, 's session_ctx) dict"                          \<comment> \<open>\<open>_fallback_sessions\<close>\<close>
  mm_memory_rows :: "(string \<times> string \<times> string, 's jdict) dict"         \<comment> \<open>\<open>orchestrator_memory\<close>\<close>
  mm_fallback_memory :: "(string, 's jdict) dict"
  mm_writes :: nat

definition session_key :: "string \<Rightarrow> string \<Rightarrow> string" where
  "session_key tenant_id session_id = tenant_id @ '':'' @ session_id"

definition memory_key :: "string \<Rightarrow> string \<Rightarrow> string \<Rightarrow> string" where
  "memory_key tenant_id user_id key = tenant_id @ '':'' @ user_id @ '':'' @ key"

definition load_session :: "bool \<Rightarrow> string \<Rightarrow> string \<Rightarrow> 's memory \<Rightarrow> 's session_ctx option \<times> 's memory" where
  "load_session up tenant_id session_id m =
     (let key = session_key tenant_id session_id in
      case (if up then map_of (mm_rows m) (tenant_id, session_id) else None) of
        None \<Rightarrow> (map_of (mm_fallback m) key, m)
      | Some row \<Rightarrow> (Some (sw_ctx row), m\<lparr>mm_fallback := AList.update key (sw_ctx row) (mm_fallback m)\<rparr>))"

definition save_session :: "bool \<Rightarrow> 's session_ctx \<Rightarrow> 's memory \<Rightarrow> 's memory" where
  "save_session up ctx m =
     (let m = m\<lparr>mm_fallback := AList.update (session_key (sx_tenant_id ctx) (sx_session_id ctx)) ctx (mm_fallback m)\<rparr>
      in if up then m\<lparr>mm_rows := AList.update (sx_tenant_id ctx, sx_session_id ctx)
                                   \<lparr>sw_ctx = ctx, sw_updated = mm_writes m\<rparr> (mm_rows m),
                      mm_writes := Suc (mm_writes m)\<rparr>
         else m)"

definition put_memory :: "bool \<Rightarrow> string \<Rightarrow> string \<Rightarrow> string \<Rightarrow> 's jdict \<Rightarrow> 's memory \<Rightarrow> 's memory" where
  "put_memory up tenant_id user_id key value m =
     (let m = m\<lparr>mm_fallback_memory := AList.update (memory_key tenant_id user_id key) value (mm_fallback_memory m)\<rparr>
      in if up then m\<lparr>mm_memory_rows := AList.update (tenant_id, user_id, key) value (mm_memory_rows m)\<rparr> else m)"

definition get_memory :: "bool \<Rightarrow> string \<Rightarrow> string \<Rightarrow> string \<Rightarrow> 's memory \<Rightarrow> 's jdict option" where
  "get_memory up tenant_id user_id key m =
     (case (if up then map_of (mm_memory_rows m) (tenant_id, user_id, key) else None) of
        None \<Rightarrow> map_of (mm_fallback_memory m) (memory_key tenant_id user_id key)
      | Some v \<Rightarrow> Some v)"

record session_summary =
  sm_session_id :: string
  sm_title :: string
  sm_turn_count :: nat
  sm_updated :: "nat option"

definition summary_of :: "'s session_ctx \<Rightarrow> nat option \<Rightarrow> session_summary" where
  "summary_of ctx updated =
     (let title = (case find (\<lambda>t. tn_role t = User) (sx_history ctx) of None \<Rightarrow> [] | Some t \<Rightarrow> str_strip (tn_content t))
      in \<lparr>sm_session_id = sx_session_id ctx, sm_title = (if title \<noteq> [] then take 80 title else ''New chat''),
          sm_turn_count = length (sx_history ctx), sm_updated = updated\<rparr>)"

definition list_sessions_for_user :: "bool \<Rightarrow> string \<Rightarrow> string \<Rightarrow> nat \<Rightarrow> 's memory \<Rightarrow> session_summary list" where
  "list_sessions_for_user up tenant_id user_id limit m =
     (let mine = (\<lambda>c. sx_tenant_id c = tenant_id \<and> sx_user_id c = user_id) in
      if up
      then map (\<lambda>w. summary_of (sw_ctx w) (Some (sw_updated w)))
             (take limit (sort_desc sw_updated (filter (\<lambda>w. mine (sw_ctx w)) (map snd (mm_rows m)))))
      else take limit (map (\<lambda>c. summary_of c None) (filter mine (map snd (mm_fallback m)))))"

definition list_sessions_for_tenant :: "bool \<Rightarrow> string \<Rightarrow> 's memory \<Rightarrow> string list" where
  "list_sessions_for_tenant up tenant_id m =
     (if up then map (sx_session_id \<circ> sw_ctx) (filter (\<lambda>w. sx_tenant_id (sw_ctx w) = tenant_id) (map snd (mm_rows m)))
      else map sx_session_id (filter (\<lambda>c. sx_tenant_id c = tenant_id) (map snd (mm_fallback m))))"

subsection \<open>The connection string\<close>

text \<open>\<open>s.replace(old, new)\<close>.\<close>

function replace_all :: "string \<Rightarrow> string \<Rightarrow> string \<Rightarrow> string" where
  "replace_all old new s =
     (if old = [] \<or> s = [] then s
      else if starts_with old s then new @ replace_all old new (drop (length old) s)
      else hd s # replace_all old new (tl s))"
  by pat_completeness auto
termination by (relation "measure (\<lambda>(old, new, s). length s)") auto

declare replace_all.simps [simp del]

definition port_in :: "string \<Rightarrow> bool" where     \<comment> \<open>\<open>any(f":{p}" in dsn for p in range(1000, 65535))\<close>\<close>
  "port_in dsn = list_ex (\<lambda>p. contains (CHR '':'' # nat_str p) dsn) [1000..<65535]"

definition before_at :: "char \<Rightarrow> string \<Rightarrow> string" where
  "before_at c s = takeWhile (\<lambda>x. x \<noteq> c) s"

definition pooler_dsn :: "string \<Rightarrow> string" where
  "pooler_dsn dsn =
     (if \<not> contains ''pooler.supabase.com'' dsn then dsn
      else if contains '':5432'' dsn then replace_all '':5432'' '':6543'' dsn
      else if \<not> contains '':6543'' dsn \<and> \<not> port_in dsn \<and> CHR ''@'' \<in> set dsn
      then let host_and_rest = drop (Suc (length (before_at (CHR ''@'') dsn))) dsn;
               host = before_at (CHR ''/'') host_and_rest
           in before_at (CHR ''@'') dsn @ ''@'' @ host @ '':6543'' @ drop (length host) host_and_rest
      else dsn)"

definition sync_postgres_dsn :: "string list \<Rightarrow> string list \<Rightarrow> string \<Rightarrow> string" where
  \<comment> \<open>the environment variables and the settings in the order in which they are tried, and the address built from the parts\<close>
  "sync_postgres_dsn env urls built =
     (let pick = (\<lambda>xs. str_strip (case find (\<lambda>x. x \<noteq> []) xs of Some x \<Rightarrow> x | None \<Rightarrow> []));
          plain_url = replace_all ''postgresql+asyncpg://'' ''postgresql://''
      in pooler_dsn (if pick env \<noteq> [] then plain_url (pick env)
                     else if pick urls \<noteq> [] then plain_url (pick urls) else built))"

subsection \<open>Reading back\<close>

lemma load_saved:
  "fst (load_session up2 (sx_tenant_id ctx) (sx_session_id ctx) (save_session up1 ctx m)) =
     (if up2 \<and> \<not> up1
      then (case map_of (mm_rows m) (sx_tenant_id ctx, sx_session_id ctx) of None \<Rightarrow> Some ctx | Some row \<Rightarrow> Some (sw_ctx row))
      else Some ctx)"
  by (auto simp: load_session_def save_session_def Let_def dict_simps split: option.split)

lemma load_session_frame:
  "load_session up t s m = (c, m') \<Longrightarrow> mm_rows m' = mm_rows m \<and> mm_memory_rows m' = mm_memory_rows m"
  by (auto simp: load_session_def Let_def split: option.splits)

text \<open>Rows sit under their own key, as the columns of the primary key say.\<close>

definition rows_keyed :: "'s memory \<Rightarrow> bool" where
  "rows_keyed m \<longleftrightarrow> (\<forall>t s row. map_of (mm_rows m) (t, s) = Some row \<longrightarrow>
     sx_tenant_id (sw_ctx row) = t \<and> sx_session_id (sw_ctx row) = s)"

lemma rows_keyed_save: "rows_keyed m \<Longrightarrow> rows_keyed (save_session up ctx m)"
  by (simp add: rows_keyed_def save_session_def Let_def map_of_update)

lemma rows_keyed_load: "rows_keyed m \<Longrightarrow> rows_keyed (snd (load_session up t s m))"
  using load_session_frame [of up t s m] by (simp add: rows_keyed_def split: prod.splits) (metis surjective_pairing)

end
