(* ===== verification/Assistant.thy ===== *)
theory Assistant
  imports Assistant_Provider Assistant_Memory
begin

text \<open>
  The assistant orchestrator: the tools (\<open>assistant/infrastructure/tools.py\<close>), the four nodes of the graph and
  the run around them (\<open>assistant/core/graph.py\<close>) and the routes (\<open>assistant/api/routes.py\<close>). The graph is a
  chain, so a run is the composition of its nodes. Other services are reached over HTTP: \<open>ce_http\<close> answers a
  request with an exception, by its text, or with a status and the JSON of the body, \<open>None\<close> for an empty one.
  Latencies, logs and traces are left out.
\<close>

record 's http_request =
  hr_method :: string
  hr_url :: string
  hr_headers :: "(string \<times> string) list"
  hr_body :: "'s jval option"

record ('v, 's) chat_env =
  ce_floats :: "'s floats"
  ce_texts :: texts
  ce_engines :: "('v, 's) engines"
  ce_weight :: "nat \<Rightarrow> 's"                   \<comment> \<open>the weight of a rank in the fusion\<close>
  ce_http :: "'s http_request \<Rightarrow> string + nat \<times> 's jval option"
  ce_store :: doc_store                      \<comment> \<open>the shared document store\<close>
  ce_llm :: "'s llm"
  ce_settings :: chat_settings
  ce_federator_url :: string
  ce_graph_url :: string
  ce_reader_url :: string
  ce_signals_url :: string
  ce_threshold :: 's                         \<comment> \<open>\<open>CONFIDENCE_THRESHOLD\<close>, 0.75\<close>

subsection \<open>Tools\<close>

definition is_loopback_url :: "string \<Rightarrow> bool" where
  "is_loopback_url url =
     (let lowered = str_lower url in lowered = [] \<or>
      list_ex (\<lambda>p. contains p lowered) [''localhost'', ''127.0.0.1'', ''0.0.0.0'', ''[::1]'', ''://::1''])"

definition bytes_hex :: "bytes \<Rightarrow> string" where
  "bytes_hex bs = concat (map (\<lambda>b. [hex_digit (b div 16), hex_digit (b mod 16)]) bs)"

definition acl_headers :: "bytes \<Rightarrow> string option \<Rightarrow> (string \<times> string) list" where
  "acl_headers acl_compiled_filter authorization =
     [(''X-ACL-Compiled-Filter'', bytes_hex acl_compiled_filter), (''Content-Type'', ''application/json'')] @
     (if opt_str authorization \<noteq> [] then [(''Authorization'', opt_str authorization)] else [])"

datatype tool = Lexical_Search | Vector_Search | Kg_Query | Read_Document | Signal_Lookup | Activity_Ingest

primrec tool_name :: "tool \<Rightarrow> string" where
  "tool_name Lexical_Search = ''lexical_search''" | "tool_name Vector_Search = ''vector_search''"
| "tool_name Kg_Query = ''kg_query''" | "tool_name Read_Document = ''read_document''"
| "tool_name Signal_Lookup = ''signal_lookup''" | "tool_name Activity_Ingest = ''activity_ingest''"

record chat_tool_call =
  tc_tool :: tool
  tc_params :: pydict
  tc_acl :: bytes

record 's tool_result =
  tr_tool :: tool
  tr_ok :: bool
  tr_payload :: "'s jdict"
  tr_error :: "string option"
  tr_acl :: bytes

definition failed_tool :: "tool \<Rightarrow> bytes \<Rightarrow> string \<Rightarrow> 's tool_result" where
  "failed_tool t acl err = \<lparr>tr_tool = t, tr_ok = False, tr_payload = [], tr_error = Some err, tr_acl = acl\<rparr>"

definition http_result :: "tool \<Rightarrow> bytes \<Rightarrow> string + nat \<times> 's jval option \<Rightarrow> 's tool_result" where
  "http_result t acl reply =
     (case reply of
        Inl e \<Rightarrow> failed_tool t acl e
      | Inr (status, content) \<Rightarrow>
          \<lparr>tr_tool = t, tr_ok = (status < 400),
           tr_payload = (case content of None \<Rightarrow> [] | Some (JDict d) \<Rightarrow> d | Some v \<Rightarrow> [(''raw'', v)]),
           tr_error = (if status < 400 then None else Some (''HTTP '' @ nat_str status)), tr_acl = acl\<rparr>)"

text \<open>\<open>int(params.get(k, d))\<close>; a value that is no number raises.\<close>

definition int_param :: "pydict \<Rightarrow> string \<Rightarrow> int \<Rightarrow> int res" where
  "int_param params k d = (case py_int (dict_get params k (PInt d)) of Some i \<Rightarrow> Inr i | None \<Rightarrow> Inl (Raised ''ValueError''))"

definition wire_terms :: "bytes \<Rightarrow> string list res" where
  "wire_terms acl = rbind (acl_terms_for_json_body acl) (\<lambda>ts. Inr (if is_fail_closed ts then [] else ts))"

definition item_payload :: "'s floats \<Rightarrow> 's result_item \<Rightarrow> 's jval" where
  "item_payload fl r = (let score_of = (\<lambda>s. case s of None \<Rightarrow> JNull | Some x \<Rightarrow> JNum x) in
     JDict [(''document_id'', JStr (ri_document_id r)), (''score'', JNum (ri_score r)), (''title'', JStr (ri_title r)),
       (''snippet'', JStr (ri_snippet r)), (''sources'', JList (map JStr (ri_sources r))),
       (''lexical_score'', score_of (ri_lexical_score r)), (''vector_score'', score_of (ri_vector_score r)),
       (''graph_boost'', JNull), (''fusion_score'', JNum (ri_score r)),
       (''metadata'', if ri_metadata r = [] then JNull else JDict (j_of_pydict (fl_int fl) (ri_metadata r))),
       (''citations'', JList [])])"

definition search_payload :: "'s floats \<Rightarrow> string \<Rightarrow> 's search_response \<Rightarrow> 's jdict" where
  "search_payload fl query resp =
     [(''results'', JList (map (item_payload fl) (sr_results resp))), (''total'', JNum (fl_int fl (int (sr_total resp)))),
      (''degraded'', JBool (sr_degraded resp)),
      (''backends'', JList (map (\<lambda>b. JDict [(''name'', JStr (bs_name b)), (''ok'', JBool (bs_ok b)),
          (''hit_count'', JNum (fl_int fl (int (bs_hit_count b))))]) (sr_backends resp))),
      (''query'', JStr query)]"

fun term_principal :: "string \<Rightarrow> string list \<Rightarrow> string" where
  "term_principal p [] = p"
| "term_principal p (t # ts) =
     (if starts_with ''user:'' t then drop 5 t else term_principal (if t \<noteq> [] \<and> p = [] then t else p) ts)"

definition search_in_process ::
    "('v, 's::{linorder,zero,plus}) chat_env \<Rightarrow> chat_tool_call \<Rightarrow> string \<Rightarrow> int \<Rightarrow> string \<Rightarrow> string list \<Rightarrow> 's tool_result" where
  "search_in_process en call query sz tenant_id acl_terms =
     \<lparr>tr_tool = tc_tool call, tr_ok = True,
      tr_payload = search_payload (ce_floats en) query
        (federated_search_inprocess (ce_engines en) (ce_weight en) query tenant_id (term_principal [] acl_terms) (nat sz)
           (Some acl_terms) True True),
      tr_error = None, tr_acl = tc_acl call\<rparr>"

definition search_request_of ::
    "('v, 's) chat_env \<Rightarrow> chat_tool_call \<Rightarrow> string option \<Rightarrow> string option \<Rightarrow> string \<Rightarrow> int \<Rightarrow> int \<Rightarrow> bool \<Rightarrow> string list \<Rightarrow> 's http_request" where
  "search_request_of en call authorization tenant_id query sz from debug terms =
     \<lparr>hr_method = ''POST'', hr_url = ce_federator_url en @ ''/search/federated'',
      hr_headers = acl_headers (tc_acl call) authorization,
      hr_body = Some (JDict ([(''query'', JStr query), (''size'', JNum (fl_int (ce_floats en) sz)),
        (''from'', JNum (fl_int (ce_floats en) from)), (''acl_terms'', JList (map JStr terms)), (''debug'', JBool debug),
        (''orchestrator_mode'', JStr (if tc_tool call = Lexical_Search then ''lexical'' else ''vector'')),
        (''enable_lexical'', JBool True), (''enable_vector'', JBool True)] @
        (if opt_str tenant_id \<noteq> [] then [(''tenant_id'', JStr (opt_str tenant_id))] else [])))\<rparr>"

definition federated_tool ::
    "('v, 's::{linorder,zero,plus}) chat_env \<Rightarrow> chat_tool_call \<Rightarrow> string option \<Rightarrow> string option \<Rightarrow> 's tool_result res" where
  "federated_tool en call authorization tenant_id =
     rbind (wire_terms (tc_acl call)) (\<lambda>terms.
     rbind (int_param (tc_params call) ''size'' 20) (\<lambda>sz.
       let query = or_str [pget (tc_params call) ''query'']; here = search_in_process en call query sz (opt_str tenant_id) terms in
       if opt_str tenant_id \<noteq> [] \<and> is_loopback_url (ce_federator_url en) then Inr here
       else rbind (int_param (tc_params call) ''from'' 0) (\<lambda>from.
         let reply = ce_http en (search_request_of en call authorization tenant_id query sz from
                                   (truthy (pget (tc_params call) ''debug'')) terms)
         in Inr (case reply of
                   Inl e \<Rightarrow> if opt_str tenant_id \<noteq> [] then here else failed_tool (tc_tool call) (tc_acl call) e
                 | Inr r \<Rightarrow> http_result (tc_tool call) (tc_acl call) (Inr r)))))"

definition kg_query ::
    "('v, 's) chat_env \<Rightarrow> chat_tool_call \<Rightarrow> string option \<Rightarrow> string option \<Rightarrow> 's tool_result res" where
  "kg_query en call authorization tenant_id =
     rbind (wire_terms (tc_acl call)) (\<lambda>terms.
     rbind (int_param (tc_params call) ''depth'' 2) (\<lambda>depth.
       let num = fl_int (ce_floats en);
           body = [(''start_node_id'', j_of_py num (dict_get (tc_params call) ''start_node_id''
                                         (dict_get (tc_params call) ''query'' (PStr [])))),
                   (''relationship_types'', j_of_py num (py_or (pget (tc_params call) ''relationship_types'') (PList []))),
                   (''depth'', JNum (num depth)), (''acl_terms'', JList (map JStr terms))] @
                  (if opt_str tenant_id \<noteq> [] then [(''tenant_id'', JStr (opt_str tenant_id))] else [])
       in Inr (http_result Kg_Query (tc_acl call)
            (ce_http en \<lparr>hr_method = ''POST'', hr_url = ce_graph_url en @ ''/search/graph/traverse'',
                        hr_headers = acl_headers (tc_acl call) authorization, hr_body = Some (JDict body)\<rparr>))))"

definition read_document_tool :: "('v, 's) chat_env \<Rightarrow> chat_tool_call \<Rightarrow> string option \<Rightarrow> 's tool_result res" where
  "read_document_tool en call authorization =
     (case bytes_string (tc_acl call) of
        None \<Rightarrow> Inl (Raised ''UnicodeDecodeError'')
      | Some terms \<Rightarrow>
          let doc_id = or_str [pget (tc_params call) ''document_id'', pget (tc_params call) ''blob_id'']
          in Inr (http_result Read_Document (tc_acl call)
               (ce_http en \<lparr>hr_method = ''GET'', hr_url = ce_reader_url en @ ''/document/'' @ doc_id,
                  hr_headers = acl_headers (tc_acl call) authorization @ [(''X-ACL-Terms-JSON'', terms)], hr_body = None\<rparr>)))"

definition signal_lookup :: "('v, 's) chat_env \<Rightarrow> chat_tool_call \<Rightarrow> string option \<Rightarrow> 's tool_result" where
  "signal_lookup en call authorization =
     (if is_loopback_url (ce_signals_url en)
      then \<lparr>tr_tool = Signal_Lookup, tr_ok = True,
            tr_payload = [(''skipped'', JBool True), (''reason'', JStr ''loopback'')], tr_error = None, tr_acl = tc_acl call\<rparr>
      else http_result Signal_Lookup (tc_acl call)
        (ce_http en \<lparr>hr_method = ''GET'',
           hr_url = ce_signals_url en @ ''/signals/user/'' @ or_str [pget (tc_params call) ''user_id''],
           hr_headers = acl_headers (tc_acl call) authorization, hr_body = None\<rparr>))"

definition ingest_activity ::
    "('v, 's) chat_env \<Rightarrow> 's jdict list \<Rightarrow> string option \<Rightarrow> bytes \<Rightarrow> 's tool_result" where
  "ingest_activity en events authorization acl =
     (let acl = (if acl = [] then string_bytes ''[]'' else acl)
      in http_result Activity_Ingest acl
           (ce_http en \<lparr>hr_method = ''POST'', hr_url = ce_signals_url en @ ''/activity/ingest'',
              hr_headers = acl_headers acl authorization,
              hr_body = Some (JDict [(''events'', JList (map JDict events))])\<rparr>))"

definition execute ::
    "('v, 's::{linorder,zero,plus}) chat_env \<Rightarrow> chat_tool_call \<Rightarrow> string option \<Rightarrow> string option \<Rightarrow> 's tool_result res" where
  "execute en call authorization tenant_id =
     (case tc_tool call of
        Lexical_Search \<Rightarrow> federated_tool en call authorization tenant_id
      | Vector_Search \<Rightarrow> federated_tool en call authorization tenant_id
      | Kg_Query \<Rightarrow> kg_query en call authorization tenant_id
      | Read_Document \<Rightarrow> read_document_tool en call authorization
      | Signal_Lookup \<Rightarrow> Inr (signal_lookup en call authorization)
      | Activity_Ingest \<Rightarrow> Inl (Raised ''KeyError''))"


subsection \<open>The state of a run\<close>

record orch_request =
  oq_tenant_id :: string
  oq_user_id :: string
  oq_session_id :: string
  oq_prompt :: string
  oq_attachments :: "string list"          \<comment> \<open>the \<open>blob_id\<close>s\<close>
  oq_account_email :: "string option"
  oq_connector_summary :: "string option"

record 's orch_state =
  os_request :: orch_request
  os_authorization :: "string option"
  os_acl :: bytes
  os_intent :: intent
  os_session :: "'s session_ctx"
  os_tool_results :: "'s tool_result list"
  os_ranked_hits :: "'s jdict list"
  os_base_hits :: "'s jdict list"
  os_signals :: "'s jdict"
  os_response_text :: string
  os_citations :: "'s jdict list"
  os_used_reader :: bool
  os_errors :: "string list"
  os_llm_prompt :: string
  os_rounds :: nat
  os_provider :: string
  os_generation_error :: string
  os_debug_retrieval :: "'s jdict list"

definition initial_state ::
    "orch_request \<Rightarrow> bytes \<Rightarrow> string option \<Rightarrow> 's session_ctx \<Rightarrow> 's orch_state" where
  "initial_state request acl authorization ctx =
     \<lparr>os_request = request, os_authorization = authorization, os_acl = acl, os_intent = SEARCH, os_session = ctx,
      os_tool_results = [], os_ranked_hits = [], os_base_hits = [], os_signals = [], os_response_text = [],
      os_citations = [], os_used_reader = False, os_errors = [], os_llm_prompt = [], os_rounds = 0, os_provider = [],
      os_generation_error = [], os_debug_retrieval = []\<rparr>"

definition max_rounds :: "('v, 's) chat_env \<Rightarrow> nat" where
  "max_rounds en = nat (let n = cs_max_rounds (ce_settings en) in if n = 0 then 2 else n)"

subsection \<open>The nodes\<close>

definition intent_router :: "'s orch_state \<Rightarrow> 's orch_state" where
  "intent_router st = st\<lparr>os_intent := classify_intent (oq_prompt (os_request st)) (oq_attachments (os_request st))\<rparr>"

definition tool_error :: "'s tool_result \<Rightarrow> string list" where
  "tool_error r = (if \<not> tr_ok r \<and> opt_str (tr_error r) \<noteq> [] then [tool_name (tr_tool r) @ '': '' @ opt_str (tr_error r)] else [])"

definition run_tool :: "('v, 's::{linorder,zero,plus}) chat_env \<Rightarrow> 's orch_state \<Rightarrow> tool \<Rightarrow> pydict \<Rightarrow> 's tool_result res" where
  "run_tool en st t params =
     execute en \<lparr>tc_tool = t, tc_params = params, tc_acl = os_acl st\<rparr> (os_authorization st)
       (Some (oq_tenant_id (os_request st)))"

definition signals_of :: "'s tool_result list \<Rightarrow> 's jdict" where
  "signals_of looked = (case filter tr_ok looked of [] \<Rightarrow> [] | r # _ \<Rightarrow> tr_payload r)"

definition search_node :: "('v, 's::{linorder,zero,plus}) chat_env \<Rightarrow> 's orch_state \<Rightarrow> 's orch_state res" where
  "search_node en st =
     rbind (run_tool en st Vector_Search [(''query'', PStr (oq_prompt (os_request st))), (''size'', PInt 10)]) (\<lambda>found.
     rbind (if is_loopback_url (ce_signals_url en) then Inr []
            else rbind (run_tool en st Signal_Lookup [(''user_id'', PStr (oq_user_id (os_request st)))]) (\<lambda>r. Inr [r])) (\<lambda>looked.
       Inr (st\<lparr>os_tool_results := found # looked,
              os_signals := signals_of looked,
              os_errors := os_errors st @ concat (map tool_error (found # looked)),
              os_rounds := Suc (os_rounds st)\<rparr>)))"

definition parallel_searcher :: "('v, 's::{linorder,zero,plus}) chat_env \<Rightarrow> 's orch_state \<Rightarrow> 's orch_state res" where
  "parallel_searcher en st =
     (if max_rounds en \<le> os_rounds st then Inr (st\<lparr>os_errors := os_errors st @ [''max tool-call rounds reached'']\<rparr>)
      else if os_intent st = GREETING then Inr (st\<lparr>os_tool_results := [], os_ranked_hits := [], os_base_hits := []\<rparr>)
      else case (if os_intent st = READ then oq_attachments (os_request st) else []) of
             [] \<Rightarrow> search_node en st
           | doc_id # _ \<Rightarrow>
               if doc_id = [] then search_node en st
               else rbind (run_tool en st Read_Document [(''document_id'', PStr doc_id)]) (\<lambda>r.
                 Inr (st\<lparr>os_tool_results := [r], os_used_reader := True, os_rounds := Suc (os_rounds st)\<rparr>)))"

definition reader_hit :: "'s::zero floats \<Rightarrow> 's jdict \<Rightarrow> 's ranked_hit" where
  "reader_hit fl payload =
     (let show = (\<lambda>k. j_str (fl_repr fl) (jfirst [jget payload k])); structured = jget payload ''structured_metadata'' in
      \<lparr>rh_document_id = show ''document_id'', rh_base_score = fl_lit fl 1, rh_boosted_score = fl_lit fl 1,
       rh_title = show ''title'', rh_snippet = take 2000 (show ''body''), rh_sources = [JStr ''document_reader''],
       rh_boost_reason = None,
       rh_meta = [(''metadata'', if jtruthy structured then structured
                                 else if jtruthy (jget payload ''metadata'') then jget payload ''metadata'' else JDict []),
                  (''from_email'', if is_dict structured then jget (jdict_of structured) ''from_email'' else JStr [])]\<rparr>)"

text \<open>The results of the searches, each document once.\<close>

fun merge_items :: "'s::zero jval list \<Rightarrow> 's jval list \<Rightarrow> 's jval list \<Rightarrow> ('s jval list \<times> 's jval list) res" where
  "merge_items seen merged [] = Inr (seen, merged)"
| "merge_items seen merged (item # items) =
     rbind (j_get item ''document_id'') (\<lambda>a. rbind (j_get item ''id'') (\<lambda>b.
       let doc_id = jor a b in
       if \<not> jtruthy doc_id then merge_items seen merged items
       else if \<not> j_hashable doc_id then Inl (Raised ''TypeError'')
       else if doc_id \<in> set seen then merge_items seen merged items
       else merge_items (doc_id # seen) (merged @ [item]) items))"

fun merge_results :: "'s::zero jval list \<Rightarrow> 's jval list \<Rightarrow> 's tool_result list \<Rightarrow> 's jval list res" where
  "merge_results seen merged [] = Inr merged"
| "merge_results seen merged (r # rs) =
     (if tr_tool r \<in> {Lexical_Search, Vector_Search}
      then rbind (j_list (jget (tr_payload r) ''results'')) (\<lambda>items.
           rbind (merge_items seen merged items) (\<lambda>(seen, merged). merge_results seen merged rs))
      else merge_results seen merged rs)"

definition promote :: "('v, 's::{linorder,zero}) chat_env \<Rightarrow> 's jdict \<Rightarrow> 's ranked_hit \<Rightarrow> 's ranked_hit" where
  "promote en payload h =
     (let fl = ce_floats en; show = (\<lambda>k. j_str (fl_repr fl) (jfirst [jget payload k])); body = take 2000 (show ''body'') in
      h\<lparr>rh_boosted_score := max (rh_boosted_score h) (ce_threshold en),
        rh_title := (if rh_title h \<noteq> [] then rh_title h else show ''title''),
        rh_snippet := (if body \<noteq> [] then body else rh_snippet h),
        rh_sources := rh_sources h @ [JStr ''document_reader_fallback''],
        rh_boost_reason := Some ''search_vs_read_fallback''\<rparr>)"

definition usable_hit :: "texts \<Rightarrow> 's ranked_hit \<Rightarrow> bool" where
  "usable_hit tx h = source_text_is_usable (tx_unescape tx) (if rh_snippet h \<noteq> [] then rh_snippet h else rh_title h)"

definition with_hits :: "'s orch_state \<Rightarrow> 's ranked_hit list \<Rightarrow> 's ranked_hit list \<Rightarrow> 's orch_state" where
  "with_hits st base_hits boosted = st\<lparr>os_base_hits := map row_of_hit base_hits, os_ranked_hits := map row_of_hit boosted\<rparr>"

definition weak_retrieval ::
    "('v, 's::{linorder,zero,plus,minus,times,inverse}) chat_env \<Rightarrow> 's orch_state \<Rightarrow> 's ranked_hit list \<Rightarrow> bool" where
  "weak_retrieval en st boosted =
     (retrieval_confidence (ce_floats en) boosted < ce_threshold en \<and> os_rounds st < max_rounds en \<and>
      \<not> list_ex (usable_hit (ce_texts en)) (take 3 boosted))"

definition read_best ::
    "('v, 's::{linorder,zero,plus}) chat_env \<Rightarrow> 's orch_state \<Rightarrow> 's ranked_hit list \<Rightarrow> 's ranked_hit list \<Rightarrow> 's ranked_hit \<Rightarrow>
     's orch_state res" where
  "read_best en st base_hits boosted h =
     rbind (run_tool en st Read_Document [(''document_id'', PStr (rh_document_id h))]) (\<lambda>reader.
       Inr ((with_hits st base_hits
               (if tr_ok reader
                then promote en (tr_payload reader) h # filter (\<lambda>x. rh_document_id x \<noteq> rh_document_id h) boosted
                else boosted))
            \<lparr>os_tool_results := os_tool_results st @ [reader], os_used_reader := True,
             os_errors := os_errors st @ (if \<not> tr_ok reader \<and> opt_str (tr_error reader) \<noteq> []
                                          then [''read_document: '' @ opt_str (tr_error reader)] else []),
             os_rounds := Suc (os_rounds st)\<rparr>))"

definition rank_searches ::
    "('v, 's::{linorder,zero,plus,minus,times,inverse}) chat_env \<Rightarrow> 's orch_state \<Rightarrow> 's orch_state res" where
  "rank_searches en st =
     rbind (merge_results [] [] (os_tool_results st)) (\<lambda>merged.
     rbind (extract_base_hits (ce_floats en) [(''results'', JList merged)]) (\<lambda>base_hits.
     rbind (apply_signal_boost (ce_floats en) base_hits (os_signals st)) (\<lambda>boosted.
       if boosted \<noteq> [] \<and> weak_retrieval en st boosted then read_best en st base_hits boosted (hd boosted)
       else Inr ((with_hits st base_hits boosted)\<lparr>os_used_reader := False\<rparr>))))"

definition with_reader :: "('v, 's::zero) chat_env \<Rightarrow> 's orch_state \<Rightarrow> 's tool_result \<Rightarrow> 's orch_state" where
  "with_reader en st r =
     (let hits = [row_of_hit (reader_hit (ce_floats en) (tr_payload r))] in st\<lparr>os_base_hits := hits, os_ranked_hits := hits\<rparr>)"

definition personalized_ranker ::
    "('v, 's::{linorder,zero,plus,minus,times,inverse}) chat_env \<Rightarrow> 's orch_state \<Rightarrow> 's orch_state res" where
  "personalized_ranker en st =
     (if os_used_reader st \<and> os_intent st = READ
      then Inr (case filter (\<lambda>r. tr_tool r = Read_Document \<and> tr_ok r) (os_tool_results st) of
                  [] \<Rightarrow> st
                | r # _ \<Rightarrow> with_reader en st r)
      else rank_searches en st)"

definition extractive_part :: "'s::zero floats \<Rightarrow> texts \<Rightarrow> nat \<times> 's jdict \<Rightarrow> string option" where
  "extractive_part fl tx = (\<lambda>(i, hit).
     let meta = jdict_of (jget hit ''meta'');
         title = str_strip (j_str (fl_repr fl) (jfirst [jget hit ''title'', jget meta ''title'', JStr ''Document'']));
         snippet = plain_source_text (tx_unescape tx) (tx_ellipsis tx) 1200
                     (j_str (fl_repr fl) (jfirst [jget hit ''snippet'', jget hit ''body'', jget hit ''chunk_text'']))
     in if snippet = [] then None
        else Some (''**'' @ (if title \<noteq> [] then title else ''Document'') @ ''** ['' @ nat_str i @ '']'' @ nl @ snippet))"

definition extractive_answer_from_hits :: "'s::zero floats \<Rightarrow> texts \<Rightarrow> 's jdict list \<Rightarrow> string" where
  "extractive_answer_from_hits fl tx hits =
     (let parts = List.map_filter (extractive_part fl tx) (List.enumerate 1 (take 8 hits))
      in if parts = [] then []
         else ''I couldn't complete a generated summary, so here is the relevant content from your documents:'' @
              nl @ nl @ join (nl @ nl) parts)"

definition citation_of :: "'s::zero floats \<Rightarrow> texts \<Rightarrow> nat \<times> 's jdict \<Rightarrow> 's jdict" where
  "citation_of fl tx = (\<lambda>(i, h).
     let meta = jdict_of (jget h ''meta'') in
     [(''document_id'', jget h ''document_id''), (''source_id'', JStr (''['' @ nat_str i @ '']'')),
      (''chunk_id'', jor (jget h ''chunk_id'') (jget meta ''chunk_id'')),
      (''page'', jor (jget h ''page'') (jor (jget meta ''page'') (jget meta ''page_number''))),
      (''quote'', JStr (take 200 (plain_source_text (tx_unescape tx) (tx_ellipsis tx) 200
                    (j_str (fl_repr fl) (jfirst [jget h ''snippet'']))))),
      (''score'', jget h ''boosted_score''), (''base_score'', jget h ''base_score''),
      (''title'', jfirst [jget h ''title'', jget meta ''title''])])"

definition NO_ANSWER :: string where
  "NO_ANSWER = ''The language model did not return a usable answer. Please retry. No generated content was substituted.''"

definition grounding_hits :: "('v, 's::{linorder,zero}) chat_env \<Rightarrow> 's orch_state \<Rightarrow> 's jdict list" where
  "grounding_hits en st =
     enrich_hits_with_full_bodies (ce_floats en) (ce_texts en) (ce_store en)
       (filter_relevant_hits (ce_floats en) (os_ranked_hits st)) (oq_tenant_id (os_request st))"

definition prompt_of :: "('v, 's::{linorder,zero}) chat_env \<Rightarrow> 's orch_state \<Rightarrow> (string \<times> string) list \<times> string" where
  "prompt_of en st =
     (let req = os_request st in
      assemble_chat_messages (ce_floats en) (ce_texts en) (oq_prompt req) (grounding_hits en st)
        (sx_history (os_session st)) (oq_account_email req) (oq_connector_summary req))"

definition finish_answer ::
    "('v, 's::{linorder,zero}) chat_env \<Rightarrow> 's orch_state \<Rightarrow> chat_generation \<Rightarrow> 's orch_state" where
  "finish_answer en st gen =
     (let fl = ce_floats en; tx = ce_texts en; hits = grounding_hits en st;
          generated = str_strip (cg_text gen); gen_error = opt_str (cg_error gen);
          extractive = extractive_answer_from_hits fl tx hits;
          failed = (gen_error \<noteq> [] \<or> generated = []);
          answer = (if \<not> failed then generated else if extractive \<noteq> [] then extractive else NO_ANSWER);
          citations = (if failed \<and> extractive = [] then [] else map (citation_of fl tx) (List.enumerate 1 (take 3 hits)))
      in st\<lparr>os_response_text := answer,
            os_citations := (if is_refuse_answer answer then [] else citations),
            os_ranked_hits := hits, os_llm_prompt := snd (prompt_of en st), os_provider := cg_provider gen,
            os_generation_error := gen_error, os_debug_retrieval := debug_source_chunks fl tx hits,
            os_errors := os_errors st @ (if gen_error \<noteq> [] then [''chat_provider: '' @ gen_error] else [])\<rparr>)"

definition response_generator :: "('v, 's::{linorder,zero}) chat_env \<Rightarrow> 's orch_state \<Rightarrow> 's orch_state res" where
  "response_generator en st =
     (if os_intent st = GREETING
      then Inr (st\<lparr>os_response_text := GREETING_TEXT (ce_texts en), os_citations := [], os_ranked_hits := [],
                  os_llm_prompt := [], os_provider := ''greeting'', os_generation_error := [], os_debug_retrieval := []\<rparr>)
      else rbind (chat_generate (ce_floats en) (ce_texts en) (ce_llm en) (ce_settings en) (fst (prompt_of en st))
                    (grounding_hits en st))
             (\<lambda>gen. Inr (finish_answer en st gen)))"

definition orchestrate ::
    "('v, 's::{linorder,zero,plus,minus,times,inverse}) chat_env \<Rightarrow> 's orch_state \<Rightarrow> 's orch_state res" where
  "orchestrate en st =
     rbind (parallel_searcher en (intent_router st)) (\<lambda>st.
     rbind (personalized_ranker en st) (response_generator en))"


subsection \<open>A run\<close>

text \<open>
  The session that is loaded is the object of the fallback dictionary, so the user's turn is added there
  at once; a new session enters the memory only when it is saved. \<open>db1\<close> and \<open>db2\<close> say whether the
  database answers the load and the save.
\<close>

definition new_session :: "orch_request \<Rightarrow> 's session_ctx" where
  "new_session request =
     \<lparr>sx_tenant_id = oq_tenant_id request, sx_user_id = oq_user_id request, sx_session_id = oq_session_id request,
      sx_history = [], sx_intent_stack = [], sx_last_document_ids = []\<rparr>"

definition open_session ::
    "bool \<Rightarrow> orch_request \<Rightarrow> 's memory \<Rightarrow> 's session_ctx res \<times> 's memory" where
  "open_session db request m =
     (case load_session db (oq_tenant_id request) (oq_session_id request) m of
        (None, m) \<Rightarrow> (Inr (append_user (oq_prompt request) (new_session request)), m)
      | (Some ctx, m) \<Rightarrow>
          if sx_tenant_id ctx \<noteq> oq_tenant_id request then (Inl (Raised ''PermissionError''), m)
          else let ctx = append_user (oq_prompt request) ctx
               in (Inr ctx, m\<lparr>mm_fallback := AList.update (session_key (oq_tenant_id request) (oq_session_id request)) ctx
                                              (mm_fallback m)\<rparr>))"

definition row_ids :: "'s jdict list \<Rightarrow> string list" where
  "row_ids rows = List.map_filter (\<lambda>h. case jget h ''document_id'' of JStr d \<Rightarrow> if d \<noteq> [] then Some d else None | _ \<Rightarrow> None) rows"

definition closed_session :: "'s orch_state \<Rightarrow> 's session_ctx" where
  "closed_session final =
     (let s = append_assistant (os_response_text final)
                [(''citations'', JList (map JDict (os_citations final))), (''intent'', JStr (intent_value (os_intent final)))]
                (os_session final)
      in s\<lparr>sx_intent_stack := sx_intent_stack s @ [intent_value (os_intent final)],
           sx_last_document_ids := take 10 (row_ids (os_ranked_hits final))\<rparr>)"

definition arun ::
    "('v, 's::{linorder,zero,plus,minus,times,inverse}) chat_env \<Rightarrow> bool \<Rightarrow> bool \<Rightarrow> orch_request \<Rightarrow> bytes \<Rightarrow> string option \<Rightarrow>
     's memory \<Rightarrow> 's orch_state res \<times> 's memory" where
  "arun en db1 db2 request acl_compiled_filter authorization m =
     (case open_session db1 request m of
        (Inl e, m) \<Rightarrow> (Inl e, m)
      | (Inr ctx, m) \<Rightarrow>
          (case orchestrate en (initial_state request acl_compiled_filter authorization ctx) of
             Inl e \<Rightarrow> (Inl e, m)
           | Inr final \<Rightarrow> (Inr (final\<lparr>os_session := closed_session final\<rparr>), save_session db2 (closed_session final) m)))"

text \<open>The event that reports the run to the activity signals; its posting is not waited for.\<close>

definition chat_activity_event :: "('s, 'e) floats_scheme \<Rightarrow> string \<Rightarrow> string \<Rightarrow> 's \<Rightarrow> orch_request \<Rightarrow> 's orch_state \<Rightarrow> 's jdict" where
  "chat_activity_event fl event_id now latency request final =
     [(''event_id'', JStr event_id), (''actor_principal_id'', JStr (oq_user_id request)),
      (''object_id'', case row_ids (take 1 (os_ranked_hits final)) of d # _ \<Rightarrow> JStr d | [] \<Rightarrow> JStr ''orchestrator:none''),
      (''event_type'', JStr ''referenced''), (''source_system'', JStr ''assistant_orchestrator''),
      (''event_time'', JStr now), (''session_id'', JStr (oq_session_id request)),
      (''context_json'', JDict [(''prompt_len'', JNum (fl_int fl (int (length (oq_prompt request))))),
         (''latency_ms'', JNum latency), (''intent'', JStr (intent_value (os_intent final)))]),
      (''privacy_level'', JStr ''restricted'')]"

subsection \<open>The routes\<close>

record chat_body =
  cb_prompt :: string
  cb_session_id :: string
  cb_tenant_id :: "string option"
  cb_attachments :: "string list"
  cb_debug :: bool

definition principal_ids :: "pydict \<Rightarrow> string \<times> string" where
  "principal_ids current_user =
     (or_str [pget current_user ''tenant_id''],
      or_str [pget current_user ''principal_id'', pget current_user ''user_id'', pget current_user ''sub''])"

definition chat_terms :: "pydict \<Rightarrow> string list" where
  "chat_terms current_user =
     (let terms = acl_terms_from_jwt current_user
      in if is_fail_closed terms then [''user:'' @ snd (principal_ids current_user)] else terms)"

text \<open>What a chat answers with: \<open>None\<close> for the intent is the \<open>"chat"\<close> of a failed run.\<close>

record 's chat_result =
  ct_intent :: "intent option"
  ct_text :: string
  ct_generation_error :: string
  ct_citations :: "'s jdict list"
  ct_ranked_hits :: "'s jdict list"
  ct_base_hits :: "'s jdict list"
  ct_errors :: "string list"
  ct_llm_prompt :: string
  ct_provider :: string

definition chat_result_of :: "'s orch_state res \<Rightarrow> 's chat_result" where
  "chat_result_of r =
     (case r of
        Inl e \<Rightarrow> \<lparr>ct_intent = None,
          ct_text = ''I encountered an issue processing your request. Please try again in a moment.'',
          ct_generation_error = (case e of Raised s \<Rightarrow> s | HTTPException c s \<Rightarrow> s), ct_citations = [], ct_ranked_hits = [],
          ct_base_hits = [], ct_errors = [], ct_llm_prompt = [], ct_provider = ''fallback''\<rparr>
      | Inr st \<Rightarrow> \<lparr>ct_intent = Some (os_intent st), ct_text = os_response_text st,
          ct_generation_error = os_generation_error st, ct_citations = os_citations st, ct_ranked_hits = os_ranked_hits st,
          ct_base_hits = os_base_hits st, ct_errors = os_errors st, ct_llm_prompt = os_llm_prompt st,
          ct_provider = os_provider st\<rparr>)"

definition chat_request :: "chat_body \<Rightarrow> pydict \<Rightarrow> string option \<Rightarrow> string \<Rightarrow> orch_request" where
  \<comment> \<open>\<open>stored_email\<close> is the e-mail of the user's row, \<open>None\<close> also for a failed query\<close>
  "chat_request body current_user stored_email connector_summary =
     (let email = str_strip (or_str [pget current_user ''email'']);
          email = (if email \<noteq> [] then email else opt_str stored_email)
      in \<lparr>oq_tenant_id = fst (principal_ids current_user), oq_user_id = snd (principal_ids current_user),
          oq_session_id = cb_session_id body, oq_prompt = cb_prompt body, oq_attachments = cb_attachments body,
          oq_account_email = (if email \<noteq> [] then Some email else None), oq_connector_summary = Some connector_summary\<rparr>)"

definition orchestrator_chat ::
    "('v, 's::{linorder,zero,plus,minus,times,inverse}) chat_env \<Rightarrow> bool \<Rightarrow> bool \<Rightarrow> chat_body \<Rightarrow> pydict \<Rightarrow> string option \<Rightarrow> string option \<Rightarrow>
     string \<Rightarrow> 's memory \<Rightarrow> 's chat_result res \<times> 's memory" where
  "orchestrator_chat en db1 db2 body current_user authorization stored_email connector_summary m =
     (let (tenant_id, user_id) = principal_ids current_user in
      if opt_str (cb_tenant_id body) \<noteq> [] \<and> opt_str (cb_tenant_id body) \<noteq> tenant_id
      then (Inl (HTTPException 403 ''tenant_id mismatch''), m)
      else if tenant_id = [] \<or> user_id = [] then (Inl (HTTPException 401 ''tenant_id / principal_id missing''), m)
      else let (r, m) = arun en db1 db2 (chat_request body current_user stored_email connector_summary)
                          (encode_acl_terms (chat_terms current_user)) authorization m
           in (Inr (chat_result_of r), m))"

text \<open>The stream: an opening event, the text in pieces of 28 characters unless the generation failed, and the whole answer.\<close>

function pieces :: "nat \<Rightarrow> string \<Rightarrow> string list" where
  "pieces n s = (if s = [] \<or> n = 0 then [] else take n s # pieces n (drop n s))"
  by pat_completeness auto
termination by (relation "measure (\<lambda>(n, s). length s)") auto

declare pieces.simps [simp del]

datatype 's chat_event = Meta "intent option" string | Token string | Final "'s chat_result"

definition event_stream :: "bool \<Rightarrow> 's chat_result \<Rightarrow> 's chat_event list" where
  "event_stream debug_enabled r =
     Meta (ct_intent r) (ct_provider r) #
     (if ct_generation_error r = [] then map Token (pieces 28 (ct_text r)) else []) @
     [Final (if debug_enabled then r else r\<lparr>ct_llm_prompt := []\<rparr>)]"

definition list_sessions :: "bool \<Rightarrow> pydict \<Rightarrow> 's memory \<Rightarrow> session_summary list res" where
  "list_sessions db current_user m =
     (let (tenant_id, user_id) = principal_ids current_user in
      if tenant_id = [] \<or> user_id = [] then Inl (HTTPException 401 ''tenant_id / principal_id missing'')
      else Inr (list_sessions_for_user db tenant_id user_id 50 m))"

definition title_from_history :: "'s turn_record list \<Rightarrow> string" where
  "title_from_history history =
     (case find (\<lambda>t. tn_role t = User \<and> str_strip (tn_content t) \<noteq> []) history of
        None \<Rightarrow> ''New chat'' | Some t \<Rightarrow> take 80 (str_strip (tn_content t)))"

record 's session_out =
  so_ctx :: "'s session_ctx"
  so_title :: string
  so_turns :: "(role \<times> string \<times> 's jval list) list"      \<comment> \<open>each turn with its citations\<close>

definition get_session :: "bool \<Rightarrow> string \<Rightarrow> pydict \<Rightarrow> 's memory \<Rightarrow> 's session_out res \<times> 's memory" where
  "get_session db session_id current_user m =
     (let (tenant_id, user_id) = principal_ids current_user in
      case load_session db tenant_id session_id m of
        (None, m) \<Rightarrow> (Inl (HTTPException 404 ''session not found''), m)
      | (Some ctx, m) \<Rightarrow>
          (if sx_tenant_id ctx \<noteq> tenant_id then Inl (HTTPException 403 ''cross-tenant session access denied'')
           else if sx_user_id ctx \<noteq> user_id then Inl (HTTPException 403 ''session access denied'')
           else Inr \<lparr>so_ctx = ctx, so_title = title_from_history (sx_history ctx),
                  so_turns = map (\<lambda>t. (tn_role t, tn_content t,
                    case jget (tn_meta t) ''citations'' of JList cs \<Rightarrow> cs | _ \<Rightarrow> [])) (sx_history ctx)\<rparr>, m))"

end
