(* ===== verification/Assistant_Safety.thy ===== *)
theory Assistant_Safety
  imports Assistant
begin

text \<open>
  What a run of the assistant keeps: the session and the caller's filter pass through the nodes unchanged,
  the hits come from the search made with that filter or from the document reader, and the prompt stays
  within its budgets.
\<close>

subsection \<open>Frames\<close>

definition same_caller :: "'s orch_state \<Rightarrow> 's orch_state \<Rightarrow> bool" where
  "same_caller st st' \<longleftrightarrow> os_session st' = os_session st \<and> os_request st' = os_request st \<and> os_acl st' = os_acl st \<and>
     os_authorization st' = os_authorization st"

lemma same_caller_trans: "same_caller a b \<Longrightarrow> same_caller b c \<Longrightarrow> same_caller a c"
  by (simp add: same_caller_def)

lemma search_node_caller: "search_node en st = Inr st' \<Longrightarrow> same_caller st st' \<and> os_intent st' = os_intent st"
  by (auto simp: search_node_def rbind_Inr_iff same_caller_def)

lemma parallel_searcher_caller: "parallel_searcher en st = Inr st' \<Longrightarrow> same_caller st st' \<and> os_intent st' = os_intent st"
  by (auto simp: parallel_searcher_def rbind_Inr_iff dest: search_node_caller split: if_splits list.splits)
    (auto simp: same_caller_def)

lemma rank_searchesE:
  assumes "rank_searches en st = Inr st'"
  obtains merged base_hits boosted where "merge_results [] [] (os_tool_results st) = Inr merged"
    "extract_base_hits (ce_floats en) [(''results'', JList merged)] = Inr base_hits"
    "apply_signal_boost (ce_floats en) base_hits (os_signals st) = Inr boosted"
    "(boosted \<noteq> [] \<and> read_best en st base_hits boosted (hd boosted) = Inr st') \<or>
     st' = (with_hits st base_hits boosted)\<lparr>os_used_reader := False\<rparr>"
proof -
  obtain merged base_hits boosted where m: "merge_results [] [] (os_tool_results st) = Inr merged"
    "extract_base_hits (ce_floats en) [(''results'', JList merged)] = Inr base_hits"
    "apply_signal_boost (ce_floats en) base_hits (os_signals st) = Inr boosted"
    and e: "(if boosted \<noteq> [] \<and> weak_retrieval en st boosted then read_best en st base_hits boosted (hd boosted)
       else Inr ((with_hits st base_hits boosted)\<lparr>os_used_reader := False\<rparr>)) = Inr st'"
    using assms unfolding rank_searches_def rbind_Inr_iff by blast
  show thesis
  proof (rule that [OF m])
    show "(boosted \<noteq> [] \<and> read_best en st base_hits boosted (hd boosted) = Inr st') \<or>
        st' = (with_hits st base_hits boosted)\<lparr>os_used_reader := False\<rparr>"
      using e by (cases "boosted \<noteq> [] \<and> weak_retrieval en st boosted") simp_all
  qed
qed

lemma read_bestE:
  assumes "read_best en st base_hits boosted h = Inr st'"
  obtains reader where "run_tool en st Read_Document [(''document_id'', PStr (rh_document_id h))] = Inr reader"
    "os_ranked_hits st' = map row_of_hit (if tr_ok reader
       then promote en (tr_payload reader) h # filter (\<lambda>x. rh_document_id x \<noteq> rh_document_id h) boosted else boosted)"
    "os_rounds st' = Suc (os_rounds st)" "same_caller st st'" "os_intent st' = os_intent st"
proof -
  obtain reader where r: "run_tool en st Read_Document [(''document_id'', PStr (rh_document_id h))] = Inr reader"
    using assms unfolding read_best_def rbind_Inr_iff by blast
  from assms r have "st' = (with_hits st base_hits
      (if tr_ok reader then promote en (tr_payload reader) h # filter (\<lambda>x. rh_document_id x \<noteq> rh_document_id h) boosted else boosted))
    \<lparr>os_tool_results := os_tool_results st @ [reader], os_used_reader := True,
     os_errors := os_errors st @ (if \<not> tr_ok reader \<and> opt_str (tr_error reader) \<noteq> []
                                  then [''read_document: '' @ opt_str (tr_error reader)] else []),
     os_rounds := Suc (os_rounds st)\<rparr>"
    unfolding read_best_def by (simp only: rbind_simps sum.inject)
  with r that show thesis by (simp add: with_hits_def same_caller_def)
qed

lemma rank_searches_caller: "rank_searches en st = Inr st' \<Longrightarrow> same_caller st st' \<and> os_intent st' = os_intent st"
  by (erule rank_searchesE, elim disjE conjE, erule read_bestE) (simp_all add: with_hits_def same_caller_def)

lemma personalized_ranker_cases:
  assumes "personalized_ranker en st = Inr st'"
  shows "(os_used_reader st \<and> os_intent st = READ \<and> (st' = st \<or> (\<exists>r \<in> set (os_tool_results st). tr_tool r = Read_Document \<and> tr_ok r \<and> st' = with_reader en st r))) \<or>
    (\<not> (os_used_reader st \<and> os_intent st = READ) \<and> rank_searches en st = Inr st')"
proof (cases "os_used_reader st \<and> os_intent st = READ")
  case True
  show ?thesis
  proof (cases "filter (\<lambda>r. tr_tool r = Read_Document \<and> tr_ok r) (os_tool_results st)")
    case Nil
    with True assms show ?thesis by (simp add: personalized_ranker_def)
  next
    case (Cons r rs)
    then have "r \<in> set (filter (\<lambda>r. tr_tool r = Read_Document \<and> tr_ok r) (os_tool_results st))" by simp
    moreover have "st' = with_reader en st r" using True Cons assms by (simp add: personalized_ranker_def)
    ultimately show ?thesis using True by auto
  qed
next
  case False
  have "personalized_ranker en st = rank_searches en st"
    unfolding personalized_ranker_def using False by (rule if_not_P)
  with False assms show ?thesis by (simp del: de_Morgan_conj)
qed

lemma personalized_ranker_caller: "personalized_ranker en st = Inr st' \<Longrightarrow> same_caller st st' \<and> os_intent st' = os_intent st"
proof -
  assume "personalized_ranker en st = Inr st'"
  then consider "st' = st" | r where "st' = with_reader en st r" | "rank_searches en st = Inr st'"
    using personalized_ranker_cases by blast
  then show ?thesis
  proof cases
    case 3
    then show ?thesis by (rule rank_searches_caller)
  qed (simp_all add: same_caller_def with_reader_def Let_def)
qed

lemma response_generatorE:
  assumes "response_generator en st = Inr st'"
  obtains "os_intent st = GREETING" "os_citations st' = []" "os_ranked_hits st' = []" "same_caller st st'" "os_intent st' = os_intent st"
    "os_rounds st' = os_rounds st"
  | gen where "os_intent st \<noteq> GREETING" "st' = finish_answer en st gen"
proof (cases "os_intent st = GREETING")
  case True
  with assms have "st' = st\<lparr>os_response_text := GREETING_TEXT (ce_texts en), os_citations := [], os_ranked_hits := [],
      os_llm_prompt := [], os_provider := ''greeting'', os_generation_error := [], os_debug_retrieval := []\<rparr>"
    unfolding response_generator_def by (simp only: if_True simp_thms sum.inject)
  with True that(1) show thesis by (simp add: same_caller_def)
next
  case False
  then obtain gen where "Inr (finish_answer en st gen) = (Inr st' :: _ res)"
    using assms unfolding response_generator_def rbind_Inr_iff by (simp only: if_False simp_thms rbind_Inr_iff) blast
  with False that(2) show thesis by (simp only: sum.inject) blast
qed

lemma finish_answer_keeps:
  "same_caller st (finish_answer en st gen)" "os_intent (finish_answer en st gen) = os_intent st"
  "os_ranked_hits (finish_answer en st gen) = grounding_hits en st" "os_rounds (finish_answer en st gen) = os_rounds st"
  "os_llm_prompt (finish_answer en st gen) = snd (prompt_of en st)"
  by (simp_all add: finish_answer_def Let_def same_caller_def)

lemma finish_answer_citations:
  "os_citations (finish_answer en st gen) = [] \<or>
   os_citations (finish_answer en st gen) =
     map (citation_of (ce_floats en) (ce_texts en)) (List.enumerate 1 (take 3 (grounding_hits en st)))"
  by (simp add: finish_answer_def Let_def)

lemma response_generator_caller: "response_generator en st = Inr st' \<Longrightarrow> same_caller st st' \<and> os_intent st' = os_intent st"
  by (erule response_generatorE) (simp_all add: finish_answer_keeps)

lemma prompt_of_same: "same_caller st st' \<Longrightarrow> os_ranked_hits st' = os_ranked_hits st \<Longrightarrow> prompt_of en st' = prompt_of en st"
  by (simp add: same_caller_def prompt_of_def grounding_hits_def)

lemma response_generator_prompt:
  "response_generator en st = Inr st' \<Longrightarrow> os_intent st \<noteq> GREETING \<Longrightarrow> os_llm_prompt st' = snd (prompt_of en st)"
  by (erule response_generatorE) (simp_all add: finish_answer_keeps)

text \<open>A run of the nodes, taken apart.\<close>

lemma orchestrateE:
  assumes "orchestrate en st = Inr final"
  obtains found ranked where "parallel_searcher en (intent_router st) = Inr found" "personalized_ranker en found = Inr ranked"
    "response_generator en ranked = Inr final" "same_caller st found" "same_caller st ranked" "same_caller st final"
    "os_intent final = os_intent (intent_router st)" "os_intent ranked = os_intent (intent_router st)"
    "os_intent found = os_intent (intent_router st)"
proof -
  obtain found ranked where n: "parallel_searcher en (intent_router st) = Inr found" "personalized_ranker en found = Inr ranked"
      "response_generator en ranked = Inr final"
    using assms by (auto simp: orchestrate_def rbind_Inr_iff)
  have r: "same_caller st (intent_router st)" by (simp add: same_caller_def intent_router_def)
  note f = parallel_searcher_caller [OF n(1)] and k = personalized_ranker_caller [OF n(2)]
    and a = response_generator_caller [OF n(3)]
  show thesis
  proof (rule that [OF n])
    show c: "same_caller st found" using r f by (blast intro: same_caller_trans)
    show d: "same_caller st ranked" using c k by (blast intro: same_caller_trans)
    show "same_caller st final" using d a by (blast intro: same_caller_trans)
  qed (use f k a in simp_all)
qed

lemma orchestrate_session: "orchestrate en st = Inr final \<Longrightarrow> os_session final = os_session st"
  by (erule orchestrateE) (simp add: same_caller_def)

lemma orchestrate_prompt:
  assumes "orchestrate en st = Inr final" "os_intent final \<noteq> GREETING"
  shows "\<exists>hits. os_llm_prompt final = snd (assemble_chat_messages (ce_floats en) (ce_texts en) (oq_prompt (os_request st)) hits
    (sx_history (os_session st)) (oq_account_email (os_request st)) (oq_connector_summary (os_request st)))"
  using assms(1)
proof (rule orchestrateE)
  fix found ranked
  assume "response_generator en ranked = Inr final" "same_caller st ranked" "os_intent final = os_intent (intent_router st)"
    "os_intent ranked = os_intent (intent_router st)"
  with assms(2) have "os_llm_prompt final = snd (prompt_of en ranked)" "same_caller st ranked"
    by (simp_all add: response_generator_prompt)
  then show ?thesis by (auto simp: prompt_of_def same_caller_def Let_def)
qed

subsection \<open>Whose conversation\<close>

lemma arun_InrE:
  assumes "arun en db1 db2 request acl authz m = (Inr final, m')"
  obtains ctx m1 st where "open_session db1 request m = (Inr ctx, m1)"
    "orchestrate en (initial_state request acl authz ctx) = Inr st"
    "final = st\<lparr>os_session := closed_session st\<rparr>" "m' = save_session db2 (closed_session st) m1"
  using assms by (auto simp: arun_def split: prod.splits sum.splits)

lemma open_session_row:
  assumes "map_of (mm_rows m) (oq_tenant_id request, oq_session_id request) = Some row" "rows_keyed m"
  shows "\<exists>m1. open_session True request m = (Inr (append_user (oq_prompt request) (sw_ctx row)), m1) \<and>
    mm_rows m1 = mm_rows m"
  using assms by (simp add: open_session_def load_session_def rows_keyed_def Let_def)

lemma closed_session_keeps:
  "sx_user_id (closed_session st) = sx_user_id (os_session st)" "sx_tenant_id (closed_session st) = sx_tenant_id (os_session st)"
  "sx_session_id (closed_session st) = sx_session_id (os_session st)"
  "\<exists>t. sx_history (closed_session st) = sx_history (os_session st) @ [t] \<and> tn_role t = Assistant"
  by (simp_all add: closed_session_def append_assistant_def Let_def)

text \<open>
  Property C27: a chat continues any session of its tenant, whoever it belongs to. The session is looked up
  by tenant and session id and the user is not compared, so a caller who names another user's session has
  that user's turns put into the prompt, and adds two turns to it; the session stays the other user's, and
  the route that shows sessions refuses it to the caller.
\<close>

theorem chat_continues_anyones_session:
  assumes "map_of (mm_rows m) (oq_tenant_id request, oq_session_id request) = Some row" "rows_keyed m"
    and "arun en True True request acl authz m = (Inr final, m')"
    and "principal_ids caller = (oq_tenant_id request, oq_user_id request)" "oq_user_id request \<noteq> sx_user_id (sw_ctx row)"
  defines "turn \<equiv> \<lparr>tn_role = User, tn_content = oq_prompt request, tn_meta = []\<rparr>"
  shows "(\<exists>row' answer. map_of (mm_rows m') (oq_tenant_id request, oq_session_id request) = Some row' \<and>
      sx_user_id (sw_ctx row') = sx_user_id (sw_ctx row) \<and>
      sx_history (sw_ctx row') = sx_history (sw_ctx row) @ [turn, answer]) \<and>
    (os_intent final \<noteq> GREETING \<longrightarrow> (\<exists>hits. os_llm_prompt final =
      snd (assemble_chat_messages (ce_floats en) (ce_texts en) (oq_prompt request) hits
        (sx_history (sw_ctx row) @ [turn]) (oq_account_email request) (oq_connector_summary request)))) \<and>
    fst (get_session True (oq_session_id request) caller m') = Inl (HTTPException 403 ''session access denied'')"
proof -
  obtain ctx m1 st where o: "open_session True request m = (Inr ctx, m1)"
    and r: "orchestrate en (initial_state request acl authz ctx) = Inr st"
    and f: "final = st\<lparr>os_session := closed_session st\<rparr>" and m': "m' = save_session True (closed_session st) m1"
    using assms(3) by (rule arun_InrE)
  from open_session_row [OF assms(1,2)] o have ctx: "ctx = append_user (oq_prompt request) (sw_ctx row)" by auto
  have key: "sx_tenant_id (sw_ctx row) = oq_tenant_id request" "sx_session_id (sw_ctx row) = oq_session_id request"
    using assms(1,2) by (auto simp: rows_keyed_def)
  have s: "os_session st = ctx" using orchestrate_session [OF r] by (simp add: initial_state_def)
  obtain t where h: "sx_history (closed_session st) = sx_history ctx @ [t]" using closed_session_keeps(4) [of st] s by auto
  have c: "sx_user_id (closed_session st) = sx_user_id (sw_ctx row)" "sx_tenant_id (closed_session st) = oq_tenant_id request"
      "sx_session_id (closed_session st) = oq_session_id request"
    using key by (simp_all add: closed_session_keeps s ctx append_user_def)
  have row': "map_of (mm_rows m') (oq_tenant_id request, oq_session_id request) =
      Some \<lparr>sw_ctx = closed_session st, sw_updated = mm_writes m1\<rparr>"
    unfolding m' by (simp add: save_session_def Let_def map_of_update c)
  have "os_intent final \<noteq> GREETING \<Longrightarrow> \<exists>hits. os_llm_prompt final =
      snd (assemble_chat_messages (ce_floats en) (ce_texts en) (oq_prompt request) hits
        (sx_history (sw_ctx row) @ [turn]) (oq_account_email request) (oq_connector_summary request))"
    using orchestrate_prompt [OF r] by (simp add: f initial_state_def ctx append_user_def turn_def)
  moreover have "fst (get_session True (oq_session_id request) caller m') = Inl (HTTPException 403 ''session access denied'')"
    using assms(4,5) c by (simp add: get_session_def load_session_def Let_def row')
  ultimately show ?thesis using row' c(1) h by (auto simp: ctx append_user_def turn_def)
qed


subsection \<open>Where the hits come from\<close>

text \<open>
  A document the federated search gives a caller with these terms in this tenant, and a document the reader
  service gave in answer to a request that carried the caller's filter.
\<close>

definition granted :: "('v, 's) chat_env \<Rightarrow> string \<Rightarrow> string list \<Rightarrow> string \<Rightarrow> bool" where
  "granted en tenant terms d \<longleftrightarrow>
     indexed_source (ce_engines en) tenant terms d \<or> engine_source (ce_engines en) tenant terms d"

definition read_for :: "('v, 's::zero) chat_env \<Rightarrow> bytes \<Rightarrow> string \<Rightarrow> bool" where
  "read_for en acl d \<longleftrightarrow>
     (\<exists>req status payload. ce_http en req = Inr (status, Some (JDict payload)) \<and> status < 400 \<and>
        starts_with (ce_reader_url en @ ''/document/'') (hr_url req) \<and>
        (''X-ACL-Compiled-Filter'', bytes_hex acl) \<in> set (hr_headers req) \<and>
        d = j_str (fl_repr (ce_floats en)) (jfirst [jget payload ''document_id'']))"

lemma j_list_JList [simp]: "j_list (JList xs) = Inr xs"
  by (simp add: j_list_def)

lemma item_payload_id: "item_payload fl r = JDict d \<Longrightarrow> item_id fl d = ri_document_id r"
  by (auto simp: item_payload_def Let_def item_id_def jfirst_def jor_def)

definition granted_items :: "('v, 's::zero) chat_env \<Rightarrow> string \<Rightarrow> string list \<Rightarrow> 's tool_result \<Rightarrow> bool" where
  "granted_items en tenant terms r \<longleftrightarrow>
     (\<forall>items d. j_list (jget (tr_payload r) ''results'') = Inr items \<longrightarrow> JDict d \<in> set items \<longrightarrow>
        granted en tenant terms (item_id (ce_floats en) d))"

lemma search_in_process_granted: "granted_items en tenant terms (search_in_process en call q sz tenant terms)"
  unfolding granted_items_def
proof (intro allI impI)
  fix items d
  let ?eng = "ce_engines en" and ?n = "nat sz"
  obtain merged sts where m: "run_federated_backends ?eng (ce_weight en) q tenant terms ?n True True = (merged, sts)" by fastforce
  assume i: "j_list (jget (tr_payload (search_in_process en call q sz tenant terms)) ''results'') = Inr items" "JDict d \<in> set items"
  then have "items = map (item_payload (ce_floats en)) merged"
    by (simp add: search_in_process_def search_payload_def federated_search_inprocess_def m)
  with i(2) obtain r where r: "r \<in> set merged" "item_payload (ce_floats en) r = JDict d" by auto
  show "granted en tenant terms (item_id (ce_floats en) d)"
  proof (rule backend_results [OF m])
    fix l v assume l: "merged = merge_and_rank (ce_weight en) l v ?n"
      and h: "\<And>h. h \<in> set l \<union> set v \<Longrightarrow> indexed_source ?eng tenant terms (ht_document_id h) \<or> engine_source ?eng tenant terms (ht_document_id h)"
    obtain x where x: "x \<in> set l \<union> set v" "ri_document_id r = ht_document_id x" using merge_ids [OF r(1) [unfolded l]] by blast
    show ?thesis unfolding granted_def item_payload_id [OF r(2)] x(2) by (rule h [OF x(1)])
  qed
qed

lemma federated_tool_here:
  assumes "federated_tool en call authz (Some tenant) = Inr r" "is_loopback_url (ce_federator_url en)" "tenant \<noteq> []"
    and "wire_terms (tc_acl call) = Inr terms"
  shows "tr_tool r = tc_tool call \<and> granted_items en tenant terms r"
proof -
  obtain q sz where "r = search_in_process en call q sz tenant terms"
    using assms by (auto simp: federated_tool_def rbind_Inr_iff Let_def)
  then show ?thesis using search_in_process_granted by (simp add: search_in_process_def)
qed

text \<open>The results a ranker may use: searches that were granted, and documents read for the caller.\<close>

definition sound_results :: "('v, 's::zero) chat_env \<Rightarrow> string \<Rightarrow> string list \<Rightarrow> bytes \<Rightarrow> 's tool_result list \<Rightarrow> bool" where
  "sound_results en tenant terms acl rs \<longleftrightarrow> (\<forall>r \<in> set rs.
     (tr_tool r \<in> {Lexical_Search, Vector_Search} \<longrightarrow> granted_items en tenant terms r) \<and>
     (tr_tool r = Read_Document \<and> tr_ok r \<longrightarrow>
        (let d = j_str (fl_repr (ce_floats en)) (jfirst [jget (tr_payload r) ''document_id'']) in d = [] \<or> read_for en acl d)))"

lemma http_result_tool: "tr_tool (http_result t acl reply) = t"
  by (simp add: http_result_def failed_tool_def split: sum.split prod.split)

lemma read_tool_sound:
  fixes en :: "('a, 'b::{zero}) chat_env"
  assumes "read_document_tool en call authz = Inr r" "tr_ok r"
  shows "tr_tool r = Read_Document \<and>
    (let d = j_str (fl_repr (ce_floats en)) (jfirst [jget (tr_payload r) ''document_id'']) in d = [] \<or> read_for en (tc_acl call) d)"
proof -
  obtain terms where t: "bytes_string (tc_acl call) = Some terms"
    using assms(1) by (auto simp: read_document_tool_def split: option.splits)
  define req :: "'b http_request" where "req = \<lparr>hr_method = ''GET'', hr_url = ce_reader_url en @ ''/document/'' @
      or_str [pget (tc_params call) ''document_id'', pget (tc_params call) ''blob_id''],
    hr_headers = acl_headers (tc_acl call) authz @ [(''X-ACL-Terms-JSON'', terms)], hr_body = None\<rparr>"
  have r: "r = http_result Read_Document (tc_acl call) (ce_http en req)"
    using assms(1) t by (simp add: read_document_tool_def req_def)
  obtain status content where reply: "ce_http en req = Inr (status, content)" "status < 400"
    using assms(2) unfolding r by (auto simp: http_result_def failed_tool_def split: sum.splits)
  show ?thesis
  proof (cases "\<exists>payload. content = Some (JDict payload)")
    case True
    then obtain payload where c: "content = Some (JDict payload)" ..
    have "starts_with (ce_reader_url en @ ''/document/'') (hr_url req)" by (simp add: req_def starts_with_def)
    moreover have "(''X-ACL-Compiled-Filter'', bytes_hex (tc_acl call)) \<in> set (hr_headers req)"
      by (simp add: req_def acl_headers_def)
    ultimately have "read_for en (tc_acl call) (j_str (fl_repr (ce_floats en)) (jfirst [jget payload ''document_id'']))"
      unfolding read_for_def using reply c by blast
    with r reply c show ?thesis by (simp add: http_result_def)
  next
    case False
    with r reply show ?thesis
      by (cases content; cases "the content") (simp_all add: http_result_def jfirst_def jor_def)
  qed
qed


lemma merge_items_set:
  "merge_items seen merged items = Inr (seen', merged') \<Longrightarrow> set merged' \<subseteq> set merged \<union> set items"
proof (induction items arbitrary: seen merged)
  case (Cons item items)
  then obtain a b where ab: "j_get item ''document_id'' = Inr a" "j_get item ''id'' = Inr b"
    by (auto simp: rbind_Inr_iff)
  let ?id = "jor a b"
  consider "\<not> jtruthy ?id" | "jtruthy ?id" "j_hashable ?id" "?id \<in> set seen"
    | "jtruthy ?id" "j_hashable ?id" "?id \<notin> set seen"
    using Cons.prems by (auto simp: ab Let_def split: if_splits)
  then show ?case
  proof cases
    case 3
    then have "merge_items (?id # seen) (merged @ [item]) items = Inr (seen', merged')"
      using Cons.prems by (simp add: ab Let_def)
    from Cons.IH [OF this] show ?thesis by auto
  qed (use Cons.IH [of seen merged] Cons.prems in \<open>auto simp: ab Let_def\<close>)
qed simp

lemma merge_results_set:
  assumes "merge_results seen merged rs = Inr out" "x \<in> set out"
  shows "x \<in> set merged \<or> (\<exists>r \<in> set rs. tr_tool r \<in> {Lexical_Search, Vector_Search} \<and>
    (\<exists>items. j_list (jget (tr_payload r) ''results'') = Inr items \<and> x \<in> set items))"
  using assms(1)
proof (induction rs arbitrary: seen merged)
  case Nil
  with assms(2) show ?case by simp
next
  case (Cons r rs)
  show ?case
  proof (cases "tr_tool r \<in> {Lexical_Search, Vector_Search}")
    case False
    then have "merge_results seen merged rs = Inr out" using Cons.prems by simp
    from Cons.IH [OF this] show ?thesis by auto
  next
    case True
    then obtain items seen' merged' where i: "j_list (jget (tr_payload r) ''results'') = Inr items"
        "merge_items seen merged items = Inr (seen', merged')" "merge_results seen' merged' rs = Inr out"
      using Cons.prems by (auto simp: rbind_Inr_iff)
    from Cons.IH [OF i(3)] merge_items_set [OF i(2)] i(1) True show ?thesis by auto
  qed
qed

lemma ranked_granted:
  assumes "rank_searches en st = Inr st'" "sound_results en tenant terms acl (os_tool_results st)" "row \<in> set (os_ranked_hits st')"
  shows "\<exists>d. jget row ''document_id'' = JStr d \<and> granted en tenant terms d"
  using assms(1)
proof (rule rank_searchesE)
  fix merged base_hits boosted
  assume m: "merge_results [] [] (os_tool_results st) = Inr merged"
    and b: "extract_base_hits (ce_floats en) [(''results'', JList merged)] = Inr base_hits"
    and k: "apply_signal_boost (ce_floats en) base_hits (os_signals st) = Inr boosted"
    and e: "boosted \<noteq> [] \<and> read_best en st base_hits boosted (hd boosted) = Inr st' \<or>
      st' = (with_hits st base_hits boosted)\<lparr>os_used_reader := False\<rparr>"
  have base: "\<exists>items. base_hits_of (ce_floats en) items = Inr base_hits \<and> set items \<subseteq> set merged"
  proof (cases "merged = []")
    case True
    with b show ?thesis by (auto simp: extract_base_hits_def jor_def j_list_def)
  next
    case False
    with b show ?thesis by (auto simp: extract_base_hits_def jor_def)
  qed
  have hit: "granted en tenant terms (rh_document_id h)" if "h \<in> set boosted" for h
  proof -
    have "rh_document_id h \<in> rh_document_id ` set base_hits" using that boost_ids [OF k] by blast
    then obtain g where g: "g \<in> set base_hits" "rh_document_id g = rh_document_id h" by auto
    from base base_hit_items [OF _ g(1)] obtain d where d: "JDict d \<in> set merged" "hit_of_item (ce_floats en) d = Inr g" by blast
    from merge_results_set [OF m d(1)] obtain r items where r: "r \<in> set (os_tool_results st)"
        "tr_tool r \<in> {Lexical_Search, Vector_Search}" "j_list (jget (tr_payload r) ''results'') = Inr items" "JDict d \<in> set items"
      by auto
    then have "granted_items en tenant terms r" using assms(2) unfolding sound_results_def by blast
    with r(3,4) have "granted en tenant terms (item_id (ce_floats en) d)" unfolding granted_items_def by blast
    then show ?thesis using hit_of_item_id [OF d(2)] g(2) by simp
  qed
  have rows: "\<exists>h \<in> set boosted. jget row ''document_id'' = JStr (rh_document_id h)"
    using e
  proof (elim disjE conjE)
    assume ne: "boosted \<noteq> []" and "read_best en st base_hits boosted (hd boosted) = Inr st'"
    then obtain reader where "run_tool en st Read_Document [(''document_id'', PStr (rh_document_id (hd boosted)))] = Inr reader"
      and "os_ranked_hits st' = map row_of_hit (if tr_ok reader
        then promote en (tr_payload reader) (hd boosted) # filter (\<lambda>x. rh_document_id x \<noteq> rh_document_id (hd boosted)) boosted
        else boosted)" by (elim read_bestE) (rule that)
    with assms(3) ne show ?thesis by (auto simp: row_of_hit_def promote_def Let_def split: if_splits)
  next
    assume "st' = (with_hits st base_hits boosted)\<lparr>os_used_reader := False\<rparr>"
    with assms(3) show ?thesis by (auto simp: with_hits_def row_of_hit_def)
  qed
  with hit show ?thesis by blast
qed


lemma run_tool_search:
  assumes "run_tool en st Vector_Search params = Inr r" "is_loopback_url (ce_federator_url en)"
    and "oq_tenant_id (os_request st) \<noteq> []" "wire_terms (os_acl st) = Inr terms"
  shows "tr_tool r = Vector_Search \<and> granted_items en (oq_tenant_id (os_request st)) terms r"
proof -
  have "federated_tool en \<lparr>tc_tool = Vector_Search, tc_params = params, tc_acl = os_acl st\<rparr> (os_authorization st)
      (Some (oq_tenant_id (os_request st))) = Inr r"
    using assms(1) by (simp add: run_tool_def execute_def)
  from federated_tool_here [OF this assms(2,3)] assms(4) show ?thesis by simp
qed

lemma run_tool_read:
  "run_tool en st Read_Document params = Inr r \<Longrightarrow> sound_results en tenant terms (os_acl st) [r]"
proof -
  assume "run_tool en st Read_Document params = Inr r"
  then have rd: "read_document_tool en \<lparr>tc_tool = Read_Document, tc_params = params, tc_acl = os_acl st\<rparr> (os_authorization st) = Inr r"
    by (simp add: run_tool_def execute_def)
  then have t: "tr_tool r = Read_Document"
    by (auto simp: read_document_tool_def Let_def http_result_tool split: option.splits)
  then show ?thesis using read_tool_sound [OF rd] by (auto simp: sound_results_def)
qed

lemma search_node_sound:
  assumes "search_node en st = Inr st'" "is_loopback_url (ce_federator_url en)"
    and "oq_tenant_id (os_request st) \<noteq> []" "wire_terms (os_acl st) = Inr terms"
  shows "sound_results en (oq_tenant_id (os_request st)) terms (os_acl st) (os_tool_results st') \<and>
    os_used_reader st' = os_used_reader st \<and> os_ranked_hits st' = os_ranked_hits st"
proof -
  obtain found looked where f: "run_tool en st Vector_Search [(''query'', PStr (oq_prompt (os_request st))), (''size'', PInt 10)] = Inr found"
    and l: "(if is_loopback_url (ce_signals_url en) then Inr []
      else rbind (run_tool en st Signal_Lookup [(''user_id'', PStr (oq_user_id (os_request st)))]) (\<lambda>r. Inr [r])) = Inr looked"
    and st': "os_tool_results st' = found # looked" "os_used_reader st' = os_used_reader st" "os_ranked_hits st' = os_ranked_hits st"
    using assms(1) by (auto simp: search_node_def rbind_Inr_iff)
  have "\<forall>r \<in> set looked. tr_tool r = Signal_Lookup"
    using l by (auto simp: run_tool_def execute_def rbind_Inr_iff signal_lookup_def http_result_tool split: if_splits)
  then show ?thesis using run_tool_search [OF f assms(2-4)] st' by (auto simp: sound_results_def)
qed

text \<open>After the search, what the ranker works on.\<close>

lemma parallel_searcher_sound:
  assumes "parallel_searcher en st = Inr st'" "is_loopback_url (ce_federator_url en)"
    and "oq_tenant_id (os_request st) \<noteq> []" "wire_terms (os_acl st) = Inr terms"
    and "os_tool_results st = []" "os_ranked_hits st = []" "\<not> os_used_reader st"
  shows "sound_results en (oq_tenant_id (os_request st)) terms (os_acl st) (os_tool_results st') \<and> os_ranked_hits st' = []"
proof -
  have empty: "sound_results en (oq_tenant_id (os_request st)) terms (os_acl st) []" by (simp add: sound_results_def)
  have search: ?thesis if "search_node en st = Inr st'"
    using search_node_sound [OF that assms(2-4)] assms(6) by simp
  let ?docs = "if os_intent st = READ then oq_attachments (os_request st) else []"
  consider "max_rounds en \<le> os_rounds st" | "os_rounds st < max_rounds en" "os_intent st = GREETING"
    | "os_rounds st < max_rounds en" "os_intent st \<noteq> GREETING" by linarith
  then show ?thesis
  proof cases
    case 1
    with assms(1) have "st' = st\<lparr>os_errors := os_errors st @ [''max tool-call rounds reached'']\<rparr>"
      by (simp add: parallel_searcher_def)
    with empty assms(5,6) show ?thesis by simp
  next
    case 2
    with assms(1) have "st' = st\<lparr>os_tool_results := [], os_ranked_hits := [], os_base_hits := []\<rparr>"
      by (simp add: parallel_searcher_def)
    with empty show ?thesis by simp
  next
    case 3
    show ?thesis
    proof (cases "\<exists>doc_id rest. ?docs = doc_id # rest \<and> doc_id \<noteq> []")
      case False
      then have "search_node en st = Inr st'" using assms(1) 3
        by (auto simp: parallel_searcher_def split: list.splits if_splits)
      then show ?thesis by (rule search)
    next
      case True
      then obtain doc_id rest where d: "?docs = doc_id # rest" "doc_id \<noteq> []" by blast
      then obtain r where r: "run_tool en st Read_Document [(''document_id'', PStr doc_id)] = Inr r"
        and st': "os_tool_results st' = [r]" "os_ranked_hits st' = os_ranked_hits st"
        using assms(1) 3 by (auto simp: parallel_searcher_def rbind_Inr_iff d)
      from run_tool_read [OF r] assms(6) show ?thesis by (simp add: st')
    qed
  qed
qed

lemma orchestrate_hits_sound:
  assumes "orchestrate en st = Inr final" "is_loopback_url (ce_federator_url en)"
    and "oq_tenant_id (os_request st) \<noteq> []" "wire_terms (os_acl st) = Inr terms"
    and "os_tool_results st = []" "os_ranked_hits st = []" "\<not> os_used_reader st"
    and "row \<in> set (os_ranked_hits final)" "jget row ''document_id'' = JStr d" "d \<noteq> []"
  shows "granted en (oq_tenant_id (os_request st)) terms d \<or> read_for en (os_acl st) d"
  using assms(1)
proof (rule orchestrateE)
  let ?t = "oq_tenant_id (os_request st)" and ?r = "intent_router st"
  fix found ranked
  assume p: "parallel_searcher en ?r = Inr found" and k: "personalized_ranker en found = Inr ranked"
    and g: "response_generator en ranked = Inr final"
  have r: "os_request ?r = os_request st" "os_acl ?r = os_acl st" "os_tool_results ?r = os_tool_results st"
      "os_ranked_hits ?r = os_ranked_hits st" "os_used_reader ?r = os_used_reader st"
    by (simp_all add: intent_router_def)
  have s: "sound_results en ?t terms (os_acl st) (os_tool_results found)" "os_ranked_hits found = []"
    using parallel_searcher_sound [OF p assms(2)] assms(3-7) by (simp_all add: r)
  have rows: "\<exists>row' \<in> set (os_ranked_hits ranked). jget row' ''document_id'' = JStr d"
    using g
  proof (rule response_generatorE)
    fix gen assume f: "final = finish_answer en ranked gen"
    let ?rel = "filter_relevant_hits (ce_floats en) (os_ranked_hits ranked)"
    have "row \<in> set (grounding_hits en ranked)" using assms(8) by (simp add: f finish_answer_keeps)
    with assms(9) have "JStr d \<in> (\<lambda>h. jget h ''document_id'') ` set (grounding_hits en ranked)"
      by (intro image_eqI [where x = row]) simp_all
    then have "JStr d \<in> (\<lambda>h. jget h ''document_id'') ` set ?rel"
      unfolding grounding_hits_def by (rule subsetD [OF enriched_ids])
    then obtain row' where "row' \<in> set ?rel" "jget row' ''document_id'' = JStr d" by (elim imageE) simp
    with subsetD [OF relevant_hits] show ?thesis by blast
  qed (use assms(8) in simp)
  then obtain row' where row': "row' \<in> set (os_ranked_hits ranked)" "jget row' ''document_id'' = JStr d" ..
  consider "ranked = found" | r where "r \<in> set (os_tool_results found)" "tr_tool r = Read_Document" "tr_ok r" "ranked = with_reader en found r"
    | "rank_searches en found = Inr ranked"
    using personalized_ranker_cases [OF k] by blast
  then show ?thesis
  proof cases
    case 1
    with row' s(2) show ?thesis by simp
  next
    case (2 r)
    have "(let d = j_str (fl_repr (ce_floats en)) (jfirst [jget (tr_payload r) ''document_id'']) in d = [] \<or> read_for en (os_acl st) d)"
      using s(1) 2(1-3) unfolding sound_results_def by blast
    moreover have "d = j_str (fl_repr (ce_floats en)) (jfirst [jget (tr_payload r) ''document_id''])"
      using row' by (simp add: 2(4) with_reader_def row_of_hit_def reader_hit_def Let_def)
    ultimately show ?thesis using assms(10) by (simp add: Let_def)
  next
    case 3
    from ranked_granted [OF 3 s(1) row'(1)] row'(2) show ?thesis by auto
  qed
qed

lemma enumerate_citation: "c \<in> set (map f (List.enumerate n xs)) \<Longrightarrow> \<exists>i x. x \<in> set xs \<and> c = f (i, x)"
proof -
  assume "c \<in> set (map f (List.enumerate n xs))"
  then obtain i x where p: "(i, x) \<in> set (List.enumerate n xs)" "c = f (i, x)" by auto
  then have "snd (i, x) \<in> snd ` set (List.enumerate n xs)" by (intro imageI)
  then have "x \<in> set xs" unfolding enumerate_snd by simp
  with p(2) show ?thesis by blast
qed

lemma finish_citation_row:
  assumes "c \<in> set (os_citations (finish_answer en st gen))"
  shows "\<exists>row \<in> set (os_ranked_hits (finish_answer en st gen)). jget c ''document_id'' = jget row ''document_id''"
proof -
  have "c \<in> set (map (citation_of (ce_floats en) (ce_texts en)) (List.enumerate 1 (take 3 (grounding_hits en st))))"
    using finish_answer_citations [of en st gen] assms by auto
  from enumerate_citation [OF this] obtain i row where "row \<in> set (take 3 (grounding_hits en st))"
      "c = citation_of (ce_floats en) (ce_texts en) (i, row)" by blast
  then show ?thesis by (auto simp: finish_answer_keeps citation_of_def Let_def dest: in_set_takeD)
qed

lemma citation_row:
  assumes "orchestrate en st = Inr final" "c \<in> set (os_citations final)"
  shows "\<exists>row \<in> set (os_ranked_hits final). jget c ''document_id'' = jget row ''document_id''"
  using assms(1)
proof (rule orchestrateE)
  fix found ranked assume "response_generator en ranked = Inr final"
  then show ?thesis using assms(2) finish_citation_row by (elim response_generatorE) auto
qed


lemma chat_terms_open: "\<not> is_fail_closed (chat_terms user)"
  by (simp add: chat_terms_def Let_def) (simp add: is_fail_closed_def)

lemma chat_wire_terms: "wire_terms (encode_acl_terms (chat_terms user)) = Inr (chat_terms user)"
  by (simp add: wire_terms_def acl_terms_round_trip chat_terms_open)

text \<open>
  Property C26: an answer of the assistant cites only what its caller may read. With the search in the
  process, which is the default, every document a chat cites was given by the federated search for the
  token's tenant and the terms of the token, which reach the search through their JSON encoding unchanged,
  or by the document reader in answer to a request that carried this filter; whatever the model says, the
  stored session holds, or the activity signals weigh.
\<close>

theorem answers_cite_only_what_the_caller_may_read:
  assumes "orchestrator_chat en db1 db2 body user authz email summary m = (Inr result, m')"
    and "is_loopback_url (ce_federator_url en)"
    and "c \<in> set (ct_citations result)" "jget c ''document_id'' = JStr d" "d \<noteq> []"
  shows "granted en (fst (principal_ids user)) (chat_terms user) d \<or> read_for en (encode_acl_terms (chat_terms user)) d"
proof -
  let ?acl = "encode_acl_terms (chat_terms user)" and ?req = "chat_request body user email summary"
  obtain r where r: "arun en db1 db2 ?req ?acl authz m = (r, m')" "result = chat_result_of r" "fst (principal_ids user) \<noteq> []"
    using assms(1) by (auto simp: orchestrator_chat_def Let_def split: prod.splits if_splits)
  obtain final where f: "r = Inr final" using assms(3) by (cases r) (simp_all add: r(2) chat_result_of_def)
  obtain ctx m1 st where o: "orchestrate en (initial_state ?req ?acl authz ctx) = Inr st" and st: "final = st\<lparr>os_session := closed_session st\<rparr>"
    using r(1) unfolding f by (rule arun_InrE)
  have "c \<in> set (os_citations st)" using assms(3) by (simp add: r(2) f chat_result_of_def st)
  from citation_row [OF o this] assms(4) obtain row where row: "row \<in> set (os_ranked_hits st)" "jget row ''document_id'' = JStr d"
    by auto
  have t: "oq_tenant_id (os_request (initial_state ?req ?acl authz ctx)) = fst (principal_ids user)"
    by (simp add: initial_state_def chat_request_def Let_def)
  have a: "os_acl (initial_state ?req ?acl authz ctx) = ?acl" by (simp add: initial_state_def)
  have "wire_terms (os_acl (initial_state ?req ?acl authz ctx)) = Inr (chat_terms user)" unfolding a by (rule chat_wire_terms)
  from orchestrate_hits_sound [OF o assms(2) _ this _ _ _ row assms(5)] r(3)
  show ?thesis unfolding t a by (simp add: initial_state_def)
qed

subsection \<open>Budgets\<close>

lemma str_strip_le: "length (str_strip s) \<le> length s"
  unfolding str_strip_def length_rev
  by (rule order_trans [OF length_dropWhile_le]) (simp add: length_dropWhile_le)

lemma history_text_length: "length (history_text history) \<le> 2477"
proof -
  let ?ls = "List.map_filter history_line (prior_turns history)"
  have le: "length (join nl ls) \<le> 412 * length ls" if "\<forall>l \<in> set ls. length l \<le> 411" for ls
    using that by (induction nl ls rule: join.induct) (simp_all add: nl_def)
  have "length ?ls \<le> length (prior_turns history)" by (simp add: List.map_filter_def)
  then have n: "length ?ls \<le> 6" using prior_turns_length [of history] by (simp add: MAX_HISTORY_TURNS_def)
  have "\<forall>l \<in> set ?ls. length l \<le> 411"
    using history_line_length by (auto simp: List.map_filter_def)
  from le [OF this] n show ?thesis by (simp add: history_text_def Let_def)
qed

lemma user_message_length:
  "length (user_message fl tx prompt hits history email summary) \<le>
     length prompt + length (opt_str email) + length (opt_str summary) + length (tx_em_dash tx) + 15000"
  using sources_text_fits [of fl tx hits] history_text_length [of history]
    str_strip_le [of "opt_str email"] str_strip_le [of "opt_str summary"]
  by (simp add: user_message_def Let_def nl_def str_lower_def MAX_CONTEXT_CHARS_def)

lemma length_enrich_rows [simp]: "length (enrich_rows fl tx store tenant seen rows) = length rows"
  by (rule map_eq_imp_length_eq [OF enrich_rows_ids])

lemma rounds_bounded:
  assumes "orchestrate en st = Inr final" "os_rounds st = 0"
  shows "os_rounds final \<le> max_rounds en"
  using assms(1)
proof (rule orchestrateE)
  fix found ranked
  assume p: "parallel_searcher en (intent_router st) = Inr found" and k: "personalized_ranker en found = Inr ranked"
    and g: "response_generator en ranked = Inr final"
  have 0: "os_rounds (intent_router st) = 0" using assms(2) by (simp add: intent_router_def)
  have 1: "os_rounds found \<le> max_rounds en"
  proof (cases "max_rounds en = 0")
    case True
    with p 0 have "found = (intent_router st)\<lparr>os_errors := os_errors (intent_router st) @ [''max tool-call rounds reached'']\<rparr>"
      by (simp add: parallel_searcher_def)
    with 0 show ?thesis by simp
  next
    case False
    have "os_rounds found \<le> Suc (os_rounds (intent_router st))"
      using p by (auto simp: parallel_searcher_def search_node_def rbind_Inr_iff split: if_splits list.splits)
    with False 0 show ?thesis by simp
  qed
  have 2: "os_rounds ranked \<le> max_rounds en"
  proof -
    consider "ranked = found" | r where "ranked = with_reader en found r" | "rank_searches en found = Inr ranked"
      using personalized_ranker_cases [OF k] by blast
    then show ?thesis
    proof cases
      case 3
      then obtain merged base_hits boosted where b: "rank_searches en found = Inr ranked"
        "boosted \<noteq> [] \<and> weak_retrieval en found boosted \<and> read_best en found base_hits boosted (hd boosted) = Inr ranked \<or>
         ranked = (with_hits found base_hits boosted)\<lparr>os_used_reader := False\<rparr>"
        by (auto simp: rank_searches_def rbind_Inr_iff split: if_splits)
      then show ?thesis using 1
        by (auto simp: with_hits_def weak_retrieval_def elim!: read_bestE)
    qed (use 1 in \<open>simp_all add: with_reader_def Let_def\<close>)
  qed
  show ?thesis using g 2 by (elim response_generatorE) (simp_all add: finish_answer_keeps)
qed



subsection \<open>A concrete chat\<close>

definition demo_floats :: "rat floats" where
  "demo_floats = \<lparr>fl_lit = (\<lambda>q. q), fl_int = rat_of_int, fl_parse = (\<lambda>s. None), fl_repr = (\<lambda>x. ''0''),
     fl_fmt4 = (\<lambda>x. ''0''), fl_age_h = (\<lambda>s. None)\<rparr>"

definition demo_doc :: "pydict \<times> rat" where
  "demo_doc = ([(''id'', PStr ''d1''), (''title'', PStr ''P''), (''permissions'', PList [PStr ''user:u'']),
     (''content'', PStr ''Bob'')], 1)"

definition demo_chat_engines :: "(int, rat) engines" where
  "demo_chat_engines = \<lparr>en_embed = (\<lambda>q. Inr [1]), en_unescape = (\<lambda>s. s), en_scroll = (\<lambda>t n. Inr []),
     en_points = (\<lambda>t vec n. Inr [demo_doc]), en_lexical = None, en_vector = None\<rparr>"

definition demo_completion :: "rat jdict" where
  "demo_completion = [(''choices'', JList [JDict [(''message'', JDict [(''content'', JStr ''Bob'')])]])]"

definition demo_env :: "(int, rat) chat_env" where
  "demo_env = \<lparr>ce_floats = demo_floats, ce_texts = demo_texts, ce_engines = demo_chat_engines, ce_weight = (\<lambda>r. 1),
     ce_http = (\<lambda>r. Inl ''down''), ce_store = \<lparr>ds_chunk = 8, ds_docs = [], ds_objects = []\<rparr>,
     ce_llm = (\<lambda>n r. Inr demo_completion),
     ce_settings = \<lparr>cs_provider = None, cs_api_key = Some ''k'', cs_model = Some ''m'', cs_max_tokens = 100, cs_max_rounds = 2\<rparr>,
     ce_federator_url = [], ce_graph_url = [], ce_reader_url = [], ce_signals_url = [], ce_threshold = 0\<rparr>"

text \<open>The session of user \<open>a\<close>, which user \<open>u\<close> of the same tenant names.\<close>

definition demo_row :: "rat session_row" where
  "demo_row = \<lparr>sw_ctx = \<lparr>sx_tenant_id = ''t'', sx_user_id = ''a'', sx_session_id = ''s'',
     sx_history = [\<lparr>tn_role = User, tn_content = ''my pin is 7'', tn_meta = []\<rparr>], sx_intent_stack = [],
     sx_last_document_ids = []\<rparr>, sw_updated = 0\<rparr>"

definition demo_memory :: "rat memory" where
  "demo_memory = \<lparr>mm_rows = [((''t'', ''s''), demo_row)], mm_fallback = [], mm_memory_rows = [], mm_fallback_memory = [],
     mm_writes = 1\<rparr>"

definition demo_body :: chat_body where
  "demo_body = \<lparr>cb_prompt = ''who?'', cb_session_id = ''s'', cb_tenant_id = None, cb_attachments = [], cb_debug = False\<rparr>"

definition demo_chatter :: pydict where
  "demo_chatter = [(''tenant_id'', PStr ''t''), (''sub'', PStr ''u'')]"

definition demo_request :: orch_request where
  "demo_request = chat_request demo_body demo_chatter None []"

definition demo_start :: "rat orch_state" where
  "demo_start = initial_state demo_request (encode_acl_terms (chat_terms demo_chatter)) None
     (append_user (oq_prompt demo_request) (sw_ctx demo_row))"

definition demo_ranked :: "rat orch_state res" where
  "demo_ranked = rbind (parallel_searcher demo_env (intent_router demo_start)) (personalized_ranker demo_env)"

lemma assistant_demo_ids: "principal_ids demo_chatter = (''t'', ''u'')"
  by code_simp

lemma demo_request_ids: "oq_tenant_id demo_request = ''t''" "oq_user_id demo_request = ''u''" "oq_session_id demo_request = ''s''"
  by (simp_all add: demo_request_def chat_request_def Let_def assistant_demo_ids demo_body_def)

lemma demo_ranked_hits:
  "(case demo_ranked of Inl e \<Rightarrow> None
    | Inr r \<Rightarrow> Some (os_intent r, map (\<lambda>h. jget h ''document_id'') (grounding_hits demo_env r))) = Some (SEARCH, [JStr ''d1''])"
  by code_simp

lemma chat_generate_first:
  assumes "create_chat_provider cfg = Inr (Open_Router model)" "\<And>n r. llm n r = Inr data"
    and "completion_text fl data = Inr (t, e)" "t \<noteq> []"
  shows "chat_generate fl tx llm cfg messages hits = Inr \<lparr>cg_text = t, cg_provider = ''openrouter'', cg_error = None\<rparr>"
  using assms by (simp add: chat_generate_def openrouter_generate_def candidate_models_def try_candidate_def first_reply_def)

lemma demo_generation:
  "chat_generate demo_floats demo_texts (ce_llm demo_env) (ce_settings demo_env) messages hits =
     Inr \<lparr>cg_text = ''Bob'', cg_provider = ''openrouter'', cg_error = None\<rparr>"
proof (rule chat_generate_first)
  show "create_chat_provider (ce_settings demo_env) = Inr (Open_Router ''m'')" by code_simp
  show "ce_llm demo_env n r = Inr demo_completion" for n r by (simp add: demo_env_def)
  show "completion_text demo_floats demo_completion = Inr (''Bob'', None)" by code_simp
qed simp

lemma demo_answer: "str_strip ''Bob'' = ''Bob''" "is_refuse_answer ''Bob'' = False"
  by code_simp+

lemma demo_orchestrated:
  obtains st where "orchestrate demo_env demo_start = Inr st" "os_intent st = SEARCH"
    "\<exists>c \<in> set (os_citations st). jget c ''document_id'' = JStr ''d1''"
proof -
  obtain r where r: "demo_ranked = Inr r" "os_intent r = SEARCH" "map (\<lambda>h. jget h ''document_id'') (grounding_hits demo_env r) = [JStr ''d1'']"
  proof (cases demo_ranked)
    case (Inl e)
    show thesis using demo_ranked_hits unfolding Inl by simp
  next
    case (Inr r)
    from demo_ranked_hits [unfolded Inr] have "os_intent r = SEARCH"
      "map (\<lambda>h. jget h ''document_id'') (grounding_hits demo_env r) = [JStr ''d1'']" by simp_all
    with Inr show thesis by (rule that)
  qed
  let ?gen = "\<lparr>cg_text = ''Bob'', cg_provider = ''openrouter'', cg_error = None\<rparr>"
  have e: "ce_floats demo_env = demo_floats" "ce_texts demo_env = demo_texts" by (simp_all add: demo_env_def)
  obtain found where p: "parallel_searcher demo_env (intent_router demo_start) = Inr found" "personalized_ranker demo_env found = Inr r"
    using r(1) unfolding demo_ranked_def rbind_Inr_iff by blast
  have g: "response_generator demo_env r = Inr (finish_answer demo_env r ?gen)"
    using r(2) by (simp add: response_generator_def e demo_generation)
  have o: "orchestrate demo_env demo_start = Inr (finish_answer demo_env r ?gen)"
    unfolding orchestrate_def by (simp add: p g)
  obtain h where h: "grounding_hits demo_env r = [h]" "jget h ''document_id'' = JStr ''d1''" using r(3) by auto
  have "os_citations (finish_answer demo_env r ?gen) = [citation_of demo_floats demo_texts (1, h)]"
    by (simp add: finish_answer_def Let_def h e demo_answer)
  then have "\<exists>c \<in> set (os_citations (finish_answer demo_env r ?gen)). jget c ''document_id'' = JStr ''d1''"
    using h(2) by (simp add: citation_of_def Let_def)
  with o r(2) that show thesis by (simp add: finish_answer_keeps)
qed

lemma demo_keyed: "rows_keyed demo_memory"
  by (auto simp: rows_keyed_def demo_memory_def demo_row_def split: if_splits)

lemma demo_stored: "map_of (mm_rows demo_memory) (oq_tenant_id demo_request, oq_session_id demo_request) = Some demo_row"
  by (simp add: demo_memory_def demo_request_ids)

lemma demo_arun:
  obtains st m' where "arun demo_env True True demo_request (encode_acl_terms (chat_terms demo_chatter)) None demo_memory =
      (Inr (st\<lparr>os_session := closed_session st\<rparr>), m')" "os_intent st = SEARCH"
    "\<exists>c \<in> set (os_citations st). jget c ''document_id'' = JStr ''d1''"
proof -
  obtain m1 where "open_session True demo_request demo_memory = (Inr (append_user (oq_prompt demo_request) (sw_ctx demo_row)), m1)"
    using open_session_row [OF demo_stored demo_keyed] by blast
  moreover obtain st where "orchestrate demo_env demo_start = Inr st" "os_intent st = SEARCH"
    "\<exists>c \<in> set (os_citations st). jget c ''document_id'' = JStr ''d1''" by (rule demo_orchestrated)
  ultimately show thesis using that by (simp add: arun_def demo_start_def)
qed

theorem chat_continues_anyones_session_witness:
  "\<exists>final m'. arun demo_env True True demo_request (encode_acl_terms (chat_terms demo_chatter)) None demo_memory = (Inr final, m') \<and>
     os_intent final = SEARCH \<and> sx_user_id (sw_ctx demo_row) = ''a'' \<and>
     fst (get_session True ''s'' demo_chatter m') = Inl (HTTPException 403 ''session access denied'')"
proof -
  obtain st m' where r: "arun demo_env True True demo_request (encode_acl_terms (chat_terms demo_chatter)) None demo_memory =
      (Inr (st\<lparr>os_session := closed_session st\<rparr>), m')" "os_intent st = SEARCH" by (rule demo_arun)
  have "principal_ids demo_chatter = (oq_tenant_id demo_request, oq_user_id demo_request)"
    "oq_user_id demo_request \<noteq> sx_user_id (sw_ctx demo_row)" by (simp_all add: assistant_demo_ids demo_request_ids demo_row_def)
  from chat_continues_anyones_session [OF demo_stored demo_keyed r(1) this]
  show ?thesis using r by (auto simp: demo_request_ids demo_row_def)
qed


theorem answers_cite_only_what_the_caller_may_read_witness:
  "\<exists>result m' c. orchestrator_chat demo_env True True demo_body demo_chatter None None [] demo_memory = (Inr result, m') \<and>
     c \<in> set (ct_citations result) \<and> jget c ''document_id'' = JStr ''d1'' \<and>
     (granted demo_env ''t'' (chat_terms demo_chatter) ''d1'' \<or> read_for demo_env (encode_acl_terms (chat_terms demo_chatter)) ''d1'')"
proof -
  obtain st m' where r: "arun demo_env True True demo_request (encode_acl_terms (chat_terms demo_chatter)) None demo_memory =
      (Inr (st\<lparr>os_session := closed_session st\<rparr>), m')" "\<exists>c \<in> set (os_citations st). jget c ''document_id'' = JStr ''d1''"
    by (rule demo_arun)
  let ?res = "chat_result_of (Inr (st\<lparr>os_session := closed_session st\<rparr>))"
  have o: "orchestrator_chat demo_env True True demo_body demo_chatter None None [] demo_memory = (Inr ?res, m')"
    unfolding orchestrator_chat_def assistant_demo_ids using r(1) by (simp add: demo_request_def demo_body_def)
  have l: "is_loopback_url (ce_federator_url demo_env)" by (simp add: is_loopback_url_def demo_env_def str_lower_def)
  obtain c where c: "c \<in> set (ct_citations ?res)" "jget c ''document_id'' = JStr ''d1''"
    using r(2) by (auto simp: chat_result_of_def)
  from answers_cite_only_what_the_caller_may_read [OF o l c] o c show ?thesis by (auto simp: assistant_demo_ids)
qed

end
