(* ===== verification/Scim.thy ===== *)
theory Scim
  imports Py_Values
begin

text \<open>
  SCIM provisioning (\<open>backend/app/services/scim_sync.py\<close>) over the tables \<open>users\<close>, \<open>groups\<close> and
  \<open>group_memberships\<close> of a tenant database. \<open>uuid5\<close> stands for \<open>uuid5(PRINCIPAL_ID_NAMESPACE, s)\<close>. The
  session flushes before each query and at the commit, so the constraints of the tables are checked there;
  a sync that raises is rolled back, which \<open>Inl\<close> expresses.
\<close>

subsection \<open>Tables\<close>

record scim_user_row =
  pu_tenant_id :: uuid
  pu_idp_subject :: string
  pu_email :: pyval
  pu_display_name :: pyval
  pu_source_profiles :: pydict
  pu_status :: string

type_synonym scim_user_table = "(uuid, scim_user_row) dict"     \<comment> \<open>by \<open>principal_id\<close>\<close>

record group_row =
  gp_id :: uuid
  gp_tenant_id :: uuid
  gp_type :: string
  gp_display_name :: pyval
  gp_source_key :: string
  gp_sync_version :: int
  gp_last_update :: instant

type_synonym membership = "uuid \<times> uuid \<times> uuid"       \<comment> \<open>group, principal, tenant\<close>

fun is_str :: "pyval \<Rightarrow> bool" where
  "is_str (PStr s) = True"
| "is_str _ = False"

text \<open>E-mail and subject are unique over the table and, like the display name, not null.\<close>

definition users_ok :: "scim_user_table \<Rightarrow> bool" where
  "users_ok us \<longleftrightarrow> distinct (map (pu_email \<circ> snd) us) \<and> distinct (map (pu_idp_subject \<circ> snd) us) \<and>
     list_all (\<lambda>(k, u). is_str (pu_email u) \<and> is_str (pu_display_name u)) us"

definition flush :: "('t \<Rightarrow> bool) \<Rightarrow> 't \<Rightarrow> unit res" where
  "flush ok t = (if ok t then Inr () else Inl (Raised ''DBAPIError''))"

subsection \<open>Users\<close>

record scim_stats =
  ss_created :: nat
  ss_updated :: nat
  ss_unchanged :: nat
  ss_membership_changes :: nat

definition no_stats :: scim_stats where
  "no_stats = \<lparr>ss_created = 0, ss_updated = 0, ss_unchanged = 0, ss_membership_changes = 0\<rparr>"

text \<open>\<open>scim_user.get("emails", [{}])[0].get("value", "")\<close> and \<open>get("displayName", get("userName", ""))\<close>.\<close>

definition scim_email :: "pydict \<Rightarrow> pyval res" where
  "scim_email u = rbind (py_first (dict_get u ''emails'' (PList [PDict []]))) (\<lambda>e. py_get e ''value'' (PStr []))"

definition scim_display_name :: "pydict \<Rightarrow> pyval" where
  "scim_display_name u = dict_get u ''displayName'' (dict_get u ''userName'' (PStr []))"

definition principal_of :: "(string \<Rightarrow> uuid) \<Rightarrow> pyval \<Rightarrow> uuid res" where
  "principal_of uuid5 v = (case v of PStr s \<Rightarrow> Inr (uuid5 s) | _ \<Rightarrow> Inl (Raised ''TypeError''))"

definition scim_subject :: "pyval \<Rightarrow> string" where
  "scim_subject v = (case v of PStr s \<Rightarrow> s | _ \<Rightarrow> [])"

definition sync_user ::
    "(string \<Rightarrow> uuid) \<Rightarrow> uuid \<Rightarrow> pydict \<Rightarrow> scim_user_table \<times> scim_stats \<Rightarrow> (scim_user_table \<times> scim_stats) res" where
  "sync_user uuid5 tenant_id scim_user = (\<lambda>(us, st).
     let idp_subject = pget scim_user ''id'' in
     if \<not> truthy idp_subject then Inr (us, st)
     else rbind (principal_of uuid5 idp_subject) (\<lambda>pid.
          rbind (scim_email scim_user) (\<lambda>email.
          rbind (flush users_ok us) (\<lambda>_.
            let display_name = scim_display_name scim_user in
            case map_of us pid of
              Some u \<Rightarrow>
                if pu_email u \<noteq> email \<or> pu_display_name u \<noteq> display_name
                then Inr (AList.update pid (u\<lparr>pu_email := email, pu_display_name := display_name,
                                              pu_source_profiles := scim_user\<rparr>) us,
                          st\<lparr>ss_updated := Suc (ss_updated st)\<rparr>)
                else Inr (us, st\<lparr>ss_unchanged := Suc (ss_unchanged st)\<rparr>)
            | None \<Rightarrow>
                Inr (AList.update pid \<lparr>pu_tenant_id = tenant_id, pu_idp_subject = scim_subject idp_subject, pu_email = email,
                        pu_display_name = display_name, pu_source_profiles = scim_user, pu_status = ''active''\<rparr> us,
                     st\<lparr>ss_created := Suc (ss_created st)\<rparr>)))))"

fun sync_user_list ::
    "(string \<Rightarrow> uuid) \<Rightarrow> uuid \<Rightarrow> pydict list \<Rightarrow> scim_user_table \<times> scim_stats \<Rightarrow> (scim_user_table \<times> scim_stats) res" where
  "sync_user_list uuid5 tenant_id [] x = Inr x"
| "sync_user_list uuid5 tenant_id (u # us) x = rbind (sync_user uuid5 tenant_id u x) (sync_user_list uuid5 tenant_id us)"

definition sync_users :: "(string \<Rightarrow> uuid) \<Rightarrow> uuid \<Rightarrow> pydict list \<Rightarrow> scim_user_table \<Rightarrow> (scim_user_table \<times> scim_stats) res" where
  "sync_users uuid5 tenant_id scim_users us =
     rbind (sync_user_list uuid5 tenant_id scim_users (us, no_stats)) (\<lambda>(us, st).
     rbind (flush users_ok us) (\<lambda>_. Inr (us, st)))"

subsection \<open>Groups\<close>

record scim_db =
  sb_users :: scim_user_table
  sb_groups :: "group_row list"
  sb_members :: "membership list"
  sb_fresh :: nat                       \<comment> \<open>how many group identifiers were drawn\<close>

definition groups_ok :: "scim_db \<Rightarrow> bool" where
  "groups_ok db \<longleftrightarrow> distinct (map gp_id (sb_groups db)) \<and> list_all (is_str \<circ> gp_display_name) (sb_groups db) \<and>
     distinct (map (\<lambda>(g, p, t). (g, p)) (sb_members db)) \<and>
     list_all (\<lambda>(g, p, t). map_of (sb_users db) p \<noteq> None \<and> g \<in> gp_id ` set (sb_groups db)) (sb_members db)"

definition member_ids :: "uuid \<Rightarrow> scim_db \<Rightarrow> uuid list" where
  "member_ids gid db = map (fst \<circ> snd) (filter (\<lambda>m. fst m = gid) (sb_members db))"

fun wanted_members :: "(string \<Rightarrow> uuid) \<Rightarrow> pyval list \<Rightarrow> uuid list res" where
  "wanted_members uuid5 [] = Inr []"
| "wanted_members uuid5 (m # ms) =
     rbind (py_get m ''value'' PNone) (\<lambda>v.
     rbind (if truthy v then rbind (principal_of uuid5 v) (\<lambda>p. Inr [p]) else Inr []) (\<lambda>ps.
     rbind (wanted_members uuid5 ms) (\<lambda>rest. Inr (ps @ rest))))"

definition update_group_membership ::
    "(string \<Rightarrow> uuid) \<Rightarrow> uuid \<Rightarrow> pyval \<Rightarrow> uuid \<Rightarrow> scim_db \<Rightarrow> (scim_db \<times> bool) res" where
  "update_group_membership uuid5 gid members tenant_id db =
     rbind (flush groups_ok db) (\<lambda>_.
     rbind (py_iter members) (\<lambda>ms.
     rbind (wanted_members uuid5 ms) (\<lambda>wanted.
       let existing = member_ids gid db;
           to_add = filter (\<lambda>p. p \<notin> set existing) (dedup wanted);
           to_remove = filter (\<lambda>p. p \<notin> set wanted) existing
       in if to_add = [] \<and> to_remove = [] then Inr (db, False)
          else Inr (db\<lparr>sb_members := filter (\<lambda>m. \<not> (fst m = gid \<and> fst (snd m) \<in> set to_remove)) (sb_members db) @
                                     map (\<lambda>p. (gid, p, tenant_id)) to_add\<rparr>, True))))"

definition find_groups :: "uuid \<Rightarrow> string \<Rightarrow> scim_db \<Rightarrow> group_row list" where
  "find_groups tenant_id key db = filter (\<lambda>g. gp_tenant_id g = tenant_id \<and> gp_source_key g = key) (sb_groups db)"

definition touch_group :: "uuid \<Rightarrow> instant \<Rightarrow> scim_db \<Rightarrow> scim_db" where
  "touch_group gid now db =
     db\<lparr>sb_groups := map (\<lambda>g. if gp_id g = gid then g\<lparr>gp_sync_version := gp_sync_version g + 1, gp_last_update := now\<rparr> else g)
                       (sb_groups db)\<rparr>"

definition sync_group ::
    "(string \<Rightarrow> uuid) \<Rightarrow> (nat \<Rightarrow> uuid) \<Rightarrow> instant \<Rightarrow> uuid \<Rightarrow> pydict \<Rightarrow> scim_db \<times> scim_stats \<Rightarrow> (scim_db \<times> scim_stats) res" where
  "sync_group uuid5 new_id now tenant_id scim_group = (\<lambda>(db, st).
     let key = pget scim_group ''id''; members = dict_get scim_group ''members'' (PList []) in
     if \<not> truthy key then Inr (db, st)
     else rbind (flush groups_ok db) (\<lambda>_.
       case key of
         PStr k \<Rightarrow>
           (case find_groups tenant_id k db of
              [] \<Rightarrow>
                (let g = \<lparr>gp_id = new_id (sb_fresh db), gp_tenant_id = tenant_id, gp_type = ''security'',
                          gp_display_name = dict_get scim_group ''displayName'' (PStr []), gp_source_key = k,
                          gp_sync_version = 1, gp_last_update = now\<rparr>;
                     db = db\<lparr>sb_groups := sb_groups db @ [g], sb_fresh := Suc (sb_fresh db)\<rparr>
                 in rbind (update_group_membership uuid5 (gp_id g) members tenant_id db) (\<lambda>(db, _).
                      Inr (db, st\<lparr>ss_created := Suc (ss_created st)\<rparr>)))
            | [g] \<Rightarrow>
                rbind (update_group_membership uuid5 (gp_id g) members tenant_id db) (\<lambda>(db, changed).
                  Inr (if changed then touch_group (gp_id g) now db else db,
                       st\<lparr>ss_updated := Suc (ss_updated st),
                          ss_membership_changes := (if changed then 1 else 0) + ss_membership_changes st\<rparr>))
            | _ \<Rightarrow> Inl (Raised ''MultipleResultsFound''))
       | _ \<Rightarrow> Inl (Raised ''DBAPIError'')))"

fun sync_group_list ::
    "(string \<Rightarrow> uuid) \<Rightarrow> (nat \<Rightarrow> uuid) \<Rightarrow> instant \<Rightarrow> uuid \<Rightarrow> pydict list \<Rightarrow> scim_db \<times> scim_stats \<Rightarrow> (scim_db \<times> scim_stats) res" where
  "sync_group_list uuid5 new_id now tenant_id [] x = Inr x"
| "sync_group_list uuid5 new_id now tenant_id (g # gs) x =
     rbind (sync_group uuid5 new_id now tenant_id g x) (sync_group_list uuid5 new_id now tenant_id gs)"

definition sync_groups ::
    "(string \<Rightarrow> uuid) \<Rightarrow> (nat \<Rightarrow> uuid) \<Rightarrow> instant \<Rightarrow> uuid \<Rightarrow> pydict list \<Rightarrow> scim_db \<Rightarrow> (scim_db \<times> scim_stats) res" where
  "sync_groups uuid5 new_id now tenant_id scim_groups db =
     rbind (sync_group_list uuid5 new_id now tenant_id scim_groups (db, no_stats)) (\<lambda>(db, st).
     rbind (flush groups_ok db) (\<lambda>_. Inr (db, st)))"

subsection \<open>Provisioning is idempotent\<close>

text \<open>The record of a feed entry that has an identifier, as the table holds it after the sync.\<close>

definition provisioned :: "(string \<Rightarrow> uuid) \<Rightarrow> pydict \<Rightarrow> scim_user_table \<Rightarrow> bool" where
  "provisioned uuid5 u us \<longleftrightarrow> (truthy (pget u ''id'') \<longrightarrow>
     (\<exists>s email row. pget u ''id'' = PStr s \<and> scim_email u = Inr email \<and> map_of us (uuid5 s) = Some row \<and>
        pu_email row = email \<and> pu_display_name row = scim_display_name u))"

definition subjects :: "pydict list \<Rightarrow> pyval list" where
  "subjects feed = map (\<lambda>u. pget u ''id'') (filter (\<lambda>u. truthy (pget u ''id'')) feed)"

lemma flush_Inr [simp]: "flush ok t = Inr x \<longleftrightarrow> ok t"
  by (simp add: flush_def)

lemma principal_of_Inr: "principal_of uuid5 v = Inr p \<longleftrightarrow> (\<exists>s. v = PStr s \<and> p = uuid5 s)"
  by (auto simp: principal_of_def split: pyval.split)

lemma sync_user_provisions:
  assumes "sync_user uuid5 t u (us, st) = Inr (us', st')"
  shows "provisioned uuid5 u us' \<and> (\<forall>p. (\<forall>s. truthy (pget u ''id'') \<longrightarrow> pget u ''id'' = PStr s \<longrightarrow> p \<noteq> uuid5 s) \<longrightarrow> map_of us' p = map_of us p)"
proof (cases "truthy (pget u ''id'')")
  case False
  with assms show ?thesis by (auto simp: sync_user_def provisioned_def)
next
  case True
  with assms obtain s email where s: "pget u ''id'' = PStr s" "scim_email u = Inr email" "users_ok us"
    by (auto simp: sync_user_def Let_def rbind_Inr_iff principal_of_Inr)
  show ?thesis
  proof (cases "map_of us (uuid5 s)")
    case None
    with assms True s show ?thesis by (auto simp: sync_user_def principal_of_def flush_def Let_def provisioned_def map_of_update)
  next
    case (Some row)
    with assms True s show ?thesis
      by (auto simp: sync_user_def principal_of_def flush_def Let_def provisioned_def map_of_update split: if_splits)
  qed
qed

lemma provisioned_kept:
  assumes "provisioned uuid5 u us" "sync_user uuid5 t v (us, st) = Inr (us', st')"
    and "truthy (pget u ''id'') \<Longrightarrow> truthy (pget v ''id'') \<Longrightarrow> pget u ''id'' \<noteq> pget v ''id''" "inj uuid5"
  shows "provisioned uuid5 u us'"
proof (cases "truthy (pget u ''id'')")
  case True
  with assms(1) obtain s where s: "pget u ''id'' = PStr s" by (auto simp: provisioned_def)
  have "map_of us' (uuid5 s) = map_of us (uuid5 s)"
    using sync_user_provisions [OF assms(2)] assms(3) True s injD [OF assms(4)] by metis
  with assms(1) True s show ?thesis by (auto simp: provisioned_def)
qed (simp add: provisioned_def)

lemma sync_list_provisions:
  assumes "sync_user_list uuid5 t feed (us, st) = Inr (us', st')" "distinct (subjects feed)" "inj uuid5"
    and "\<forall>u \<in> set seen. provisioned uuid5 u us" "set (subjects seen) \<inter> set (subjects feed) = {}"
  shows "\<forall>u \<in> set (seen @ feed). provisioned uuid5 u us'"
  using assms
proof (induction feed arbitrary: us st seen)
  case (Cons v feed)
  then obtain us1 st1 where v: "sync_user uuid5 t v (us, st) = Inr (us1, st1)" "sync_user_list uuid5 t feed (us1, st1) = Inr (us', st')"
    by (auto simp: rbind_Inr_iff)
  have "provisioned uuid5 u us1" if "u \<in> set seen" for u
  proof (rule provisioned_kept [OF _ v(1) _ Cons.prems(3)])
    show "provisioned uuid5 u us" using that Cons.prems(4) by blast
    show "pget u ''id'' \<noteq> pget v ''id''" if "truthy (pget u ''id'')" "truthy (pget v ''id'')"
    proof -
      have "pget u ''id'' \<in> set (subjects seen)" "pget v ''id'' \<in> set (subjects (v # feed))"
        using that \<open>u \<in> set seen\<close> by (simp_all add: subjects_def)
      with Cons.prems(5) show ?thesis by auto
    qed
  qed
  moreover have "provisioned uuid5 v us1" using sync_user_provisions [OF v(1)] by blast
  ultimately have d: "\<forall>u \<in> set (seen @ [v]). provisioned uuid5 u us1" by auto
  have "distinct (subjects feed)" "set (subjects (seen @ [v])) \<inter> set (subjects feed) = {}"
    using Cons.prems(2,5) by (auto simp: subjects_def split: if_splits)
  from Cons.IH [OF v(2) this(1) Cons.prems(3) d this(2)] show ?case by simp
qed simp

lemma sync_provisioned:
  assumes "\<forall>u \<in> set feed. provisioned uuid5 u us" "users_ok us"
  shows "sync_user_list uuid5 t feed (us, st) = Inr (us, st\<lparr>ss_unchanged := length (subjects feed) + ss_unchanged st\<rparr>)"
  using assms(1)
proof (induction feed arbitrary: st)
  case (Cons v feed)
  show ?case
  proof (cases "truthy (pget v ''id'')")
    case False
    then have "sync_user uuid5 t v (us, st) = Inr (us, st)" by (simp add: sync_user_def)
    with False Cons show ?thesis by (simp add: subjects_def)
  next
    case True
    with Cons.prems have "sync_user uuid5 t v (us, st) = Inr (us, st\<lparr>ss_unchanged := Suc (ss_unchanged st)\<rparr>)"
      using assms(2) by (auto simp: provisioned_def sync_user_def principal_of_def flush_def)
    with True Cons show ?thesis by (simp add: subjects_def)
  qed
qed (simp add: subjects_def)

text \<open>
  Property C33: provisioning users is idempotent. After a sync of a feed without repeated identifiers has
  succeeded, another sync of the same feed changes no row, so no principal identifier, and counts every
  entry with an identifier as unchanged.
\<close>

theorem scim_sync_is_idempotent:
  assumes "inj uuid5" "distinct (subjects feed)" "sync_users uuid5 tenant feed us = Inr (us', st)"
  shows "sync_users uuid5 tenant feed us' = Inr (us', no_stats\<lparr>ss_unchanged := length (subjects feed)\<rparr>)"
proof -
  have l: "sync_user_list uuid5 tenant feed (us, no_stats) = Inr (us', st)" and ok: "users_ok us'"
    using assms(3) by (auto simp: sync_users_def rbind_Inr_iff split: prod.splits)
  have "\<forall>u \<in> set ([] @ feed). provisioned uuid5 u us'"
    by (rule sync_list_provisions [OF l assms(2,1)]) (simp_all add: subjects_def)
  then show ?thesis using sync_provisioned [of feed uuid5 us' tenant no_stats] ok
    by (simp add: sync_users_def flush_def no_stats_def)
qed

text \<open>
  A user without an address is stored with an empty one, and addresses are unique: two new users without one
  make the whole sync fail.
\<close>

lemma update_new: "map_of d k = None \<Longrightarrow> AList.update k v d = d @ [(k, v)]"
  by (induction d) (auto split: if_splits)

lemma scim_email_missing: "map_of u ''emails'' = None \<Longrightarrow> scim_email u = Inr (PStr [])"
  by (simp add: scim_email_def dict_get_def)

lemma two_blank_addresses_fail:
  assumes "inj uuid5" "pget u ''id'' = PStr a" "pget v ''id'' = PStr b" "a \<noteq> []" "b \<noteq> []" "a \<noteq> b"
    and "map_of u ''emails'' = None" "map_of v ''emails'' = None" "map_of us (uuid5 a) = None" "map_of us (uuid5 b) = None"
  shows "\<exists>e. sync_users uuid5 tenant [u, v] us = Inl e"
proof (cases "users_ok us")
  case False
  then show ?thesis using assms(2,4,7)
    by (simp add: sync_users_def sync_user_def principal_of_def scim_email_missing flush_def)
next
  case True
  have ne: "uuid5 a \<noteq> uuid5 b" using assms(1,6) by (auto dest: injD)
  let ?row = "\<lambda>s u. \<lparr>pu_tenant_id = tenant, pu_idp_subject = s, pu_email = PStr [], pu_display_name = scim_display_name u,
      pu_source_profiles = u, pu_status = ''active''\<rparr>"
  let ?us1 = "us @ [(uuid5 a, ?row a u)]" and ?us2 = "us @ [(uuid5 a, ?row a u), (uuid5 b, ?row b v)]"
  have one: "sync_user uuid5 tenant u (us, no_stats) = Inr (?us1, no_stats\<lparr>ss_created := 1\<rparr>)"
    using assms(2,4,7,9) True by (simp add: sync_user_def principal_of_def scim_email_missing flush_def update_new scim_subject_def no_stats_def)
  have two: "sync_user uuid5 tenant v (?us1, st) = (if users_ok ?us1 then Inr (?us2, st\<lparr>ss_created := Suc (ss_created st)\<rparr>) else Inl (Raised ''DBAPIError''))" for st
    using assms(3,5,8,10) ne
    by (simp add: sync_user_def principal_of_def scim_email_missing flush_def update_new scim_subject_def map_add_def Let_def split: option.split)
  have "\<not> users_ok ?us2" by (simp add: users_ok_def)
  then show ?thesis by (simp add: sync_users_def one two flush_def)
qed

subsection \<open>An example\<close>

fun string_code :: "string \<Rightarrow> nat" where
  "string_code [] = 0"
| "string_code (c # s) = Suc (of_char c + 256 * string_code s)"

lemma string_code_inj: "inj string_code"
proof (rule injI)
  fix s t :: string
  show "string_code s = string_code t \<Longrightarrow> s = t"
  proof (induction s arbitrary: t)
    case Nil
    then show ?case by (cases t) simp_all
  next
    case (Cons c s)
    then obtain d u where t: "t = d # u" and e: "(of_char c :: nat) + 256 * string_code s = of_char d + 256 * string_code u"
      by (cases t) simp_all
    have "(of_char c :: nat) = of_char d"
      using arg_cong [OF e, of "\<lambda>n. n mod 256"] by (simp only: mod_mult_self2 of_char_mod_256)
    moreover from this e have "string_code s = string_code u" by simp
    ultimately show ?case using t Cons.IH by simp
  qed
qed

definition demo_feed :: "pydict list" where
  "demo_feed = [[(''id'', PStr ''a''), (''displayName'', PStr ''Ann'')], [(''userName'', PStr ''x'')]]"

theorem scim_sync_is_idempotent_witness:
  "\<exists>us st. sync_users string_code 1 demo_feed [] = Inr (us, st) \<and> us \<noteq> [] \<and>
     sync_users string_code 1 demo_feed us = Inr (us, no_stats\<lparr>ss_unchanged := 1\<rparr>)"
proof -
  have d: "distinct (subjects demo_feed)" "length (subjects demo_feed) = 1" by code_simp+
  have "case sync_users string_code 1 demo_feed [] of Inl _ \<Rightarrow> False | Inr (us, _) \<Rightarrow> us \<noteq> []" by code_simp
  then obtain us st where run: "sync_users string_code 1 demo_feed [] = Inr (us, st)" "us \<noteq> []"
    by (auto split: sum.splits)
  from scim_sync_is_idempotent [OF string_code_inj d(1) run(1)] d(2) run show ?thesis by auto
qed

end
