(* ===== verification/Oauth_Links.thy ===== *)
theory Oauth_Links
  imports Json
begin

text \<open>
  The \<open>state\<close> parameter of the connector OAuth flow
  (\<open>backend/app/connectors/google/oauth_state.py\<close>): a JSON object with the tenant, the user, the connection
  scope and a nonce, in URL-safe base64 without padding; the nonce is kept in Redis for ten minutes. What the
  code uses of Python's \<open>base64\<close> and \<open>json\<close> is written out. A JSON text here has characters up to
  U+00FF; a text with others counts as malformed.
\<close>

subsection \<open>Base64\<close>

definition b64_char :: "nat \<Rightarrow> char" where
  "b64_char n = (if n < 26 then char_of (65 + n) else if n < 52 then char_of (97 + (n - 26))
     else if n < 62 then char_of (48 + (n - 52)) else if n = 62 then CHR ''-'' else CHR ''_'')"

fun urlsafe_b64encode :: "bytes \<Rightarrow> string" where
  "urlsafe_b64encode (a # b # c # bs) =
     [b64_char (a div 4), b64_char (a mod 4 * 16 + b div 16), b64_char (b mod 16 * 4 + c div 64), b64_char (c mod 64)]
       @ urlsafe_b64encode bs"
| "urlsafe_b64encode [a, b] = [b64_char (a div 4), b64_char (a mod 4 * 16 + b div 16), b64_char (b mod 16 * 4), CHR ''='']"
| "urlsafe_b64encode [a] = [b64_char (a div 4), b64_char (a mod 4 * 16), CHR ''='', CHR ''='']"
| "urlsafe_b64encode [] = []"

text \<open>The decoder takes both alphabets, skips any other character, and ends at a complete padding.\<close>

definition b64_value :: "char \<Rightarrow> nat option" where
  "b64_value c = (let n = (of_char c :: nat) in
     if 65 \<le> n \<and> n \<le> 90 then Some (n - 65) else if 97 \<le> n \<and> n \<le> 122 then Some (n - 71)
     else if 48 \<le> n \<and> n \<le> 57 then Some (n + 4)
     else if n = 43 \<or> n = 45 then Some 62 else if n = 47 \<or> n = 95 then Some 63 else None)"

definition emit :: "nat \<Rightarrow> bytes option \<Rightarrow> bytes option" where
  "emit b = map_option (Cons b)"

fun b64_scan :: "nat \<Rightarrow> nat \<Rightarrow> nat \<Rightarrow> string \<Rightarrow> bytes option" where
  "b64_scan quad_pos leftchar pads [] = (if quad_pos = 0 then Some [] else None)"
| "b64_scan quad_pos leftchar pads (c # cs) =
     (if c = CHR ''='' then
        (if 2 \<le> quad_pos \<and> 4 \<le> quad_pos + Suc pads then Some []
         else b64_scan quad_pos leftchar (if 2 \<le> quad_pos then Suc pads else pads) cs)
      else
        (case b64_value c of
           None \<Rightarrow> b64_scan quad_pos leftchar pads cs
         | Some v \<Rightarrow>
             if quad_pos = 0 then b64_scan 1 v 0 cs
             else if quad_pos = 1 then emit (leftchar * 4 + v div 16) (b64_scan 2 (v mod 16) 0 cs)
             else if quad_pos = 2 then emit (leftchar * 16 + v div 4) (b64_scan 3 (v mod 4) 0 cs)
             else emit (leftchar * 64 + v) (b64_scan 0 0 0 cs)))"

definition urlsafe_b64decode :: "string \<Rightarrow> bytes option" where
  "urlsafe_b64decode s = b64_scan 0 0 0 s"

definition str_rstrip_char :: "char \<Rightarrow> string \<Rightarrow> string" where
  "str_rstrip_char c s = rev (dropWhile (\<lambda>x. x = c) (rev s))"

subsection \<open>\<open>json.dumps\<close> of a flat object and \<open>json.loads\<close>\<close>

definition json_ascii_escape :: "char \<Rightarrow> string" where
  "json_ascii_escape c = (let n = (of_char c :: nat) in
     if n < 127 then json_escape c
     else [backslash] @ ''u00'' @ [hex_digit (n div 16), hex_digit (n mod 16)])"

definition json_ascii_quote :: "string \<Rightarrow> string" where
  "json_ascii_quote s = [dquote] @ concat (map json_ascii_escape s) @ [dquote]"

definition json_pair :: "string \<times> string \<Rightarrow> string" where
  "json_pair kv = (case kv of (k, v) \<Rightarrow> json_ascii_quote k @ '':'' @ json_ascii_quote v)"

definition json_object :: "(string \<times> string) list \<Rightarrow> string" where
  "json_object kvs = ''{'' @ join '','' (map json_pair kvs) @ ''}''"

text \<open>The digits at the head of a text, and the number there, with what follows it.\<close>

definition digits :: "string \<Rightarrow> string \<times> string" where
  "digits s = (takeWhile is_digit s, dropWhile is_digit s)"

definition json_fraction :: "string \<Rightarrow> string \<times> string" where
  "json_fraction s = (case s of
     c # t \<Rightarrow> if c = CHR ''.'' \<and> fst (digits t) \<noteq> [] then (c # fst (digits t), snd (digits t)) else ([], s)
   | [] \<Rightarrow> ([], s))"

definition json_exponent :: "string \<Rightarrow> string \<times> string" where
  "json_exponent s = (case s of
     e # t \<Rightarrow>
       if e \<in> {CHR ''e'', CHR ''E''} then
         (let (sign, u) = (case t of x # u \<Rightarrow> if x \<in> {CHR ''+'', CHR ''-''} then ([x], u) else ([], t) | [] \<Rightarrow> ([], t))
          in if fst (digits u) \<noteq> [] then (e # sign @ fst (digits u), snd (digits u)) else ([], s))
       else ([], s)
   | [] \<Rightarrow> ([], s))"

definition json_integer :: "string \<Rightarrow> (string \<times> string) option" where
  "json_integer s =
     (let (ds, r) = digits s in
      if ds = [] then None else if hd ds = CHR ''0'' then Some ([hd ds], tl ds @ r) else Some (ds, r))"

definition json_number :: "('s, 'e) floats_scheme \<Rightarrow> string \<Rightarrow> ('s jval \<times> string) option" where
  "json_number fl s =
     (let (sign, t) = (case s of x # u \<Rightarrow> if x = CHR ''-'' then ([x], u) else ([], s) | [] \<Rightarrow> ([], s)) in
      case json_integer t of
        None \<Rightarrow> None
      | Some (ds, r) \<Rightarrow>
          (let (f, r) = json_fraction r; (e, r) = json_exponent r in
           if f = [] \<and> e = [] then map_option (\<lambda>n. (JNum (fl_int fl n), r)) (parse_int (sign @ ds))
           else map_option (\<lambda>x. (JNum x, r)) (fl_parse fl (sign @ ds @ f @ e))))"

definition json_word :: "('s, 'e) floats_scheme \<Rightarrow> string \<Rightarrow> ('s jval \<times> string) option" where
  "json_word fl s =
     (if starts_with ''null'' s then Some (JNull, drop 4 s)
      else if starts_with ''true'' s then Some (JBool True, drop 4 s)
      else if starts_with ''false'' s then Some (JBool False, drop 5 s)
      else if starts_with ''NaN'' s then map_option (\<lambda>x. (JNum x, drop 3 s)) (fl_parse fl ''nan'')
      else if starts_with ''Infinity'' s then map_option (\<lambda>x. (JNum x, drop 8 s)) (fl_parse fl ''inf'')
      else if starts_with ''-Infinity'' s then map_option (\<lambda>x. (JNum x, drop 9 s)) (fl_parse fl ''-inf'')
      else json_number fl s)"

text \<open>
  A value, the elements of an array and the members of an object; \<open>d\<close> holds the members read so far. The
  number bounds the recursion; twice the length of the text is enough (\<open>json_fuel\<close>).
\<close>

fun json_value :: "('s, 'e) floats_scheme \<Rightarrow> nat \<Rightarrow> string \<Rightarrow> ('s jval \<times> string) option"
  and json_elements :: "('s, 'e) floats_scheme \<Rightarrow> nat \<Rightarrow> string \<Rightarrow> ('s jval list \<times> string) option"
  and json_members :: "('s, 'e) floats_scheme \<Rightarrow> nat \<Rightarrow> 's jdict \<Rightarrow> string \<Rightarrow> ('s jdict \<times> string) option" where
  "json_value fl 0 s = None"
| "json_value fl (Suc n) s =
     (case s of
        [] \<Rightarrow> None
      | c # t \<Rightarrow>
          if c = dquote then map_option (\<lambda>(w, r). (JStr w, r)) (json_string t)
          else if c = CHR ''['' then
            (case skip_ws t of
               x # r \<Rightarrow> if x = CHR '']'' then Some (JList [], r) else map_option (\<lambda>(vs, r). (JList vs, r)) (json_elements fl n (x # r))
             | [] \<Rightarrow> None)
          else if c = CHR ''{'' then
            (case skip_ws t of
               x # r \<Rightarrow> if x = CHR ''}'' then Some (JDict [], r) else map_option (\<lambda>(d, r). (JDict d, r)) (json_members fl n [] (x # r))
             | [] \<Rightarrow> None)
          else json_word fl s)"
| "json_elements fl 0 s = None"
| "json_elements fl (Suc n) s =
     (case json_value fl n s of
        None \<Rightarrow> None
      | Some (v, r) \<Rightarrow>
          (case skip_ws r of
             [] \<Rightarrow> None
           | x # t \<Rightarrow> if x = CHR '']'' then Some ([v], t)
                      else if x = CHR '','' then map_option (\<lambda>(vs, r). (v # vs, r)) (json_elements fl n (skip_ws t))
                      else None))"
| "json_members fl 0 d s = None"
| "json_members fl (Suc n) d s =
     (case s of
        [] \<Rightarrow> None
      | q # t \<Rightarrow>
          if q \<noteq> dquote then None
          else (case json_string t of
             None \<Rightarrow> None
           | Some (k, r) \<Rightarrow>
               (case skip_ws r of
                  [] \<Rightarrow> None
                | x # t \<Rightarrow>
                    if x \<noteq> CHR '':'' then None
                    else (case json_value fl n (skip_ws t) of
                       None \<Rightarrow> None
                     | Some (v, r) \<Rightarrow>
                         (case skip_ws r of
                            [] \<Rightarrow> None
                          | y # t \<Rightarrow> if y = CHR ''}'' then Some (AList.update k v d, t)
                                     else if y = CHR '','' then json_members fl n (AList.update k v d) (skip_ws t)
                                     else None)))))"

definition json_loads :: "('s, 'e) floats_scheme \<Rightarrow> string \<Rightarrow> 's jval option" where
  "json_loads fl s =
     (case json_value fl (2 * length s) (skip_ws s) of
        Some (v, r) \<Rightarrow> if skip_ws r = [] then Some v else None
      | None \<Rightarrow> None)"

subsection \<open>The state parameter\<close>

definition STATE_TTL_SECONDS :: int where "STATE_TTL_SECONDS = 600"

text \<open>
  The nonces in Redis, each with the time at which it expires. \<open>lr_client\<close> says whether there is a client at
  all, \<open>lr_answers\<close> whether its calls succeed.
\<close>

record link_redis =
  lr_client :: bool
  lr_answers :: bool
  lr_nonces :: "(string, string \<times> instant) dict"

definition nonce_key :: "string \<Rightarrow> string" where
  "nonce_key nonce = ''google_oauth_state:'' @ nonce"

definition link_payload :: "string \<Rightarrow> string \<Rightarrow> string \<Rightarrow> string \<Rightarrow> (string \<times> string) list" where
  "link_payload tenant_id user_id nonce connection_scope =
     [(''tenant_id'', tenant_id), (''user_id'', user_id), (''nonce'', nonce), (''connection_scope'', connection_scope)]"

definition state_text :: "(string \<times> string) list \<Rightarrow> string" where
  "state_text payload = str_rstrip_char CHR ''='' (urlsafe_b64encode (map of_char (json_object payload)))"

definition encode_oauth_state ::
    "string \<Rightarrow> instant \<Rightarrow> string \<Rightarrow> string \<Rightarrow> string \<Rightarrow> link_redis \<Rightarrow> string \<times> link_redis" where
  "encode_oauth_state nonce now tenant_id user_id connection_scope rd =
     (let payload = link_payload tenant_id user_id nonce connection_scope in
      (state_text payload,
       if lr_client rd \<and> lr_answers rd
       then rd\<lparr>lr_nonces := AList.update (nonce_key nonce) (json_object payload, now + STATE_TTL_SECONDS) (lr_nonces rd)\<rparr>
       else rd))"

definition padded :: "string \<Rightarrow> string" where
  "padded s = s @ replicate ((4 - length s mod 4) mod 4) (CHR ''='')"

definition read_state :: "('s, 'e) floats_scheme \<Rightarrow> string \<Rightarrow> 's jval option" where
  "read_state fl state =
     (if list_all (\<lambda>c. (of_char c :: nat) < 128) state
      then Option.bind (urlsafe_b64decode (padded state)) (\<lambda>b. Option.bind (bytes_string b) (json_loads fl))
      else None)"

definition nonce_known :: "string \<Rightarrow> instant \<Rightarrow> link_redis \<Rightarrow> bool" where
  "nonce_known key now rd = (case map_of (lr_nonces rd) key of
     None \<Rightarrow> False | Some (v, expires) \<Rightarrow> v \<noteq> [] \<and> now < expires)"

text \<open>\<open>Inr None\<close> is a refused state; a JSON text that is no object raises.\<close>

definition decode_oauth_state ::
    "('s::zero, 'e) floats_scheme \<Rightarrow> instant \<Rightarrow> string \<Rightarrow> link_redis \<Rightarrow> 's jdict option res \<times> link_redis" where
  "decode_oauth_state fl now state rd =
     (if state = [] then (Inr None, rd)
      else case read_state fl state of
        None \<Rightarrow> (Inr None, rd)
      | Some (JDict payload) \<Rightarrow>
          (if \<not> jtruthy (jget payload ''tenant_id'') \<or> \<not> jtruthy (jget payload ''user_id'') \<or> \<not> jtruthy (jget payload ''nonce'')
           then (Inr None, rd)
           else if \<not> lr_client rd \<or> \<not> lr_answers rd then (Inr (Some payload), rd)
           else let key = nonce_key (j_str (fl_repr fl) (jget payload ''nonce'')) in
                if \<not> nonce_known key now rd then (Inr None, rd)
                else (Inr (Some payload), rd\<lparr>lr_nonces := AList.delete key (lr_nonces rd)\<rparr>))
      | Some _ \<Rightarrow> (Inl (Raised ''AttributeError''), rd))"

subsection \<open>Reading back what was written\<close>

lemma b64_value_char: "n < 64 \<Longrightarrow> b64_value (b64_char n) = Some n"
  by (auto simp: b64_value_def b64_char_def Let_def)

lemma b64_char_not_pad: "n < 64 \<Longrightarrow> b64_char n \<noteq> CHR ''=''"
proof
  assume "n < 64" "b64_char n = CHR ''=''"
  with b64_value_char [of n] have "b64_value CHR ''='' = Some n" by simp
  then show False by (simp add: b64_value_def)
qed

lemma b64_scan_char:
  assumes "n < 64"
  shows "b64_scan q l p (b64_char n # cs) =
    (if q = 0 then b64_scan 1 n 0 cs else if q = 1 then emit (l * 4 + n div 16) (b64_scan 2 (n mod 16) 0 cs)
     else if q = 2 then emit (l * 16 + n div 4) (b64_scan 3 (n mod 4) 0 cs) else emit (l * 64 + n) (b64_scan 0 0 0 cs))"
  using assms by (simp add: b64_value_char b64_char_not_pad)

text \<open>The encoding without its padding.\<close>

fun b64_body :: "bytes \<Rightarrow> string" where
  "b64_body (a # b # c # bs) =
     [b64_char (a div 4), b64_char (a mod 4 * 16 + b div 16), b64_char (b mod 16 * 4 + c div 64), b64_char (c mod 64)] @ b64_body bs"
| "b64_body [a, b] = [b64_char (a div 4), b64_char (a mod 4 * 16 + b div 16), b64_char (b mod 16 * 4)]"
| "b64_body [a] = [b64_char (a div 4), b64_char (a mod 4 * 16)]"
| "b64_body [] = []"

lemma halves: "y < k \<Longrightarrow> (x * k + y) div k = x" "y < k \<Longrightarrow> (x * k + y) mod k = (y::nat)"
  by simp_all

lemma sextets:
  assumes "(a::nat) < 256" "b < 256" "c < 256"
  shows "a div 4 < 64" "a mod 4 * 16 + b div 16 < 64" "b mod 16 * 4 + c div 64 < 64" "c mod 64 < 64"
proof -
  have "a mod 4 < 4" "b div 16 < 16" "b mod 16 < 16" "c div 64 < 4" using assms by (simp_all add: less_mult_imp_div_less)
  then show "a div 4 < 64" "a mod 4 * 16 + b div 16 < 64" "b mod 16 * 4 + c div 64 < 64" "c mod 64 < 64"
    using assms by (simp_all add: less_mult_imp_div_less)
qed

lemma sextets_div:
  assumes "(a::nat) < 256" "b < 256" "c < 256"
  shows "a div 4 * 4 + (a mod 4 * 16 + b div 16) div 16 = a"
    "(a mod 4 * 16 + b div 16) mod 16 * 16 + (b mod 16 * 4 + c div 64) div 4 = b"
    "(b mod 16 * 4 + c div 64) mod 4 * 64 + c mod 64 = c"
proof -
  have h: "b div 16 < 16" "c div 64 < 4" using assms by (simp_all add: less_mult_imp_div_less)
  show "a div 4 * 4 + (a mod 4 * 16 + b div 16) div 16 = a"
    "(a mod 4 * 16 + b div 16) mod 16 * 16 + (b mod 16 * 4 + c div 64) div 4 = b"
    "(b mod 16 * 4 + c div 64) mod 4 * 64 + c mod 64 = c"
    unfolding halves(1) [OF h(1)] halves(2) [OF h(1)] halves(1) [OF h(2)] halves(2) [OF h(2)] by simp_all
qed

lemma b64_quad:
  assumes "w < 64" "x < 64" "y < 64" "z < 64"
  shows "b64_scan 0 0 0 (b64_char w # b64_char x # b64_char y # b64_char z # cs) =
    emit (w * 4 + x div 16) (emit (x mod 16 * 16 + y div 4) (emit (y mod 4 * 64 + z) (b64_scan 0 0 0 cs)))"
  using assms by (simp add: b64_scan_char del: b64_scan.simps)

lemma b64_triple:
  assumes "w < 64" "x < 64" "y < 64"
  shows "b64_scan 0 0 0 [b64_char w, b64_char x, b64_char y, CHR ''=''] =
    emit (w * 4 + x div 16) (emit (x mod 16 * 16 + y div 4) (Some []))"
  using assms by (simp add: b64_scan_char b64_scan.simps(2) [of 3 _ _ "CHR ''=''"] del: b64_scan.simps)

lemma b64_pair:
  assumes "w < 64" "x < 64"
  shows "b64_scan 0 0 0 [b64_char w, b64_char x, CHR ''='', CHR ''=''] = emit (w * 4 + x div 16) (Some [])"
  using assms by (simp add: b64_scan_char b64_scan.simps(2) [of 2 _ _ "CHR ''=''"] del: b64_scan.simps)

definition pad_count :: "nat \<Rightarrow> nat" where
  "pad_count n = (4 - n mod 4) mod 4"

lemma pad_count_step: "pad_count (Suc (Suc (Suc (Suc n)))) = pad_count n"
proof -
  have n: "Suc (Suc (Suc (Suc n))) = n + 4" by simp
  show ?thesis unfolding pad_count_def n mod_add_self2 ..
qed

lemma pad_count_small: "pad_count 0 = 0" "pad_count (Suc (Suc 0)) = Suc (Suc 0)" "pad_count (Suc (Suc (Suc 0))) = Suc 0"
  by code_simp+

lemma urlsafe_b64encode_body:
  "urlsafe_b64encode bs = b64_body bs @ replicate (pad_count (length (b64_body bs))) (CHR ''='')"
  by (induction bs rule: b64_body.induct) (simp_all add: pad_count_step pad_count_small)

lemma b64_body_no_pad: "\<forall>b \<in> set bs. b < 256 \<Longrightarrow> CHR ''='' \<notin> set (b64_body bs)"
proof (induction bs rule: b64_body.induct)
  case (1 a b c bs)
  then have v: "a < 256" "b < 256" "c < 256" by simp_all
  show ?case using 1 sextets [OF v, THEN b64_char_not_pad, THEN not_sym] by simp
next
  case (2 a b)
  then have v: "a < 256" "b < 256" "0 < (256::nat)" by simp_all
  show ?case using sextets [OF v, THEN b64_char_not_pad, THEN not_sym] by simp
next
  case (3 a)
  then have v: "a < 256" "0 < (256::nat)" "0 < (256::nat)" by simp_all
  show ?case using sextets [OF v, THEN b64_char_not_pad, THEN not_sym] by simp
qed simp

lemma b64_scan_encode: "\<forall>b \<in> set bs. b < 256 \<Longrightarrow> b64_scan 0 0 0 (urlsafe_b64encode bs) = Some bs"
proof (induction bs rule: urlsafe_b64encode.induct)
  case (1 a b c bs)
  then have v: "a < 256" "b < 256" "c < 256" by simp_all
  have "b64_scan 0 0 0 (urlsafe_b64encode (a # b # c # bs)) =
      emit a (emit b (emit c (b64_scan 0 0 0 (urlsafe_b64encode bs))))"
    unfolding urlsafe_b64encode.simps append_Cons append_Nil b64_quad [OF sextets [OF v]] sextets_div [OF v] ..
  with 1 show ?case by (simp add: emit_def)
next
  case (2 a b)
  then have v: "a < 256" "b < 256" "0 < (256::nat)" by simp_all
  have "b64_scan 0 0 0 (urlsafe_b64encode [a, b]) = emit a (emit b (Some []))"
    using b64_triple [OF sextets(1-3) [OF v]] sextets_div(1,2) [OF v] by simp
  then show ?case by (simp add: emit_def)
next
  case (3 a)
  then have v: "a < 256" "0 < (256::nat)" "0 < (256::nat)" by simp_all
  have "b64_scan 0 0 0 (urlsafe_b64encode [a]) = emit a (Some [])"
    using b64_pair [OF sextets(1,2) [OF v]] sextets_div(1) [OF v] by simp
  then show ?case by (simp add: emit_def)
qed simp

lemma dropWhile_replicate: "dropWhile (\<lambda>y. y = x) (replicate k x @ s) = dropWhile (\<lambda>y. y = x) s"
  by (induction k) simp_all

lemma dropWhile_absent: "x \<notin> set s \<Longrightarrow> dropWhile (\<lambda>y. y = x) s = s"
  by (cases s) auto

lemma rstrip_pads: "x \<notin> set s \<Longrightarrow> str_rstrip_char x (s @ replicate k x) = s"
  by (simp add: str_rstrip_char_def dropWhile_replicate dropWhile_absent)

text \<open>Base64 without padding, padded again, decodes to the bytes it was made of.\<close>

lemma b64_round_trip:
  assumes "\<forall>b \<in> set bs. b < 256"
  shows "urlsafe_b64decode (padded (str_rstrip_char CHR ''='' (urlsafe_b64encode bs))) = Some bs"
proof -
  have "padded (str_rstrip_char CHR ''='' (urlsafe_b64encode bs)) = urlsafe_b64encode bs"
    unfolding urlsafe_b64encode_body rstrip_pads [OF b64_body_no_pad [OF assms]] padded_def pad_count_def ..
  then show ?thesis using b64_scan_encode [OF assms] by (simp add: urlsafe_b64decode_def)
qed

subsection \<open>Enough fuel\<close>

lemma digits_length: "length (fst (digits s)) + length (snd (digits s)) = length s"
  by (simp add: digits_def length_append [symmetric])

lemma json_fraction_length: "json_fraction s = (f, r) \<Longrightarrow> length r \<le> length s"
  using digits_length [of "tl s"] by (auto simp: json_fraction_def split: list.splits if_splits)

lemma json_exponent_length: "json_exponent s = (e, r) \<Longrightarrow> length r \<le> length s"
  using digits_length [of "tl s"] digits_length [of "tl (tl s)"]
  by (auto simp: json_exponent_def split: list.splits if_splits prod.splits)

lemma json_integer_length: "json_integer s = Some (ds, r) \<Longrightarrow> length r < length s"
  using digits_length [of s] by (cases "fst (digits s)") (auto simp: json_integer_def split: prod.splits if_splits)

lemma json_number_length: "json_number fl s = Some (v, r) \<Longrightarrow> length r < length s"
  by (cases s) (auto simp: json_number_def Let_def split: if_splits option.splits prod.splits
      dest!: json_integer_length json_fraction_length json_exponent_length)

lemma starts_with_length: "starts_with p s \<Longrightarrow> length p \<le> length s"
  by (auto simp: starts_with_def dest: arg_cong [where f = length])

lemma json_word_length: "json_word fl s = Some (v, r) \<Longrightarrow> length r < length s"
  by (auto simp: json_word_def split: if_splits dest!: starts_with_length json_number_length)

lemma skip_ws_shorter: "skip_ws s = x # r \<Longrightarrow> length r < length s"
  using skip_ws_length [of s] by simp

lemma json_value_Suc_length:
  assumes e: "\<And>s vs r. json_elements fl n s = Some (vs, r) \<Longrightarrow> length r < length s"
    and m: "\<And>d s d' r. json_members fl n d s = Some (d', r) \<Longrightarrow> length r < length s"
    and v: "json_value fl (Suc n) s = Some (v, r)"
  shows "length r < length s"
proof (cases s)
  case (Cons c t)
  consider "c = dquote" | "c \<noteq> dquote" "c = CHR ''[''" | "c \<noteq> dquote" "c = CHR ''{''" | "c \<noteq> dquote" "c \<noteq> CHR ''[''" "c \<noteq> CHR ''{''"
    by blast
  then show ?thesis
  proof cases
    case 1
    with v Cons show ?thesis by (auto dest!: json_string_length)
  next
    case 2
    with v Cons obtain x u where x: "skip_ws t = x # u" by (auto split: list.splits)
    with 2 v Cons skip_ws_shorter [OF x] show ?thesis by (auto split: if_splits dest!: e)
  next
    case 3
    with v Cons obtain x u where x: "skip_ws t = x # u" by (auto split: list.splits)
    with 3 v Cons skip_ws_shorter [OF x] show ?thesis by (auto split: if_splits dest!: m)
  next
    case 4
    with v Cons show ?thesis by (auto dest!: json_word_length)
  qed
qed (use v in simp)

lemma json_elements_Suc_length:
  assumes IH: "\<And>s v r. json_value fl n s = Some (v, r) \<Longrightarrow> length r < length s"
    and e: "\<And>s vs r. json_elements fl n s = Some (vs, r) \<Longrightarrow> length r < length s"
    and v: "json_elements fl (Suc n) s = Some (vs, r)"
  shows "length r < length s"
proof -
  from v obtain w q where w: "json_value fl n s = Some (w, q)" by (auto split: option.splits)
  with v obtain x t where x: "skip_ws q = x # t" by (auto split: list.splits)
  from v w x have "r = t \<or> (\<exists>us. json_elements fl n (skip_ws t) = Some (us, r))" by (auto split: if_splits)
  then show ?thesis using IH [OF w] skip_ws_shorter [OF x] skip_ws_length [of t] by (auto dest!: e)
qed

lemma json_members_Suc_length:
  assumes IH: "\<And>s v r. json_value fl n s = Some (v, r) \<Longrightarrow> length r < length s"
    and m: "\<And>d s d' r. json_members fl n d s = Some (d', r) \<Longrightarrow> length r < length s"
    and v: "json_members fl (Suc n) d s = Some (d', r)"
  shows "length r < length s"
proof -
  from v obtain t where s: "s = dquote # t" by (auto split: list.splits if_splits)
  with v obtain k q where k: "json_string t = Some (k, q)" by (auto split: option.splits)
  with v s obtain t1 where x: "skip_ws q = CHR '':'' # t1" by (auto split: list.splits if_splits)
  with v s k obtain w q1 where w: "json_value fl n (skip_ws t1) = Some (w, q1)" by (auto split: option.splits)
  with v s k x obtain y t2 where y: "skip_ws q1 = y # t2" by (auto split: list.splits)
  from v s k x w y have "r = t2 \<or> json_members fl n (AList.update k w d) (skip_ws t2) = Some (d', r)" by (auto split: if_splits)
  then show ?thesis
    using json_string_length [OF k] skip_ws_shorter [OF x] IH [OF w] skip_ws_length [of t1] skip_ws_shorter [OF y]
      skip_ws_length [of t2] s by (auto dest!: m)
qed

lemma json_lengths:
  "(\<forall>s v r. json_value fl n s = Some (v, r) \<longrightarrow> length r < length s) \<and>
   (\<forall>s vs r. json_elements fl n s = Some (vs, r) \<longrightarrow> length r < length s) \<and>
   (\<forall>d s d' r. json_members fl n d s = Some (d', r) \<longrightarrow> length r < length s)"
proof (induction n)
  case (Suc n)
  then have v: "\<And>s v r. json_value fl n s = Some (v, r) \<Longrightarrow> length r < length s"
    and e: "\<And>s vs r. json_elements fl n s = Some (vs, r) \<Longrightarrow> length r < length s"
    and m: "\<And>d s d' r. json_members fl n d s = Some (d', r) \<Longrightarrow> length r < length s" by blast+
  show ?case
  proof (intro conjI allI impI)
    show "length r < length s" if "json_value fl (Suc n) s = Some (w, r)" for s w r
      using e m that by (rule json_value_Suc_length)
    show "length r < length s" if "json_elements fl (Suc n) s = Some (vs, r)" for s vs r
      using v e that by (rule json_elements_Suc_length)
    show "length r < length s" if "json_members fl (Suc n) d s = Some (d', r)" for d s d' r
      using v m that by (rule json_members_Suc_length)
  qed
qed simp

lemma json_value_length: "json_value fl n s = Some (v, r) \<Longrightarrow> length r < length s"
  using json_lengths by blast

lemma json_elements_fuel:
  assumes v: "\<And>s. 2 * length s \<le> n \<Longrightarrow> 2 * length s \<le> m \<Longrightarrow> json_value fl n s = json_value fl m s"
    and e: "\<And>s. 2 * length s < n \<Longrightarrow> 2 * length s < m \<Longrightarrow> json_elements fl n s = json_elements fl m s"
    and s: "2 * length s < Suc n" "2 * length s < Suc m"
  shows "json_elements fl (Suc n) s = json_elements fl (Suc m) s"
proof -
  have head: "json_value fl n s = json_value fl m s" by (rule v) (use s in simp_all)
  have tail: "json_elements fl n (skip_ws t) = json_elements fl m (skip_ws t)"
    if "json_value fl m s = Some (w, r)" "skip_ws r = x # t" for w r x t
    by (rule e) (use s json_value_length [OF that(1)] skip_ws_shorter [OF that(2)] skip_ws_length [of t] in linarith)+
  show ?thesis by (simp add: head tail split: option.split list.split)
qed

lemma json_members_fuel:
  assumes v: "\<And>s. 2 * length s \<le> n \<Longrightarrow> 2 * length s \<le> m \<Longrightarrow> json_value fl n s = json_value fl m s"
    and e: "\<And>d s. 2 * length s < n \<Longrightarrow> 2 * length s < m \<Longrightarrow> json_members fl n d s = json_members fl m d s"
    and s: "2 * length s < Suc n" "2 * length s < Suc m"
  shows "json_members fl (Suc n) d s = json_members fl (Suc m) d s"
proof -
  have head: "json_value fl n (skip_ws t') = json_value fl m (skip_ws t')"
    if "s = q # t" "json_string t = Some (k, r)" "skip_ws r = x # t'" for q t k r x t'
    by (rule v) (use s that(1) json_string_length [OF that(2)] skip_ws_shorter [OF that(3)] skip_ws_length [of t'] in simp_all)
  have tail: "json_members fl n d' (skip_ws t2) = json_members fl m d' (skip_ws t2)"
    if "s = q # t" "json_string t = Some (k, r)" "skip_ws r = x # t'" "json_value fl m (skip_ws t') = Some (w, r')" "skip_ws r' = y # t2"
    for q t k r x t' w r' y t2 d'
    by (rule e) (use s that(1) json_string_length [OF that(2)] skip_ws_shorter [OF that(3)] skip_ws_length [of t']
        json_value_length [OF that(4)] skip_ws_shorter [OF that(5)] skip_ws_length [of t2] in simp_all)
  show ?thesis by (simp add: head tail split: option.split list.split)
qed

lemma json_value_fuel:
  assumes e: "\<And>s. 2 * length s < n \<Longrightarrow> 2 * length s < m \<Longrightarrow> json_elements fl n s = json_elements fl m s"
    and d: "\<And>d s. 2 * length s < n \<Longrightarrow> 2 * length s < m \<Longrightarrow> json_members fl n d s = json_members fl m d s"
    and s: "2 * length s \<le> Suc n" "2 * length s \<le> Suc m"
  shows "json_value fl (Suc n) s = json_value fl (Suc m) s"
proof -
  have el: "json_elements fl n (x # u) = json_elements fl m (x # u)" if "s = c # t" "skip_ws t = x # u" for c t x u
    by (rule e) (use s that(1) skip_ws_length [of t] that(2) in simp_all)
  have me: "json_members fl n [] (x # u) = json_members fl m [] (x # u)" if "s = c # t" "skip_ws t = x # u" for c t x u
    by (rule d) (use s that(1) skip_ws_length [of t] that(2) in simp_all)
  show ?thesis by (simp add: el me split: list.split)
qed

text \<open>More fuel than twice the length of the text changes nothing.\<close>

lemma json_fuel:
  "(\<forall>s. 2 * length s \<le> n \<longrightarrow> 2 * length s \<le> m \<longrightarrow> json_value fl n s = json_value fl m s) \<and>
   (\<forall>s. 2 * length s < n \<longrightarrow> 2 * length s < m \<longrightarrow> json_elements fl n s = json_elements fl m s) \<and>
   (\<forall>d s. 2 * length s < n \<longrightarrow> 2 * length s < m \<longrightarrow> json_members fl n d s = json_members fl m d s)"
proof (induction n arbitrary: m)
  case 0
  have "json_value fl 0 [] = json_value fl m []" by (cases m) simp_all
  then show ?case by simp
next
  case (Suc n)
  show ?case
  proof (cases m)
    case 0
    have "json_value fl (Suc n) [] = json_value fl 0 []" by simp
    with 0 show ?thesis by simp
  next
    case (Suc k)
    have v: "\<And>s. 2 * length s \<le> n \<Longrightarrow> 2 * length s \<le> k \<Longrightarrow> json_value fl n s = json_value fl k s"
      and e: "\<And>s. 2 * length s < n \<Longrightarrow> 2 * length s < k \<Longrightarrow> json_elements fl n s = json_elements fl k s"
      and d: "\<And>d s. 2 * length s < n \<Longrightarrow> 2 * length s < k \<Longrightarrow> json_members fl n d s = json_members fl k d s"
      using Suc.IH [of k] by blast+
    show ?thesis unfolding Suc
    proof (intro conjI allI impI)
      show "json_value fl (Suc n) s = json_value fl (Suc k) s" if "2 * length s \<le> Suc n" "2 * length s \<le> Suc k" for s
        using e d that by (rule json_value_fuel)
      show "json_elements fl (Suc n) s = json_elements fl (Suc k) s" if "2 * length s < Suc n" "2 * length s < Suc k" for s
        using v e that by (rule json_elements_fuel)
      show "json_members fl (Suc n) d s = json_members fl (Suc k) d s" if "2 * length s < Suc n" "2 * length s < Suc k" for d s
        using v d that by (rule json_members_fuel)
    qed
  qed
qed

lemma json_value_enough: "2 * length s \<le> n \<Longrightarrow> json_value fl n s = json_value fl (2 * length s) s"
  using json_fuel [where fl = fl and n = n and m = "2 * length s"] by simp

subsection \<open>The object is read back\<close>

lemma json_u_escape:
  "json_string (backslash # CHR ''u'' # CHR ''0'' # CHR ''0'' # hex_digit (of_char c div 16) # hex_digit (of_char c mod 16) # t) =
     put_char (Some c) (json_string t)"
proof -
  have n: "(of_char c :: nat) div 16 < 16" "(of_char c :: nat) mod 16 < 16"
    using nat_of_char_less_256 [of c] by (simp_all add: less_mult_imp_div_less)
  have "json_u CHR ''0'' CHR ''0'' (hex_digit (of_char c div 16)) (hex_digit (of_char c mod 16)) = Some c"
    using hex_value_digit [OF n(1)] hex_value_digit [OF n(2)]
    by (simp add: json_u_def hex_value_def [of "CHR ''0''"] chr_lower_def)
  then show ?thesis by (simp add: dquote_def backslash_def)
qed

lemma json_string_ascii_escape: "json_string (json_ascii_escape c @ t) = put_char (Some c) (json_string t)"
  using json_string_escape [of c t] json_u_escape [of c t] by (simp add: json_ascii_escape_def Let_def)

lemma json_string_ascii_quote: "json_string (concat (map json_ascii_escape s) @ dquote # r) = Some (s, r)"
proof (induction s)
  case (Cons c s)
  then show ?case by (simp add: json_string_ascii_escape put_char_def)
qed simp

lemma json_pair_eq: "json_pair (k, v) @ r =
   dquote # concat (map json_ascii_escape k) @ dquote # CHR '':'' # dquote # concat (map json_ascii_escape v) @ dquote # r"
  by (simp add: json_pair_def json_ascii_quote_def)

lemma json_members_pair:
  assumes "n \<noteq> 0" "y \<in> {CHR '','', CHR ''}''}"
  shows "json_members fl (Suc n) d (json_pair (k, v) @ y # r) =
    (if y = CHR ''}'' then Some (AList.update k (JStr v) d, r) else json_members fl n (AList.update k (JStr v) d) (skip_ws r))"
proof -
  have sp: "\<not> json_space dquote" "\<not> json_space (CHR '':'')" "\<not> json_space (CHR '','')" "\<not> json_space (CHR ''}'')"
    by (simp_all add: json_space_def dquote_def)
  obtain m where n: "n = Suc m" using assms(1) by (cases n) auto
  show ?thesis
    unfolding json_pair_eq n using assms(2) by (auto simp: json_string_ascii_quote sp)
qed

lemma json_members_pairs:
  "length kvs < n \<Longrightarrow>
   json_members fl (Suc n) d (join '','' (map json_pair (kv # kvs)) @ CHR ''}'' # r) =
     Some (foldl (\<lambda>d (k, v). AList.update k (JStr v) d) d (kv # kvs), r)"
proof (induction kvs arbitrary: kv d n)
  case Nil
  obtain k v where kv: "kv = (k, v)" by fastforce
  show ?case using json_members_pair [of n "CHR ''}''" fl d k v r] Nil by (simp add: kv del: json_members.simps)
next
  case (Cons kv' kvs)
  obtain k v where kv: "kv = (k, v)" by fastforce
  obtain m where n: "n = Suc m" using Cons.prems by (cases n) auto
  have ws: "skip_ws (join '','' (map json_pair (kv' # kvs)) @ CHR ''}'' # r) = join '','' (map json_pair (kv' # kvs)) @ CHR ''}'' # r"
    by (cases kv'; cases kvs) (simp_all add: json_pair_def json_ascii_quote_def json_space_def dquote_def)
  have "json_members fl (Suc n) d (join '','' (map json_pair (kv # kv' # kvs)) @ CHR ''}'' # r) =
      json_members fl n (AList.update k (JStr v) d) (join '','' (map json_pair (kv' # kvs)) @ CHR ''}'' # r)"
    using json_members_pair [of n "CHR '',''" fl d k v "join '','' (map json_pair (kv' # kvs)) @ CHR ''}'' # r"] ws
    by (simp add: kv n del: json_members.simps)
  then show ?case using Cons.IH [of m "AList.update k (JStr v) d" kv'] Cons.prems by (simp add: kv n del: json_members.simps)
qed

lemma join_pairs_length: "length kvs \<le> length (join '','' (map json_pair kvs))"
proof (induction kvs)
  case (Cons kv kvs)
  then show ?case by (cases kv; cases kvs) (simp_all add: json_pair_def json_ascii_quote_def)
qed simp

lemma json_loads_object:
  assumes "kvs \<noteq> []"
  shows "json_loads fl (json_object kvs) = Some (JDict (foldl (\<lambda>d (k, v). AList.update k (JStr v) d) [] kvs))"
proof -
  obtain k v kvs' where kvs: "kvs = (k, v) # kvs'" using assms by (cases kvs) auto
  let ?b = "join '','' (map json_pair kvs) @ ''}''"
  obtain t where t: "?b = dquote # t"
    by (cases kvs') (simp_all add: kvs json_pair_def json_ascii_quote_def)
  have sp: "\<not> json_space (CHR ''{'')" "\<not> json_space dquote" and ne: "dquote \<noteq> CHR ''}''" "CHR ''{'' \<noteq> dquote"
    by (simp_all add: json_space_def dquote_def)
  have ws: "skip_ws ?b = ?b" by (simp add: t sp)
  define n where "n = 2 * length ?b - 1"
  have fuel: "2 * length (json_object kvs) = Suc (Suc (Suc n))" by (simp add: json_object_def n_def)
  have n: "length kvs' < Suc n"
    using join_pairs_length [of kvs] by (simp add: n_def kvs)
  have "json_members fl (Suc (Suc n)) [] (join '','' (map json_pair kvs) @ CHR ''}'' # []) =
      Some (foldl (\<lambda>d (k, v). AList.update k (JStr v) d) [] kvs, [])"
    unfolding kvs by (rule json_members_pairs [OF n])
  then have "json_value fl (Suc (Suc (Suc n))) (CHR ''{'' # ?b) =
      Some (JDict (foldl (\<lambda>d (k, v). AList.update k (JStr v) d) [] kvs), [])"
    using ws t ne by (simp del: json_members.simps)
  moreover have obj: "skip_ws (json_object kvs) = CHR ''{'' # ?b" by (simp add: json_object_def sp)
  ultimately show ?thesis
    unfolding json_loads_def fuel obj by (simp add: skip_ws_def del: json_value.simps)
qed

definition ascii :: "string \<Rightarrow> bool" where
  "ascii s = list_all (\<lambda>c. (of_char c :: nat) < 128) s"

lemma ascii_simps [simp]: "ascii []" "ascii (c # s) \<longleftrightarrow> (of_char c :: nat) < 128 \<and> ascii s" "ascii (s @ t) \<longleftrightarrow> ascii s \<and> ascii t"
  by (simp_all add: ascii_def)

lemma ascii_concat: "(\<And>s. s \<in> set ss \<Longrightarrow> ascii s) \<Longrightarrow> ascii (concat ss)"
  by (induction ss) simp_all

lemma ascii_hex_digit: "d < 16 \<Longrightarrow> (of_char (hex_digit d) :: nat) < 128"
  by (auto simp: hex_digit_def)

lemma ascii_escape: "ascii (json_ascii_escape c)"
proof -
  have n: "(of_char c :: nat) div 16 < 16" "(of_char c :: nat) mod 16 < 16"
    using nat_of_char_less_256 [of c] by (simp_all add: less_mult_imp_div_less)
  show ?thesis
    using ascii_hex_digit [OF n(1)] ascii_hex_digit [OF n(2)]
    by (auto simp: json_ascii_escape_def json_escape_def Let_def backslash_def)
qed

lemma ascii_object: "ascii (json_object kvs)"
proof -
  have q: "ascii (json_ascii_quote s)" for s
    using ascii_concat [of "map json_ascii_escape s"] ascii_escape by (auto simp: json_ascii_quote_def dquote_def)
  have "ascii (join '','' (map json_pair kvs))"
  proof (induction kvs)
    case (Cons kv kvs)
    then show ?case by (cases kv; cases kvs) (auto simp: json_pair_def q)
  qed simp
  then show ?thesis by (simp add: json_object_def)
qed

lemma bytes_string_ascii: "ascii s \<Longrightarrow> bytes_string (map of_char s) = Some s"
proof -
  assume a: "ascii s"
  then have "utf8_decode (map of_char s) = map of_char s" by (induction s) simp_all
  with a show ?thesis by (auto simp: bytes_string_def Let_def ascii_def list_all_iff comp_def)
qed

lemma b64_body_chars: "\<forall>b \<in> set bs. b < 256 \<Longrightarrow> set (b64_body bs) \<subseteq> b64_char ` {..<64}"
proof (induction bs rule: b64_body.induct)
  case (1 a b c bs)
  then have v: "a < 256" "b < 256" "c < 256" by simp_all
  show ?case using 1 sextets [OF v] by simp
next
  case (2 a b)
  then have v: "a < 256" "b < 256" "0 < (256::nat)" by simp_all
  show ?case using sextets [OF v] by simp
next
  case (3 a)
  then have v: "a < 256" "0 < (256::nat)" "0 < (256::nat)" by simp_all
  show ?case using sextets [OF v] by simp
qed simp

lemma ascii_state_text: "list_all (\<lambda>c. (of_char c :: nat) < 128) (state_text payload)"
proof -
  let ?bs = "map of_char (json_object payload) :: nat list"
  have b: "\<forall>b \<in> set ?bs. b < 256" by simp
  have "(of_char (b64_char n) :: nat) < 128" if "n < 64" for n using that by (auto simp: b64_char_def)
  then show ?thesis
    using b64_body_chars [OF b]
    unfolding state_text_def urlsafe_b64encode_body rstrip_pads [OF b64_body_no_pad [OF b]] by (auto simp: list_all_iff)
qed

lemma read_state_text:
  assumes "payload \<noteq> []" "distinct (map fst payload)"
  shows "read_state fl (state_text payload) = Some (JDict (foldl (\<lambda>d (k, v). AList.update k (JStr v) d) [] payload))"
proof -
  have "urlsafe_b64decode (padded (state_text payload)) = Some (map of_char (json_object payload))"
    unfolding state_text_def by (rule b64_round_trip) simp
  then show ?thesis
    using ascii_state_text bytes_string_ascii [OF ascii_object] json_loads_object [OF assms(1), of fl]
    by (simp add: read_state_def)
qed

definition link_facts :: "string \<Rightarrow> string \<Rightarrow> string \<Rightarrow> string \<Rightarrow> 's jdict" where
  "link_facts tenant_id user_id nonce connection_scope =
     [(''tenant_id'', JStr tenant_id), (''user_id'', JStr user_id), (''nonce'', JStr nonce), (''connection_scope'', JStr connection_scope)]"

lemma state_text_nonempty: "payload \<noteq> [] \<Longrightarrow> distinct (map fst payload) \<Longrightarrow> state_text payload \<noteq> []"
  using read_state_text [of payload "undefined :: (nat, unit) floats_scheme"]
  by (auto simp: read_state_def padded_def urlsafe_b64decode_def bytes_string_def json_loads_def)

lemma read_link: "read_state fl (state_text (link_payload tenant_id user_id nonce connection_scope)) =
    Some (JDict (link_facts tenant_id user_id nonce connection_scope))"
  by (subst read_state_text) (simp_all add: link_payload_def link_facts_def)

text \<open>What decoding a state with a given nonce comes to, whoever built it.\<close>

lemma decode_link:
  assumes "tenant_id \<noteq> []" "user_id \<noteq> []" "nonce \<noteq> []" "lr_client rd" "lr_answers rd"
  shows "decode_oauth_state fl now (state_text (link_payload tenant_id user_id nonce connection_scope)) rd =
    (if nonce_known (nonce_key nonce) now rd
     then (Inr (Some (link_facts tenant_id user_id nonce connection_scope)), rd\<lparr>lr_nonces := AList.delete (nonce_key nonce) (lr_nonces rd)\<rparr>)
     else (Inr None, rd))"
proof -
  have "state_text (link_payload tenant_id user_id nonce connection_scope) \<noteq> []"
    by (rule state_text_nonempty) (simp_all add: link_payload_def)
  then show ?thesis
    using assms by (simp add: decode_oauth_state_def read_link link_facts_def Let_def)
qed

lemma nonce_known_encode:
  assumes "encode_oauth_state nonce made tenant_id user_id connection_scope rd = (state, rd')" "lr_client rd" "lr_answers rd"
  shows "nonce_known (nonce_key nonce) now rd' \<longleftrightarrow> now < made + STATE_TTL_SECONDS" "lr_client rd'" "lr_answers rd'"
    "state = state_text (link_payload tenant_id user_id nonce connection_scope)"
  using assms by (auto simp: encode_oauth_state_def Let_def nonce_known_def map_of_update json_object_def)

text \<open>
  Property C31: a link for connecting an account works once. While Redis answers, the state it carries is
  accepted until ten minutes have passed and gives back the tenant, the user and the connection scope it was
  made for; used again, at any time, it is refused.
\<close>

theorem oauth_link_works_once:
  assumes "encode_oauth_state nonce made tenant_id user_id connection_scope rd = (state, rd')"
    and "tenant_id \<noteq> []" "user_id \<noteq> []" "nonce \<noteq> []" "lr_client rd" "lr_answers rd"
  shows "\<exists>rd''. decode_oauth_state fl now state rd' =
      (if now < made + 600 then (Inr (Some (link_facts tenant_id user_id nonce connection_scope)), rd'') else (Inr None, rd')) \<and>
    (\<forall>later. fst (decode_oauth_state fl later state rd'') = Inr None)"
proof -
  note k = nonce_known_encode [OF assms(1,5,6)]
  let ?used = "rd'\<lparr>lr_nonces := AList.delete (nonce_key nonce) (lr_nonces rd')\<rparr>"
  have "fst (decode_oauth_state fl later state ?used) = Inr None" for later
    unfolding k(4) using assms(2-4) k(2,3) by (simp add: decode_link nonce_known_def map_of_delete)
  moreover have "decode_oauth_state fl now state rd' =
      (if now < made + 600 then (Inr (Some (link_facts tenant_id user_id nonce connection_scope)), ?used) else (Inr None, rd'))"
    unfolding k(4) using assms(2-4) k(1-3) by (simp add: decode_link STATE_TTL_SECONDS_def)
  ultimately show ?thesis by blast
qed

end
