(* ===== verification/Vaults.thy ===== *)
theory Vaults
  imports Py_Values "HOL-Library.Sublist"
begin

text \<open>
  Where secrets are kept (\<open>backend/app/storage/vault_client.py\<close>): the three vault clients with the names they
  give their secrets, the fallback for tenant database passwords, and the factory that picks a client
  (\<open>backend/app/core/backends.py\<close> holds its policy). The remote services are tables that may be down.
\<close>

subsection \<open>The environment of the process\<close>

record vault_env =
  ve_environment :: "string option"
  ve_setting :: "string \<Rightarrow> string option"        \<comment> \<open>an attribute of \<open>settings\<close>\<close>
  ve_getenv :: "string \<Rightarrow> string option"         \<comment> \<open>\<open>os.getenv\<close>\<close>
  ve_url_password :: "string \<Rightarrow> string option"   \<comment> \<open>\<open>urlparse(url).password\<close>, unquoted; \<open>None\<close> also when that raises\<close>

definition vault_raised :: exn where "vault_raised = Raised ''VaultError''"

definition set_str :: "string option \<Rightarrow> bool" where
  "set_str v = (v \<noteq> None \<and> v \<noteq> Some [])"

text \<open>\<open>a or b\<close>.\<close>

definition or_env :: "string option \<Rightarrow> string option \<Rightarrow> string option" where
  "or_env a b = (if set_str a then a else b)"

definition mock_backends_allowed :: "vault_env \<Rightarrow> bool" where
  "mock_backends_allowed env =
     (str_lower (str_strip (the (or_env (ve_environment env) (Some ''development'')))) \<in> {''development'', ''dev'', ''test''})"

definition refuse_mock_backend :: "vault_env \<Rightarrow> string option \<Rightarrow> string \<Rightarrow> unit res" where
  "refuse_mock_backend env configured real_value =
     (if str_lower (str_strip (the (or_env configured (Some [])))) = str_lower (str_strip real_value) then Inr ()
      else if mock_backends_allowed env then Inr () else Inl (Raised ''RuntimeError''))"

subsection \<open>Names\<close>

definition NEO4J_PASSWORD :: string where "NEO4J_PASSWORD = ''kv/platform/neo4j_password''"
definition GOOGLE_CLIENT_SECRET :: string where "GOOGLE_CLIENT_SECRET = ''kv/platform/google_client_secret''"
definition GOOGLE_REFRESH_TOKEN :: string where "GOOGLE_REFRESH_TOKEN = ''kv/platform/google_refresh_token''"
definition QDRANT_API_KEY :: string where "QDRANT_API_KEY = ''kv/platform/qdrant_api_key''"
definition MINIO_SECRET_KEY :: string where "MINIO_SECRET_KEY = ''kv/platform/minio_secret_key''"
definition OPENSEARCH_PASSWORD :: string where "OPENSEARCH_PASSWORD = ''kv/platform/opensearch_password''"
definition OAUTH_TOKEN_FERNET :: string where "OAUTH_TOKEN_FERNET = ''kv/platform/google-oauth-fernet''"

definition SETTINGS_BOOTSTRAP :: "(string, string) dict" where
  "SETTINGS_BOOTSTRAP = [(NEO4J_PASSWORD, ''neo4j_password''), (GOOGLE_CLIENT_SECRET, ''google_client_secret''),
     (GOOGLE_REFRESH_TOKEN, ''google_refresh_token''), (QDRANT_API_KEY, ''qdrant_api_key''),
     (MINIO_SECRET_KEY, ''storage_secret_key''), (OAUTH_TOKEN_FERNET, ''token_encryption_key'')]"

definition OPTIONAL_DEV_SECRETS :: "string list" where
  "OPTIONAL_DEV_SECRETS = [QDRANT_API_KEY, OPENSEARCH_PASSWORD]"

definition bootstrap_from_settings :: "vault_env \<Rightarrow> string \<Rightarrow> string option" where
  "bootstrap_from_settings env key_name =
     (case map_of SETTINGS_BOOTSTRAP key_name of
        None \<Rightarrow> None
      | Some attr \<Rightarrow>
          (case ve_setting env attr of
             None \<Rightarrow> None
           | Some v \<Rightarrow> if str_strip v = [] then None else Some (str_strip v)))"

text \<open>\<open>str.isalnum\<close> up to U+00FF: Unicode letters, digits and fractions count.\<close>

definition is_alnum :: "char \<Rightarrow> bool" where
  "is_alnum c = (let n = (of_char c :: nat) in
     (48 \<le> n \<and> n \<le> 57) \<or> (65 \<le> n \<and> n \<le> 90) \<or> (97 \<le> n \<and> n \<le> 122) \<or>
     n \<in> {170, 178, 179, 181, 185, 186, 188, 189, 190} \<or> (192 \<le> n \<and> n \<noteq> 215 \<and> n \<noteq> 247))"

text \<open>\<open>s.replace("--", "-")\<close>, and the loop around it.\<close>

fun replace_dashes :: "string \<Rightarrow> string" where
  "replace_dashes (c # d # s) =
     (if c = CHR ''-'' \<and> d = CHR ''-'' then CHR ''-'' # replace_dashes s else c # replace_dashes (d # s))"
| "replace_dashes s = s"

fun double_dash :: "string \<Rightarrow> bool" where
  "double_dash (c # d # s) = (c = CHR ''-'' \<and> d = CHR ''-'' \<or> double_dash (d # s))"
| "double_dash _ = False"

lemma replace_dashes_length: "length (replace_dashes s) \<le> length s"
  by (induction s rule: replace_dashes.induct) auto

lemma replace_dashes_shorter: "double_dash s \<Longrightarrow> length (replace_dashes s) < length s"
  by (induction s rule: replace_dashes.induct) (use replace_dashes_length in \<open>auto simp: less_Suc_eq_le\<close>)

function collapse :: "string \<Rightarrow> string" where
  "collapse s = (if double_dash s then collapse (replace_dashes s) else s)"
  by pat_completeness auto
termination collapse
  by (relation "measure length") (simp_all add: replace_dashes_shorter)

declare collapse.simps [simp del]

definition strip_dashes :: "string \<Rightarrow> string" where
  "strip_dashes s = rev (dropWhile (\<lambda>c. c = CHR ''-'') (rev (dropWhile (\<lambda>c. c = CHR ''-'') s)))"

definition rstrip_dashes :: "string \<Rightarrow> string" where
  "rstrip_dashes s = rev (dropWhile (\<lambda>c. c = CHR ''-'') (rev s))"

definition azure_secret_name :: "string \<Rightarrow> string res" where
  "azure_secret_name key_name =
     (let chars = map (\<lambda>c. if is_alnum c \<or> c = CHR ''-'' then c else CHR ''-'') (str_strip key_name);
          name = rstrip_dashes (take 127 (strip_dashes (collapse chars)))
      in if name = [] then Inl vault_raised else Inr name)"

definition env_key :: "string \<Rightarrow> string" where
  "env_key key_name = ''VAULT_SECRET_'' @ map (\<lambda>c. if c = CHR ''/'' \<or> c = CHR ''-'' then CHR ''_'' else c) key_name"

definition kv_path :: "string \<Rightarrow> string" where
  "kv_path key_name = ''secret/data/'' @ (if starts_with ''kv/'' key_name then drop 3 key_name else key_name)"

subsection \<open>The fallback for tenant database passwords\<close>

fun first_some :: "'a option list \<Rightarrow> 'a option" where
  "first_some [] = None"
| "first_some (Some x # xs) = Some x"
| "first_some (None # xs) = first_some xs"

definition URL_SCHEMES :: "string list" where
  "URL_SCHEMES = [''postgresql+asyncpg://'', ''postgres+asyncpg://'', ''postgresql://'', ''postgres://'']"

definition clean_url :: "string \<Rightarrow> string" where
  "clean_url url = (let clean = str_strip url in
     case find (\<lambda>p. starts_with p clean) URL_SCHEMES of
       None \<Rightarrow> clean | Some p \<Rightarrow> ''http://'' @ drop (length p) clean)"

definition extract_password :: "vault_env \<Rightarrow> string \<Rightarrow> string option" where
  "extract_password env url =
     (if url = [] then None
      else case ve_url_password env (clean_url url) of
             Some p \<Rightarrow> if p = [] then None else Some p
           | None \<Rightarrow> None)"

definition URL_KEYS :: "string list" where
  "URL_KEYS = [''SUPABASE_POOLER_URL'', ''CONTROL_PLANE_DATABASE_URL'', ''SUPABASE_DB_URL'', ''DATABASE_URL'']"

text \<open>A candidate from a URL, and one from an environment variable; \<open>placeholder\<close> is the value passed over.\<close>

definition from_url :: "vault_env \<Rightarrow> string option \<Rightarrow> string \<Rightarrow> string option" where
  "from_url env placeholder url_key =
     (case or_env (ve_setting env (str_lower url_key)) (ve_getenv env url_key) of
        None \<Rightarrow> None
      | Some v \<Rightarrow>
          (case extract_password env v of
             Some p \<Rightarrow> if p \<noteq> [] \<and> Some p \<noteq> placeholder then Some p else None
           | None \<Rightarrow> None))"

definition from_env :: "vault_env \<Rightarrow> string \<Rightarrow> string option" where
  "from_env env name =
     (case ve_getenv env name of
        None \<Rightarrow> None | Some v \<Rightarrow> if str_strip v \<noteq> [] \<and> str_strip v \<noteq> ''postgres'' then Some (str_strip v) else None)"

definition tenant_db_password_fallback :: "vault_env \<Rightarrow> string \<Rightarrow> string option" where
  "tenant_db_password_fallback env key_name =
     (if \<not> contains ''db_password'' key_name then None
      else first_some
        ([from_env env ''SUPABASE_DB_PASSWORD''] @ map (from_url env (Some ''postgres'')) URL_KEYS @
         map (from_env env) [''DB_PASSWORD'', ''POSTGRES_PASSWORD''] @ map (from_url env None) URL_KEYS @
         [case or_env (ve_getenv env ''SUPABASE_DB_PASSWORD'')
                 (or_env (ve_getenv env ''DB_PASSWORD'') (ve_getenv env ''POSTGRES_PASSWORD'')) of
            None \<Rightarrow> None | Some v \<Rightarrow> if str_strip v = [] then None else Some (str_strip v)]))"

subsection \<open>The clients\<close>

datatype vault_backend = MockVault | AzureVault | HashiCorpVault

record vault_state =
  vt_up :: bool                              \<comment> \<open>the remote service answers\<close>
  vt_memory :: "(string, string) dict"       \<comment> \<open>\<open>_in_memory_store\<close> of the mock\<close>
  vt_azure :: "(string, string) dict"        \<comment> \<open>by Azure secret name\<close>
  vt_kv :: "(string, pydict) dict"           \<comment> \<open>by path\<close>

definition mock_put :: "string \<Rightarrow> string \<Rightarrow> vault_state \<Rightarrow> vault_state" where
  "mock_put key_name v s = s\<lparr>vt_memory := AList.update key_name v (vt_memory s)\<rparr>"

definition mock_lookup :: "vault_env \<Rightarrow> string \<Rightarrow> vault_state \<Rightarrow> string res \<times> vault_state" where
  "mock_lookup env key_name s =
     (let fallback = tenant_db_password_fallback env key_name in
      if contains ''db_password'' key_name \<and> set_str fallback then (Inr (the fallback), mock_put key_name (the fallback) s)
      else case map_of (vt_memory s) key_name of
        Some v \<Rightarrow> (Inr v, s)
      | None \<Rightarrow>
          if set_str (ve_getenv env (env_key key_name)) then (Inr (the (ve_getenv env (env_key key_name))), s)
          else case bootstrap_from_settings env key_name of
            Some boot \<Rightarrow> (Inr boot, mock_put key_name boot s)
          | None \<Rightarrow>
              if mock_backends_allowed env \<and> contains ''db_password'' key_name then (Inr ''postgres'', s)
              else if mock_backends_allowed env \<and> key_name \<in> set OPTIONAL_DEV_SECRETS then (Inr [], s)
              else (Inl vault_raised, s))"

definition azure_read :: "string \<Rightarrow> vault_state \<Rightarrow> string res" where
  "azure_read key_name s =
     rbind (azure_secret_name key_name) (\<lambda>name.
       if \<not> vt_up s then Inl (Raised ''ServiceRequestError'')
       else case map_of (vt_azure s) name of None \<Rightarrow> Inl (Raised ''ResourceNotFoundError'') | Some v \<Rightarrow> Inr v)"

text \<open>A secret kept under \<open>value\<close>, else the only entry, else the JSON text of all, which \<open>dumps\<close> gives.\<close>

definition kv_text :: "pyval \<Rightarrow> string" where
  "kv_text v = (if v = PNone then [] else py_str v)"

definition kv_value :: "(pydict \<Rightarrow> string) \<Rightarrow> pydict \<Rightarrow> string" where
  "kv_value dumps data =
     (case map_of data ''value'' of
        Some v \<Rightarrow> kv_text v
      | None \<Rightarrow> if length data = 1 then kv_text (snd (hd data)) else dumps data)"

definition kv_read :: "string \<Rightarrow> vault_state \<Rightarrow> pydict res" where
  "kv_read key_name s =
     (if \<not> vt_up s then Inl (Raised ''VaultDown'')
      else case map_of (vt_kv s) (kv_path key_name) of None \<Rightarrow> Inl (Raised ''InvalidPath'') | Some d \<Rightarrow> Inr d)"

text \<open>What a failed read of a remote vault comes to; only the synchronous \<open>get\<close> knows the optional secrets.\<close>

definition read_failed :: "vault_env \<Rightarrow> bool \<Rightarrow> string \<Rightarrow> string res" where
  "read_failed env sync key_name =
     (case tenant_db_password_fallback env key_name of
        Some p \<Rightarrow> Inr p
      | None \<Rightarrow> if sync \<and> mock_backends_allowed env \<and> key_name \<in> set OPTIONAL_DEV_SECRETS then Inr [] else Inl vault_raised)"

definition get_secret :: "vault_env \<Rightarrow> (pydict \<Rightarrow> string) \<Rightarrow> vault_backend \<Rightarrow> string \<Rightarrow> vault_state \<Rightarrow> string res \<times> vault_state" where
  "get_secret env dumps b key_name s =
     (case b of
        MockVault \<Rightarrow> mock_lookup env key_name s
      | AzureVault \<Rightarrow> (case azure_read key_name s of Inr v \<Rightarrow> (Inr v, s) | Inl _ \<Rightarrow> (read_failed env False key_name, s))
      | HashiCorpVault \<Rightarrow> (case kv_read key_name s of Inr d \<Rightarrow> (Inr (kv_value dumps d), s) | Inl _ \<Rightarrow> (read_failed env False key_name, s)))"

text \<open>\<open>get\<close>: the HashiCorp client returns what stands under \<open>value\<close> as it is.\<close>

definition vault_get :: "vault_env \<Rightarrow> (pydict \<Rightarrow> string) \<Rightarrow> vault_backend \<Rightarrow> string \<Rightarrow> vault_state \<Rightarrow> pyval res \<times> vault_state" where
  "vault_get env dumps b key_name s =
     (case b of
        MockVault \<Rightarrow> (let (r, s) = mock_lookup env key_name s in (rbind r (\<lambda>v. Inr (PStr v)), s))
      | AzureVault \<Rightarrow>
          (case azure_read key_name s of
             Inr v \<Rightarrow> (Inr (PStr v), s) | Inl _ \<Rightarrow> (rbind (read_failed env True key_name) (\<lambda>v. Inr (PStr v)), s))
      | HashiCorpVault \<Rightarrow>
          (case kv_read key_name s of
             Inr d \<Rightarrow> (Inr (case map_of d ''value'' of Some v \<Rightarrow> v | None \<Rightarrow> PStr (dumps d)), s)
           | Inl _ \<Rightarrow> (rbind (read_failed env True key_name) (\<lambda>v. Inr (PStr v)), s)))"

text \<open>\<open>set\<close> and \<open>set_secret\<close> do the same.\<close>

definition vault_set :: "vault_backend \<Rightarrow> string \<Rightarrow> string \<Rightarrow> vault_state \<Rightarrow> unit res \<times> vault_state" where
  "vault_set b key_name v s =
     (case b of
        MockVault \<Rightarrow> (Inr (), mock_put key_name v s)
      | AzureVault \<Rightarrow>
          (case azure_secret_name key_name of
             Inl _ \<Rightarrow> (Inl vault_raised, s)
           | Inr name \<Rightarrow> if vt_up s then (Inr (), s\<lparr>vt_azure := AList.update name v (vt_azure s)\<rparr>) else (Inl vault_raised, s))
      | HashiCorpVault \<Rightarrow>
          if vt_up s then (Inr (), s\<lparr>vt_kv := AList.update (kv_path key_name) [(''value'', PStr v)] (vt_kv s)\<rparr>)
          else (Inl vault_raised, s))"

text \<open>Only the mock has a \<open>delete\<close>; the callers ask \<open>hasattr\<close> first.\<close>

definition vault_delete :: "vault_backend \<Rightarrow> string \<Rightarrow> vault_state \<Rightarrow> vault_state" where
  "vault_delete b key_name s = (if b = MockVault then s\<lparr>vt_memory := AList.delete key_name (vt_memory s)\<rparr> else s)"

definition or_mock :: "vault_env \<Rightarrow> vault_backend res" where
  "or_mock env = (if mock_backends_allowed env then Inr MockVault else Inl vault_raised)"

definition get_vault_client :: "vault_env \<Rightarrow> vault_backend res" where
  "get_vault_client env =
     (let provider = str_strip (str_lower (the (or_env (ve_setting env ''vault_provider'') (Some ''azure'')))) in
      if \<not> set_str (ve_setting env ''vault_url'') then or_mock env
      else if provider = ''hashicorp'' then (if set_str (ve_setting env ''vault_token'') then Inr HashiCorpVault else or_mock env)
      else if provider = ''azure'' then
        (if list_all (\<lambda>k. set_str (ve_setting env k)) [''vault_tenant_id'', ''vault_client_id'', ''vault_client_secret'']
         then Inr AzureVault else or_mock env)
      else or_mock env)"

subsection \<open>The names Azure accepts\<close>

text \<open>Every run of hyphens, reduced to one.\<close>

fun squeeze_dashes :: "string \<Rightarrow> string" where
  "squeeze_dashes (c # d # s) = (if c = CHR ''-'' \<and> d = CHR ''-'' then squeeze_dashes (d # s) else c # squeeze_dashes (d # s))"
| "squeeze_dashes s = s"

lemma squeeze_replace: "squeeze_dashes (c # replace_dashes s) = squeeze_dashes (c # s)"
proof (induction s arbitrary: c rule: replace_dashes.induct)
  case (1 a b s)
  then show ?case by auto
qed simp_all

lemma squeeze_replace_dashes: "squeeze_dashes (replace_dashes s) = squeeze_dashes s"
proof (cases s rule: replace_dashes.cases)
  case (1 c d t)
  then show ?thesis using squeeze_replace [of "CHR ''-''" t] squeeze_replace [of c "d # t"] by simp
qed simp_all

lemma squeeze_id: "\<not> double_dash s \<Longrightarrow> squeeze_dashes s = s"
  by (induction s rule: double_dash.induct) auto

lemma double_dash_squeeze: "\<not> double_dash (squeeze_dashes s)"
proof (induction s rule: squeeze_dashes.induct)
  case (1 c d s)
  have "\<exists>u. squeeze_dashes (d # s) = d # u" for d s
    by (induction s arbitrary: d) auto
  then obtain u where "squeeze_dashes (d # s) = d # u" by blast
  with 1 show ?case by auto
qed simp_all

text \<open>The loop ends, and comes to that.\<close>

lemma collapse_squeeze: "collapse s = squeeze_dashes s"
proof (induction s rule: collapse.induct)
  case (1 s)
  then show ?case using squeeze_id [of s] squeeze_replace_dashes [of s] by (simp add: collapse.simps [of s])
qed

lemma set_squeeze: "set (squeeze_dashes s) \<subseteq> set s"
  by (induction s rule: squeeze_dashes.induct) auto

lemma double_dash_append1: "\<not> double_dash (s @ t) \<Longrightarrow> \<not> double_dash s"
  by (induction s rule: double_dash.induct) auto

lemma double_dash_append2: "\<not> double_dash (s @ t) \<Longrightarrow> \<not> double_dash t"
proof (induction s)
  case (Cons c s)
  then show ?case by (cases "s @ t") auto
qed simp

lemma double_dash_take: "\<not> double_dash s \<Longrightarrow> \<not> double_dash (take n s)"
  using double_dash_append1 [of "take n s" "drop n s"] by simp

lemma double_dash_dropWhile: "\<not> double_dash s \<Longrightarrow> \<not> double_dash (dropWhile P s)"
  using double_dash_append2 [of "takeWhile P s" "dropWhile P s"] by simp

lemma rstrip_dashes_prefix: "prefix (rstrip_dashes s) s"
proof -
  let ?P = "\<lambda>c. c = CHR ''-''"
  have "rev (takeWhile ?P (rev s) @ dropWhile ?P (rev s)) = s" by simp
  then show ?thesis unfolding rstrip_dashes_def prefix_def by (metis rev_append)
qed

lemma double_dash_prefix: "prefix n m \<Longrightarrow> \<not> double_dash m \<Longrightarrow> \<not> double_dash n"
  by (auto simp: prefix_def dest: double_dash_append1)

lemma rstrip_dashes_last: "rstrip_dashes s \<noteq> [] \<Longrightarrow> last (rstrip_dashes s) \<noteq> CHR ''-''"
  using hd_dropWhile [of "\<lambda>c. c = CHR ''-''" "rev s"] by (simp add: rstrip_dashes_def last_rev)

lemma rstrip_dashes_id: "s = [] \<or> last s \<noteq> CHR ''-'' \<Longrightarrow> rstrip_dashes s = s"
  by (cases s rule: rev_cases) (auto simp: rstrip_dashes_def)

definition azure_shaped :: "string \<Rightarrow> bool" where
  "azure_shaped n \<longleftrightarrow> n \<noteq> [] \<and> length n \<le> 127 \<and> hd n \<noteq> CHR ''-'' \<and> last n \<noteq> CHR ''-'' \<and> \<not> double_dash n \<and>
     (\<forall>c \<in> set n. is_alnum c \<or> c = CHR ''-'')"

lemma alnum_not_space: "is_alnum c \<Longrightarrow> \<not> is_space c"
  by (auto simp: is_alnum_def is_space_def Let_def)

lemma str_strip_unspaced: "\<forall>c \<in> set s. \<not> is_space c \<Longrightarrow> str_strip s = s"
proof -
  assume s: "\<forall>c \<in> set s. \<not> is_space c"
  have "dropWhile is_space t = t" if "set t \<subseteq> set s" for t using that s by (cases t) auto
  then show ?thesis by (simp add: str_strip_def str_lstrip_def)
qed

definition azure_chars :: "string \<Rightarrow> string" where
  "azure_chars key_name = map (\<lambda>c. if is_alnum c \<or> c = CHR ''-'' then c else CHR ''-'') (str_strip key_name)"

definition azure_core :: "string \<Rightarrow> string" where
  "azure_core key_name = dropWhile (\<lambda>c. c = CHR ''-'') (squeeze_dashes (azure_chars key_name))"

lemma azure_secret_name_eq:
  "azure_secret_name key_name = (if rstrip_dashes (take 127 (rstrip_dashes (azure_core key_name))) = [] then Inl vault_raised
     else Inr (rstrip_dashes (take 127 (rstrip_dashes (azure_core key_name)))))"
  by (simp only: azure_secret_name_def Let_def collapse_squeeze strip_dashes_def rstrip_dashes_def azure_core_def azure_chars_def)

lemma azure_secret_name_shaped:
  assumes "azure_secret_name key_name = Inr n"
  shows "azure_shaped n"
proof -
  let ?m = "azure_core key_name"
  define k where "k = take 127 (rstrip_dashes ?m)"
  have n: "n = rstrip_dashes k" "n \<noteq> []"
    using assms unfolding azure_secret_name_eq k_def [symmetric] by (simp_all split: if_splits)
  have nk: "prefix n k" unfolding n(1) by (rule rstrip_dashes_prefix)
  have "prefix k (rstrip_dashes ?m)" unfolding k_def by (rule take_is_prefix)
  then have nm: "prefix n ?m" using nk rstrip_dashes_prefix prefix_order.trans by blast
  then obtain w where w: "?m = n @ w" by (auto simp: prefix_def)
  have "?m \<noteq> []" using w n(2) by simp
  then have "hd ?m \<noteq> CHR ''-''" unfolding azure_core_def by (rule hd_dropWhile)
  then have hd: "hd n \<noteq> CHR ''-''" using w n(2) by simp
  have "\<not> double_dash ?m" unfolding azure_core_def by (rule double_dash_dropWhile [OF double_dash_squeeze])
  with nm have dd: "\<not> double_dash n" by (rule double_dash_prefix)
  have "set ?m \<subseteq> set (azure_chars key_name)" unfolding azure_core_def using set_squeeze [of "azure_chars key_name"] by (auto dest: set_dropWhileD)
  moreover have "set n \<subseteq> set ?m" using w by simp
  ultimately have "set n \<subseteq> set (azure_chars key_name)" by blast
  then have al: "\<forall>c \<in> set n. is_alnum c \<or> c = CHR ''-''" by (auto simp: azure_chars_def)
  have "length n \<le> length k" using nk by (rule prefix_length_le)
  then have len: "length n \<le> 127" by (simp add: k_def)
  have "last n \<noteq> CHR ''-''" using rstrip_dashes_last n by blast
  with n(2) hd dd al len show ?thesis by (simp add: azure_shaped_def)
qed

lemma azure_secret_name_fixed:
  assumes "azure_shaped n"
  shows "azure_secret_name n = Inr n"
proof -
  note n = assms [unfolded azure_shaped_def]
  have "\<not> is_space (CHR ''-'')" by code_simp
  then have sp: "str_strip n = n" using n alnum_not_space by (intro str_strip_unspaced) blast
  have chars: "map (\<lambda>c. if is_alnum c \<or> c = CHR ''-'' then c else CHR ''-'') n = n"
    by (rule map_idI) (use n in auto)
  have l: "dropWhile (\<lambda>c. c = CHR ''-'') n = n" using n by (cases n) simp_all
  have r: "rstrip_dashes n = n" using n by (intro rstrip_dashes_id) simp
  have strip: "strip_dashes n = n" using r by (simp add: strip_dashes_def rstrip_dashes_def l)
  have sq: "squeeze_dashes n = n" using n by (intro squeeze_id) simp
  have tk: "take 127 n = n" using n by simp
  show ?thesis unfolding azure_secret_name_def Let_def sp chars collapse_squeeze sq strip tk r using n by simp
qed

lemma squeeze_has: "c \<noteq> CHR ''-'' \<Longrightarrow> c \<in> set s \<Longrightarrow> c \<in> set (squeeze_dashes s)"
  by (induction s rule: squeeze_dashes.induct) auto

lemma rstrip_dashes_Nil: "rstrip_dashes s = [] \<longleftrightarrow> (\<forall>c \<in> set s. c = CHR ''-'')"
  by (simp add: rstrip_dashes_def dropWhile_eq_Nil_conv)

lemma azure_secret_name_refused:
  assumes "azure_secret_name key_name = Inl e" "c \<in> set (str_strip key_name)"
  shows "\<not> is_alnum c"
proof
  assume c: "is_alnum c"
  have "\<not> is_alnum (CHR ''-'')" by code_simp
  with c have cd: "c \<noteq> CHR ''-''" by auto
  have "c \<in> set (azure_chars key_name)" using assms(2) c by (force simp: azure_chars_def)
  then have "c \<in> set (squeeze_dashes (azure_chars key_name))" using cd squeeze_has by blast
  then have ne: "azure_core key_name \<noteq> []" using cd by (auto simp: azure_core_def dropWhile_eq_Nil_conv)
  then have "hd (azure_core key_name) \<noteq> CHR ''-''" unfolding azure_core_def by (rule hd_dropWhile)
  then obtain x t where m: "azure_core key_name = x # t" "x \<noteq> CHR ''-''" using ne by (cases "azure_core key_name") auto
  have "prefix (rstrip_dashes (x # t)) (x # t)" by (rule rstrip_dashes_prefix)
  moreover have "rstrip_dashes (x # t) \<noteq> []" using m(2) by (simp add: rstrip_dashes_Nil)
  ultimately obtain r where r: "rstrip_dashes (x # t) = x # r" by (cases "rstrip_dashes (x # t)") auto
  have "x \<in> set (take 127 (x # r))" by (simp add: take_Cons')
  then have "rstrip_dashes (take 127 (x # r)) \<noteq> []" using m(2) unfolding rstrip_dashes_Nil by blast
  then show False using assms(1) unfolding azure_secret_name_eq m(1) r by simp
qed

text \<open>
  The names of secrets in Azure are in shape and stable. The loop that removes double hyphens
  ends; a name has 1 to 127 characters, only letters, digits (of the Unicode classes) and single hyphens, none
  of them at either end; sanitizing a name again changes nothing, and what is refused is exactly a key without
  any letter or digit.
\<close>

theorem azure_names_are_shaped:
  "case azure_secret_name key_name of
     Inr n \<Rightarrow> azure_shaped n \<and> azure_secret_name n = Inr n
   | Inl e \<Rightarrow> \<not> (\<exists>c \<in> set (str_strip key_name). is_alnum c)"
proof (cases "azure_secret_name key_name")
  case (Inr n)
  then show ?thesis using azure_secret_name_shaped [OF Inr] azure_secret_name_fixed by simp
next
  case (Inl e)
  then show ?thesis using azure_secret_name_refused by auto
qed

text \<open>
  A secret that was stored is the one that is read back, from every kind of vault, with one
  exception: for a key that names a database password the mock returns the password of the process
  environment, when there is one, instead of the stored one.
\<close>

theorem stored_secrets_are_read_back:
  assumes "vault_set b key_name v s = (Inr (), s')"
  shows "fst (get_secret env dumps b key_name s') =
    Inr (if b = MockVault \<and> set_str (tenant_db_password_fallback env key_name)
         then the (tenant_db_password_fallback env key_name) else v)"
proof (cases b)
  case MockVault
  have "contains ''db_password'' key_name" if "set_str (tenant_db_password_fallback env key_name)"
    using that by (auto simp: tenant_db_password_fallback_def set_str_def split: if_splits)
  with MockVault assms show ?thesis
    by (auto simp: vault_set_def get_secret_def mock_lookup_def mock_put_def Let_def map_of_update)
next
  case AzureVault
  with assms show ?thesis
    by (auto simp: vault_set_def get_secret_def azure_read_def map_of_update split: sum.splits if_splits)
next
  case HashiCorpVault
  with assms show ?thesis
    by (auto simp: vault_set_def get_secret_def kv_read_def kv_value_def kv_text_def map_of_update split: if_splits)
qed

end
