(* ===== verification/Token_Store.thy ===== *)
theory Token_Store
  imports Vaults
begin

text \<open>
  Where the OAuth tokens of connected accounts are kept: their keys
  (\<open>backend/app/connectors/google/keys.py\<close>, \<open>microsoft/keys.py\<close>), their encryption
  (\<open>backend/app/connectors/token_crypto.py\<close>) and the stores over Redis and the vault
  (\<open>google/token_store.py\<close>, \<open>microsoft/token_store.py\<close>, which differ in their keys only). Fernet and HKDF are
  parameters; the JSON text that is encrypted stands for the dictionary it is made of.
\<close>

subsection \<open>Keys\<close>

definition google_oauth_token_key :: "string \<Rightarrow> string \<Rightarrow> string \<Rightarrow> string" where
  "google_oauth_token_key tenant_id user_id connection_scope =
     (let tid = str_strip tenant_id; uid = str_strip user_id;
          scope = str_strip (if connection_scope = [] then ''personal'' else connection_scope)
      in if uid \<noteq> [] then ''google_oauth:'' @ tid @ '':'' @ uid @ '':'' @ scope
         else ''google_oauth:'' @ tid @ '':'' @ scope)"

definition microsoft_oauth_token_key :: "string \<Rightarrow> string \<Rightarrow> string" where
  "microsoft_oauth_token_key tenant_id user_id =
     (let tid = str_strip tenant_id; uid = str_strip user_id
      in if uid \<noteq> [] then ''microsoft_oauth:'' @ tid @ '':'' @ uid else ''microsoft_oauth:'' @ tid)"

text \<open>Parsing a key back; the prefix is that of the provider.\<close>

definition tenant_from_token_key :: "string \<Rightarrow> string \<Rightarrow> string option" where
  "tenant_from_token_key pre key =
     (if \<not> starts_with pre key then None
      else let rest = drop (length pre) key in if rest = [] then None else Some (hd (split_on CHR '':'' rest)))"

definition principal_from_token_key :: "string \<Rightarrow> string \<Rightarrow> string" where
  "principal_from_token_key pre key =
     (if \<not> starts_with pre key then []
      else let parts = split_on CHR '':'' (drop (length pre) key) in if 1 < length parts then parts ! 1 else [])"

definition scope_from_token_key :: "string \<Rightarrow> string" where
  "scope_from_token_key key =
     (if \<not> starts_with ''google_oauth:'' key then ''personal''
      else let parts = split_on CHR '':'' (drop 13 key)
           in if 2 < length parts \<and> parts ! 2 \<noteq> [] then parts ! 2 else ''personal'')"

definition vault_google_oauth_key :: "string \<Rightarrow> string \<Rightarrow> string \<Rightarrow> string" where
  "vault_google_oauth_key tenant_id user_id connection_scope =
     (let uid = str_strip user_id; scope = str_strip (if connection_scope = [] then ''personal'' else connection_scope)
      in if uid \<noteq> [] then ''kv/tenant-'' @ tenant_id @ ''/google-oauth/'' @ uid @ ''/'' @ scope
         else ''kv/tenant-'' @ tenant_id @ ''/google-oauth/'' @ scope)"

definition vault_microsoft_oauth_key :: "string \<Rightarrow> string \<Rightarrow> string" where
  "vault_microsoft_oauth_key tenant_id user_id =
     (let uid = str_strip user_id
      in if uid \<noteq> [] then ''kv/tenant-'' @ tenant_id @ ''/microsoft-oauth/'' @ uid
         else ''kv/tenant-'' @ tenant_id @ ''/microsoft-oauth'')"

record store_keys =
  sk_prefix :: string
  sk_blob :: string
  sk_vault_name :: "string \<Rightarrow> string \<Rightarrow> string"      \<comment> \<open>from the tenant and the token key\<close>

definition google_keys :: store_keys where
  "google_keys = \<lparr>sk_prefix = ''google_oauth:'', sk_blob = ''google_oauth_blob'',
     sk_vault_name = (\<lambda>tenant_id key. vault_google_oauth_key tenant_id (principal_from_token_key ''google_oauth:'' key) (scope_from_token_key key))\<rparr>"

definition microsoft_keys :: store_keys where
  "microsoft_keys = \<lparr>sk_prefix = ''microsoft_oauth:'', sk_blob = ''microsoft_oauth_blob'',
     sk_vault_name = (\<lambda>tenant_id key. vault_microsoft_oauth_key tenant_id (principal_from_token_key ''microsoft_oauth:'' key))\<rparr>"

definition redis_blob_key :: "store_keys \<Rightarrow> string \<Rightarrow> string \<Rightarrow> string" where
  "redis_blob_key sk tenant_id token_key = sk_blob sk @ '':'' @ tenant_id @ '':'' @ token_key"

subsection \<open>Encryption\<close>

record fernet =
  fn_valid :: "string \<Rightarrow> bool"                          \<comment> \<open>\<open>Fernet(key)\<close> takes the key\<close>
  fn_encrypt :: "string \<Rightarrow> pydict \<Rightarrow> string"
  fn_decrypt :: "string \<Rightarrow> string \<Rightarrow> pydict option"       \<comment> \<open>\<open>None\<close> is \<open>InvalidToken\<close>\<close>
  fn_derive :: "string \<Rightarrow> string \<Rightarrow> string"             \<comment> \<open>HKDF, from the root key and the tenant\<close>
  fn_generate :: string

record token_env =
  te_fernet :: fernet
  te_vault :: vault_env
  te_backend :: vault_backend
  te_dumps :: "pydict \<Rightarrow> string"

record token_world =
  tk_redis_up :: bool
  tk_redis :: "(string, string) dict"
  tk_vault :: vault_state
  tk_root :: "string option"                            \<comment> \<open>\<open>_root_key_cache\<close>\<close>
  tk_memory :: "(string, pydict) dict"                  \<comment> \<open>\<open>_memory\<close> of one store object\<close>

definition token_error :: exn where "token_error = Raised ''TokenEncryptionError''"

definition LEGACY_REDIS_FERNET_KEY :: string where "LEGACY_REDIS_FERNET_KEY = ''kv_platform_google_oauth_fernet''"

definition scrub_legacy_key :: "token_world \<Rightarrow> token_world" where
  "scrub_legacy_key w = (if tk_redis_up w then w\<lparr>tk_redis := AList.delete LEGACY_REDIS_FERNET_KEY (tk_redis w)\<rparr> else w)"

definition require_valid_fernet_key :: "token_env \<Rightarrow> string \<Rightarrow> string res" where
  "require_valid_fernet_key env value =
     (let key = str_strip value in if key \<noteq> [] \<and> fn_valid (te_fernet env) key then Inr key else Inl token_error)"

definition vault_get_root :: "token_env \<Rightarrow> token_world \<Rightarrow> string option res \<times> token_world" where
  "vault_get_root env w =
     (let (r, v) = vault_get (te_vault env) (te_dumps env) (te_backend env) OAUTH_TOKEN_FERNET (tk_vault w);
          w = w\<lparr>tk_vault := v\<rparr>
      in (case r of
            Inr (PStr existing) \<Rightarrow>
              if existing \<in> {[], ''mock-secret''} then Inr None else rbind (require_valid_fernet_key env existing) (\<lambda>k. Inr (Some k))
          | _ \<Rightarrow> Inr None, w))"

definition vault_set_root :: "token_env \<Rightarrow> string \<Rightarrow> token_world \<Rightarrow> unit res \<times> token_world" where
  "vault_set_root env key w =
     (case vault_set (te_backend env) OAUTH_TOKEN_FERNET key (tk_vault w) of
        (Inr _, v) \<Rightarrow> (Inr (), w\<lparr>tk_vault := v\<rparr>)
      | (Inl _, v) \<Rightarrow> (Inl token_error, w\<lparr>tk_vault := v\<rparr>))"

definition load_root_fernet_key :: "token_env \<Rightarrow> token_world \<Rightarrow> string res \<times> token_world" where
  "load_root_fernet_key env w =
     (case tk_root w of
        Some key \<Rightarrow> (Inr key, w)
      | None \<Rightarrow>
          (let w = scrub_legacy_key w;
               bootstrap = str_strip (the (or_env (ve_setting (te_vault env) ''token_encryption_key'') (Some []))) in
           if bootstrap \<noteq> [] then
             (case require_valid_fernet_key env bootstrap of
                Inl e \<Rightarrow> (Inl e, w)
              | Inr key \<Rightarrow> (Inr key, (snd (vault_set_root env key w))\<lparr>tk_root := Some key\<rparr>))
           else
             (case vault_get_root env w of
                (Inl e, w) \<Rightarrow> (Inl e, w)
              | (Inr (Some key), w) \<Rightarrow> (Inr key, w\<lparr>tk_root := Some key\<rparr>)
              | (Inr None, w) \<Rightarrow>
                  (case vault_set_root env (fn_generate (te_fernet env)) w of
                     (Inl e, w) \<Rightarrow> (Inl e, w)
                   | (Inr _, w) \<Rightarrow> (Inr (fn_generate (te_fernet env)), w\<lparr>tk_root := Some (fn_generate (te_fernet env))\<rparr>)))))"

definition derive_tenant_fernet_key :: "token_env \<Rightarrow> string \<Rightarrow> token_world \<Rightarrow> string res \<times> token_world" where
  "derive_tenant_fernet_key env tenant_id w =
     (let tid = str_strip tenant_id in
      if tid = [] then (Inl token_error, w)
      else case load_root_fernet_key env w of
             (Inl e, w) \<Rightarrow> (Inl e, w)
           | (Inr root, w) \<Rightarrow> (Inr (fn_derive (te_fernet env) root tid), w))"

definition encrypt_token_blob :: "token_env \<Rightarrow> pydict \<Rightarrow> string \<Rightarrow> token_world \<Rightarrow> string res \<times> token_world" where
  "encrypt_token_blob env data tenant_id w =
     (case derive_tenant_fernet_key env tenant_id w of
        (Inl e, w) \<Rightarrow> (Inl e, w) | (Inr key, w) \<Rightarrow> (Inr (fn_encrypt (te_fernet env) key data), w))"

text \<open>The tenant's key first, then the root key, with which old blobs were encrypted.\<close>

definition decrypt_token_blob :: "token_env \<Rightarrow> string \<Rightarrow> string \<Rightarrow> token_world \<Rightarrow> pydict res \<times> token_world" where
  "decrypt_token_blob env ciphertext tenant_id w =
     (case derive_tenant_fernet_key env tenant_id w of
        (Inl e, w) \<Rightarrow> (Inl e, w)
      | (Inr key, w) \<Rightarrow>
          (case fn_decrypt (te_fernet env) key ciphertext of
             Some d \<Rightarrow> (Inr d, w)
           | None \<Rightarrow>
               (case load_root_fernet_key env w of
                  (Inl e, w) \<Rightarrow> (Inl e, w)
                | (Inr root, w) \<Rightarrow>
                    (case fn_decrypt (te_fernet env) root ciphertext of
                       Some d \<Rightarrow> (Inr d, w) | None \<Rightarrow> (Inl (Raised ''InvalidToken''), w)))))"

subsection \<open>The store\<close>

text \<open>\<open>self.tenant_id or tenant_from_token_key(key)\<close>, the empty string if there is none.\<close>

definition store_tenant :: "store_keys \<Rightarrow> string option \<Rightarrow> string \<Rightarrow> string" where
  "store_tenant sk bound key =
     (if set_str bound then the bound else case tenant_from_token_key (sk_prefix sk) key of Some t \<Rightarrow> t | None \<Rightarrow> [])"

definition read_redis :: "string \<Rightarrow> token_world \<Rightarrow> string option" where
  "read_redis k w = (if tk_redis_up w then map_of (tk_redis w) k else None)"

definition read_vault :: "token_env \<Rightarrow> string \<Rightarrow> token_world \<Rightarrow> pyval \<times> token_world" where
  "read_vault env name w =
     (let (r, v) = vault_get (te_vault env) (te_dumps env) (te_backend env) name (tk_vault w)
      in (case r of Inr x \<Rightarrow> if x = PStr ''mock-secret'' then PNone else x | Inl _ \<Rightarrow> PNone, w\<lparr>tk_vault := v\<rparr>))"

definition get_token :: "token_env \<Rightarrow> store_keys \<Rightarrow> string option \<Rightarrow> string \<Rightarrow> token_world \<Rightarrow> pydict option \<times> token_world" where
  "get_token env sk bound key w =
     (case map_of (tk_memory w) key of
        Some d \<Rightarrow> (Some d, w)
      | None \<Rightarrow>
          (let tenant_id = store_tenant sk bound key in
           if tenant_id = [] then (None, w)
           else
             let (ciphertext, w) =
               (if set_str (read_redis (redis_blob_key sk tenant_id key) w)
                then (PStr (the (read_redis (redis_blob_key sk tenant_id key) w)), w)
                else read_vault env (sk_vault_name sk tenant_id key) w)
             in (case ciphertext of
                   PStr c \<Rightarrow>
                     if c = [] then (None, w)
                     else (case decrypt_token_blob env c tenant_id w of
                             (Inl _, w) \<Rightarrow> (None, w)
                           | (Inr d, w) \<Rightarrow> (Some d, w\<lparr>tk_memory := AList.update key d (tk_memory w)\<rparr>))
                 | _ \<Rightarrow> (None, w))))"

definition set_token :: "token_env \<Rightarrow> store_keys \<Rightarrow> string option \<Rightarrow> string \<Rightarrow> pydict \<Rightarrow> token_world \<Rightarrow> token_world" where
  "set_token env sk bound key data w =
     (let w = w\<lparr>tk_memory := AList.update key data (tk_memory w)\<rparr>; tenant_id = store_tenant sk bound key in
      if tenant_id = [] then w
      else case encrypt_token_blob env data tenant_id w of
        (Inl _, w) \<Rightarrow> w
      | (Inr c, w) \<Rightarrow>
          (let w = (if tk_redis_up w then w\<lparr>tk_redis := AList.update (redis_blob_key sk tenant_id key) c (tk_redis w)\<rparr> else w)
           in w\<lparr>tk_vault := snd (vault_set (te_backend env) (sk_vault_name sk tenant_id key) c (tk_vault w))\<rparr>))"

definition clear_token :: "token_env \<Rightarrow> store_keys \<Rightarrow> string option \<Rightarrow> string \<Rightarrow> token_world \<Rightarrow> token_world" where
  "clear_token env sk bound key w =
     (let w = w\<lparr>tk_memory := AList.delete key (tk_memory w)\<rparr>; tenant_id = store_tenant sk bound key in
      if tenant_id = [] then w
      else let w = (if tk_redis_up w then w\<lparr>tk_redis := AList.delete (redis_blob_key sk tenant_id key) (tk_redis w)\<rparr> else w)
           in w\<lparr>tk_vault := vault_delete (te_backend env) (sk_vault_name sk tenant_id key) (tk_vault w)\<rparr>)"

text \<open>Another process, or another store object: the memory of this one is gone.\<close>

definition reopened :: "token_world \<Rightarrow> token_world" where
  "reopened w = w\<lparr>tk_memory := []\<rparr>"

subsection \<open>Tokens come back\<close>

text \<open>What the code relies on: a key that encrypts decrypts, to a text that is not empty.\<close>

definition fernet_works :: "fernet \<Rightarrow> pydict \<Rightarrow> bool" where
  "fernet_works f d \<longleftrightarrow> (\<forall>k. fn_encrypt f k d \<noteq> [] \<and> fn_encrypt f k d \<noteq> ''mock-secret'' \<and> fn_decrypt f k (fn_encrypt f k d) = Some d)"

text \<open>The root key is loaded once per process and then stays.\<close>

lemma load_root_cached:
  assumes "load_root_fernet_key env w = (Inr key, w')"
  shows "tk_root w' = Some key"
  using assms by (auto simp: load_root_fernet_key_def Let_def split: option.splits if_splits sum.splits prod.splits)

lemma derive_cached:
  assumes "tk_root w = Some root"
  shows "derive_tenant_fernet_key env t w = (if str_strip t = [] then (Inl token_error, w) else (Inr (fn_derive (te_fernet env) root (str_strip t)), w))"
  using assms by (simp add: derive_tenant_fernet_key_def load_root_fernet_key_def Let_def)

lemma decrypt_encrypted:
  assumes "fernet_works (te_fernet env) d" "tk_root w = Some root" "str_strip t \<noteq> []"
  shows "decrypt_token_blob env (fn_encrypt (te_fernet env) (fn_derive (te_fernet env) root (str_strip t)) d) t w = (Inr d, w)"
  using assms by (simp add: decrypt_token_blob_def derive_cached fernet_works_def)

lemma encrypt_token_blob_Inr:
  assumes "encrypt_token_blob env data t w = (Inr c, w')"
  obtains root where "tk_root w' = Some root" "str_strip t \<noteq> []" "c = fn_encrypt (te_fernet env) (fn_derive (te_fernet env) root (str_strip t)) data"
proof -
  from assms obtain key where d: "derive_tenant_fernet_key env t w = (Inr key, w')" and c: "c = fn_encrypt (te_fernet env) key data"
    by (auto simp: encrypt_token_blob_def split: sum.splits prod.splits)
  from d obtain root where "load_root_fernet_key env w = (Inr root, w')" "str_strip t \<noteq> []" "key = fn_derive (te_fernet env) root (str_strip t)"
    by (auto simp: derive_tenant_fernet_key_def Let_def split: if_splits sum.splits prod.splits)
  with c that load_root_cached show ?thesis by blast
qed

lemma vault_get_set_remote:
  assumes "b \<noteq> MockVault" "vault_set b key_name v s = (Inr (), s')"
  shows "vault_get env dumps b key_name s' = (Inr (PStr v), s')"
  using assms
  by (cases b) (auto simp: vault_set_def vault_get_def azure_read_def kv_read_def map_of_update split: sum.splits if_splits)

lemma vault_up_kept:
  "vt_up (snd (vault_set b k v s)) = vt_up s" "vt_up (snd (vault_get env dumps b k s)) = vt_up s"
  by (cases b; simp add: vault_set_def vault_get_def mock_put_def mock_lookup_def Let_def read_failed_def
      split: sum.split option.split prod.split)+

lemma vault_set_remote_ok:
  assumes "b \<noteq> MockVault" "vt_up s" "b = AzureVault \<longrightarrow> azure_secret_name key_name = Inr n"
  shows "\<exists>s'. vault_set b key_name v s = (Inr (), s')"
  using assms by (cases b) (simp_all add: vault_set_def)

text \<open>The root key may be written to the vault; nothing else of the world changes but the scrubbed Redis key.\<close>

lemma load_root_frame:
  assumes "load_root_fernet_key env w = (r, w')"
  shows "vt_up (tk_vault w') = vt_up (tk_vault w) \<and> tk_redis_up w' = tk_redis_up w \<and> tk_memory w' = tk_memory w"
proof -
  have g: "vt_up (tk_vault (snd (vault_get_root env x))) = vt_up (tk_vault x) \<and> tk_redis_up (snd (vault_get_root env x)) = tk_redis_up x \<and>
      tk_memory (snd (vault_get_root env x)) = tk_memory x" for x
    using vault_up_kept(2) [of "te_vault env" "te_dumps env" "te_backend env" OAUTH_TOKEN_FERNET "tk_vault x"]
    by (auto simp: vault_get_root_def Let_def split: prod.split)
  have s: "vt_up (tk_vault (snd (vault_set_root env k x))) = vt_up (tk_vault x) \<and> tk_redis_up (snd (vault_set_root env k x)) = tk_redis_up x \<and>
      tk_memory (snd (vault_set_root env k x)) = tk_memory x" for k x
    using vault_up_kept(1) [of "te_backend env" OAUTH_TOKEN_FERNET k "tk_vault x"]
    by (auto simp: vault_set_root_def split: prod.split sum.split)
  obtain q g' where vg: "vault_get_root env (scrub_legacy_key w) = (q, g')" by fastforce
  have g': "vt_up (tk_vault g') = vt_up (tk_vault w)" "tk_redis_up g' = tk_redis_up w" "tk_memory g' = tk_memory w"
    using g [of "scrub_legacy_key w"] vg by (simp_all add: scrub_legacy_key_def split: if_splits)
  obtain q' s' where vs: "vault_set_root env (fn_generate (te_fernet env)) g' = (q', s')" by fastforce
  have s': "vt_up (tk_vault s') = vt_up (tk_vault w)" "tk_redis_up s' = tk_redis_up w" "tk_memory s' = tk_memory w"
    using s [of "fn_generate (te_fernet env)" g'] vs g' by simp_all
  have sc: "vt_up (tk_vault (scrub_legacy_key w)) = vt_up (tk_vault w)" "tk_redis_up (scrub_legacy_key w) = tk_redis_up w"
      "tk_memory (scrub_legacy_key w) = tk_memory w" by (simp_all add: scrub_legacy_key_def)
  show ?thesis
    using assms vg vs g' s' s [of _ "scrub_legacy_key w"] sc
    by (auto simp: load_root_fernet_key_def Let_def split: option.splits if_splits sum.splits prod.splits)
qed

lemma encrypt_frame:
  assumes "encrypt_token_blob env data t w = (r, w')"
  shows "vt_up (tk_vault w') = vt_up (tk_vault w) \<and> tk_redis_up w' = tk_redis_up w \<and> tk_memory w' = tk_memory w"
  using assms load_root_frame [of env w]
  by (auto simp: encrypt_token_blob_def derive_tenant_fernet_key_def Let_def split: if_splits sum.splits prod.splits)

text \<open>A store object remembers a dictionary under the same key that other objects read from Redis or the vault.\<close>

definition remembering :: "string \<Rightarrow> pydict \<Rightarrow> token_world \<Rightarrow> token_world" where
  "remembering key data w = w\<lparr>tk_memory := AList.update key data (tk_memory w)\<rparr>"

lemma set_token_encrypted:
  assumes "encrypt_token_blob env data (store_tenant sk bound key) (remembering key data w) = (Inr c, w1)"
  shows "set_token env sk bound key data w =
    (let w2 = (if tk_redis_up w then w1\<lparr>tk_redis := AList.update (redis_blob_key sk (store_tenant sk bound key) key) c (tk_redis w1)\<rparr> else w1)
     in w2\<lparr>tk_vault := snd (vault_set (te_backend env) (sk_vault_name sk (store_tenant sk bound key) key) c (tk_vault w1))\<rparr>)"
proof -
  have "store_tenant sk bound key \<noteq> []" using assms by (auto elim!: encrypt_token_blob_Inr simp: str_strip_def)
  moreover have "tk_redis_up w1 = tk_redis_up w" using encrypt_frame [OF assms] by (simp add: remembering_def)
  ultimately show ?thesis
    using assms by (simp add: set_token_def remembering_def Let_def)
qed

text \<open>
  A token that one request stored is there for the next. With Redis up and a usable root key,
  another store object for the same tenant reads back the dictionary that was stored under the key.
\<close>

theorem stored_tokens_come_back:
  assumes "fernet_works (te_fernet env) data" "tk_redis_up w"
    and "encrypt_token_blob env data (store_tenant sk bound key) (remembering key data w) = (Inr c, w1)"
  shows "fst (get_token env sk bound key (reopened (set_token env sk bound key data w))) = Some data"
proof -
  obtain root where root: "tk_root w1 = Some root" "str_strip (store_tenant sk bound key) \<noteq> []"
    and c: "c = fn_encrypt (te_fernet env) (fn_derive (te_fernet env) root (str_strip (store_tenant sk bound key))) data"
    using assms(3) by (rule encrypt_token_blob_Inr)
  have t: "store_tenant sk bound key \<noteq> []" using root(2) by (auto simp: str_strip_def)
  have up: "tk_redis_up w1" using encrypt_frame [OF assms(3)] assms(2) by (simp add: remembering_def)
  have ne: "c \<noteq> []" using assms(1) c by (simp add: fernet_works_def)
  let ?w = "reopened (set_token env sk bound key data w)"
  have r: "tk_root ?w = Some root" "read_redis (redis_blob_key sk (store_tenant sk bound key) key) ?w = Some c" "tk_memory ?w = []"
    using assms(2) up root(1) unfolding set_token_encrypted [OF assms(3)] by (simp_all add: reopened_def read_redis_def map_of_update)
  have "decrypt_token_blob env c (store_tenant sk bound key) ?w = (Inr data, ?w)"
    unfolding c using assms(1) r(1) root(2) by (rule decrypt_encrypted)
  then show ?thesis using r t ne by (simp add: get_token_def set_str_def)
qed

text \<open>
  With a remote vault a token cannot be cleared. The Azure and HashiCorp clients have no
  \<open>delete\<close>, so \<open>clear_token\<close> leaves the encrypted blob in the vault, and the next \<open>get_token\<close>, even of the
  same object, returns the token again.
\<close>

theorem cleared_tokens_come_back:
  assumes "fernet_works (te_fernet env) data" "te_backend env \<noteq> MockVault" "vt_up (tk_vault w)"
    and "te_backend env = AzureVault \<longrightarrow> azure_secret_name (sk_vault_name sk (store_tenant sk bound key) key) = Inr n"
    and "encrypt_token_blob env data (store_tenant sk bound key) (remembering key data w) = (Inr c, w1)"
  shows "fst (get_token env sk bound key (clear_token env sk bound key (set_token env sk bound key data w))) = Some data"
proof -
  let ?t = "store_tenant sk bound key" and ?name = "sk_vault_name sk (store_tenant sk bound key) key"
  obtain root where root: "tk_root w1 = Some root" "str_strip ?t \<noteq> []"
    and c: "c = fn_encrypt (te_fernet env) (fn_derive (te_fernet env) root (str_strip ?t)) data"
    using assms(5) by (rule encrypt_token_blob_Inr)
  have t: "?t \<noteq> []" using root(2) by (auto simp: str_strip_def)
  have ne: "c \<noteq> []" "c \<noteq> ''mock-secret''" using assms(1) c by (simp_all add: fernet_works_def)
  have f: "vt_up (tk_vault w1)" "tk_redis_up w1 = tk_redis_up w"
    using encrypt_frame [OF assms(5)] assms(3) by (simp_all add: remembering_def)
  obtain v where v: "vault_set (te_backend env) ?name c (tk_vault w1) = (Inr (), v)"
    using vault_set_remote_ok [OF assms(2) f(1) assms(4)] by blast
  let ?w = "clear_token env sk bound key (set_token env sk bound key data w)"
  have r: "tk_root ?w = Some root" "read_redis (redis_blob_key sk ?t key) ?w = None" "map_of (tk_memory ?w) key = None" "tk_vault ?w = v"
    using assms(2) f root(1) t v unfolding set_token_encrypted [OF assms(5)]
    by (simp_all add: clear_token_def Let_def read_redis_def map_of_delete vault_delete_def)
  have read: "read_vault env ?name ?w = (PStr c, ?w)"
    using vault_get_set_remote [OF assms(2) v] r(4) ne by (simp add: read_vault_def)
  have "decrypt_token_blob env c ?t ?w = (Inr data, ?w)"
    unfolding c using assms(1) r(1) root(2) by (rule decrypt_encrypted)
  then show ?thesis using r read t ne by (simp add: get_token_def set_str_def)
qed

subsection \<open>Examples\<close>

definition demo_vault_env :: vault_env where
  "demo_vault_env = \<lparr>ve_environment = Some ''production'', ve_setting = (\<lambda>k. if k = ''token_encryption_key'' then Some ''root'' else None),
     ve_getenv = (\<lambda>k. if k = ''SUPABASE_DB_PASSWORD'' then Some ''shared'' else None), ve_url_password = (\<lambda>_. None)\<rparr>"

text \<open>A cipher for one-entry dictionaries of strings, which writes them behind the key.\<close>

definition demo_fernet :: fernet where
  "demo_fernet = \<lparr>fn_valid = (\<lambda>k. k \<noteq> []),
     fn_encrypt = (\<lambda>k d. k @ ''|'' @ (case d of [(f, PStr v)] \<Rightarrow> f @ ''|'' @ v | _ \<Rightarrow> [])),
     fn_decrypt = (\<lambda>k c. if take (length k) c = k
       then (case split_on CHR ''|'' (drop (length k) c) of [_, f, v] \<Rightarrow> Some [(f, PStr v)] | _ \<Rightarrow> None) else None),
     fn_derive = (\<lambda>root t. root @ t), fn_generate = ''new''\<rparr>"

definition demo_token_env :: "vault_backend \<Rightarrow> token_env" where
  "demo_token_env b = \<lparr>te_fernet = demo_fernet, te_vault = demo_vault_env, te_backend = b, te_dumps = (\<lambda>_. [])\<rparr>"

definition demo_token_world :: token_world where
  "demo_token_world = \<lparr>tk_redis_up = True, tk_redis = [], tk_vault = \<lparr>vt_up = True, vt_memory = [], vt_azure = [], vt_kv = []\<rparr>,
     tk_root = None, tk_memory = []\<rparr>"

definition demo_blob :: pydict where "demo_blob = [(''access_token'', PStr ''at'')]"

lemma demo_fernet_works: "fernet_works (te_fernet (demo_token_env b)) demo_blob"
proof -
  have split: "split_on CHR ''|'' ''|access_token|at'' = [[], ''access_token'', ''at'']" by code_simp
  have "k @ ''|access_token|at'' \<noteq> ''mock-secret''" for k
  proof
    assume "k @ ''|access_token|at'' = ''mock-secret''"
    then have "CHR ''|'' \<in> set ''mock-secret''" by (metis in_set_conv_decomp)
    then show False by simp
  qed
  then show ?thesis by (simp add: fernet_works_def demo_token_env_def demo_fernet_def demo_blob_def split)
qed

definition demo_key :: string where "demo_key = google_oauth_token_key ''t'' ''u'' ''personal''"

lemma demo_encrypted:
  "\<exists>c w1. encrypt_token_blob (demo_token_env AzureVault) demo_blob (store_tenant google_keys (Some ''t'') demo_key)
     (remembering demo_key demo_blob demo_token_world) = (Inr c, w1)" (is "\<exists>c w1. ?e = _")
proof -
  have "case fst ?e of Inl _ \<Rightarrow> False | Inr _ \<Rightarrow> True" by code_simp
  then show ?thesis by (cases ?e; cases "fst ?e") auto
qed

theorem stored_tokens_come_back_witness:
  "fst (get_token (demo_token_env AzureVault) google_keys (Some ''t'') demo_key
     (reopened (set_token (demo_token_env AzureVault) google_keys (Some ''t'') demo_key demo_blob demo_token_world))) = Some demo_blob"
proof -
  obtain c w1 where e: "encrypt_token_blob (demo_token_env AzureVault) demo_blob (store_tenant google_keys (Some ''t'') demo_key)
     (remembering demo_key demo_blob demo_token_world) = (Inr c, w1)" using demo_encrypted by blast
  have up: "tk_redis_up demo_token_world" by code_simp
  show ?thesis by (rule stored_tokens_come_back [OF demo_fernet_works up e])
qed

theorem cleared_tokens_come_back_witness:
  "fst (get_token (demo_token_env AzureVault) google_keys (Some ''t'') demo_key (clear_token (demo_token_env AzureVault) google_keys (Some ''t'') demo_key
     (set_token (demo_token_env AzureVault) google_keys (Some ''t'') demo_key demo_blob demo_token_world))) = Some demo_blob"
proof -
  obtain c w1 where e: "encrypt_token_blob (demo_token_env AzureVault) demo_blob (store_tenant google_keys (Some ''t'') demo_key)
     (remembering demo_key demo_blob demo_token_world) = (Inr c, w1)" using demo_encrypted by blast
  have b: "te_backend (demo_token_env AzureVault) \<noteq> MockVault" by (simp add: demo_token_env_def)
  have up: "vt_up (tk_vault demo_token_world)" by code_simp
  have n: "te_backend (demo_token_env AzureVault) = AzureVault \<longrightarrow>
      azure_secret_name (sk_vault_name google_keys (store_tenant google_keys (Some ''t'') demo_key) demo_key) = Inr ''kv-tenant-t-google-oauth-u-personal''"
    by code_simp
  show ?thesis by (rule cleared_tokens_come_back [OF demo_fernet_works b up n e])
qed

theorem stored_secrets_are_read_back_witness:
  "fst (get_secret demo_vault_env (\<lambda>_. []) MockVault ''kv/t/db_password''
     (snd (vault_set MockVault ''kv/t/db_password'' ''own'' (tk_vault demo_token_world)))) = Inr ''shared''"
proof -
  obtain s' where s: "vault_set MockVault ''kv/t/db_password'' ''own'' (tk_vault demo_token_world) = (Inr (), s')"
    by (simp add: vault_set_def)
  have f: "tenant_db_password_fallback demo_vault_env ''kv/t/db_password'' = Some ''shared''" by code_simp
  show ?thesis using stored_secrets_are_read_back [OF s, of demo_vault_env "\<lambda>_. []"] unfolding s f by (simp add: set_str_def)
qed

end
