(* ===== verification/Connectors.thy ===== *)
theory Connectors
  imports Oauth_Links Token_Store Backfill
begin

text \<open>
  Connecting accounts: the OAuth managers (\<open>backend/app/connectors/google/oauth.py\<close>,
  \<open>microsoft/oauth.py\<close>), the provider plugins (\<open>google/plugin.py\<close>, \<open>microsoft/plugin.py\<close>) and what they share:
  the state of the connectors, the rows of \<open>tenant_connectors\<close>, and the task queue. Time stamps in token
  dictionaries are integers. A request builds its own token store, so the memory of the store starts empty.
\<close>

subsection \<open>State\<close>

record connector_row =
  tc_enabled :: bool
  tc_config :: pydict
  tc_setup_by :: uuid
  tc_credential_ref :: "string option"

text \<open>By tenant, source and connection scope, which are unique; each tenant's rows are in its own database.\<close>

type_synonym connector_table = "(uuid \<times> string \<times> string, connector_row) dict"

datatype conn_task =
    BackfillTask string string string             \<comment> \<open>\<open>backfill_tenant_source\<close>: tenant, source, user\<close>
  | AutoSyncTask string string string string      \<comment> \<open>\<open>backfill_source\<close>, with the credential reference\<close>
  | PurgeTask string string                       \<comment> \<open>\<open>purge_connector_documents_task\<close>\<close>

record conn_state =
  cx_tokens :: token_world
  cx_status :: status_store
  cx_cursors :: cursor_table
  cx_links :: link_redis
  cx_routing :: routing_state
  cx_db_up :: bool
  cx_rows :: connector_table
  cx_org_enabled :: "(uuid, bool) dict"           \<comment> \<open>\<open>google_org_workspace_enabled\<close> of the tenants\<close>
  cx_broker :: bool                               \<comment> \<open>the message broker takes tasks\<close>
  cx_queue :: "conn_task list"
  cx_index :: index_state
  cx_tick :: nat

record 's conn_env =
  ce_tokens :: token_env
  ce_vault :: vault
  ce_index :: index_settings
  ce_floats :: "'s floats"
  ce_now :: instant
  ce_random :: "nat \<Rightarrow> string"
  ce_setting :: "string \<Rightarrow> string option"
  ce_http :: "nat \<Rightarrow> pydict \<Rightarrow> (int \<times> pydict) res"           \<comment> \<open>the token endpoint: status and body\<close>
  ce_profile :: "nat \<Rightarrow> pyval \<Rightarrow> pydict res"                  \<comment> \<open>the profile behind an access token\<close>
  ce_unsubscribe :: "nat \<Rightarrow> bool"
  ce_in_time :: "nat \<Rightarrow> bool"                               \<comment> \<open>\<open>asyncio.wait_for\<close> does not time out\<close>

definition on_tokens :: "(token_world \<Rightarrow> token_world) \<Rightarrow> conn_state \<Rightarrow> conn_state" where
  "on_tokens f s = s\<lparr>cx_tokens := f (cx_tokens s)\<rparr>"

definition set_cx_status :: "string \<Rightarrow> string \<Rightarrow> string \<Rightarrow> status_update \<Rightarrow> instant \<Rightarrow> conn_state \<Rightarrow> conn_state" where
  "set_cx_status tenant_id source_type user_id u now s =
     s\<lparr>cx_status := snd (set_status tenant_id source_type user_id u now (cx_status s))\<rparr>"

definition tick :: "conn_state \<Rightarrow> conn_state" where "tick s = s\<lparr>cx_tick := Suc (cx_tick s)\<rparr>"

text \<open>\<open>task.delay\<close>.\<close>

definition delay :: "'s conn_env \<Rightarrow> conn_task \<Rightarrow> conn_state \<Rightarrow> string res \<times> conn_state" where
  "delay env t s =
     (if cx_broker s then (Inr (ce_random env (cx_tick s)), tick (s\<lparr>cx_queue := cx_queue s @ [t]\<rparr>))
      else (Inl (Raised ''OperationalError''), s))"

text \<open>The session on a tenant's database: the tenant is resolved, and the database can be reached.\<close>

definition open_tenant_db :: "'s conn_env \<Rightarrow> string \<Rightarrow> conn_state \<Rightarrow> bool \<times> conn_state" where
  "open_tenant_db env tenant_id s =
     (let (r, rs) = resolve_routing (ce_vault env) (cx_tick s) tenant_id (cx_routing s)
      in ((case r of Inr _ \<Rightarrow> cx_db_up s | Inl _ \<Rightarrow> False), s\<lparr>cx_routing := rs, cx_tick := cx_tick s + 2\<rparr>))"

subsection \<open>URLs\<close>

definition hex_upper :: "nat \<Rightarrow> char" where
  "hex_upper d = (if d < 10 then char_of (48 + d) else char_of (55 + d))"

definition url_unreserved :: "char \<Rightarrow> bool" where
  "url_unreserved c = (let n = (of_char c :: nat) in
     (48 \<le> n \<and> n \<le> 57) \<or> (65 \<le> n \<and> n \<le> 90) \<or> (97 \<le> n \<and> n \<le> 122) \<or> c \<in> {CHR ''_'', CHR ''.'', CHR ''-'', CHR ''~''})"

definition percent :: "char \<Rightarrow> string" where
  "percent c = concat (map (\<lambda>b. [CHR ''%'', hex_upper (b div 16), hex_upper (b mod 16)]) (utf8_char (of_char c)))"

definition url_quote :: "string \<Rightarrow> string" where
  "url_quote s = concat (map (\<lambda>c. if url_unreserved c \<or> c = CHR ''/'' then [c] else percent c) s)"

definition quote_plus :: "string \<Rightarrow> string" where
  "quote_plus s = concat (map (\<lambda>c. if url_unreserved c then [c] else if c = CHR '' '' then ''+'' else percent c) s)"

definition urlencode :: "(string \<times> string) list \<Rightarrow> string" where
  "urlencode params = join ''&'' (map (\<lambda>(k, v). quote_plus k @ ''='' @ quote_plus v) params)"

definition rstrip_slash :: "string \<Rightarrow> string" where
  "rstrip_slash s = str_rstrip_char CHR ''/'' s"

definition setting_or :: "'s conn_env \<Rightarrow> string \<Rightarrow> string \<Rightarrow> string" where
  "setting_or env k d = (if set_str (ce_setting env k) then the (ce_setting env k) else d)"

definition frontend_connectors_redirect :: "'s conn_env \<Rightarrow> string \<Rightarrow> string \<Rightarrow> string \<Rightarrow> string" where
  "frontend_connectors_redirect env status err provider =
     (let key = (if provider = ''microsoft'' then ''microsoft'' else ''google'');
          url = rstrip_slash (setting_or env ''frontend_url'' ''http://localhost:3000'') @ ''/connectors?'' @ key @ ''='' @ url_quote status
      in if err \<noteq> [] then url @ ''&error='' @ url_quote err else url)"

subsection \<open>The OAuth managers\<close>

record oauth_manager =
  om_keys :: store_keys
  om_token_key :: "string \<Rightarrow> string"           \<comment> \<open>from the tenant\<close>
  om_tenant_key :: "string \<Rightarrow> string"          \<comment> \<open>the key without a user\<close>
  om_principal :: string
  om_sources :: "string list"
  om_client :: pydict                           \<comment> \<open>client identifier and secret of a token request\<close>
  om_scope_field :: pydict                      \<comment> \<open>Microsoft repeats the scopes\<close>

definition google_scopes :: "string list" where
  "google_scopes = [''https://www.googleapis.com/auth/drive.readonly'', ''https://www.googleapis.com/auth/gmail.readonly'',
     ''https://www.googleapis.com/auth/userinfo.email'', ''openid'']"

definition microsoft_scopes :: "string list" where
  "microsoft_scopes = [''offline_access'', ''openid'', ''profile'', ''email'', ''User.Read'', ''Files.Read'', ''Files.Read.All'', ''Mail.Read'']"

definition google_oauth_from_settings :: "'s conn_env \<Rightarrow> string \<Rightarrow> string \<Rightarrow> oauth_manager" where
  "google_oauth_from_settings env principal_id connection_scope =
     (let principal = str_strip principal_id;
          scope = str_strip (if connection_scope = [] then ''personal'' else connection_scope)
      in \<lparr>om_keys = google_keys, om_token_key = (\<lambda>t. google_oauth_token_key t principal scope),
          om_tenant_key = (\<lambda>t. google_oauth_token_key t [] scope), om_principal = principal,
          om_sources = [''google_drive'', ''google_gmail''],
          om_client = [(''client_id'', PStr (setting_or env ''google_client_id'' [])),
                       (''client_secret'', PStr (setting_or env ''google_client_secret'' []))],
          om_scope_field = []\<rparr>)"

definition microsoft_oauth_from_settings :: "'s conn_env \<Rightarrow> string \<Rightarrow> oauth_manager" where
  "microsoft_oauth_from_settings env principal_id =
     (let principal = str_strip principal_id
      in \<lparr>om_keys = microsoft_keys, om_token_key = (\<lambda>t. microsoft_oauth_token_key t principal),
          om_tenant_key = (\<lambda>t. microsoft_oauth_token_key t []), om_principal = principal,
          om_sources = [''onedrive'', ''outlook''],
          om_client = [(''client_id'', PStr (setting_or env ''microsoft_client_id'' [])),
                       (''client_secret'', PStr (setting_or env ''microsoft_client_secret'' []))],
          om_scope_field = [(''scope'', PStr (join '' '' microsoft_scopes))]\<rparr>)"

definition google_authorization_url :: "'s conn_env \<Rightarrow> string \<Rightarrow> string \<Rightarrow> string" where
  "google_authorization_url env redirect_uri state =
     ''https://accounts.google.com/o/oauth2/v2/auth?'' @ urlencode
       ([(''client_id'', setting_or env ''google_client_id'' []), (''redirect_uri'', redirect_uri), (''response_type'', ''code''),
         (''scope'', join '' '' google_scopes), (''access_type'', ''offline''), (''prompt'', ''consent'')] @
        (if state \<noteq> [] then [(''state'', state)] else []))"

definition microsoft_authorization_url :: "'s conn_env \<Rightarrow> string \<Rightarrow> string \<Rightarrow> string" where
  "microsoft_authorization_url env redirect_uri state =
     (let tenant = str_strip (setting_or env ''microsoft_tenant'' ''common''); tenant = (if tenant = [] then ''common'' else tenant)
      in ''https://login.microsoftonline.com/'' @ tenant @ ''/oauth2/v2.0/authorize?'' @ urlencode
       ([(''client_id'', setting_or env ''microsoft_client_id'' []), (''redirect_uri'', redirect_uri), (''response_type'', ''code''),
         (''response_mode'', ''query''), (''scope'', join '' '' microsoft_scopes), (''prompt'', ''consent'')] @
        (if state \<noteq> [] then [(''state'', state)] else [])))"

definition seconds_of :: "pyval \<Rightarrow> int res" where
  "seconds_of v = (case v of PInt n \<Rightarrow> Inr n | PBool b \<Rightarrow> Inr (if b then 1 else 0) | _ \<Rightarrow> Inl (Raised ''TypeError''))"

definition with_expiry :: "instant \<Rightarrow> pydict \<Rightarrow> pydict res" where
  "with_expiry now body =
     rbind (seconds_of (dict_get body ''expires_in'' (PInt 3600))) (\<lambda>n. Inr (AList.update ''expires_at'' (PInt (now + n)) body))"

definition post_token :: "'s conn_env \<Rightarrow> pydict \<Rightarrow> conn_state \<Rightarrow> (int \<times> pydict) res \<times> conn_state" where
  "post_token env form s = (ce_http env (cx_tick s) form, tick s)"

definition put_token :: "'s conn_env \<Rightarrow> oauth_manager \<Rightarrow> string \<Rightarrow> string \<Rightarrow> pydict \<Rightarrow> conn_state \<Rightarrow> conn_state" where
  "put_token env om tenant_id key data = on_tokens (set_token (ce_tokens env) (om_keys om) (Some tenant_id) key data)"

definition find_token :: "'s conn_env \<Rightarrow> oauth_manager \<Rightarrow> string \<Rightarrow> string \<Rightarrow> conn_state \<Rightarrow> pydict option \<times> conn_state" where
  "find_token env om tenant_id key s =
     (let (d, w) = get_token (ce_tokens env) (om_keys om) (Some tenant_id) key (cx_tokens s) in (d, s\<lparr>cx_tokens := w\<rparr>))"

definition exchange_code_for_tokens ::
    "'s conn_env \<Rightarrow> oauth_manager \<Rightarrow> string \<Rightarrow> string \<Rightarrow> string \<Rightarrow> conn_state \<Rightarrow> pydict res \<times> conn_state" where
  "exchange_code_for_tokens env om tenant_id code redirect_uri s =
     (case post_token env (om_client om @ [(''code'', PStr code), (''redirect_uri'', PStr redirect_uri),
                             (''grant_type'', PStr ''authorization_code'')] @ om_scope_field om) s of
        (Inl e, s) \<Rightarrow> (Inl e, s)
      | (Inr (status, body), s) \<Rightarrow>
          if status \<noteq> 200 then (Inl (Raised ''UnauthorizedError''), s)
          else (case with_expiry (ce_now env) body of
                  Inl e \<Rightarrow> (Inl e, s)
                | Inr data \<Rightarrow> (Inr data, put_token env om tenant_id (om_token_key om tenant_id) data s)))"

definition mark_reauth :: "'s conn_env \<Rightarrow> oauth_manager \<Rightarrow> string \<Rightarrow> conn_state \<Rightarrow> conn_state" where
  "mark_reauth env om tenant_id s =
     fold (\<lambda>source. set_cx_status tenant_id source (om_principal om)
             ((status_change ''needs_reauth'')\<lparr>su_last_error := Some ''token_refresh_failed''\<rparr>) (ce_now env)) (om_sources om) s"

definition refresh_token :: "'s conn_env \<Rightarrow> oauth_manager \<Rightarrow> string \<Rightarrow> pydict \<Rightarrow> conn_state \<Rightarrow> pydict res \<times> conn_state" where
  "refresh_token env om tenant_id token_data s =
     (let refresh = pget token_data ''refresh_token'' in
      if \<not> truthy refresh then (Inl (Raised ''UnauthorizedError''), s)
      else case post_token env (om_client om @ [(''refresh_token'', refresh), (''grant_type'', PStr ''refresh_token'')] @ om_scope_field om) s of
        (Inl e, s) \<Rightarrow> (Inl e, s)
      | (Inr (status, body), s) \<Rightarrow>
          if status \<noteq> 200 then (Inl (Raised ''UnauthorizedError''), mark_reauth env om tenant_id s)
          else (case with_expiry (ce_now env) body of
                  Inl e \<Rightarrow> (Inl e, s)
                | Inr data \<Rightarrow>
                    let data = dict_setdefault ''refresh_token'' refresh data
                    in (Inr data, put_token env om tenant_id (om_token_key om tenant_id) data s)))"

definition no_token :: "pydict option \<Rightarrow> bool" where
  "no_token d = (d = None \<or> d = Some [])"

definition access_token_of :: "pydict \<Rightarrow> pyval res" where
  "access_token_of d = (case map_of d ''access_token'' of Some v \<Rightarrow> Inr v | None \<Rightarrow> Inl (Raised ''KeyError''))"

definition stored_token :: "'s conn_env \<Rightarrow> oauth_manager \<Rightarrow> string \<Rightarrow> conn_state \<Rightarrow> pydict option \<times> conn_state" where
  "stored_token env om tenant_id s =
     (let (d, s) = find_token env om tenant_id (om_token_key om tenant_id) s in
      if no_token d \<and> om_principal om \<noteq> [] then find_token env om tenant_id (om_tenant_key om tenant_id) s else (d, s))"

text \<open>A token within five minutes of its end is refreshed.\<close>

definition get_valid_token :: "'s conn_env \<Rightarrow> oauth_manager \<Rightarrow> string \<Rightarrow> conn_state \<Rightarrow> pyval res \<times> conn_state" where
  "get_valid_token env om tenant_id s =
     (let (d, s) = stored_token env om tenant_id s in
      if no_token d then (Inl (Raised ''UnauthorizedError''), s)
      else let expires_at = pget (the d) ''expires_at'' in
        if \<not> truthy expires_at then (access_token_of (the d), s)
        else case expires_at of
          PInt t \<Rightarrow>
            if t - 300 \<le> ce_now env
            then (let (r, s) = refresh_token env om tenant_id (the d) s in (rbind r access_token_of, s))
            else (access_token_of (the d), s)
        | _ \<Rightarrow> (Inl (Raised ''TypeError''), s))"

text \<open>\<open>seed_token_store_from_env\<close>: the refresh token of the process, when nothing is stored.\<close>

definition seed_token_store_from_env :: "'s conn_env \<Rightarrow> string \<Rightarrow> string option \<Rightarrow> conn_state \<Rightarrow> bool \<times> conn_state" where
  "seed_token_store_from_env env tenant_id refresh s =
     (let om = google_oauth_from_settings env [] ''personal'';
          te = ce_tokens env; (q, v) = vault_get (te_vault te) (te_dumps te) (te_backend te) GOOGLE_REFRESH_TOKEN (tk_vault (cx_tokens s));
          (rt, s) = (if set_str refresh then (the refresh, s)
                     else (case q of Inr (PStr x) \<Rightarrow> x | _ \<Rightarrow> [], on_tokens (\<lambda>w. w\<lparr>tk_vault := v\<rparr>) s));
          rt = str_strip rt
      in if rt = [] then (False, s)
         else let (d1, s) = find_token env om tenant_id (google_oauth_token_key tenant_id [] ''personal'') s;
                  (d2, s) = (if no_token d1 then find_token env om tenant_id (''google_oauth:'' @ tenant_id) s else (d1, s));
                  existing = (case d2 of Some d \<Rightarrow> d | None \<Rightarrow> [])
              in if truthy (pget existing ''refresh_token'') \<or> truthy (pget existing ''access_token'') then (False, s)
                 else (True, put_token env om tenant_id (google_oauth_token_key tenant_id [] ''personal'')
                   [(''access_token'', PStr ''pending_refresh''), (''refresh_token'', PStr rt),
                    (''expires_at'', PInt (ce_now env - 3600)), (''token_type'', PStr ''Bearer'')] s))"

subsection \<open>Rows of \<open>tenant_connectors\<close>\<close>

definition merge_dict :: "pydict \<Rightarrow> pydict \<Rightarrow> pydict" where
  "merge_dict d new = foldl (\<lambda>d (k, v). AList.update k v d) d new"

definition new_row :: "pydict \<Rightarrow> uuid \<Rightarrow> string \<Rightarrow> connector_row" where
  "new_row config actor cred = \<lparr>tc_enabled = True, tc_config = config, tc_setup_by = actor, tc_credential_ref = Some cred\<rparr>"

definition renewed_row :: "pydict \<Rightarrow> uuid \<Rightarrow> string \<Rightarrow> connector_row \<Rightarrow> connector_row" where
  "renewed_row config actor cred r =
     r\<lparr>tc_enabled := True, tc_config := config, tc_setup_by := actor, tc_credential_ref := Some cred\<rparr>"

text \<open>A personal connection merges the configuration of the row, an organization's replaces it.\<close>

definition upsert_row :: "uuid \<Rightarrow> string \<Rightarrow> pydict \<Rightarrow> uuid \<Rightarrow> string \<Rightarrow> string \<Rightarrow> connector_table \<Rightarrow> connector_table" where
  "upsert_row tenant scope config actor cred source_type rows =
     AList.update (tenant, source_type, scope)
       (case map_of rows (tenant, source_type, scope) of
          None \<Rightarrow> new_row config actor cred
        | Some r \<Rightarrow> renewed_row (if scope = ''personal'' then merge_dict (tc_config r) config else config) actor cred r) rows"

definition actor_of :: "uuid \<Rightarrow> string \<Rightarrow> uuid option" where
  "actor_of tenant user_id = (if user_id = [] then Some tenant else parse_uuid user_id)"

definition GOOGLE_SOURCES :: "string list" where "GOOGLE_SOURCES = [''google_drive'', ''google_gmail'']"
definition MICROSOFT_SOURCES :: "string list" where "MICROSOFT_SOURCES = [''onedrive'', ''outlook'']"

definition google_row_config :: "string \<Rightarrow> string \<Rightarrow> string \<Rightarrow> pydict" where
  "google_row_config scope mailbox_email user_id =
     (if scope = ''personal'' then [] else [(''credential_mode'', PStr ''oauth_admin'')]) @
     [(''mailbox_email'', PStr mailbox_email), (''connected_by'', PStr user_id)]"

text \<open>\<open>_record_connector_rows\<close> and, for the scope \<open>organization\<close>, \<open>_record_organization_connector_rows\<close>.\<close>

definition record_google_rows :: "'s conn_env \<Rightarrow> string \<Rightarrow> string \<Rightarrow> string \<Rightarrow> string \<Rightarrow> conn_state \<Rightarrow> conn_state" where
  "record_google_rows env scope tenant_id user_id mailbox_email s =
     (case parse_uuid tenant_id of
        None \<Rightarrow> s
      | Some tenant \<Rightarrow>
          (case actor_of tenant user_id of
             None \<Rightarrow> s
           | Some actor \<Rightarrow>
               (let (ok, s) = open_tenant_db env tenant_id s in
                if \<not> ok then s
                else s\<lparr>cx_rows := fold (upsert_row tenant scope (google_row_config scope mailbox_email user_id) actor
                                        (vault_google_oauth_key tenant_id user_id scope)) GOOGLE_SOURCES (cx_rows s)\<rparr>)))"

text \<open>Microsoft looks a row up by tenant and source alone; two matches raise, and nothing is committed.\<close>

definition rows_of_source :: "uuid \<Rightarrow> string \<Rightarrow> connector_table \<Rightarrow> (uuid \<times> string \<times> string) list" where
  "rows_of_source tenant source_type rows = map fst (filter (\<lambda>((t, src, _), _). t = tenant \<and> src = source_type) rows)"

fun upsert_microsoft :: "uuid \<Rightarrow> pydict \<Rightarrow> uuid \<Rightarrow> string \<Rightarrow> string list \<Rightarrow> connector_table \<Rightarrow> connector_table option" where
  "upsert_microsoft tenant config actor cred [] rows = Some rows"
| "upsert_microsoft tenant config actor cred (src # srcs) rows =
     (case rows_of_source tenant src rows of
        [] \<Rightarrow> upsert_microsoft tenant config actor cred srcs (AList.update (tenant, src, ''personal'') (new_row config actor cred) rows)
      | [k] \<Rightarrow> upsert_microsoft tenant config actor cred srcs
                (map (\<lambda>(k', r). (k', if k' = k then renewed_row (merge_dict (tc_config r) config) actor cred r else r)) rows)
      | _ \<Rightarrow> None)"

definition record_microsoft_rows :: "'s conn_env \<Rightarrow> string \<Rightarrow> string \<Rightarrow> string \<Rightarrow> conn_state \<Rightarrow> conn_state" where
  "record_microsoft_rows env tenant_id user_id mailbox_email s =
     (case parse_uuid tenant_id of
        None \<Rightarrow> s
      | Some tenant \<Rightarrow>
          (case actor_of tenant user_id of
             None \<Rightarrow> s
           | Some actor \<Rightarrow>
               (let (ok, s) = open_tenant_db env tenant_id s in
                if \<not> ok then s
                else (case upsert_microsoft tenant [(''mailbox_email'', PStr mailbox_email), (''connected_by'', PStr user_id)] actor
                             (vault_microsoft_oauth_key tenant_id user_id) MICROSOFT_SOURCES (cx_rows s) of
                        None \<Rightarrow> s | Some rows \<Rightarrow> s\<lparr>cx_rows := rows\<rparr>))))"

text \<open>\<open>_delete_personal_connector_row\<close> of the two plugins.\<close>

definition delete_google_row :: "'s conn_env \<Rightarrow> string \<Rightarrow> string \<Rightarrow> conn_state \<Rightarrow> conn_state" where
  "delete_google_row env tenant_id source_type s =
     (case parse_uuid tenant_id of
        None \<Rightarrow> s
      | Some tenant \<Rightarrow>
          (let (ok, s) = open_tenant_db env tenant_id s
           in if ok then s\<lparr>cx_rows := AList.delete (tenant, source_type, ''personal'') (cx_rows s)\<rparr> else s))"

definition delete_microsoft_row :: "'s conn_env \<Rightarrow> string \<Rightarrow> string \<Rightarrow> conn_state \<Rightarrow> conn_state" where
  "delete_microsoft_row env tenant_id source_type s =
     (case parse_uuid tenant_id of
        None \<Rightarrow> s
      | Some tenant \<Rightarrow>
          (let (ok, s) = open_tenant_db env tenant_id s in
           if \<not> ok then s
           else case rows_of_source tenant source_type (cx_rows s) of
                  [k] \<Rightarrow> s\<lparr>cx_rows := AList.delete k (cx_rows s)\<rparr> | _ \<Rightarrow> s))"

subsection \<open>The disconnect hooks\<close>

definition unconnected :: "string \<Rightarrow> string \<Rightarrow> string \<Rightarrow> conn_state \<Rightarrow> bool" where
  "unconnected tenant_id source_type user_id s =
     (cs_connection_status (get_status tenant_id source_type user_id (cx_status s)) \<in> {[], ''not_connected''})"

definition drop_watch :: "string \<Rightarrow> string \<Rightarrow> conn_state \<Rightarrow> conn_state" where
  "drop_watch scope_id source_type s = s\<lparr>cx_cursors := clear_watch_info scope_id source_type (cx_cursors s)\<rparr>"

definition drop_tokens :: "'s conn_env \<Rightarrow> store_keys \<Rightarrow> string \<Rightarrow> string list \<Rightarrow> conn_state \<Rightarrow> conn_state" where
  "drop_tokens env sk tenant_id keys = fold (\<lambda>k. on_tokens (clear_token (ce_tokens env) sk (Some tenant_id) k)) keys"

text \<open>
  The Google module names \<open>cursor_scope_id\<close> without importing it, so its hook raises in its first statement;
  what stands after that statement is the second definition.
\<close>

definition google_on_disconnect :: "string \<Rightarrow> string \<Rightarrow> string \<Rightarrow> conn_state \<Rightarrow> unit res \<times> conn_state" where
  "google_on_disconnect tenant_id user_id source_type s = (Inl (Raised ''NameError''), s)"

definition google_disconnect_cleanup :: "'s conn_env \<Rightarrow> string \<Rightarrow> string \<Rightarrow> string \<Rightarrow> string \<Rightarrow> conn_state \<Rightarrow> conn_state" where
  "google_disconnect_cleanup env scope_id tenant_id user_id source_type s =
     (let s = delete_google_row env tenant_id source_type (drop_watch scope_id source_type s);
          other = (if source_type = ''google_drive'' then ''google_gmail'' else ''google_drive'')
      in if unconnected tenant_id other user_id s
         then drop_tokens env google_keys tenant_id
           [google_oauth_token_key tenant_id user_id ''personal'', google_oauth_token_key tenant_id [] ''personal'',
            google_oauth_token_key tenant_id user_id ''personal'', google_oauth_token_key tenant_id [] ''personal''] s
         else s)"

text \<open>The remote subscription is deleted with best effort; the token this takes may be refreshed.\<close>

definition delete_subscription :: "'s conn_env \<Rightarrow> oauth_manager \<Rightarrow> string \<Rightarrow> string \<Rightarrow> string \<Rightarrow> conn_state \<Rightarrow> conn_state" where
  "delete_subscription env om tenant_id source_type user_id s =
     (let scope_id = (if user_id \<noteq> [] then tenant_id @ '':'' @ user_id else tenant_id) in
      case get_watch_info scope_id source_type (cx_cursors s) of
        None \<Rightarrow> s
      | Some watch \<Rightarrow>
          if watch = [] \<or> \<not> truthy (py_or (pget watch ''subscription_id'') (pget watch ''channel_id'')) then s
          else tick (snd (get_valid_token env om tenant_id s)))"

definition microsoft_on_disconnect :: "'s conn_env \<Rightarrow> string \<Rightarrow> string \<Rightarrow> string \<Rightarrow> conn_state \<Rightarrow> conn_state" where
  "microsoft_on_disconnect env tenant_id user_id source_type s =
     (let s = delete_subscription env (microsoft_oauth_from_settings env user_id) tenant_id source_type user_id s;
          s = drop_watch (cursor_scope_id tenant_id user_id) source_type s;
          s = delete_microsoft_row env tenant_id source_type s;
          other = (if source_type = ''onedrive'' then ''outlook'' else ''onedrive'')
      in if unconnected tenant_id other user_id s
         then drop_tokens env microsoft_keys tenant_id [microsoft_oauth_token_key tenant_id user_id, microsoft_oauth_token_key tenant_id []] s
         else s)"

subsection \<open>The OAuth callback\<close>

record callback_kind =
  cb_provider :: string
  cb_sources :: "string list"
  cb_mail_fields :: "string list"                               \<comment> \<open>where the profile has the address\<close>
  cb_force :: bool
  cb_redirect_uri :: string
  cb_manager :: "string \<Rightarrow> string \<Rightarrow> oauth_manager"            \<comment> \<open>from the user and the connection scope\<close>
  cb_record_rows :: "string \<Rightarrow> string \<Rightarrow> string \<Rightarrow> string \<Rightarrow> conn_state \<Rightarrow> conn_state"
  cb_token_key :: "string \<Rightarrow> string \<Rightarrow> string \<Rightarrow> string"       \<comment> \<open>from tenant, user and scope\<close>
  cb_credential :: "string \<Rightarrow> string \<Rightarrow> string \<Rightarrow> string"
  cb_runtime_user :: "string \<Rightarrow> string \<Rightarrow> string"

definition profile_address :: "string list \<Rightarrow> pydict \<Rightarrow> string" where
  "profile_address keys profile = py_str (foldr (\<lambda>k v. py_or (pget profile k) v) keys (PStr []))"

text \<open>\<open>_resolve_mailbox_email\<close>: the empty string for whatever is raised.\<close>

definition resolve_mailbox_email :: "'s conn_env \<Rightarrow> string list \<Rightarrow> oauth_manager \<Rightarrow> string \<Rightarrow> conn_state \<Rightarrow> string \<times> conn_state" where
  "resolve_mailbox_email env keys om tenant_id s =
     (case get_valid_token env om tenant_id s of
        (Inl _, s) \<Rightarrow> ([], s)
      | (Inr token, s) \<Rightarrow>
          (case ce_profile env (cx_tick s) token of Inl _ \<Rightarrow> [] | Inr profile \<Rightarrow> profile_address keys profile, tick s))"

definition start_sync :: "'s conn_env \<Rightarrow> bool \<Rightarrow> string \<Rightarrow> string \<Rightarrow> string \<Rightarrow> string \<Rightarrow> conn_state \<Rightarrow> conn_state" where
  "start_sync env force tenant_id runtime_user_id credential source_type s =
     (let s = set_cx_status tenant_id source_type runtime_user_id
                ((status_change ''syncing'')\<lparr>su_last_error := Some [], su_force := force\<rparr>) (ce_now env) s
      in case delay env (AutoSyncTask tenant_id source_type runtime_user_id credential) s of
           (Inr _, s) \<Rightarrow> s
         | (Inl _, s) \<Rightarrow> set_cx_status tenant_id source_type runtime_user_id
             ((status_change ''error'')\<lparr>su_last_error := Some ''celery_enqueue_failed'', su_force := force\<rparr>) (ce_now env) s)"

text \<open>From the payload of the state on.\<close>

definition connect_account ::
    "'s conn_env \<Rightarrow> callback_kind \<Rightarrow> string \<Rightarrow> string \<Rightarrow> string \<Rightarrow> string \<Rightarrow> conn_state \<Rightarrow> string \<times> conn_state" where
  "connect_account env kind code tenant_id user_id connection_scope s =
     (let om = cb_manager kind user_id connection_scope;
          redirect = (\<lambda>status err. frontend_connectors_redirect env status err (cb_provider kind)) in
      case exchange_code_for_tokens env om tenant_id code (cb_redirect_uri kind) s of
        (Inl _, s) \<Rightarrow> (redirect ''error'' ''token_exchange_failed'', s)
      | (Inr token_data, s) \<Rightarrow>
          (let (mailbox_email, s) = resolve_mailbox_email env (cb_mail_fields kind) om tenant_id s;
               merged = (if mailbox_email \<noteq> [] then AList.update ''mailbox_email'' (PStr mailbox_email) token_data else token_data);
               s = put_token env om tenant_id (cb_token_key kind tenant_id user_id connection_scope) (AList.update ''connected_by'' (PStr user_id) merged) s;
               s = cb_record_rows kind connection_scope tenant_id user_id mailbox_email s;
               s = fold (start_sync env (cb_force kind) tenant_id (cb_runtime_user kind user_id connection_scope)
                           (cb_credential kind tenant_id user_id connection_scope)) (cb_sources kind) s
           in (redirect ''connected'' [], s)))"

definition google_redirect_uri :: "'s conn_env \<Rightarrow> string" where
  "google_redirect_uri env = rstrip_slash (setting_or env ''google_redirect_uri'' ''http://localhost:8000/connectors/google/callback'')"

definition microsoft_redirect_uri :: "'s conn_env \<Rightarrow> string" where
  "microsoft_redirect_uri env =
     rstrip_slash (setting_or env ''microsoft_redirect_uri'' ''http://localhost:8000/connectors/microsoft/callback'')"

definition google_kind :: "'s conn_env \<Rightarrow> callback_kind" where
  "google_kind env =
     \<lparr>cb_provider = ''google'', cb_sources = GOOGLE_SOURCES, cb_mail_fields = [''emailAddress''], cb_force = False,
      cb_redirect_uri = google_redirect_uri env, cb_manager = google_oauth_from_settings env,
      cb_record_rows = (\<lambda>scope. record_google_rows env (if scope = ''organization'' then ''organization'' else ''personal'')),
      cb_token_key = google_oauth_token_key, cb_credential = vault_google_oauth_key,
      cb_runtime_user = (\<lambda>user_id scope. if scope = ''organization'' then ''organization'' else user_id)\<rparr>"

definition microsoft_kind :: "'s conn_env \<Rightarrow> callback_kind" where
  "microsoft_kind env =
     \<lparr>cb_provider = ''microsoft'', cb_sources = MICROSOFT_SOURCES, cb_mail_fields = [''mail'', ''userPrincipalName''], cb_force = True,
      cb_redirect_uri = microsoft_redirect_uri env, cb_manager = (\<lambda>user_id _. microsoft_oauth_from_settings env user_id),
      cb_record_rows = (\<lambda>_. record_microsoft_rows env),
      cb_token_key = (\<lambda>tenant_id user_id _. microsoft_oauth_token_key tenant_id user_id),
      cb_credential = (\<lambda>tenant_id user_id _. vault_microsoft_oauth_key tenant_id user_id), cb_runtime_user = (\<lambda>user_id _. user_id)\<rparr>"

definition fresh_store :: "conn_state \<Rightarrow> conn_state" where
  "fresh_store s = on_tokens reopened s"

text \<open>
  \<open>google_oauth_callback\<close> and the \<open>handle_oauth_callback\<close> of Microsoft. The route asks for no token: all it
  knows of the caller is the state. \<open>Inr\<close> is the URL the browser is sent to.
\<close>

definition oauth_callback ::
    "'s::zero conn_env \<Rightarrow> callback_kind \<Rightarrow> string option \<Rightarrow> string option \<Rightarrow> string option \<Rightarrow> conn_state \<Rightarrow> string res \<times> conn_state" where
  "oauth_callback env kind code state err s =
     (let redirect = (\<lambda>e. frontend_connectors_redirect env ''error'' e (cb_provider kind)) in
      if set_str err then (Inr (redirect (the err)), s)
      else if \<not> set_str code \<or> \<not> set_str state then (Inr (redirect ''missing_code_or_state''), s)
      else case decode_oauth_state (ce_floats env) (ce_now env) (the state) (cx_links s) of
        (Inl e, rd) \<Rightarrow> (Inl e, s\<lparr>cx_links := rd\<rparr>)
      | (Inr None, rd) \<Rightarrow> (Inr (redirect ''invalid_state''), s\<lparr>cx_links := rd\<rparr>)
      | (Inr (Some payload), rd) \<Rightarrow>
          (let show = j_str (fl_repr (ce_floats env));
               (url, s) = connect_account env kind (the code) (show (jget payload ''tenant_id'')) (show (jget payload ''user_id''))
                            (show (jor (jget payload ''connection_scope'') (JStr ''personal''))) (fresh_store (s\<lparr>cx_links := rd\<rparr>))
           in (Inr url, s)))"

definition google_oauth_callback ::
    "'s::zero conn_env \<Rightarrow> string option \<Rightarrow> string option \<Rightarrow> string option \<Rightarrow> conn_state \<Rightarrow> string res \<times> conn_state" where
  "google_oauth_callback env = oauth_callback env (google_kind env)"

definition microsoft_oauth_callback ::
    "'s::zero conn_env \<Rightarrow> string option \<Rightarrow> string option \<Rightarrow> string option \<Rightarrow> conn_state \<Rightarrow> string res \<times> conn_state" where
  "microsoft_oauth_callback env = oauth_callback env (microsoft_kind env)"

end
