(* ===== verification/Connector_Routes.thy ===== *)
theory Connector_Routes
  imports Connectors
begin

text \<open>
  The routes of \<open>backend/app/connectors/router.py\<close>, from the payload of the caller's token and the routing of
  the tenant on, which the dependencies of the routes (theory \<open>Oauth\<close>, theory \<open>Routing\<close>) provide. Details of
  errors that quote an exception are cut before the quotation.
\<close>

text \<open>\<open>tenant_id\<close> of the token, when it is the tenant that was resolved.\<close>

definition own_tenant :: "pydict \<Rightarrow> tenant_routing \<Rightarrow> string option" where
  "own_tenant current_user tenant =
     (case pget current_user ''tenant_id'' of
        PStr t \<Rightarrow> if t \<noteq> [] \<and> tr_tenant_id tenant = t then Some t else None
      | _ \<Rightarrow> None)"

text \<open>The same where the route compares with \<open>str(tenant_id)\<close>.\<close>

definition own_tenant_str :: "pydict \<Rightarrow> tenant_routing \<Rightarrow> string option" where
  "own_tenant_str current_user tenant =
     (let v = pget current_user ''tenant_id'' in
      if truthy v \<and> tr_tenant_id tenant = py_str v then Some (py_str v) else None)"

definition cross_tenant :: exn where "cross_tenant = HTTPException 403 ''Cross-tenant execution rejected''"

definition route_user_id :: "pydict \<Rightarrow> string" where
  "route_user_id current_user = py_str (py_or (pget current_user ''sub'') (py_or (pget current_user ''principal_id'') (PStr [])))"

definition queued_answer :: "string \<Rightarrow> string \<Rightarrow> string \<Rightarrow> pydict" where
  "queued_answer task_id tenant_id source_type =
     [(''status'', PStr ''queued''), (''task_id'', PStr task_id), (''tenant_id'', PStr tenant_id), (''source_type'', PStr source_type)]"

subsection \<open>Backfills\<close>

definition queue_backfill :: "'s conn_env \<Rightarrow> bool \<Rightarrow> string \<Rightarrow> string \<Rightarrow> string \<Rightarrow> conn_state \<Rightarrow> pydict res \<times> conn_state" where
  "queue_backfill env force tenant_id source_type user_id s =
     (let s = set_cx_status tenant_id source_type user_id
                ((status_change ''syncing'')\<lparr>su_last_error := Some [], su_force := force\<rparr>) (ce_now env) s
      in case delay env (BackfillTask tenant_id source_type user_id) s of
           (Inl e, s) \<Rightarrow> (Inl e, s)
         | (Inr task_id, s) \<Rightarrow> (Inr (queued_answer task_id tenant_id source_type), s))"

definition trigger_backfill ::
    "'s conn_env \<Rightarrow> string \<Rightarrow> pydict \<Rightarrow> tenant_routing \<Rightarrow> conn_state \<Rightarrow> pydict res \<times> conn_state" where
  "trigger_backfill env source_type current_user tenant s =
     (case own_tenant current_user tenant of
        None \<Rightarrow> (Inl cross_tenant, s)
      | Some tenant_id \<Rightarrow> queue_backfill env True tenant_id source_type (route_user_id current_user) s)"

definition trigger_organization_backfill ::
    "'s conn_env \<Rightarrow> string \<Rightarrow> pydict \<Rightarrow> tenant_routing \<Rightarrow> conn_state \<Rightarrow> pydict res \<times> conn_state" where
  "trigger_organization_backfill env source_type current_user tenant s =
     (case own_tenant current_user tenant of
        None \<Rightarrow> (Inl cross_tenant, s)
      | Some tenant_id \<Rightarrow>
          if source_type \<notin> set GOOGLE_SOURCES then (Inl (HTTPException 400 (''Invalid source_type: '' @ source_type)), s)
          else queue_backfill env False tenant_id source_type ''organization'' s)"

subsection \<open>The organization's service account\<close>

definition service_account_ok :: "'s jval option \<Rightarrow> bool" where
  "service_account_ok info =
     (case info of
        Some (JDict d) \<Rightarrow> list_all (\<lambda>k. k \<in> fst ` set d) [''project_id'', ''private_key_id'', ''private_key'']
      | _ \<Rightarrow> False)"

definition read_service_account :: "'s conn_env \<Rightarrow> string \<Rightarrow> conn_state \<Rightarrow> bool \<times> conn_state" where
  "read_service_account env vault_key s =
     (let te = ce_tokens env; (r, v) = get_secret (te_vault te) (te_dumps te) (te_backend te) vault_key (tk_vault (cx_tokens s))
      in (case r of Inl _ \<Rightarrow> False | Inr raw \<Rightarrow> service_account_ok (json_loads (ce_floats env) raw),
          on_tokens (\<lambda>w. w\<lparr>tk_vault := v\<rparr>) s))"

definition organization_row :: "uuid \<Rightarrow> uuid \<Rightarrow> string \<Rightarrow> string \<Rightarrow> string \<Rightarrow> connector_table \<Rightarrow> connector_table" where
  "organization_row tenant actor impersonate_email vault_key =
     upsert_row tenant ''organization'' [(''credential_mode'', PStr ''service_account_dwd''),
       (''impersonate_user_email'', PStr impersonate_email)] actor vault_key"

definition connect_organization_connector ::
    "'s conn_env \<Rightarrow> string \<Rightarrow> string \<Rightarrow> pydict \<Rightarrow> tenant_routing \<Rightarrow> conn_state \<Rightarrow> pydict res \<times> conn_state" where
  "connect_organization_connector env vault_key impersonate_email current_user tenant s =
     (case own_tenant current_user tenant of
        None \<Rightarrow> (Inl cross_tenant, s)
      | Some tenant_id \<Rightarrow>
          let who = py_or (pget current_user ''sub'') (py_or (pget current_user ''principal_id'') (PStr tenant_id));
              failed = Inl (HTTPException 500 ''Connection failed'') in
          case (parse_uuid tenant_id, case who of PStr w \<Rightarrow> parse_uuid w | _ \<Rightarrow> None) of
            (Some t, Some actor) \<Rightarrow>
              (let (ok, s) = read_service_account env vault_key s in
               if \<not> ok then (Inl (HTTPException 400 ''Invalid vault secret''), s)
               else let (ok, s) = open_tenant_db env tenant_id s in
                 if \<not> ok then (failed, s)
                 else (Inr [(''status'', PStr ''connected''), (''tenant_id'', PStr tenant_id), (''vault_key'', PStr vault_key)],
                       s\<lparr>cx_rows := fold (organization_row t actor impersonate_email vault_key) GOOGLE_SOURCES (cx_rows s)\<rparr>))
          | _ \<Rightarrow> (failed, s))"

text \<open>The purge runs in this process, against its clock, when the broker takes no task.\<close>

definition purge_here :: "'s conn_env \<Rightarrow> string \<Rightarrow> string \<Rightarrow> conn_state \<Rightarrow> conn_state" where
  "purge_here env tenant_id source_type s =
     (case parse_uuid tenant_id of
        None \<Rightarrow> s
      | Some _ \<Rightarrow>
          (let (ok, s) = open_tenant_db env tenant_id s in
           if ok \<and> ce_in_time env (cx_tick s)
           then s\<lparr>cx_index := snd (delete_by_source (ce_index env) tenant_id source_type (cx_index s))\<rparr> else s))"

definition purge_source :: "'s conn_env \<Rightarrow> string \<Rightarrow> string \<Rightarrow> conn_state \<Rightarrow> conn_state" where
  "purge_source env tenant_id source_type s =
     (case delay env (PurgeTask tenant_id source_type) s of
        (Inr _, s) \<Rightarrow> s | (Inl _, s) \<Rightarrow> purge_here env tenant_id source_type s)"

definition clear_cx_status :: "string \<Rightarrow> string \<Rightarrow> string \<Rightarrow> conn_state \<Rightarrow> conn_state" where
  "clear_cx_status tenant_id user_id source_type s =
     s\<lparr>cx_status := snd (clear_status tenant_id source_type user_id (cx_status s))\<rparr>"

definition delete_organization_rows :: "'s conn_env \<Rightarrow> string \<Rightarrow> uuid \<Rightarrow> conn_state \<Rightarrow> conn_state" where
  "delete_organization_rows env tenant_id t s =
     (if \<not> ce_in_time env (cx_tick s) then s
      else let (ok, s) = open_tenant_db env tenant_id s in
        if ok then s\<lparr>cx_rows := fold (\<lambda>src. AList.delete (t, src, ''organization'')) GOOGLE_SOURCES (cx_rows s)\<rparr> else s)"

definition disconnect_organization_connector ::
    "'s conn_env \<Rightarrow> pydict \<Rightarrow> tenant_routing \<Rightarrow> conn_state \<Rightarrow> pydict res \<times> conn_state" where
  "disconnect_organization_connector env current_user tenant s =
     (case own_tenant current_user tenant of
        None \<Rightarrow> (Inl cross_tenant, s)
      | Some tenant_id \<Rightarrow>
          let s = fold (clear_cx_status tenant_id ''organization'') GOOGLE_SOURCES s in
          case parse_uuid tenant_id of
            None \<Rightarrow> (Inl (HTTPException 500 ''Disconnection failed''), s)
          | Some t \<Rightarrow>
              let s = delete_organization_rows env tenant_id t s;
                  s = fold (purge_source env tenant_id) GOOGLE_SOURCES s
              in (Inr [(''status'', PStr ''disconnected''), (''tenant_id'', PStr tenant_id)], s))"

definition toggle_organization_connector :: "bool \<Rightarrow> pydict \<Rightarrow> tenant_routing \<Rightarrow> conn_state \<Rightarrow> pydict res \<times> conn_state" where
  "toggle_organization_connector enabled current_user tenant s =
     (case own_tenant current_user tenant of
        None \<Rightarrow> (Inl cross_tenant, s)
      | Some tenant_id \<Rightarrow>
          case parse_uuid tenant_id of
            None \<Rightarrow> (Inl (HTTPException 500 ''Toggle failed''), s)
          | Some t \<Rightarrow>
              (Inr [(''status'', PStr ''toggled''), (''tenant_id'', PStr tenant_id), (''enabled'', PBool enabled)],
               if t \<in> fst ` set (cx_org_enabled s) then s\<lparr>cx_org_enabled := AList.update t enabled (cx_org_enabled s)\<rparr> else s))"

subsection \<open>Status\<close>

record status_answer =
  sw_tenant_id :: string
  sw_source_type :: string
  sw_cursor :: "string option"
  sw_watch_active :: bool
  sw_connection_status :: string
  sw_files_indexed :: int
  sw_last_sync_at :: "instant option"
  sw_last_error :: "string option"
  sw_org_enabled :: "bool option"
  sw_connected :: "bool option"
  sw_token_present :: "bool option"
  sw_watch_info :: "pydict option"

definition or_not_connected :: "string \<Rightarrow> string" where
  "or_not_connected c = (if c = [] then ''not_connected'' else c)"

definition organization_row_of ::
    "'s conn_env \<Rightarrow> string \<Rightarrow> uuid \<Rightarrow> string \<Rightarrow> conn_state \<Rightarrow> connector_row option \<times> conn_state" where
  "organization_row_of env tenant_id t source_type s =
     (let (ok, s) = open_tenant_db env tenant_id s
      in (if ok then map_of (cx_rows s) (t, source_type, ''organization'') else None, s))"

definition get_organization_connector_status ::
    "'s conn_env \<Rightarrow> string \<Rightarrow> pydict \<Rightarrow> conn_state \<Rightarrow> status_answer res \<times> conn_state" where
  "get_organization_connector_status env source_type current_user s =
     (let v = pget current_user ''tenant_id'' in
      if \<not> truthy v then (Inl (HTTPException 401 ''Token missing tenant_id claim''), s)
      else case v of
        PStr tenant_id \<Rightarrow>
          (case parse_uuid tenant_id of
             None \<Rightarrow> (Inl (HTTPException 400 ''Invalid tenant ID format''), s)
           | Some t \<Rightarrow>
               (let org_enabled = (map_of (cx_org_enabled s) t = Some True);
                    (row, s) = (if org_enabled then organization_row_of env tenant_id t source_type s else (None, s));
                    (cursor, watch_info) = get_cursor_and_watch (tenant_id @ ''_organization'') source_type (cx_cursors s);
                    runtime = get_status tenant_id source_type ''organization'' (cx_status s);
                    c = or_not_connected (cs_connection_status runtime);
                    connection_status =
                      (if row = None then ''not_connected''
                       else if c = ''not_connected'' \<and> org_enabled \<and> set_str cursor then ''active'' else c)
                in (Inr \<lparr>sw_tenant_id = tenant_id, sw_source_type = source_type, sw_cursor = cursor,
                         sw_watch_active = (watch_info \<noteq> None), sw_connection_status = connection_status,
                         sw_files_indexed = cs_files_indexed runtime, sw_last_sync_at = cs_last_sync_at runtime,
                         sw_last_error = cs_last_error runtime, sw_org_enabled = Some org_enabled,
                         sw_connected = Some (row \<noteq> None), sw_token_present = None,
                         sw_watch_info = (if watch_info = Some [] then None else watch_info)\<rparr>, s)))
      | _ \<Rightarrow> (Inl (Raised ''AttributeError''), s))"

definition google_token_present :: "'s conn_env \<Rightarrow> string \<Rightarrow> string \<Rightarrow> string \<Rightarrow> conn_state \<Rightarrow> bool \<times> conn_state" where
  "google_token_present env tenant_id user_id connection_scope s =
     (let om = google_oauth_from_settings env [] ''personal'';
          (d, s) = find_token env om tenant_id (google_oauth_token_key tenant_id user_id connection_scope) s
      in if d \<noteq> None then (True, s)
         else let (d, s) = find_token env om tenant_id (google_oauth_token_key tenant_id [] connection_scope) s in (d \<noteq> None, s))"

definition microsoft_has_token :: "'s conn_env \<Rightarrow> string \<Rightarrow> string \<Rightarrow> conn_state \<Rightarrow> bool \<times> conn_state" where
  "microsoft_has_token env tenant_id user_id s =
     (let om = microsoft_oauth_from_settings env [];
          (d, s) = find_token env om tenant_id (microsoft_oauth_token_key tenant_id user_id) s
      in if d \<noteq> None then (True, s)
         else let (d, s) = find_token env om tenant_id (microsoft_oauth_token_key tenant_id []) s in (d \<noteq> None, s))"

definition microsoft_watch_info :: "string \<Rightarrow> string \<Rightarrow> cursor_table \<Rightarrow> pydict option" where
  "microsoft_watch_info scope_id source_type t =
     (case get_watch_info scope_id source_type t of
        None \<Rightarrow> None
      | Some w \<Rightarrow> if w = [] then None
                  else Some [(''tenant_id'', PStr scope_id), (''source_type'', PStr source_type), (''watch_data'', PDict w)])"

definition found_watch :: "string \<Rightarrow> string \<Rightarrow> string \<Rightarrow> string \<Rightarrow> pydict option \<Rightarrow> cursor_table \<Rightarrow> pydict option" where
  "found_watch tenant_id scope_id source_type connection_scope watch_info t =
     (if source_type \<in> set MICROSOFT_SOURCES then microsoft_watch_info scope_id source_type t
      else if (watch_info = None \<or> watch_info = Some []) \<and> connection_scope \<noteq> ''personal'' then get_watch_info tenant_id source_type t
      else watch_info)"

definition get_connector_status ::
    "'s conn_env \<Rightarrow> string \<Rightarrow> string \<Rightarrow> pydict \<Rightarrow> conn_state \<Rightarrow> status_answer res \<times> conn_state" where
  "get_connector_status env source_type connection_scope current_user s =
     (case pget current_user ''tenant_id'' of
        PStr tenant_id \<Rightarrow>
          if tenant_id = [] then (Inl (HTTPException 401 ''Token missing tenant_id claim''), s)
          else
            let user_id = route_user_id current_user; personal = (connection_scope = ''personal'');
                scope_id = (if personal then cursor_scope_id tenant_id user_id else tenant_id @ ''_organization'');
                (cursor, watch_info) = get_cursor_and_watch scope_id source_type (cx_cursors s);
                watch_info = found_watch tenant_id scope_id source_type connection_scope watch_info (cx_cursors s);
                runtime_user_id = (if personal then user_id else ''organization'');
                runtime_raw = get_status_raw tenant_id source_type runtime_user_id (cx_status s);
                runtime = get_status tenant_id source_type runtime_user_id (cx_status s);
                (has_token, s) =
                  (if source_type \<in> set MICROSOFT_SOURCES then microsoft_has_token env tenant_id user_id (fresh_store s)
                   else google_token_present env tenant_id user_id connection_scope (fresh_store s));
                connection_status =
                  (if runtime_raw = None
                   then (if set_str cursor then ''active'' else if has_token then ''syncing'' else ''not_connected'')
                   else or_not_connected (cs_connection_status runtime));
                off = (connection_status = ''not_connected'');
                watch_info = (if off \<or> watch_info = Some [] then None else watch_info)
            in (Inr \<lparr>sw_tenant_id = tenant_id, sw_source_type = source_type, sw_cursor = (if off then None else cursor),
                     sw_watch_active = (watch_info \<noteq> None), sw_connection_status = connection_status,
                     sw_files_indexed = cs_files_indexed runtime, sw_last_sync_at = cs_last_sync_at runtime,
                     sw_last_error = cs_last_error runtime, sw_org_enabled = None, sw_connected = None,
                     sw_token_present = Some (has_token \<and> \<not> off), sw_watch_info = watch_info\<rparr>, s)
      | v \<Rightarrow> (Inl (if truthy v then Raised ''ValidationError'' else HTTPException 401 ''Token missing tenant_id claim''), s))"

subsection \<open>Disconnecting\<close>

definition run_on_disconnect :: "'s conn_env \<Rightarrow> string \<Rightarrow> string \<Rightarrow> string \<Rightarrow> conn_state \<Rightarrow> conn_state" where
  "run_on_disconnect env tenant_id user_id source_type s =
     (if source_type \<in> set GOOGLE_SOURCES then snd (google_on_disconnect tenant_id user_id source_type s)
      else if source_type \<in> set MICROSOFT_SOURCES then microsoft_on_disconnect env tenant_id user_id source_type s
      else s)"

definition reset_connector_cursor :: "'s conn_env \<Rightarrow> string \<Rightarrow> string \<Rightarrow> conn_state \<Rightarrow> conn_state" where
  "reset_connector_cursor env scope_id source_type s =
     (if ce_in_time env (cx_tick s)
      then s\<lparr>cx_cursors := update_cursor scope_id source_type [] (ce_now env) (cx_cursors s)\<rparr> else s)"

definition disconnect_connector ::
    "'s conn_env \<Rightarrow> string \<Rightarrow> pydict \<Rightarrow> tenant_routing \<Rightarrow> conn_state \<Rightarrow> pydict res \<times> conn_state" where
  "disconnect_connector env source_type current_user tenant s =
     (case own_tenant current_user tenant of
        None \<Rightarrow> (Inl cross_tenant, s)
      | Some tenant_id \<Rightarrow>
          let user_id = route_user_id current_user; scope_id = cursor_scope_id tenant_id user_id;
              s = clear_cx_status tenant_id user_id source_type s;
              s = reset_connector_cursor env scope_id source_type s;
              s = run_on_disconnect env tenant_id user_id source_type (fresh_store s);
              s = purge_source env tenant_id source_type s
          in (Inr [(''status'', PStr ''disconnected''), (''tenant_id'', PStr tenant_id), (''source_type'', PStr source_type)], s))"

subsection \<open>Authorization links\<close>

definition get_google_authorize_url ::
    "'s conn_env \<Rightarrow> string \<Rightarrow> pydict \<Rightarrow> tenant_routing \<Rightarrow> conn_state \<Rightarrow> pydict res \<times> conn_state" where
  "get_google_authorize_url env connection_scope current_user tenant s =
     (case own_tenant_str current_user tenant of
        None \<Rightarrow> (Inl cross_tenant, s)
      | Some tenant_id \<Rightarrow>
          if \<not> set_str (ce_setting env ''google_client_id'') then (Inl (HTTPException 503 ''GOOGLE_CLIENT_ID is not configured''), s)
          else let (state, rd) = encode_oauth_state (ce_random env (cx_tick s)) (ce_now env) tenant_id (route_user_id current_user)
                                   connection_scope (cx_links s)
               in (Inr [(''authorization_url'', PStr (google_authorization_url env (google_redirect_uri env) state)),
                        (''tenant_id'', pget current_user ''tenant_id''), (''connection_scope'', PStr connection_scope)],
                   tick (s\<lparr>cx_links := rd\<rparr>)))"

definition get_microsoft_authorize_url ::
    "'s conn_env \<Rightarrow> pydict \<Rightarrow> tenant_routing \<Rightarrow> conn_state \<Rightarrow> pydict res \<times> conn_state" where
  "get_microsoft_authorize_url env current_user tenant s =
     (case own_tenant_str current_user tenant of
        None \<Rightarrow> (Inl cross_tenant, s)
      | Some tenant_id \<Rightarrow>
          if \<not> set_str (ce_setting env ''microsoft_client_id'') then (Inl (HTTPException 503 ''MICROSOFT_CLIENT_ID is not configured''), s)
          else let (state, rd) = encode_oauth_state (ce_random env (cx_tick s)) (ce_now env) tenant_id (route_user_id current_user)
                                   ''personal'' (cx_links s)
               in (Inr [(''authorization_url'', PStr (microsoft_authorization_url env (microsoft_redirect_uri env) state)),
                        (''tenant_id'', PStr tenant_id)],
                   tick (s\<lparr>cx_links := rd\<rparr>)))"

end
