(* ===== verification/Connector_Safety.thy ===== *)
theory Connector_Safety
  imports Connector_Routes
begin

text \<open>
  What the connector routes guarantee, and what they do not: requests that write stay in the caller's tenant;
  a member learns of the organization's connection only while it is enabled; a disconnect of a Google source
  leaves the account behind; and the callback trusts a state for the nonce in it alone.
\<close>

subsection \<open>Staying in the tenant\<close>

fun task_tenant :: "conn_task \<Rightarrow> string" where
  "task_tenant (BackfillTask tenant_id _ _) = tenant_id"
| "task_tenant (AutoSyncTask tenant_id _ _ _) = tenant_id"
| "task_tenant (PurgeTask tenant_id _) = tenant_id"

text \<open>Rows and flags of other tenants are as they were, and the tasks that were queued name this one.\<close>

definition confined :: "string \<Rightarrow> conn_state \<Rightarrow> conn_state \<Rightarrow> bool" where
  "confined tenant_id s s' \<longleftrightarrow>
     (\<forall>t src scope. parse_uuid tenant_id \<noteq> Some t \<longrightarrow> map_of (cx_rows s') (t, src, scope) = map_of (cx_rows s) (t, src, scope)) \<and>
     (\<forall>t. parse_uuid tenant_id \<noteq> Some t \<longrightarrow> map_of (cx_org_enabled s') t = map_of (cx_org_enabled s) t) \<and>
     (\<exists>ts. cx_queue s' = cx_queue s @ ts \<and> (\<forall>t \<in> set ts. task_tenant t = tenant_id))"

lemma confined_refl [simp]: "confined tenant_id s s"
  by (simp add: confined_def)

lemma confined_trans [trans]:
  assumes "confined tenant_id s s1" "confined tenant_id s1 s2"
  shows "confined tenant_id s s2"
proof -
  from assms obtain ts us where "cx_queue s1 = cx_queue s @ ts" "cx_queue s2 = cx_queue s1 @ us"
    "\<forall>t \<in> set ts. task_tenant t = tenant_id" "\<forall>t \<in> set us. task_tenant t = tenant_id"
    unfolding confined_def by blast
  then have "\<exists>ts. cx_queue s2 = cx_queue s @ ts \<and> (\<forall>t \<in> set ts. task_tenant t = tenant_id)"
    by (intro exI [of _ "ts @ us"]) auto
  with assms show ?thesis unfolding confined_def by simp
qed

lemma confined_same:
  assumes "cx_rows s' = cx_rows s" "cx_org_enabled s' = cx_org_enabled s" "cx_queue s' = cx_queue s"
  shows "confined tenant_id s s'"
  using assms by (simp add: confined_def)

lemma confined_fold:
  assumes "\<And>x s. confined tenant_id s (f x s)"
  shows "confined tenant_id s (fold f xs s)"
proof (induction xs arbitrary: s)
  case (Cons x xs)
  have "confined tenant_id s (f x s)" by (rule assms)
  also have "confined tenant_id (f x s) (fold f xs (f x s))" by (rule Cons.IH)
  finally show ?case by simp
qed simp

lemma confined_tokens [simp]: "confined tenant_id s (on_tokens f s)"
  by (rule confined_same) (simp_all add: on_tokens_def)

lemma confined_tick [simp]: "confined tenant_id s (tick s)"
  by (rule confined_same) (simp_all add: tick_def)

lemma confined_status [simp]: "confined tenant_id s (set_cx_status t src u up now s)" "confined tenant_id s (clear_cx_status t u src s)"
  by (rule confined_same; simp add: set_cx_status_def clear_cx_status_def)+

lemma open_tenant_db_frame:
  assumes "open_tenant_db env t s = (ok, s')"
  shows "cx_rows s' = cx_rows s \<and> cx_org_enabled s' = cx_org_enabled s \<and> cx_queue s' = cx_queue s \<and> cx_tokens s' = cx_tokens s \<and>
    cx_status s' = cx_status s \<and> cx_cursors s' = cx_cursors s \<and> cx_index s' = cx_index s \<and> cx_links s' = cx_links s"
  using assms by (auto simp: open_tenant_db_def Let_def split: prod.splits)

lemma confined_open: "open_tenant_db env t s = (ok, s') \<Longrightarrow> confined tenant_id s s'"
  by (drule open_tenant_db_frame, rule confined_same) simp_all

lemma confined_delay:
  assumes "delay env task s = (r, s')" "task_tenant task = tenant_id"
  shows "confined tenant_id s s'"
  using assms by (auto simp: delay_def tick_def confined_def split: if_splits)

lemma confined_rows:
  assumes "parse_uuid tenant_id = Some t" "\<And>k. fst k \<noteq> t \<Longrightarrow> map_of rows k = map_of (cx_rows s) k"
  shows "confined tenant_id s (s\<lparr>cx_rows := rows\<rparr>)"
  using assms by (simp add: confined_def)

lemma upsert_rows_other:
  "fst k \<noteq> t \<Longrightarrow> map_of (fold (upsert_row t scope config actor cred) srcs rows) k = map_of rows k"
  by (induction srcs arbitrary: rows) (auto simp: upsert_row_def map_of_update)

lemma delete_rows_other:
  "fst k \<noteq> t \<Longrightarrow> map_of (fold (\<lambda>src. AList.delete (t, src, scope)) srcs rows) k = map_of rows k"
  by (induction srcs arbitrary: rows) (auto simp: map_of_delete)

lemma confined_purge: "confined tenant_id s (purge_source env tenant_id src s)"
proof -
  obtain r s1 where d: "delay env (PurgeTask tenant_id src) s = (r, s1)" by fastforce
  have c1: "confined tenant_id s s1" using d by (rule confined_delay) simp
  obtain ok s2 where o: "open_tenant_db env tenant_id s1 = (ok, s2)" by fastforce
  have "confined tenant_id s1 s2" using o by (rule confined_open)
  moreover have "confined tenant_id s2 (s2\<lparr>cx_index := ix\<rparr>)" for ix by (rule confined_same) simp_all
  ultimately have "confined tenant_id s1 (purge_here env tenant_id src s1)"
    unfolding purge_here_def using o by (auto split: option.split intro: confined_trans)
  then show ?thesis using c1 d by (auto simp: purge_source_def split: sum.split intro: confined_trans)
qed

lemma confined_queue_backfill:
  assumes "queue_backfill env force tenant_id src u s = (r, s')"
  shows "confined tenant_id s s'"
proof -
  let ?s = "set_cx_status tenant_id src u ((status_change ''syncing'')\<lparr>su_last_error := Some [], su_force := force\<rparr>) (ce_now env) s"
  obtain x s1 where d: "delay env (BackfillTask tenant_id src u) ?s = (x, s1)" by fastforce
  have "confined tenant_id s ?s" by simp
  also have "confined tenant_id ?s s1" using d by (rule confined_delay) simp
  finally show ?thesis using assms d by (auto simp: queue_backfill_def Let_def split: sum.splits)
qed

lemma drop_watch_frame:
  "cx_rows (drop_watch sc src s) = cx_rows s" "cx_org_enabled (drop_watch sc src s) = cx_org_enabled s" "cx_queue (drop_watch sc src s) = cx_queue s"
  by (simp_all add: drop_watch_def)

text \<open>The token operations of a manager.\<close>

definition token_step :: "conn_state \<Rightarrow> conn_state \<Rightarrow> bool" where
  "token_step s s' \<longleftrightarrow> cx_rows s' = cx_rows s \<and> cx_org_enabled s' = cx_org_enabled s \<and> cx_queue s' = cx_queue s \<and>
     cx_cursors s' = cx_cursors s \<and> cx_index s' = cx_index s \<and> cx_links s' = cx_links s \<and> cx_broker s' = cx_broker s \<and>
     cx_routing s' = cx_routing s \<and> cx_db_up s' = cx_db_up s"

lemma token_step_trans: "token_step s s1 \<Longrightarrow> token_step s1 s2 \<Longrightarrow> token_step s s2"
  by (simp add: token_step_def)

lemma token_step_simps [simp]:
  "token_step s s" "token_step s (on_tokens f s)" "token_step s (tick s)" "token_step s (set_cx_status t src u up now s)"
  "token_step s (put_token env om t k d s)" "token_step s (snd (find_token env om t k s))" "token_step s (snd (post_token env form s))"
  by (simp_all add: token_step_def on_tokens_def tick_def set_cx_status_def put_token_def find_token_def post_token_def split: prod.split)

lemma mark_reauth_step: "token_step s (mark_reauth env om t s)"
proof -
  have "token_step s (fold (\<lambda>source. set_cx_status t source (om_principal om) up now) xs s)" for up now xs
  proof (induction xs arbitrary: s)
    case (Cons x xs)
    have "token_step (set_cx_status t x (om_principal om) up now s) (fold (\<lambda>source. set_cx_status t source (om_principal om) up now) (x # xs) s)"
      using Cons.IH by simp
    with token_step_simps(4) show ?case by (rule token_step_trans)
  qed simp
  then show ?thesis by (simp add: mark_reauth_def)
qed

lemma find_token_step: "find_token env om t k s = (d, s') \<Longrightarrow> token_step s s'"
  using token_step_simps(6) [of s env om t k] by simp

lemma refresh_token_step: "token_step s (snd (refresh_token env om t d s))"
proof -
  have p: "token_step s s1" if "post_token env form s = (r, s1)" for r s1 form
    using token_step_simps(7) [of s env form] that by simp
  show ?thesis
    unfolding refresh_token_def Let_def
    by (auto split: if_splits prod.split sum.split dest!: p intro: token_step_trans mark_reauth_step token_step_simps)
qed

lemma get_valid_token_step: "token_step s (snd (get_valid_token env om t s))"
proof -
  obtain d s1 where st: "stored_token env om t s = (d, s1)" by fastforce
  have "token_step s s1"
    using st unfolding stored_token_def Let_def
    by (auto split: prod.splits if_splits dest!: find_token_step intro: token_step_trans)
  moreover have "token_step s1 (snd (refresh_token env om t x s1))" for x by (rule refresh_token_step)
  ultimately show ?thesis
    unfolding get_valid_token_def st
    by (auto simp: Let_def split: if_splits pyval.split prod.split intro: token_step_trans dest: sym)
      (metis snd_conv token_step_trans)
qed

lemma confined_token_step: "token_step s s' \<Longrightarrow> confined tenant_id s s'"
  by (rule confined_same) (simp_all add: token_step_def)

lemma delete_row_confined:
  assumes "parse_uuid tenant_id = Some t"
  shows "confined tenant_id s (s\<lparr>cx_rows := AList.delete (t, k) (cx_rows s)\<rparr>)"
  using assms by (rule confined_rows) (auto simp: map_of_delete)

lemma rows_of_source_tenant: "k \<in> set (rows_of_source t src rows) \<Longrightarrow> fst k = t"
  by (auto simp: rows_of_source_def)

lemma confined_microsoft_row: "confined tenant_id s (delete_microsoft_row env tenant_id src s)"
proof (cases "parse_uuid tenant_id")
  case (Some t)
  obtain ok s1 where o: "open_tenant_db env tenant_id s = (ok, s1)" by fastforce
  have c: "confined tenant_id s s1" using o by (rule confined_open)
  have "confined tenant_id s1 (s1\<lparr>cx_rows := AList.delete k (cx_rows s1)\<rparr>)" if "rows_of_source t src (cx_rows s1) = [k]" for k
    using delete_row_confined [OF Some, of s1 "snd k"] rows_of_source_tenant [of k t src "cx_rows s1"] that by (cases k) simp
  with c show ?thesis
    using Some o by (auto simp: delete_microsoft_row_def split: list.split intro: confined_trans)
qed (simp add: delete_microsoft_row_def)

lemma confined_drop_tokens: "confined tenant_id s (drop_tokens env sk t keys s)"
  unfolding drop_tokens_def by (rule confined_fold) simp

lemma confined_drop_watch: "confined tenant_id s (drop_watch sc src s)"
  by (rule confined_same) (simp_all add: drop_watch_frame)

lemma confined_subscription: "confined tenant_id s (delete_subscription env om t src u s)"
proof -
  have "confined tenant_id s (snd (get_valid_token env om t s))" by (rule confined_token_step [OF get_valid_token_step])
  also have "confined tenant_id (snd (get_valid_token env om t s)) (tick (snd (get_valid_token env om t s)))" by simp
  finally show ?thesis by (simp add: delete_subscription_def Let_def split: option.split)
qed

lemma confined_on_disconnect: "confined tenant_id s (run_on_disconnect env tenant_id u src s)"
proof -
  let ?s1 = "delete_subscription env (microsoft_oauth_from_settings env u) tenant_id src u s"
  let ?s2 = "drop_watch (cursor_scope_id tenant_id u) src ?s1"
  let ?s3 = "delete_microsoft_row env tenant_id src ?s2"
  have "confined tenant_id s ?s1" by (rule confined_subscription)
  also have "confined tenant_id ?s1 ?s2" by (rule confined_drop_watch)
  also have "confined tenant_id ?s2 ?s3" by (rule confined_microsoft_row)
  finally have c: "confined tenant_id s ?s3" .
  have i: "confined tenant_id s (if b then drop_tokens env sk tenant_id ks ?s3 else ?s3)" for b sk ks
    using c confined_trans [OF c confined_drop_tokens [of tenant_id ?s3 env sk tenant_id ks]] by simp
  have "confined tenant_id s (microsoft_on_disconnect env tenant_id u src s)"
    unfolding microsoft_on_disconnect_def Let_def by (rule i)
  then show ?thesis by (simp add: run_on_disconnect_def google_on_disconnect_def)
qed

subsection \<open>The routes that write\<close>

datatype connector_request =
    Backfill string | OrganizationConnect string string | OrganizationDisconnect | OrganizationToggle bool
  | OrganizationBackfill string | Disconnect string

fun serve_connector :: "'s conn_env \<Rightarrow> connector_request \<Rightarrow> pydict \<Rightarrow> tenant_routing \<Rightarrow> conn_state \<Rightarrow> pydict res \<times> conn_state" where
  "serve_connector env (Backfill source_type) = trigger_backfill env source_type"
| "serve_connector env (OrganizationConnect vault_key email) = connect_organization_connector env vault_key email"
| "serve_connector env OrganizationDisconnect = disconnect_organization_connector env"
| "serve_connector env (OrganizationToggle enabled) = toggle_organization_connector enabled"
| "serve_connector env (OrganizationBackfill source_type) = trigger_organization_backfill env source_type"
| "serve_connector env (Disconnect source_type) = disconnect_connector env source_type"

lemma confined_connect_organization:
  assumes "own_tenant user tenant = Some tenant_id" "connect_organization_connector env vk em user tenant s = (r, s')"
  shows "confined tenant_id s s'"
proof -
  let ?who = "py_or (pget user ''sub'') (py_or (pget user ''principal_id'') (PStr tenant_id))"
  obtain ok1 s1 where rd: "read_service_account env vk s = (ok1, s1)" by fastforce
  have c1: "confined tenant_id s s1" using rd by (auto simp: read_service_account_def Let_def split: prod.splits)
  obtain ok2 s2 where o: "open_tenant_db env tenant_id s1 = (ok2, s2)" by fastforce
  have c2: "confined tenant_id s s2" using c1 confined_open [OF o] by (rule confined_trans)
  show ?thesis
  proof (cases "parse_uuid tenant_id")
    case (Some t)
    have "confined tenant_id s2 (s2\<lparr>cx_rows := fold (organization_row t actor em vk) srcs (cx_rows s2)\<rparr>)" for actor srcs
      using Some unfolding organization_row_def by (rule confined_rows) (rule upsert_rows_other)
    then have c3: "confined tenant_id s (s2\<lparr>cx_rows := fold (organization_row t actor em vk) srcs (cx_rows s2)\<rparr>)" for actor srcs
      using c2 confined_trans by blast
    from assms Some rd o c1 c2 c3 show ?thesis
      by (auto simp: connect_organization_connector_def Let_def split: option.splits if_splits)
  qed (use assms in \<open>simp add: connect_organization_connector_def Let_def\<close>)
qed

lemma confined_disconnect_organization:
  assumes "own_tenant user tenant = Some tenant_id" "disconnect_organization_connector env user tenant s = (r, s')"
  shows "confined tenant_id s s'"
proof -
  let ?s1 = "fold (clear_cx_status tenant_id ''organization'') GOOGLE_SOURCES s"
  have c1: "confined tenant_id s ?s1" by (rule confined_fold) simp
  show ?thesis
  proof (cases "parse_uuid tenant_id")
    case (Some t)
    let ?s2 = "delete_organization_rows env tenant_id t ?s1"
    obtain ok s3 where o: "open_tenant_db env tenant_id ?s1 = (ok, s3)" by fastforce
    have "confined tenant_id ?s1 s3" using o by (rule confined_open)
    moreover have "confined tenant_id s3 (s3\<lparr>cx_rows := fold (\<lambda>src. AList.delete (t, src, ''organization'')) GOOGLE_SOURCES (cx_rows s3)\<rparr>)"
      using Some by (rule confined_rows) (rule delete_rows_other)
    ultimately have "confined tenant_id ?s1 ?s2"
      unfolding delete_organization_rows_def o by (auto intro: confined_trans)
    with c1 have c2: "confined tenant_id s ?s2" by (rule confined_trans)
    have "confined tenant_id ?s2 (fold (purge_source env tenant_id) GOOGLE_SOURCES ?s2)"
      by (rule confined_fold) (rule confined_purge)
    with c2 have "confined tenant_id s (fold (purge_source env tenant_id) GOOGLE_SOURCES ?s2)" by (rule confined_trans)
    with assms Some show ?thesis by (simp add: disconnect_organization_connector_def Let_def)
  next
    case None
    with assms c1 show ?thesis by (simp add: disconnect_organization_connector_def Let_def)
  qed
qed

lemma confined_toggle:
  assumes "own_tenant user tenant = Some tenant_id" "toggle_organization_connector enabled user tenant s = (r, s')"
  shows "confined tenant_id s s'"
  using assms by (auto simp: toggle_organization_connector_def confined_def map_of_update split: option.splits if_splits)

lemma confined_disconnect:
  assumes "own_tenant user tenant = Some tenant_id" "disconnect_connector env src user tenant s = (r, s')"
  shows "confined tenant_id s s'"
proof -
  let ?u = "route_user_id user"
  let ?s1 = "clear_cx_status tenant_id ?u src s"
  let ?s2 = "reset_connector_cursor env (cursor_scope_id tenant_id ?u) src ?s1"
  let ?s3 = "run_on_disconnect env tenant_id ?u src (fresh_store ?s2)"
  have "confined tenant_id s ?s1" by simp
  also have "confined tenant_id ?s1 ?s2" by (rule confined_same) (simp_all add: reset_connector_cursor_def)
  also have "confined tenant_id ?s2 (fresh_store ?s2)" by (simp add: fresh_store_def)
  also have "confined tenant_id (fresh_store ?s2) ?s3" by (rule confined_on_disconnect)
  also have "confined tenant_id ?s3 (purge_source env tenant_id src ?s3)" by (rule confined_purge)
  finally show ?thesis using assms by (simp add: disconnect_connector_def Let_def)
qed

text \<open>
  Property C30: the connector routes that write stay in the caller's tenant. When the tenant of the token is
  not the one that was resolved, a request is refused and changes nothing; otherwise the connector rows and
  the organization flag of every other tenant stay as they are, and every task it queues names the caller's
  tenant.
\<close>

theorem connector_routes_stay_in_the_tenant:
  assumes "serve_connector env request current_user tenant s = (r, s')"
  shows "case own_tenant current_user tenant of
      None \<Rightarrow> r = Inl cross_tenant \<and> s' = s
    | Some tenant_id \<Rightarrow> confined tenant_id s s'"
proof (cases "own_tenant current_user tenant")
  case None
  with assms show ?thesis
    by (cases request) (auto simp: trigger_backfill_def connect_organization_connector_def disconnect_organization_connector_def
        toggle_organization_connector_def trigger_organization_backfill_def disconnect_connector_def)
next
  case (Some tenant_id)
  have "confined tenant_id s s'"
  proof (cases request)
    case (Backfill src)
    with assms Some show ?thesis by (auto simp: trigger_backfill_def dest: confined_queue_backfill)
  next
    case (OrganizationConnect vk em)
    with assms Some show ?thesis by (auto dest: confined_connect_organization)
  next
    case OrganizationDisconnect
    with assms Some show ?thesis by (auto dest: confined_disconnect_organization)
  next
    case (OrganizationToggle b)
    with assms Some show ?thesis by (auto dest: confined_toggle)
  next
    case (OrganizationBackfill src)
    with assms Some show ?thesis by (auto simp: trigger_organization_backfill_def split: if_splits dest: confined_queue_backfill)
  next
    case (Disconnect src)
    with assms Some show ?thesis by (auto dest: confined_disconnect)
  qed
  with Some show ?thesis by simp
qed

text \<open>
  Members see the organization's connection only while it is enabled. A status other than
  \<open>not_connected\<close>, or one that says connected, is given only to a caller whose tenant has the flag set and holds a
  row for this source; the request changes no row, status, cursor or task.
\<close>

theorem organization_status_needs_the_flag:
  assumes "get_organization_connector_status env source_type current_user s = (Inr a, s')"
    and "sw_connection_status a \<noteq> ''not_connected'' \<or> sw_connected a = Some True"
  shows "\<exists>t row. parse_uuid (sw_tenant_id a) = Some t \<and> pget current_user ''tenant_id'' = PStr (sw_tenant_id a) \<and>
      map_of (cx_org_enabled s) t = Some True \<and> map_of (cx_rows s) (t, source_type, ''organization'') = Some row \<and>
      cx_rows s' = cx_rows s \<and> cx_status s' = cx_status s \<and> cx_cursors s' = cx_cursors s \<and> cx_queue s' = cx_queue s"
proof -
  from assms(1) obtain tenant_id t where t: "pget current_user ''tenant_id'' = PStr tenant_id" "parse_uuid tenant_id = Some t"
    by (auto simp: get_organization_connector_status_def Let_def split: if_splits pyval.splits option.splits)
  define pair where "pair = (if map_of (cx_org_enabled s) t = Some True then organization_row_of env tenant_id t source_type s else (None, s))"
  obtain row s1 where p: "pair = (row, s1)" by fastforce
  have a: "sw_tenant_id a = tenant_id" "s' = s1" "row \<noteq> None"
    using assms t p [unfolded pair_def]
    by (auto simp: get_organization_connector_status_def Let_def split: if_splits prod.splits)
  then have flag: "map_of (cx_org_enabled s) t = Some True" and "organization_row_of env tenant_id t source_type s = (row, s1)"
    using p by (auto simp: pair_def split: if_splits)
  moreover obtain ok s2 where o: "open_tenant_db env tenant_id s = (ok, s2)" by fastforce
  ultimately have "ok" "s1 = s2" "row = map_of (cx_rows s2) (t, source_type, ''organization'')"
    using a(3) by (auto simp: organization_row_of_def split: if_splits)
  with open_tenant_db_frame [OF o] a t flag show ?thesis by auto
qed

subsection \<open>Disconnecting a Google source\<close>

lemma purge_source_frame:
  "cx_rows (purge_source env t src s) = cx_rows s" "cx_tokens (purge_source env t src s) = cx_tokens s"
  "cx_cursors (purge_source env t src s) = cx_cursors s" "cx_status (purge_source env t src s) = cx_status s"
proof -
  obtain r s1 where d: "delay env (PurgeTask t src) s = (r, s1)" by fastforce
  obtain ok s2 where o: "open_tenant_db env t s1 = (ok, s2)" by fastforce
  show "cx_rows (purge_source env t src s) = cx_rows s" "cx_tokens (purge_source env t src s) = cx_tokens s"
    "cx_cursors (purge_source env t src s) = cx_cursors s" "cx_status (purge_source env t src s) = cx_status s"
    using d o open_tenant_db_frame [OF o]
    by (auto simp: purge_source_def purge_here_def delay_def tick_def split: sum.split option.split if_splits)
qed

lemma get_watch_info_update:
  "get_watch_info t src (update_cursor t' src' c now tab) = get_watch_info t src tab"
  by (auto simp: get_watch_info_def update_cursor_def Let_def blank_cursor_row_def map_of_update split: option.splits)

text \<open>
  Disconnecting a Google source leaves the account connected. The route answers
  \<open>disconnected\<close> and the status says so, but the tokens in Redis and in the vault, the connector rows and the
  registered watches are what they were: the provider's clean-up raises before it does anything.
\<close>

theorem google_disconnect_keeps_the_account:
  assumes "disconnect_connector env source_type current_user tenant s = (Inr answer, s')"
    and "source_type \<in> set GOOGLE_SOURCES" "ss_client (cx_status s)"
  shows "\<exists>tenant_id. own_tenant current_user tenant = Some tenant_id \<and>
      is_disconnected tenant_id source_type (route_user_id current_user) (cx_status s') \<and>
      cx_tokens s' = reopened (cx_tokens s) \<and> cx_rows s' = cx_rows s \<and>
      (\<forall>scope_id src. get_watch_info scope_id src (cx_cursors s') = get_watch_info scope_id src (cx_cursors s))"
proof -
  from assms(1) obtain tenant_id where t: "own_tenant current_user tenant = Some tenant_id"
    by (auto simp: disconnect_connector_def split: option.splits)
  with assms(1) have s': "s' = purge_source env tenant_id source_type (run_on_disconnect env tenant_id (route_user_id current_user) source_type
      (fresh_store (reset_connector_cursor env (cursor_scope_id tenant_id (route_user_id current_user)) source_type
        (clear_cx_status tenant_id (route_user_id current_user) source_type s))))"
    by (simp add: disconnect_connector_def Let_def)
  have "is_disconnected tenant_id source_type (route_user_id current_user) (snd (clear_status tenant_id source_type (route_user_id current_user) (cx_status s)))"
    using assms(3) by (rule clear_status_disconnects)
  then show ?thesis
    using t assms(2) unfolding s'
    by (simp add: purge_source_frame run_on_disconnect_def google_on_disconnect_def fresh_store_def on_tokens_def reset_connector_cursor_def
        clear_cx_status_def get_watch_info_update)
qed

subsection \<open>What the callback trusts\<close>

lemma exchange_ok:
  assumes "ce_http env (cx_tick s) (om_client om @ [(''code'', PStr code), (''redirect_uri'', PStr uri),
      (''grant_type'', PStr ''authorization_code'')] @ om_scope_field om) = Inr (200, body)" "with_expiry (ce_now env) body = Inr data"
  shows "exchange_code_for_tokens env om t code uri s = (Inr data, put_token env om t (om_token_key om t) data (tick s))"
  using assms by (simp add: exchange_code_for_tokens_def post_token_def)

lemma start_sync_queue:
  assumes "cx_broker s"
  shows "cx_queue (start_sync env force t u cred src s) = cx_queue s @ [AutoSyncTask t src u cred]" "cx_broker (start_sync env force t u cred src s)"
    "cx_tokens (start_sync env force t u cred src s) = cx_tokens s"
  using assms by (simp_all add: start_sync_def delay_def set_cx_status_def tick_def Let_def)

lemma record_rows_frame:
  "cx_queue (record_google_rows env scope t u m s) = cx_queue s" "cx_broker (record_google_rows env scope t u m s) = cx_broker s"
  "cx_tokens (record_google_rows env scope t u m s) = cx_tokens s"
  by (auto simp: record_google_rows_def open_tenant_db_def Let_def split: option.split prod.split)

lemma set_token_memory: "map_of (tk_memory (set_token env sk bound key data w)) key = Some data"
proof (cases "encrypt_token_blob env data (store_tenant sk bound key) (w\<lparr>tk_memory := AList.update key data (tk_memory w)\<rparr>)")
  case (Pair r w')
  then show ?thesis using encrypt_frame [OF Pair] by (auto simp: set_token_def Let_def map_of_update split: sum.split)
qed

lemma resolve_mailbox_frame:
  assumes "resolve_mailbox_email env keys om t s = (m, s')"
  shows "token_step s s'"
proof -
  obtain r s1 where v: "get_valid_token env om t s = (r, s1)" by fastforce
  have "token_step s s1" using get_valid_token_step [of s env om t] v by simp
  moreover have "token_step s1 (tick s1)" by simp
  ultimately show ?thesis
    using assms v token_step_trans by (auto simp: resolve_mailbox_email_def split: sum.splits)
qed

lemma google_connect_queues:
  assumes "exchange_code_for_tokens env (google_oauth_from_settings env u scope) t code (google_redirect_uri env) s = (Inr data, s1)"
    and "cx_broker s1" "connect_account env (google_kind env) code t u scope s = (url, s')"
  shows "cx_queue s' = cx_queue s1 @ map (\<lambda>src. AutoSyncTask t src (if scope = ''organization'' then ''organization'' else u)
      (vault_google_oauth_key t u scope)) GOOGLE_SOURCES"
    "\<exists>d. map_of (tk_memory (cx_tokens s')) (google_oauth_token_key t u scope) = Some d \<and> pget d ''connected_by'' = PStr u"
    "url = frontend_connectors_redirect env ''connected'' [] ''google''"
proof -
  let ?om = "google_oauth_from_settings env u scope"
  obtain m s2 where mb: "resolve_mailbox_email env [''emailAddress''] ?om t s1 = (m, s2)" by fastforce
  define merged where "merged = AList.update ''connected_by'' (PStr u) (if m \<noteq> [] then AList.update ''mailbox_email'' (PStr m) data else data)"
  define s3 where "s3 = put_token env ?om t (google_oauth_token_key t u scope) merged s2"
  define s4 where "s4 = record_google_rows env (if scope = ''organization'' then ''organization'' else ''personal'') t u m s3"
  have s2: "cx_queue s2 = cx_queue s1" "cx_broker s2" using resolve_mailbox_frame [OF mb] assms(2) by (simp_all add: token_step_def)
  have s4: "cx_queue s4 = cx_queue s1" "cx_broker s4" "cx_tokens s4 = cx_tokens s3"
    using s2 by (simp_all add: s4_def record_rows_frame s3_def put_token_def on_tokens_def)
  define go where "go = start_sync env False t (if scope = ''organization'' then ''organization'' else u) (vault_google_oauth_key t u scope)"
  have s': "s' = fold go GOOGLE_SOURCES s4" and url: "url = frontend_connectors_redirect env ''connected'' [] ''google''"
    using assms(1,3) mb by (simp_all add: connect_account_def google_kind_def Let_def s4_def s3_def merged_def go_def)
  show "url = frontend_connectors_redirect env ''connected'' [] ''google''" by (rule url)
  show "cx_queue s' = cx_queue s1 @ map (\<lambda>src. AutoSyncTask t src (if scope = ''organization'' then ''organization'' else u)
      (vault_google_oauth_key t u scope)) GOOGLE_SOURCES"
    using s4 by (simp add: s' GOOGLE_SOURCES_def go_def start_sync_queue)
  have "cx_tokens s' = cx_tokens s3" using s4 by (simp add: s' GOOGLE_SOURCES_def go_def start_sync_queue)
  moreover have "map_of (tk_memory (cx_tokens s3)) (google_oauth_token_key t u scope) = Some merged"
    by (simp add: s3_def put_token_def on_tokens_def set_token_memory)
  moreover have "pget merged ''connected_by'' = PStr u" by (simp add: merged_def pget_update)
  ultimately show "\<exists>d. map_of (tk_memory (cx_tokens s')) (google_oauth_token_key t u scope) = Some d \<and> pget d ''connected_by'' = PStr u"
    by simp
qed

text \<open>
  Property C32: whoever holds one link can connect an account to any tenant. The callback checks that the
  nonce of a state is known, not that the state is the one the nonce was issued with. So from a link issued to
  one user a state is made that names another tenant, another user and another scope, and the callback, which
  asks for no token, stores the account under those names and queues the crawl of both Google sources there.
\<close>

theorem forged_state_connects_anywhere:
  assumes "encode_oauth_state nonce made tenant user scope rd = (state, cx_links s)" "lr_client rd" "lr_answers rd" "nonce \<noteq> []"
    and "ce_now env < made + 600" "tenant' \<noteq> []" "user' \<noteq> []" "scope' \<noteq> []" "cx_broker s" "code \<noteq> []"
    and "\<forall>n form. \<exists>body data. ce_http env n form = Inr (200, body) \<and> with_expiry (ce_now env) body = Inr data"
  shows "\<exists>s'. google_oauth_callback env (Some code) (Some (state_text (link_payload tenant' user' nonce scope'))) None s =
        (Inr (frontend_connectors_redirect env ''connected'' [] ''google''), s') \<and>
      (\<forall>src \<in> set GOOGLE_SOURCES. AutoSyncTask tenant' src (if scope' = ''organization'' then ''organization'' else user')
         (vault_google_oauth_key tenant' user' scope') \<in> set (cx_queue s')) \<and>
      (\<exists>d. map_of (tk_memory (cx_tokens s')) (google_oauth_token_key tenant' user' scope') = Some d \<and> pget d ''connected_by'' = PStr user')"
proof -
  note k = nonce_known_encode [OF assms(1-3)]
  let ?forged = "state_text (link_payload tenant' user' nonce scope')"
  let ?rd = "(cx_links s)\<lparr>lr_nonces := AList.delete (nonce_key nonce) (lr_nonces (cx_links s))\<rparr>"
  have dec: "decode_oauth_state (ce_floats env) (ce_now env) ?forged (cx_links s) = (Inr (Some (link_facts tenant' user' nonce scope')), ?rd)"
    using decode_link [where fl = "ce_floats env" and now = "ce_now env" and connection_scope = scope', OF assms(6,7,4) k(2,3)]
      k(1) [of "ce_now env"] assms(5) by (simp add: STATE_TTL_SECONDS_def)
  have ne: "set_str (Some ?forged)"
    using state_text_nonempty [of "link_payload tenant' user' nonce scope'"] by (simp add: set_str_def link_payload_def)
  define s0 where "s0 = fresh_store (s\<lparr>cx_links := ?rd\<rparr>)"
  let ?om = "google_oauth_from_settings env user' scope'"
  obtain body data where "ce_http env (cx_tick s0) (om_client ?om @ [(''code'', PStr code), (''redirect_uri'', PStr (google_redirect_uri env)),
      (''grant_type'', PStr ''authorization_code'')] @ om_scope_field ?om) = Inr (200, body)" "with_expiry (ce_now env) body = Inr data"
    using assms(11) by blast
  then have ex: "exchange_code_for_tokens env ?om tenant' code (google_redirect_uri env) s0 =
      (Inr data, put_token env ?om tenant' (om_token_key ?om tenant') data (tick s0))" by (rule exchange_ok)
  have br: "cx_broker (put_token env ?om tenant' (om_token_key ?om tenant') data (tick s0))"
    using assms(9) by (simp add: s0_def fresh_store_def on_tokens_def put_token_def tick_def)
  obtain url s' where c: "connect_account env (google_kind env) code tenant' user' scope' s0 = (url, s')" by fastforce
  note q = google_connect_queues [OF ex br c]
  have "google_oauth_callback env (Some code) (Some ?forged) None s = (Inr url, s')"
    using ne assms(8,10) c
    by (simp add: google_oauth_callback_def oauth_callback_def set_str_def dec link_facts_def jor_def s0_def)
  with q show ?thesis by auto
qed

subsection \<open>Examples\<close>

definition demo_link_floats :: "rat floats" where
  "demo_link_floats = \<lparr>fl_lit = (\<lambda>x. x), fl_int = of_int, fl_parse = (\<lambda>_. None), fl_repr = (\<lambda>_. ''0''), fl_fmt4 = (\<lambda>_. ''0''), fl_age_h = (\<lambda>_. None)\<rparr>"

definition up_links :: link_redis where
  "up_links = \<lparr>lr_client = True, lr_answers = True, lr_nonces = []\<rparr>"

theorem oauth_link_works_once_witness:
  "\<exists>state rd rd'. encode_oauth_state ''n'' 0 ''t'' ''u'' ''personal'' up_links = (state, rd) \<and>
     decode_oauth_state demo_link_floats 5 state rd = (Inr (Some (link_facts ''t'' ''u'' ''n'' ''personal'')), rd') \<and>
     fst (decode_oauth_state demo_link_floats 6 state rd') = Inr None"
proof -
  obtain state rd where e: "encode_oauth_state ''n'' 0 ''t'' ''u'' ''personal'' up_links = (state, rd)" by fastforce
  have up: "lr_client up_links" "lr_answers up_links" by (simp_all add: up_links_def)
  from oauth_link_works_once [where fl = demo_link_floats and now = 5, OF e _ _ _ up] e show ?thesis by fastforce
qed

definition demo_conn_env :: "rat conn_env" where
  "demo_conn_env = \<lparr>ce_tokens = demo_token_env AzureVault, ce_vault = (\<lambda>_ _. Inr ''pw''),
     ce_index = se_index demo_sync_env, ce_floats = demo_link_floats, ce_now = 0, ce_random = (\<lambda>_. ''r''), ce_setting = (\<lambda>_. Some ''x''),
     ce_http = (\<lambda>_ _. Inr (200, [(''access_token'', PStr ''at'')])), ce_profile = (\<lambda>_ _. Inr [(''emailAddress'', PStr ''m@x.org'')]),
     ce_unsubscribe = (\<lambda>_. True), ce_in_time = (\<lambda>_. True)\<rparr>"

definition demo_conn_state :: "link_redis \<Rightarrow> conn_state" where
  "demo_conn_state rd = \<lparr>cx_tokens = demo_token_world, cx_status = \<lparr>ss_client = True, ss_values = []\<rparr>, cx_cursors = [], cx_links = rd,
     cx_routing = \<lparr>rs_cache = [], rs_tenants = [(1, \<lparr>tn_db_host = ''h'', tn_db_name = ''d'', tn_db_user = ''u'', tn_db_secret_key = ''k'', tn_config = []\<rparr>)]\<rparr>,
     cx_db_up = True, cx_rows = [((1, ''google_drive'', ''organization''), new_row [] 1 ''ref'')], cx_org_enabled = [(1, True)], cx_broker = True,
     cx_queue = [], cx_index = empty_index, cx_tick = 0\<rparr>"

definition demo_claims :: pydict where
  "demo_claims = [(''tenant_id'', PStr (uuid_str 1)), (''sub'', PStr ''bob'')]"

definition demo_tenant_routing :: tenant_routing where
  "demo_tenant_routing = \<lparr>tr_tenant_id = uuid_str 1, tr_db_host = ''h'', tr_db_name = ''d'', tr_db_user = ''u'', tr_db_password = ''pw'', tr_config = []\<rparr>"

lemma demo_own_tenant: "own_tenant demo_claims demo_tenant_routing = Some (uuid_str 1)"
  by code_simp

theorem connector_routes_stay_in_the_tenant_witness:
  "\<exists>r s'. serve_connector demo_conn_env (Disconnect ''google_drive'') demo_claims demo_tenant_routing (demo_conn_state up_links) = (r, s') \<and>
     confined (uuid_str 1) (demo_conn_state up_links) s'"
proof -
  obtain r s' where run: "serve_connector demo_conn_env (Disconnect ''google_drive'') demo_claims demo_tenant_routing (demo_conn_state up_links) = (r, s')"
    by fastforce
  with connector_routes_stay_in_the_tenant [OF run] demo_own_tenant show ?thesis by auto
qed

theorem organization_status_needs_the_flag_witness:
  "\<exists>a s'. get_organization_connector_status demo_conn_env ''google_drive'' demo_claims (demo_conn_state up_links) = (Inr a, s') \<and>
     sw_connected a = Some True \<and> cx_rows s' = cx_rows (demo_conn_state up_links)"
proof -
  have "case fst (get_organization_connector_status demo_conn_env ''google_drive'' demo_claims (demo_conn_state up_links)) of
      Inl _ \<Rightarrow> False | Inr a \<Rightarrow> sw_connected a = Some True" by code_simp
  then obtain a s' where run: "get_organization_connector_status demo_conn_env ''google_drive'' demo_claims (demo_conn_state up_links) = (Inr a, s')"
      and c: "sw_connected a = Some True"
    by (cases "get_organization_connector_status demo_conn_env ''google_drive'' demo_claims (demo_conn_state up_links)") (auto split: sum.splits)
  from organization_status_needs_the_flag [OF run disjI2 [OF c]] run c show ?thesis by blast
qed

theorem google_disconnect_keeps_the_account_witness:
  "\<exists>answer s'. disconnect_connector demo_conn_env ''google_drive'' demo_claims demo_tenant_routing (demo_conn_state up_links) = (Inr answer, s') \<and>
     cx_tokens s' = reopened demo_token_world"
proof -
  obtain r s' where run: "disconnect_connector demo_conn_env ''google_drive'' demo_claims demo_tenant_routing (demo_conn_state up_links) = (r, s')"
    by fastforce
  then obtain answer where r: "r = Inr answer" by (auto simp: disconnect_connector_def demo_own_tenant Let_def)
  have src: "''google_drive'' \<in> set GOOGLE_SOURCES" by code_simp
  have up: "ss_client (cx_status (demo_conn_state up_links))" by (simp add: demo_conn_state_def)
  from google_disconnect_keeps_the_account [OF run [unfolded r] src up] run r show ?thesis
    by (auto simp: demo_conn_state_def)
qed

theorem forged_state_connects_anywhere_witness:
  "\<exists>s'. google_oauth_callback demo_conn_env (Some ''code'') (Some (state_text (link_payload ''victim'' ''boss'' ''n'' ''organization''))) None
        (demo_conn_state (snd (encode_oauth_state ''n'' 0 ''mine'' ''me'' ''personal'' up_links))) =
        (Inr (frontend_connectors_redirect demo_conn_env ''connected'' [] ''google''), s') \<and>
      AutoSyncTask ''victim'' ''google_drive'' ''organization'' (vault_google_oauth_key ''victim'' ''boss'' ''organization'') \<in> set (cx_queue s')"
proof -
  obtain state rd where e: "encode_oauth_state ''n'' 0 ''mine'' ''me'' ''personal'' up_links = (state, rd)" by fastforce
  then have e': "encode_oauth_state ''n'' 0 ''mine'' ''me'' ''personal'' up_links = (state, cx_links (demo_conn_state rd))"
    by (simp add: demo_conn_state_def)
  have up: "lr_client up_links" "lr_answers up_links" by (simp_all add: up_links_def)
  have b: "cx_broker (demo_conn_state rd)" by (simp add: demo_conn_state_def)
  have h: "\<forall>n form. \<exists>body data. ce_http demo_conn_env n form = Inr (200, body) \<and> with_expiry (ce_now demo_conn_env) body = Inr data"
    by (simp add: demo_conn_env_def with_expiry_def seconds_of_def dict_get_def)
  have n: "ce_now demo_conn_env < 0 + 600" by (simp add: demo_conn_env_def)
  have o: "''organization'' \<noteq> []" "''n'' \<noteq> []" "''victim'' \<noteq> []" "''boss'' \<noteq> []" "''code'' \<noteq> []" by simp_all
  have src: "''google_drive'' \<in> set GOOGLE_SOURCES" by code_simp
  from forged_state_connects_anywhere [OF e' up o(2) n o(3,4,1) b o(5) h] e src show ?thesis by auto
qed

end
