(* ===== verification/Drive_Source.thy ===== *)
theory Drive_Source
  imports Notifications
begin

text \<open>
  The Google Drive source: \<open>backend/app/connectors/google/clients/drive_client.py\<close> (requests and what their
  replies mean), \<open>google/content.py\<close> (the text of a file) and \<open>google/services/drive_service.py\<close> (pages,
  deletions, changes and the unified documents). The server is a parameter: its reply depends on the fetch,
  counted like the other calls of a crawl, and the request. Header fields other than the token and the timeouts
  are left out.
\<close>

subsection \<open>Requests and replies\<close>

record source_request =
  sq_url :: string
  sq_params :: pydict
  sq_token :: string

text \<open>
  \<open>rp_error\<close> is the text of the exception that \<open>raise_for_status\<close> raises for the status, and the left side of
  \<open>rp_json\<close> that of a body that is no JSON.
\<close>

record reply_body =
  rb_status :: nat
  rb_error :: string
  rb_json :: "string + pyval"
  rb_content :: bytes

datatype reply = Unreachable string | Reply reply_body

type_synonym server = "nat \<Rightarrow> source_request \<Rightarrow> reply"

definition is_success :: "reply_body \<Rightarrow> bool" where
  "is_success r = (200 \<le> rb_status r \<and> rb_status r < 300)"

definition checked_reply :: "string \<Rightarrow> reply \<Rightarrow> py_error + reply_body" where
  "checked_reply label r =
     (case r of
        Unreachable e \<Rightarrow> Inl (error_of [] (label @ '': '' @ e))
      | Reply b \<Rightarrow> if is_success b then Inr b else Inl (error_of [] (label @ '': '' @ rb_error b)))"

definition reply_json :: "string \<Rightarrow> reply_body \<Rightarrow> py_error + pyval" where
  "reply_json label b = (case rb_json b of Inl e \<Rightarrow> Inl (error_of [] (label @ '': '' @ e)) | Inr v \<Rightarrow> Inr v)"

definition json_reply :: "string \<Rightarrow> reply \<Rightarrow> py_error + pyval" where
  "json_reply label r = Sum_Type.case_sum Inl (reply_json label) (checked_reply label r)"

definition content_reply :: "string \<Rightarrow> reply \<Rightarrow> py_error + bytes" where
  "content_reply label r = map_sum id rb_content (checked_reply label r)"

text \<open>Failures of the code that reads a response.\<close>

definition lifted :: "'a res \<Rightarrow> py_error + 'a" where
  "lifted r = map_sum error_of_exn id r"

lemma lifted_Inr [simp]: "lifted r = Inr x \<longleftrightarrow> r = Inr x"
  by (cases r) (simp_all add: lifted_def)

text \<open>A page token as the cursor it becomes.\<close>

definition cursor_of :: "pyval \<Rightarrow> string option" where
  "cursor_of v = (case v of PNone \<Rightarrow> None | v \<Rightarrow> Some (py_str v))"

text \<open>\<open>v in {...}\<close> for a set of strings.\<close>

definition in_strings :: "pyval \<Rightarrow> string list \<Rightarrow> bool res" where
  "in_strings v ws = (case v of PStr s \<Rightarrow> Inr (s \<in> set ws)
     | PList _ \<Rightarrow> Inl (Raised ''TypeError'') | PDict _ \<Rightarrow> Inl (Raised ''TypeError'') | _ \<Rightarrow> Inr False)"

subsection \<open>The Drive client\<close>

definition DRIVE_ROOT :: string where "DRIVE_ROOT = ''https://www.googleapis.com/drive/v3''"

definition FILE_FIELDS :: string where
  "FILE_FIELDS = ''id,name,mimeType,webViewLink,createdTime,modifiedTime,'' @
     ''owners,permissions,size,fileExtension,parents,driveId''"

definition all_drives :: pydict where
  "all_drives = [(''supportsAllDrives'', PStr ''true''), (''includeItemsFromAllDrives'', PStr ''true'')]"

definition files_request :: "string \<Rightarrow> int \<Rightarrow> string option \<Rightarrow> string \<Rightarrow> source_request" where
  "files_request access_token page_size page_token query =
     \<lparr>sq_url = DRIVE_ROOT @ ''/files'',
      sq_params = [(''pageSize'', PInt page_size), (''fields'', PStr (''nextPageToken,files('' @ FILE_FIELDS @ '')''))] @ all_drives @
        (case page_token of None \<Rightarrow> [] | Some t \<Rightarrow> if t = [] then [] else [(''pageToken'', PStr t)]) @
        (if query = [] then [] else [(''q'', PStr query)]),
      sq_token = access_token\<rparr>"

definition list_files :: "server \<Rightarrow> nat \<Rightarrow> string \<Rightarrow> int \<Rightarrow> string option \<Rightarrow> string \<Rightarrow> py_error + pyval" where
  "list_files http tick access_token page_size page_token query =
     json_reply ''Drive API error'' (http tick (files_request access_token page_size page_token query))"

definition list_changes :: "server \<Rightarrow> nat \<Rightarrow> string \<Rightarrow> string \<Rightarrow> int \<Rightarrow> py_error + pyval" where
  "list_changes http tick access_token page_token page_size =
     json_reply ''Drive changes API error'' (http tick
       \<lparr>sq_url = DRIVE_ROOT @ ''/changes'',
        sq_params = [(''pageToken'', PStr page_token), (''pageSize'', PInt page_size),
          (''fields'', PStr (''nextPageToken,newStartPageToken,changes(changeType,removed,fileId,file('' @ FILE_FIELDS @ ''))''))] @
          all_drives,
        sq_token = access_token\<rparr>)"

definition get_start_page_token :: "server \<Rightarrow> nat \<Rightarrow> string \<Rightarrow> py_error + pyval" where
  "get_start_page_token http tick access_token =
     (case json_reply ''Drive getStartPageToken API error'' (http tick
             \<lparr>sq_url = DRIVE_ROOT @ ''/changes/startPageToken'', sq_params = [(''supportsAllDrives'', PStr ''true'')],
              sq_token = access_token\<rparr>) of
        Inl e \<Rightarrow> Inl e
      | Inr (PDict d) \<Rightarrow>
          (case map_of d ''startPageToken'' of
             Some v \<Rightarrow> Inr v | None \<Rightarrow> Inl (error_of [] (''Drive getStartPageToken API error: '' @ repr_str ''startPageToken'')))
      | Inr _ \<Rightarrow> Inl (error_of [] ''Drive getStartPageToken API error''))"

text \<open>A failure of any kind is an empty list.\<close>

definition list_permissions :: "server \<Rightarrow> nat \<Rightarrow> string \<Rightarrow> string \<Rightarrow> pyval" where
  "list_permissions http tick access_token file_id =
     (case http tick \<lparr>sq_url = DRIVE_ROOT @ ''/files/'' @ file_id @ ''/permissions'',
                sq_params = [(''fields'', PStr ''permissions(id,type,role,emailAddress,domain,deleted)''),
                  (''supportsAllDrives'', PStr ''true'')],
                sq_token = access_token\<rparr> of
        Unreachable _ \<Rightarrow> PList []
      | Reply b \<Rightarrow>
          if \<not> is_success b then PList []
          else (case rb_json b of Inr (PDict d) \<Rightarrow> dict_get d ''permissions'' (PList []) | _ \<Rightarrow> PList []))"

definition export_file :: "server \<Rightarrow> nat \<Rightarrow> string \<Rightarrow> string \<Rightarrow> string \<Rightarrow> py_error + bytes" where
  "export_file http tick access_token file_id mime_type =
     content_reply ''Drive export API error'' (http tick
       \<lparr>sq_url = DRIVE_ROOT @ ''/files/'' @ file_id @ ''/export'', sq_params = [(''mimeType'', PStr mime_type)],
        sq_token = access_token\<rparr>)"

definition download_file :: "server \<Rightarrow> nat \<Rightarrow> string \<Rightarrow> string \<Rightarrow> py_error + bytes" where
  "download_file http tick access_token file_id =
     content_reply ''Drive download API error'' (http tick
       \<lparr>sq_url = DRIVE_ROOT @ ''/files/'' @ file_id, sq_params = [(''alt'', PStr ''media''), (''supportsAllDrives'', PStr ''true'')],
        sq_token = access_token\<rparr>)"

subsection \<open>The text of a file\<close>

definition SKIP_MIME_TYPES :: "string list" where
  "SKIP_MIME_TYPES = [''application/vnd.google-apps.folder'', ''application/vnd.google-apps.shortcut'']"

definition GOOGLE_EXPORT_MAP :: "(string, string) dict" where
  "GOOGLE_EXPORT_MAP =
     [(''application/vnd.google-apps.document'', ''text/plain''),
      (''application/vnd.google-apps.spreadsheet'', ''text/csv''),
      (''application/vnd.google-apps.presentation'', ''text/plain'')]"

definition MAX_DOWNLOAD_BYTES :: int where "MAX_DOWNLOAD_BYTES = 40 * 1024 * 1024"

text \<open>
  \<open>tx_decode\<close> is \<open>bytes.decode("utf-8", errors="ignore")\<close>, \<open>tx_extract\<close> the text extractor with its formats,
  which may raise.
\<close>

record texts =
  tx_decode :: "bytes \<Rightarrow> string"
  tx_extract :: "bytes \<Rightarrow> pyval \<Rightarrow> pyval \<Rightarrow> string option"

definition extract_binary :: "texts \<Rightarrow> bytes \<Rightarrow> pyval \<Rightarrow> pyval \<Rightarrow> string" where
  "extract_binary tx content mime_type file_extension =
     (case tx_extract tx content mime_type file_extension of Some t \<Rightarrow> t | None \<Rightarrow> tx_decode tx content)"

text \<open>Whatever fails inside gives the name of the file.\<close>

definition exported_text :: "server \<Rightarrow> texts \<Rightarrow> nat \<Rightarrow> string \<Rightarrow> string \<Rightarrow> string \<Rightarrow> pyval \<Rightarrow> pyval" where
  "exported_text http tx tick access_token file_id as_type nm =
     (case export_file http tick access_token file_id as_type of
        Inl _ \<Rightarrow> nm | Inr data \<Rightarrow> PStr (tx_decode tx data))"

definition downloaded_text :: "server \<Rightarrow> texts \<Rightarrow> nat \<Rightarrow> string \<Rightarrow> string \<Rightarrow> pyval \<Rightarrow> pydict \<Rightarrow> pyval \<Rightarrow> pyval" where
  "downloaded_text http tx tick access_token file_id mime file_obj nm =
     (case py_int (py_or (pget file_obj ''size'') (PInt 0)) of
        None \<Rightarrow> nm
      | Some sz \<Rightarrow>
          if MAX_DOWNLOAD_BYTES < sz then nm
          else (case download_file http tick access_token file_id of
                  Inl _ \<Rightarrow> nm
                | Inr blob \<Rightarrow> if blob = [] then nm else PStr (extract_binary tx blob mime (pget file_obj ''fileExtension''))))"

definition extract_drive_text :: "server \<Rightarrow> texts \<Rightarrow> nat \<Rightarrow> string \<Rightarrow> pydict \<Rightarrow> pyval res" where
  "extract_drive_text http tx tick access_token file_obj =
     (let mime = py_or (pget file_obj ''mimeType'') (PStr []);
          file_id = py_or (pget file_obj ''id'') (PStr []);
          nm = py_or (pget file_obj ''name'') (PStr [])
      in if \<not> truthy file_id then Inr nm
         else rbind (in_strings mime SKIP_MIME_TYPES) (\<lambda>skipped.
           if skipped then Inr nm
           else (case map_of GOOGLE_EXPORT_MAP (py_str mime) of
                   Some as_type \<Rightarrow> Inr (exported_text http tx tick access_token (py_str file_id) as_type nm)
                 | None \<Rightarrow> Inr (downloaded_text http tx tick access_token (py_str file_id) mime file_obj nm))))"

subsection \<open>The connector\<close>

text \<open>
  What the connector was made with: whether there is a token manager, the token the n-th call of
  \<open>get_drive_access_token\<close> gives (\<open>google/drive_credentials.py\<close>), the time from which changes are wanted with its ISO text, the
  clock, and \<open>datetime.fromisoformat\<close>.
\<close>

record drive_env =
  dv_manager :: bool
  dv_token :: "nat \<Rightarrow> nat \<Rightarrow> py_error + string"
  dv_http :: server
  dv_texts :: texts
  dv_since :: instant
  dv_isoformat :: "instant \<Rightarrow> string"
  dv_now :: "nat \<Rightarrow> instant"
  dv_iso :: "string \<Rightarrow> instant option"

definition drive_token :: "drive_env \<Rightarrow> nat \<Rightarrow> py_error + string" where
  "drive_token env tick =
     (if \<not> dv_manager env then Inl (error_of [] ''OAuth manager not configured'')
      else case dv_token env tick 0 of Inr t \<Rightarrow> Inr t | Inl _ \<Rightarrow> dv_token env tick 1)"

text \<open>\<open>str.isdigit\<close>: the decimal digits and the three superscripts.\<close>

definition all_digits :: "string \<Rightarrow> bool" where
  "all_digits s = (s \<noteq> [] \<and> list_all (\<lambda>c. is_digit c \<or> (of_char c :: nat) \<in> {178, 179, 185}) s)"

definition is_changes_token :: "string option \<Rightarrow> bool" where
  "is_changes_token cursor = (case cursor of None \<Rightarrow> False | Some c \<Rightarrow> c \<noteq> [] \<and> all_digits (str_strip c))"

text \<open>1972 began 63072000 seconds after the epoch; a day has 86400.\<close>

definition drive_query :: "drive_env \<Rightarrow> nat \<Rightarrow> string" where
  "drive_query env tick =
     (if 63072000 \<le> dv_since env \<and> (dv_now env tick - dv_since env) div 86400 < 360
      then ''trashed = false and modifiedTime > '' @ [CHR 0x27] @ dv_isoformat env (dv_since env) @ [CHR 0x27]
      else ''trashed = false'')"

text \<open>A listed file: dictionaries of a type that is not skipped.\<close>

definition wanted_file :: "pyval \<Rightarrow> pydict option res" where
  "wanted_file f =
     (case f of
        PDict d \<Rightarrow> rbind (in_strings (pget d ''mimeType'') SKIP_MIME_TYPES) (\<lambda>skipped. Inr (if skipped then None else Some d))
      | _ \<Rightarrow> Inl (Raised ''AttributeError''))"

definition wanted_files :: "pyval list \<Rightarrow> pydict list res" where
  "wanted_files fs = rbind (res_map wanted_file fs) (\<lambda>ds. Inr (List.map_filter (\<lambda>d. d) ds))"

definition hydrate_file :: "drive_env \<Rightarrow> nat \<Rightarrow> string \<Rightarrow> pydict \<Rightarrow> pydict res" where
  "hydrate_file env tick access_token file =
     (let perms = list_permissions (dv_http env) tick access_token (py_str (dict_get file ''id'' (PStr [])));
          file = AList.update ''permissions'' (py_or perms (PList [])) file
      in rbind (extract_drive_text (dv_http env) (dv_texts env) tick access_token file) (\<lambda>t.
           Inr (AList.update ''_extracted_text'' t file)))"

definition hydrate_files :: "drive_env \<Rightarrow> nat \<Rightarrow> string \<Rightarrow> pydict list \<Rightarrow> pydict list res" where
  "hydrate_files env tick access_token files = res_map (hydrate_file env tick access_token) files"

definition files_page :: "drive_env \<Rightarrow> nat \<Rightarrow> string \<Rightarrow> pyval \<Rightarrow> delta_result res" where
  "files_page env tick access_token response =
     rbind (py_get response ''files'' (PList [])) (\<lambda>fs.
     rbind (py_iter fs) (\<lambda>fs.
     rbind (wanted_files fs) (\<lambda>files.
     rbind (hydrate_files env tick access_token files) (\<lambda>files.
     rbind (py_get response ''nextPageToken'' PNone) (\<lambda>next_page.
       Inr \<lparr>dr_documents = files, dr_next_cursor = cursor_of next_page, dr_has_more = truthy next_page\<rparr>)))))"

definition drive_fetch_delta :: "drive_env \<Rightarrow> nat \<Rightarrow> string option \<Rightarrow> py_error + delta_result" where
  "drive_fetch_delta env tick cursor =
     (case drive_token env tick of
        Inl e \<Rightarrow> Inl e
      | Inr token \<Rightarrow>
          if is_changes_token cursor then Inr \<lparr>dr_documents = [], dr_next_cursor = None, dr_has_more = False\<rparr>
          else (case list_files (dv_http env) tick token 100 cursor (drive_query env tick) of
                  Inl e \<Rightarrow> Inl e
                | Inr response \<Rightarrow> lifted (files_page env tick token response)))"

text \<open>Deletions: from the cursor, or from the token of the present when there is none.\<close>

definition removed_id :: "pyval \<Rightarrow> string list res" where
  "removed_id change =
     rbind (py_get change ''removed'' PNone) (\<lambda>removed.
     rbind (py_get change ''fileId'' PNone) (\<lambda>file_id.
       Inr (if truthy file_id \<and> truthy removed then [py_str file_id] else [])))"

definition changes_of :: "pyval \<Rightarrow> pyval list res" where
  "changes_of response = rbind (py_get response ''changes'' (PList [])) py_iter"

definition deletions_page :: "pyval \<Rightarrow> deletion_result res" where
  "deletions_page response =
     rbind (changes_of response) (\<lambda>cs.
     rbind (res_map removed_id cs) (\<lambda>ids.
     rbind (py_get response ''nextPageToken'' PNone) (\<lambda>next_page.
     rbind (py_get response ''newStartPageToken'' PNone) (\<lambda>new_start.
       Inr \<lparr>xr_deleted_ids = concat ids, xr_next_cursor = cursor_of (py_or next_page new_start),
            xr_has_more = truthy next_page\<rparr>))))"

definition deletion_start :: "drive_env \<Rightarrow> nat \<Rightarrow> string \<Rightarrow> string option \<Rightarrow> py_error + string" where
  "deletion_start env tick token cursor =
     (if cursor_set cursor then Inr (the cursor)
      else map_sum id py_str (get_start_page_token (dv_http env) tick token))"

definition drive_fetch_deleted_ids :: "drive_env \<Rightarrow> nat \<Rightarrow> string option \<Rightarrow> py_error + deletion_result" where
  "drive_fetch_deleted_ids env tick cursor =
     (case drive_token env tick of
        Inl e \<Rightarrow> Inl e
      | Inr token \<Rightarrow>
          (case deletion_start env tick token cursor of
             Inl e \<Rightarrow> Inl e
           | Inr start \<Rightarrow>
               (case list_changes (dv_http env) tick token start 100 of
                  Inl e \<Rightarrow> Inl e | Inr response \<Rightarrow> lifted (deletions_page response))))"

text \<open>Changes since a page token: what was removed, and the files there are.\<close>

definition read_change :: "pyval \<Rightarrow> pydict list \<times> string list \<Rightarrow> (pydict list \<times> string list) res" where
  "read_change change acc =
     rbind (py_get change ''removed'' PNone) (\<lambda>removed.
     rbind (py_get change ''fileId'' PNone) (\<lambda>file_id.
     rbind (py_get change ''file'' PNone) (\<lambda>f.
       if truthy removed then Inr (fst acc, snd acc @ [py_str file_id])
       else if truthy f then rbind (wanted_file f) (\<lambda>d. Inr (fst acc @ (case d of None \<Rightarrow> [] | Some d \<Rightarrow> [d]), snd acc))
       else Inr acc)))"

definition read_changes :: "pyval list \<Rightarrow> (pydict list \<times> string list) res" where
  "read_changes cs = foldl (\<lambda>r c. rbind r (read_change c)) (Inr ([], [])) cs"

definition changes_page :: "drive_env \<Rightarrow> nat \<Rightarrow> string \<Rightarrow> pyval \<Rightarrow> notice_delta res" where
  "changes_page env tick token response =
     rbind (changes_of response) (\<lambda>cs.
     rbind (read_changes cs) (\<lambda>(files, deleted_ids).
     rbind (hydrate_files env tick token files) (\<lambda>files.
     rbind (py_get response ''newStartPageToken'' PNone) (\<lambda>new_start.
     rbind (py_get response ''nextPageToken'' PNone) (\<lambda>next_page.
       Inr \<lparr>nd_documents = files, nd_deleted_ids = deleted_ids, nd_next_cursor = cursor_of (py_or new_start next_page)\<rparr>)))))"

definition fetch_since_page_token :: "drive_env \<Rightarrow> nat \<Rightarrow> string \<Rightarrow> py_error + notice_delta" where
  "fetch_since_page_token env tick page_token =
     (case drive_token env tick of
        Inl e \<Rightarrow> Inl e
      | Inr token \<Rightarrow>
          (case list_changes (dv_http env) tick token page_token 100 of
             Inl e \<Rightarrow> Inl e | Inr response \<Rightarrow> lifted (changes_page env tick token response)))"

text \<open>The changes as the revalidation task wants them; without a stored token there are none.\<close>

definition fetch_permission_changes :: "drive_env \<Rightarrow> nat \<Rightarrow> string option \<Rightarrow> py_error + pydict list" where
  "fetch_permission_changes env tick stored =
     (case drive_token env tick of
        Inl e \<Rightarrow> Inl e
      | Inr _ \<Rightarrow>
          if \<not> cursor_set stored then Inr []
          else (case fetch_since_page_token env (Suc tick) (the stored) of
                  Inl e \<Rightarrow> Inl e
                | Inr d \<Rightarrow> Inr (
                    map (\<lambda>f. [(''id'', pget f ''id''), (''type'', PStr ''document'')])
                      (filter (\<lambda>f. truthy (pget f ''id'')) (nd_documents d)) @
                    map (\<lambda>i. [(''id'', PStr i), (''type'', PStr ''document''), (''removed'', PBool True)]) (nd_deleted_ids d))))"

subsection \<open>Unified documents\<close>

text \<open>The checks of the \<open>UnifiedDocument\<close> model: strings, and permissions with one of two prefixes.\<close>

definition prefixed :: "string \<Rightarrow> bool" where
  "prefixed p = (starts_with USER_PREFIX p \<or> starts_with GROUP_PREFIX p)"

definition make_unified ::
    "pyval \<Rightarrow> pyval \<Rightarrow> pyval \<Rightarrow> string \<Rightarrow> pyval \<Rightarrow> string list \<Rightarrow> instant \<Rightarrow> instant \<Rightarrow> instant \<Rightarrow> pydict \<Rightarrow> unified_document res" where
  "make_unified doc_id title content source_type url permissions created updated source_updated meta =
     rbind (py_need_str doc_id) (\<lambda>doc_id.
     rbind (py_need_str title) (\<lambda>title.
     rbind (py_need_str content) (\<lambda>content.
     rbind (py_need_str url) (\<lambda>url.
       if \<not> list_all prefixed permissions then Inl (Raised ''ValidationError'')
       else Inr \<lparr>ud_id = doc_id, ud_title = title, ud_content = content, ud_source_type = source_type, ud_url = url,
              ud_permissions = permissions, ud_created_at = created, ud_updated_at = updated,
              ud_source_updated_at = source_updated, ud_structured_metadata = meta\<rparr>))))"

text \<open>A permission gives the term of a user, or nothing.\<close>

definition permission_term :: "pyval \<Rightarrow> string list res" where
  "permission_term perm =
     (case perm of
        PDict d \<Rightarrow>
          (if truthy (dict_get d ''deleted'' (PBool False)) then Inr []
           else if dict_get d ''type'' (PStr []) = PStr ''user'' \<and> truthy (dict_get d ''emailAddress'' (PStr []))
           then Inr [''user:'' @ py_str (dict_get d ''emailAddress'' (PStr []))]
           else Inr [])
      | _ \<Rightarrow> Inl (Raised ''AttributeError''))"

definition owner_email_of :: "pydict \<Rightarrow> pyval res" where
  "owner_email_of file =
     (let owners = dict_get file ''owners'' (PList []) in
      if \<not> truthy owners then Inr (PStr []) else rbind (py_first owners) (\<lambda>o1. py_get o1 ''emailAddress'' (PStr [])))"

definition resolve_permissions :: "pydict \<Rightarrow> string list res" where
  "resolve_permissions file =
     rbind (py_iter (dict_get file ''permissions'' (PList []))) (\<lambda>perms.
     rbind (res_map permission_term perms) (\<lambda>ts.
       if concat ts \<noteq> [] then Inr (concat ts)
       else rbind (owner_email_of file) (\<lambda>e. Inr (if truthy e then [''user:'' @ py_str e] else []))))"

text \<open>\<open>_parse_timestamp\<close>: the pattern and \<open>fromisoformat\<close> are those of the pipeline.\<close>

definition drive_timestamp :: "drive_env \<Rightarrow> nat \<Rightarrow> pyval \<Rightarrow> instant res" where
  "drive_timestamp env tick v =
     (if \<not> truthy v then Inr (dv_now env tick)
      else (case v of
              PStr s \<Rightarrow> Inr (case dv_iso env (strip_offset s) of Some t \<Rightarrow> t | None \<Rightarrow> dv_now env tick)
            | _ \<Rightarrow> Inl (Raised ''TypeError'')))"

definition drive_structured_metadata :: "pydict \<Rightarrow> pyval \<Rightarrow> pydict res" where
  "drive_structured_metadata file owner_email =
     rbind (py_first (dict_get file ''parents'' (PList [PStr []]))) (\<lambda>parent.
       Inr [(''mime_type'', dict_get file ''mimeType'' (PStr [])), (''file_extension'', dict_get file ''fileExtension'' (PStr [])),
            (''owner_email'', owner_email), (''shared_drive_id'', dict_get file ''driveId'' (PStr [])),
            (''parent_folder_id'', parent), (''web_view_link'', dict_get file ''webViewLink'' (PStr [])),
            (''size_bytes'', dict_get file ''size'' (PInt 0))])"

definition transform_file :: "drive_env \<Rightarrow> nat \<Rightarrow> pydict \<Rightarrow> unified_document list res" where
  "transform_file env tick file =
     (if \<not> truthy (pget file ''id'') then Inr []
      else
        rbind (resolve_permissions file) (\<lambda>permissions.
        rbind (owner_email_of file) (\<lambda>owner_email.
        rbind (drive_structured_metadata file owner_email) (\<lambda>meta.
        rbind (drive_timestamp env tick (pget file ''createdTime'')) (\<lambda>created.
        rbind (drive_timestamp env tick (pget file ''modifiedTime'')) (\<lambda>modified.
        rbind (make_unified (pget file ''id'') (dict_get file ''name'' (PStr ''Untitled''))
                 (py_or (pget file ''_extracted_text'') (dict_get file ''name'' (PStr []))) ''google_drive''
                 (dict_get file ''webViewLink'' (PStr (''https://drive.google.com/file/d/'' @ py_str (pget file ''id''))))
                 permissions created (dv_now env tick) modified meta) (\<lambda>u. Inr [u])))))))"

definition drive_transform :: "drive_env \<Rightarrow> nat \<Rightarrow> pydict list \<Rightarrow> py_error + unified_document list" where
  "drive_transform env tick raws = lifted (rbind (res_map (transform_file env tick) raws) (\<lambda>us. Inr (concat us)))"

definition drive_connector :: "drive_env \<Rightarrow> connector" where
  "drive_connector env = \<lparr>cn_source_type = ''google_drive'', cn_fetch_deleted_ids = drive_fetch_deleted_ids env,
     cn_fetch_delta = drive_fetch_delta env, cn_transform = drive_transform env\<rparr>"

end
