(* ===== verification/Gmail_Source.thy ===== *)
theory Gmail_Source
  imports Drive_Source Oauth_Links Intent
begin

text \<open>
  The Gmail source: \<open>backend/app/connectors/google/clients/gmail_client.py\<close> (requests, headers and bodies) and
  \<open>google/services/gmail_service.py\<close> (pages of messages, the history and the unified documents). The order in which a set of message
  identifiers is read is that of their first occurrence.
\<close>

subsection \<open>The Gmail client\<close>

definition GMAIL_ROOT :: string where "GMAIL_ROOT = ''https://gmail.googleapis.com/gmail/v1/users/me''"

definition messages_request :: "string \<Rightarrow> int \<Rightarrow> string option \<Rightarrow> string \<Rightarrow> source_request" where
  "messages_request access_token page_size page_token query =
     \<lparr>sq_url = GMAIL_ROOT @ ''/messages'',
      sq_params = [(''maxResults'', PInt page_size)] @
        (case page_token of None \<Rightarrow> [] | Some t \<Rightarrow> if t = [] then [] else [(''pageToken'', PStr t)]) @
        (if query = [] then [] else [(''q'', PStr query)]),
      sq_token = access_token\<rparr>"

definition list_messages :: "server \<Rightarrow> nat \<Rightarrow> string \<Rightarrow> int \<Rightarrow> string option \<Rightarrow> string \<Rightarrow> py_error + pyval" where
  "list_messages http tick access_token page_size page_token query =
     json_reply ''Gmail API error'' (http tick (messages_request access_token page_size page_token query))"

definition get_message :: "server \<Rightarrow> nat \<Rightarrow> string \<Rightarrow> string \<Rightarrow> py_error + pyval" where
  "get_message http tick access_token message_id =
     json_reply ''Gmail get message API error'' (http tick
       \<lparr>sq_url = GMAIL_ROOT @ ''/messages/'' @ message_id, sq_params = [(''format'', PStr ''full'')], sq_token = access_token\<rparr>)"

text \<open>A status of 404, an expired history identifier, is an empty history.\<close>

definition history_request :: "string \<Rightarrow> string \<Rightarrow> string list \<Rightarrow> source_request" where
  "history_request access_token start_history_id history_types =
     \<lparr>sq_url = GMAIL_ROOT @ ''/history'',
      sq_params = [(''startHistoryId'', PStr start_history_id), (''maxResults'', PInt 100)] @
        (if history_types = [] then [] else [(''historyTypes'', PList (map PStr history_types))]),
      sq_token = access_token\<rparr>"

definition list_history :: "server \<Rightarrow> nat \<Rightarrow> string \<Rightarrow> string \<Rightarrow> string list \<Rightarrow> py_error + pyval" where
  "list_history http tick access_token start_history_id history_types =
     (case http tick (history_request access_token start_history_id history_types) of
        Unreachable e \<Rightarrow> Inl (error_of [] (''Gmail history API error: '' @ e))
      | Reply b \<Rightarrow>
          if rb_status b = 404 then Inr (PDict [(''history'', PList []), (''historyId'', PStr start_history_id)])
          else json_reply ''Gmail history API error'' (Reply b))"

definition get_profile :: "server \<Rightarrow> nat \<Rightarrow> string \<Rightarrow> py_error + pyval" where
  "get_profile http tick access_token =
     json_reply ''Gmail getProfile API error'' (http tick
       \<lparr>sq_url = GMAIL_ROOT @ ''/profile'', sq_params = [], sq_token = access_token\<rparr>)"

text \<open>The first header with the name, regardless of case.\<close>

fun header_in :: "string \<Rightarrow> pyval list \<Rightarrow> pyval res" where
  "header_in nm [] = Inr (PStr [])"
| "header_in nm (h # hs) =
     rbind (py_get h ''name'' (PStr [])) (\<lambda>k.
     rbind (py_meth k str_lower) (\<lambda>k.
       if k = nm then py_get h ''value'' (PStr []) else header_in nm hs))"

definition extract_header :: "pydict \<Rightarrow> string \<Rightarrow> pyval res" where
  "extract_header message header_name =
     rbind (py_get (dict_get message ''payload'' (PDict [])) ''headers'' (PList [])) (\<lambda>hs.
     rbind (py_iter hs) (header_in (str_lower header_name)))"

text \<open>\<open>base64.urlsafe_b64decode(data).decode("utf-8", errors="ignore")\<close>.\<close>

definition decoded_data :: "texts \<Rightarrow> pyval \<Rightarrow> string res" where
  "decoded_data tx data =
     (case data of
        PStr s \<Rightarrow> (case urlsafe_b64decode s of Some b \<Rightarrow> Inr (tx_decode tx b) | None \<Rightarrow> Inl (Raised ''ValueError''))
      | _ \<Rightarrow> Inl (Raised ''TypeError''))"

definition part_data :: "pyval \<Rightarrow> pyval res" where
  "part_data part = rbind (py_get part ''body'' (PDict [])) (\<lambda>b. py_get b ''data'' (PStr []))"

fun body_of_parts :: "texts \<Rightarrow> pyval list \<Rightarrow> string \<Rightarrow> string res" where
  "body_of_parts tx [] body = Inr body"
| "body_of_parts tx (part # parts) body =
     rbind (py_get part ''mimeType'' PNone) (\<lambda>mime.
       if mime = PStr ''text/plain'' then
         rbind (part_data part) (\<lambda>data. if truthy data then decoded_data tx data else body_of_parts tx parts body)
       else if mime = PStr ''text/html'' \<and> body = [] then
         rbind (part_data part) (\<lambda>data.
           if truthy data then rbind (decoded_data tx data) (body_of_parts tx parts) else body_of_parts tx parts body)
       else body_of_parts tx parts body)"

definition decode_message_body :: "texts \<Rightarrow> pydict \<Rightarrow> string res" where
  "decode_message_body tx payload =
     (case map_of payload ''parts'' of
        Some parts \<Rightarrow> rbind (py_iter parts) (\<lambda>ps. body_of_parts tx ps [])
      | None \<Rightarrow> rbind (part_data (PDict payload)) (\<lambda>data. if truthy data then decoded_data tx data else Inr []))"

subsection \<open>Messages that are left out\<close>

definition OTP_SUBJECT :: re where
  "OTP_SUBJECT = seqs [Bound,
     alts [lit ''otp'',
           seqs [lit ''one'', Opt (Chr (\<lambda>c. c = CHR '' '' \<or> c = CHR ''-'')), lit ''time '',
                 alts [lit ''code'', lit ''password'', lit ''passcode'']],
           lit ''verification code'', lit ''security code''],
     Bound]"

definition OTP_BODY_SHORT :: re where
  "OTP_BODY_SHORT = seqs ([Bound] @ replicate 4 (Chr is_digit) @ replicate 4 (Opt (Chr is_digit)) @ [Bound])"

definition UNWANTED_LABELS :: "string list" where
  "UNWANTED_LABELS = [''CATEGORY_PROMOTIONS'', ''CATEGORY_SOCIAL'', ''SPAM'', ''TRASH'']"

definition is_otp_or_promo :: "pydict \<Rightarrow> bool res" where
  "is_otp_or_promo message =
     rbind (py_iter (py_or (pget message ''labelIds'') (PList []))) (\<lambda>labels.
       if list_ex (\<lambda>l. py_str l \<in> set UNWANTED_LABELS) labels then Inr True
       else rbind (extract_header message ''Subject'') (\<lambda>s.
         let subject = py_str (py_or s (PStr [])) in
         if re_search OTP_SUBJECT subject then Inr True
         else (case py_or (pget message ''snippet'') (PStr []) of
                 PStr snippet \<Rightarrow> Inr (length snippet < 160 \<and> re_search OTP_BODY_SHORT snippet \<and>
                   re_search OTP_SUBJECT (snippet @ '' '' @ subject))
               | _ \<Rightarrow> Inr False)))"

subsection \<open>The connector\<close>

text \<open>\<open>gm_http\<close> counts the attempts for a message; every other request is an attempt 0.\<close>

record gmail_env =
  gm_manager :: bool
  gm_token :: "nat \<Rightarrow> py_error + string"
  gm_http :: "nat \<Rightarrow> server"
  gm_texts :: texts
  gm_unescape :: "string \<Rightarrow> string"
  gm_mailbox_email :: string
  gm_since :: instant
  gm_now :: "nat \<Rightarrow> instant"

definition gmail_token :: "gmail_env \<Rightarrow> nat \<Rightarrow> py_error + string" where
  "gmail_token env tick =
     (if \<not> gm_manager env then Inl (error_of [] ''OAuth manager not configured'') else gm_token env tick)"

text \<open>Three attempts when the failure looks transient; a message that cannot be had is left out.\<close>

definition is_transient :: "py_error \<Rightarrow> bool" where
  "is_transient e = list_ex (\<lambda>w. contains w (str_lower (pe_text e))) [''429'', ''500'', ''503'', ''rate'']"

fun fetch_one :: "gmail_env \<Rightarrow> nat \<Rightarrow> string \<Rightarrow> string \<Rightarrow> nat list \<Rightarrow> pyval option" where
  "fetch_one env tick token msg_id [] = None"
| "fetch_one env tick token msg_id (attempt # later) =
     (case get_message (gm_http env attempt) tick token msg_id of
        Inr m \<Rightarrow> Some m
      | Inl e \<Rightarrow> if attempt < 2 \<and> is_transient e then fetch_one env tick token msg_id later else None)"

definition fetch_messages_bounded :: "gmail_env \<Rightarrow> nat \<Rightarrow> string \<Rightarrow> pyval list \<Rightarrow> pyval list" where
  "fetch_messages_bounded env tick token message_ids =
     filter truthy (List.map_filter (\<lambda>i. fetch_one env tick token (py_str i) [0, 1, 2]) message_ids)"

definition kept_message :: "gmail_env \<Rightarrow> pyval \<Rightarrow> pydict option res" where
  "kept_message env m =
     (case m of
        PDict d \<Rightarrow> rbind (is_otp_or_promo d) (\<lambda>unwanted.
          Inr (if unwanted then None
               else Some (if gm_mailbox_email env = [] then d
                          else AList.update ''_mailbox_email'' (PStr (gm_mailbox_email env)) d)))
      | _ \<Rightarrow> Inl (Raised ''AttributeError''))"

definition kept_messages :: "gmail_env \<Rightarrow> nat \<Rightarrow> string \<Rightarrow> pyval list \<Rightarrow> pydict list res" where
  "kept_messages env tick token ids =
     rbind (res_map (kept_message env) (fetch_messages_bounded env tick token ids)) (\<lambda>ds.
       Inr (List.map_filter (\<lambda>d. d) ds))"

definition backfill_query :: "gmail_env \<Rightarrow> nat \<Rightarrow> string" where
  "backfill_query env tick =
     ''newer_than:'' @ int_str (max 1 ((gm_now env tick - gm_since env) div 86400)) @
     ''d -category:promotions -category:social -category:forums -in:spam -in:trash''"

definition listed_id :: "pyval \<Rightarrow> pyval res" where
  "listed_id msg =
     (case msg of
        PDict d \<Rightarrow> (case map_of d ''id'' of Some i \<Rightarrow> Inr i | None \<Rightarrow> Inl (Raised ''KeyError''))
      | _ \<Rightarrow> Inl (Raised ''TypeError''))"

definition messages_page :: "gmail_env \<Rightarrow> nat \<Rightarrow> string \<Rightarrow> pyval \<Rightarrow> delta_result res" where
  "messages_page env tick token response =
     rbind (py_get response ''messages'' (PList [])) (\<lambda>ms.
     rbind (py_iter ms) (\<lambda>ms.
     rbind (res_map listed_id ms) (\<lambda>ids.
     rbind (kept_messages env tick token ids) (\<lambda>documents.
     rbind (py_get response ''nextPageToken'' PNone) (\<lambda>next_page.
       Inr \<lparr>dr_documents = documents, dr_next_cursor = cursor_of next_page, dr_has_more = truthy next_page\<rparr>)))))"

definition gmail_fetch_delta :: "gmail_env \<Rightarrow> nat \<Rightarrow> string option \<Rightarrow> py_error + delta_result" where
  "gmail_fetch_delta env tick cursor =
     (case gmail_token env tick of
        Inl e \<Rightarrow> Inl e
      | Inr token \<Rightarrow>
          (case list_messages (gm_http env 0) tick token 100 cursor (backfill_query env tick) of
             Inl e \<Rightarrow> Inl e | Inr response \<Rightarrow> lifted (messages_page env tick token response)))"

subsection \<open>The history\<close>

definition item_ids :: "pyval \<Rightarrow> string \<Rightarrow> pyval list res" where
  "item_ids history_record key =
     rbind (py_get history_record key (PList [])) (\<lambda>items.
     rbind (py_iter items) (\<lambda>items.
     rbind (res_map (\<lambda>item. rbind (py_get item ''message'' (PDict [])) (\<lambda>m. py_get m ''id'' PNone)) items) (\<lambda>ids.
       Inr (filter truthy ids))))"

definition history_ids :: "pyval list \<Rightarrow> string \<Rightarrow> pyval list res" where
  "history_ids records key = rbind (res_map (\<lambda>r. item_ids r key) records) (\<lambda>ids. Inr (concat ids))"

definition history_of :: "pyval \<Rightarrow> pyval list res" where
  "history_of response = rbind (py_get response ''history'' (PList [])) py_iter"

definition gmail_fetch_deleted_ids :: "gmail_env \<Rightarrow> nat \<Rightarrow> string option \<Rightarrow> py_error + deletion_result" where
  "gmail_fetch_deleted_ids env tick cursor =
     (case gmail_token env tick of
        Inl e \<Rightarrow> Inl e
      | Inr token \<Rightarrow>
          if \<not> cursor_set cursor then Inr \<lparr>xr_deleted_ids = [], xr_next_cursor = None, xr_has_more = False\<rparr>
          else (case list_history (gm_http env 0) tick token (the cursor) [''messageDeleted''] of
                  Inl e \<Rightarrow> Inl e
                | Inr response \<Rightarrow>
                    lifted (rbind (history_of response) (\<lambda>records.
                      rbind (history_ids records ''messagesDeleted'') (\<lambda>ids.
                      rbind (py_get response ''historyId'' (PStr (the cursor))) (\<lambda>h.
                        Inr \<lparr>xr_deleted_ids = map py_str ids, xr_next_cursor = cursor_of h, xr_has_more = False\<rparr>))))))"

definition history_page :: "gmail_env \<Rightarrow> nat \<Rightarrow> string \<Rightarrow> string \<Rightarrow> pyval \<Rightarrow> notice_delta res" where
  "history_page env tick token history_id response =
     rbind (history_of response) (\<lambda>records.
     rbind (history_ids records ''messagesAdded'') (\<lambda>added.
     rbind (history_ids records ''messagesDeleted'') (\<lambda>removed.
     rbind (kept_messages env tick token (dedup added)) (\<lambda>documents.
     rbind (py_get response ''historyId'' (PStr history_id)) (\<lambda>h.
       Inr \<lparr>nd_documents = documents, nd_deleted_ids = map py_str removed, nd_next_cursor = cursor_of h\<rparr>)))))"

definition fetch_since_history_id :: "gmail_env \<Rightarrow> nat \<Rightarrow> string \<Rightarrow> py_error + notice_delta" where
  "fetch_since_history_id env tick history_id =
     (case gmail_token env tick of
        Inl e \<Rightarrow> Inl e
      | Inr token \<Rightarrow>
          (case list_history (gm_http env 0) tick token history_id [] of
             Inl e \<Rightarrow> Inl e | Inr response \<Rightarrow> lifted (history_page env tick token history_id response)))"

subsection \<open>Unified documents\<close>

definition mock_text :: "string \<Rightarrow> bool" where
  "mock_text s = starts_with ''<MagicMock'' s"

text \<open>A header as a string; what a mock left there is dropped.\<close>

definition header_text :: "pyval \<Rightarrow> string" where
  "header_text v = (let s = (case v of PStr s \<Rightarrow> s | v \<Rightarrow> py_str (py_or v (PStr []))) in if mock_text s then [] else s)"

definition to_emails_of :: "pyval \<Rightarrow> pyval" where
  "to_emails_of v =
     (case v of
        PStr s \<Rightarrow> if s = [] then PStr [] else PList [PStr s]
      | PList es \<Rightarrow> PList (filter (\<lambda>e. case e of PStr _ \<Rightarrow> True | _ \<Rightarrow> False) es)
      | _ \<Rightarrow> PStr [])"

definition TAG_RE :: re where
  "TAG_RE = seqs [Chr (\<lambda>c. c = CHR ''<''), plus_of (\<lambda>c. c \<noteq> CHR ''>''), Chr (\<lambda>c. c = CHR ''>'')]"

definition strip_html :: "(string \<Rightarrow> string) \<Rightarrow> string \<Rightarrow> string" where
  "strip_html unescape s = str_strip (re_sub spaces '' '' (re_sub TAG_RE [] (unescape s)))"

definition attachment_part :: "pyval \<Rightarrow> bool res" where
  "attachment_part part =
     rbind (py_get part ''filename'' (PStr [])) (\<lambda>filename.
       if \<not> truthy filename then Inr False
       else rbind (py_get part ''body'' (PDict [])) (\<lambda>b. rbind (py_get b ''attachmentId'' PNone) (\<lambda>a. Inr (truthy a))))"

fun first_true :: "('a \<Rightarrow> bool res) \<Rightarrow> 'a list \<Rightarrow> bool res" where
  "first_true p [] = Inr False"
| "first_true p (x # xs) = rbind (p x) (\<lambda>b. if b then Inr True else first_true p xs)"

definition message_has_attachments :: "pydict \<Rightarrow> bool res" where
  "message_has_attachments payload =
     (case map_of payload ''parts'' of
        None \<Rightarrow> Inr False | Some parts \<Rightarrow> rbind (py_iter parts) (first_true attachment_part))"

definition message_date :: "gmail_env \<Rightarrow> nat \<Rightarrow> pyval \<Rightarrow> instant res" where
  "message_date env tick v =
     (case py_int v of
        None \<Rightarrow> Inl (Raised (case v of PStr _ \<Rightarrow> ''ValueError'' | _ \<Rightarrow> ''TypeError''))
      | Some ms \<Rightarrow> if ms = 0 then Inr (gm_now env tick) else from_millis ms)"

definition payload_dict :: "pyval \<Rightarrow> pydict res" where
  "payload_dict v = (case v of PDict d \<Rightarrow> Inr d | _ \<Rightarrow> Inl (Raised ''TypeError''))"

definition mailbox_permissions :: "gmail_env \<Rightarrow> string list" where
  "mailbox_permissions env = (if gm_mailbox_email env = [] then [] else [''user:'' @ gm_mailbox_email env])"

definition transform_message :: "gmail_env \<Rightarrow> nat \<Rightarrow> pydict \<Rightarrow> unified_document list res" where
  "transform_message env tick message =
     (if \<not> truthy (pget message ''id'') then Inr []
      else
        rbind (extract_header message ''Subject'') (\<lambda>subject.
        rbind (extract_header message ''From'') (\<lambda>from_email.
        rbind (extract_header message ''To'') (\<lambda>to_emails.
        rbind (payload_dict (dict_get message ''payload'' (PDict []))) (\<lambda>payload.
        rbind (decode_message_body (gm_texts env) payload) (\<lambda>content.
        rbind (message_has_attachments payload) (\<lambda>attachments.
        rbind (message_date env tick (dict_get message ''internalDate'' (PInt 0))) (\<lambda>date.
        rbind (make_unified (pget message ''id'') (PStr (header_text subject))
                 (PStr (strip_html (gm_unescape env) (if mock_text content then ''Test content'' else content)))
                 ''google_gmail'' (PStr (''https://mail.google.com/mail/u/0/#inbox/'' @ py_str (pget message ''id'')))
                 (mailbox_permissions env) date (gm_now env tick) date
                 [(''from_email'', PStr (header_text from_email)), (''to_emails'', to_emails_of to_emails),
                  (''thread_id'', dict_get message ''threadId'' (PStr [])), (''label_ids'', dict_get message ''labelIds'' (PList [])),
                  (''has_attachments'', PBool attachments), (''message_size_bytes'', dict_get message ''sizeEstimate'' (PInt 0))])
          (\<lambda>u. Inr [u])))))))))"

definition gmail_transform :: "gmail_env \<Rightarrow> nat \<Rightarrow> pydict list \<Rightarrow> py_error + unified_document list" where
  "gmail_transform env tick raws = lifted (rbind (res_map (transform_message env tick) raws) (\<lambda>us. Inr (concat us)))"

definition gmail_connector :: "gmail_env \<Rightarrow> connector" where
  "gmail_connector env = \<lparr>cn_source_type = ''google_gmail'', cn_fetch_deleted_ids = gmail_fetch_deleted_ids env,
     cn_fetch_delta = gmail_fetch_delta env, cn_transform = gmail_transform env\<rparr>"

end
