(* ===== verification/Source_Safety.thy ===== *)
theory Source_Safety
  imports Gmail_Source
begin

text \<open>
  What the Google sources promise: the documents of Drive follow the shares that were live when they were
  fetched. And what they do not: the history of Gmail is read one page deep and never again once it has
  expired, the deletion pass of a Gmail crawl finds nothing, and any failure on a later page of Drive starts
  the crawl over.
\<close>

lemma contains_append:
  assumes "contains sub s"
  shows "contains sub (p @ s)"
proof -
  obtain i where i: "i \<in> set [0..<Suc (length s)]" "starts_with sub (drop i s)"
    using assms unfolding contains_def list_ex_iff by blast
  have "length p + i \<in> set [0..<Suc (length (p @ s))]" using i(1) by (simp only: set_upt atLeastLessThan_iff length_append) linarith
  moreover have "starts_with sub (drop (length p + i) (p @ s))" using i(2) by simp
  ultimately show ?thesis unfolding contains_def list_ex_iff by blast
qed

lemma cw_retried_tick [simp]: "cw_retried (next_tick c) = cw_retried c"
  by (simp add: next_tick_def)

subsection \<open>Grants of Drive documents\<close>

definition share_term :: "pyval \<Rightarrow> string" where
  "share_term perm = (case perm of PDict d \<Rightarrow> ''user:'' @ py_str (dict_get d ''emailAddress'' (PStr [])) | _ \<Rightarrow> [])"

lemma permission_term_iff:
  "permission_term perm = Inr ts \<Longrightarrow> ts = (if live_user_share perm then [share_term perm] else [])"
  by (cases perm) (auto simp: permission_term_def live_user_share_def share_term_def split: if_splits)

lemma permission_terms:
  "res_map permission_term perms = Inr tss \<Longrightarrow> concat tss = map share_term (filter live_user_share perms)"
proof (induction perms arbitrary: tss)
  case (Cons p perms)
  then obtain ts tss' where t: "permission_term p = Inr ts" "res_map permission_term perms = Inr tss'" "tss = ts # tss'"
    by (auto simp: rbind_Inr_iff)
  show ?case using permission_term_iff [OF t(1)] Cons.IH [OF t(2)] by (simp add: t(3))
qed simp

text \<open>The terms for a file whose shares are \<open>perms\<close>: the users of the live ones, or else the owner.\<close>

definition drive_grants :: "pyval list \<Rightarrow> pyval \<Rightarrow> string list" where
  "drive_grants perms owner_email =
     (if filter live_user_share perms \<noteq> [] then map share_term (filter live_user_share perms)
      else if truthy owner_email then [''user:'' @ py_str owner_email] else [])"

lemma resolve_permissions_grants:
  assumes "resolve_permissions file = Inr ts"
  shows "\<exists>perms owner_email. py_iter (dict_get file ''permissions'' (PList [])) = Inr perms \<and>
    ts = drive_grants perms owner_email \<and>
    (filter live_user_share perms = [] \<longrightarrow> owner_email_of file = Inr owner_email)"
proof -
  obtain perms tss where p: "py_iter (dict_get file ''permissions'' (PList [])) = Inr perms"
      "res_map permission_term perms = Inr tss"
      and ts: "(if concat tss \<noteq> [] then Inr (concat tss)
         else rbind (owner_email_of file) (\<lambda>e. Inr (if truthy e then [''user:'' @ py_str e] else []))) = Inr ts"
    using assms unfolding resolve_permissions_def by (auto simp: rbind_Inr_iff)
  have c: "concat tss = map share_term (filter live_user_share perms)" by (rule permission_terms [OF p(2)])
  show ?thesis
  proof (cases "filter live_user_share perms = []")
    case True
    then have "rbind (owner_email_of file) (\<lambda>e. Inr (if truthy e then [''user:'' @ py_str e] else [])) = Inr ts"
      using ts by (simp add: c)
    then obtain e where "owner_email_of file = Inr e" "ts = (if truthy e then [''user:'' @ py_str e] else [])"
      by (auto simp: rbind_Inr_iff)
    with p(1) True show ?thesis by (auto simp: drive_grants_def)
  next
    case False
    then have "ts = map share_term (filter live_user_share perms)" using ts by (simp add: c)
    with p(1) False show ?thesis by (auto simp: drive_grants_def)
  qed
qed

lemma make_unified_Inr:
  assumes "make_unified i t c src url perms x y z m = Inr u"
  shows "i = PStr (ud_id u) \<and> ud_permissions u = perms"
  using assms by (auto simp: make_unified_def rbind_Inr_iff py_need_str_def split: if_splits pyval.splits)

lemma transform_file_Inr:
  assumes "transform_file env tick file = Inr us" "u \<in> set us"
  shows "pget file ''id'' = PStr (ud_id u) \<and> resolve_permissions file = Inr (ud_permissions u)"
  using assms by (auto simp: transform_file_def rbind_Inr_iff split: if_splits dest!: make_unified_Inr)

lemma drive_transform_Inr:
  assumes "drive_transform env tick raws = Inr docs" "u \<in> set docs"
  shows "\<exists>file \<in> set raws. pget file ''id'' = PStr (ud_id u) \<and> resolve_permissions file = Inr (ud_permissions u)"
proof -
  obtain uss where us: "res_map (transform_file env tick) raws = Inr uss" "docs = concat uss"
    using assms(1) by (auto simp: drive_transform_def rbind_Inr_iff)
  obtain us' where m: "us' \<in> set uss" "u \<in> set us'" using assms(2) us(2) by auto
  obtain doc where f: "doc \<in> set raws" "transform_file env tick doc = Inr us'"
    using res_map_memD [OF us(1) m(1)] by auto
  show ?thesis using f(1) transform_file_Inr [OF f(2) m(2)] by blast
qed

text \<open>What a fetch delivers was hydrated with the permissions the server listed then.\<close>

definition hydrated :: "drive_env \<Rightarrow> nat \<Rightarrow> pydict \<Rightarrow> bool" where
  "hydrated env tick file \<longleftrightarrow> (\<exists>token. drive_token env tick = Inr token \<and>
     dict_get file ''permissions'' (PList []) =
       py_or (list_permissions (dv_http env) tick token (py_str (dict_get file ''id'' (PStr [])))) (PList []))"

lemma hydrate_file_Inr:
  assumes "hydrate_file env tick token f = Inr file" "drive_token env tick = Inr token"
  shows "hydrated env tick file"
  using assms by (auto simp: hydrate_file_def hydrated_def Let_def rbind_Inr_iff dict_get_update)

lemma drive_fetch_hydrated:
  assumes "drive_fetch_delta env tick cursor = Inr page" "file \<in> set (dr_documents page)"
  shows "hydrated env tick file"
proof -
  obtain token where t: "drive_token env tick = Inr token"
    using assms(1) by (auto simp: drive_fetch_delta_def split: sum.splits)
  obtain response where r: "files_page env tick token response = Inr page"
    using assms t by (auto simp: drive_fetch_delta_def split: if_splits sum.splits)
  then obtain fs where "hydrate_files env tick token fs = Inr (dr_documents page)"
    by (auto simp: files_page_def rbind_Inr_iff)
  then obtain f where "hydrate_file env tick token f = Inr file"
    using res_map_memD [OF _ assms(2)] unfolding hydrate_files_def by blast
  then show ?thesis by (rule hydrate_file_Inr [OF _ t])
qed

text \<open>
  Property C34: a document that the transformation makes of a fetched Drive file is granted exactly to the users
  of the live shares the server listed at the fetch, or to the owner when there is none: shares of groups,
  of everybody and of a domain, removed shares and a failed listing grant nothing.
\<close>

theorem drive_documents_follow_live_shares:
  assumes "drive_fetch_delta env tick cursor = Inr page" "drive_transform env tick' (dr_documents page) = Inr docs"
    and "u \<in> set docs"
  shows "\<exists>file \<in> set (dr_documents page). \<exists>token perms owner_email. pget file ''id'' = PStr (ud_id u) \<and>
    drive_token env tick = Inr token \<and>
    py_iter (py_or (list_permissions (dv_http env) tick token (ud_id u)) (PList [])) = Inr perms \<and>
    ud_permissions u = drive_grants perms owner_email \<and>
    (filter live_user_share perms = [] \<longrightarrow> owner_email_of file = Inr owner_email)"
proof -
  obtain doc where f: "doc \<in> set (dr_documents page)" "pget doc ''id'' = PStr (ud_id u)"
      "resolve_permissions doc = Inr (ud_permissions u)"
    using drive_transform_Inr [OF assms(2,3)] by blast
  have i: "dict_get doc ''id'' (PStr []) = PStr (ud_id u)"
    using f(2) by (auto simp: pget_def dict_get_def split: option.splits)
  obtain token where t: "drive_token env tick = Inr token"
      "dict_get doc ''permissions'' (PList []) = py_or (list_permissions (dv_http env) tick token (ud_id u)) (PList [])"
    using drive_fetch_hydrated [OF assms(1) f(1)] by (auto simp: hydrated_def i)
  show ?thesis using f t resolve_permissions_grants [OF f(3)] by metis
qed

subsection \<open>The history of Gmail\<close>

text \<open>The feed of the task is the history of one mailbox, answered the same at every call.\<close>

definition mailbox_feed :: "notice_env \<Rightarrow> gmail_env \<Rightarrow> bool" where
  "mailbox_feed ne env \<longleftrightarrow> (\<forall>tick t c. ne_feed ne tick t c = fetch_since_history_id env tick c)"

definition history_answers :: "gmail_env \<Rightarrow> string \<Rightarrow> reply_body \<Rightarrow> bool" where
  "history_answers env c b \<longleftrightarrow> (\<forall>tick token. gm_http env 0 tick (history_request token c []) = Reply b)"

lemma kept_messages_Nil [simp]: "kept_messages env tick token [] = Inr []"
  by (simp add: kept_messages_def fetch_messages_bounded_def List.map_filter_def)

lemma expired_feed:
  assumes "history_answers env c b" "rb_status b = 404"
  shows "fetch_since_history_id env tick c =
    (case gmail_token env tick of Inl e \<Rightarrow> Inl e
     | Inr _ \<Rightarrow> Inr \<lparr>nd_documents = [], nd_deleted_ids = [], nd_next_cursor = Some c\<rparr>)"
proof (cases "gmail_token env tick")
  case (Inr token)
  have "list_history (gm_http env 0) tick token c [] = Inr (PDict [(''history'', PList []), (''historyId'', PStr c)])"
    using assms by (simp add: list_history_def history_answers_def)
  then show ?thesis using Inr
    by (simp add: fetch_since_history_id_def history_page_def history_of_def history_ids_def dict_get_def
        dedup_def cursor_of_def lifted_def)
qed (simp add: fetch_since_history_id_def)

lemma expired_delta:
  assumes "mailbox_feed ne env" "history_answers env c b" "rb_status b = 404" "c \<noteq> []"
    and "apply_delta ne ''google_gmail'' scope scope c f s = (r, s')"
    and "get_cursor scope ''google_gmail'' (sy_cursors s) = Some c"
  shows "sy_index s' = sy_index s \<and> get_cursor scope ''google_gmail'' (sy_cursors s') = Some c"
  using assms(1,4-6) expired_feed [OF assms(2,3), of "sy_tick s"]
  by (cases "gmail_token env (sy_tick s)")
    (auto simp: apply_delta_def mailbox_feed_def compile_notice_def drop_notice_def advance_cursor_def save_cursor_def
      some_cursor_def)

lemma expired_notice:
  assumes "mailbox_feed ne env" "history_answers env c b" "rb_status b = 404" "c \<noteq> []"
    and "get_cursor scope ''google_gmail'' (sy_cursors s) = Some c"
    and "process_gmail_notification ne scope s = (r, s')"
  shows "sy_index s' = sy_index s \<and> get_cursor scope ''google_gmail'' (sy_cursors s') = Some c"
proof -
  obtain v s1 where v: "validate_tenant_auth (ne_worker ne) (se_vault (ne_sync ne)) scope s = (v, s1)" by fastforce
  have f: "sy_index s1 = sy_index s" "get_cursor scope ''google_gmail'' (sy_cursors s1) = Some c"
    using validate_frame [OF v] assms(5) by simp_all
  obtain d s2 where d: "apply_delta ne ''google_gmail'' scope scope c (\<lambda>raw. raw) s1 = (d, s2)" by fastforce
  have "s' = s1 \<or> s' = s2"
    using assms(4,6) v f(2) d by (auto simp: process_gmail_notification_def split: sum.splits)
  then show ?thesis using f expired_delta [OF assms(1-4) d f(2)] by auto
qed

text \<open>The state after a number of notifications.\<close>

fun after_notices :: "notice_env \<Rightarrow> string \<Rightarrow> nat \<Rightarrow> sync_state \<Rightarrow> sync_state" where
  "after_notices ne scope 0 s = s"
| "after_notices ne scope (Suc n) s = after_notices ne scope n (snd (process_gmail_notification ne scope s))"

text \<open>
  Property C36: once Gmail answers the stored history identifier with 404, as it does when the identifier is
  too old, no number of notifications changes the index or the stored identifier: the mailbox is never read again.
\<close>

theorem expired_history_is_never_left:
  assumes "mailbox_feed ne env" "history_answers env c b" "rb_status b = 404" "c \<noteq> []"
    and "get_cursor scope ''google_gmail'' (sy_cursors s) = Some c"
  shows "sy_index (after_notices ne scope n s) = sy_index s \<and>
    get_cursor scope ''google_gmail'' (sy_cursors (after_notices ne scope n s)) = Some c"
  using assms(5)
proof (induction n arbitrary: s)
  case (Suc n)
  obtain r s' where run: "process_gmail_notification ne scope s = (r, s')" by fastforce
  note step = expired_notice [OF assms(1-4) Suc.prems run]
  show ?case using Suc.IH [of s'] step by (simp add: run)
qed simp


text \<open>A message that could not be fetched is passed over; the page and its cursor stand.\<close>

lemma unfetched_messages_are_skipped:
  assumes "\<And>i. i \<in> set ids \<Longrightarrow> fetch_one env tick token (py_str i) [0, 1, 2] = None"
  shows "kept_messages env tick token ids = Inr []"
proof -
  have "List.map_filter (\<lambda>i. fetch_one env tick token (py_str i) [0, 1, 2]) ids = []"
    using assms by (induction ids) (simp_all add: List.map_filter_def)
  then show ?thesis by (simp add: kept_messages_def fetch_messages_bounded_def List.map_filter_def)
qed

text \<open>
  The deletion pass of a crawl starts without a cursor, and for Gmail that ends it: a crawl removes
  nothing.
\<close>

lemma gmail_crawls_delete_nothing:
  assumes "sj_connector job = gmail_connector env"
  shows "\<exists>c'. deletion_pass job (begin_pass None st s) = Some c' \<and> sy_index (cw_state c') = sy_index s \<and>
    ts_deleted_count (cw_stats c') = ts_deleted_count st"
proof -
  let ?c = "begin_pass None st s"
  have fetch: "gmail_fetch_deleted_ids env tick None =
      (case gmail_token env tick of Inl e \<Rightarrow> Inl e
       | Inr _ \<Rightarrow> Inr \<lparr>xr_deleted_ids = [], xr_next_cursor = None, xr_has_more = False\<rparr>)" for tick
    by (simp add: gmail_fetch_deleted_ids_def split: sum.split)
  have step: "\<not> going (deletion_step job ?c) \<and> sy_index (cw_state (deletion_step job ?c)) = sy_index s \<and>
      cw_stats (deletion_step job ?c) = st"
    by (cases "gmail_token env (sy_tick s)")
      (simp_all add: deletion_step_def assms gmail_connector_def fetch begin_pass_def going_def next_tick_def
        delete_page_def turn_page_def)
  have "deletion_pass job ?c = Some (deletion_step job ?c)"
    unfolding deletion_pass_def
    by (subst while_option_unfold, subst while_option_unfold) (use step in \<open>simp add: going_def begin_pass_def\<close>)
  with step show ?thesis by simp
qed

subsection \<open>Failures on a later page of Drive\<close>

text \<open>
  When Drive refuses the request for a later page for any reason, be it the rate limit, the crawl
  takes its cursor for a stale one, since the message quotes the address with its \<open>pageToken\<close>: the stored
  cursor is dropped and the crawl goes on from the first page.
\<close>

theorem refused_pages_restart_the_crawl:
  assumes "sj_connector job = drive_connector env" "drive_token env (sy_tick (cw_state c)) = Inr token"
    and "cw_cursor c = Some page" "page \<noteq> []" "\<not> is_changes_token (Some page)" "\<not> cw_retried c" "cw_phase c = Going"
    and "dv_http env (sy_tick (cw_state c))
           (files_request token 100 (Some page) (drive_query env (sy_tick (cw_state c)))) = Reply b"
    and "\<not> is_success b" "contains ''pageToken'' (rb_error b)"
    and "hk_cursor (sj_hooks job) [] (cw_state (next_tick c)) = (Inr (), s')"
  shows "cw_cursor (delta_step job c) = None \<and> cw_phase (delta_step job c) = Going \<and>
    cw_state (delta_step job c) = s' \<and> ts_final_cursor (cw_stats (delta_step job c)) = None"
proof -
  let ?e = "error_of [] (''Drive API error: '' @ rb_error b)"
  have "drive_fetch_delta env (sy_tick (cw_state c)) (Some page) = Inl ?e"
    using assms(2,5,8,9) by (simp add: drive_fetch_delta_def list_files_def json_reply_def checked_reply_def)
  then have "delta_step job c = delta_failed job ?e (next_tick c)"
    using assms(1,3) by (simp add: delta_step_def drive_connector_def)
  moreover have "is_stale_cursor ?e"
    using contains_append [OF assms(10), of "''Drive API error: ''"] by (simp add: is_stale_cursor_def)
  ultimately show ?thesis
    using assms(3,4,6,7,11) by (simp add: delta_failed_def reset_cursor_def)
qed

subsection \<open>Examples\<close>

definition demo_reply :: "nat \<Rightarrow> pyval \<Rightarrow> reply_body" where
  "demo_reply status body = \<lparr>rb_status = status, rb_error = ''Client error for url https://x/files?pageToken=p2'',
     rb_json = Inr body, rb_content = [116]\<rparr>"

definition demo_texts :: texts where
  "demo_texts = \<lparr>tx_decode = map char_of, tx_extract = (\<lambda>b _ _. Some (map char_of b))\<rparr>"

definition demo_shares :: pyval where
  "demo_shares = PDict [(''permissions'', PList [
     PDict [(''type'', PStr ''user''), (''emailAddress'', PStr ''bob@x.io'')],
     PDict [(''type'', PStr ''group''), (''emailAddress'', PStr ''all@x.io'')]])]"

definition demo_listing :: pyval where
  "demo_listing = PDict [(''files'', PList [PDict [(''id'', PStr ''f1''), (''name'', PStr ''Plan''), (''mimeType'', PStr ''text/plain'')],
     PDict [(''id'', PStr ''d1''), (''mimeType'', PStr ''application/vnd.google-apps.folder'')]]), (''nextPageToken'', PStr ''p2'')]"

definition demo_drive :: drive_env where
  "demo_drive = \<lparr>dv_manager = True, dv_token = (\<lambda>_ _. Inr ''t''),
     dv_http = (\<lambda>_ rq. if sq_url rq = DRIVE_ROOT @ ''/files''
        then if map_of (sq_params rq) ''pageToken'' = None then Reply (demo_reply 200 demo_listing) else Reply (demo_reply 429 PNone)
        else Reply (demo_reply 200 demo_shares)),
     dv_texts = demo_texts, dv_since = 0, dv_isoformat = (\<lambda>_. ''1970''), dv_now = (\<lambda>_. 9), dv_iso = (\<lambda>_. None)\<rparr>"

definition demo_page :: delta_result where
  "demo_page = (case drive_fetch_delta demo_drive 0 None of
     Inr r \<Rightarrow> r | Inl _ \<Rightarrow> \<lparr>dr_documents = [], dr_next_cursor = None, dr_has_more = False\<rparr>)"

definition demo_drive_docs :: "unified_document list" where
  "demo_drive_docs = (case drive_transform demo_drive 1 (dr_documents demo_page) of Inr us \<Rightarrow> us | Inl _ \<Rightarrow> [])"

lemma demo_drive_run:
  "drive_fetch_delta demo_drive 0 None = Inr demo_page"
  "drive_transform demo_drive 1 (dr_documents demo_page) = Inr demo_drive_docs"
  "map ud_id demo_drive_docs = [''f1'']" "map ud_permissions demo_drive_docs = [[''user:bob@x.io'']]"
  by code_simp+

theorem drive_documents_follow_live_shares_witness:
  "\<exists>perms owner_email. drive_grants perms owner_email = [''user:bob@x.io''] \<and>
     py_iter (py_or (list_permissions (dv_http demo_drive) 0 ''t'' ''f1'') (PList [])) = Inr perms"
proof -
  obtain u where one: "demo_drive_docs = [u]" using demo_drive_run(3) by (cases demo_drive_docs) auto
  have u: "demo_drive_docs = [u]" "ud_id u = ''f1''" "ud_permissions u = [''user:bob@x.io'']"
    using demo_drive_run(3,4) by (simp_all add: one)
  have "u \<in> set demo_drive_docs" by (simp add: u(1))
  from drive_documents_follow_live_shares [OF demo_drive_run(1,2) this]
  obtain token perms owner_email where t: "drive_token demo_drive 0 = Inr token"
      "py_iter (py_or (list_permissions (dv_http demo_drive) 0 token (ud_id u)) (PList [])) = Inr perms"
      "ud_permissions u = drive_grants perms owner_email" by blast
  have "drive_token demo_drive 0 = Inr ''t''" by code_simp
  with t u show ?thesis by auto
qed

definition demo_refused_job :: sync_job where
  "demo_refused_job = (demo_job [])\<lparr>sj_connector := drive_connector demo_drive\<rparr>"

definition demo_second_page :: crawl where
  "demo_second_page = begin_pass (Some ''p2'') (start_stats (Some ''p2'')) demo_sync_state"

theorem refused_pages_restart_the_crawl_witness:
  "cw_cursor (delta_step demo_refused_job demo_second_page) = None \<and>
   get_cursor ''t'' ''google_drive'' (sy_cursors (cw_state (delta_step demo_refused_job demo_second_page))) = None"
proof -
  let ?t = "sy_tick (cw_state demo_second_page)"
  obtain s' where hook: "hk_cursor (sj_hooks demo_refused_job) [] (cw_state (next_tick demo_second_page)) = (Inr (), s')"
    by (simp add: demo_refused_job_def demo_job_def demo_hooks_def)
  have job: "sj_connector demo_refused_job = drive_connector demo_drive" by (simp add: demo_refused_job_def)
  have tok: "drive_token demo_drive ?t = Inr ''t''" by (simp add: drive_token_def demo_drive_def)
  have start: "cw_cursor demo_second_page = Some ''p2''" "\<not> cw_retried demo_second_page" "cw_phase demo_second_page = Going"
    by (simp_all add: demo_second_page_def begin_pass_def)
  have page: "\<not> is_changes_token (Some ''p2'')" by code_simp
  have refused: "dv_http demo_drive ?t (files_request ''t'' 100 (Some ''p2'') (drive_query demo_drive ?t)) = Reply (demo_reply 429 PNone)"
    by (simp add: demo_drive_def files_request_def all_drives_def)
  have err: "\<not> is_success (demo_reply 429 PNone)" "contains ''pageToken'' (rb_error (demo_reply 429 PNone))" by code_simp+
  from refused_pages_restart_the_crawl [OF job tok start(1) _ page start(2,3) refused err hook]
  have r: "cw_cursor (delta_step demo_refused_job demo_second_page) = None"
      "cw_state (delta_step demo_refused_job demo_second_page) = s'" by simp_all
  have "get_cursor ''t'' ''google_drive'' (sy_cursors s') = None"
    using hook by (auto simp: demo_refused_job_def demo_job_def demo_hooks_def some_cursor_def)
  with r show ?thesis by simp
qed

definition demo_history :: pyval where
  "demo_history = PDict [(''history'', PList [PDict [(''messagesDeleted'', PList [PDict [(''message'', PDict [(''id'', PStr ''x'')])]])]]),
     (''nextPageToken'', PStr ''p2''), (''historyId'', PStr ''90'')]"

definition demo_gmail :: gmail_env where
  "demo_gmail = \<lparr>gm_manager = True, gm_token = (\<lambda>_. Inr ''t''),
     gm_http = (\<lambda>_ _ rq. if map_of (sq_params rq) ''startHistoryId'' = Some (PStr ''7'') then Reply (demo_reply 200 demo_history)
        else Reply (demo_reply 404 PNone)),
     gm_texts = demo_texts, gm_unescape = (\<lambda>s. s), gm_mailbox_email = ''bob@x.io'', gm_since = 0, gm_now = (\<lambda>_. 9)\<rparr>"

definition demo_gmail_notices :: notice_env where
  "demo_gmail_notices = demo_notice_env\<lparr>ne_feed := (\<lambda>tick t c. fetch_since_history_id demo_gmail tick c)\<rparr>"

lemma demo_mailbox: "mailbox_feed demo_gmail_notices demo_gmail"
  by (simp add: mailbox_feed_def demo_gmail_notices_def)

lemma demo_answers_history:
  "history_answers demo_gmail ''7'' (demo_reply 200 demo_history)" "history_answers demo_gmail ''5'' (demo_reply 404 PNone)"
  by (simp_all add: history_answers_def demo_gmail_def history_request_def)

theorem expired_history_is_never_left_witness:
  "get_cursor (cursor_scope_id (uuid_str 1) ''bob'') ''google_gmail''
     (sy_cursors (after_notices demo_gmail_notices (cursor_scope_id (uuid_str 1) ''bob'') 3 (demo_notice_state ''5''))) = Some ''5''"
proof -
  let ?scope = "cursor_scope_id (uuid_str 1) ''bob''"
  have c: "get_cursor ?scope ''google_gmail'' (sy_cursors (demo_notice_state ''5'')) = Some ''5''"
    by (simp add: demo_notice_state_def demo_sync_state_def some_cursor_def)
  have status: "rb_status (demo_reply 404 PNone) = 404" by (simp add: demo_reply_def)
  from expired_history_is_never_left [OF demo_mailbox demo_answers_history(2) status _ c, of 3] show ?thesis by simp
qed

lemma demo_gmail_run:
  "(case process_gmail_notification demo_gmail_notices (cursor_scope_id (uuid_str 1) ''bob'') (demo_notice_state ''7'') of
      (Inr r, s) \<Rightarrow> nr_deleted_count r = 1 | (Inl f, s) \<Rightarrow> False)"
  by code_simp


end
