(* ===== verification/Graph_Source.thy ===== *)
theory Graph_Source
  imports Drive_Source Federated
begin

text \<open>
  The Microsoft sources: \<open>backend/app/connectors/microsoft/clients/graph_client.py\<close>, \<open>microsoft/content.py\<close>,
  \<open>microsoft/services/onedrive_service.py\<close> and \<open>outlook_service.py\<close>, and the notification task of
  \<open>microsoft/plugin.py\<close>, which indexes what the connector itself makes of the items, without the pipeline.
\<close>

subsection \<open>The Graph client\<close>

definition GRAPH_ROOT :: string where "GRAPH_ROOT = ''https://graph.microsoft.com/v1.0''"

text \<open>The failures of \<open>httpx\<close> are not wrapped.\<close>

definition graph_reply :: "reply \<Rightarrow> py_error + reply_body" where
  "graph_reply r =
     (case r of
        Unreachable e \<Rightarrow> Inl (error_of [''HTTPError''] e)
      | Reply b \<Rightarrow> if is_success b then Inr b else Inl (error_of [''HTTPStatusError'', ''HTTPError''] (rb_error b)))"

definition graph_json :: "server \<Rightarrow> nat \<Rightarrow> string \<Rightarrow> string \<Rightarrow> py_error + pyval" where
  "graph_json http tick access_token url =
     (case graph_reply (http tick \<lparr>sq_url = url, sq_params = [], sq_token = access_token\<rparr>) of
        Inl e \<Rightarrow> Inl e
      | Inr b \<Rightarrow> (case rb_json b of Inl e \<Rightarrow> Inl (error_of [''JSONDecodeError'', ''ValueError''] e) | Inr v \<Rightarrow> Inr v))"

record delta_items =
  di_items :: "pyval list"
  di_next_link :: pyval
  di_delta_link :: pyval

definition read_delta :: "pyval \<Rightarrow> delta_items res" where
  "read_delta response =
     rbind (py_get response ''value'' PNone) (\<lambda>v.
     rbind (py_iter (py_or v (PList []))) (\<lambda>items.
     rbind (py_get response ''@odata.nextLink'' PNone) (\<lambda>next_link.
     rbind (py_get response ''@odata.deltaLink'' PNone) (\<lambda>delta_link.
       Inr \<lparr>di_items = items, di_next_link = next_link, di_delta_link = delta_link\<rparr>))))"

definition delta_url :: "string \<Rightarrow> string option \<Rightarrow> string" where
  "delta_url first_url cursor = (if cursor_set cursor then the cursor else first_url)"

definition list_delta :: "string \<Rightarrow> server \<Rightarrow> nat \<Rightarrow> string \<Rightarrow> string option \<Rightarrow> py_error + delta_items" where
  "list_delta first_url http tick access_token cursor =
     (case graph_json http tick access_token (delta_url first_url cursor) of
        Inl e \<Rightarrow> Inl e | Inr response \<Rightarrow> lifted (read_delta response))"

definition list_drive_delta :: "server \<Rightarrow> nat \<Rightarrow> string \<Rightarrow> string option \<Rightarrow> py_error + delta_items" where
  "list_drive_delta = list_delta (GRAPH_ROOT @ ''/me/drive/root/delta?$top=50'')"

definition list_mail_delta :: "server \<Rightarrow> nat \<Rightarrow> string \<Rightarrow> string option \<Rightarrow> py_error + delta_items" where
  "list_mail_delta = list_delta (GRAPH_ROOT @ ''/me/mailFolders/inbox/messages/delta?$top=25'')"

definition download_drive_item :: "server \<Rightarrow> nat \<Rightarrow> string \<Rightarrow> string \<Rightarrow> py_error + bytes" where
  "download_drive_item http tick access_token item_id =
     map_sum id rb_content (graph_reply (http tick
       \<lparr>sq_url = GRAPH_ROOT @ ''/me/drive/items/'' @ item_id @ ''/content'', sq_params = [], sq_token = access_token\<rparr>))"

definition graph_message :: "server \<Rightarrow> nat \<Rightarrow> string \<Rightarrow> string \<Rightarrow> py_error + pyval" where
  "graph_message http tick access_token message_id =
     graph_json http tick access_token (GRAPH_ROOT @ ''/me/messages/'' @ message_id @ ''?$select='' @
       ''id,subject,bodyPreview,body,from,toRecipients,receivedDateTime,'' @
       ''conversationId,hasAttachments,importance,webLink,isDraft'')"

subsection \<open>What both connectors share\<close>

record graph_env =
  ge_manager :: bool
  ge_token :: "nat \<Rightarrow> py_error + string"
  ge_http :: server
  ge_texts :: texts
  ge_now :: "nat \<Rightarrow> instant"
  ge_iso :: "string \<Rightarrow> instant option"
  ge_tenant_id :: string
  ge_mailbox_email :: string
  ge_connected_by :: string

definition graph_token :: "graph_env \<Rightarrow> nat \<Rightarrow> py_error + string" where
  "graph_token env tick =
     (if \<not> ge_manager env then Inl (error_of [] ''OAuth manager not configured'') else ge_token env tick)"

definition graph_acl :: "graph_env \<Rightarrow> string list" where
  "graph_acl env =
     (let by_terms = (if ge_connected_by env = [] then []
                      else [if prefixed (ge_connected_by env) then ge_connected_by env else ''user:'' @ ge_connected_by env]);
          terms = by_terms @ (if ge_mailbox_email env = [] then [] else [''user:'' @ str_lower (ge_mailbox_email env)])
      in dedup (if terms = [] then [''user:'' @ ge_tenant_id env] else terms))"

definition utc_offset_text :: "string \<Rightarrow> string" where
  "utc_offset_text s = concat (map (\<lambda>c. if c = CHR ''Z'' then ''+00:00'' else [c]) s)"

definition graph_time :: "graph_env \<Rightarrow> nat \<Rightarrow> pyval \<Rightarrow> instant" where
  "graph_time env tick v =
     (case v of
        PStr s \<Rightarrow> if s = [] then ge_now env tick
                  else (case ge_iso env (utc_offset_text s) of Some t \<Rightarrow> t | None \<Rightarrow> ge_now env tick)
      | _ \<Rightarrow> ge_now env tick)"

definition item_dict :: "pyval \<Rightarrow> pydict res" where
  "item_dict v = (case v of PDict d \<Rightarrow> Inr d | _ \<Rightarrow> Inl (Raised ''AttributeError''))"

definition is_removed :: "pydict \<Rightarrow> bool" where
  "is_removed d = truthy (pget d ''@removed'')"

text \<open>A page of items: on to the next link, else the delta link is kept.\<close>

definition delta_of :: "(pydict \<Rightarrow> bool) \<Rightarrow> string option \<Rightarrow> delta_items \<Rightarrow> delta_result res" where
  "delta_of wanted cursor p =
     rbind (res_map item_dict (di_items p)) (\<lambda>items.
       let docs = filter wanted items in
       Inr (if truthy (di_next_link p)
            then \<lparr>dr_documents = docs, dr_next_cursor = cursor_of (di_next_link p), dr_has_more = True\<rparr>
            else \<lparr>dr_documents = docs,
                   dr_next_cursor = (if truthy (di_delta_link p) then cursor_of (di_delta_link p) else cursor),
                   dr_has_more = False\<rparr>))"

definition removals_of :: "string option \<Rightarrow> delta_items \<Rightarrow> deletion_result res" where
  "removals_of cursor p =
     rbind (res_map item_dict (di_items p)) (\<lambda>items.
       Inr \<lparr>xr_deleted_ids = map (\<lambda>d. py_str (pget d ''id'')) (filter (\<lambda>d. is_removed d \<and> truthy (pget d ''id'')) items),
            xr_next_cursor = (if truthy (di_next_link p) then cursor_of (di_next_link p)
                              else if truthy (di_delta_link p) then cursor_of (di_delta_link p) else cursor),
            xr_has_more = truthy (di_next_link p)\<rparr>)"

type_synonym lister = "server \<Rightarrow> nat \<Rightarrow> string \<Rightarrow> string option \<Rightarrow> py_error + delta_items"

definition page_delta :: "lister \<Rightarrow> (pydict \<Rightarrow> bool) \<Rightarrow> graph_env \<Rightarrow> nat \<Rightarrow> string option \<Rightarrow> py_error + delta_result" where
  "page_delta lister wanted env tick cursor =
     (case graph_token env tick of
        Inl e \<Rightarrow> Inl e
      | Inr token \<Rightarrow>
          (case lister (ge_http env) tick token cursor of
             Inl e \<Rightarrow> Inl e | Inr p \<Rightarrow> lifted (delta_of wanted cursor p)))"

definition page_removals :: "lister \<Rightarrow> graph_env \<Rightarrow> nat \<Rightarrow> string option \<Rightarrow> py_error + deletion_result" where
  "page_removals lister env tick cursor =
     (case graph_token env tick of
        Inl e \<Rightarrow> Inl e
      | Inr token \<Rightarrow>
          (case lister (ge_http env) tick token cursor of
             Inl e \<Rightarrow> Inl e | Inr p \<Rightarrow> lifted (removals_of cursor p)))"

subsection \<open>OneDrive\<close>

definition wanted_item :: "pydict \<Rightarrow> bool" where
  "wanted_item d = (\<not> is_removed d \<and> pget d ''folder'' = PNone)"

definition onedrive_page :: "graph_env \<Rightarrow> nat \<Rightarrow> string option \<Rightarrow> py_error + delta_result" where
  "onedrive_page = page_delta list_drive_delta wanted_item"

definition onedrive_deleted_ids :: "graph_env \<Rightarrow> nat \<Rightarrow> string option \<Rightarrow> py_error + deletion_result" where
  "onedrive_deleted_ids = page_removals list_drive_delta"

text \<open>\<open>name.rsplit(".", 1)[-1]\<close> where there is a point.\<close>

definition extension_of :: "string \<Rightarrow> string" where
  "extension_of nm = (if CHR ''.'' \<in> set nm then rev (takeWhile (\<lambda>c. c \<noteq> CHR ''.'') (rev nm)) else [])"

definition file_facet :: "pydict \<Rightarrow> pydict" where
  "file_facet item = (case pget item ''file'' of PDict d \<Rightarrow> d | _ \<Rightarrow> [])"

definition extracted_item :: "texts \<Rightarrow> bytes \<Rightarrow> pyval \<Rightarrow> string \<Rightarrow> string \<Rightarrow> string" where
  "extracted_item tx blob mime ext nm =
     (case tx_extract tx blob mime (PStr ext) of
        None \<Rightarrow> tx_decode tx blob
      | Some t \<Rightarrow> if str_strip t \<noteq> [] then t else nm)"

definition int_or_raise :: "pyval \<Rightarrow> int res" where
  "int_or_raise v = (case py_int v of Some n \<Rightarrow> Inr n | None \<Rightarrow> Inl (Raised (case v of PStr _ \<Rightarrow> ''ValueError'' | _ \<Rightarrow> ''TypeError'')))"

definition extract_onedrive_text :: "server \<Rightarrow> texts \<Rightarrow> nat \<Rightarrow> string \<Rightarrow> pydict \<Rightarrow> string res" where
  "extract_onedrive_text http tx tick access_token item =
     (let nm = py_str (py_or (pget item ''name'') (PStr [])); item_id = py_str (py_or (pget item ''id'') (PStr [])) in
      if item_id = [] \<or> pget item ''folder'' \<noteq> PNone then Inr nm
      else rbind (int_or_raise (py_or (pget item ''size'') (PInt 0))) (\<lambda>sz.
        if MAX_DOWNLOAD_BYTES < sz then Inr nm
        else let mime = py_str (py_or (py_or (pget (file_facet item) ''mimeType'') (pget item ''mimeType'')) (PStr [])) in
          (case download_drive_item http tick access_token item_id of
             Inl _ \<Rightarrow> Inr nm
           | Inr blob \<Rightarrow>
               if blob = [] then Inr nm
               else Inr (extracted_item tx blob (PStr (if mime = [] then ''application/octet-stream'' else mime))
                           (str_lower (extension_of nm)) nm))))"

text \<open>\<open>((d.get(k1) or {}).get(k2) or {}) ...\<close>.\<close>

fun deep_get :: "pyval \<Rightarrow> string list \<Rightarrow> pyval res" where
  "deep_get v [] = Inr v"
| "deep_get v (k # ks) = rbind (py_get (py_or v (PDict [])) k PNone) (\<lambda>w. deep_get w ks)"

definition onedrive_structured_metadata :: "pydict \<Rightarrow> string \<Rightarrow> pydict res" where
  "onedrive_structured_metadata item nm =
     rbind (int_or_raise (py_or (pget item ''size'') (PInt 0))) (\<lambda>sz.
     rbind (deep_get (pget item ''parentReference'') [''path'']) (\<lambda>path.
     rbind (deep_get (pget item ''createdBy'') [''user'', ''email'']) (\<lambda>email.
       Inr [(''mime_type'', PStr (py_str (py_or (pget (file_facet item) ''mimeType'') (PStr [])))),
            (''file_extension'', PStr (extension_of nm)), (''size_bytes'', PInt sz),
            (''web_url'', py_or (pget item ''webUrl'') (PStr [])), (''parent_path'', py_or path (PStr [])),
            (''created_by'', py_or email (PStr []))])))"

definition transform_item :: "graph_env \<Rightarrow> nat \<Rightarrow> string \<Rightarrow> pydict \<Rightarrow> unified_document list res" where
  "transform_item env tick token item =
     (let item_id = py_str (py_or (pget item ''id'') (PStr [])); nm = py_str (py_or (pget item ''name'') (PStr ''Untitled'')) in
      if item_id = [] \<or> pget item ''folder'' \<noteq> PNone then Inr []
      else
        rbind (extract_onedrive_text (ge_http env) (ge_texts env) tick token item) (\<lambda>content.
        rbind (onedrive_structured_metadata item nm) (\<lambda>meta.
        let modified = graph_time env tick (pget item ''lastModifiedDateTime'') in
        rbind (make_unified (PStr (''onedrive:'' @ item_id)) (PStr nm) (PStr (if content = [] then nm else content)) ''onedrive''
                 (PStr (py_str (py_or (pget item ''webUrl'') (PStr (''https://onedrive.live.com/?id='' @ item_id)))))
                 (graph_acl env) (graph_time env tick (pget item ''createdDateTime'')) modified modified meta)
          (\<lambda>u. Inr [u]))))"

definition onedrive_transform :: "graph_env \<Rightarrow> nat \<Rightarrow> pydict list \<Rightarrow> py_error + unified_document list" where
  "onedrive_transform env tick raws =
     (case graph_token env tick of
        Inl e \<Rightarrow> Inl e
      | Inr token \<Rightarrow> lifted (rbind (res_map (transform_item env tick token) raws) (\<lambda>us. Inr (concat us))))"

definition onedrive_connector :: "graph_env \<Rightarrow> connector" where
  "onedrive_connector env = \<lparr>cn_source_type = ''onedrive'', cn_fetch_deleted_ids = onedrive_deleted_ids env,
     cn_fetch_delta = onedrive_page env, cn_transform = onedrive_transform env\<rparr>"

subsection \<open>Outlook\<close>

definition wanted_mail :: "pydict \<Rightarrow> bool" where
  "wanted_mail d = (\<not> is_removed d \<and> \<not> truthy (pget d ''isDraft''))"

definition outlook_page :: "graph_env \<Rightarrow> nat \<Rightarrow> string option \<Rightarrow> py_error + delta_result" where
  "outlook_page = page_delta list_mail_delta wanted_mail"

definition outlook_deleted_ids :: "graph_env \<Rightarrow> nat \<Rightarrow> string option \<Rightarrow> py_error + deletion_result" where
  "outlook_deleted_ids = page_removals list_mail_delta"

text \<open>The three substitutions of \<open>_strip_html\<close> are those of the federated search.\<close>

definition strip_mail_html :: "string \<Rightarrow> string" where
  "strip_mail_html html = clean_body (\<lambda>s. s) html"

definition mail_body :: "pydict \<Rightarrow> pydict" where
  "mail_body msg = (case pget msg ''body'' of PDict d \<Rightarrow> d | _ \<Rightarrow> [])"

text \<open>A thin item of the list is fetched in full; when that fails it is used as it is.\<close>

definition full_message :: "graph_env \<Rightarrow> nat \<Rightarrow> string \<Rightarrow> pydict \<Rightarrow> string \<Rightarrow> pydict res" where
  "full_message env tick token raw msg_id =
     (if \<not> truthy (pget (mail_body raw) ''content'') \<and> \<not> truthy (pget raw ''bodyPreview'')
      then (case graph_message (ge_http env) tick token msg_id of Inl _ \<Rightarrow> Inr raw | Inr m \<Rightarrow> item_dict m)
      else Inr raw)"

definition mail_content :: "pydict \<Rightarrow> string" where
  "mail_content msg =
     (let content = py_str (py_or (py_or (pget (mail_body msg) ''content'') (pget msg ''bodyPreview'')) (PStr [])) in
      if str_lower (py_str (py_or (pget (mail_body msg) ''contentType'') (PStr []))) = ''html''
      then strip_mail_html content else content)"

definition recipient_address :: "pyval \<Rightarrow> string list res" where
  "recipient_address recip =
     rbind (deep_get recip [''emailAddress'', ''address'']) (\<lambda>a. Inr (if truthy a then [py_str a] else []))"

definition mail_sender :: "pydict \<Rightarrow> string res" where
  "mail_sender msg =
     (case pget msg ''from'' of
        PDict d \<Rightarrow> rbind (deep_get (PDict d) [''emailAddress'', ''address'']) (\<lambda>a. Inr (py_str (py_or a (PStr []))))
      | _ \<Rightarrow> Inr [])"

definition transform_mail :: "graph_env \<Rightarrow> nat \<Rightarrow> string \<Rightarrow> pydict \<Rightarrow> unified_document list res" where
  "transform_mail env tick token raw =
     (let msg_id = py_str (py_or (pget raw ''id'') (PStr [])) in
      if msg_id = [] then Inr []
      else
        rbind (full_message env tick token raw msg_id) (\<lambda>msg.
        rbind (mail_sender msg) (\<lambda>from_email.
        rbind (py_iter (py_or (pget msg ''toRecipients'') (PList []))) (\<lambda>recips.
        rbind (res_map recipient_address recips) (\<lambda>to_emails.
        let subject = py_str (py_or (pget msg ''subject'') (PStr ''(no subject)''));
            received = graph_time env tick (pget msg ''receivedDateTime'') in
        rbind (make_unified (PStr (''outlook:'' @ msg_id)) (PStr subject)
                 (PStr (if mail_content msg = [] then subject else mail_content msg)) ''outlook''
                 (PStr (py_str (py_or (pget msg ''webLink'') (PStr [])))) (graph_acl env) received received received
                 [(''from_email'', PStr from_email), (''to_emails'', PList (map PStr (concat to_emails))),
                  (''conversation_id'', py_or (pget msg ''conversationId'') (PStr [])),
                  (''has_attachments'', PBool (truthy (pget msg ''hasAttachments''))),
                  (''importance'', py_or (pget msg ''importance'') (PStr [])),
                  (''received_at'', py_or (pget msg ''receivedDateTime'') (PStr []))])
          (\<lambda>u. Inr [u]))))))"

definition outlook_transform :: "graph_env \<Rightarrow> nat \<Rightarrow> pydict list \<Rightarrow> py_error + unified_document list" where
  "outlook_transform env tick raws =
     (case graph_token env tick of
        Inl e \<Rightarrow> Inl e
      | Inr token \<Rightarrow> lifted (rbind (res_map (transform_mail env tick token) raws) (\<lambda>us. Inr (concat us))))"

definition outlook_connector :: "graph_env \<Rightarrow> connector" where
  "outlook_connector env = \<lparr>cn_source_type = ''outlook'', cn_fetch_deleted_ids = outlook_deleted_ids env,
     cn_fetch_delta = outlook_page env, cn_transform = outlook_transform env\<rparr>"

subsection \<open>The notification task\<close>

text \<open>
  \<open>ms_graph\<close> is the connection of a principal of a tenant: its token manager and the mailbox stored with the token.
\<close>

record ms_env =
  ms_worker :: worker_settings
  ms_sync :: sync_env
  ms_graph :: "string \<Rightarrow> string \<Rightarrow> graph_env"

definition ms_connection :: "ms_env \<Rightarrow> string \<Rightarrow> string \<Rightarrow> graph_env" where
  "ms_connection ms tenant_id principal_id =
     (ms_graph ms tenant_id principal_id)\<lparr>ge_tenant_id := tenant_id, ge_connected_by := principal_id\<rparr>"

definition ms_connector :: "ms_env \<Rightarrow> string \<Rightarrow> string \<Rightarrow> string \<Rightarrow> connector" where
  "ms_connector ms source_type tenant_id principal_id =
     (if source_type = ''onedrive'' then onedrive_connector (ms_connection ms tenant_id principal_id)
      else outlook_connector (ms_connection ms tenant_id principal_id))"

text \<open>The documents of the connector are indexed as they are.\<close>

definition index_items ::
    "ms_env \<Rightarrow> connector \<Rightarrow> pydict list \<Rightarrow> string \<Rightarrow> sync_state \<Rightarrow> (py_error + unit) \<times> sync_state" where
  "index_items ms cn documents tenant_id s =
     (if documents = [] then (Inr (), s)
      else (case cn_transform cn (sy_tick s) documents of
              Inl e \<Rightarrow> (Inl e, s\<lparr>sy_tick := Suc (sy_tick s)\<rparr>)
            | Inr docs \<Rightarrow>
                (Inr (), if docs = [] then s\<lparr>sy_tick := Suc (sy_tick s)\<rparr>
                         else s\<lparr>sy_tick := Suc (sy_tick s),
                                sy_index := bulk_index (se_index (ms_sync ms)) docs tenant_id [] (sy_index s)\<rparr>)))"

definition removed_item_ids :: "string \<Rightarrow> pydict list \<Rightarrow> string list" where
  "removed_item_ids source_type documents =
     (if source_type = ''onedrive''
      then map (\<lambda>d. ''onedrive:'' @ py_str (pget d ''id'')) (filter (\<lambda>d. is_removed d \<and> truthy (pget d ''id'')) documents)
      else [])"

definition apply_items ::
    "ms_env \<Rightarrow> string \<Rightarrow> string \<Rightarrow> string \<Rightarrow> connector \<Rightarrow> delta_result \<Rightarrow> sync_state \<Rightarrow> (py_error + notice_result) \<times> sync_state" where
  "apply_items ms source_type scope tenant_id cn r s =
     (case index_items ms cn (dr_documents r) tenant_id s of
        (Inl e, s) \<Rightarrow> (Inl e, s)
      | (Inr _, s) \<Rightarrow>
          (let ids = removed_item_ids source_type (dr_documents r) in
           case drop_notice (ms_sync ms) ids source_type tenant_id s of
             (Inl e, s) \<Rightarrow> (Inl e, s)
           | (Inr _, s) \<Rightarrow>
               (Inr \<lparr>nr_status = ''success'', nr_indexed_count = length (dr_documents r), nr_deleted_count = length ids\<rparr>,
                advance_cursor (ms_sync ms) scope source_type (dr_next_cursor r) s)))"

definition process_notification ::
    "ms_env \<Rightarrow> string \<Rightarrow> string \<Rightarrow> string \<Rightarrow> sync_state \<Rightarrow> (py_error + notice_result) \<times> sync_state" where
  "process_notification ms source_type tenant_id user_id s =
     (case validate_tenant_auth (ms_worker ms) (se_vault (ms_sync ms)) tenant_id s of
        (Inl e, s) \<Rightarrow> (Inl e, s)
      | (Inr _, s) \<Rightarrow>
          (let principal_id = str_strip user_id; scope = cursor_scope_id tenant_id principal_id;
               cn = ms_connector ms source_type tenant_id principal_id;
               cursor = get_cursor scope source_type (sy_cursors s) in
           if \<not> cursor_set cursor then (Inr no_cursor, s)
           else (case cn_fetch_delta cn (sy_tick s) cursor of
                   Inl e \<Rightarrow> (Inl e, s\<lparr>sy_tick := Suc (sy_tick s)\<rparr>)
                 | Inr r \<Rightarrow> apply_items ms source_type scope tenant_id cn r (s\<lparr>sy_tick := Suc (sy_tick s)\<rparr>))))"

text \<open>\<open>process_connector_notification\<close> for the two Microsoft sources; other sources have no handler here.\<close>

definition process_connector_notification ::
    "ms_env \<Rightarrow> string \<Rightarrow> string \<Rightarrow> string \<Rightarrow> sync_state \<Rightarrow> (task_failure + notice_result) \<times> sync_state" where
  "process_connector_notification ms source_type tenant_id user_id s =
     (if source_type \<in> {''onedrive'', ''outlook''}
      then map_prod (map_sum retry_or_fail id) id (process_notification ms source_type tenant_id user_id s)
      else (Inl (Fail (error_of [''ValueError''] (''No notification handler for source_type='' @ source_type))), s))"

subsection \<open>What a notification does to the index\<close>

lemma page_has_no_removals:
  assumes "page_delta lister wanted env tick cursor = Inr r" "\<And>d. wanted d \<Longrightarrow> \<not> is_removed d" "d \<in> set (dr_documents r)"
  shows "\<not> is_removed d"
  using assms by (auto simp: page_delta_def delta_of_def rbind_Inr_iff Let_def split: sum.splits if_splits)

lemma fetched_items_are_present:
  assumes "cn_fetch_delta (ms_connector ms src t p) tick cursor = Inr r"
  shows "removed_item_ids src (dr_documents r) = []"
proof -
  let ?env = "ms_connection ms t p"
  have "\<not> is_removed d" if d: "d \<in> set (dr_documents r)" for d
  proof (cases "src = ''onedrive''")
    case True
    then have "page_delta list_drive_delta wanted_item ?env tick cursor = Inr r"
      using assms by (simp add: ms_connector_def onedrive_connector_def onedrive_page_def)
    then show ?thesis by (rule page_has_no_removals [OF _ _ d]) (simp add: wanted_item_def)
  next
    case False
    then have "page_delta list_mail_delta wanted_mail ?env tick cursor = Inr r"
      using assms by (simp add: ms_connector_def outlook_connector_def outlook_page_def)
    then show ?thesis by (rule page_has_no_removals [OF _ _ d]) (simp add: wanted_mail_def)
  qed
  then show ?thesis by (auto simp: removed_item_ids_def filter_empty_conv)
qed

lemma index_items_index:
  assumes "index_items ms cn documents t s = (r, s')"
  shows "sy_index s' = sy_index s \<or> (\<exists>docs. sy_index s' = bulk_index (se_index (ms_sync ms)) docs t [] (sy_index s))"
  using assms by (auto simp: index_items_def split: if_splits sum.splits)

text \<open>
  Property C37: no notification of OneDrive or Outlook takes anything out of the index: the connector has left
  the removed items out before the task looks for them, so it reports no deletion and only adds what
  the connector made of the items that are there.
\<close>

theorem graph_notices_delete_nothing:
  assumes "process_notification ms src tenant_id user_id s = (r, s')"
  shows "(sy_index s' = sy_index s \<or> (\<exists>docs. sy_index s' = bulk_index (se_index (ms_sync ms)) docs tenant_id [] (sy_index s))) \<and>
    (\<forall>n. r = Inr n \<longrightarrow> nr_deleted_count n = 0)"
proof -
  let ?p = "str_strip user_id"
  let ?scope = "cursor_scope_id tenant_id ?p" and ?cn = "ms_connector ms src tenant_id ?p"
  obtain v s1 where v: "validate_tenant_auth (ms_worker ms) (se_vault (ms_sync ms)) tenant_id s = (v, s1)" by fastforce
  have ix: "sy_index s1 = sy_index s" using validate_frame [OF v] by simp
  let ?cursor = "get_cursor ?scope src (sy_cursors s1)"
  show ?thesis
  proof (cases "isl v \<or> \<not> cursor_set ?cursor")
    case True
    then show ?thesis using assms v ix
      by (auto simp: process_notification_def Let_def no_cursor_def split: sum.splits)
  next
    case False
    then obtain u where ok: "v = Inr u" "cursor_set ?cursor" by (cases v) auto
    show ?thesis
    proof (cases "cn_fetch_delta ?cn (sy_tick s1) ?cursor")
      case (Inl e)
      then show ?thesis using assms v ix ok by (auto simp: process_notification_def Let_def)
    next
      case (Inr d)
      let ?s2 = "s1\<lparr>sy_tick := Suc (sy_tick s1)\<rparr>"
      have run: "apply_items ms src ?scope tenant_id ?cn d ?s2 = (r, s')"
        using assms v ok Inr by (simp add: process_notification_def Let_def)
      obtain w s3 where w: "index_items ms ?cn (dr_documents d) tenant_id ?s2 = (w, s3)" by fastforce
      have "sy_index s' = sy_index s3 \<and> (\<forall>n. r = Inr n \<longrightarrow> nr_deleted_count n = 0)"
        using run w by (auto simp: apply_items_def fetched_items_are_present [OF Inr] drop_notice_def
            advance_cursor_def save_cursor_def split: sum.splits option.splits)
      then show ?thesis using index_items_index [OF w] ix by auto
    qed
  qed
qed

text \<open>The crawl, which compiles with the pipeline, and the notifications name the same item differently.\<close>

lemma two_names_for_an_item: "doc_id_of raw ''onedrive'' \<noteq> ''onedrive:'' @ item_id"
  by (simp add: doc_id_of_def)

subsection \<open>An example\<close>

definition demo_graph :: graph_env where
  "demo_graph = \<lparr>ge_manager = True, ge_token = (\<lambda>_. Inr ''t''),
     ge_http = (\<lambda>_ _. Reply \<lparr>rb_status = 200, rb_error = [], rb_json = Inr (PDict [
        (''value'', PList [PDict [(''id'', PStr ''a''), (''@removed'', PDict [(''reason'', PStr ''deleted'')])],
           PDict [(''id'', PStr ''b''), (''name'', PStr ''B'')]]),
        (''@odata.deltaLink'', PStr ''l2'')]), rb_content = [104]\<rparr>),
     ge_texts = \<lparr>tx_decode = map char_of, tx_extract = (\<lambda>b _ _. Some (map char_of b))\<rparr>, ge_now = (\<lambda>_. 9), ge_iso = (\<lambda>_. None),
     ge_tenant_id = [], ge_mailbox_email = [], ge_connected_by = []\<rparr>"

definition demo_ms :: ms_env where
  "demo_ms = \<lparr>ms_worker = ne_worker demo_notice_env, ms_sync = ne_sync demo_notice_env, ms_graph = (\<lambda>_ _. demo_graph)\<rparr>"

definition demo_ms_state :: sync_state where
  "demo_ms_state = (demo_notice_state ''7'')\<lparr>sy_cursors := update_cursor (cursor_scope_id (uuid_str 1) ''bob'') ''onedrive'' ''l1'' 0 []\<rparr>"

lemma demo_graph_notice:
  "(case process_notification demo_ms ''onedrive'' (uuid_str 1) ''bob'' demo_ms_state of
      (Inr n, s) \<Rightarrow> nr_indexed_count n = 1 | (Inl e, s) \<Rightarrow> False)"
  by code_simp

theorem graph_notices_delete_nothing_witness:
  "\<exists>n s'. process_notification demo_ms ''onedrive'' (uuid_str 1) ''bob'' demo_ms_state = (Inr n, s') \<and>
     nr_indexed_count n = 1 \<and> nr_deleted_count n = 0"
proof -
  obtain x s' where run: "process_notification demo_ms ''onedrive'' (uuid_str 1) ''bob'' demo_ms_state = (x, s')" by fastforce
  then obtain n where n: "x = Inr n" "nr_indexed_count n = 1" using demo_graph_notice by (cases x) auto
  from graph_notices_delete_nothing [OF run] n(1) have "nr_deleted_count n = 0" by blast
  with run n show ?thesis by blast
qed

end
