(* ===== verification/Search_Servers.thy ===== *)
theory Search_Servers
  imports Acl_Filter Json
begin

text \<open>
  The stores on the OpenSearch and Qdrant servers (\<open>backend/app/services/lexical/opensearch_store.py\<close>,
  \<open>services/vector/qdrant_store.py\<close>) and the routes before them (\<open>api/v1/search/lexical.py\<close>,
  \<open>api/v1/search/vector.py\<close>). The servers are parameters: a search request is a value, with its filter
  written out, that they answer. Timings are left out.
\<close>

subsection \<open>Requests to OpenSearch\<close>

datatype 's os_clause = OsTerm string "'s jval" | OsTerms string "'s jval list" | OsAcl es_bool

text \<open>\<open>ob_query\<close> is the text of a \<open>multi_match\<close>; without one the request matches all documents and asks for no highlights.\<close>

record 's os_body =
  ob_query :: "string option"
  ob_filter :: "'s os_clause list"
  ob_from :: int
  ob_size :: int
  ob_facets :: "string list"

record 's os_env =
  oe_client :: bool
  oe_prefix :: string
  oe_search :: "string \<Rightarrow> 's os_body \<Rightarrow> 's jval res"

definition os_index_name :: "('s, 'e) os_env_scheme \<Rightarrow> string \<Rightarrow> string" where
  "os_index_name en tenant_id = oe_prefix en @ ''_lexical_'' @ tenant_id"

definition filter_clause :: "string \<times> 's jval \<Rightarrow> 's os_clause" where
  "filter_clause kv = (case snd kv of JList vs \<Rightarrow> OsTerms (fst kv) vs | v \<Rightarrow> OsTerm (fst kv) v)"

definition acl_error_exn :: "acl_error \<Rightarrow> exn" where
  "acl_error_exn e = Raised ''ValueError''"

definition os_filters :: "string \<Rightarrow> string list \<Rightarrow> 's jdict \<Rightarrow> 's os_clause list res" where
  "os_filters tenant_id acl_terms fs =
     (case opensearch_acl_clause acl_terms ''acl_filter_terms'' of
        Inl e \<Rightarrow> Inl (acl_error_exn e)
      | Inr clause \<Rightarrow> Inr ([OsTerm ''tenant_id'' (JStr tenant_id), OsTerm ''deleted'' (JBool False)] @
          (case clause of None \<Rightarrow> [] | Some q \<Rightarrow> [OsAcl q]) @ map filter_clause fs))"

definition os_body_of :: "string \<Rightarrow> 's os_clause list \<Rightarrow> string list \<Rightarrow> int \<Rightarrow> int \<Rightarrow> 's os_body" where
  "os_body_of query clauses facets from_at limit =
     \<lparr>ob_query = (if query = [] \<or> query = ''*'' then None else Some query), ob_filter = clauses,
      ob_from = from_at, ob_size = limit, ob_facets = facets\<rparr>"

subsection \<open>What the answer is read as\<close>

record 's lexical_hit =
  lh_document_id :: "'s jval"
  lh_score :: "'s jval"
  lh_title :: "'s jval"
  lh_snippet :: "'s jval"
  lh_metadata :: "'s jdict"

record 's lexical_answer =
  la_results :: "'s lexical_hit list"
  la_facets :: "(string, ('s jval \<times> 's jval) list) dict"
  la_total :: "'s jval"

definition no_results :: "'s jval \<Rightarrow> 's lexical_answer" where
  "no_results zero = \<lparr>la_results = [], la_facets = [], la_total = zero\<rparr>"

definition j_get_or :: "'s jval \<Rightarrow> string \<Rightarrow> 's jval \<Rightarrow> 's jval res" where
  "j_get_or v k d = (case v of JDict m \<Rightarrow> Inr (dict_get m k d) | _ \<Rightarrow> Inl (Raised ''AttributeError''))"

definition j_item :: "'s jval \<Rightarrow> string \<Rightarrow> 's jval res" where
  "j_item v k =
     (case v of
        JDict m \<Rightarrow> (case map_of m k of Some x \<Rightarrow> Inr x | None \<Rightarrow> Inl (Raised ''KeyError''))
      | _ \<Rightarrow> Inl (Raised ''TypeError''))"

definition j_first :: "'s jval \<Rightarrow> 's jval res" where
  "j_first v = (case v of
     JList (x # xs) \<Rightarrow> Inr x | JList [] \<Rightarrow> Inl (Raised ''IndexError'')
   | JStr (c # cs) \<Rightarrow> Inr (JStr [c]) | JStr [] \<Rightarrow> Inl (Raised ''IndexError'')
   | JDict m \<Rightarrow> Inl (Raised ''KeyError'') | _ \<Rightarrow> Inl (Raised ''TypeError''))"

definition snippet_of :: "'s jval \<Rightarrow> 's jval res" where
  "snippet_of highlight =
     (case highlight of
        JDict m \<Rightarrow> (case map_of m ''body_text'' of Some v \<Rightarrow> j_first v | None \<Rightarrow> Inr (JStr []))
      | _ \<Rightarrow> Inl (Raised ''TypeError''))"

definition read_hit :: "'s jval \<Rightarrow> 's lexical_hit res" where
  "read_hit h =
     rbind (j_item h ''_source'') (\<lambda>source.
     rbind (j_get_or h ''highlight'' (JDict [])) (\<lambda>highlight.
     rbind (snippet_of highlight) (\<lambda>snippet.
     rbind (j_item source ''document_id'') (\<lambda>document_id.
     rbind (j_item h ''_score'') (\<lambda>score.
     rbind (j_get_or source ''title'' (JStr [])) (\<lambda>title.
     rbind (j_get source ''file_path'') (\<lambda>file_path.
     rbind (j_get source ''source'') (\<lambda>origin.
     rbind (j_get source ''language'') (\<lambda>language.
       Inr \<lparr>lh_document_id = document_id, lh_score = score, lh_title = title, lh_snippet = snippet,
            lh_metadata = [(''file_path'', file_path), (''source'', origin), (''language'', language)]\<rparr>)))))))))"

definition hits_of :: "'s jval \<Rightarrow> 's jval list res" where
  "hits_of response =
     rbind (j_get_or response ''hits'' (JDict [])) (\<lambda>hs. rbind (j_get_or hs ''hits'' (JList [])) j_iter)"

definition read_bucket :: "'s jval \<Rightarrow> ('s jval \<times> 's jval) res" where
  "read_bucket b = rbind (j_item b ''key'') (\<lambda>k. rbind (j_item b ''doc_count'') (\<lambda>n. Inr (k, n)))"

definition read_facet :: "'s jval \<Rightarrow> string \<Rightarrow> (string \<times> ('s jval \<times> 's jval) list) res" where
  "read_facet aggs field_name =
     rbind (j_get_or aggs (field_name @ ''_facet'') (JDict [])) (\<lambda>f.
     rbind (j_get_or f ''buckets'' (JList [])) (\<lambda>bs.
     rbind (j_iter bs) (\<lambda>bs.
     rbind (res_map read_bucket bs) (\<lambda>bs. Inr (field_name, bs)))))"

definition read_facets :: "'s jval \<Rightarrow> string list \<Rightarrow> (string \<times> ('s jval \<times> 's jval) list) list res" where
  "read_facets response facets =
     (if facets = [] then Inr []
      else rbind (j_get_or response ''aggregations'' (JDict [])) (\<lambda>aggs. res_map (read_facet aggs) facets))"

definition read_answer :: "'s jval \<Rightarrow> 's jval \<Rightarrow> string list \<Rightarrow> 's lexical_answer res" where
  "read_answer zero response facets =
     rbind (hits_of response) (\<lambda>hs.
     rbind (res_map read_hit hs) (\<lambda>results.
     rbind (read_facets response facets) (\<lambda>fs.
     rbind (j_get_or response ''hits'' (JDict [])) (\<lambda>h.
     rbind (j_get_or h ''total'' (JDict [])) (\<lambda>t.
     rbind (j_get_or t ''value'' zero) (\<lambda>total.
       Inr \<lparr>la_results = results, la_facets = foldl (\<lambda>d (k, bs). AList.update k bs d) [] fs, la_total = total\<rparr>))))))"

text \<open>\<open>zero\<close> is the number 0 of the answer.\<close>

definition os_search ::
    "('s, 'e) os_env_scheme \<Rightarrow> 's jval \<Rightarrow> string \<Rightarrow> string \<Rightarrow> string list \<Rightarrow> 's jdict \<Rightarrow> string list \<Rightarrow> int \<Rightarrow> int \<Rightarrow>
     's lexical_answer res" where
  "os_search en zero tenant_id query acl_terms fs facets from_at limit =
     (if \<not> oe_client en then Inr (no_results zero)
      else if is_fail_closed acl_terms then Inr (no_results zero)
      else rbind (os_filters tenant_id acl_terms fs) (\<lambda>clauses.
        case oe_search en (os_index_name en tenant_id) (os_body_of query clauses facets from_at limit) of
          Inl _ \<Rightarrow> Inr (no_results zero)
        | Inr response \<Rightarrow> read_answer zero response facets))"

subsection \<open>Writing to OpenSearch\<close>

datatype 's os_op = OsIndex string "'s jval" "'s jdict" | OsDelete string string

definition index_entry :: "('s, 'e) os_env_scheme \<Rightarrow> string \<Rightarrow> 's jdict \<Rightarrow> 's os_op res" where
  "index_entry en tenant_id doc =
     (let doc_copy = AList.update ''tenant_id'' (JStr tenant_id) doc in
      rbind (j_item (JDict doc_copy) ''document_id'') (\<lambda>i. Inr (OsIndex (os_index_name en tenant_id) i doc_copy)))"

text \<open>One bulk request; the count is that of the documents, whether or not the server reports errors.\<close>

definition os_index_batch :: "('s, 'e) os_env_scheme \<Rightarrow> string \<Rightarrow> 's jdict list \<Rightarrow> ('s os_op list \<times> nat) res" where
  "os_index_batch en tenant_id documents =
     (if \<not> oe_client en \<or> documents = [] then Inr ([], 0)
      else rbind (res_map (index_entry en tenant_id) documents) (\<lambda>ops. Inr (ops, length documents)))"

definition os_index_document :: "('s, 'e) os_env_scheme \<Rightarrow> string \<Rightarrow> string \<Rightarrow> 's jdict \<Rightarrow> 's os_op list" where
  "os_index_document en tenant_id document_id document =
     (if \<not> oe_client en then []
      else [OsIndex (os_index_name en tenant_id) (JStr document_id)
              (AList.update ''document_id'' (JStr document_id) (AList.update ''tenant_id'' (JStr tenant_id) document))])"

definition os_delete_document :: "('s, 'e) os_env_scheme \<Rightarrow> string \<Rightarrow> string \<Rightarrow> 's os_op list" where
  "os_delete_document en tenant_id document_id =
     (if \<not> oe_client en then [] else [OsDelete (os_index_name en tenant_id) document_id])"

subsection \<open>The lexical route\<close>

record 's lexical_request =
  lr_query :: string
  lr_tenant_id :: string
  lr_filters :: "'s jdict"       \<comment> \<open>those that are given\<close>
  lr_facets :: "string list"
  lr_from :: int
  lr_size :: int

definition route_tenant :: "pydict \<Rightarrow> pyval res" where
  "route_tenant current_user =
     (let t = pget current_user ''tenant_id'' in
      if \<not> truthy t then Inl (HTTPException 401 ''Token missing tenant_id claim'') else Inr t)"

text \<open>The response model wants strings and numbers.\<close>

definition result_ok :: "'s lexical_hit \<Rightarrow> bool" where
  "result_ok h = (case (lh_document_id h, lh_score h, lh_title h, lh_snippet h) of
     (JStr _, JNum _, JStr _, JStr _) \<Rightarrow> True | _ \<Rightarrow> False)"

definition bucket_ok :: "'s jval \<times> 's jval \<Rightarrow> bool" where
  "bucket_ok b = (case b of (JStr _, JNum _) \<Rightarrow> True | _ \<Rightarrow> False)"

definition answer_ok :: "'s lexical_answer \<Rightarrow> bool" where
  "answer_ok a = (list_all result_ok (la_results a) \<and> list_all (\<lambda>(_, bs). list_all bucket_ok bs) (la_facets a) \<and>
     (case la_total a of JNum _ \<Rightarrow> True | _ \<Rightarrow> False))"

definition search_lexical ::
    "('s, 'e) os_env_scheme \<Rightarrow> 's jval \<Rightarrow> 's lexical_request \<Rightarrow> pydict \<Rightarrow> 's lexical_answer res" where
  "search_lexical en zero rq current_user =
     rbind (route_tenant current_user) (\<lambda>tenant.
       if PStr (lr_tenant_id rq) \<noteq> tenant then Inl (HTTPException 403 ''Tenant ID mismatch'')
       else let acl_terms = acl_terms_from_jwt current_user in
         if is_fail_closed acl_terms then Inr (no_results zero)
         else (case os_search en zero (lr_tenant_id rq) (lr_query rq) acl_terms (lr_filters rq) (lr_facets rq)
                      (lr_from rq) (lr_size rq) of
                 Inl _ \<Rightarrow> Inl (HTTPException 500 ''Lexical search failed'')
               | Inr a \<Rightarrow> if answer_ok a then Inr a else Inl (Raised ''ValidationError'')))"

subsection \<open>Requests to Qdrant\<close>

datatype q_condition = MatchValue string string | MatchAny string "string list"

record 's q_request =
  qr_collection :: string
  qr_vector :: "'s list"
  qr_must :: "q_condition list"
  qr_must_not :: "q_condition list"
  qr_limit :: int
  qr_threshold :: "'s option"

text \<open>
  \<open>qe_size\<close> is the vector size of a collection that exists, where it states one; \<open>qe_create\<close> fails with a message. \<open>qe_search\<close>
  gives payloads with their scores, and \<open>qe_scroll\<close> the payloads where a field has a value. \<open>qe_alnum\<close> is \<open>str.isalnum\<close>.
\<close>

record 's q_env =
  qe_prefix :: string
  qe_dimensions :: nat
  qe_alnum :: "char \<Rightarrow> bool"
  qe_size :: "string \<Rightarrow> (nat option) res"
  qe_create :: "string \<Rightarrow> string + unit"
  qe_search :: "'s q_request \<Rightarrow> ('s jdict \<times> 's) list res"
  qe_scroll :: "string \<Rightarrow> string \<Rightarrow> string \<Rightarrow> 's jdict list res"
  qe_point_id :: "string \<Rightarrow> string"        \<comment> \<open>\<open>uuid5\<close> in the name space of addresses\<close>

definition collection_name :: "('s, 'e) q_env_scheme \<Rightarrow> string \<Rightarrow> string" where
  "collection_name en tenant_id =
     qe_prefix en @ ''_'' @ map (\<lambda>c. if qe_alnum en c \<or> c = CHR ''-'' \<or> c = CHR ''_'' then c else CHR ''_'') tenant_id @ ''_vectors''"

definition normalize_embedding :: "nat \<Rightarrow> 's::zero list \<Rightarrow> 's list" where
  "normalize_embedding n v = (if length v = n then v else if length v < n then v @ replicate (n - length v) 0 else take n v)"

text \<open>The names seen so far are kept; a collection of another size is dropped and made again.\<close>

definition create_collection :: "('s, 'e) q_env_scheme \<Rightarrow> string \<Rightarrow> string list \<Rightarrow> string list res" where
  "create_collection en nm ensured =
     (case qe_create en nm of
        Inr _ \<Rightarrow> Inr (nm # ensured)
      | Inl e \<Rightarrow>
          if contains ''already exists'' (str_lower e) \<or> contains ''conflict'' (str_lower e) \<or> contains ''409'' e
          then Inr (nm # ensured) else Inl (Raised ''Exception''))"

definition ensure_collection :: "('s, 'e) q_env_scheme \<Rightarrow> string \<Rightarrow> string list \<Rightarrow> string list res" where
  "ensure_collection en tenant_id ensured =
     (let nm = collection_name en tenant_id in
      if nm \<in> set ensured then Inr ensured
      else (case qe_size en nm of
              Inr None \<Rightarrow> Inr (nm # ensured)
            | Inr (Some n) \<Rightarrow> if n \<noteq> qe_dimensions en then create_collection en nm ensured else Inr (nm # ensured)
            | Inl _ \<Rightarrow> create_collection en nm ensured))"

definition q_must :: "string \<Rightarrow> string list \<Rightarrow> string option \<Rightarrow> q_condition list" where
  "q_must tenant_id acl_terms model_version =
     [MatchValue ''tenant_id'' tenant_id] @
     (if is_bypass acl_terms then [] else [MatchAny ''acl_terms'' acl_terms]) @
     (case model_version of None \<Rightarrow> [] | Some v \<Rightarrow> if v = [] then [] else [MatchValue ''model_version'' v])"

definition q_must_not :: "string list \<Rightarrow> q_condition list" where
  "q_must_not acl_terms =
     (if is_bypass acl_terms then []
      else (case qdrant_must_not_acl acl_terms ''acl_terms'' of None \<Rightarrow> [] | Some (f, deny) \<Rightarrow> [MatchAny f deny]))"

text \<open>The limit of the request is the variable \<open>fetch_k\<close>, which is assigned nowhere.\<close>

definition fetch_k :: "int res" where
  "fetch_k = Inl (Raised ''NameError'')"

definition q_request_of ::
    "('s::zero, 'e) q_env_scheme \<Rightarrow> string \<Rightarrow> 's list \<Rightarrow> string list \<Rightarrow> string option \<Rightarrow> 's option \<Rightarrow> 's q_request res" where
  "q_request_of en tenant_id query_embedding acl_terms model_version score_threshold =
     rbind fetch_k (\<lambda>limit. Inr
       \<lparr>qr_collection = collection_name en tenant_id, qr_vector = normalize_embedding (qe_dimensions en) query_embedding,
        qr_must = q_must tenant_id acl_terms model_version, qr_must_not = q_must_not acl_terms,
        qr_limit = limit, qr_threshold = score_threshold\<rparr>)"

text \<open>The terms of a payload; the loop stops as soon as \<open>top_k\<close> hits are kept.\<close>

definition payload_terms :: "'s jdict \<Rightarrow> string list" where
  "payload_terms payload = (case jget payload ''acl_terms'' of
     JList vs \<Rightarrow> List.map_filter (\<lambda>v. case v of JStr s \<Rightarrow> Some s | _ \<Rightarrow> None) vs | _ \<Rightarrow> [])"

fun visible_hits :: "string list \<Rightarrow> int \<Rightarrow> ('s jdict \<times> 's) list \<Rightarrow> ('s jdict \<times> 's) list \<Rightarrow> ('s jdict \<times> 's) list" where
  "visible_hits acl_terms top_k output [] = output"
| "visible_hits acl_terms top_k output (h # hs) =
     (if \<not> document_is_visible acl_terms (Some (payload_terms (fst h))) then visible_hits acl_terms top_k output hs
      else let output = output @ [h] in
        if top_k \<le> int (length output) then output else visible_hits acl_terms top_k output hs)"

definition q_search ::
    "('s::zero, 'e) q_env_scheme \<Rightarrow> string \<Rightarrow> 's list \<Rightarrow> string list \<Rightarrow> int \<Rightarrow> string option \<Rightarrow> 's option \<Rightarrow> string list \<Rightarrow>
     ('s jdict \<times> 's) list res \<times> string list" where
  "q_search en tenant_id query_embedding acl_terms top_k model_version score_threshold ensured =
     (if is_fail_closed acl_terms then (Inr [], ensured)
      else (case ensure_collection en tenant_id ensured of
              Inl e \<Rightarrow> (Inl e, ensured)
            | Inr ensured \<Rightarrow>
                (case rbind (q_request_of en tenant_id query_embedding acl_terms model_version score_threshold) (qe_search en) of
                   Inl _ \<Rightarrow> (Inr [], ensured)
                 | Inr results \<Rightarrow> (Inr (visible_hits acl_terms top_k [] results), ensured))))"

subsection \<open>Writing to Qdrant\<close>

datatype 's q_op = QUpsert string "(string \<times> 's list \<times> 's jdict) list" | QDelete string string

definition numbers_of :: "'s jval \<Rightarrow> 's list res" where
  "numbers_of v = (case v of
     JList xs \<Rightarrow> res_map (\<lambda>x. case x of JNum n \<Rightarrow> Inr n | _ \<Rightarrow> Inl (Raised ''ValidationError'')) xs
   | _ \<Rightarrow> Inl (Raised ''TypeError''))"

definition cut_chunk_text :: "'s::zero jval \<Rightarrow> 's jval res" where
  "cut_chunk_text v =
     (case jor v (JStr []) of
        JStr s \<Rightarrow> Inr (JStr (if 4000 < int (length s) then take (nat 4000) s else s))
      | JList xs \<Rightarrow> Inr (JList (if 4000 < int (length xs) then take (nat 4000) xs else xs))
      | JDict d \<Rightarrow> if 4000 < int (length d) then Inl (Raised ''TypeError'') else Inr (JDict d)
      | _ \<Rightarrow> Inl (Raised ''TypeError''))"

definition point_of ::
    "('s::zero, 'e) q_env_scheme \<Rightarrow> ('s \<Rightarrow> string) \<Rightarrow> string \<Rightarrow> 's jdict \<Rightarrow> (string \<times> 's list \<times> 's jdict) res" where
  "point_of en show_num tenant_id chunk =
     rbind (j_item (JDict chunk) ''embedding'') (\<lambda>v.
     rbind (numbers_of v) (\<lambda>vec.
     rbind (cut_chunk_text (dict_get chunk ''chunk_text'' (JStr []))) (\<lambda>txt.
     rbind (j_item (JDict chunk) ''chunk_id'') (\<lambda>chunk_id.
     rbind (j_item (JDict chunk) ''model_version'') (\<lambda>version.
     rbind (j_item (JDict chunk) ''document_id'') (\<lambda>document_id.
       Inr (qe_point_id en (j_str show_num chunk_id @ ''::'' @ j_str show_num version),
            normalize_embedding (qe_dimensions en) vec,
            [(''tenant_id'', JStr tenant_id), (''chunk_id'', chunk_id), (''document_id'', document_id),
             (''model_version'', version), (''acl_terms'', dict_get chunk ''acl_terms'' (JList [])), (''chunk_text'', txt),
             (''metadata'', dict_get chunk ''metadata'' (JDict []))])))))))"

text \<open>Batches of 16.\<close>

function batches :: "'a list \<Rightarrow> 'a list list" where
  "batches xs = (if xs = [] then [] else take 16 xs # batches (drop 16 xs))"
  by pat_completeness auto
termination by (relation "measure length") auto

declare batches.simps [simp del]

definition q_upsert_batch ::
    "('s::zero, 'e) q_env_scheme \<Rightarrow> ('s \<Rightarrow> string) \<Rightarrow> string \<Rightarrow> 's jdict list \<Rightarrow> string list \<Rightarrow> ('s q_op list \<times> nat) res" where
  "q_upsert_batch en show_num tenant_id items ensured =
     (if items = [] then Inr ([], 0)
      else rbind (ensure_collection en tenant_id ensured) (\<lambda>_.
        rbind (res_map (point_of en show_num tenant_id) items) (\<lambda>points.
          Inr (map (QUpsert (collection_name en tenant_id)) (batches points), length points))))"

definition q_upsert_chunk ::
    "('s::zero, 'e) q_env_scheme \<Rightarrow> string \<Rightarrow> string \<Rightarrow> string \<Rightarrow> 's list \<Rightarrow> string \<Rightarrow> string list \<Rightarrow> string \<Rightarrow>
     's jdict option \<Rightarrow> string list \<Rightarrow> 's q_op res" where
  "q_upsert_chunk en tenant_id chunk_id document_id embedding model_version acl_terms chunk_text metadata ensured =
     rbind (ensure_collection en tenant_id ensured) (\<lambda>_. Inr (QUpsert (collection_name en tenant_id)
       [(qe_point_id en (chunk_id @ ''::'' @ model_version), normalize_embedding (qe_dimensions en) embedding,
         [(''tenant_id'', JStr tenant_id), (''chunk_id'', JStr chunk_id), (''document_id'', JStr document_id),
          (''model_version'', JStr model_version), (''acl_terms'', JList (map JStr acl_terms)), (''chunk_text'', JStr chunk_text),
          (''metadata'', JDict (case metadata of None \<Rightarrow> [] | Some d \<Rightarrow> d))])]))"

definition q_delete_chunk :: "('s, 'e) q_env_scheme \<Rightarrow> string \<Rightarrow> string \<Rightarrow> string \<Rightarrow> 's q_op list" where
  "q_delete_chunk en tenant_id chunk_id model_version =
     [QDelete (collection_name en tenant_id) (qe_point_id en (chunk_id @ ''::'' @ model_version))]"

text \<open>The parent of a chunk, first among the documents and then among the chunks of the collection.\<close>

definition parent_in :: "('s::zero, 'e) q_env_scheme \<Rightarrow> ('s \<Rightarrow> string) \<Rightarrow> string \<Rightarrow> string \<Rightarrow> string \<Rightarrow> string option" where
  "parent_in en show_num nm ident field_name =
     (case qe_scroll en nm field_name ident of
        Inr (p # _) \<Rightarrow>
          (let parent = str_strip (j_str show_num (jor (jget p ''document_id'') (JStr []))) in if parent = [] then None else Some parent)
      | _ \<Rightarrow> None)"

definition find_parent_document_id :: "('s::zero, 'e) q_env_scheme \<Rightarrow> ('s \<Rightarrow> string) \<Rightarrow> string \<Rightarrow> string \<Rightarrow> string option" where
  "find_parent_document_id en show_num tenant_id chunk_or_doc_id =
     (let ident = str_strip chunk_or_doc_id; nm = collection_name en tenant_id in
      if ident = [] \<or> tenant_id = [] then None
      else (case qe_size en nm of
              Inl _ \<Rightarrow> None
            | Inr _ \<Rightarrow>
                (case parent_in en show_num nm ident ''document_id'' of
                   Some p \<Rightarrow> Some p | None \<Rightarrow> parent_in en show_num nm ident ''chunk_id'')))"

subsection \<open>The vector routes\<close>

record 's vector_request =
  vr_query_embedding :: "'s list"
  vr_tenant_id :: string
  vr_top_k :: int
  vr_model_version :: "string option"
  vr_score_threshold :: "'s option"

definition search_vector ::
    "('s::zero, 'e) q_env_scheme \<Rightarrow> nat \<Rightarrow> 's vector_request \<Rightarrow> pydict \<Rightarrow> string list \<Rightarrow> ('s jdict \<times> 's) list res \<times> string list" where
  "search_vector en expected_dims rq current_user ensured =
     (case route_tenant current_user of
        Inl e \<Rightarrow> (Inl e, ensured)
      | Inr tenant \<Rightarrow>
          if PStr (vr_tenant_id rq) \<noteq> tenant then (Inl (HTTPException 403 ''Tenant ID mismatch''), ensured)
          else if length (vr_query_embedding rq) \<noteq> expected_dims
          then (Inl (HTTPException 400 (''Query embedding must have '' @ nat_str expected_dims @ '' dimensions, got '' @
                  nat_str (length (vr_query_embedding rq)))), ensured)
          else let acl_terms = acl_terms_from_jwt current_user in
            if is_fail_closed acl_terms then (Inr [], ensured)
            else (case q_search en (vr_tenant_id rq) (vr_query_embedding rq) acl_terms (vr_top_k rq) (vr_model_version rq)
                         (vr_score_threshold rq) ensured of
                    (Inl _, ensured) \<Rightarrow> (Inl (HTTPException 500 ''Vector search failed''), ensured)
                  | (Inr hits, ensured) \<Rightarrow> (Inr hits, ensured)))"

definition ingest_vectors ::
    "('s::zero, 'e) q_env_scheme \<Rightarrow> ('s \<Rightarrow> string) \<Rightarrow> 's jdict list \<Rightarrow> pydict \<Rightarrow> string list \<Rightarrow> ('s q_op list \<times> nat) res" where
  "ingest_vectors en show_num items current_user ensured =
     rbind (route_tenant current_user) (\<lambda>tenant.
       if items = [] then Inl (HTTPException 400 ''No chunks provided'')
       else (case q_upsert_batch en show_num (py_str tenant) items ensured of
               Inl _ \<Rightarrow> Inl (HTTPException 500 ''Vector ingestion failed'') | Inr r \<Rightarrow> Inr r))"

subsection \<open>What a lexical search gives out\<close>

text \<open>
  The meaning of the clauses, as OpenSearch documents it for keyword and boolean fields: a field holds a value or
  a list of them.
\<close>

definition values_of :: "'s jdict \<Rightarrow> string \<Rightarrow> 's jval list" where
  "values_of source k = (case jget source k of JList vs \<Rightarrow> vs | JNull \<Rightarrow> [] | v \<Rightarrow> [v])"

definition source_terms :: "'s jdict \<Rightarrow> string list" where
  "source_terms source =
     List.map_filter (\<lambda>v. case v of JStr s \<Rightarrow> Some s | _ \<Rightarrow> None) (values_of source ''acl_filter_terms'')"

fun clause_holds :: "'s jdict \<Rightarrow> 's os_clause \<Rightarrow> bool" where
  "clause_holds source (OsTerm k v) = (v \<in> set (values_of source k))"
| "clause_holds source (OsTerms k vs) = (\<exists>v \<in> set vs. v \<in> set (values_of source k))"
| "clause_holds source (OsAcl q) =
     ((\<forall>ts \<in> set (es_must q). \<exists>t \<in> set ts. JStr t \<in> set (values_of source (es_field q))) \<and>
      \<not> (\<exists>ts \<in> set (es_must_not q). \<exists>t \<in> set ts. JStr t \<in> set (values_of source (es_field q))))"

definition filters_hits :: "('s, 'e) os_env_scheme \<Rightarrow> bool" where
  "filters_hits en \<longleftrightarrow> (\<forall>ix b response hs h source. oe_search en ix b = Inr response \<longrightarrow> hits_of response = Inr hs \<longrightarrow>
     h \<in> set hs \<longrightarrow> j_item h ''_source'' = Inr (JDict source) \<longrightarrow> (\<forall>c \<in> set (ob_filter b). clause_holds source c))"

lemma source_terms_iff: "t \<in> set (source_terms source) \<longleftrightarrow> JStr t \<in> set (values_of source ''acl_filter_terms'')"
  unfolding source_terms_def by (induction "values_of source ''acl_filter_terms''") (auto simp: List.map_filter_def split: jval.splits)

lemma j_item_dict: "j_item v k = Inr x \<Longrightarrow> \<exists>m. v = JDict m \<and> map_of m k = Some x"
  by (cases v) (auto simp: j_item_def split: option.splits)

lemma read_hit_source:
  assumes "read_hit h = Inr r"
  shows "\<exists>source. j_item h ''_source'' = Inr (JDict source) \<and> jget source ''document_id'' = lh_document_id r"
proof -
  obtain source where s: "j_item h ''_source'' = Inr source" "j_item source ''document_id'' = Inr (lh_document_id r)"
    using assms by (auto simp: read_hit_def rbind_Inr_iff)
  from j_item_dict [OF s(2)] obtain m where "source = JDict m" "map_of m ''document_id'' = Some (lh_document_id r)" by blast
  with s(1) show ?thesis by (auto simp: jget_def dict_get_def)
qed

lemma res_map_source: "res_map f xs = Inr ys \<Longrightarrow> y \<in> set ys \<Longrightarrow> \<exists>x \<in> set xs. f x = Inr y"
  by (induction xs arbitrary: ys) (auto simp: rbind_Inr_iff)

lemma os_search_hit:
  assumes "os_search en zero t query u fs facets from_at limit = Inr a" "r \<in> set (la_results a)"
  obtains clauses response hs h where "os_filters t u fs = Inr clauses"
    "oe_search en (os_index_name en t) (os_body_of query clauses facets from_at limit) = Inr response"
    "hits_of response = Inr hs" "h \<in> set hs" "read_hit h = Inr r"
proof -
  have ne: "a \<noteq> no_results zero" using assms(2) by (auto simp: no_results_def)
  obtain clauses response where c: "os_filters t u fs = Inr clauses"
      "oe_search en (os_index_name en t) (os_body_of query clauses facets from_at limit) = Inr response"
      "read_answer zero response facets = Inr a"
    using assms(1) ne
    by (cases "os_filters t u fs"; cases "oe_search en (os_index_name en t) (os_body_of query (projr (os_filters t u fs)) facets from_at limit)")
      (auto simp: os_search_def split: if_splits)
  obtain hs results where hs: "hits_of response = Inr hs" "res_map read_hit hs = Inr results" "la_results a = results"
    using c(3) by (auto simp: read_answer_def rbind_Inr_iff)
  obtain h where "h \<in> set hs" "read_hit h = Inr r"
    using res_map_source [OF hs(2)] assms(2) hs(3) by blast
  then show ?thesis using that c(1,2) hs(1) by blast
qed


subsection \<open>What a vector search gives out\<close>

lemma ensure_other: "ensure_collection (en\<lparr>qe_search := other\<rparr>) t es = ensure_collection en t es"
proof -
  have c: "create_collection (en\<lparr>qe_search := other\<rparr>) nm es = create_collection en nm es" for nm
    by (simp add: create_collection_def)
  have n: "collection_name (en\<lparr>qe_search := other\<rparr>) t = collection_name en t" by (simp add: collection_name_def)
  show ?thesis by (simp add: ensure_collection_def Let_def c n split: sum.split option.split)
qed

text \<open>
  The vector route finds nothing, whatever is stored and asked: the request needs a value that
  the code never assigns, the handler turns the failure into an empty list, and the server is not asked.
\<close>

theorem vector_search_finds_nothing:
  "(case fst (search_vector en dims rq current_user ensured) of Inr hits \<Rightarrow> hits = [] | Inl _ \<Rightarrow> True) \<and>
   search_vector (en\<lparr>qe_search := other\<rparr>) dims rq current_user ensured = search_vector en dims rq current_user ensured"
proof -
  have "q_search (en\<lparr>qe_search := other\<rparr>) t v u k mv th es = q_search en t v u k mv th es" for t v u k mv th es
    by (simp add: q_search_def q_request_of_def fetch_k_def ensure_other split: sum.split)
  moreover have "hits = []" if "fst (q_search en t v u k mv th es) = Inr hits" for t v u k mv th es hits
    using that by (auto simp: q_search_def q_request_of_def fetch_k_def split: if_splits sum.splits)
  ultimately show ?thesis
    by (auto simp: search_vector_def Let_def split_beta split: sum.split)
qed

text \<open>The check after the search would keep what the caller may see, and no more than was asked for.\<close>

lemma visible_hits_sound:
  "list_all (\<lambda>h. document_is_visible u (Some (payload_terms (fst h)))) out \<Longrightarrow>
   list_all (\<lambda>h. document_is_visible u (Some (payload_terms (fst h)))) (visible_hits u k out hs)"
  by (induction u k out hs rule: visible_hits.induct) (auto simp: Let_def)

lemma visible_hits_bound: "int (length out) < k \<Longrightarrow> int (length (visible_hits u k out hs)) \<le> k"
  by (induction u k out hs rule: visible_hits.induct) (auto simp: Let_def)

lemma batches_spec: "concat (batches xs) = xs \<and> (\<forall>b \<in> set (batches xs). b \<noteq> [] \<and> length b \<le> 16)"
proof (induction xs rule: batches.induct)
  case (1 xs)
  then show ?case by (cases "xs = []") (simp_all add: batches.simps [of xs] batches.simps [of "[]"])
qed

lemma normalized_length: "length (normalize_embedding n v) = n"
  by (simp add: normalize_embedding_def)

text \<open>The number of documents is reported as indexed whatever the server did with them.\<close>

lemma index_batch_counts_all: "os_index_batch en t docs = Inr (ops, n) \<Longrightarrow> oe_client en \<Longrightarrow> n = length docs"
  by (auto simp: os_index_batch_def rbind_Inr_iff split: if_splits)

subsection \<open>An example\<close>

definition demo_indexed :: "int jdict" where
  "demo_indexed = [(''tenant_id'', JStr ''t''), (''document_id'', JStr ''d1''), (''title'', JStr ''Plan''), (''deleted'', JBool False),
     (''acl_filter_terms'', JList [JStr ''user:u1''])]"

definition demo_response :: "int jdict list \<Rightarrow> int jval" where
  "demo_response sources = JDict [(''hits'', JDict [
     (''hits'', JList (map (\<lambda>d. JDict [(''_source'', JDict d), (''_score'', JNum 3)]) sources)),
     (''total'', JDict [(''value'', JNum (int (length sources)))])])]"

definition demo_os :: "int os_env" where
  "demo_os = \<lparr>oe_client = True, oe_prefix = ''snyq'',
     oe_search = (\<lambda>_ b. Inr (demo_response (filter (\<lambda>d. list_all (clause_holds d) (ob_filter b)) [demo_indexed])))\<rparr>"

definition demo_search :: "int lexical_request" where
  "demo_search = \<lparr>lr_query = ''plan'', lr_tenant_id = ''t'', lr_filters = [], lr_facets = [], lr_from = 0, lr_size = 20\<rparr>"

definition demo_searcher :: pydict where
  "demo_searcher = [(''tenant_id'', PStr ''t''), (''sub'', PStr ''u1'')]"

lemma demo_os_filters: "filters_hits demo_os"
proof -
  have "\<forall>c \<in> set (ob_filter b). clause_holds source c"
    if r: "oe_search demo_os ix b = Inr response" "hits_of response = Inr hs" "h \<in> set hs" "j_item h ''_source'' = Inr (JDict source)"
    for ix b response hs h source
  proof -
    have "hs = map (\<lambda>d. JDict [(''_source'', JDict d), (''_score'', JNum 3)])
        (filter (\<lambda>d. list_all (clause_holds d) (ob_filter b)) [demo_indexed])"
      using r(1,2) by (auto simp: demo_os_def demo_response_def hits_of_def j_get_or_def dict_get_def)
    then have "source \<in> set (filter (\<lambda>d. list_all (clause_holds d) (ob_filter b)) [demo_indexed])"
      using r(3,4) by (auto simp: j_item_def simp del: filter.simps)
    then show ?thesis by (simp add: list_all_iff split: if_splits)
  qed
  then show ?thesis unfolding filters_hits_def by blast
qed

lemma demo_os_run:
  "(case search_lexical demo_os (JNum 0) demo_search demo_searcher of Inr a \<Rightarrow> map lh_document_id (la_results a) = [JStr ''d1''] | Inl _ \<Rightarrow> False)"
  "list_all (\<lambda>t. \<not> starts_with DENY_PREFIX t) (acl_terms_from_jwt demo_searcher)"
  by code_simp+


end
