(* ===== verification/Reader_Routes.thy ===== *)
theory Reader_Routes
  imports Mcp Uuids Search_Servers
begin

text \<open>
  The document route (\<open>backend/app/api/v1/document.py\<close>): metadata of the document store or, when this process
  does not hold the document, the payload of the index (\<open>storage/qdrant_client.py\<close>), a live decision of the
  checker with its audit row, redaction, and the body as a whole or as a stream. The points of the index and
  the audit database are parameters.
\<close>

record ('c, 's) reader_env =
  rv_is_allowed :: "string \<Rightarrow> string \<Rightarrow> string \<Rightarrow> 'c \<Rightarrow> (exn + bool) \<times> 'c"
  rv_store :: doc_store
  rv_in_memory :: bool
  rv_threshold :: int
  rv_retrieve :: "string \<Rightarrow> pydict option list res"               \<comment> \<open>payloads at the point of an identifier\<close>
  rv_scroll :: "string \<Rightarrow> string \<Rightarrow> string \<Rightarrow> pydict option list res"   \<comment> \<open>by tenant and a field\<close>
  rv_vectors :: "'s q_env res"
  rv_show :: "'s \<Rightarrow> string"
  rv_audit_up :: "string \<Rightarrow> bool"

subsection \<open>The indexed document\<close>

definition tenant_payload :: "string \<Rightarrow> pydict option \<Rightarrow> pydict option" where
  "tenant_payload tenant p =
     (case p of
        None \<Rightarrow> None
      | Some d \<Rightarrow> if d = [] \<or> py_str (py_or (pget d ''tenant_id'') (PStr [])) \<noteq> tenant then None else Some d)"

fun first_hit :: "string \<Rightarrow> pydict option list \<Rightarrow> pydict option" where
  "first_hit tenant [] = None"
| "first_hit tenant (p # ps) = (case tenant_payload tenant p of Some d \<Rightarrow> Some d | None \<Rightarrow> first_hit tenant ps)"

definition retrieved :: "('c, 's, 'e) reader_env_scheme \<Rightarrow> string \<Rightarrow> string \<Rightarrow> pydict option" where
  "retrieved env tenant_id doc_id = (case rv_retrieve env doc_id of Inl _ \<Rightarrow> None | Inr ps \<Rightarrow> first_hit tenant_id ps)"

definition scrolled :: "('c, 's, 'e) reader_env_scheme \<Rightarrow> string \<Rightarrow> string \<Rightarrow> string \<Rightarrow> pydict option" where
  "scrolled env tenant_id field_name doc_id =
     (case rv_scroll env tenant_id field_name doc_id of Inr (p # _) \<Rightarrow> tenant_payload tenant_id p | _ \<Rightarrow> None)"

definition get_document_payload :: "('c, 's, 'e) reader_env_scheme \<Rightarrow> string \<Rightarrow> string \<Rightarrow> pydict option" where
  "get_document_payload env tenant_id doc_id =
     (if tenant_id = [] \<or> doc_id = [] then None
      else (case retrieved env tenant_id doc_id of
              Some d \<Rightarrow> Some d
            | None \<Rightarrow>
                (case scrolled env tenant_id ''id'' doc_id of
                   Some d \<Rightarrow> Some d | None \<Rightarrow> scrolled env tenant_id ''document_id'' doc_id)))"

definition load_indexed_document ::
    "('c, 's::zero, 'e) reader_env_scheme \<Rightarrow> string \<Rightarrow> string \<Rightarrow> (string \<times> pydict) option" where
  "load_indexed_document env tenant_id doc_id =
     (case get_document_payload env tenant_id doc_id of
        Some payload \<Rightarrow> Some (doc_id, payload)
      | None \<Rightarrow>
          (case rv_vectors env of
             Inl _ \<Rightarrow> None
           | Inr vectors \<Rightarrow>
               (case find_parent_document_id vectors (rv_show env) tenant_id doc_id of
                  None \<Rightarrow> None
                | Some parent \<Rightarrow>
                    if parent = doc_id then None
                    else map_option (Pair parent) (get_document_payload env tenant_id parent))))"

subsection \<open>The decision and its audit\<close>

type_synonym doc_audit = "(uuid \<times> uuid \<times> string \<times> string \<times> bool) list"  \<comment> \<open>tenant, actor, action, document, decision\<close>

definition audit_document_acl ::
    "('c, 's, 'e) reader_env_scheme \<Rightarrow> string \<Rightarrow> string \<Rightarrow> string \<Rightarrow> bool \<Rightarrow> doc_audit \<Rightarrow> doc_audit" where
  "audit_document_acl env tenant_id principal_id doc_id allowed audit =
     (case (parse_uuid tenant_id, parse_uuid principal_id) of
        (Some tenant, Some actor) \<Rightarrow>
          if rv_audit_up env tenant_id
          then audit @ [(tenant, actor, if allowed then ''document.acl_allow'' else ''document.acl_deny'', doc_id, allowed)]
          else audit
      | _ \<Rightarrow> audit)"

definition decide_document ::
    "('c, 's, 'e) reader_env_scheme \<Rightarrow> string \<Rightarrow> string \<Rightarrow> string \<Rightarrow> 'c \<times> doc_audit \<Rightarrow> (exn + bool) \<times> 'c \<times> doc_audit" where
  "decide_document env tenant_id principal_id doc_key st =
     (case rv_is_allowed env tenant_id principal_id doc_key (fst st) of
        (Inl e, c) \<Rightarrow> (Inl e, c, snd st)
      | (Inr allowed, c) \<Rightarrow> (Inr allowed, c, audit_document_acl env tenant_id principal_id doc_key allowed (snd st)))"

subsection \<open>The route\<close>

text \<open>A streamed answer is its header, the text that follows it and the size named in a header of the response.\<close>

datatype document_reply = WholeDocument pydict | StreamedDocument pydict "codepoints res" int

definition reader_tenant :: "pydict \<Rightarrow> string res" where
  "reader_tenant current_user =
     (let t = pget current_user ''tenant_id'' in
      if \<not> truthy t then Inl (HTTPException 401 ''Token missing tenant_id claim'') else Inr (py_str t))"

definition reader_principal :: "pydict \<Rightarrow> string" where
  "reader_principal current_user =
     py_str (py_or (py_or (py_or (pget current_user ''principal_id'') (pget current_user ''sub'')) (pget current_user ''user_id'')) (PStr []))"

definition payload_body :: "pydict \<Rightarrow> string" where
  "payload_body p =
     py_str (py_or (py_or (py_or (py_or (pget p ''content'') (pget p ''body'')) (pget p ''body_text'')) (pget p ''snippet'')) (PStr []))"

definition indexed_metadata :: "string \<Rightarrow> string \<Rightarrow> pydict \<Rightarrow> pydict" where
  "indexed_metadata resolved_id tenant_id payload =
     [(''document_id'', PStr resolved_id), (''tenant_id'', PStr tenant_id),
      (''title'', py_or (pget payload ''title'') (PStr [])), (''source_type'', pget payload ''source_type''),
      (''url'', pget payload ''url''), (''created_at'', pget payload ''created_at''), (''updated_at'', pget payload ''updated_at''),
      (''owner_principal_id'', py_or (pget payload ''owner_principal_id'') (PStr []))]"

definition indexed_reply :: "string \<Rightarrow> string \<Rightarrow> string \<Rightarrow> pydict \<Rightarrow> document_reply res" where
  "indexed_reply principal_id tenant_id resolved_id payload =
     rbind (redact_fields (indexed_metadata resolved_id tenant_id payload) principal_id) (\<lambda>visible.
       Inr (WholeDocument (build_document_payload resolved_id tenant_id visible (PStr (payload_body payload))
         (Some (case pget payload ''structured_metadata'' of PDict d \<Rightarrow> d | _ \<Rightarrow> [])))))"

definition stream_header :: "string \<Rightarrow> string \<Rightarrow> pydict \<Rightarrow> pydict option \<Rightarrow> pydict" where
  "stream_header doc_id tenant_id visible structured =
     AList.update ''body'' (PStr []) (AList.update ''structured_metadata'' (PDict (case structured of None \<Rightarrow> [] | Some d \<Rightarrow> d))
       (AList.update ''tenant_id'' (PStr tenant_id) (AList.update ''document_id'' (PStr doc_id) visible)))"

definition body_at :: "pyval \<Rightarrow> doc_store \<Rightarrow> bytes res" where
  "body_at object_key s =
     (case object_key of
        PStr k \<Rightarrow> get_body k s
      | _ \<Rightarrow> Inl (Raised (if hashable object_key then ''FileNotFoundError'' else ''TypeError'')))"

definition stream_at :: "pyval \<Rightarrow> doc_store \<Rightarrow> bytes list res" where
  "stream_at object_key s =
     (case object_key of
        PStr k \<Rightarrow> get_body_stream k s
      | _ \<Rightarrow> Inl (Raised (if hashable object_key then ''FileNotFoundError'' else ''TypeError'')))"

definition stored_reply ::
    "('c, 's, 'e) reader_env_scheme \<Rightarrow> string \<Rightarrow> string \<Rightarrow> string \<Rightarrow> pydict \<Rightarrow> document_reply res" where
  "stored_reply env tenant_id doc_id principal_id meta =
     (let object_key = pget meta ''object_key'' in
      if \<not> truthy object_key then Inl (HTTPException 500 ''Document object missing'')
      else rbind (redact_fields meta principal_id) (\<lambda>visible.
        rbind (get_structured_metadata tenant_id doc_id (rv_store env)) (\<lambda>structured.
          (case py_int (py_or (pget meta ''body_size'') (PInt 0)) of
             None \<Rightarrow> Inl (Raised ''ValueError'')
           | Some body_size \<Rightarrow>
               if rv_threshold env < body_size
               then Inr (StreamedDocument (stream_header doc_id tenant_id visible structured)
                      (rbind (stream_at object_key (rv_store env)) (\<lambda>cs. Inr (streamed_text cs))) body_size)
               else (case body_at object_key (rv_store env) of
                       Inl e \<Rightarrow> if e = Raised ''FileNotFoundError'' then Inl (HTTPException 404 ''Document body not found'') else Inl e
                     | Inr raw \<Rightarrow>
                         Inr (WholeDocument (build_document_payload doc_id tenant_id visible (text_val (utf8_decode raw)) structured)))))))"

text \<open>What follows a decision: 403 when it is negative.\<close>

definition when_allowed :: "(exn + bool) \<times> 'st \<Rightarrow> document_reply res \<Rightarrow> document_reply res \<times> 'st" where
  "when_allowed decision answer =
     (case decision of
        (Inl e, st) \<Rightarrow> (Inl e, st)
      | (Inr allowed, st) \<Rightarrow> (if allowed then answer else Inl (HTTPException 403 ''Forbidden''), st))"

definition document_route ::
    "('c, 's::zero, 'e) reader_env_scheme \<Rightarrow> string \<Rightarrow> pydict \<Rightarrow> 'c \<times> doc_audit \<Rightarrow> document_reply res \<times> 'c \<times> doc_audit" where
  "document_route env doc_id current_user st =
     (case reader_tenant current_user of
        Inl e \<Rightarrow> (Inl e, st)
      | Inr tenant_id \<Rightarrow>
          let principal_id = reader_principal current_user in
          if principal_id = [] then (Inl (HTTPException 401 ''principal_id missing from token''), st)
          else (case get_metadata tenant_id doc_id (rv_store env) of
                  Some meta \<Rightarrow>
                    when_allowed (decide_document env tenant_id principal_id doc_id st)
                      (stored_reply env tenant_id doc_id principal_id meta)
                | None \<Rightarrow>
                    (case (if rv_in_memory env then load_indexed_document env tenant_id doc_id else None) of
                       None \<Rightarrow> (Inl (HTTPException 404 ''Document not found''), st)
                     | Some (resolved_id, payload) \<Rightarrow>
                         when_allowed (decide_document env tenant_id principal_id resolved_id st)
                           (indexed_reply principal_id tenant_id resolved_id payload))))"

subsection \<open>Where the fields of an answer come from\<close>

definition reply_fields :: "document_reply \<Rightarrow> pydict" where
  "reply_fields r = (case r of WholeDocument d \<Rightarrow> d | StreamedDocument h _ _ \<Rightarrow> h)"

lemma tenant_payload_owner: "tenant_payload t p = Some d \<Longrightarrow> py_str (py_or (pget d ''tenant_id'') (PStr [])) = t"
  by (auto simp: tenant_payload_def split: option.splits if_splits)

lemma first_hit_owner: "first_hit t ps = Some d \<Longrightarrow> py_str (py_or (pget d ''tenant_id'') (PStr [])) = t"
  by (induction ps) (auto split: option.splits dest: tenant_payload_owner)

lemma payload_of_tenant: "get_document_payload env t i = Some d \<Longrightarrow> py_str (py_or (pget d ''tenant_id'') (PStr [])) = t"
  by (auto simp: get_document_payload_def retrieved_def scrolled_def
      split: option.splits sum.splits list.splits if_splits dest: first_hit_owner tenant_payload_owner)

lemma indexed_of_tenant:
  "load_indexed_document env t i = Some (k, d) \<Longrightarrow> py_str (py_or (pget d ''tenant_id'') (PStr [])) = t"
  by (auto simp: load_indexed_document_def payload_of_tenant split: option.splits sum.splits if_splits)

lemma built_fields [simp]:
  "pget (build_document_payload i t v b sm) ''document_id'' = PStr i"
  "pget (build_document_payload i t v b sm) ''tenant_id'' = PStr t"
  "pget (build_document_payload i t v b sm) ''structured_metadata'' = PDict (case sm of None \<Rightarrow> [] | Some d \<Rightarrow> d)"
  by (simp_all add: build_document_payload_def Let_def dict_simps)

lemma header_fields [simp]:
  "pget (stream_header i t v sm) ''document_id'' = PStr i"
  "pget (stream_header i t v sm) ''tenant_id'' = PStr t"
  "pget (stream_header i t v sm) ''structured_metadata'' = PDict (case sm of None \<Rightarrow> [] | Some d \<Rightarrow> d)"
  by (simp_all add: stream_header_def dict_simps)

lemma stored_reply_fields:
  assumes "stored_reply env t i p meta = Inr reply"
  shows "pget (reply_fields reply) ''document_id'' = PStr i \<and> pget (reply_fields reply) ''tenant_id'' = PStr t \<and>
    (\<exists>sm. get_structured_metadata t i (rv_store env) = Inr sm \<and>
       pget (reply_fields reply) ''structured_metadata'' = PDict (case sm of None \<Rightarrow> [] | Some d \<Rightarrow> d))"
proof -
  obtain visible sm size where v: "get_structured_metadata t i (rv_store env) = Inr sm"
      "py_int (py_or (pget meta ''body_size'') (PInt 0)) = Some size"
    and r: "(if rv_threshold env < size
       then Inr (StreamedDocument (stream_header i t visible sm)
              (rbind (stream_at (pget meta ''object_key'') (rv_store env)) (\<lambda>cs. Inr (streamed_text cs))) size)
       else (case body_at (pget meta ''object_key'') (rv_store env) of
               Inl e \<Rightarrow> if e = Raised ''FileNotFoundError'' then Inl (HTTPException 404 ''Document body not found'') else Inl e
             | Inr raw \<Rightarrow> Inr (WholeDocument (build_document_payload i t visible (text_val (utf8_decode raw)) sm)))) = Inr reply"
    using assms
    by (cases "py_int (py_or (pget meta ''body_size'') (PInt 0))"; cases "truthy (pget meta ''object_key'')")
      (auto simp: stored_reply_def Let_def rbind_Inr_iff)
  show ?thesis
  proof (cases "rv_threshold env < size")
    case True
    with r v show ?thesis by (auto simp: reply_fields_def)
  next
    case False
    then obtain raw where "reply = WholeDocument (build_document_payload i t visible (text_val (utf8_decode raw)) sm)"
      using r by (cases "body_at (pget meta ''object_key'') (rv_store env)") (auto split: if_splits)
    with v show ?thesis by (auto simp: reply_fields_def)
  qed
qed

lemma indexed_reply_fields:
  "indexed_reply p t k payload = Inr reply \<Longrightarrow>
     pget (reply_fields reply) ''document_id'' = PStr k \<and> pget (reply_fields reply) ''tenant_id'' = PStr t"
  by (auto simp: indexed_reply_def rbind_Inr_iff reply_fields_def)

lemma when_allowed_Inr:
  "when_allowed decision answer = (Inr reply, st) \<Longrightarrow> fst decision = Inr True \<and> answer = Inr reply"
  by (cases decision) (auto simp: when_allowed_def split: sum.splits if_splits)

lemma get_document_Inr:
  assumes "document_route env doc_id user st = (Inr reply, st')"
  obtains tenant_id where "reader_tenant user = Inr tenant_id"
    and "(\<exists>meta. get_metadata tenant_id doc_id (rv_store env) = Some meta \<and>
            fst (decide_document env tenant_id (reader_principal user) doc_id st) = Inr True \<and>
            stored_reply env tenant_id doc_id (reader_principal user) meta = Inr reply) \<or>
         (\<exists>key payload. get_metadata tenant_id doc_id (rv_store env) = None \<and> load_indexed_document env tenant_id doc_id = Some (key, payload) \<and>
            fst (decide_document env tenant_id (reader_principal user) key st) = Inr True \<and>
            indexed_reply (reader_principal user) tenant_id key payload = Inr reply)"
  using assms
  by (auto simp: document_route_def Let_def split: sum.splits if_splits option.splits dest!: when_allowed_Inr)

context acl_checker
begin

lemma decision_is_granted:
  "rv_is_allowed env = is_allowed \<Longrightarrow> fst (decide_document env t p d st) = Inr True \<Longrightarrow> granted (fst st) t p d"
  using decides [of t p d "fst st"] by (auto simp: decide_document_def split: prod.splits sum.splits)

lemma route_requires_grant:
  assumes "rv_is_allowed env = is_allowed" and "document_route env doc_id user st = (Inr reply, st')"
  shows "\<exists>tenant_id key. reader_tenant user = Inr tenant_id \<and> granted (fst st) tenant_id (reader_principal user) key \<and>
    pget (reply_fields reply) ''document_id'' = PStr key \<and> pget (reply_fields reply) ''tenant_id'' = PStr tenant_id"
  by (rule get_document_Inr [OF assms(2)])
    (use decision_is_granted [OF assms(1)] stored_reply_fields indexed_reply_fields in blast)

end

text \<open>
  Property C39: the document route answers only what the access rows grant at that moment. With the Postgres
  checker, whatever is returned, from the store or from the index, as a whole or streamed, names the tenant of the token and
  a document that the caller may read by the rows of that tenant.
\<close>

theorem document_route_serves_only_granted:
  assumes "rv_is_allowed env = postgres_is_allowed uuid_of"
    and "document_route env doc_id current_user (r, audit) = (Inr reply, st')"
  shows "\<exists>tenant_id tenant who key. reader_tenant current_user = Inr tenant_id \<and> uuid_of tenant_id = Some tenant \<and>
    uuid_of (reader_principal current_user) = Some who \<and> principal_can_read_document tenant who key r \<and>
    pget (reply_fields reply) ''document_id'' = PStr key \<and> pget (reply_fields reply) ''tenant_id'' = PStr tenant_id"
  using pg.route_requires_grant [OF assms] by (auto simp: pg_granted_def)

text \<open>The decisions are written down when the identifiers are UUIDs and the database of the tenant is reached.\<close>

lemma every_decision_is_audited:
  assumes "rv_audit_up env t" "parse_uuid t = Some tenant" "parse_uuid p = Some actor"
    and "decide_document env t p key (c, audit) = (Inr allowed, c', audit')"
  shows "audit' = audit @ [(tenant, actor, if allowed then ''document.acl_allow'' else ''document.acl_deny'', key, allowed)]"
  using assms by (auto simp: decide_document_def audit_document_acl_def split: prod.splits sum.splits)

text \<open>
  Property C40: redaction does not reach the structured metadata. Whoever is allowed to read a stored document gets
  its structured metadata as they are stored, also when the document hides that field from everyone but its owner.
\<close>

theorem hidden_structure_is_served:
  assumes "document_route env doc_id current_user st = (Inr reply, st')" and "reader_tenant current_user = Inr tenant_id"
    and "get_metadata tenant_id doc_id (rv_store env) = Some meta" and "pget meta ''structured_metadata'' = PDict sm"
  shows "pget (reply_fields reply) ''structured_metadata'' = PDict sm"
proof (rule get_document_Inr [OF assms(1)])
  fix t
  assume t: "reader_tenant current_user = Inr t"
    and "(\<exists>meta. get_metadata t doc_id (rv_store env) = Some meta \<and>
            fst (decide_document env t (reader_principal current_user) doc_id st) = Inr True \<and>
            stored_reply env t doc_id (reader_principal current_user) meta = Inr reply) \<or>
         (\<exists>key payload. get_metadata t doc_id (rv_store env) = None \<and> load_indexed_document env t doc_id = Some (key, payload) \<and>
            fst (decide_document env t (reader_principal current_user) key st) = Inr True \<and>
            indexed_reply (reader_principal current_user) t key payload = Inr reply)"
  with assms(2,3) have "stored_reply env tenant_id doc_id (reader_principal current_user) meta = Inr reply" by auto
  from stored_reply_fields [OF this] assms(3,4) show ?thesis
    by (cases sm) (auto simp: get_structured_metadata_def py_or_def)
qed

text \<open>The metadata of an indexed document carry no visibility mode, so nothing of them is ever hidden.\<close>

lemma indexed_documents_are_not_redacted:
  "redact_fields (indexed_metadata k t payload) p = Inr (indexed_metadata k t payload)"
  by (simp add: redact_fields_def set_of_value_def Let_def indexed_metadata_def pget_def dict_get_def py_or_def str_lower_def chr_lower_def)

text \<open>The stream relies on the empty body being the last field of its header; a stored field of that name takes its place.\<close>

lemma stream_header_ends_with_the_body:
  "map_of visible ''body'' = None \<Longrightarrow> fst (last (stream_header i t visible sm)) = ''body''"
proof -
  assume a: "map_of visible ''body'' = None"
  have l: "map_of d k = None \<Longrightarrow> AList.update k v d = d @ [(k, v)]" for d :: pydict and k v
    by (induction d) (auto split: if_splits)
  show ?thesis unfolding stream_header_def by (subst l) (simp_all add: map_of_update a)
qed

subsection \<open>An example\<close>

definition demo_hiding_store :: doc_store where
  "demo_hiding_store = fst (store_upsert ''1'' ''d'' (demo_args\<lparr>ua_hidden := [''structured_metadata'', ''title''],
     ua_structured := [(''salary'', PInt 9)]\<rparr>) \<lparr>ds_chunk = 3, ds_docs = [], ds_objects = []\<rparr>)"

definition demo_reader :: "(repo, int) reader_env" where
  "demo_reader = \<lparr>rv_is_allowed = postgres_is_allowed demo_uuid, rv_store = demo_hiding_store, rv_in_memory = True,
     rv_threshold = 100, rv_retrieve = (\<lambda>_. Inr []), rv_scroll = (\<lambda>_ _ _. Inr []),
     rv_vectors = Inl (Raised ''RuntimeError''), rv_show = int_str, rv_audit_up = (\<lambda>_. False)\<rparr>"

definition demo_reader_claims :: pydict where
  "demo_reader_claims = [(''tenant_id'', PStr ''1''), (''principal_id'', PStr ''7'')]"

lemma demo_reader_answers:
  "(case fst (document_route demo_reader ''d'' demo_reader_claims (demo_acl_repo, [])) of
      Inr reply \<Rightarrow> map_of (reply_fields reply) ''title'' = None \<and> pget (reply_fields reply) ''document_id'' = PStr ''d'' | Inl e \<Rightarrow> False)"
  "reader_tenant demo_reader_claims = Inr ''1''" "reader_principal demo_reader_claims = ''7''" "demo_uuid ''1'' = Some 1" "demo_uuid ''7'' = Some 7"
  "(case get_metadata ''1'' ''d'' (rv_store demo_reader) of
      Some meta \<Rightarrow> pget meta ''structured_metadata'' = PDict [(''salary'', PInt 9)] | None \<Rightarrow> False)"
  by code_simp+

lemma demo_reader_run:
  obtains reply st' where "document_route demo_reader ''d'' demo_reader_claims (demo_acl_repo, []) = (Inr reply, st')"
    "map_of (reply_fields reply) ''title'' = None" "pget (reply_fields reply) ''document_id'' = PStr ''d''"
  using demo_reader_answers(1)
  by (cases "document_route demo_reader ''d'' demo_reader_claims (demo_acl_repo, [])") (auto split: sum.splits)

theorem document_route_serves_only_granted_witness: "principal_can_read_document 1 7 ''d'' demo_acl_repo"
proof (rule demo_reader_run)
  fix reply st'
  assume run: "document_route demo_reader ''d'' demo_reader_claims (demo_acl_repo, []) = (Inr reply, st')"
    and d: "pget (reply_fields reply) ''document_id'' = PStr ''d''"
  have "rv_is_allowed demo_reader = postgres_is_allowed demo_uuid" by (simp add: demo_reader_def)
  from document_route_serves_only_granted [OF this run] d show ?thesis
    by (auto simp: demo_reader_answers(2-5))
qed

theorem hidden_structure_is_served_witness:
  "\<exists>reply st'. document_route demo_reader ''d'' demo_reader_claims (demo_acl_repo, []) = (Inr reply, st') \<and>
     map_of (reply_fields reply) ''title'' = None \<and> pget (reply_fields reply) ''structured_metadata'' = PDict [(''salary'', PInt 9)]"
proof (rule demo_reader_run)
  fix reply st'
  assume run: "document_route demo_reader ''d'' demo_reader_claims (demo_acl_repo, []) = (Inr reply, st')"
    and h: "map_of (reply_fields reply) ''title'' = None"
  obtain meta where "get_metadata ''1'' ''d'' (rv_store demo_reader) = Some meta"
      "pget meta ''structured_metadata'' = PDict [(''salary'', PInt 9)]"
    using demo_reader_answers(6) by (auto split: option.splits)
  from hidden_structure_is_served [OF run demo_reader_answers(2) this] run h show ?thesis by blast
qed

end
