(* ===== verification/Graph_Routes.thy ===== *)
theory Graph_Routes
  imports Graph_Store Signals Doc_Reader Acl_Filter Uuids
begin

text \<open>
  The routes over the graph, the activity signals and the access terms of the caller
  (\<open>backend/app/api/v1/search/graph.py\<close>, \<open>api/v1/signals.py\<close>, \<open>api/v1/acl_debug.py\<close>). A graph route reads
  dictionaries of its store, so the nodes and edges of the in-process store appear here as the dictionaries they are.
  Latencies are left out; \<open>depth\<close> and \<open>limit\<close> are in the bounds of their request models.
\<close>

subsection \<open>Tenant and terms of the caller\<close>

definition token_tenant :: "pydict \<Rightarrow> string" where
  "token_tenant current_user = py_str (py_or (pget current_user ''tenant_id'') (PStr []))"

text \<open>The tenant a request names, or that of the token.\<close>

definition bound_tenant :: "string option \<Rightarrow> pydict \<Rightarrow> string res" where
  "bound_tenant requested current_user =
     (let token = token_tenant current_user; tenant = (if opt_str requested \<noteq> [] then opt_str requested else token) in
      if tenant = [] then Inl (HTTPException 401 ''tenant_id missing'')
      else if token \<noteq> [] \<and> tenant \<noteq> token then Inl (HTTPException 403 ''Cannot access data from a different tenant'')
      else Inr tenant)"

definition own_tenant_of :: "string \<Rightarrow> pydict \<Rightarrow> string res" where
  "own_tenant_of detail current_user =
     (let token = token_tenant current_user in if token = [] then Inl (HTTPException 401 detail) else Inr token)"

text \<open>Claims hold strings; another element, with which the code may go on, is refused here.\<close>

definition caller_terms :: "pydict \<Rightarrow> string list res" where
  "caller_terms current_user =
     rbind (py_iter (py_or (py_or (pget current_user ''acl_terms'') (pget current_user ''groups''))
         (PList (let sub = pget current_user ''sub'' in if truthy sub then [PStr (py_str sub)] else []))))
       (res_map (\<lambda>v. case v of PStr s \<Rightarrow> Inr s | _ \<Rightarrow> Inl (Raised ''TypeError'')))"

subsection \<open>Visibility of a node\<close>

definition node_acl :: "pydict \<Rightarrow> pyval res" where
  "node_acl n =
     rbind (py_get (py_or (pget n ''properties'') (PDict [])) ''acl_terms'' PNone) (\<lambda>a.
       Inr (py_or (py_or a (pget n ''acl_terms'')) (PList [])))"

fun deny_found :: "string set \<Rightarrow> pyval list \<Rightarrow> bool res" where
  "deny_found D [] = Inr False"
| "deny_found D (v # vs) =
     (if \<not> hashable v then Inl (Raised ''TypeError'')
      else (case v of PStr s \<Rightarrow> if s \<in> D then Inr True else deny_found D vs | _ \<Rightarrow> deny_found D vs))"

definition positive_terms :: "pyval list \<Rightarrow> string list res" where
  "positive_terms vs =
     rbind (res_map (\<lambda>v. case v of PStr s \<Rightarrow> Inr s | _ \<Rightarrow> Inl (Raised ''AttributeError'')) vs)
       (\<lambda>ss. Inr (filter (\<lambda>s. \<not> starts_with DENY_PREFIX s) ss))"

definition value_is_visible :: "string list \<Rightarrow> pyval \<Rightarrow> bool res" where
  "value_is_visible user_acl v =
     (if is_fail_closed user_acl then Inr False
      else if is_bypass user_acl then Inr True
      else rbind (py_iter v) (\<lambda>vs.
        let terms = filter truthy vs in
        if terms = [] then Inr False
        else rbind (deny_found (set (deny_terms_for user_acl)) terms) (\<lambda>denied.
          if denied then Inr False
          else rbind (positive_terms terms) (\<lambda>ps. Inr (\<exists>t \<in> set ps. t \<in> set user_acl)))))"

definition node_visible :: "pydict \<Rightarrow> pydict \<Rightarrow> bool res" where
  "node_visible current_user n =
     rbind (caller_terms current_user) (\<lambda>us. rbind (node_acl n) (value_is_visible us))"

lemma deny_found_strings: "deny_found D (map PStr ts) = Inr (\<exists>t \<in> set ts. t \<in> D)"
  by (induction ts) auto

lemma res_map_strings: "res_map (\<lambda>v. case v of PStr s \<Rightarrow> Inr s | _ \<Rightarrow> Inl e) (map PStr ts) = Inr ts"
  by (induction ts) (simp_all add: rbind_def)

lemma filter_truthy_strings: "filter truthy (map PStr ts) = map PStr (filter (\<lambda>t. t \<noteq> []) ts)"
  by (induction ts) auto

text \<open>On strings this is the decision of the search filter.\<close>

lemma value_is_visible_strings: "value_is_visible us (PList (map PStr ts)) = Inr (document_is_visible us (Some ts))"
proof -
  have p: "positive_terms (map PStr ss) = Inr (filter (\<lambda>s. \<not> starts_with DENY_PREFIX s) ss)" for ss
    by (simp add: positive_terms_def res_map_strings)
  show ?thesis
    by (auto simp: value_is_visible_def document_is_visible_def py_iter_def Let_def filter_truthy_strings deny_found_strings p filter_empty_conv)
qed

subsection \<open>Reading what the store gives\<close>

record graph_node =
  gn_source_id :: string
  gn_labels :: "string list"
  gn_properties :: pydict

record graph_relationship =
  gr_type :: string
  gr_source_id :: string
  gr_target_id :: string
  gr_properties :: pydict

definition raw_item :: "pydict \<Rightarrow> string \<Rightarrow> pyval res" where
  "raw_item d k = (case map_of d k of Some v \<Rightarrow> Inr v | None \<Rightarrow> Inl (Raised ''KeyError''))"

definition must_str :: "pyval \<Rightarrow> string res" where
  "must_str v = (case v of PStr s \<Rightarrow> Inr s | _ \<Rightarrow> Inl (Raised ''ValidationError''))"

definition raw_properties :: "pydict \<Rightarrow> pydict res" where
  "raw_properties d = (case py_or (pget d ''properties'') (PDict []) of PDict ps \<Rightarrow> Inr ps | _ \<Rightarrow> Inl (Raised ''TypeError''))"

definition read_node :: "pydict \<Rightarrow> graph_node res" where
  "read_node n =
     rbind (raw_item n ''source_id'') (\<lambda>i.
     rbind (py_iter (py_or (pget n ''labels'') (PList []))) (\<lambda>ls.
     rbind (raw_properties n) (\<lambda>ps.
     rbind (must_str i) (\<lambda>i.
     rbind (res_map must_str ls) (\<lambda>ls. Inr \<lparr>gn_source_id = i, gn_labels = ls, gn_properties = ps\<rparr>)))))"

fun read_nodes :: "pydict \<Rightarrow> pydict list \<Rightarrow> graph_node list res" where
  "read_nodes current_user [] = Inr []"
| "read_nodes current_user (n # ns) =
     rbind (node_visible current_user n) (\<lambda>ok.
       if \<not> ok then read_nodes current_user ns
       else rbind (read_node n) (\<lambda>g. rbind (read_nodes current_user ns) (\<lambda>gs. Inr (g # gs))))"

definition read_relationship :: "pydict \<Rightarrow> graph_relationship res" where
  "read_relationship r =
     rbind (raw_item r ''type'') (\<lambda>t.
     rbind (raw_item r ''source_id'') (\<lambda>a.
     rbind (raw_item r ''target_id'') (\<lambda>b.
     rbind (raw_properties r) (\<lambda>ps.
     rbind (must_str t) (\<lambda>t.
     rbind (must_str a) (\<lambda>a.
     rbind (must_str b) (\<lambda>b. Inr \<lparr>gr_type = t, gr_source_id = a, gr_target_id = b, gr_properties = ps\<rparr>)))))))"

subsection \<open>The in-process store as the routes see it\<close>

definition opt_pstr :: "string option \<Rightarrow> pyval" where
  "opt_pstr v = (case v of None \<Rightarrow> PNone | Some s \<Rightarrow> PStr s)"

definition node_dict :: "node \<Rightarrow> pydict" where
  "node_dict n = [(''label'', PStr (nd_label n)), (''labels'', PList (map PStr (nd_labels n))),
     (''source_id'', PStr (nd_source_id n)), (''properties'', PDict (nd_properties n))]"

definition edge_dict :: "edge \<Rightarrow> pydict" where
  "edge_dict e = [(''rel_type'', PStr (ed_rel_type e)), (''source_id'', PStr (ed_source_id e)), (''target_id'', PStr (ed_target_id e)),
     (''properties'', PDict (ed_properties e)), (''source_label'', opt_pstr (ed_source_label e)), (''target_label'', opt_pstr (ed_target_label e))]"

type_synonym traverser = "string \<Rightarrow> string \<Rightarrow> string list option \<Rightarrow> nat \<Rightarrow> nat \<Rightarrow> (pydict list \<times> pydict list) res"

definition in_process :: "(string list \<Rightarrow> string list) \<Rightarrow> graph_store \<Rightarrow> traverser" where
  "in_process iter s tenant start types depth limit =
     (let (ns, es) = traverse iter tenant start types depth limit s in Inr (map node_dict ns, map edge_dict es))"

subsection \<open>The graph routes\<close>

record traverse_request =
  tq_start :: string
  tq_types :: "string list option"
  tq_depth :: nat
  tq_tenant :: "string option"

record graph_settings =
  gt_max_depth :: nat
  gt_result_limit :: nat

record traverse_answer =
  ta_nodes :: "graph_node list"
  ta_relationships :: "graph_relationship list"
  ta_start :: string
  ta_depth :: nat

definition graph_down :: exn where
  "graph_down = HTTPException 503 ''graph backend unavailable''"

definition traverse_route :: "graph_settings \<Rightarrow> traverser \<Rightarrow> traverse_request \<Rightarrow> pydict \<Rightarrow> traverse_answer res" where
  "traverse_route st backend rq current_user =
     rbind (bound_tenant (tq_tenant rq) current_user) (\<lambda>tenant.
       let depth = min (tq_depth rq) (gt_max_depth st) in
       (case backend tenant (tq_start rq) (tq_types rq) depth (gt_result_limit st) of
          Inl _ \<Rightarrow> Inl graph_down
        | Inr (ns, rs) \<Rightarrow>
            rbind (read_nodes current_user ns) (\<lambda>nodes.
            rbind (res_map read_relationship rs) (\<lambda>rels.
              Inr \<lparr>ta_nodes = nodes, ta_relationships = rels, ta_start = tq_start rq, ta_depth = depth\<rparr>))))"

record person_result =
  pr_id :: string
  pr_fields :: "(string \<times> string option) list"
  pr_aliases :: "string list"
  pr_properties :: pydict

definition person_field :: "pydict \<Rightarrow> string \<Rightarrow> (string \<times> string option) res" where
  "person_field r k = (case map_of r k of
     None \<Rightarrow> Inr (k, None) | Some PNone \<Rightarrow> Inr (k, None) | Some (PStr s) \<Rightarrow> Inr (k, Some s)
   | _ \<Rightarrow> Inl (Raised ''ValidationError''))"

definition read_person :: "pydict \<Rightarrow> person_result res" where
  "read_person r =
     (case map_of r ''id'' of
        None \<Rightarrow> Inl (Raised ''ValidationError'')
      | Some i \<Rightarrow>
          rbind (must_str i) (\<lambda>i.
          rbind (res_map (person_field r) [''display_name'', ''email'', ''title'', ''department'', ''team'']) (\<lambda>fs.
          rbind (case map_of r ''aliases'' of
                   None \<Rightarrow> Inr [] | Some (PList xs) \<Rightarrow> res_map must_str xs | _ \<Rightarrow> Inl (Raised ''ValidationError'')) (\<lambda>als.
          rbind (case map_of r ''properties'' of
                   None \<Rightarrow> Inr [] | Some (PDict d) \<Rightarrow> Inr d | _ \<Rightarrow> Inl (Raised ''ValidationError'')) (\<lambda>ps.
            Inr \<lparr>pr_id = i, pr_fields = fs, pr_aliases = als, pr_properties = ps\<rparr>)))))"

definition search_people_route ::
    "graph_store \<Rightarrow> string \<Rightarrow> string option \<Rightarrow> string option \<Rightarrow> nat \<Rightarrow> pydict \<Rightarrow> (person_result list \<times> nat) res" where
  "search_people_route s query department team limit current_user =
     rbind (own_tenant_of ''tenant_id missing'' current_user) (\<lambda>tenant.
     rbind (res_map read_person (map node_dict (people_search_graph query department team limit (tenant_graph tenant s)))) (\<lambda>ps.
       Inr (ps, length ps)))"

definition related_route ::
    "(string list \<Rightarrow> string list) \<Rightarrow> graph_store \<Rightarrow> string \<Rightarrow> nat \<Rightarrow> nat \<Rightarrow> pydict \<Rightarrow> (pydict list \<times> nat) res" where
  "related_route iter s node_id depth limit current_user =
     rbind (own_tenant_of ''tenant_id missing'' current_user) (\<lambda>tenant.
       let related = map node_dict (related_graph iter node_id depth limit None (tenant_graph tenant s)) in
       Inr (related, length related))"

text \<open>The answer to a merge has no place for the snapshot that a split needs.\<close>

definition merge_route ::
    "string option \<Rightarrow> string \<Rightarrow> string \<Rightarrow> pydict \<Rightarrow> graph_store \<Rightarrow> (string \<times> string \<times> nat \<times> bool) res \<times> graph_store" where
  "merge_route requested primary_id secondary_id current_user s =
     (case bound_tenant requested current_user of
        Inl e \<Rightarrow> (Inl e, s)
      | Inr tenant \<Rightarrow>
          let (s, n, snapshot) = merge_persons tenant primary_id secondary_id s in
          (Inr (primary_id, secondary_id, n, True), s))"

definition split_route ::
    "string option \<Rightarrow> string \<Rightarrow> string \<Rightarrow> merge_snapshot option \<Rightarrow> pydict \<Rightarrow> graph_store \<Rightarrow> (bool \<times> nat) res \<times> graph_store" where
  "split_route requested primary_id secondary_id snapshot current_user s =
     (case bound_tenant requested current_user of
        Inl e \<Rightarrow> (Inl e, s)
      | Inr tenant \<Rightarrow>
          let (s, answer) = split_persons tenant primary_id secondary_id snapshot s in (Inr answer, s))"

subsection \<open>The signal routes\<close>

record ingest_answer =
  ig_status :: string
  ig_ingested :: nat
  ig_already :: nat
  ig_failed :: "(string \<times> string) list"

text \<open>An event of the body may name a tenant; the clock is read for every event.\<close>

definition ingest_one ::
    "signal_settings \<Rightarrow> string \<Rightarrow> nat \<times> nat \<times> (string \<times> string) list \<times> 'p activity_store \<Rightarrow>
     string option \<times> activity_event \<times> instant \<Rightarrow> nat \<times> nat \<times> (string \<times> string) list \<times> 'p activity_store" where
  "ingest_one st tenant_id = (\<lambda>(ingested, already, failed, s) (named, ev, now).
     if opt_str named \<noteq> [] \<and> opt_str named \<noteq> tenant_id
     then (ingested, already, failed @ [(av_event_id ev, ''tenant_id in body does not match token'')], s)
     else (case ingest_event st tenant_id ev now s of
             (Inl _, s) \<Rightarrow>
               (ingested, already, failed @ [(av_event_id ev, ''source_system disabled for tenant: '' @ av_source ev)], s)
           | (Inr result, s) \<Rightarrow>
               if result = ''ingested'' then (Suc ingested, already, failed, s) else (ingested, Suc already, failed, s)))"

definition ingest_events ::
    "signal_settings \<Rightarrow> (string option \<times> activity_event \<times> instant) list \<Rightarrow> pydict \<Rightarrow> 'p activity_store \<Rightarrow>
     ingest_answer res \<times> 'p activity_store" where
  "ingest_events st events current_user s =
     (case own_tenant_of ''tenant_id missing from token'' current_user of
        Inl e \<Rightarrow> (Inl e, s)
      | Inr tenant_id \<Rightarrow>
          let (ingested, already, failed, s) = foldl (ingest_one st tenant_id) (0, 0, [], s) events in
          (Inr \<lparr>ig_status = (if failed = [] then ''accepted'' else if ingested \<noteq> 0 \<or> already \<noteq> 0 then ''partial'' else ''rejected''),
                ig_ingested = ingested, ig_already = already, ig_failed = failed\<rparr>, s))"

definition user_signals_route ::
    "signal_settings \<Rightarrow> string \<Rightarrow> instant \<Rightarrow> pydict \<Rightarrow> 'p activity_store \<Rightarrow> user_response option res \<times> 'p activity_store" where
  "user_signals_route st user_id now current_user s =
     (case own_tenant_of ''tenant_id missing from token'' current_user of
        Inl e \<Rightarrow> (Inl e, s)
      | Inr tenant_id \<Rightarrow> (let (r, s) = get_user_signals st tenant_id user_id now s in (Inr r, s)))"

definition document_signals_route ::
    "(nat \<Rightarrow> 'p) \<Rightarrow> signal_settings \<Rightarrow> string \<Rightarrow> instant \<Rightarrow> pydict \<Rightarrow> 'p activity_store \<Rightarrow> 'p doc_response option res \<times> 'p activity_store" where
  "document_signals_route score st document_id now current_user s =
     (case own_tenant_of ''tenant_id missing from token'' current_user of
        Inl e \<Rightarrow> (Inl e, s)
      | Inr tenant_id \<Rightarrow> (let (r, s) = get_document_signals score st tenant_id document_id now s in (Inr r, s)))"

definition purge_route :: "instant \<Rightarrow> 'p activity_store \<Rightarrow> purge_result \<times> 'p activity_store" where
  "purge_route now s = (let (s, r) = purge_expired now s in (r, s))"

subsection \<open>Checking the visibility of given terms\<close>

record visibility_answer =
  va_visible :: bool
  va_user_terms :: "string list"
  va_document_terms :: "string list"
  va_matching :: "string list"
  va_explanation :: string

definition repr_terms :: "string list \<Rightarrow> string" where
  "repr_terms xs = py_str (PList (map PStr xs))"

definition check_document_visibility :: "string list \<Rightarrow> pydict \<Rightarrow> visibility_answer" where
  "check_document_visibility doc_acl current_user =
     (let user_acl = acl_terms_from_jwt current_user; visible = document_is_visible user_acl (Some doc_acl);
          positive = dedup (filter (\<lambda>t. \<not> starts_with DENY_PREFIX t) doc_acl);
          matching = sort (filter (\<lambda>t. t \<in> set positive) (dedup user_acl));
          deny = filter (starts_with DENY_PREFIX) doc_acl;
          explanation =
            (if visible then ''Document is visible. '' @ nat_str (length matching) @ '' matching ACL term(s): '' @ repr_terms matching
             else ''Document is NOT visible. '' @
               (if positive = [] then ''Document has no positive ACL terms (private).''
                else if user_acl = [] then ''Your JWT has no ACL terms (fail-closed).''
                else if list_ex (\<lambda>t. drop_sub DENY_PREFIX t \<in> set user_acl \<or> t \<in> set user_acl) deny
                  then ''Explicit deny applies: '' @ repr_terms deny
                else ''No matching ACL terms. Need one of: '' @ repr_terms (sort positive)))
      in \<lparr>va_visible = visible, va_user_terms = user_acl, va_document_terms = doc_acl, va_matching = matching,
          va_explanation = explanation\<rparr>)"

subsection \<open>What the graph routes give out\<close>

lemma read_nodes_visible:
  "read_nodes user ns = Inr gs \<Longrightarrow> g \<in> set gs \<Longrightarrow>
     \<exists>n \<in> set ns. node_visible user n = Inr True \<and> read_node n = Inr g"
  by (induction ns arbitrary: gs) (auto simp: rbind_Inr_iff split: if_splits)

text \<open>A traversal shows the nodes whose terms the caller's claims meet.\<close>

lemma traversed_nodes_are_visible:
  assumes "traverse_route st (in_process iter s) rq user = Inr a" "g \<in> set (ta_nodes a)"
  shows "\<exists>n us acl. read_node (node_dict n) = Inr g \<and> caller_terms user = Inr us \<and> node_acl (node_dict n) = Inr acl \<and>
    value_is_visible us acl = Inr True"
proof -
  obtain ns where "read_nodes user (map node_dict ns) = Inr (ta_nodes a)"
    using assms(1)
    by (auto simp: traverse_route_def in_process_def Let_def rbind_Inr_iff split_beta)
  from read_nodes_visible [OF this assms(2)] show ?thesis
    by (auto simp: node_visible_def rbind_Inr_iff)
qed

lemma edge_without_type: "read_relationship (edge_dict e) = Inl (Raised ''KeyError'')"
  by (simp add: read_relationship_def raw_item_def edge_dict_def rbind_def)

lemma node_without_id: "read_person (node_dict n) = Inl (Raised ''ValidationError'')"
  by (simp add: read_person_def node_dict_def)

lemma res_map_failing: "(\<And>x. f x = Inl e) \<Longrightarrow> res_map f xs = Inr ys \<Longrightarrow> xs = [] \<and> ys = []"
  by (cases xs) (auto simp: rbind_def)

text \<open>
  Over the in-process store two graph routes answer only when they have nothing to say. A traversal that
  meets a relationship fails, since the route reads a field that the edges of the store do not have; a search
  for people fails as soon as a person matches, since the nodes of the store have no identifier field.
\<close>

theorem in_process_graph_routes_fail_on_content:
  "(case traverse_route st (in_process iter s) rq user of
      Inr a \<Rightarrow> ta_relationships a = [] \<and>
        (\<exists>tenant. snd (traverse iter tenant (tq_start rq) (tq_types rq) (min (tq_depth rq) (gt_max_depth st)) (gt_result_limit st) s) = [])
    | Inl _ \<Rightarrow> True) \<and>
   (case search_people_route s query department team limit user of
      Inr (people, found) \<Rightarrow> people = [] \<and> found = 0 \<and>
        people_search_graph query department team limit (tenant_graph (token_tenant user) s) = []
    | Inl _ \<Rightarrow> True)"
proof
  have rels: "es = [] \<and> rs = []" if "res_map read_relationship (map edge_dict es) = Inr rs" for es rs
    using that by (cases es) (auto simp: edge_without_type rbind_def)
  have people: "ns = [] \<and> ps = []" if "res_map read_person (map node_dict ns) = Inr ps" for ns ps
    using that by (cases ns) (auto simp: node_without_id rbind_def)
  show "case traverse_route st (in_process iter s) rq user of
      Inr a \<Rightarrow> ta_relationships a = [] \<and>
        (\<exists>tenant. snd (traverse iter tenant (tq_start rq) (tq_types rq) (min (tq_depth rq) (gt_max_depth st)) (gt_result_limit st) s) = [])
    | Inl _ \<Rightarrow> True"
  proof (cases "traverse_route st (in_process iter s) rq user")
    case (Inr a)
    then obtain tenant rs where "res_map read_relationship (map edge_dict
        (snd (traverse iter tenant (tq_start rq) (tq_types rq) (min (tq_depth rq) (gt_max_depth st)) (gt_result_limit st) s))) = Inr rs"
        "ta_relationships a = rs"
      by (auto simp: traverse_route_def in_process_def Let_def rbind_Inr_iff split_beta)
    with rels Inr show ?thesis by auto
  qed simp
  show "case search_people_route s query department team limit user of
      Inr (people, found) \<Rightarrow> people = [] \<and> found = 0 \<and>
        people_search_graph query department team limit (tenant_graph (token_tenant user) s) = []
    | Inl _ \<Rightarrow> True"
    by (auto simp: search_people_route_def own_tenant_of_def Let_def rbind_Inr_iff split: sum.split if_splits dest!: people)
qed

subsection \<open>An example\<close>

definition demo_people :: graph_store where
  "demo_people = foldl graph_step empty_graph
     [GNode ''t'' ''Document'' ''plan'' [(''acl_terms'', PList [PStr ''user:u1''])],
      GNode ''t'' ''Person'' ''ann'' [(''display_name'', PStr ''Ann''), (''acl_terms'', PList [PStr ''user:u2''])],
      GEdge ''t'' ''owns'' ''ann'' ''plan'' [] None None]"

definition demo_graph_caller :: "string list \<Rightarrow> pydict" where
  "demo_graph_caller terms = [(''tenant_id'', PStr ''t''), (''sub'', PStr ''u2''), (''acl_terms'', PList (map PStr terms))]"

definition demo_traversal :: traverse_request where
  "demo_traversal = \<lparr>tq_start = ''plan'', tq_types = None, tq_depth = 0, tq_tenant = None\<rparr>"

text \<open>
  The route for related nodes does not look at access terms. Its answer is the same for all callers of a
  tenant; it shows to a caller without any right a node that the traversal, at the same node, withholds from her.
\<close>

theorem related_route_ignores_access_terms:
  "(\<forall>k v. k \<noteq> ''tenant_id'' \<longrightarrow> related_route iter s node_id depth limit (AList.update k v user) = related_route iter s node_id depth limit user) \<and>
   (case traverse_route \<lparr>gt_max_depth = 2, gt_result_limit = 100\<rparr> (in_process id demo_people) demo_traversal (demo_graph_caller [''user:u3'']) of
      Inr a \<Rightarrow> ta_nodes a = [] | Inl _ \<Rightarrow> False) \<and>
   (case related_route id demo_people ''ann'' 1 50 (demo_graph_caller [''user:u3'']) of
      Inr (ns, n) \<Rightarrow> map (\<lambda>d. pget d ''source_id'') ns = [PStr ''plan''] | Inl _ \<Rightarrow> False)"
proof (intro conjI)
  show "\<forall>k v. k \<noteq> ''tenant_id'' \<longrightarrow> related_route iter s node_id depth limit (AList.update k v user) = related_route iter s node_id depth limit user"
    by (auto simp: related_route_def own_tenant_of_def token_tenant_def Let_def dict_simps)
qed code_simp+

text \<open>
  The claims are taken as they stand: with the terms that the search filter makes of her token the owner of a node
  sees it, with the claims the traversal uses she does not.
\<close>

lemma traversal_misses_prefixed_terms:
  "(let user = [(''tenant_id'', PStr ''t''), (''sub'', PStr ''u1'')] in
      node_visible user (node_dict (the (map_of (fst (tenant_graph ''t'' demo_people)) ''plan''))) = Inr False \<and>
      document_is_visible (acl_terms_from_jwt user) (Some [''user:u1'']))"
  by code_simp

text \<open>A token without a tenant reads and changes the graph of the tenant it names.\<close>

lemma untenanted_token_picks_a_tenant: "token_tenant user = [] \<Longrightarrow> t \<noteq> [] \<Longrightarrow> bound_tenant (Some t) user = Inr t"
  by (simp add: bound_tenant_def Let_def)

text \<open>A person merged with itself is gone, while its edges stay.\<close>

lemma merging_a_person_with_itself_deletes_it:
  "token_tenant user = t \<Longrightarrow> t \<noteq> [] \<Longrightarrow> merge_route None p p user s = (r, s') \<Longrightarrow>
     map_of (fst (tenant_graph t s')) p = None \<and> length (snd (tenant_graph t s')) = length (snd (tenant_graph t s))"
  by (cases "tenant_graph t s")
    (auto simp: merge_route_def bound_tenant_def Let_def merge_persons_def merge_graph_def split_beta map_of_delete)

text \<open>Every event of an ingest request is counted or named as failed.\<close>

lemma ingest_one_counts:
  "ingest_one st t (i, a, f, s) x = (i', a', f', s') \<Longrightarrow> i' + a' + length f' = Suc (i + a + length f)"
  by (cases x) (auto simp: ingest_one_def split: if_splits prod.splits sum.splits)

lemma ingest_counts_every_event:
  "foldl (ingest_one st t) (i, a, f, s) xs = (i', a', f', s') \<Longrightarrow> i' + a' + length f' = i + a + length f + length xs"
proof (induction xs arbitrary: i a f s)
  case (Cons x xs)
  obtain i1 a1 f1 s1 where o1: "ingest_one st t (i, a, f, s) x = (i1, a1, f1, s1)" by (cases "ingest_one st t (i, a, f, s) x")
  from Cons.IH [of i1 a1 f1 s1] Cons.prems ingest_one_counts [OF o1] show ?case by (simp add: o1)
qed simp

text \<open>The debug route agrees with the search filter on the caller's own token.\<close>

lemma debug_route_decides_as_search:
  "va_visible (check_document_visibility doc_acl user) = document_is_visible (acl_terms_from_jwt user) (Some doc_acl)"
  by (simp add: check_document_visibility_def Let_def)

end
