(* ===== verification/Spec2Isabelle.thy ===== *)
theory Spec2Isabelle
  imports Acl_Filter Acl_Compiler Doc_Reader Mcp Search_Stores Graph_Store Signals Normalizer Indexer Sessions Federated Index_Invariant Notifications Run_Sync Assistant_Safety Scim Connector_Safety Source_Safety Graph_Source Reader_Routes Graph_Routes
begin

text \<open>
  A verification development of the backend of Sync-AI (\<open>backend/app/\<close>): a service that copies documents
  and mail of an organization from connected sources into search indexes, keeps for each of them the access
  rights it had at the source, and answers searches and questions with what the caller may read.

  The program and its parts. A source (Google Drive, Gmail, OneDrive, Outlook) is connected through the
  connector routes (OAuth link, callback, stored tokens). A worker crawls it: the sync orchestrator asks the
  connector for pages, the pipeline turns each object into a canonical document with compiled access rights,
  the indexer writes text, vectors and access terms into the stores, cursors and status rows record how far the
  crawl got; push notifications start short versions of the same. On the other side a caller signs in, gets
  tokens, and reaches search, the document reader, the MCP gateway or the assistant, each of which turns the
  claims of the token into access terms and compares them with the terms stored at the documents.

  Theories and sources. Shared: \<open>Prelude\<close> and \<open>Py_Values\<close> (Python strings, ordered dictionaries, dynamic values,
  results \<open>error + value\<close>), \<open>Uuids\<close>, \<open>Json\<close>, \<open>Tenancy\<close> (the contract of stores partitioned by tenant).
  Access control: \<open>Core_Models\<close> (\<open>core/models.py\<close>), \<open>Acl_Filter\<close> (\<open>acl/filter.py\<close>, \<open>acl/term_generator.py\<close>),
  \<open>Canonical_Repo\<close> and \<open>Canonical_Sql\<close> (\<open>storage/canonical_repo.py\<close>, in memory and over SQL rows),
  \<open>Container_Service\<close>, \<open>Acl_Inheritance\<close>, \<open>Acl_Compiler\<close> (\<open>acl/\<close>), \<open>Identity\<close> (\<open>identity/\<close>).
  Ingest: \<open>Normalizer\<close> (\<open>normalizer/\<close>), \<open>Pipeline\<close> (\<open>services/pipeline.py\<close>), \<open>Chunking\<close> (\<open>services/chunking/\<close>),
  \<open>Indexer\<close> and \<open>Index_Invariant\<close> (\<open>services/indexer.py\<close>), \<open>Bridge\<close> (\<open>connectors/google/pipeline_bridge.py\<close>).
  Synchronisation: \<open>Routing\<close> (\<open>services/tenant_resolver.py\<close>), \<open>Sync_Stores\<close> (\<open>services/cursor_store.py\<close>, the
  status store), \<open>Sync\<close> and \<open>Run_Sync\<close> (\<open>services/sync.py\<close>), \<open>Backfill\<close> and \<open>Notifications\<close>
  (\<open>workers/tasks.py\<close> and the webhooks).
  Connectors: \<open>Vaults\<close> (\<open>storage/vault_client.py\<close>), \<open>Oauth_Links\<close> (\<open>connectors/google/oauth_state.py\<close>),
  \<open>Token_Store\<close> (keys, encryption and storage of tokens), \<open>Connectors\<close>, \<open>Connector_Routes\<close>, \<open>Connector_Safety\<close>
  (the OAuth managers, the plugins and \<open>connectors/router.py\<close>).
  Sources: \<open>Drive_Source\<close>, \<open>Gmail_Source\<close>, \<open>Graph_Source\<close> (the clients and services under
  \<open>connectors/google/\<close> and \<open>connectors/microsoft/\<close>, each as a connector of the orchestrator, with the Graph
  notification task), \<open>Source_Safety\<close> (what they promise to crawls and notifications).
  Sign-in: \<open>Auth_State\<close>, \<open>Tokens\<close>, \<open>Oauth\<close>, \<open>Accounts\<close>, \<open>Signin\<close>, \<open>Sessions\<close> (\<open>storage/redis_client.py\<close>,
  \<open>services/token_service.py\<close>, \<open>oauth_service.py\<close>, \<open>native_auth.py\<close>, \<open>revocation.py\<close>, \<open>api/v1/auth.py\<close>,
  \<open>api/deps.py\<close>), \<open>Scim\<close> (\<open>services/scim_sync.py\<close>).
  Serving: \<open>Search_Stores\<close>, \<open>Graph_Store\<close>, \<open>Signals\<close> (the in-process stores),
  \<open>Search_Servers\<close> (the stores on OpenSearch and Qdrant as requests, with their routes), \<open>Federated\<close> (federated search),
  \<open>Doc_Reader\<close> (\<open>services/document_reader/\<close>), \<open>Reader_Routes\<close> (\<open>api/v1/document.py\<close>), \<open>Graph_Routes\<close>
  (\<open>api/v1/search/graph.py\<close>, \<open>signals.py\<close>, \<open>acl_debug.py\<close>), \<open>Mcp\<close> (\<open>services/mcp_gateway/\<close>); the assistant
  (\<open>services/assistant/\<close>): \<open>Intent\<close>, \<open>Assistant_Rank\<close>, \<open>Assistant_Prompt\<close>, \<open>Assistant_Provider\<close>,
  \<open>Assistant_Memory\<close>, \<open>Assistant\<close>, \<open>Assistant_Safety\<close>.

  How state and operations correspond. A class with state is a record whose fields are its attributes
  (dictionaries keep their insertion order as association lists, database tables are lists of row records); a
  method is a function from the state to the new state and a result; exceptions are the left values of a sum,
  with the class and the message the handlers look at. A handler is one definition with the guards of the code
  in their order. Operations that interleave (requests on the sign-in state, operations of tenants, the steps of
  a crawl that can be killed) are sequences of such steps, and the invariants are proved by induction over them.
  Interfaces are locales, each interpreted on the model: stores partitioned by tenant (graph, lexical,
  vector), the checker the document reader asks (mock, HTTP, SQL), facts that every sign-in operation keeps, and facts that a
  crawl keeps of its stores.

  What the groups of lemmas show. Access rights: the search filter, the clause sent to the engine and the decision on stored rows
  agree; inheritance takes the nearest decision; expansion of groups is exact and ends on cyclic groups; the
  compiled snapshot decides reads; the SQL mode refines the memory mode. Ingest: indexed terms are the compiled
  rights, chunks cover the text. Serving: every search, the reader, the gateway and the assistant return only
  what the stored terms grant the caller; the signals keep their privacy threshold. Sign-in: revoked tokens,
  used refresh tokens and used codes stay refused over every run, a fresh token is accepted. Synchronisation: a killed crawl resumes
  without losing a page, a disconnect stops it, notifications are authenticated. Connectors: writes stay in the
  caller's tenant, links work once, stored tokens come back, names of secrets fit the vault, provisioning is
  idempotent. Sources: Drive documents follow the live shares; the gaps of the feeds are stated as theorems. Where the code does not do what it says, the lemma that shows it is beside the
  definitions and is listed with the findings of the manifest.

  Bounds and fuel. The loops of the crawl that need not end are \<open>while_option\<close>, so that divergence is \<open>None\<close>;
  that they end is proved where it holds, and one that does not end is shown. The expansion of groups recurses on the
  number of groups not yet visited, the walk up the containers on the depth limit of the code, and the JSON
  parser on fuel of twice the length of its input, which \<open>json_fuel\<close> of \<open>Oauth_Links\<close> shows to be enough. Integers
  are Python's, hence \<open>int\<close>; a UUID is its number, a \<open>nat\<close>.

  Parameters. Floating-point numbers and their operations, clocks, random tokens, digests (MD5, SHA-256), bcrypt,
  the JWT library, Fernet and HKDF, \<open>uuid5\<close>, the URL parser, HTML entities, HTTP servers and their responses, embeddings and
  language models are arguments of the definitions, with the laws a property needs as its hypotheses and an
  instance in its witness.

  Not modelled. The clients of external stores (Neo4j, PostgreSQL, Redis, MinIO) only send requests; their
  in-process counterparts are modelled instead. Of OpenSearch and Qdrant the connection set-up and the index mapping are left out. Of the sources the requests for watches are left out. Text extraction and
  OCR are wrappers of libraries. Configuration, start-up, telemetry, logging, middleware for metrics, migrations, scripts, the
  front end and the tests hold no logic the properties depend on. The remaining routes of the API
  (embedding, re-indexing, tenants, the older connector routes) pass their parameters on to stores that are modelled. Concurrency inside one request (\<open>asyncio.gather\<close>) is modelled by the order of its
  results.
\<close>

end
